(* ===== verification/Lane_Prelude.thy ===== *)
theory Lane_Prelude
  imports
    Main
    "HOL-Library.AList"
    "HOL-Library.Sorting_Algorithms"
    "HOL-Library.Char_ord"
    "HOL-Library.List_Lexorder"
    "HOL-Library.Product_Lexorder"
    "HOL-Library.Option_ord"
begin

text \<open>
  Shared vocabulary of the development: the types that stand for Rust's and chrono's
  scalar types, decimal printing and parsing of integers, the whitespace trimming of
  \<open>str\<close>, Rust comparators as the library's \<open>comparator\<close>s, hash maps as association
  lists together with their iteration order, and the generic lemmas the component
  theories use through the collections declared here.

  Scalars. \<open>DateTime<Utc>\<close> is an \<open>int\<close> (nanoseconds since the Unix epoch) and
  \<open>std::time::Duration\<close> a \<open>nat\<close> (nanoseconds). Unsigned machine integers are \<open>nat\<close> with
  the saturation of the source written out (\<open>saturating_add\<close>), or machine words where
  wrap-around matters. A Rust string is its sequence of UTF-8 bytes, so that Rust's
  (bytewise) string order is the lexicographic order on \<open>string\<close>.
\<close>

named_theorems cmp_simps \<open>unfolding of comparator combinators\<close>

type_synonym instant = int
type_synonym duration = nat

section \<open>Machine integers\<close>

definition u32_max :: nat where
  "u32_max = 2 ^ 32 - 1"

definition u64_max :: nat where
  "u64_max = 2 ^ 64 - 1"

definition i64_max :: int where
  "i64_max = 2 ^ 63 - 1"

definition i64_min :: int where
  "i64_min = - (2 ^ 63)"

definition u64_saturating_add :: "nat \<Rightarrow> nat \<Rightarrow> nat" where
  "u64_saturating_add a b = min (a + b) u64_max"

definition u32_saturating_add :: "nat \<Rightarrow> nat \<Rightarrow> nat" where
  "u32_saturating_add a b = min (a + b) u32_max"

lemma u64_saturating_add_le: "u64_saturating_add a b \<le> u64_max"
  by (simp add: u64_saturating_add_def)

lemma u64_saturating_add_ge: "a \<le> u64_max \<Longrightarrow> a \<le> u64_saturating_add a b"
  by (simp add: u64_saturating_add_def)

lemma u32_saturating_add_le: "u32_saturating_add a b \<le> u32_max"
  by (simp add: u32_saturating_add_def)

section \<open>Decimal numbers\<close>

definition digit_char :: "nat \<Rightarrow> char" where
  "digit_char d = char_of (48 + d)"

definition char_digit :: "char \<Rightarrow> nat" where
  "char_digit c = of_char c - 48"

definition is_ascii_digit :: "char \<Rightarrow> bool" where
  "is_ascii_digit c \<longleftrightarrow> 48 \<le> (of_char c :: nat) \<and> (of_char c :: nat) \<le> 57"

fun show_nat :: "nat \<Rightarrow> string" where
  "show_nat n = (if n < 10 then [digit_char n] else show_nat (n div 10) @ [digit_char (n mod 10)])"

declare show_nat.simps [simp del]

definition show_int :: "int \<Rightarrow> string" where
  "show_int i = (if i < 0 then ''-'' @ show_nat (nat (- i)) else show_nat (nat i))"

text \<open>The value of a digit string, most significant digit first.\<close>

definition digits_value :: "string \<Rightarrow> nat" where
  "digits_value s = foldl (\<lambda>acc c. acc * 10 + char_digit c) 0 s"

text \<open>
  Rust's \<open>from_str\<close> for unsigned and signed 64-bit integers: an optional sign (\<open>-\<close> only
  for signed types), at least one ASCII digit and nothing else, and a value in range.
\<close>

definition parse_digits :: "string \<Rightarrow> nat option" where
  "parse_digits s =
     (if s \<noteq> [] \<and> list_all is_ascii_digit s then Some (digits_value s) else None)"

definition parse_u64 :: "string \<Rightarrow> nat option" where
  "parse_u64 s =
     (let body = (case s of c # rest \<Rightarrow> if c = CHR ''+'' then rest else s | [] \<Rightarrow> s)
      in case parse_digits body of
           None \<Rightarrow> None
         | Some n \<Rightarrow> if n \<le> u64_max then Some n else None)"

definition parse_i64 :: "string \<Rightarrow> int option" where
  "parse_i64 s =
     (let neg = (case s of c # _ \<Rightarrow> c = CHR ''-'' | [] \<Rightarrow> False);
          body = (case s of c # rest \<Rightarrow> if c = CHR ''+'' \<or> c = CHR ''-'' then rest else s | [] \<Rightarrow> s)
      in case parse_digits body of
           None \<Rightarrow> None
         | Some n \<Rightarrow>
             (let v = (if neg then - int n else int n)
              in if i64_min \<le> v \<and> v \<le> i64_max then Some v else None))"

lemma of_char_digit_char: "d < 10 \<Longrightarrow> (of_char (digit_char d) :: nat) = 48 + d"
  by (simp add: digit_char_def)

lemma is_ascii_digit_digit_char: "d < 10 \<Longrightarrow> is_ascii_digit (digit_char d)"
  by (simp add: is_ascii_digit_def of_char_digit_char)

lemma char_digit_digit_char: "d < 10 \<Longrightarrow> char_digit (digit_char d) = d"
  by (simp add: char_digit_def of_char_digit_char)

lemma show_nat_nonempty: "show_nat n \<noteq> []"
  by (subst show_nat.simps) simp

lemma show_nat_digits: "list_all is_ascii_digit (show_nat n)"
proof (induction n rule: show_nat.induct)
  case (1 n)
  then show ?case
    by (cases "n < 10") (simp_all add: show_nat.simps [of n] is_ascii_digit_digit_char)
qed

lemma digits_value_snoc: "digits_value (s @ [c]) = digits_value s * 10 + char_digit c"
  by (simp add: digits_value_def)

lemma digits_value_show_nat: "digits_value (show_nat n) = n"
proof (induction n rule: show_nat.induct)
  case (1 n)
  show ?case
  proof (cases "n < 10")
    case True
    then show ?thesis
      by (simp add: show_nat.simps [of n] digits_value_def char_digit_digit_char)
  next
    case False
    with "1.IH" show ?thesis
      by (simp add: show_nat.simps [of n] digits_value_snoc char_digit_digit_char)
  qed
qed

lemma parse_digits_show_nat: "parse_digits (show_nat n) = Some n"
  by (simp add: parse_digits_def show_nat_nonempty show_nat_digits digits_value_show_nat)

lemma show_nat_inj: "show_nat m = show_nat n \<longleftrightarrow> m = n"
  by (metis digits_value_show_nat)

lemma show_nat_no_sign:
  assumes "show_nat n = c # rest"
  shows "c \<noteq> CHR ''+'' \<and> c \<noteq> CHR ''-''"
proof -
  have "is_ascii_digit c"
    using show_nat_digits [of n] assms by simp
  then show ?thesis by (auto simp: is_ascii_digit_def)
qed

lemma parse_i64_show_nat: "int n \<le> i64_max \<Longrightarrow> parse_i64 (show_nat n) = Some (int n)"
  using show_nat_no_sign [of n] show_nat_nonempty [of n] parse_digits_show_nat [of n]
  by (cases "show_nat n") (auto simp: parse_i64_def i64_min_def Let_def)

lemma parse_u64_show_nat: "n \<le> u64_max \<Longrightarrow> parse_u64 (show_nat n) = Some n"
  using show_nat_no_sign [of n] show_nat_nonempty [of n] parse_digits_show_nat [of n]
  by (cases "show_nat n") (auto simp: parse_u64_def Let_def)

section \<open>Strings\<close>

text \<open>
  The number of bytes of the Unicode \<open>White_Space\<close> character a byte string starts with,
  0 when it starts with another character: \<open>char::is_whitespace\<close> on UTF-8.
\<close>

definition ws_prefix :: "string \<Rightarrow> nat" where
  "ws_prefix s =
     (let b = (\<lambda>i. if i < length s then (of_char (s ! i) :: nat) else 0)
      in if s = [] then 0
         else if (9 \<le> b 0 \<and> b 0 \<le> 13) \<or> b 0 = 32 then 1
         else if b 0 = 194 \<and> (b 1 = 133 \<or> b 1 = 160) then 2
         else if b 0 = 225 \<and> b 1 = 154 \<and> b 2 = 128 then 3
         else if b 0 = 226 \<and> b 1 = 128
              \<and> ((128 \<le> b 2 \<and> b 2 \<le> 138) \<or> b 2 = 168 \<or> b 2 = 169 \<or> b 2 = 175) then 3
         else if b 0 = 226 \<and> b 1 = 129 \<and> b 2 = 159 then 3
         else if b 0 = 227 \<and> b 1 = 128 \<and> b 2 = 128 then 3
         else 0)"

text \<open>The same at the end of the string.\<close>

definition ws_suffix :: "string \<Rightarrow> nat" where
  "ws_suffix s =
     (if 1 \<le> length s \<and> ws_prefix (drop (length s - 1) s) = 1 then 1
      else if 2 \<le> length s \<and> ws_prefix (drop (length s - 2) s) = 2 then 2
      else if 3 \<le> length s \<and> ws_prefix (drop (length s - 3) s) = 3 then 3
      else 0)"

function trim_start :: "string \<Rightarrow> string" where
  "trim_start s = (if ws_prefix s = 0 then s else trim_start (drop (ws_prefix s) s))"
  by pat_completeness auto
termination
  by (relation "measure length") (auto simp: ws_prefix_def Let_def split: if_splits)

function trim_end :: "string \<Rightarrow> string" where
  "trim_end s = (if ws_suffix s = 0 then s else trim_end (take (length s - ws_suffix s) s))"
  by pat_completeness auto
termination
  by (relation "measure length") (auto simp: ws_suffix_def split: if_splits)

declare trim_start.simps [simp del] trim_end.simps [simp del]

definition trim :: "string \<Rightarrow> string" where
  "trim s = trim_end (trim_start s)"

definition starts_with :: "string \<Rightarrow> string \<Rightarrow> bool" where
  "starts_with s pat \<longleftrightarrow> take (length pat) s = pat"

text \<open>\<open>str::split_once\<close> at the first occurrence of a character.\<close>

fun split_once :: "string \<Rightarrow> char \<Rightarrow> (string \<times> string) option" where
  "split_once [] c = None"
| "split_once (x # xs) c =
     (if x = c then Some ([], xs)
      else map_option (\<lambda>(a, b). (x # a, b)) (split_once xs c))"

lemma split_once_append: "c \<notin> set a \<Longrightarrow> split_once (a @ c # b) c = Some (a, b)"
  by (induction a) auto

section \<open>Comparators\<close>

text \<open>
  Rust's \<open>Ordering\<close> is the library's \<open>comp\<close>, a key function followed by \<open>cmp\<close> is
  \<open>key f default\<close>, and \<open>then_with\<close> is the lexicographic combination below. Working in the
  type \<open>comparator\<close> makes every comparison of the source a linear quasi-order by construction.
\<close>

definition by_key :: "('a \<Rightarrow> 'b::linorder) \<Rightarrow> 'a comparator" where
  "by_key f = key f default"

definition then_with :: "'a comparator \<Rightarrow> 'a comparator \<Rightarrow> 'a comparator" where
  "then_with c1 c2 = key (\<lambda>x. (x, x)) (prod_lex c1 c2)"

lemma compare_by_key [cmp_simps]:
  "compare (by_key f) a b = (if f a < f b then Less else if f a > f b then Greater else Equiv)"
  by (cases "compare (by_key f) a b") (auto simp: by_key_def)

lemma compare_then_with [cmp_simps]:
  "compare (then_with c1 c2) a b =
     (case compare c1 a b of Less \<Rightarrow> Less | Equiv \<Rightarrow> compare c2 a b | Greater \<Rightarrow> Greater)"
  by (simp add: then_with_def compare_prod_lex_apply split: comp.split)

lemma then_with_Equiv:
  "compare (then_with c1 c2) a b = Equiv \<longleftrightarrow> compare c1 a b = Equiv \<and> compare c2 a b = Equiv"
  by (simp add: compare_then_with split: comp.split)

lemma by_key_Equiv: "compare (by_key f) a b = Equiv \<longleftrightarrow> f a = f b"
  by (auto simp: by_key_def)

lemma sorted_imp_sorted_wrt:
  "Sorting_Algorithms.sorted cmp xs \<Longrightarrow> sorted_wrt (\<lambda>a b. compare cmp a b \<noteq> Greater) xs"
  by (induction xs) (auto dest: sorted_Cons_imp_not_less sorted_Cons_imp_sorted)

lemma sorted_wrt_imp_sorted:
  "sorted_wrt (\<lambda>a b. compare cmp a b \<noteq> Greater) xs \<Longrightarrow> Sorting_Algorithms.sorted cmp xs"
  by (induction xs) (auto intro: sorted_ConsI)

lemma distinct_sort [simp]: "distinct (Sorting_Algorithms.sort cmp xs) = distinct xs"
  by (metis mset_eq_imp_distinct_iff mset_sort)

text \<open>\<open>Iterator::min_by\<close>: the first of the least elements.\<close>

fun min_by :: "'a comparator \<Rightarrow> 'a list \<Rightarrow> 'a option" where
  "min_by cmp [] = None"
| "min_by cmp (x # xs) = Some (fold (\<lambda>y m. if compare cmp m y = Greater then y else m) xs x)"

lemma min_by_fold_in:
  "fold (\<lambda>y m. if compare cmp m y = Greater then y else m) xs x \<in> insert x (set xs)"
  by (induction xs arbitrary: x) fastforce+

lemma min_by_fold_le:
  "z \<in> insert x (set xs) \<Longrightarrow>
   compare cmp (fold (\<lambda>y m. if compare cmp m y = Greater then y else m) xs x) z \<noteq> Greater"
proof (induction xs arbitrary: x z)
  case Nil
  then show ?case by simp
next
  case (Cons y ys)
  let ?m = "if compare cmp x y = Greater then y else x"
  let ?r = "fold (\<lambda>y m. if compare cmp m y = Greater then y else m) ys ?m"
  have rm: "compare cmp ?r ?m \<noteq> Greater"
    by (rule Cons.IH) simp
  have mx: "compare cmp ?m x \<noteq> Greater"
    by (auto simp: compare.greater_iff_sym_less dest: compare.asym_less)
  have my: "compare cmp ?m y \<noteq> Greater"
    by simp
  from Cons.prems consider "z = x" | "z = y" | "z \<in> set ys" by auto
  then have "compare cmp ?r z \<noteq> Greater"
  proof cases
    case 1
    then show ?thesis using compare.trans_not_greater [OF rm mx] by simp
  next
    case 2
    then show ?thesis using compare.trans_not_greater [OF rm my] by simp
  next
    case 3
    then show ?thesis by (intro Cons.IH) simp
  qed
  then show ?case by simp
qed

lemma min_by_None [simp]: "min_by cmp xs = None \<longleftrightarrow> xs = []"
  by (cases xs) auto

lemma min_by_Some_in: "min_by cmp xs = Some m \<Longrightarrow> m \<in> set xs"
  using min_by_fold_in [of cmp] by (cases xs) auto

lemma min_by_Some_le: "min_by cmp xs = Some m \<Longrightarrow> z \<in> set xs \<Longrightarrow> compare cmp m z \<noteq> Greater"
  using min_by_fold_le [of z _ _ cmp] by (cases xs) auto

section \<open>Lists\<close>

text \<open>The loop \<open>for x in xs { if !out.contains(&x) { out.push(x) } }\<close>.\<close>

definition push_unique :: "'a \<Rightarrow> 'a list \<Rightarrow> 'a list" where
  "push_unique x out = (if x \<in> set out then out else out @ [x])"

definition unique_in_order :: "'a list \<Rightarrow> 'a list" where
  "unique_in_order xs = fold push_unique xs []"

lemma fold_push_unique:
  "distinct acc \<Longrightarrow> distinct (fold push_unique xs acc) \<and> set (fold push_unique xs acc) = set acc \<union> set xs"
  by (induction xs arbitrary: acc) (auto simp: push_unique_def)

lemma distinct_unique_in_order: "distinct (unique_in_order xs)"
  by (simp add: unique_in_order_def fold_push_unique)

lemma set_unique_in_order: "set (unique_in_order xs) = set xs"
  by (simp add: unique_in_order_def fold_push_unique)

lemma unique_in_order_distinct: "distinct xs \<Longrightarrow> unique_in_order xs = xs"
proof -
  have "distinct (acc @ xs) \<Longrightarrow> fold push_unique xs acc = acc @ xs" for acc
    by (induction xs arbitrary: acc) (auto simp: push_unique_def)
  then show "distinct xs \<Longrightarrow> ?thesis" by (simp add: unique_in_order_def)
qed

section \<open>Hash maps\<close>

text \<open>
  A \<open>HashMap\<close> is an association list with distinct keys. \<open>HashMap::values\<close> visits the
  entries in an order the standard library leaves open: \<open>hash_values r m\<close> visits them in
  the order of a ranking \<open>r\<close> of the keys that may depend on the keys present, so
  that, over all \<open>r\<close>, every order occurs.
\<close>

type_synonym ('k, 'v) hmap = "('k \<times> 'v) list"
type_synonym hash_rank = "string list \<Rightarrow> string \<Rightarrow> nat"

definition hash_entries :: "hash_rank \<Rightarrow> (string, 'v) hmap \<Rightarrow> (string \<times> 'v) list" where
  "hash_entries r m = sort_key (\<lambda>(k, _). r (map fst m) k) m"

definition hash_values :: "hash_rank \<Rightarrow> (string, 'v) hmap \<Rightarrow> 'v list" where
  "hash_values r m = map snd (hash_entries r m)"

lemma set_hash_entries [simp]: "set (hash_entries r m) = set m"
  by (simp add: hash_entries_def)

lemma set_hash_values: "set (hash_values r m) = snd ` set m"
  by (simp add: hash_values_def)

lemma mset_hash_values: "mset (hash_values r m) = mset (map snd m)"
  by (simp add: hash_values_def hash_entries_def)

lemma length_hash_values [simp]: "length (hash_values r m) = length m"
  by (simp add: hash_values_def hash_entries_def)

definition keys_distinct :: "('k, 'v) hmap \<Rightarrow> bool" where
  "keys_distinct m \<longleftrightarrow> distinct (map fst m)"

lemma keys_distinct_Nil [simp]: "keys_distinct []"
  by (simp add: keys_distinct_def)

lemma keys_distinct_update [simp]: "keys_distinct m \<Longrightarrow> keys_distinct (AList.update k v m)"
  by (simp add: keys_distinct_def distinct_update)

lemma keys_distinct_delete [simp]: "keys_distinct m \<Longrightarrow> keys_distinct (AList.delete k m)"
  by (simp add: keys_distinct_def distinct_delete)

lemma keys_distinct_map_entry [simp]: "keys_distinct m \<Longrightarrow> keys_distinct (AList.map_entry k f m)"
  by (simp add: keys_distinct_def AList.distinct_map_entry)

lemma keys_distinct_in: "keys_distinct m \<Longrightarrow> (k, v) \<in> set m \<longleftrightarrow> map_of m k = Some v"
  by (auto simp: keys_distinct_def)

lemma map_of_update: "map_of (AList.update k v m) x = (if x = k then Some v else map_of m x)"
  by (simp add: update_conv')

lemma map_of_delete_if: "map_of (AList.delete k m) x = (if x = k then None else map_of m x)"
  by (simp add: delete_conv')

lemma map_of_map_entry_if:
  "map_of (AList.map_entry k f m) x = (if x = k then map_option f (map_of m x) else map_of m x)"
  by (simp add: AList.map_of_map_entry split: option.split)

lemmas hmap_simps = map_of_update map_of_delete_if map_of_map_entry_if

lemma set_delete: "set (AList.delete k m) = {(k', v) \<in> set m. k' \<noteq> k}"
  by (auto simp: AList.delete_eq)

lemma set_update_distinct:
  "keys_distinct m \<Longrightarrow> set (AList.update k v m) = insert (k, v) {(k', v') \<in> set m. k' \<noteq> k}"
proof -
  assume d: "keys_distinct m"
  then have "keys_distinct (AList.update k v m)" by simp
  then have "(a, b) \<in> set (AList.update k v m) \<longleftrightarrow> (a, b) \<in> insert (k, v) {(k', v') \<in> set m. k' \<noteq> k}" for a b
    using d by (simp add: keys_distinct_in map_of_update) auto
  then show ?thesis by auto
qed

lemma list_all_map_of:
  "keys_distinct m \<Longrightarrow> list_all P m \<longleftrightarrow> (\<forall>k v. map_of m k = Some v \<longrightarrow> P (k, v))"
  by (auto simp: list_all_iff keys_distinct_in)

lemma list_all_update:
  "keys_distinct m \<Longrightarrow> list_all P m \<Longrightarrow> P (k, v) \<Longrightarrow> list_all P (AList.update k v m)"
  by (simp add: list_all_map_of map_of_update)

lemma list_all_delete: "list_all P m \<Longrightarrow> list_all P (AList.delete k m)"
  by (auto simp: list_all_iff set_delete)

lemma list_all_mono: "list_all P m \<Longrightarrow> (\<And>x. P x \<Longrightarrow> Q x) \<Longrightarrow> list_all Q m"
  by (auto simp: list_all_iff)

lemma fst_set_update: "fst ` set (AList.update k v m) = insert k (fst ` set m)"
  by (simp add: dom_update)

lemma fst_set_delete: "fst ` set (AList.delete k m) = fst ` set m - {k}"
  by (auto simp: set_delete)

lemma map_of_None_fst: "map_of m k = None \<longleftrightarrow> k \<notin> fst ` set m"
  by (simp add: map_of_eq_None_iff)

end
