(* ===== verification/Host_Priority_Queue.thy ===== *)
theory Host_Priority_Queue
  imports Lane_Prelude "HOL-Library.Word"
begin

text \<open>
  \<open>PriorityQueue<T>\<close> of \<open>src/src/priority_queue.rs\<close>: items carry an 8-bit priority and a
  64-bit insertion sequence; the queue is a \<open>BinaryHeap\<close> and the last sequence handed out.
  The heap is the list of its items in an arbitrary order, of which \<open>pop\<close> removes a greatest
  one. \<open>ensure_sequence_capacity\<close> renumbers the items when the counter is exhausted.
  The queue implements a stable priority queue whose abstract value is the list of
  (priority, value) pairs in claim order (locale \<open>stable_priority_queue\<close>).
\<close>

section \<open>Model\<close>

record 'v priority_item =
  pi_priority :: "8 word"
  pi_sequence :: "64 word"
  pi_value :: 'v

record 'v priority_queue =
  pq_entries :: "'v priority_item list"
  pq_next_sequence :: "64 word"

text \<open>\<open>Ord::cmp\<close> of an item: both keys are reversed, the heap being a max-heap.\<close>

definition item_cmp :: "'v priority_item comparator" where
  "item_cmp = then_with (reversed (by_key pi_priority)) (reversed (by_key pi_sequence))"

definition pq_new :: "'v priority_queue" where
  "pq_new = \<lparr>pq_entries = [], pq_next_sequence = 0\<rparr>"

definition pq_len :: "'v priority_queue \<Rightarrow> nat" where
  "pq_len q = length (pq_entries q)"

definition pq_is_empty :: "'v priority_queue \<Rightarrow> bool" where
  "pq_is_empty q \<longleftrightarrow> pq_entries q = []"

text \<open>
  \<open>sort_by_key\<close> on the sequence, then \<open>index as u64 + 1\<close> for the items in that order.
\<close>

definition renumber :: "'v priority_item list \<Rightarrow> 'v priority_item list" where
  "renumber entries =
     (let es = Sorting_Algorithms.sort (by_key pi_sequence) entries
      in map (\<lambda>(index, entry). entry\<lparr>pi_sequence := of_nat index + 1\<rparr>) (List.enumerate 0 es))"

definition ensure_sequence_capacity :: "'v priority_queue \<Rightarrow> 'v priority_queue" where
  "ensure_sequence_capacity q =
     (if pq_next_sequence q \<noteq> - 1 then q
      else \<lparr>pq_entries = renumber (pq_entries q),
            pq_next_sequence = of_nat (length (pq_entries q))\<rparr>)"

definition pq_push :: "8 word \<Rightarrow> 'v \<Rightarrow> 'v priority_queue \<Rightarrow> 64 word \<times> 'v priority_queue" where
  "pq_push priority value q =
     (let q1 = ensure_sequence_capacity q;
          sequence = pq_next_sequence q1 + 1;
          item = \<lparr>pi_priority = priority, pi_sequence = sequence, pi_value = value\<rparr>
      in (sequence, \<lparr>pq_entries = item # pq_entries q1, pq_next_sequence = sequence\<rparr>))"

definition pq_pop :: "'v priority_queue \<Rightarrow> 'v priority_item option \<times> 'v priority_queue" where
  "pq_pop q =
     (case min_by (reversed item_cmp) (pq_entries q) of
        None \<Rightarrow> (None, q)
      | Some item \<Rightarrow> (Some item, q\<lparr>pq_entries := remove1 item (pq_entries q)\<rparr>))"

definition pq_restore :: "'v priority_item \<Rightarrow> 'v priority_queue \<Rightarrow> 'v priority_queue" where
  "pq_restore item q =
     \<lparr>pq_entries = item # pq_entries q,
      pq_next_sequence = max (pq_next_sequence q) (pi_sequence item)\<rparr>"

definition claim_cmp :: "'v priority_item comparator" where
  "claim_cmp = then_with (by_key pi_priority) (by_key pi_sequence)"

definition pq_ordered :: "'v priority_queue \<Rightarrow> 'v priority_item list" where
  "pq_ordered q = Sorting_Algorithms.sort claim_cmp (pq_entries q)"

definition pq_clear :: "'v priority_queue \<Rightarrow> 'v priority_queue" where
  "pq_clear q = \<lparr>pq_entries = [], pq_next_sequence = 0\<rparr>"

section \<open>The contract of a stable priority queue\<close>

text \<open>Insertion behind every element of the same or a better priority.\<close>

definition stable_insert :: "'p::linorder \<times> 'v \<Rightarrow> ('p \<times> 'v) list \<Rightarrow> ('p \<times> 'v) list" where
  "stable_insert x xs =
     takeWhile (\<lambda>y. fst y \<le> fst x) xs @ x # dropWhile (\<lambda>y. fst y \<le> fst x) xs"

lemma mset_stable_insert: "mset (stable_insert x xs) = add_mset x (mset xs)"
proof -
  have "mset xs = mset (takeWhile (\<lambda>y. fst y \<le> fst x) xs @ dropWhile (\<lambda>y. fst y \<le> fst x) xs)"
    by simp
  then show ?thesis by (simp only: stable_insert_def mset_append) simp
qed

lemma length_stable_insert [simp]: "length (stable_insert x xs) = Suc (length xs)"
  by (metis mset_stable_insert size_add_mset size_mset)

lemma takeWhile_le_sorted:
  "List.sorted (map fst xs) \<Longrightarrow> takeWhile (\<lambda>y. fst y \<le> p) xs = filter (\<lambda>y. fst y \<le> p) xs"
  by (induction xs) (auto simp: empty_filter_conv)

lemma dropWhile_le_sorted:
  "List.sorted (map fst xs) \<Longrightarrow> dropWhile (\<lambda>y. fst y \<le> p) xs = filter (\<lambda>y. p < fst y) xs"
  by (induction xs) (fastforce intro!: filter_True [symmetric])+

lemma filter_key_split:
  "filter (\<lambda>y. k = fst y) xs =
     (if k \<le> p then filter (\<lambda>y. k = fst y) (filter (\<lambda>y. fst y \<le> p) xs)
      else filter (\<lambda>y. k = fst y) (filter (\<lambda>y. p < fst y) xs))"
  for k p :: "'p::linorder"
  by (auto intro!: filter_cong)

lemma sort_key_stable_insert: "sort_key fst (xs @ [x]) = stable_insert x (sort_key fst xs)"
proof (rule properties_for_sort_key)
  let ?s = "sort_key fst xs"
  have ins: "stable_insert x ?s =
    filter (\<lambda>y. fst y \<le> fst x) ?s @ x # filter (\<lambda>y. fst x < fst y) ?s"
    by (simp add: stable_insert_def takeWhile_le_sorted dropWhile_le_sorted)
  show "mset (stable_insert x ?s) = mset (xs @ [x])"
    by (simp add: mset_stable_insert)
  show "List.sorted (map fst (stable_insert x ?s))"
    using sorted_filter [of fst ?s] by (fastforce simp: ins sorted_append)
  fix k
  have stable: "filter (\<lambda>y. fst k = fst y) ?s = filter (\<lambda>y. fst k = fst y) xs"
    using sort_key_stable [of fst "fst k" xs] by (simp add: eq_commute)
  show "filter (\<lambda>y. fst k = fst y) (stable_insert x ?s) = filter (\<lambda>y. fst k = fst y) (xs @ [x])"
    by (subst filter_append, subst stable [symmetric], subst filter_key_split [where p = "fst x"])
       (auto simp: ins filter_empty_conv)
qed

text \<open>
  What a client of a stable priority queue relies on: the abstract value is the list of
  pending (priority, value) pairs in claim order; \<open>push\<close> inserts stably as long as the
  queue is below its capacity, and \<open>pop\<close> takes the head.
\<close>

primrec drain_n :: "('q \<Rightarrow> 'x option \<times> 'q) \<Rightarrow> nat \<Rightarrow> 'q \<Rightarrow> 'x list" where
  "drain_n pop 0 q = []"
| "drain_n pop (Suc n) q =
     (case fst (pop q) of None \<Rightarrow> [] | Some x \<Rightarrow> x # drain_n pop n (snd (pop q)))"

definition push_all :: "('p \<Rightarrow> 'v \<Rightarrow> 'q \<Rightarrow> 'q) \<Rightarrow> ('p \<times> 'v) list \<Rightarrow> 'q \<Rightarrow> 'q" where
  "push_all push xs q = fold (\<lambda>(p, v). push p v) xs q"

locale stable_priority_queue =
  fixes empty :: 'q
    and push :: "'p::linorder \<Rightarrow> 'v \<Rightarrow> 'q \<Rightarrow> 'q"
    and pop :: "'q \<Rightarrow> ('p \<times> 'v) option \<times> 'q"
    and pending :: "'q \<Rightarrow> ('p \<times> 'v) list"
    and invar :: "'q \<Rightarrow> bool"
    and capacity :: nat
  assumes pending_empty: "pending empty = []"
    and pending_push: "invar q \<Longrightarrow> length (pending q) < capacity \<Longrightarrow>
          pending (push p v q) = stable_insert (p, v) (pending q)"
    and pop_result: "invar q \<Longrightarrow>
          fst (pop q) = (case pending q of [] \<Rightarrow> None | x # _ \<Rightarrow> Some x)"
    and pending_pop: "invar q \<Longrightarrow> pending (snd (pop q)) = tl (pending q)"
    and invar_empty: "invar empty"
    and invar_push: "invar q \<Longrightarrow> length (pending q) < capacity \<Longrightarrow> invar (push p v q)"
    and invar_pop: "invar q \<Longrightarrow> invar (snd (pop q))"
begin

lemma push_all_empty:
  "length xs \<le> capacity \<Longrightarrow> invar (push_all push xs empty) \<and> pending (push_all push xs empty) = sort_key fst xs"
proof (induction xs rule: rev_induct)
  case Nil
  then show ?case by (simp add: push_all_def pending_empty invar_empty)
next
  case (snoc x xs)
  then have "invar (push_all push xs empty)" "pending (push_all push xs empty) = sort_key fst xs" by auto
  moreover have "push_all push (xs @ [x]) empty = push (fst x) (snd x) (push_all push xs empty)"
    by (simp add: push_all_def split_beta)
  moreover have "length (pending (push_all push xs empty)) < capacity"
    using snoc.prems calculation(2) by simp
  ultimately show ?case
    by (simp add: pending_push invar_push sort_key_stable_insert [symmetric])
qed

lemma drain_n_pending: "invar q \<Longrightarrow> drain_n pop n q = take n (pending q)"
proof (induction n arbitrary: q)
  case 0
  then show ?case by simp
next
  case (Suc n)
  show ?case
  proof (cases "pending q")
    case Nil
    then show ?thesis using Suc.prems by (simp add: pop_result)
  next
    case (Cons x xs)
    then show ?thesis using Suc by (simp add: pop_result pending_pop invar_pop)
  qed
qed

lemma drain_is_stable_sort:
  "length xs \<le> capacity \<Longrightarrow> drain_n pop (length xs) (push_all push xs empty) = sort_key fst xs"
  using push_all_empty [of xs] by (simp add: drain_n_pending)

end

section \<open>Well-formedness\<close>

text \<open>
  Sequences are positive, pairwise distinct and at most the counter.
\<close>

definition pq_inv :: "'v priority_queue \<Rightarrow> bool" where
  "pq_inv q \<longleftrightarrow>
     distinct (map pi_sequence (pq_entries q))
     \<and> (\<forall>i \<in> set (pq_entries q). pi_sequence i \<le> pq_next_sequence q)"

text \<open>The number of items a queue may hold for \<open>push\<close> to find a free sequence.\<close>

definition pq_capacity :: nat where
  "pq_capacity = 2 ^ 64 - 1"

text \<open>The abstract value: pending (priority, value) pairs in claim order.\<close>

definition pq_pending :: "'v priority_queue \<Rightarrow> (8 word \<times> 'v) list" where
  "pq_pending q = map (\<lambda>i. (pi_priority i, pi_value i)) (pq_ordered q)"

lemma claim_cmp_Equiv:
  "compare claim_cmp a b = Equiv \<longleftrightarrow> pi_priority a = pi_priority b \<and> pi_sequence a = pi_sequence b"
  by (simp add: claim_cmp_def then_with_Equiv by_key_Equiv)

lemma reversed_item_cmp: "compare item_cmp b a = compare claim_cmp a b"
  by (simp add: item_cmp_def claim_cmp_def compare_then_with compare_by_key)

lemma filter_singleton:
  "distinct xs \<Longrightarrow> y \<in> set xs \<Longrightarrow> (\<And>z. z \<in> set xs \<Longrightarrow> P z \<longleftrightarrow> z = y) \<Longrightarrow> filter P xs = [y]"
  by (induction xs) (auto simp: filter_empty_conv)

text \<open>With distinct sequences a sorted permutation is the result of sorting.\<close>

lemma sort_claim_eqI:
  assumes "distinct (map pi_sequence xs)" and perm: "mset xs = mset ys"
    and "Sorting_Algorithms.sorted claim_cmp ys"
  shows "Sorting_Algorithms.sort claim_cmp xs = ys"
proof (rule sort_eqI)
  have inj: "inj_on pi_sequence (set xs)" and dx: "distinct xs"
    using assms(1) by (auto simp: distinct_map)
  have dy: "distinct ys" and sety: "set ys = set xs"
    using dx perm by (metis mset_eq_imp_distinct_iff, metis mset_eq_setD)
  fix y
  assume y: "y \<in> set xs"
  have seg: "compare claim_cmp y z = Equiv \<longleftrightarrow> z = y" if "z \<in> set xs" for z
    using that y inj by (auto simp: claim_cmp_Equiv dest: inj_onD)
  have "filter (\<lambda>z. compare claim_cmp y z = Equiv) xs = [y]"
    using dx y seg by (intro filter_singleton) auto
  moreover have "filter (\<lambda>z. compare claim_cmp y z = Equiv) ys = [y]"
    using dy y seg sety by (intro filter_singleton) auto
  ultimately show "filter (\<lambda>z. compare claim_cmp y z = Equiv) xs = filter (\<lambda>z. compare claim_cmp y z = Equiv) ys"
    by simp
qed (use assms in auto)


section \<open>Popping\<close>

lemma pq_ordered_empty: "pq_ordered q = [] \<longleftrightarrow> pq_entries q = []"
  by (metis length_0_conv length_sort pq_ordered_def)

lemma hd_sort_le:
  "z \<in> set xs \<Longrightarrow> compare cmp (hd (Sorting_Algorithms.sort cmp xs)) z \<noteq> Greater"
proof -
  assume z: "z \<in> set xs"
  then obtain y ys where ys: "Sorting_Algorithms.sort cmp xs = y # ys"
    by (metis length_pos_if_in_set length_sort list.exhaust list.size(3) not_less_zero)
  then have "Sorting_Algorithms.sorted cmp (y # ys)" by (metis sorted_sort)
  moreover have "z \<in> set (y # ys)" using z by (metis set_sort ys)
  ultimately show ?thesis
    using ys by (auto dest: sorted_Cons_imp_not_less)
qed

lemma pop_is_head:
  assumes "pq_inv q" and "pq_entries q \<noteq> []"
  shows "min_by (reversed item_cmp) (pq_entries q) = Some (hd (pq_ordered q))"
proof -
  obtain m where m: "min_by (reversed item_cmp) (pq_entries q) = Some m"
    using assms(2) by (metis min_by_None not_Some_eq)
  let ?h = "hd (pq_ordered q)"
  have h: "?h \<in> set (pq_entries q)"
    using assms(2) by (metis pq_ordered_def pq_ordered_empty hd_in_set set_sort)
  have "compare claim_cmp m ?h \<noteq> Greater"
    using min_by_Some_le [OF m h] by (simp add: reversed_item_cmp)
  moreover have "compare claim_cmp ?h m \<noteq> Greater"
    using hd_sort_le [OF min_by_Some_in [OF m], of claim_cmp] by (simp add: pq_ordered_def)
  ultimately have "compare claim_cmp m ?h = Equiv"
    by (rule compare.quasisym_not_greater)
  moreover have "inj_on pi_sequence (set (pq_entries q))"
    using assms(1) by (simp add: pq_inv_def distinct_map)
  ultimately have "m = ?h"
    using h min_by_Some_in [OF m] by (auto simp: claim_cmp_Equiv dest: inj_onD)
  with m show ?thesis by simp
qed

lemma pq_pop_result:
  "pq_inv q \<Longrightarrow> fst (pq_pop q) = (case pq_ordered q of [] \<Rightarrow> None | x # _ \<Rightarrow> Some x)"
  using pop_is_head [of q] pq_ordered_empty [of q]
  by (cases "pq_ordered q") (auto simp: pq_pop_def)

lemma pq_ordered_pop: "pq_inv q \<Longrightarrow> pq_ordered (snd (pq_pop q)) = tl (pq_ordered q)"
proof (cases "pq_entries q = []")
  case True
  then show ?thesis by (simp add: pq_pop_def pq_ordered_def)
next
  case False
  assume "pq_inv q"
  then have "pq_ordered (snd (pq_pop q)) = remove1 (hd (pq_ordered q)) (pq_ordered q)"
    using pop_is_head [OF _ False] by (simp add: pq_pop_def pq_ordered_def)
  also have "\<dots> = tl (pq_ordered q)"
    using False pq_ordered_empty [of q] by (cases "pq_ordered q") auto
  finally show ?thesis .
qed

lemma pq_inv_pop: "pq_inv q \<Longrightarrow> pq_inv (snd (pq_pop q))"
  by (auto simp: pq_pop_def pq_inv_def distinct_map inj_on_diff split: option.split)

section \<open>Renumbering\<close>

text \<open>The rank of an item among the sequences of a list; renumbering is \<open>rank + 1\<close>.\<close>

definition seq_rank :: "'v priority_item list \<Rightarrow> 'v priority_item \<Rightarrow> nat" where
  "seq_rank es x = card {y \<in> set es. pi_sequence y < pi_sequence x}"

definition relabel :: "'v priority_item list \<Rightarrow> 'v priority_item \<Rightarrow> 'v priority_item" where
  "relabel es x = x\<lparr>pi_sequence := of_nat (seq_rank es x) + 1\<rparr>"

lemma seq_rank_less:
  assumes "x \<in> set es" shows "seq_rank es x < length es"
proof -
  have "{y \<in> set es. pi_sequence y < pi_sequence x} \<subseteq> set es - {x}" by auto
  then have "seq_rank es x \<le> card (set es - {x})"
    unfolding seq_rank_def by (intro card_mono) auto
  also have "\<dots> < card (set es)"
    using assms by (intro psubset_card_mono) auto
  finally show ?thesis using card_length [of es] by linarith
qed

lemma seq_rank_mono:
  assumes "x \<in> set es" "pi_sequence x < pi_sequence z"
  shows "seq_rank es x < seq_rank es z"
  unfolding seq_rank_def
proof (rule psubset_card_mono)
  show "{y \<in> set es. pi_sequence y < pi_sequence x} \<subset> {y \<in> set es. pi_sequence y < pi_sequence z}"
    using assms by (auto intro: order.strict_trans)
qed simp

lemma seq_rank_iff:
  assumes "x \<in> set es" "z \<in> set es"
  shows "seq_rank es x < seq_rank es z \<longleftrightarrow> pi_sequence x < pi_sequence z"
proof (cases "pi_sequence x < pi_sequence z")
  case True
  then show ?thesis using seq_rank_mono assms by blast
next
  case False
  then have "seq_rank es z \<le> seq_rank es x"
    using seq_rank_mono [OF assms(2), of x]
    by (cases "pi_sequence z < pi_sequence x") (auto simp: seq_rank_def)
  with False show ?thesis by simp
qed

lemma unat_of_nat_plus_1:
  assumes "i < 2 ^ 64 - 1" shows "unat (of_nat i + 1 :: 64 word) = i + 1"
proof -
  have "unat (of_nat (i + 1) :: 64 word) = (i + 1) mod 2 ^ 64"
    by (simp only: unat_of_nat) simp
  then show ?thesis using assms by (simp add: add.commute)
qed

lemma relabel_sequence_less:
  assumes "length es < 2 ^ 64" "x \<in> set es" "z \<in> set es"
  shows "pi_sequence (relabel es x) < pi_sequence (relabel es z) \<longleftrightarrow> pi_sequence x < pi_sequence z"
proof -
  have "seq_rank es x < 2 ^ 64 - 1" "seq_rank es z < 2 ^ 64 - 1"
    using assms seq_rank_less by force+
  then show ?thesis
    using seq_rank_iff [OF assms(2,3)]
    by (simp add: relabel_def word_less_nat_alt unat_of_nat_plus_1)
qed

lemma relabel_priority [simp]: "pi_priority (relabel es x) = pi_priority x"
  by (simp add: relabel_def)

lemma relabel_value [simp]: "pi_value (relabel es x) = pi_value x"
  by (simp add: relabel_def)

lemma compare_relabel:
  assumes "length es < 2 ^ 64" "x \<in> set es" "z \<in> set es"
  shows "compare claim_cmp (relabel es x) (relabel es z) = compare claim_cmp x z"
  using relabel_sequence_less [OF assms] relabel_sequence_less [OF assms(1,3,2)]
  by (simp add: claim_cmp_def compare_then_with compare_by_key)

lemma sorted_map_preserving:
  assumes "Sorting_Algorithms.sorted cmp xs"
    and "\<And>x y. x \<in> set xs \<Longrightarrow> y \<in> set xs \<Longrightarrow> compare cmp (g x) (g y) = compare cmp x y"
  shows "Sorting_Algorithms.sorted cmp (map g xs)"
  using assms by (induction cmp xs rule: Sorting_Algorithms.sorted.induct) auto

lemma renumber_eq_relabel:
  assumes "distinct (map pi_sequence entries)"
  shows "renumber entries = map (relabel entries) (Sorting_Algorithms.sort (by_key pi_sequence) entries)"
proof -
  define es where "es = Sorting_Algorithms.sort (by_key pi_sequence) entries"
  have "mset (map pi_sequence es) = mset (map pi_sequence entries)"
    by (simp add: es_def)
  then have dseq: "distinct (map pi_sequence es)"
    using assms mset_eq_imp_distinct_iff by blast
  then have de: "distinct es" by (simp add: distinct_map)
  have sorted: "Sorting_Algorithms.sorted (by_key pi_sequence) es" by (simp add: es_def)
  have step: "pi_sequence (es ! j) < pi_sequence (es ! i)" if "j < i" "i < length es" for i j
  proof -
    have "compare (by_key pi_sequence) (es ! j) (es ! i) \<noteq> Greater"
      using sorted_wrt_nth_less [OF sorted_imp_sorted_wrt [OF sorted] that] .
    moreover have "pi_sequence (es ! j) \<noteq> pi_sequence (es ! i)"
      using that dseq by (auto simp: distinct_conv_nth)
    ultimately show ?thesis by (auto simp: compare_by_key split: if_splits)
  qed
  have less: "pi_sequence (es ! j) < pi_sequence (es ! i) \<longleftrightarrow> j < i"
    if "i < length es" "j < length es" for i j
    using step [of j i] step [of i j] that by (cases i j rule: linorder_cases) auto
  have rank: "seq_rank entries (es ! i) = i" if i: "i < length es" for i
  proof -
    have "{y \<in> set es. pi_sequence y < pi_sequence (es ! i)} = (\<lambda>j. es ! j) ` {..<i}"
      using less [OF i] i by (auto simp: in_set_conv_nth) (use order.strict_trans in blast)
    then have "{y \<in> set entries. pi_sequence y < pi_sequence (es ! i)} = (\<lambda>j. es ! j) ` {..<i}"
      by (simp add: es_def)
    moreover have "inj_on (\<lambda>j. es ! j) {..<i}"
      using de i by (auto intro!: inj_onI simp: nth_eq_iff_index_eq)
    ultimately show ?thesis by (simp add: seq_rank_def card_image)
  qed
  have "renumber entries = map (relabel entries) es"
    by (rule nth_equalityI)
       (simp_all add: renumber_def es_def [symmetric] Let_def nth_enumerate_eq relabel_def rank)
  then show ?thesis by (simp add: es_def)
qed

lemma mset_renumber:
  "distinct (map pi_sequence entries) \<Longrightarrow> mset (renumber entries) = image_mset (relabel entries) (mset entries)"
  by (simp add: renumber_eq_relabel)

text \<open>Renumbering keeps the pending pairs and their claim order.\<close>

lemma pending_renumber:
  assumes "distinct (map pi_sequence entries)" "length entries < 2 ^ 64"
  shows "Sorting_Algorithms.sort claim_cmp (renumber entries)
           = map (relabel entries) (Sorting_Algorithms.sort claim_cmp entries)"
proof (rule sort_claim_eqI)
  have inj: "inj_on pi_sequence (set entries)" using assms(1) by (simp add: distinct_map)
  have "inj_on (pi_sequence \<circ> relabel entries) (set entries)"
  proof (rule inj_onI)
    fix x y
    assume xy: "x \<in> set entries" "y \<in> set entries"
      "(pi_sequence \<circ> relabel entries) x = (pi_sequence \<circ> relabel entries) y"
    then have "pi_sequence x = pi_sequence y"
      using relabel_sequence_less [OF assms(2), of x y] relabel_sequence_less [OF assms(2), of y x]
      by (cases "pi_sequence x" "pi_sequence y" rule: linorder_cases) auto
    with xy inj show "x = y" by (auto dest: inj_onD)
  qed
  then show "distinct (map pi_sequence (renumber entries))"
    using assms(1) by (simp add: renumber_eq_relabel distinct_map)
  show "mset (renumber entries) = mset (map (relabel entries) (Sorting_Algorithms.sort claim_cmp entries))"
    using assms(1) by (simp add: mset_renumber)
  show "Sorting_Algorithms.sorted claim_cmp (map (relabel entries) (Sorting_Algorithms.sort claim_cmp entries))"
    using compare_relabel [OF assms(2)] by (intro sorted_map_preserving) auto
qed

section \<open>Pushing\<close>

lemma unat_minus_1_64: "unat (- 1 :: 64 word) = 2 ^ 64 - 1"
  by (simp add: unsigned_minus_1_eq_mask mask_eq_exp_minus_1)

lemma unat_plus_1: "w \<noteq> - 1 \<Longrightarrow> unat (w + 1 :: 64 word) = unat w + 1"
proof -
  assume "w \<noteq> - 1"
  then have "unat w \<noteq> unat (- 1 :: 64 word)" by (metis word_unat_eq_iff)
  moreover have "unat w < 2 ^ 64" using unsigned_less [of w] by simp
  ultimately have "unat w < 2 ^ 64 - 1" unfolding unat_minus_1_64 by simp
  then show ?thesis using unat_of_nat_plus_1 [of "unat w"] by simp
qed

lemma ensure_capacity_props:
  assumes "pq_inv q" "length (pq_entries q) < pq_capacity"
  shows "pq_inv (ensure_sequence_capacity q)"
    and "pq_pending (ensure_sequence_capacity q) = pq_pending q"
    and "pq_next_sequence (ensure_sequence_capacity q) \<noteq> - 1"
proof -
  let ?es = "pq_entries q"
  have d: "distinct (map pi_sequence ?es)" using assms(1) by (simp add: pq_inv_def)
  have n: "length ?es < 2 ^ 64 - 1" "length ?es < 2 ^ 64"
    using assms(2) by (simp_all add: pq_capacity_def)
  have ren: "renumber ?es = map (relabel ?es) (Sorting_Algorithms.sort (by_key pi_sequence) ?es)"
    using d by (rule renumber_eq_relabel)
  have un: "unat (of_nat (length ?es) :: 64 word) = length ?es"
    using n by (simp add: unat_of_nat)
  have bound: "pi_sequence (relabel ?es x) \<le> of_nat (length ?es)" if "x \<in> set ?es" for x
  proof -
    have "seq_rank ?es x < length ?es" using that by (rule seq_rank_less)
    then show ?thesis
      using n by (simp add: relabel_def word_le_nat_alt un unat_of_nat_plus_1)
  qed
  have dr: "distinct (map pi_sequence (renumber ?es))"
  proof -
    have "distinct (map pi_sequence (map (relabel ?es) (Sorting_Algorithms.sort claim_cmp ?es)))"
      using pending_renumber [OF d n(2)] relabel_sequence_less [OF n(2)] d
      by (auto simp: distinct_map intro!: inj_onI)
         (metis inj_onD linorder_neqE order.irrefl)
    moreover have "mset (map pi_sequence (renumber ?es)) =
        mset (map pi_sequence (map (relabel ?es) (Sorting_Algorithms.sort claim_cmp ?es)))"
      by (simp add: ren)
    ultimately show ?thesis using mset_eq_imp_distinct_iff by blast
  qed
  show "pq_inv (ensure_sequence_capacity q)"
    using assms(1) dr bound by (auto simp: ensure_sequence_capacity_def pq_inv_def ren)
  show "pq_pending (ensure_sequence_capacity q) = pq_pending q"
    using pending_renumber [OF d n(2)]
    by (simp add: ensure_sequence_capacity_def pq_pending_def pq_ordered_def)
  have "unat (of_nat (length ?es) :: 64 word) \<noteq> unat (- 1 :: 64 word)"
    unfolding un unat_minus_1_64 using n by simp
  then have "(of_nat (length ?es) :: 64 word) \<noteq> - 1" by metis
  then show "pq_next_sequence (ensure_sequence_capacity q) \<noteq> - 1"
    by (simp add: ensure_sequence_capacity_def)
qed

text \<open>Where a new item goes in the claim order.\<close>

lemma sort_claim_insert:
  assumes "distinct (map pi_sequence (x # xs))"
    and newest: "\<And>y. y \<in> set xs \<Longrightarrow> pi_sequence y < pi_sequence x"
  shows "Sorting_Algorithms.sort claim_cmp (x # xs) =
     takeWhile (\<lambda>y. pi_priority y \<le> pi_priority x) (Sorting_Algorithms.sort claim_cmp xs) @
     x # dropWhile (\<lambda>y. pi_priority y \<le> pi_priority x) (Sorting_Algorithms.sort claim_cmp xs)"
    (is "_ = takeWhile ?P ?s @ x # dropWhile ?P ?s")
proof (rule sort_claim_eqI)
  have sorted: "Sorting_Algorithms.sorted claim_cmp ?s" by simp
  have split: "?s = takeWhile ?P ?s @ dropWhile ?P ?s" by simp
  show "mset (x # xs) = mset (takeWhile ?P ?s @ x # dropWhile ?P ?s)"
    by (metis mset_sort union_mset_add_mset_right mset.simps(2) mset_append split)
  have before: "compare claim_cmp y x \<noteq> Greater" if "y \<in> set (takeWhile ?P ?s)" for y
  proof -
    have "pi_priority y \<le> pi_priority x" "y \<in> set xs"
      using that set_takeWhileD [of y ?P ?s] by auto
    then show ?thesis
      using newest [of y] by (auto simp: claim_cmp_def compare_then_with compare_by_key)
  qed
  have after: "compare claim_cmp x y \<noteq> Greater" if y: "y \<in> set (dropWhile ?P ?s)" for y
  proof -
    obtain z zs where z: "dropWhile ?P ?s = z # zs" using y by (cases "dropWhile ?P ?s") auto
    then have "\<not> ?P z" by (metis hd_dropWhile list.sel(1) list.discI)
    moreover have "compare claim_cmp z y \<noteq> Greater"
      using sorted y z split
      by (metis (no_types, lifting) compare.refl comp.distinct(5) set_ConsD sorted_append_iff sorted_Cons_imp_not_less)
    ultimately have "pi_priority x < pi_priority y"
      by (auto simp: claim_cmp_def compare_then_with compare_by_key split: if_splits)
    then show ?thesis by (simp add: claim_cmp_def compare_then_with compare_by_key)
  qed
  show "Sorting_Algorithms.sorted claim_cmp (takeWhile ?P ?s @ x # dropWhile ?P ?s)"
  proof -
    have t: "Sorting_Algorithms.sorted claim_cmp (takeWhile ?P ?s)"
      and d: "Sorting_Algorithms.sorted claim_cmp (dropWhile ?P ?s)"
      and td: "\<forall>a \<in> set (takeWhile ?P ?s). \<forall>b \<in> set (dropWhile ?P ?s). compare claim_cmp a b \<noteq> Greater"
      using sorted by (metis sorted_append_iff split)+
    have "Sorting_Algorithms.sorted claim_cmp (x # dropWhile ?P ?s)"
      using d after by (intro sorted_ConsI) auto
    then show ?thesis using t td before by (auto simp: sorted_append_iff)
  qed
qed (use assms in simp)

lemma takeWhile_pairs:
  "map (\<lambda>i. (pi_priority i, pi_value i)) (takeWhile (\<lambda>y. pi_priority y \<le> p) xs)
     = takeWhile (\<lambda>y. fst y \<le> p) (map (\<lambda>i. (pi_priority i, pi_value i)) xs)"
  by (simp add: takeWhile_map comp_def)

lemma dropWhile_pairs:
  "map (\<lambda>i. (pi_priority i, pi_value i)) (dropWhile (\<lambda>y. pi_priority y \<le> p) xs)
     = dropWhile (\<lambda>y. fst y \<le> p) (map (\<lambda>i. (pi_priority i, pi_value i)) xs)"
  by (simp add: dropWhile_map comp_def)

lemma push_props:
  assumes "pq_inv q" "length (pq_entries q) < pq_capacity"
  shows "pq_inv (snd (pq_push p v q))"
    and "pq_pending (snd (pq_push p v q)) = stable_insert (p, v) (pq_pending q)"
proof -
  let ?q1 = "ensure_sequence_capacity q"
  let ?x = "\<lparr>pi_priority = p, pi_sequence = pq_next_sequence ?q1 + 1, pi_value = v\<rparr>"
  note q1 = ensure_capacity_props [OF assms]
  have grow: "pq_next_sequence ?q1 < pq_next_sequence ?q1 + 1"
    using unat_plus_1 [OF q1(3)] by (simp add: word_less_nat_alt)
  have newest: "pi_sequence y < pi_sequence ?x" if "y \<in> set (pq_entries ?q1)" for y
    using that q1(1) grow by (auto simp: pq_inv_def intro: order.strict_trans1)
  then show "pq_inv (snd (pq_push p v q))"
    using q1(1) by (fastforce simp: pq_push_def pq_inv_def Let_def)
  have "distinct (map pi_sequence (?x # pq_entries ?q1))"
    using q1(1) newest by (fastforce simp: pq_inv_def)
  then show "pq_pending (snd (pq_push p v q)) = stable_insert (p, v) (pq_pending q)"
    using sort_claim_insert [of ?x "pq_entries ?q1"] newest q1(2) [symmetric]
    by (simp add: pq_push_def pq_pending_def pq_ordered_def stable_insert_def Let_def
        takeWhile_pairs dropWhile_pairs)
qed

section \<open>The queue meets the contract\<close>

definition pq_push_state :: "8 word \<Rightarrow> 'v \<Rightarrow> 'v priority_queue \<Rightarrow> 'v priority_queue" where
  "pq_push_state p v q = snd (pq_push p v q)"

definition pq_pop_pair :: "'v priority_queue \<Rightarrow> (8 word \<times> 'v) option \<times> 'v priority_queue" where
  "pq_pop_pair q =
     (map_option (\<lambda>i. (pi_priority i, pi_value i)) (fst (pq_pop q)), snd (pq_pop q))"

lemma length_pq_pending: "length (pq_pending q) = length (pq_entries q)"
  by (simp add: pq_pending_def pq_ordered_def)

interpretation host: stable_priority_queue
  pq_new pq_push_state pq_pop_pair pq_pending pq_inv pq_capacity
proof (unfold_locales, goal_cases)
  case 1
  show ?case by (simp add: pq_pending_def pq_ordered_def pq_new_def)
next
  case (2 q p v)
  then show ?case by (simp add: pq_push_state_def push_props length_pq_pending)
next
  case (3 q)
  then show ?case by (simp add: pq_pop_pair_def pq_pop_result pq_pending_def split: list.split)
next
  case (4 q)
  then show ?case by (simp add: pq_pop_pair_def pq_ordered_pop pq_pending_def map_tl)
next
  case 5
  show ?case by (simp add: pq_inv_def pq_new_def)
next
  case (6 q p v)
  then show ?case by (simp add: pq_push_state_def push_props length_pq_pending)
next
  case (7 q)
  then show ?case by (simp add: pq_pop_pair_def pq_inv_pop)
qed

section \<open>Properties\<close>

text \<open>
  C31. Pushing a list of (priority, value) pairs into a new queue and popping as often returns
  the pairs sorted by priority, equal priorities in the order of insertion: the heap
  with its sequence numbers is a stable sort.
\<close>

theorem priority_queue_stable_sort:
  assumes "length xs \<le> pq_capacity"
  shows "drain_n pq_pop_pair (length xs) (push_all pq_push_state xs pq_new) = sort_key fst xs"
  using assms by (rule host.drain_is_stable_sort)

theorem priority_queue_stable_sort_witness:
  "drain_n pq_pop_pair 3 (push_all pq_push_state [(5, ''a''), (1, ''b''), (5, ''c'')] pq_new)
     = [(1, ''b''), (5, ''a''), (5, ''c'')]"
proof -
  let ?xs = "[(5, ''a''), (1, ''b''), (5, ''c'')] :: (8 word \<times> string) list"
  have "sort_key fst ?xs = [(1, ''b''), (5, ''a''), (5, ''c'')]" by (simp add: word_le_nat_alt)
  moreover have "length ?xs = 3" by simp
  ultimately show ?thesis
    using priority_queue_stable_sort [of ?xs] by (simp only: pq_capacity_def) simp
qed

text \<open>
  A push inserts behind every pending item of the same or a better priority and keeps the
  sequence numbers distinct and below the counter, also when the counter has reached
  \<open>u64::MAX\<close> and the items are renumbered first.
\<close>

theorem push_after_renumber:
  assumes "pq_inv q" "length (pq_entries q) < pq_capacity" "pq_push p v q = (n, q')"
  shows "pq_pending q' = stable_insert (p, v) (pq_pending q) \<and> pq_inv q' \<and> n = pq_next_sequence q'
    \<and> (pq_next_sequence q = - 1 \<longrightarrow> n = of_nat (length (pq_entries q)) + 1)"
proof -
  have "q' = snd (pq_push p v q)" "n = fst (pq_push p v q)" using assms(3) by simp_all
  then show ?thesis
    using push_props [OF assms(1,2), of p v]
    by (simp add: pq_push_def Let_def ensure_sequence_capacity_def)
qed

definition ex_exhausted :: "string priority_queue" where
  "ex_exhausted = \<lparr>pq_entries = [\<lparr>pi_priority = 3, pi_sequence = - 1, pi_value = ''old''\<rparr>],
                   pq_next_sequence = - 1\<rparr>"

theorem push_after_renumber_witness:
  "fst (pq_push 3 ''new'' ex_exhausted) = 2
   \<and> pq_pending (snd (pq_push 3 ''new'' ex_exhausted)) = [(3, ''old''), (3, ''new'')]"
proof -
  have "pq_inv ex_exhausted" "length (pq_entries ex_exhausted) < pq_capacity"
    by (simp_all add: pq_inv_def ex_exhausted_def pq_capacity_def)
  moreover have "pq_pending ex_exhausted = [(3, ''old'')]"
    by (simp add: pq_pending_def pq_ordered_def ex_exhausted_def Sorting_Algorithms.sort_def)
  moreover have "pq_next_sequence ex_exhausted = - 1" "length (pq_entries ex_exhausted) = 1"
    by (simp_all add: ex_exhausted_def)
  ultimately show ?thesis
    using push_after_renumber [of ex_exhausted 3 "''new''"]
    by (cases "pq_push 3 ''new'' ex_exhausted") (simp add: stable_insert_def)
qed

text \<open>
  Restoring a popped item undoes the pop: the pending items are as before, in the same
  claim order, and the invariant holds.
\<close>

theorem restore_undoes_pop:
  assumes "pq_inv q" "pq_pop q = (Some i, q')"
  shows "pq_inv (pq_restore i q') \<and> pq_ordered (pq_restore i q') = pq_ordered q
    \<and> pq_next_sequence (pq_restore i q') = pq_next_sequence q"
proof -
  have i: "i \<in> set (pq_entries q)" and q': "q' = q\<lparr>pq_entries := remove1 i (pq_entries q)\<rparr>"
    using assms(2) min_by_Some_in by (auto simp: pq_pop_def split: option.splits)
  then have m: "mset (i # pq_entries q') = mset (pq_entries q)" by simp
  then have ms: "mset (map pi_sequence (i # pq_entries q')) = mset (map pi_sequence (pq_entries q))"
    by (metis mset_map)
  have st: "set (i # pq_entries q') = set (pq_entries q)" using m by (metis set_mset_mset)
  have d: "distinct (map pi_sequence (i # pq_entries q'))"
    using assms(1) mset_eq_imp_distinct_iff [OF ms] by (simp add: pq_inv_def)
  have nx: "max (pq_next_sequence q') (pi_sequence i) = pq_next_sequence q"
    using assms(1) i q' by (simp add: pq_inv_def max_def order.antisym)
  have "pq_inv (pq_restore i q')"
    using assms(1) d st nx by (auto simp: pq_inv_def pq_restore_def)
  moreover have "pq_ordered (pq_restore i q') = pq_ordered q"
    using d m unfolding pq_ordered_def pq_restore_def
    by (intro sort_claim_eqI) simp_all
  moreover have "pq_next_sequence (pq_restore i q') = pq_next_sequence q"
    using nx by (simp add: pq_restore_def)
  ultimately show ?thesis by blast
qed

theorem restore_undoes_pop_witness:
  "pq_ordered (pq_restore \<lparr>pi_priority = 3, pi_sequence = - 1, pi_value = ''old''\<rparr> (snd (pq_pop ex_exhausted)))
     = pq_ordered ex_exhausted"
proof -
  have "pq_pop ex_exhausted = (Some \<lparr>pi_priority = 3, pi_sequence = - 1, pi_value = ''old''\<rparr>, snd (pq_pop ex_exhausted))"
    by (simp add: pq_pop_def ex_exhausted_def)
  moreover have "pq_inv ex_exhausted"
    by (simp add: pq_inv_def ex_exhausted_def)
  ultimately show ?thesis using restore_undoes_pop by blast
qed

end
