(* ===== verification/Lane_Error.thy ===== *)
theory Lane_Error
  imports Lane_Prelude
begin

text \<open>
  The error type of \<open>src/src/error.rs\<close>. A \<open>Result<T>\<close> of the source is a value of
  \<open>'a result\<close>: \<open>Inl\<close> an error, \<open>Inr\<close> the value. \<open>and_then\<close> is the \<open>?\<close> operator on
  results that do not touch the queue state.
\<close>

datatype lane_error =
    LaneNotFound string
  | QueueError string
  | ConfigError string
  | CommandError string
  | JobNotFound string
  | JobStateConflict string
  | JobLeaseConflict string
  | UnrecoverableJob string
  | Timeout duration
  | ShutdownInProgress
  | Other string

type_synonym 'a result = "lane_error + 'a"

fun and_then :: "'a result \<Rightarrow> ('a \<Rightarrow> 'b result) \<Rightarrow> 'b result" where
  "and_then (Inl e) f = Inl e"
| "and_then (Inr x) f = f x"

lemma and_then_Inr: "and_then r f = Inr y \<longleftrightarrow> (\<exists>x. r = Inr x \<and> f x = Inr y)"
  by (cases r) auto

text \<open>
  \<open>LaneError::to_string\<close>, the texts of the \<open>#[error(...)]\<close> attributes. The debug form of a
  duration is rendered by the standard library and is a parameter.
\<close>

fun error_display :: "(duration \<Rightarrow> string) \<Rightarrow> lane_error \<Rightarrow> string" where
  "error_display dbg (LaneNotFound s) = ''Lane not found: '' @ s"
| "error_display dbg (QueueError s) = ''Queue error: '' @ s"
| "error_display dbg (ConfigError s) = ''Configuration error: '' @ s"
| "error_display dbg (CommandError s) = ''Command execution error: '' @ s"
| "error_display dbg (JobNotFound s) = ''Job not found: '' @ s"
| "error_display dbg (JobStateConflict s) = ''Job state conflict: '' @ s"
| "error_display dbg (JobLeaseConflict s) = ''Job lease conflict: '' @ s"
| "error_display dbg (UnrecoverableJob s) = s"
| "error_display dbg (Timeout d) = ''Command timed out after '' @ dbg d"
| "error_display dbg ShutdownInProgress = ''Queue is shutting down, not accepting new commands''"
| "error_display dbg (Other s) = s"

fun is_unrecoverable_job :: "lane_error \<Rightarrow> bool" where
  "is_unrecoverable_job (UnrecoverableJob _) = True"
| "is_unrecoverable_job _ = False"

end
