(* ===== verification/Float64.thy ===== *)
theory Float64
  imports Lane_Prelude "HOL-Library.Log_Nat" Complex_Main
begin

text \<open>
  The part of Rust's \<open>f64\<close> that the program computes with: values, rounding of an exact
  rational to the nearest double (ties to even), addition, multiplication, division, the
  saturating cast to \<open>u64\<close> and the conversions between durations and seconds. The two
  zeros are identified: a zero divisor in the program is always the positive one.
\<close>

datatype f64 = Fin rat | PosInf | NegInf | NaN

definition pow2 :: "int \<Rightarrow> rat" where
  "pow2 k = (if 0 \<le> k then 2 ^ nat k else 1 / 2 ^ nat (- k))"

text \<open>The largest \<open>e\<close> with \<open>2 ^ e \<le> x\<close>, for positive \<open>x\<close>.\<close>

definition rat_exponent :: "rat \<Rightarrow> int" where
  "rat_exponent x =
     (if 1 \<le> x then int (floorlog 2 (nat \<lfloor>x\<rfloor>)) - 1
      else - int (floorlog 2 (nat (\<lceil>1 / x\<rceil> - 1))))"

definition round_half_even :: "rat \<Rightarrow> int" where
  "round_half_even x =
     (let f = \<lfloor>x\<rfloor>; d = x - of_int f
      in if d < 1 / 2 then f else if 1 / 2 < d then f + 1 else if even f then f else f + 1)"

definition f64_round :: "rat \<Rightarrow> f64" where
  "f64_round x =
     (if x = 0 then Fin 0
      else let e = max (rat_exponent \<bar>x\<bar>) (- 1022);
               u = pow2 (e - 52);
               r = of_int (round_half_even (x / u)) * u
           in if 2 ^ 1024 \<le> \<bar>r\<bar> then (if x < 0 then NegInf else PosInf) else Fin r)"

fun f64_mul :: "f64 \<Rightarrow> f64 \<Rightarrow> f64" where
  "f64_mul NaN y = NaN"
| "f64_mul x NaN = NaN"
| "f64_mul (Fin a) (Fin b) = f64_round (a * b)"
| "f64_mul PosInf (Fin b) = (if b = 0 then NaN else if 0 < b then PosInf else NegInf)"
| "f64_mul NegInf (Fin b) = (if b = 0 then NaN else if 0 < b then NegInf else PosInf)"
| "f64_mul (Fin a) PosInf = (if a = 0 then NaN else if 0 < a then PosInf else NegInf)"
| "f64_mul (Fin a) NegInf = (if a = 0 then NaN else if 0 < a then NegInf else PosInf)"
| "f64_mul PosInf PosInf = PosInf"
| "f64_mul PosInf NegInf = NegInf"
| "f64_mul NegInf PosInf = NegInf"
| "f64_mul NegInf NegInf = PosInf"

text \<open>The casts \<open>n as f64\<close> and \<open>x as u64\<close> (saturating, NaN to 0).\<close>

definition f64_of_nat :: "nat \<Rightarrow> f64" where
  "f64_of_nat n = f64_round (of_nat n)"

fun f64_to_u64 :: "f64 \<Rightarrow> nat" where
  "f64_to_u64 (Fin a) = (if a \<le> 0 then 0 else min (nat \<lfloor>a\<rfloor>) u64_max)"
| "f64_to_u64 PosInf = u64_max"
| "f64_to_u64 NegInf = 0"
| "f64_to_u64 NaN = 0"

section \<open>Exactness on small integers\<close>

lemma round_half_even_of_int [simp]: "round_half_even (of_int i) = i"
  by (simp add: round_half_even_def)

lemma rat_exponent_of_nat: "0 < n \<Longrightarrow> rat_exponent (of_nat n) = int (floorlog 2 n) - 1"
  by (simp add: rat_exponent_def)

lemma floorlog_less_53: "n < 2 ^ 53 \<Longrightarrow> floorlog 2 n \<le> 53"
  by (rule floorlog_leI) simp_all

text \<open>Integers below \<open>2 ^ 53\<close> are doubles, so rounding leaves them alone.\<close>

lemma f64_round_small_nat:
  assumes "n < 2 ^ 53"
  shows "f64_round (of_nat n) = Fin (of_nat n)"
proof (cases "n = 0")
  case True
  then show ?thesis by (simp add: f64_round_def)
next
  case False
  define k where "k = 53 - floorlog 2 n"
  have fl: "floorlog 2 n \<le> 53"
    using assms by (rule floorlog_less_53)
  have fl1: "1 \<le> floorlog 2 n"
    using False by (simp add: floorlog_def)
  have e: "max (rat_exponent (of_nat n)) (- 1022) - 52 = - int k"
    using fl fl1 False by (simp add: rat_exponent_of_nat k_def max_def)
  have u: "pow2 (- int k) = 1 / 2 ^ k"
    by (cases k) (simp_all add: pow2_def nat_add_distrib)
  have "(of_nat n :: rat) / (1 / 2 ^ k) = of_int (int n * 2 ^ k)"
    by simp
  then have r: "round_half_even ((of_nat n :: rat) / (1 / 2 ^ k)) = int n * 2 ^ k"
    by (simp only: round_half_even_of_int)
  have small: "\<bar>of_nat n :: rat\<bar> < 2 ^ 1024"
  proof -
    have "(of_nat n :: rat) < of_nat (2 ^ 53)"
      using assms by (simp only: of_nat_less_iff)
    also have "\<dots> \<le> 2 ^ 1024" by simp
    finally show ?thesis by simp
  qed
  have fin: "of_int (int n * 2 ^ k) * (1 / 2 ^ k) = (of_nat n :: rat)"
    by simp
  show ?thesis
    using False small
    by (simp only: f64_round_def abs_of_nat e u r fin Let_def of_nat_eq_0_iff if_False not_le [symmetric])
qed

section \<open>Addition, division and durations in seconds\<close>

text \<open>
  A zero divisor gives an infinity with the sign of the dividend, the zeros being positive here.
\<close>

fun f64_add :: "f64 \<Rightarrow> f64 \<Rightarrow> f64" where
  "f64_add NaN y = NaN"
| "f64_add x NaN = NaN"
| "f64_add (Fin a) (Fin b) = f64_round (a + b)"
| "f64_add PosInf NegInf = NaN"
| "f64_add NegInf PosInf = NaN"
| "f64_add PosInf y = PosInf"
| "f64_add NegInf y = NegInf"
| "f64_add x PosInf = PosInf"
| "f64_add x NegInf = NegInf"

fun f64_div :: "f64 \<Rightarrow> f64 \<Rightarrow> f64" where
  "f64_div NaN y = NaN"
| "f64_div x NaN = NaN"
| "f64_div (Fin a) (Fin b) =
     (if b = 0 then (if a = 0 then NaN else if 0 < a then PosInf else NegInf) else f64_round (a / b))"
| "f64_div (Fin a) PosInf = Fin 0"
| "f64_div (Fin a) NegInf = Fin 0"
| "f64_div PosInf (Fin b) = (if b < 0 then NegInf else PosInf)"
| "f64_div NegInf (Fin b) = (if b < 0 then PosInf else NegInf)"
| "f64_div PosInf PosInf = NaN"
| "f64_div PosInf NegInf = NaN"
| "f64_div NegInf PosInf = NaN"
| "f64_div NegInf NegInf = NaN"

text \<open>\<open>x > 0.0\<close>.\<close>

fun f64_positive :: "f64 \<Rightarrow> bool" where
  "f64_positive (Fin a) = (0 < a)"
| "f64_positive PosInf = True"
| "f64_positive NegInf = False"
| "f64_positive NaN = False"

text \<open>
  \<open>Duration::as_secs_f64\<close>, and \<open>Duration::from_secs_f64\<close>, which rounds to the nearest
  nanosecond and panics (\<open>None\<close>) on a negative, infinite, NaN or too large argument.
\<close>

definition as_secs_f64 :: "duration \<Rightarrow> f64" where
  "as_secs_f64 d =
     f64_add (f64_of_nat (d div 1000000000))
       (f64_div (f64_of_nat (d mod 1000000000)) (f64_of_nat 1000000000))"

fun from_secs_f64 :: "f64 \<Rightarrow> duration option" where
  "from_secs_f64 (Fin a) =
     (let n = round_half_even (a * 1000000000)
      in if a < 0 \<or> int (2 ^ 64 * 1000000000) \<le> n then None else Some (nat n))"
| "from_secs_f64 PosInf = None"
| "from_secs_f64 NegInf = None"
| "from_secs_f64 NaN = None"

lemma as_secs_f64_whole:
  assumes "s < 2 ^ 53"
  shows "as_secs_f64 (s * 1000000000) = Fin (of_nat s)"
proof -
  have z: "f64_of_nat 0 = Fin 0" by (simp add: f64_of_nat_def f64_round_def)
  have b: "f64_of_nat 1000000000 = Fin 1000000000"
    using f64_round_small_nat [of 1000000000] by (simp add: f64_of_nat_def)
  have s: "f64_of_nat s = Fin (of_nat s)" using assms by (simp add: f64_of_nat_def f64_round_small_nat)
  have "f64_div (Fin 0) (Fin 1000000000) = Fin 0" by (simp add: f64_round_def)
  then show ?thesis
    using f64_round_small_nat [OF assms] by (simp add: as_secs_f64_def z b s)
qed

section \<open>Doubles near \<open>u64::MAX\<close>\<close>

lemma floorlog_2_eqI: "2 ^ k \<le> n \<Longrightarrow> n < 2 ^ Suc k \<Longrightarrow> floorlog 2 n = Suc k"
  using floorlog_geI [of 2 "Suc k" n] floorlog_leI [of n 2 "Suc k"] by simp

lemma f64_round_2_64: "f64_round (2 ^ 64) = Fin (2 ^ 64)"
proof -
  have "rat_exponent (of_nat (2 ^ 64)) = 64"
    using floorlog_2_eqI [of 64 "2 ^ 64"] by (subst rat_exponent_of_nat) simp_all
  then have e: "max (rat_exponent \<bar>2 ^ 64\<bar>) (- 1022) = 64" by simp
  have u: "pow2 (64 - 52) = 4096" by (simp add: pow2_def)
  have r: "round_half_even (2 ^ 64 / 4096) = 2 ^ 52"
    using round_half_even_of_int [of "2 ^ 52"] by simp
  show ?thesis unfolding f64_round_def e u r Let_def by simp
qed

lemma f64_of_u64_max: "f64_of_nat u64_max = Fin (2 ^ 64)"
proof -
  have "rat_exponent (of_nat u64_max) = 63"
    using floorlog_2_eqI [of 63 u64_max] by (subst rat_exponent_of_nat) (simp_all add: u64_max_def)
  then have e: "max (rat_exponent \<bar>of_nat u64_max\<bar>) (- 1022) = 63" by simp
  have u: "pow2 (63 - 52) = 2048" by (simp add: pow2_def)
  have f: "\<lfloor>of_nat u64_max / 2048 :: rat\<rfloor> = 2 ^ 53 - 1"
    by (rule floor_unique) (simp_all add: u64_max_def)
  have r: "round_half_even (of_nat u64_max / 2048) = 2 ^ 53"
    unfolding round_half_even_def f Let_def by (simp add: u64_max_def)
  show ?thesis unfolding f64_of_nat_def f64_round_def e u r Let_def by (simp add: u64_max_def)
qed

end
