(* ===== verification/Retry_Policy.thy ===== *)
theory Retry_Policy
  imports Float64
begin

text \<open>
  The retry policy of \<open>src/src/retry.rs\<close>. The delay is computed in \<open>f64\<close>
  milliseconds; \<open>f64::powi\<close>, whose precision the standard library leaves open, is the
  parameter \<open>f64_powi\<close>.
\<close>

record retry_policy =
  rp_max_retries :: nat
  rp_initial_delay :: duration
  rp_max_delay :: duration
  rp_multiplier :: f64

definition from_millis :: "nat \<Rightarrow> duration" where
  "from_millis ms = ms * 1000000"

definition as_millis :: "duration \<Rightarrow> nat" where
  "as_millis d = d div 1000000"

definition from_secs :: "nat \<Rightarrow> duration" where
  "from_secs s = s * 1000000000"

definition rp_exponential :: "nat \<Rightarrow> retry_policy" where
  "rp_exponential max_retries =
     \<lparr>rp_max_retries = max_retries, rp_initial_delay = from_millis 100,
      rp_max_delay = from_secs 30, rp_multiplier = Fin 2\<rparr>"

definition rp_fixed :: "nat \<Rightarrow> duration \<Rightarrow> retry_policy" where
  "rp_fixed max_retries delay =
     \<lparr>rp_max_retries = max_retries, rp_initial_delay = delay,
      rp_max_delay = delay, rp_multiplier = Fin 1\<rparr>"

definition rp_none :: retry_policy where
  "rp_none =
     \<lparr>rp_max_retries = 0, rp_initial_delay = from_secs 0,
      rp_max_delay = from_secs 0, rp_multiplier = Fin 1\<rparr>"

text \<open>The cast \<open>n as i32\<close> of a \<open>u32\<close>.\<close>

definition i32_of_u32 :: "nat \<Rightarrow> int" where
  "i32_of_u32 n = (if n < 2 ^ 31 then int n else int n - 2 ^ 32)"

definition delay_for_attempt :: "(f64 \<Rightarrow> int \<Rightarrow> f64) \<Rightarrow> retry_policy \<Rightarrow> nat \<Rightarrow> duration" where
  "delay_for_attempt f64_powi p attempt =
     (if attempt = 0 \<or> rp_max_retries p = 0 then from_secs 0
      else
        let delay_ms = f64_mul (f64_of_nat (as_millis (rp_initial_delay p)))
                         (f64_powi (rp_multiplier p) (i32_of_u32 (attempt - 1)));
            delay = from_millis (f64_to_u64 delay_ms)
        in min delay (rp_max_delay p))"

definition rp_should_retry :: "retry_policy \<Rightarrow> nat \<Rightarrow> bool" where
  "rp_should_retry p attempt \<longleftrightarrow> attempt < rp_max_retries p"

section \<open>Properties\<close>

lemma f64_of_nat_small: "n < 2 ^ 53 \<Longrightarrow> f64_of_nat n = Fin (of_nat n)"
  by (simp add: f64_of_nat_def f64_round_small_nat)

lemma f64_to_u64_of_nat: "n \<le> u64_max \<Longrightarrow> f64_to_u64 (Fin (of_nat n)) = n"
  by (cases "n = 0") simp_all

lemma two_53_le_u64_max: "n < 2 ^ 53 \<Longrightarrow> n \<le> u64_max"
  by (simp add: u64_max_def)

text \<open>Multiplying small integers in \<open>f64\<close> and casting back is integer multiplication.\<close>

lemma f64_to_u64_mul_small:
  assumes "a * b < 2 ^ 53" "0 < b"
  shows "f64_to_u64 (f64_mul (f64_of_nat a) (Fin (of_nat b))) = a * b"
proof -
  have "a \<le> a * b" using assms(2) by simp
  with assms(1) have a: "a < 2 ^ 53" by linarith
  have "f64_mul (f64_of_nat a) (Fin (of_nat b)) = f64_round (of_nat (a * b))"
    using a by (simp add: f64_of_nat_small)
  also have "\<dots> = Fin (of_nat (a * b))"
    using assms(1) by (rule f64_round_small_nat)
  finally show ?thesis
    using assms(1) f64_to_u64_of_nat two_53_le_u64_max by metis
qed

lemma delay_for_attempt_le_max: "delay_for_attempt f64_powi p attempt \<le> rp_max_delay p"
  by (simp add: delay_for_attempt_def from_secs_def Let_def)

lemma delay_for_attempt_fixed_ms:
  assumes f64_powi: "\<And>k. f64_powi (Fin 1) k = Fin 1"
    and ms: "as_millis d < 2 ^ 53" and "0 < n" "0 < attempt"
  shows "delay_for_attempt f64_powi (rp_fixed n d) attempt = from_millis (as_millis d)"
proof -
  have "f64_to_u64 (f64_mul (f64_of_nat (as_millis d)) (Fin 1)) = as_millis d"
    using f64_to_u64_mul_small [of "as_millis d" 1] ms by simp
  moreover have "from_millis (as_millis d) \<le> d"
    by (simp add: from_millis_def as_millis_def)
  ultimately show ?thesis
    using assms by (simp add: delay_for_attempt_def rp_fixed_def f64_powi Let_def)
qed

lemma delay_for_attempt_exponential:
  assumes f64_powi: "\<And>k. f64_powi (Fin 2) (int k) = f64_round (2 ^ k)"
    and "0 < n" and a: "0 < attempt" "attempt \<le> 40"
  shows "delay_for_attempt f64_powi (rp_exponential n) attempt
           = min (from_millis (100 * 2 ^ (attempt - 1))) (from_secs 30)"
proof -
  let ?k = "attempt - 1"
  have k: "?k \<le> 39" using a by simp
  have p: "(2::nat) ^ ?k \<le> 2 ^ 39"
    using k by (intro power_increasing) auto
  have "f64_round (2 ^ ?k) = Fin (of_nat (2 ^ ?k))"
    using f64_round_small_nat [of "2 ^ ?k"] p by simp
  moreover have "f64_to_u64 (f64_mul (f64_of_nat 100) (Fin (of_nat (2 ^ ?k)))) = 100 * 2 ^ ?k"
    using p by (intro f64_to_u64_mul_small) auto
  moreover have "i32_of_u32 ?k = int ?k"
    using k by (simp add: i32_of_u32_def)
  ultimately show ?thesis
    using assms(2) a f64_powi [of ?k]
    by (simp add: delay_for_attempt_def rp_exponential_def as_millis_def from_millis_def Let_def)
qed

text \<open>
  A concrete \<open>f64::powi\<close>: the exact power, rounded once.
\<close>

definition powi_rounded :: "f64 \<Rightarrow> int \<Rightarrow> f64" where
  "powi_rounded x k =
     (case x of
        Fin a \<Rightarrow> f64_round (if 0 \<le> k then a ^ nat k else 1 / a ^ nat (- k))
      | _ \<Rightarrow> NaN)"

text \<open>
  Whatever the policy, the attempt and the behaviour of \<open>f64::powi\<close>, also for infinite and
  NaN products, the delay never exceeds \<open>max_delay\<close>, and there is no delay
  before the first attempt or without retries.
\<close>

theorem delay_bounded:
  "delay_for_attempt f64_powi p attempt \<le> rp_max_delay p
   \<and> delay_for_attempt f64_powi p 0 = 0 \<and> delay_for_attempt f64_powi rp_none attempt = 0"
  by (simp add: delay_for_attempt_le_max delay_for_attempt_def from_secs_def rp_none_def)

text \<open>
  A fixed policy waits the configured delay truncated to whole milliseconds before every
  retry; the exponential one waits \<open>100ms * 2 ^ (attempt - 1)\<close>, at most 30 seconds.
\<close>

theorem retry_delays:
  assumes one: "\<And>k. f64_powi (Fin 1) k = Fin 1"
    and two: "\<And>k. f64_powi (Fin 2) (int k) = f64_round (2 ^ k)"
    and "0 < n" "0 < attempt" "as_millis d < 2 ^ 53"
  shows "delay_for_attempt f64_powi (rp_fixed n d) attempt = from_millis (as_millis d)
    \<and> (attempt \<le> 40 \<longrightarrow> delay_for_attempt f64_powi (rp_exponential n) attempt
          = min (from_millis (100 * 2 ^ (attempt - 1))) (from_secs 30))"
  using delay_for_attempt_fixed_ms [of f64_powi, OF one assms(5,3,4)]
    delay_for_attempt_exponential [of f64_powi, OF two assms(3,4)] by simp

theorem retry_delays_witness:
  "delay_for_attempt powi_rounded (rp_fixed 3 1500000) 2 = 1000000
   \<and> delay_for_attempt powi_rounded (rp_exponential 3) 3 = 400000000"
proof -
  have one: "powi_rounded (Fin 1) k = Fin 1" for k
    using f64_round_small_nat [of 1] by (simp add: powi_rounded_def)
  have two: "powi_rounded (Fin 2) (int k) = f64_round (2 ^ k)" for k
    by (simp add: powi_rounded_def)
  show ?thesis
    using retry_delays [OF one two, of 3 2 1500000] retry_delays [OF one two, of 3 3 1500000]
    by (simp add: as_millis_def from_millis_def from_secs_def)
qed

end
