(* ===== verification/Job_Types.thy ===== *)
theory Job_Types
  imports Lane_Error Retry_Policy
begin

text \<open>
  The data model of \<open>src/src/job/types.rs\<close>: states, options, jobs, events, flow
  dependency buckets, pages and snapshots, with the validation functions and the job
  constructor. Record fields carry a prefix per type (\<open>j_\<close> for \<open>Job\<close>, \<open>jo_\<close> for
  \<open>JobOptions\<close>, and so on).

  Code outside the repository is collected in \<open>externals\<close>, an argument of every
  definition that uses it: chrono's checked date arithmetic, the cron crate, \<open>f64::powi\<close> and
  the iteration order of hash maps. A random \<open>Uuid\<close> and a clock reading are arguments
  of the operation that draws them.
\<close>

section \<open>Code outside the repository\<close>

record externals =
  ext_from_std :: "duration \<Rightarrow> int option"
    \<comment> \<open>\<open>chrono::Duration::from_std\<close>\<close>
  ext_checked_add_signed :: "instant \<Rightarrow> int \<Rightarrow> instant option"
  ext_checked_sub_signed :: "instant \<Rightarrow> int \<Rightarrow> instant option"
  ext_timestamp_millis :: "instant \<Rightarrow> int"
  ext_cron_from_str :: "string \<Rightarrow> string + nat"
    \<comment> \<open>\<open>cron::Schedule::from_str\<close>: an error text, or a handle of the schedule\<close>
  ext_cron_next_after :: "nat \<Rightarrow> instant \<Rightarrow> instant option"
    \<comment> \<open>\<open>schedule.after(&t).next()\<close>\<close>
  ext_powi :: "f64 \<Rightarrow> int \<Rightarrow> f64"
  ext_hash_rank :: hash_rank

text \<open>\<open>serde_json::Value\<close>; numbers by their mathematical value.\<close>

datatype json =
    JNull
  | JBool bool
  | JNumber rat
  | JString string
  | JArray "json list"
  | JObject "(string \<times> json) list"

definition json_of_int :: "int \<Rightarrow> json" where
  "json_of_int i = JNumber (of_int i)"

text \<open>\<open>add_duration\<close> and \<open>subtract_duration\<close>: on overflow the instant is left unchanged.\<close>

definition add_duration :: "externals \<Rightarrow> instant \<Rightarrow> duration \<Rightarrow> instant" where
  "add_duration ext t d =
     (case ext_from_std ext d of
        Some delta \<Rightarrow> (case ext_checked_add_signed ext t delta of Some t' \<Rightarrow> t' | None \<Rightarrow> t)
      | None \<Rightarrow> t)"

definition subtract_duration :: "externals \<Rightarrow> instant \<Rightarrow> duration \<Rightarrow> instant" where
  "subtract_duration ext t d =
     (case ext_from_std ext d of
        Some delta \<Rightarrow> (case ext_checked_sub_signed ext t delta of Some t' \<Rightarrow> t' | None \<Rightarrow> t)
      | None \<Rightarrow> t)"

section \<open>Priorities and states\<close>

type_synonym job_id = string
type_synonym job_priority = nat

definition DEFAULT_JOB_PRIORITY :: job_priority where
  "DEFAULT_JOB_PRIORITY = 1000"

definition MAX_JOB_PRIORITY :: job_priority where
  "MAX_JOB_PRIORITY = 2 ^ 21"

definition DEFAULT_JOB_EVENT_RETENTION :: nat where
  "DEFAULT_JOB_EVENT_RETENTION = 10000"

definition validate_job_priority :: "job_priority \<Rightarrow> unit result" where
  "validate_job_priority p =
     (if p > MAX_JOB_PRIORITY
      then Inl (ConfigError (''priority must be between 0 and '' @ show_nat MAX_JOB_PRIORITY))
      else Inr ())"

record job_rate_limit =
  rl_max_claims :: nat
  rl_window :: duration

definition rate_limit_validate :: "job_rate_limit \<Rightarrow> unit result" where
  "rate_limit_validate r =
     (if rl_max_claims r = 0
      then Inl (ConfigError ''job claim rate limit max_claims must be greater than zero'')
      else if rl_window r = 0
      then Inl (ConfigError ''job claim rate limit window must be greater than zero'')
      else Inr ())"

datatype job_state = Waiting | Delayed | Active | WaitingChildren | Completed | Failed

definition all_states :: "job_state list" where
  "all_states = [Waiting, Delayed, Active, WaitingChildren, Completed, Failed]"

definition pending_states :: "job_state list" where
  "pending_states = [Waiting, Delayed, WaitingChildren]"

definition is_terminal :: "job_state \<Rightarrow> bool" where
  "is_terminal s \<longleftrightarrow> s = Completed \<or> s = Failed"

lemma is_terminal_simps [simp]:
  "\<not> is_terminal Waiting" "\<not> is_terminal Delayed" "\<not> is_terminal Active"
  "\<not> is_terminal WaitingChildren" "is_terminal Completed" "is_terminal Failed"
  by (simp_all add: is_terminal_def)

text \<open>The derived \<open>Debug\<close> form used in error texts.\<close>

fun debug_state :: "job_state \<Rightarrow> string" where
  "debug_state Waiting = ''Waiting''"
| "debug_state Delayed = ''Delayed''"
| "debug_state Active = ''Active''"
| "debug_state WaitingChildren = ''WaitingChildren''"
| "debug_state Completed = ''Completed''"
| "debug_state Failed = ''Failed''"

record job_event =
  ev_id :: string
  ev_event :: string
  ev_timestamp :: instant
  ev_job_id :: "job_id option"
  ev_prev :: "job_state option"
  ev_fields :: "(string \<times> json) list"

record job_state_count =
  sc_state :: job_state
  sc_count :: nat

record job_priority_count =
  pc_priority :: job_priority
  pc_count :: nat

record job_log_entry =
  log_timestamp :: instant
  log_line :: string

record job_log_page =
  lp_logs :: "job_log_entry list"
  lp_count :: nat

section \<open>Listing options\<close>

record job_list_options =
  lo_state :: "job_state option"
  lo_states :: "job_state list"
  lo_offset :: nat
  lo_limit :: nat
  lo_ascending :: bool

definition list_options_default :: job_list_options where
  "list_options_default =
     \<lparr>lo_state = None, lo_states = [], lo_offset = 0, lo_limit = 100, lo_ascending = True\<rparr>"

definition lo_with_state :: "job_state \<Rightarrow> job_list_options \<Rightarrow> job_list_options" where
  "lo_with_state st o' = o'\<lparr>lo_state := Some st, lo_states := []\<rparr>"

definition lo_with_states :: "job_state list \<Rightarrow> job_list_options \<Rightarrow> job_list_options" where
  "lo_with_states sts o' = o'\<lparr>lo_state := None, lo_states := unique_in_order sts\<rparr>"

definition selected_states :: "job_list_options \<Rightarrow> job_state list" where
  "selected_states o' =
     (if lo_states o' \<noteq> [] then unique_in_order (lo_states o')
      else case lo_state o' of Some st \<Rightarrow> [st] | None \<Rightarrow> all_states)"

section \<open>Repeat options\<close>

datatype repeat_schedule = Every duration | Cron string

record repeat_options =
  ro_schedule :: repeat_schedule
  ro_limit :: "nat option"
  ro_end_at :: "instant option"
  ro_key :: "string option"

definition repeat_every :: "duration \<Rightarrow> repeat_options" where
  "repeat_every interval =
     \<lparr>ro_schedule = Every interval, ro_limit = None, ro_end_at = None, ro_key = None\<rparr>"

definition repeat_cron :: "string \<Rightarrow> repeat_options" where
  "repeat_cron expression =
     \<lparr>ro_schedule = Cron expression, ro_limit = None, ro_end_at = None, ro_key = None\<rparr>"

fun repeat_interval :: "repeat_options \<Rightarrow> duration option" where
  "repeat_interval r = (case ro_schedule r of Every interval \<Rightarrow> Some interval | Cron _ \<Rightarrow> None)"

fun repeat_cron_expression :: "repeat_options \<Rightarrow> string option" where
  "repeat_cron_expression r = (case ro_schedule r of Every _ \<Rightarrow> None | Cron expression \<Rightarrow> Some expression)"

definition parse_cron_expression :: "externals \<Rightarrow> string \<Rightarrow> nat result" where
  "parse_cron_expression ext expression =
     (let e = trim expression
      in if e = [] then Inl (ConfigError ''repeat cron expression must not be empty'')
         else case ext_cron_from_str ext e of
                Inl err \<Rightarrow> Inl (ConfigError (''invalid repeat cron expression `'' @ e @ ''`: '' @ err))
              | Inr schedule \<Rightarrow> Inr schedule)"

definition repeat_validate :: "externals \<Rightarrow> repeat_options \<Rightarrow> unit result" where
  "repeat_validate ext r =
     and_then
       (case ro_schedule r of
          Every interval \<Rightarrow>
            (if interval = 0 then Inl (ConfigError ''repeat interval must be greater than zero'')
             else Inr ())
        | Cron expression \<Rightarrow> and_then (parse_cron_expression ext expression) (\<lambda>_. Inr ()))
       (\<lambda>_. if ro_limit r = Some 0
             then Inl (ConfigError ''repeat limit must be greater than zero'')
             else Inr ())"

definition next_scheduled_at :: "externals \<Rightarrow> repeat_options \<Rightarrow> instant \<Rightarrow> instant option result" where
  "next_scheduled_at ext r after =
     (case ro_schedule r of
        Every interval \<Rightarrow> Inr (Some (add_duration ext after interval))
      | Cron expression \<Rightarrow>
          and_then (parse_cron_expression ext expression)
            (\<lambda>schedule. Inr (ext_cron_next_after ext schedule after)))"

section \<open>Deduplication, retention and job options\<close>

record dedup_options =
  do_id :: string
  do_ttl :: "duration option"
  do_replace :: bool
  do_keep_last_if_active :: bool
  do_extend :: bool

definition dedup_new :: "string \<Rightarrow> dedup_options" where
  "dedup_new i =
     \<lparr>do_id = i, do_ttl = None, do_replace = False, do_keep_last_if_active = False, do_extend = False\<rparr>"

definition dedup_validate :: "dedup_options \<Rightarrow> unit result" where
  "dedup_validate d =
     (if trim (do_id d) = [] then Inl (ConfigError ''deduplication id must not be empty'')
      else if do_ttl d = Some 0 then Inl (ConfigError ''deduplication ttl must be greater than zero'')
      else Inr ())"

record job_retention =
  rt_age :: "duration option"
  rt_count :: "nat option"
  rt_limit :: "nat option"

definition retention_count :: "nat \<Rightarrow> job_retention" where
  "retention_count n = \<lparr>rt_age = None, rt_count = Some n, rt_limit = None\<rparr>"

definition retention_age :: "duration \<Rightarrow> job_retention" where
  "retention_age d = \<lparr>rt_age = Some d, rt_count = None, rt_limit = None\<rparr>"

definition retention_age_and_count :: "duration \<Rightarrow> nat \<Rightarrow> job_retention" where
  "retention_age_and_count d n = \<lparr>rt_age = Some d, rt_count = Some n, rt_limit = None\<rparr>"

definition removes_current :: "job_retention \<Rightarrow> bool" where
  "removes_current r \<longleftrightarrow> rt_count r = Some 0"

definition retention_validate :: "job_retention \<Rightarrow> string \<Rightarrow> unit result" where
  "retention_validate r field =
     (if rt_age r = None \<and> rt_count r = None
      then Inl (ConfigError (field @ '' must specify an age or count''))
      else if rt_age r = Some 0
      then Inl (ConfigError (field @ '' age must be greater than zero''))
      else if rt_limit r = Some 0
      then Inl (ConfigError (field @ '' limit must be greater than zero''))
      else Inr ())"

record job_options =
  jo_job_id :: "job_id option"
  jo_priority :: job_priority
  jo_lifo :: bool
  jo_delay :: "duration option"
  jo_retry_policy :: retry_policy
  jo_timeout :: "duration option"
  jo_remove_on_complete :: bool
  jo_completion_retention :: "job_retention option"
  jo_remove_on_fail :: bool
  jo_failure_retention :: "job_retention option"
  jo_max_stalled_count :: nat
  jo_repeat :: "repeat_options option"
  jo_deduplication :: "dedup_options option"
  jo_ignore_dependency_on_failure :: bool
  jo_remove_dependency_on_failure :: bool
  jo_continue_parent_on_failure :: bool
  jo_fail_parent_on_failure :: bool

definition job_options_default :: job_options where
  "job_options_default =
     \<lparr>jo_job_id = None, jo_priority = DEFAULT_JOB_PRIORITY, jo_lifo = False, jo_delay = None,
      jo_retry_policy = rp_none, jo_timeout = None, jo_remove_on_complete = False,
      jo_completion_retention = None, jo_remove_on_fail = False, jo_failure_retention = None,
      jo_max_stalled_count = 1, jo_repeat = None, jo_deduplication = None,
      jo_ignore_dependency_on_failure = False, jo_remove_dependency_on_failure = False,
      jo_continue_parent_on_failure = False, jo_fail_parent_on_failure = False\<rparr>"

text \<open>The builder methods that touch more than one field.\<close>

definition remove_on_complete :: "bool \<Rightarrow> job_options \<Rightarrow> job_options" where
  "remove_on_complete b o' = o'\<lparr>jo_remove_on_complete := b, jo_completion_retention := None\<rparr>"

definition with_completion_retention :: "job_retention \<Rightarrow> job_options \<Rightarrow> job_options" where
  "with_completion_retention r o' =
     o'\<lparr>jo_remove_on_complete := False, jo_completion_retention := Some r\<rparr>"

definition remove_on_fail :: "bool \<Rightarrow> job_options \<Rightarrow> job_options" where
  "remove_on_fail b o' = o'\<lparr>jo_remove_on_fail := b, jo_failure_retention := None\<rparr>"

definition with_failure_retention :: "job_retention \<Rightarrow> job_options \<Rightarrow> job_options" where
  "with_failure_retention r o' =
     o'\<lparr>jo_remove_on_fail := False, jo_failure_retention := Some r\<rparr>"

definition with_deduplication_id :: "string \<Rightarrow> job_options \<Rightarrow> job_options" where
  "with_deduplication_id i o' = o'\<lparr>jo_deduplication := Some (dedup_new i)\<rparr>"

text \<open>\<open>is_bullmq_integer_job_id\<close> and \<open>validate_job_id\<close>.\<close>

definition digit_1_9 :: "char \<Rightarrow> bool" where
  "digit_1_9 c \<longleftrightarrow> 49 \<le> (of_char c :: nat) \<and> (of_char c :: nat) \<le> 57"

fun is_bullmq_integer_job_id :: "job_id \<Rightarrow> bool" where
  "is_bullmq_integer_job_id [] = False"
| "is_bullmq_integer_job_id (c # rest) =
     (if c = CHR ''-''
      then (case rest of [] \<Rightarrow> False | d # ds \<Rightarrow> digit_1_9 d \<and> list_all is_ascii_digit ds)
      else if digit_1_9 c then list_all is_ascii_digit rest
      else False)"

definition validate_job_id :: "job_id \<Rightarrow> unit result" where
  "validate_job_id job_id =
     (if trim job_id = [] then Inl (ConfigError ''job id must not be empty'')
      else if job_id = ''0'' \<or> starts_with job_id ''0:''
      then Inl (ConfigError ''job id cannot be `0` or start with `0:`'')
      else if is_bullmq_integer_job_id job_id
      then Inl (ConfigError ''custom job id cannot be an integer'')
      else Inr ())"

definition flow_failure_policies :: "job_options \<Rightarrow> nat" where
  "flow_failure_policies o' =
     length (filter (\<lambda>enabled. enabled)
       [jo_ignore_dependency_on_failure o', jo_remove_dependency_on_failure o',
        jo_continue_parent_on_failure o', jo_fail_parent_on_failure o'])"

definition opt_validate :: "('a \<Rightarrow> unit result) \<Rightarrow> 'a option \<Rightarrow> unit result" where
  "opt_validate f x = (case x of None \<Rightarrow> Inr () | Some v \<Rightarrow> f v)"

definition options_validate :: "externals \<Rightarrow> job_options \<Rightarrow> unit result" where
  "options_validate ext o' =
     and_then (opt_validate validate_job_id (jo_job_id o')) (\<lambda>_.
     and_then (validate_job_priority (jo_priority o')) (\<lambda>_.
     and_then (opt_validate (repeat_validate ext) (jo_repeat o')) (\<lambda>_.
     and_then (opt_validate dedup_validate (jo_deduplication o')) (\<lambda>_.
     and_then (opt_validate (\<lambda>r. retention_validate r ''completion retention'')
                (jo_completion_retention o')) (\<lambda>_.
     and_then (opt_validate (\<lambda>r. retention_validate r ''failure retention'')
                (jo_failure_retention o')) (\<lambda>_.
     if flow_failure_policies o' > 1
     then Inl (ConfigError ''flow child failure policies are mutually exclusive'')
     else Inr ()))))))"

definition removes_completed_immediately :: "job_options \<Rightarrow> bool" where
  "removes_completed_immediately o' \<longleftrightarrow>
     jo_remove_on_complete o'
     \<or> (case jo_completion_retention o' of None \<Rightarrow> False | Some r \<Rightarrow> removes_current r)"

definition completed_retention :: "job_options \<Rightarrow> job_retention option" where
  "completed_retention o' =
     (if jo_remove_on_complete o' then None
      else case jo_completion_retention o' of
             None \<Rightarrow> None
           | Some r \<Rightarrow> if \<not> removes_current r then Some r else None)"

definition removes_failed_immediately :: "job_options \<Rightarrow> bool" where
  "removes_failed_immediately o' \<longleftrightarrow>
     jo_remove_on_fail o'
     \<or> (case jo_failure_retention o' of None \<Rightarrow> False | Some r \<Rightarrow> removes_current r)"

definition failed_retention :: "job_options \<Rightarrow> job_retention option" where
  "failed_retention o' =
     (if jo_remove_on_fail o' then None
      else case jo_failure_retention o' of
             None \<Rightarrow> None
           | Some r \<Rightarrow> if \<not> removes_current r then Some r else None)"

section \<open>Jobs\<close>

record job =
  j_id :: job_id
  j_queue :: string
  j_name :: string
  j_payload :: json
  j_options :: job_options
  j_priority :: job_priority
  j_state :: job_state
  j_attempts_made :: nat
  j_stalled_count :: nat
  j_created_at :: instant
  j_scheduled_at :: instant
  j_enqueued_seq :: nat
  j_processed_at :: "instant option"
  j_finished_at :: "instant option"
  j_worker_id :: "string option"
  j_lock_token :: "string option"
  j_lease_expires_at :: "instant option"
  j_deferred_failure :: "string option"
  j_failed_reason :: "string option"
  j_stacktrace :: "string list"
  j_return_value :: "json option"
  j_progress :: "json option"
  j_logs :: "job_log_entry list"
  j_parent_id :: "job_id option"
  j_child_ids :: "job_id list"
  j_repeat_key :: "string option"
  j_repeat_count :: nat
  j_deduplication_expires_at :: "instant option"

definition deduplication_expiration :: "externals \<Rightarrow> job_options \<Rightarrow> instant \<Rightarrow> instant option" where
  "deduplication_expiration ext o' now =
     (case jo_deduplication o' of
        None \<Rightarrow> None
      | Some d \<Rightarrow>
          if do_keep_last_if_active d then None
          else map_option (\<lambda>ttl. add_duration ext now ttl) (do_ttl d))"

text \<open>\<open>Job::new\<close>; \<open>uuid\<close> is the identifier drawn when the options carry none.\<close>

definition job_new ::
  "externals \<Rightarrow> string \<Rightarrow> string \<Rightarrow> json \<Rightarrow> job_options \<Rightarrow> string \<Rightarrow> instant \<Rightarrow> job" where
  "job_new ext queue name payload options uuid now =
     (let scheduled_at = (case jo_delay options of Some d \<Rightarrow> add_duration ext now d | None \<Rightarrow> now);
          state = (if scheduled_at > now then Delayed else Waiting);
          repeat_key = map_option
            (\<lambda>r. case ro_key r of Some k \<Rightarrow> k | None \<Rightarrow> queue @ '':'' @ name) (jo_repeat options)
      in \<lparr>j_id = (case jo_job_id options of Some i \<Rightarrow> i | None \<Rightarrow> uuid),
          j_queue = queue, j_name = name, j_payload = payload, j_options = options,
          j_priority = jo_priority options, j_state = state, j_attempts_made = 0,
          j_stalled_count = 0, j_created_at = now, j_scheduled_at = scheduled_at,
          j_enqueued_seq = 0, j_processed_at = None, j_finished_at = None,
          j_worker_id = None, j_lock_token = None, j_lease_expires_at = None,
          j_deferred_failure = None, j_failed_reason = None, j_stacktrace = [],
          j_return_value = None, j_progress = None, j_logs = [], j_parent_id = None,
          j_child_ids = [], j_repeat_key = repeat_key, j_repeat_count = 0,
          j_deduplication_expires_at = deduplication_expiration ext options now\<rparr>)"

record job_spec =
  sp_name :: string
  sp_payload :: json
  sp_options :: job_options

record job_flow =
  fl_parent :: job
  fl_children :: "job list"

record job_list_page =
  jp_jobs :: "job list"
  jp_total :: nat
  jp_offset :: nat
  jp_limit :: nat

record job_lease_renewal =
  lr_job_id :: job_id
  lr_lock_token :: string

section \<open>Flow dependency reports\<close>

record flow_dependencies =
  fd_parent :: job
  fd_children :: "job list"
  fd_pending_child_ids :: "job_id list"
  fd_missing_child_ids :: "job_id list"

record flow_counts =
  fc_processed :: nat
  fc_unprocessed :: nat
  fc_failed :: nat
  fc_ignored :: nat
  fc_missing :: nat

datatype dependency_kind = KProcessed | KUnprocessed | KIgnored | KFailed

record count_options =
  co_processed :: bool
  co_unprocessed :: bool
  co_ignored :: bool
  co_failed :: bool

definition count_options_selected :: "count_options \<Rightarrow> dependency_kind list" where
  "count_options_selected o' =
     (let kinds = (if co_processed o' then [KProcessed] else [])
                @ (if co_unprocessed o' then [KUnprocessed] else [])
                @ (if co_ignored o' then [KIgnored] else [])
                @ (if co_failed o' then [KFailed] else [])
      in if kinds = [] then [KProcessed, KUnprocessed, KIgnored, KFailed] else kinds)"

record selected_counts =
  se_processed :: "nat option"
  se_unprocessed :: "nat option"
  se_ignored :: "nat option"
  se_failed :: "nat option"

definition selected_counts_default :: selected_counts where
  "selected_counts_default =
     \<lparr>se_processed = None, se_unprocessed = None, se_ignored = None, se_failed = None\<rparr>"

fun selected_counts_get :: "selected_counts \<Rightarrow> dependency_kind \<Rightarrow> nat option" where
  "selected_counts_get c KProcessed = se_processed c"
| "selected_counts_get c KUnprocessed = se_unprocessed c"
| "selected_counts_get c KIgnored = se_ignored c"
| "selected_counts_get c KFailed = se_failed c"

fun selected_counts_insert :: "dependency_kind \<Rightarrow> nat \<Rightarrow> selected_counts \<Rightarrow> selected_counts" where
  "selected_counts_insert KProcessed n c = c\<lparr>se_processed := Some n\<rparr>"
| "selected_counts_insert KUnprocessed n c = c\<lparr>se_unprocessed := Some n\<rparr>"
| "selected_counts_insert KIgnored n c = c\<lparr>se_ignored := Some n\<rparr>"
| "selected_counts_insert KFailed n c = c\<lparr>se_failed := Some n\<rparr>"

record flow_values =
  fv_processed :: "(job_id, json) hmap"
  fv_unprocessed :: "job_id list"
  fv_failed :: "job_id list"
  fv_ignored :: "(job_id, string) hmap"

record page_options =
  po_kind :: dependency_kind
  po_cursor :: nat
  po_count :: nat

record page_cursor =
  cu_cursor :: nat
  cu_count :: nat

record pages_options =
  ps_processed :: "page_cursor option"
  ps_unprocessed :: "page_cursor option"
  ps_ignored :: "page_cursor option"
  ps_failed :: "page_cursor option"

definition pages_options_selected :: "pages_options \<Rightarrow> page_options list" where
  "pages_options_selected o' =
     List.map_filter
       (\<lambda>(kind, cursor). map_option
          (\<lambda>c. \<lparr>po_kind = kind, po_cursor = cu_cursor c, po_count = cu_count c\<rparr>) cursor)
       [(KProcessed, ps_processed o'), (KUnprocessed, ps_unprocessed o'),
        (KIgnored, ps_ignored o'), (KFailed, ps_failed o')]"

datatype page_item =
    PProcessed job_id json
  | PUnprocessed job_id
  | PIgnored job_id string
  | PFailed job_id

record dependency_page =
  dp_kind :: dependency_kind
  dp_items :: "page_item list"
  dp_next_cursor :: nat
  dp_count :: nat

record dependency_pages =
  dps_processed :: "dependency_page option"
  dps_unprocessed :: "dependency_page option"
  dps_ignored :: "dependency_page option"
  dps_failed :: "dependency_page option"

definition dependency_pages_default :: dependency_pages where
  "dependency_pages_default =
     \<lparr>dps_processed = None, dps_unprocessed = None, dps_ignored = None, dps_failed = None\<rparr>"

fun dependency_pages_get :: "dependency_pages \<Rightarrow> dependency_kind \<Rightarrow> dependency_page option" where
  "dependency_pages_get p KProcessed = dps_processed p"
| "dependency_pages_get p KUnprocessed = dps_unprocessed p"
| "dependency_pages_get p KIgnored = dps_ignored p"
| "dependency_pages_get p KFailed = dps_failed p"

definition dependency_pages_insert :: "dependency_page \<Rightarrow> dependency_pages \<Rightarrow> dependency_pages" where
  "dependency_pages_insert page p =
     (case dp_kind page of
        KProcessed \<Rightarrow> p\<lparr>dps_processed := Some page\<rparr>
      | KUnprocessed \<Rightarrow> p\<lparr>dps_unprocessed := Some page\<rparr>
      | KIgnored \<Rightarrow> p\<lparr>dps_ignored := Some page\<rparr>
      | KFailed \<Rightarrow> p\<lparr>dps_failed := Some page\<rparr>)"

datatype finished_result =
    NotFinished
  | FinishedCompleted "json option"
  | FinishedFailed "string option"

section \<open>Repeat reports\<close>

record repeat_entry =
  re_key :: string
  re_job_id :: job_id
  re_name :: string
  re_state :: job_state
  re_scheduled_at :: instant
  re_repeat_count :: nat
  re_options :: repeat_options

record repeat_list_options =
  rlo_offset :: nat
  rlo_limit :: nat
  rlo_ascending :: bool

record repeat_page =
  rpg_repeats :: "repeat_entry list"
  rpg_total :: nat
  rpg_offset :: nat
  rpg_limit :: nat

definition repeat_page_cmp :: "bool \<Rightarrow> repeat_entry comparator" where
  "repeat_page_cmp ascending =
     (let order = then_with (by_key re_scheduled_at) (then_with (by_key re_key) (by_key re_job_id))
      in if ascending then order else reversed order)"

definition page_repeat_entries :: "repeat_entry list \<Rightarrow> repeat_list_options \<Rightarrow> repeat_page" where
  "page_repeat_entries repeats o' =
     (let sorted = Sorting_Algorithms.sort (repeat_page_cmp (rlo_ascending o')) repeats
      in \<lparr>rpg_repeats = take (rlo_limit o') (drop (rlo_offset o') sorted),
          rpg_total = length repeats, rpg_offset = rlo_offset o', rpg_limit = rlo_limit o'\<rparr>)"

section \<open>Statistics and snapshots\<close>

record queue_stats =
  st_total :: nat
  st_waiting :: nat
  st_delayed :: nat
  st_active :: nat
  st_waiting_children :: nat
  st_completed :: nat
  st_failed :: nat
  st_paused :: bool

record flow_dependency_index =
  fx_parent_id :: job_id
  fx_processed :: "(job_id, json) hmap"
  fx_ignored :: "(job_id, string) hmap"
  fx_failed :: "job_id list"

record queue_snapshot =
  qs_queue :: string
  qs_paused :: bool
  qs_events :: "job_event list"
  qs_event_sequence :: nat
  qs_jobs :: "job list"
  qs_deduplication_next_jobs :: "job list"
  qs_deduplication_next_flows :: "job_flow list"
  qs_released_deduplication_owners :: "(string \<times> job_id) list"
  qs_flow_dependency_indexes :: "flow_dependency_index list"

end
