(* ===== verification/Job_Builders.thy ===== *)
theory Job_Builders
  imports Job_Types
begin

text \<open>
  The builder methods of \<open>src/src/job/types.rs\<close> that set one field: rate limits, listing
  options, job specifications, the options of flow reports, repeat, deduplication and retention
  options and job options. Each definition is the method of the same name, prefixed as the
  fields of its record. The last section shows which options the builders can make.
\<close>

section \<open>Rate limits and listing options\<close>

definition rl_new :: "nat \<Rightarrow> duration \<Rightarrow> job_rate_limit" where
  "rl_new max_claims window = \<lparr>rl_max_claims = max_claims, rl_window = window\<rparr>"

definition rl_per_second :: "nat \<Rightarrow> job_rate_limit" where
  "rl_per_second max_claims = rl_new max_claims (from_secs 1)"

definition rl_per_minute :: "nat \<Rightarrow> job_rate_limit" where
  "rl_per_minute max_claims = rl_new max_claims (from_secs 60)"

definition lo_new :: job_list_options where
  "lo_new = list_options_default"

definition lo_with_offset :: "nat \<Rightarrow> job_list_options \<Rightarrow> job_list_options" where
  "lo_with_offset n o' = o'\<lparr>lo_offset := n\<rparr>"

definition lo_with_limit :: "nat \<Rightarrow> job_list_options \<Rightarrow> job_list_options" where
  "lo_with_limit n o' = o'\<lparr>lo_limit := n\<rparr>"

definition lo_set_ascending :: "job_list_options \<Rightarrow> job_list_options" where
  "lo_set_ascending o' = o'\<lparr>lo_ascending := True\<rparr>"

definition lo_set_descending :: "job_list_options \<Rightarrow> job_list_options" where
  "lo_set_descending o' = o'\<lparr>lo_ascending := False\<rparr>"

definition lo_with_ascending :: "bool \<Rightarrow> job_list_options \<Rightarrow> job_list_options" where
  "lo_with_ascending b o' = o'\<lparr>lo_ascending := b\<rparr>"

definition sp_new :: "string \<Rightarrow> json \<Rightarrow> job_spec" where
  "sp_new name payload =
     \<lparr>sp_name = name, sp_payload = payload, sp_options = job_options_default\<rparr>"

definition sp_with_options :: "job_options \<Rightarrow> job_spec \<Rightarrow> job_spec" where
  "sp_with_options options o' = o'\<lparr>sp_options := options\<rparr>"

section \<open>Options of the flow reports\<close>

definition co_new :: count_options where
  "co_new = \<lparr>co_processed = False, co_unprocessed = False, co_ignored = False, co_failed = False\<rparr>"

definition co_all :: count_options where
  "co_all = \<lparr>co_processed = True, co_unprocessed = True, co_ignored = True, co_failed = True\<rparr>"

definition co_with_processed :: "bool \<Rightarrow> count_options \<Rightarrow> count_options" where
  "co_with_processed b o' = o'\<lparr>co_processed := b\<rparr>"

definition co_with_unprocessed :: "bool \<Rightarrow> count_options \<Rightarrow> count_options" where
  "co_with_unprocessed b o' = o'\<lparr>co_unprocessed := b\<rparr>"

definition co_with_ignored :: "bool \<Rightarrow> count_options \<Rightarrow> count_options" where
  "co_with_ignored b o' = o'\<lparr>co_ignored := b\<rparr>"

definition co_with_failed :: "bool \<Rightarrow> count_options \<Rightarrow> count_options" where
  "co_with_failed b o' = o'\<lparr>co_failed := b\<rparr>"

fun co_with_kind :: "dependency_kind \<Rightarrow> bool \<Rightarrow> count_options \<Rightarrow> count_options" where
  "co_with_kind KProcessed b o' = o'\<lparr>co_processed := b\<rparr>"
| "co_with_kind KUnprocessed b o' = o'\<lparr>co_unprocessed := b\<rparr>"
| "co_with_kind KIgnored b o' = o'\<lparr>co_ignored := b\<rparr>"
| "co_with_kind KFailed b o' = o'\<lparr>co_failed := b\<rparr>"

definition po_new :: "dependency_kind \<Rightarrow> page_options" where
  "po_new kind = \<lparr>po_kind = kind, po_cursor = 0, po_count = 20\<rparr>"

definition po_with_cursor :: "nat \<Rightarrow> page_options \<Rightarrow> page_options" where
  "po_with_cursor n o' = o'\<lparr>po_cursor := n\<rparr>"

definition po_with_count :: "nat \<Rightarrow> page_options \<Rightarrow> page_options" where
  "po_with_count n o' = o'\<lparr>po_count := n\<rparr>"

definition cu_default :: page_cursor where
  "cu_default = \<lparr>cu_cursor = 0, cu_count = 20\<rparr>"

definition cu_new :: page_cursor where
  "cu_new = cu_default"

definition cu_with_cursor :: "nat \<Rightarrow> page_cursor \<Rightarrow> page_cursor" where
  "cu_with_cursor n o' = o'\<lparr>cu_cursor := n\<rparr>"

definition cu_with_count :: "nat \<Rightarrow> page_cursor \<Rightarrow> page_cursor" where
  "cu_with_count n o' = o'\<lparr>cu_count := n\<rparr>"

definition cu_of_page_options :: "page_options \<Rightarrow> page_cursor" where
  "cu_of_page_options o' = \<lparr>cu_cursor = po_cursor o', cu_count = po_count o'\<rparr>"

definition ps_new :: pages_options where
  "ps_new = \<lparr>ps_processed = None, ps_unprocessed = None, ps_ignored = None, ps_failed = None\<rparr>"

definition ps_all :: pages_options where
  "ps_all =
     (let cursor = cu_default
      in \<lparr>ps_processed = Some cursor, ps_unprocessed = Some cursor, ps_ignored = Some cursor,
          ps_failed = Some cursor\<rparr>)"

definition ps_with_processed :: "page_cursor \<Rightarrow> pages_options \<Rightarrow> pages_options" where
  "ps_with_processed c o' = o'\<lparr>ps_processed := Some c\<rparr>"

definition ps_with_unprocessed :: "page_cursor \<Rightarrow> pages_options \<Rightarrow> pages_options" where
  "ps_with_unprocessed c o' = o'\<lparr>ps_unprocessed := Some c\<rparr>"

definition ps_with_ignored :: "page_cursor \<Rightarrow> pages_options \<Rightarrow> pages_options" where
  "ps_with_ignored c o' = o'\<lparr>ps_ignored := Some c\<rparr>"

definition ps_with_failed :: "page_cursor \<Rightarrow> pages_options \<Rightarrow> pages_options" where
  "ps_with_failed c o' = o'\<lparr>ps_failed := Some c\<rparr>"

fun ps_with_kind :: "dependency_kind \<Rightarrow> page_cursor \<Rightarrow> pages_options \<Rightarrow> pages_options" where
  "ps_with_kind KProcessed c o' = o'\<lparr>ps_processed := Some c\<rparr>"
| "ps_with_kind KUnprocessed c o' = o'\<lparr>ps_unprocessed := Some c\<rparr>"
| "ps_with_kind KIgnored c o' = o'\<lparr>ps_ignored := Some c\<rparr>"
| "ps_with_kind KFailed c o' = o'\<lparr>ps_failed := Some c\<rparr>"

text \<open>Asking for one bucket reads that bucket alone; asking for none counts all and pages none.\<close>

lemma selected_co_with_kind:
  "count_options_selected (co_with_kind kind True co_new) = [kind]"
  by (cases kind) (simp_all add: count_options_selected_def co_new_def)

lemma selected_co_new: "count_options_selected co_new = count_options_selected co_all"
  by (simp add: count_options_selected_def co_new_def co_all_def)

lemma selected_ps_with_kind:
  "pages_options_selected (ps_with_kind (po_kind o') (cu_of_page_options o') ps_new) = [o']"
  by (cases "po_kind o'")
    (simp_all add: pages_options_selected_def cu_of_page_options_def ps_new_def
      List.map_filter_simps)

section \<open>Repeat, deduplication, retention and job options\<close>

definition ro_with_limit :: "nat \<Rightarrow> repeat_options \<Rightarrow> repeat_options" where
  "ro_with_limit n o' = o'\<lparr>ro_limit := Some n\<rparr>"

definition ro_until :: "instant \<Rightarrow> repeat_options \<Rightarrow> repeat_options" where
  "ro_until end_at o' = o'\<lparr>ro_end_at := Some end_at\<rparr>"

definition ro_with_key :: "string \<Rightarrow> repeat_options \<Rightarrow> repeat_options" where
  "ro_with_key k o' = o'\<lparr>ro_key := Some k\<rparr>"

definition rlo_default :: repeat_list_options where
  "rlo_default = \<lparr>rlo_offset = 0, rlo_limit = 100, rlo_ascending = False\<rparr>"

definition rlo_new :: repeat_list_options where
  "rlo_new = rlo_default"

definition rlo_with_offset :: "nat \<Rightarrow> repeat_list_options \<Rightarrow> repeat_list_options" where
  "rlo_with_offset n o' = o'\<lparr>rlo_offset := n\<rparr>"

definition rlo_with_limit :: "nat \<Rightarrow> repeat_list_options \<Rightarrow> repeat_list_options" where
  "rlo_with_limit n o' = o'\<lparr>rlo_limit := n\<rparr>"

definition rlo_set_ascending :: "repeat_list_options \<Rightarrow> repeat_list_options" where
  "rlo_set_ascending o' = o'\<lparr>rlo_ascending := True\<rparr>"

definition rlo_set_descending :: "repeat_list_options \<Rightarrow> repeat_list_options" where
  "rlo_set_descending o' = o'\<lparr>rlo_ascending := False\<rparr>"

definition do_with_ttl :: "duration \<Rightarrow> dedup_options \<Rightarrow> dedup_options" where
  "do_with_ttl ttl o' = o'\<lparr>do_ttl := Some ttl\<rparr>"

definition do_replace_delayed :: "bool \<Rightarrow> dedup_options \<Rightarrow> dedup_options" where
  "do_replace_delayed b o' = o'\<lparr>do_replace := b\<rparr>"

definition do_keep_last :: "bool \<Rightarrow> dedup_options \<Rightarrow> dedup_options" where
  "do_keep_last b o' = o'\<lparr>do_keep_last_if_active := b\<rparr>"

definition do_extend_ttl :: "bool \<Rightarrow> dedup_options \<Rightarrow> dedup_options" where
  "do_extend_ttl b o' = o'\<lparr>do_extend := b\<rparr>"

definition rt_with_age :: "duration \<Rightarrow> job_retention \<Rightarrow> job_retention" where
  "rt_with_age age o' = o'\<lparr>rt_age := Some age\<rparr>"

definition rt_with_count :: "nat \<Rightarrow> job_retention \<Rightarrow> job_retention" where
  "rt_with_count n o' = o'\<lparr>rt_count := Some n\<rparr>"

definition rt_with_limit :: "nat \<Rightarrow> job_retention \<Rightarrow> job_retention" where
  "rt_with_limit n o' = o'\<lparr>rt_limit := Some n\<rparr>"

definition jo_new :: job_options where
  "jo_new = job_options_default"

definition jo_with_priority :: "job_priority \<Rightarrow> job_options \<Rightarrow> job_options" where
  "jo_with_priority p o' = o'\<lparr>jo_priority := p\<rparr>"

definition jo_with_lifo :: "bool \<Rightarrow> job_options \<Rightarrow> job_options" where
  "jo_with_lifo b o' = o'\<lparr>jo_lifo := b\<rparr>"

definition jo_with_job_id :: "string \<Rightarrow> job_options \<Rightarrow> job_options" where
  "jo_with_job_id i o' = o'\<lparr>jo_job_id := Some i\<rparr>"

definition jo_with_delay :: "duration \<Rightarrow> job_options \<Rightarrow> job_options" where
  "jo_with_delay d o' = o'\<lparr>jo_delay := Some d\<rparr>"

definition jo_with_retry_policy :: "retry_policy \<Rightarrow> job_options \<Rightarrow> job_options" where
  "jo_with_retry_policy r o' = o'\<lparr>jo_retry_policy := r\<rparr>"

definition jo_with_timeout :: "duration \<Rightarrow> job_options \<Rightarrow> job_options" where
  "jo_with_timeout d o' = o'\<lparr>jo_timeout := Some d\<rparr>"

definition jo_with_max_stalled_count :: "nat \<Rightarrow> job_options \<Rightarrow> job_options" where
  "jo_with_max_stalled_count n o' = o'\<lparr>jo_max_stalled_count := n\<rparr>"

definition jo_with_repeat :: "repeat_options \<Rightarrow> job_options \<Rightarrow> job_options" where
  "jo_with_repeat r o' = o'\<lparr>jo_repeat := Some r\<rparr>"

definition jo_with_deduplication :: "dedup_options \<Rightarrow> job_options \<Rightarrow> job_options" where
  "jo_with_deduplication d o' = o'\<lparr>jo_deduplication := Some d\<rparr>"

definition jo_with_ignore_dependency_on_failure :: "bool \<Rightarrow> job_options \<Rightarrow> job_options" where
  "jo_with_ignore_dependency_on_failure b o' = o'\<lparr>jo_ignore_dependency_on_failure := b\<rparr>"

definition jo_with_remove_dependency_on_failure :: "bool \<Rightarrow> job_options \<Rightarrow> job_options" where
  "jo_with_remove_dependency_on_failure b o' = o'\<lparr>jo_remove_dependency_on_failure := b\<rparr>"

definition jo_with_continue_parent_on_failure :: "bool \<Rightarrow> job_options \<Rightarrow> job_options" where
  "jo_with_continue_parent_on_failure b o' = o'\<lparr>jo_continue_parent_on_failure := b\<rparr>"

definition jo_with_fail_parent_on_failure :: "bool \<Rightarrow> job_options \<Rightarrow> job_options" where
  "jo_with_fail_parent_on_failure b o' = o'\<lparr>jo_fail_parent_on_failure := b\<rparr>"

text \<open>The two tests by which serde skips a field.\<close>

definition is_false :: "bool \<Rightarrow> bool" where
  "is_false b \<longleftrightarrow> \<not> b"

definition is_zero :: "nat \<Rightarrow> bool" where
  "is_zero n \<longleftrightarrow> n = 0"

section \<open>What the builders make\<close>

text \<open>
  The values a caller reaches by constructors and builder calls with legal arguments. A
  builder call is legal whatever was set before, except that a failure policy of a flow child
  is switched on only when the three others are off.
\<close>

inductive built_repeat :: "externals \<Rightarrow> repeat_options \<Rightarrow> bool" for ext where
  Every: "interval \<noteq> 0 \<Longrightarrow> built_repeat ext (repeat_every interval)"
| Cron: "trim expression \<noteq> [] \<Longrightarrow> ext_cron_from_str ext (trim expression) = Inr schedule
    \<Longrightarrow> built_repeat ext (repeat_cron expression)"
| With_limit: "built_repeat ext r \<Longrightarrow> n \<noteq> 0 \<Longrightarrow> built_repeat ext (ro_with_limit n r)"
| Until: "built_repeat ext r \<Longrightarrow> built_repeat ext (ro_until end_at r)"
| With_key: "built_repeat ext r \<Longrightarrow> built_repeat ext (ro_with_key k r)"

inductive built_dedup :: "dedup_options \<Rightarrow> bool" where
  New: "trim i \<noteq> [] \<Longrightarrow> built_dedup (dedup_new i)"
| With_ttl: "built_dedup d \<Longrightarrow> ttl \<noteq> 0 \<Longrightarrow> built_dedup (do_with_ttl ttl d)"
| Replace_delayed: "built_dedup d \<Longrightarrow> built_dedup (do_replace_delayed b d)"
| Keep_last: "built_dedup d \<Longrightarrow> built_dedup (do_keep_last b d)"
| Extend_ttl: "built_dedup d \<Longrightarrow> built_dedup (do_extend_ttl b d)"

inductive built_retention :: "job_retention \<Rightarrow> bool" where
  Count: "built_retention (retention_count n)"
| Age: "age \<noteq> 0 \<Longrightarrow> built_retention (retention_age age)"
| Age_and_count: "age \<noteq> 0 \<Longrightarrow> built_retention (retention_age_and_count age n)"
| With_age: "built_retention r \<Longrightarrow> age \<noteq> 0 \<Longrightarrow> built_retention (rt_with_age age r)"
| With_count: "built_retention r \<Longrightarrow> built_retention (rt_with_count n r)"
| With_limit: "built_retention r \<Longrightarrow> n \<noteq> 0 \<Longrightarrow> built_retention (rt_with_limit n r)"

inductive built_options :: "externals \<Rightarrow> job_options \<Rightarrow> bool" for ext where
  New: "built_options ext jo_new"
| With_priority: "built_options ext o' \<Longrightarrow> p \<le> MAX_JOB_PRIORITY
    \<Longrightarrow> built_options ext (jo_with_priority p o')"
| With_lifo: "built_options ext o' \<Longrightarrow> built_options ext (jo_with_lifo b o')"
| With_job_id: "built_options ext o' \<Longrightarrow> trim i \<noteq> [] \<Longrightarrow> i \<noteq> ''0'' \<Longrightarrow> \<not> starts_with i ''0:''
    \<Longrightarrow> \<not> is_bullmq_integer_job_id i \<Longrightarrow> built_options ext (jo_with_job_id i o')"
| With_delay: "built_options ext o' \<Longrightarrow> built_options ext (jo_with_delay d o')"
| With_retry_policy: "built_options ext o' \<Longrightarrow> built_options ext (jo_with_retry_policy r o')"
| With_timeout: "built_options ext o' \<Longrightarrow> built_options ext (jo_with_timeout d o')"
| Remove_on_complete: "built_options ext o' \<Longrightarrow> built_options ext (remove_on_complete b o')"
| With_completion_retention: "built_options ext o' \<Longrightarrow> built_retention r
    \<Longrightarrow> built_options ext (with_completion_retention r o')"
| Remove_on_fail: "built_options ext o' \<Longrightarrow> built_options ext (remove_on_fail b o')"
| With_failure_retention: "built_options ext o' \<Longrightarrow> built_retention r
    \<Longrightarrow> built_options ext (with_failure_retention r o')"
| With_max_stalled_count: "built_options ext o' \<Longrightarrow> built_options ext (jo_with_max_stalled_count n o')"
| With_repeat: "built_options ext o' \<Longrightarrow> built_repeat ext r \<Longrightarrow> built_options ext (jo_with_repeat r o')"
| With_deduplication_id: "built_options ext o' \<Longrightarrow> trim i \<noteq> []
    \<Longrightarrow> built_options ext (with_deduplication_id i o')"
| With_deduplication: "built_options ext o' \<Longrightarrow> built_dedup d
    \<Longrightarrow> built_options ext (jo_with_deduplication d o')"
| Policy_off: "built_options ext o' \<Longrightarrow> f \<in> {jo_with_ignore_dependency_on_failure,
      jo_with_remove_dependency_on_failure, jo_with_continue_parent_on_failure,
      jo_with_fail_parent_on_failure} \<Longrightarrow> built_options ext (f False o')"
| Policy_on: "built_options ext o' \<Longrightarrow> flow_failure_policies o' = 0
    \<Longrightarrow> f \<in> {jo_with_ignore_dependency_on_failure, jo_with_remove_dependency_on_failure,
      jo_with_continue_parent_on_failure, jo_with_fail_parent_on_failure}
    \<Longrightarrow> built_options ext (f True o')"

lemmas option_builder_defs =
  jo_with_priority_def jo_with_lifo_def jo_with_job_id_def jo_with_delay_def
  jo_with_retry_policy_def jo_with_timeout_def jo_with_max_stalled_count_def jo_with_repeat_def
  jo_with_deduplication_def jo_with_ignore_dependency_on_failure_def
  jo_with_remove_dependency_on_failure_def jo_with_continue_parent_on_failure_def
  jo_with_fail_parent_on_failure_def remove_on_complete_def remove_on_fail_def
  with_completion_retention_def with_failure_retention_def with_deduplication_id_def

lemma repeat_validate_ok:
  "repeat_validate ext r = Inr () \<longleftrightarrow> ro_limit r \<noteq> Some 0 \<and>
     (case ro_schedule r of Every interval \<Rightarrow> interval \<noteq> 0
      | Cron e \<Rightarrow> trim e \<noteq> [] \<and> (\<exists>schedule. ext_cron_from_str ext (trim e) = Inr schedule))"
  by (cases "ro_schedule r")
    (auto simp: repeat_validate_def parse_cron_expression_def Let_def and_then_Inr
      split: sum.splits if_splits)

lemma dedup_validate_ok:
  "dedup_validate d = Inr () \<longleftrightarrow> trim (do_id d) \<noteq> [] \<and> do_ttl d \<noteq> Some 0"
  by (simp add: dedup_validate_def)

lemma retention_validate_ok:
  "retention_validate r field = Inr () \<longleftrightarrow>
     (rt_age r \<noteq> None \<or> rt_count r \<noteq> None) \<and> rt_age r \<noteq> Some 0 \<and> rt_limit r \<noteq> Some 0"
  by (auto simp: retention_validate_def)

lemma validate_job_id_ok:
  "validate_job_id i = Inr () \<longleftrightarrow>
     trim i \<noteq> [] \<and> i \<noteq> ''0'' \<and> \<not> starts_with i ''0:'' \<and> \<not> is_bullmq_integer_job_id i"
  by (simp add: validate_job_id_def)

lemma options_validate_ok:
  "options_validate ext o' = Inr () \<longleftrightarrow>
     opt_validate validate_job_id (jo_job_id o') = Inr () \<and> jo_priority o' \<le> MAX_JOB_PRIORITY
     \<and> opt_validate (repeat_validate ext) (jo_repeat o') = Inr ()
     \<and> opt_validate dedup_validate (jo_deduplication o') = Inr ()
     \<and> opt_validate (\<lambda>r. retention_validate r ''completion retention'')
         (jo_completion_retention o') = Inr ()
     \<and> opt_validate (\<lambda>r. retention_validate r ''failure retention'')
         (jo_failure_retention o') = Inr ()
     \<and> flow_failure_policies o' \<le> 1"
  unfolding options_validate_def and_then_Inr
  by (auto simp: validate_job_priority_def split: if_splits)

lemma opt_validate_ok: "opt_validate f x = Inr () \<longleftrightarrow> (\<forall>v. x = Some v \<longrightarrow> f v = Inr ())"
  by (cases x) (simp_all add: opt_validate_def)

lemma built_repeat_iff: "built_repeat ext r \<longleftrightarrow> repeat_validate ext r = Inr ()"
proof
  show "built_repeat ext r \<Longrightarrow> repeat_validate ext r = Inr ()"
    by (induction rule: built_repeat.induct)
      (auto simp: repeat_validate_ok repeat_every_def repeat_cron_def ro_with_limit_def
        ro_until_def ro_with_key_def)
  assume ok: "repeat_validate ext r = Inr ()"
  let ?start = "case ro_schedule r of Every i \<Rightarrow> repeat_every i | Cron e \<Rightarrow> repeat_cron e"
  let ?limit = "case ro_limit r of None \<Rightarrow> ?start | Some n \<Rightarrow> ro_with_limit n ?start"
  let ?until = "case ro_end_at r of None \<Rightarrow> ?limit | Some t \<Rightarrow> ro_until t ?limit"
  let ?key = "case ro_key r of None \<Rightarrow> ?until | Some k \<Rightarrow> ro_with_key k ?until"
  have "built_repeat ext ?start"
    using ok by (auto simp: repeat_validate_ok intro: built_repeat.intros split: repeat_schedule.splits)
  then have "built_repeat ext ?limit"
    using ok by (auto simp: repeat_validate_ok intro: built_repeat.With_limit split: option.split)
  then have "built_repeat ext ?until"
    by (auto intro: built_repeat.Until split: option.split)
  then have "built_repeat ext ?key"
    by (auto intro: built_repeat.With_key split: option.split)
  also have "?key = r"
    by (cases r) (simp add: repeat_every_def repeat_cron_def ro_with_limit_def ro_until_def
      ro_with_key_def split: option.split repeat_schedule.split)
  finally show "built_repeat ext r" .
qed

lemma built_dedup_iff: "built_dedup d \<longleftrightarrow> dedup_validate d = Inr ()"
proof
  show "built_dedup d \<Longrightarrow> dedup_validate d = Inr ()"
    by (induction rule: built_dedup.induct)
      (auto simp: dedup_validate_ok dedup_new_def do_with_ttl_def do_replace_delayed_def
        do_keep_last_def do_extend_ttl_def)
  assume ok: "dedup_validate d = Inr ()"
  let ?flags = "do_extend_ttl (do_extend d) (do_keep_last (do_keep_last_if_active d)
    (do_replace_delayed (do_replace d) (dedup_new (do_id d))))"
  let ?ttl = "case do_ttl d of None \<Rightarrow> ?flags | Some t \<Rightarrow> do_with_ttl t ?flags"
  have "built_dedup ?flags"
    using ok by (intro built_dedup.intros) (simp add: dedup_validate_ok)
  then have "built_dedup ?ttl"
    using ok by (auto simp: dedup_validate_ok intro: built_dedup.With_ttl split: option.split)
  also have "?ttl = d"
    by (cases d) (simp add: dedup_new_def do_with_ttl_def do_replace_delayed_def
      do_keep_last_def do_extend_ttl_def split: option.split)
  finally show "built_dedup d" .
qed

lemma built_retention_iff: "built_retention r \<longleftrightarrow> retention_validate r field = Inr ()"
proof
  show "built_retention r \<Longrightarrow> retention_validate r field = Inr ()"
    by (induction rule: built_retention.induct)
      (auto simp: retention_validate_ok retention_count_def retention_age_def
        retention_age_and_count_def rt_with_age_def rt_with_count_def rt_with_limit_def)
  assume ok: "retention_validate r field = Inr ()"
  let ?start = "case rt_age r of None \<Rightarrow> retention_count (the (rt_count r))
    | Some a \<Rightarrow> (case rt_count r of None \<Rightarrow> retention_age a | Some n \<Rightarrow> retention_age_and_count a n)"
  let ?limit = "case rt_limit r of None \<Rightarrow> ?start | Some n \<Rightarrow> rt_with_limit n ?start"
  have "built_retention ?start"
    using ok by (auto simp: retention_validate_ok intro: built_retention.intros split: option.split)
  then have "built_retention ?limit"
    using ok by (auto simp: retention_validate_ok intro: built_retention.With_limit split: option.split)
  also have "?limit = r"
    using ok by (cases r) (auto simp: retention_validate_ok retention_count_def retention_age_def
      retention_age_and_count_def rt_with_limit_def split: option.split)
  finally show "built_retention r" .
qed

definition one_way_to_finish :: "job_options \<Rightarrow> bool" where
  "one_way_to_finish o' \<longleftrightarrow>
     \<not> (jo_remove_on_complete o' \<and> jo_completion_retention o' \<noteq> None)
     \<and> \<not> (jo_remove_on_fail o' \<and> jo_failure_retention o' \<noteq> None)"

lemmas built_retention_ok = built_retention_iff [of _ "[]", unfolded retention_validate_ok]

lemma flow_failure_policies_cases:
  "flow_failure_policies o' \<le> 1 \<longleftrightarrow>
     (case (jo_ignore_dependency_on_failure o', jo_remove_dependency_on_failure o',
            jo_continue_parent_on_failure o', jo_fail_parent_on_failure o') of
        (a, b, c, d) \<Rightarrow> (a \<longrightarrow> \<not> b \<and> \<not> c \<and> \<not> d) \<and> (b \<longrightarrow> \<not> c \<and> \<not> d) \<and> (c \<longrightarrow> \<not> d))"
  by (simp add: flow_failure_policies_def)

lemma flow_failure_policies_none:
  "flow_failure_policies o' = 0 \<longleftrightarrow>
     \<not> jo_ignore_dependency_on_failure o' \<and> \<not> jo_remove_dependency_on_failure o'
     \<and> \<not> jo_continue_parent_on_failure o' \<and> \<not> jo_fail_parent_on_failure o'"
  by (simp add: flow_failure_policies_def)

lemma policy_builder_fields:
  assumes "f \<in> {jo_with_ignore_dependency_on_failure, jo_with_remove_dependency_on_failure,
      jo_with_continue_parent_on_failure, jo_with_fail_parent_on_failure}"
  shows "jo_job_id (f b o') = jo_job_id o'" "jo_priority (f b o') = jo_priority o'"
    "jo_repeat (f b o') = jo_repeat o'" "jo_deduplication (f b o') = jo_deduplication o'"
    "jo_completion_retention (f b o') = jo_completion_retention o'"
    "jo_failure_retention (f b o') = jo_failure_retention o'"
    "jo_remove_on_complete (f b o') = jo_remove_on_complete o'"
    "jo_remove_on_fail (f b o') = jo_remove_on_fail o'"
    "flow_failure_policies (f False o') \<le> flow_failure_policies o'"
    "flow_failure_policies o' = 0 \<Longrightarrow> flow_failure_policies (f True o') = 1"
  using assms
  by (elim insertE emptyE;
      simp add: option_builder_defs flow_failure_policies_def split: if_splits)+

lemma builder_policies:
  "flow_failure_policies (jo_with_priority p o') = flow_failure_policies o'"
  "flow_failure_policies (jo_with_lifo b o') = flow_failure_policies o'"
  "flow_failure_policies (jo_with_job_id i o') = flow_failure_policies o'"
  "flow_failure_policies (jo_with_delay d o') = flow_failure_policies o'"
  "flow_failure_policies (jo_with_retry_policy rp o') = flow_failure_policies o'"
  "flow_failure_policies (jo_with_timeout d o') = flow_failure_policies o'"
  "flow_failure_policies (jo_with_max_stalled_count n o') = flow_failure_policies o'"
  "flow_failure_policies (jo_with_repeat r o') = flow_failure_policies o'"
  "flow_failure_policies (jo_with_deduplication dd o') = flow_failure_policies o'"
  "flow_failure_policies (remove_on_complete b o') = flow_failure_policies o'"
  "flow_failure_policies (remove_on_fail b o') = flow_failure_policies o'"
  "flow_failure_policies (with_completion_retention rt o') = flow_failure_policies o'"
  "flow_failure_policies (with_failure_retention rt o') = flow_failure_policies o'"
  "flow_failure_policies (with_deduplication_id i o') = flow_failure_policies o'"
  "flow_failure_policies jo_new = 0"
  by (simp_all add: flow_failure_policies_def option_builder_defs jo_new_def
    job_options_default_def)

lemma built_options_legal:
  "built_options ext o' \<Longrightarrow>
     (\<forall>i. jo_job_id o' = Some i \<longrightarrow> validate_job_id i = Inr ())
     \<and> jo_priority o' \<le> MAX_JOB_PRIORITY
     \<and> (\<forall>r. jo_repeat o' = Some r \<longrightarrow> built_repeat ext r)
     \<and> (\<forall>d. jo_deduplication o' = Some d \<longrightarrow> built_dedup d)
     \<and> (\<forall>r. jo_completion_retention o' = Some r \<longrightarrow> built_retention r)
     \<and> (\<forall>r. jo_failure_retention o' = Some r \<longrightarrow> built_retention r)
     \<and> flow_failure_policies o' \<le> 1 \<and> one_way_to_finish o'"
proof (induction rule: built_options.induct)
  case New
  show ?case
    by (simp add: builder_policies)
      (simp add: jo_new_def job_options_default_def DEFAULT_JOB_PRIORITY_def MAX_JOB_PRIORITY_def
        one_way_to_finish_def)
next
  case (Policy_off o' f)
  have "flow_failure_policies (f False o') \<le> 1"
    using policy_builder_fields(9) [OF Policy_off.hyps(2), of o'] Policy_off.IH by linarith
  then show ?case
    using policy_builder_fields [OF Policy_off.hyps(2)] Policy_off.IH
    by (simp add: one_way_to_finish_def)
next
  case (Policy_on o' f)
  then show ?case
    using policy_builder_fields [OF Policy_on.hyps(3)] by (simp add: one_way_to_finish_def)
qed (simp_all add: builder_policies one_way_to_finish_def,
     simp_all add: option_builder_defs validate_job_id_ok built_dedup.New)

lemma built_options_valid:
  assumes "built_options ext o'"
  shows "options_validate ext o' = Inr ()" "one_way_to_finish o'"
  using built_options_legal [OF assms]
  by (auto simp: options_validate_ok opt_validate_ok built_repeat_iff built_dedup_iff
    built_retention_iff [THEN iffD1])

text \<open>Every legal value is built: its fields one after the other, on the defaults.\<close>

definition rebuild_policy :: "job_options \<Rightarrow> job_options \<Rightarrow> job_options" where
  "rebuild_policy t o' =
     (if jo_ignore_dependency_on_failure t then jo_with_ignore_dependency_on_failure True o'
      else if jo_remove_dependency_on_failure t then jo_with_remove_dependency_on_failure True o'
      else if jo_continue_parent_on_failure t then jo_with_continue_parent_on_failure True o'
      else if jo_fail_parent_on_failure t then jo_with_fail_parent_on_failure True o'
      else o')"

definition rebuild_plain :: "job_options \<Rightarrow> job_options" where
  "rebuild_plain t =
     jo_with_max_stalled_count (jo_max_stalled_count t) (jo_with_retry_policy (jo_retry_policy t)
       (jo_with_lifo (jo_lifo t) (jo_with_priority (jo_priority t) jo_new)))"

definition if_set :: "'a option \<Rightarrow> ('a \<Rightarrow> job_options \<Rightarrow> job_options) \<Rightarrow> job_options \<Rightarrow> job_options" where
  "if_set x f o' = (case x of None \<Rightarrow> o' | Some v \<Rightarrow> f v o')"

definition rebuild_finish :: "job_options \<Rightarrow> job_options \<Rightarrow> job_options" where
  "rebuild_finish t o' =
     if_set (jo_failure_retention t) with_failure_retention
       (if_set (jo_completion_retention t) with_completion_retention
         (remove_on_fail (jo_remove_on_fail t) (remove_on_complete (jo_remove_on_complete t) o')))"

definition rebuild :: "job_options \<Rightarrow> job_options" where
  "rebuild t =
     rebuild_finish t
       (if_set (jo_deduplication t) jo_with_deduplication
         (if_set (jo_repeat t) jo_with_repeat
           (if_set (jo_timeout t) jo_with_timeout
             (if_set (jo_delay t) jo_with_delay
               (if_set (jo_job_id t) jo_with_job_id (rebuild_policy t (rebuild_plain t)))))))"

lemma built_if_set:
  "built_options ext o' \<Longrightarrow> (\<And>v p. x = Some v \<Longrightarrow> built_options ext p \<Longrightarrow> built_options ext (f v p))
   \<Longrightarrow> built_options ext (if_set x f o')"
  by (simp add: if_set_def split: option.split)

lemma if_set_select: "h (if_set x f o') = (case x of None \<Rightarrow> h o' | Some v \<Rightarrow> h (f v o'))"
  by (simp add: if_set_def split: option.split)

lemma rebuild_policy_select:
  "h (rebuild_policy t o') =
     (if jo_ignore_dependency_on_failure t then h (jo_with_ignore_dependency_on_failure True o')
      else if jo_remove_dependency_on_failure t then h (jo_with_remove_dependency_on_failure True o')
      else if jo_continue_parent_on_failure t then h (jo_with_continue_parent_on_failure True o')
      else if jo_fail_parent_on_failure t then h (jo_with_fail_parent_on_failure True o')
      else h o')"
  by (simp add: rebuild_policy_def)

lemmas rebuild_fields =
  if_set_select [of jo_job_id] if_set_select [of jo_priority] if_set_select [of jo_lifo]
  if_set_select [of jo_delay] if_set_select [of jo_retry_policy] if_set_select [of jo_timeout]
  if_set_select [of jo_remove_on_complete] if_set_select [of jo_completion_retention]
  if_set_select [of jo_remove_on_fail] if_set_select [of jo_failure_retention]
  if_set_select [of jo_max_stalled_count] if_set_select [of jo_repeat]
  if_set_select [of jo_deduplication] if_set_select [of jo_ignore_dependency_on_failure]
  if_set_select [of jo_remove_dependency_on_failure]
  if_set_select [of jo_continue_parent_on_failure] if_set_select [of jo_fail_parent_on_failure]
  rebuild_policy_select [of jo_job_id] rebuild_policy_select [of jo_priority]
  rebuild_policy_select [of jo_lifo] rebuild_policy_select [of jo_delay]
  rebuild_policy_select [of jo_retry_policy] rebuild_policy_select [of jo_timeout]
  rebuild_policy_select [of jo_remove_on_complete]
  rebuild_policy_select [of jo_completion_retention]
  rebuild_policy_select [of jo_remove_on_fail] rebuild_policy_select [of jo_failure_retention]
  rebuild_policy_select [of jo_max_stalled_count] rebuild_policy_select [of jo_repeat]
  rebuild_policy_select [of jo_deduplication]
  rebuild_policy_select [of jo_ignore_dependency_on_failure]
  rebuild_policy_select [of jo_remove_dependency_on_failure]
  rebuild_policy_select [of jo_continue_parent_on_failure]
  rebuild_policy_select [of jo_fail_parent_on_failure]

lemma option_same [simp]: "(case x of None \<Rightarrow> a | Some _ \<Rightarrow> a) = a"
  by (cases x) simp_all

lemma rebuild_id:
  assumes "flow_failure_policies t \<le> 1" "one_way_to_finish t"
  shows "rebuild t = t"
proof (rule job_options.equality)
qed (use assms [unfolded flow_failure_policies_cases one_way_to_finish_def] in
      \<open>auto simp: rebuild_def rebuild_finish_def rebuild_plain_def rebuild_fields
        option_builder_defs jo_new_def job_options_default_def
        cong: option.case_cong if_cong split: option.split\<close>)

lemma rebuild_policy_built:
  assumes "jo_priority t \<le> MAX_JOB_PRIORITY"
  shows "built_options ext (rebuild_policy t (rebuild_plain t))"
proof -
  have plain: "built_options ext (rebuild_plain t)"
    unfolding rebuild_plain_def using assms by (intro built_options.intros)
  have none: "flow_failure_policies (rebuild_plain t) = 0"
    by (simp add: rebuild_plain_def flow_failure_policies_none option_builder_defs jo_new_def
      job_options_default_def)
  show ?thesis
    unfolding rebuild_policy_def
    using plain by (auto intro: built_options.Policy_on [OF plain none])
qed

lemma rebuild_built:
  assumes "options_validate ext t = Inr ()"
  shows "built_options ext (rebuild t)"
proof -
  have legal: "jo_priority t \<le> MAX_JOB_PRIORITY"
    "\<And>v. jo_job_id t = Some v \<Longrightarrow> validate_job_id v = Inr ()"
    "\<And>v. jo_repeat t = Some v \<Longrightarrow> built_repeat ext v"
    "\<And>v. jo_deduplication t = Some v \<Longrightarrow> built_dedup v"
    "\<And>v. jo_completion_retention t = Some v \<Longrightarrow> built_retention v"
    "\<And>v. jo_failure_retention t = Some v \<Longrightarrow> built_retention v"
    using assms unfolding options_validate_ok opt_validate_ok built_repeat_iff built_dedup_iff
    by (auto intro: built_retention_iff [THEN iffD2])
  have plain: "built_options ext (rebuild_policy t (rebuild_plain t))"
    by (rule rebuild_policy_built) (rule legal)
  show ?thesis
    unfolding rebuild_def rebuild_finish_def
    by (intro plain built_if_set built_options.Remove_on_fail built_options.Remove_on_complete;
        (erule built_options.With_failure_retention built_options.With_completion_retention
          built_options.With_deduplication built_options.With_repeat built_options.With_timeout
          built_options.With_delay built_options.With_job_id)?)
      (auto dest: legal(2) simp: validate_job_id_ok intro: legal)
qed


text \<open>A chain of builder calls, and a value that no chain makes.\<close>

lemma built_options_example:
  "built_options ext (with_completion_retention (rt_with_limit 5 (retention_age 60))
     (jo_with_fail_parent_on_failure True (jo_with_priority 7 jo_new)))"
  by (rule built_options.With_completion_retention, rule built_options.Policy_on,
      rule built_options.With_priority, rule built_options.New)
    (simp_all add: MAX_JOB_PRIORITY_def builder_policies built_retention.With_limit
      built_retention.Age)

lemma two_policies_not_built:
  "\<not> built_options ext (jo_with_ignore_dependency_on_failure True
     (jo_with_fail_parent_on_failure True o'))"
proof
  assume "built_options ext (jo_with_ignore_dependency_on_failure True
     (jo_with_fail_parent_on_failure True o'))"
  from built_options_valid(1) [OF this] show False
    unfolding options_validate_ok flow_failure_policies_cases by (simp add: option_builder_defs)
qed

end
