(* ===== verification/Job_Queue_State.thy ===== *)
theory Job_Queue_State
  imports Job_Types
begin

text \<open>
  The state of \<open>InMemoryJobQueue\<close> (\<open>src/src/job/memory.rs\<close>) and the free functions of that
  file: the event log, claim and listing order, waiting sequence numbers, log paging, the
  predicates on deduplication and repeat keys, and the guards of the operations. Every public
  method of the source holds the queue's mutex from start to end, so an operation
  is a function of the state it finds under the lock.
\<close>

section \<open>State\<close>

record flow_index =
  fi_processed :: "(job_id, json) hmap"
  fi_ignored :: "(job_id, string) hmap"
  fi_failed :: "job_id set"

definition flow_index_default :: flow_index where
  "flow_index_default = \<lparr>fi_processed = [], fi_ignored = [], fi_failed = {}\<rparr>"

definition flow_index_is_empty :: "flow_index \<Rightarrow> bool" where
  "flow_index_is_empty i \<longleftrightarrow> fi_processed i = [] \<and> fi_ignored i = [] \<and> fi_failed i = {}"

type_synonym jobs_map = "(job_id, job) hmap"

record qstate =
  q_paused :: bool
  q_sequence :: nat
  q_event_sequence :: nat
  q_events :: "job_event list"
  q_jobs :: jobs_map
  q_flow_dependencies :: "(job_id, flow_index) hmap"
  q_deduplication_next :: "(string, job) hmap"
  q_deduplication_next_flows :: "(string, job_flow) hmap"
  q_released :: "(string \<times> job_id) set"

definition qstate_default :: qstate where
  "qstate_default =
     \<lparr>q_paused = False, q_sequence = 0, q_event_sequence = 0, q_events = [], q_jobs = [],
      q_flow_dependencies = [], q_deduplication_next = [], q_deduplication_next_flows = [],
      q_released = {}\<rparr>"

abbreviation get_job_at :: "qstate \<Rightarrow> job_id \<Rightarrow> job option" where
  "get_job_at s i \<equiv> map_of (q_jobs s) i"

text \<open>\<open>HashMap::insert\<close>, \<open>get_mut\<close> and \<open>remove\<close> on the job table.\<close>

definition put_job :: "job \<Rightarrow> qstate \<Rightarrow> qstate" where
  "put_job j s = s\<lparr>q_jobs := AList.update (j_id j) j (q_jobs s)\<rparr>"

definition modify_job :: "job_id \<Rightarrow> (job \<Rightarrow> job) \<Rightarrow> qstate \<Rightarrow> qstate" where
  "modify_job i f s = s\<lparr>q_jobs := AList.map_entry i f (q_jobs s)\<rparr>"

section \<open>Orders\<close>

fun state_rank :: "job_state \<Rightarrow> nat" where
  "state_rank Waiting = 0"
| "state_rank Delayed = 1"
| "state_rank Active = 2"
| "state_rank WaitingChildren = 3"
| "state_rank Completed = 4"
| "state_rank Failed = 5"

definition compare_list_order :: "job comparator" where
  "compare_list_order =
     then_with (by_key (\<lambda>j. state_rank (j_state j)))
       (then_with (by_key j_priority)
         (then_with (by_key j_scheduled_at)
           (then_with (by_key j_created_at) (by_key j_id))))"

text \<open>
  \<open>compare_waiting_order\<close>, case by case as in the source: jobs with sequence 0 first (by
  id), then LIFO jobs newest first, then FIFO jobs oldest first.
\<close>

definition waiting_order :: "job \<Rightarrow> job \<Rightarrow> comp" where
  "waiting_order a b =
     (case (j_enqueued_seq a = 0, j_enqueued_seq b = 0) of
        (True, True) \<Rightarrow> compare default (j_id a) (j_id b)
      | (True, False) \<Rightarrow> Less
      | (False, True) \<Rightarrow> Greater
      | (False, False) \<Rightarrow>
          (case (jo_lifo (j_options a), jo_lifo (j_options b)) of
             (True, True) \<Rightarrow> compare default (j_enqueued_seq b) (j_enqueued_seq a)
           | (True, False) \<Rightarrow> Less
           | (False, True) \<Rightarrow> Greater
           | (False, False) \<Rightarrow> compare default (j_enqueued_seq a) (j_enqueued_seq b)))"

lemma comparator_waiting_order: "comparator waiting_order"
proof
  show "waiting_order a a = Equiv" for a
    by (simp add: waiting_order_def split: bool.split)
  show "waiting_order a b = Equiv \<Longrightarrow> waiting_order b c = Equiv \<Longrightarrow> waiting_order a c = Equiv" for a b c
    by (auto simp: waiting_order_def split: if_splits bool.splits)
  show "waiting_order a b = Less \<Longrightarrow> waiting_order b c = Less \<Longrightarrow> waiting_order a c = Less" for a b c
    by (auto simp: waiting_order_def split: if_splits bool.splits)
  show "waiting_order b a = Greater \<longleftrightarrow> waiting_order a b = Less" for a b
    by (auto simp: waiting_order_def split: if_splits bool.splits)
qed

lift_definition compare_waiting_order :: "job comparator" is waiting_order
  by (rule comparator_waiting_order)

definition compare_claim_order :: "job comparator" where
  "compare_claim_order =
     then_with (by_key j_priority)
       (then_with compare_waiting_order
         (then_with (by_key j_scheduled_at)
           (then_with (by_key j_created_at) (by_key j_id))))"

section \<open>Waiting sequence\<close>

definition next_waiting_sequence :: "qstate \<Rightarrow> nat \<times> qstate" where
  "next_waiting_sequence s =
     (let n = u64_saturating_add (q_sequence s) 1 in (n, s\<lparr>q_sequence := n\<rparr>))"

text \<open>\<open>assign_waiting_order\<close> on a job about to be stored.\<close>

definition assign_waiting_order :: "job \<Rightarrow> qstate \<Rightarrow> job \<times> qstate" where
  "assign_waiting_order j s =
     (if j_state j = Waiting
      then let (n, s1) = next_waiting_sequence s in (j\<lparr>j_enqueued_seq := n\<rparr>, s1)
      else (j, s))"

section \<open>Events\<close>

definition trim_events :: "nat \<Rightarrow> qstate \<Rightarrow> nat \<times> qstate" where
  "trim_events max_len s =
     (if length (q_events s) \<le> max_len then (0, s)
      else let remove_count = length (q_events s) - max_len
           in (remove_count, s\<lparr>q_events := drop remove_count (q_events s)\<rparr>))"

definition emit_event ::
  "string \<Rightarrow> job option \<Rightarrow> job_state option \<Rightarrow> instant \<Rightarrow> (string \<times> json) list \<Rightarrow> qstate \<Rightarrow> qstate" where
  "emit_event event jb prev timestamp flds s =
     (let n = u64_saturating_add (q_event_sequence s) 1;
          ev = \<lparr>ev_id = show_nat n @ ''-0'', ev_event = event, ev_timestamp = timestamp,
                ev_job_id = map_option j_id jb, ev_prev = prev, ev_fields = flds\<rparr>
      in snd (trim_events DEFAULT_JOB_EVENT_RETENTION
           (s\<lparr>q_event_sequence := n, q_events := q_events s @ [ev]\<rparr>)))"

fun job_event_for_state :: "job_state \<Rightarrow> string" where
  "job_event_for_state Waiting = ''waiting''"
| "job_event_for_state Delayed = ''delayed''"
| "job_event_for_state Active = ''active''"
| "job_event_for_state WaitingChildren = ''waiting-children''"
| "job_event_for_state Completed = ''completed''"
| "job_event_for_state Failed = ''failed''"

definition emit_job_created_events :: "job \<Rightarrow> instant \<Rightarrow> qstate \<Rightarrow> qstate" where
  "emit_job_created_events j now s =
     (let s1 = emit_event ''added'' (Some j) None now [(''name'', JString (j_name j))] s
      in emit_event (job_event_for_state (j_state j)) (Some j) None now [] s1)"

definition emit_retries_exhausted_event :: "job \<Rightarrow> instant \<Rightarrow> qstate \<Rightarrow> qstate" where
  "emit_retries_exhausted_event j t s =
     emit_event ''retries-exhausted'' (Some j) None t
       [(''attemptsMade'', json_of_int (int (j_attempts_made j)))] s"

definition emit_removed_event :: "job \<Rightarrow> instant \<Rightarrow> qstate \<Rightarrow> qstate" where
  "emit_removed_event j t s = emit_event ''removed'' (Some j) (Some (j_state j)) t [] s"

definition emit_duplicated_event :: "job \<Rightarrow> instant \<Rightarrow> qstate \<Rightarrow> qstate" where
  "emit_duplicated_event j t s = emit_event ''duplicated'' (Some j) None t [] s"

definition emit_cleaned_event :: "nat \<Rightarrow> instant \<Rightarrow> qstate \<Rightarrow> qstate" where
  "emit_cleaned_event n t s = emit_event ''cleaned'' None None t [(''count'', json_of_int (int n))] s"

definition job_deduplication_id :: "job \<Rightarrow> string option" where
  "job_deduplication_id j = map_option do_id (jo_deduplication (j_options j))"

definition emit_deduplication_events ::
  "job \<Rightarrow> string \<Rightarrow> job_id \<Rightarrow> instant \<Rightarrow> qstate \<Rightarrow> qstate" where
  "emit_deduplication_events event_job dedup_id dedup_job_id t s =
     (let s1 = emit_event ''debounced'' (Some event_job) None t [(''debounceId'', JString dedup_id)] s
      in emit_event ''deduplicated'' (Some event_job) None t
           [(''deduplicatedJobId'', JString dedup_job_id), (''deduplicationId'', JString dedup_id)] s1)"

definition emit_deduplicated_events :: "job \<Rightarrow> job \<Rightarrow> instant \<Rightarrow> qstate \<Rightarrow> qstate" where
  "emit_deduplicated_events owner candidate t s =
     (case job_deduplication_id candidate of
        None \<Rightarrow> s
      | Some d \<Rightarrow> emit_deduplication_events owner d (j_id candidate) t s)"

definition emit_replaced_deduplicated_owner_events :: "job \<Rightarrow> job \<Rightarrow> instant \<Rightarrow> qstate \<Rightarrow> qstate" where
  "emit_replaced_deduplicated_owner_events replacement removed_owner t s =
     (case job_deduplication_id replacement of
        None \<Rightarrow> s
      | Some d \<Rightarrow> emit_deduplication_events replacement d (j_id removed_owner) t s)"

definition emit_drained_event_if_needed :: "instant \<Rightarrow> qstate \<Rightarrow> qstate" where
  "emit_drained_event_if_needed t s =
     (if list_all (\<lambda>(_, j). \<not> (j_state j = Waiting \<or> j_state j = Active)) (q_jobs s)
      then emit_event ''drained'' None None t [] s
      else s)"

definition parse_stream_id :: "string \<Rightarrow> (int \<times> nat) option" where
  "parse_stream_id i =
     (case split_once i (CHR ''-'') of
        None \<Rightarrow> None
      | Some (millis, sequence) \<Rightarrow>
          (case parse_i64 millis of
             None \<Rightarrow> None
           | Some m \<Rightarrow> (case parse_u64 sequence of None \<Rightarrow> None | Some n \<Rightarrow> Some (m, n))))"

definition event_in_range :: "job_event \<Rightarrow> string \<Rightarrow> string \<Rightarrow> bool" where
  "event_in_range ev start end' =
     (case parse_stream_id (ev_id ev) of
        None \<Rightarrow> False
      | Some event_id \<Rightarrow>
          (if start = ''-'' then True
           else case parse_stream_id start of Some start_id \<Rightarrow> start_id \<le> event_id | None \<Rightarrow> True)
          \<and> (if end' = ''+'' then True
             else case parse_stream_id end' of Some end_id \<Rightarrow> event_id \<le> end_id | None \<Rightarrow> True))"

section \<open>Paging helpers\<close>

definition isize_saturating_add :: "int \<Rightarrow> int \<Rightarrow> int" where
  "isize_saturating_add a b = max i64_min (min i64_max (a + b))"

definition isize_saturating_neg :: "int \<Rightarrow> int" where
  "isize_saturating_neg a = (if a = i64_min then i64_max else - a)"

definition normalize_redis_index :: "int \<Rightarrow> nat \<Rightarrow> nat" where
  "normalize_redis_index index len =
     (if 0 \<le> index then nat index
      else if int len + index < 0 then 0 else nat (int len + index))"

definition redis_range :: "'a list \<Rightarrow> int \<Rightarrow> int \<Rightarrow> 'a list" where
  "redis_range items start end' =
     (let len = length items
      in if len = 0 then []
         else let st = normalize_redis_index start len;
                  en = normalize_redis_index end' len
              in if st > en \<or> st \<ge> len then []
                 else take (min en (len - 1) + 1 - st) (drop st items))"

definition log_page :: "job_log_entry list \<Rightarrow> int \<Rightarrow> int \<Rightarrow> bool \<Rightarrow> job_log_page" where
  "log_page logs start end' ascending =
     (let selected =
        (if ascending then redis_range logs start end'
         else let reverse_start = isize_saturating_neg (isize_saturating_add end' 1);
                  reverse_end = isize_saturating_neg (isize_saturating_add start 1)
              in rev (redis_range logs reverse_start reverse_end))
      in \<lparr>lp_logs = selected, lp_count = length logs\<rparr>)"

definition unique_states :: "job_state list \<Rightarrow> job_state list" where
  "unique_states states = unique_in_order (if states = [] then all_states else states)"

definition unique_priorities :: "job_priority list \<Rightarrow> job_priority list" where
  "unique_priorities ps = unique_in_order ps"

definition job_finished_result :: "job \<Rightarrow> finished_result" where
  "job_finished_result j =
     (case j_state j of
        Completed \<Rightarrow> FinishedCompleted (j_return_value j)
      | Failed \<Rightarrow> FinishedFailed (j_failed_reason j)
      | _ \<Rightarrow> NotFinished)"

section \<open>Deduplication and repeat keys\<close>

definition active_deduplication_id :: "job \<Rightarrow> instant \<Rightarrow> string option" where
  "active_deduplication_id j now =
     (if (case j_deduplication_expires_at j of Some e \<Rightarrow> e \<le> now | None \<Rightarrow> False) then None
      else if is_terminal (j_state j) \<and> j_deduplication_expires_at j = None then None
      else job_deduplication_id j)"

definition deduplication_owner_released :: "(string \<times> job_id) set \<Rightarrow> string \<Rightarrow> job_id \<Rightarrow> bool" where
  "deduplication_owner_released released dedup_id job_id \<longleftrightarrow> (dedup_id, job_id) \<in> released"

definition find_active_deduplication_id ::
  "externals \<Rightarrow> jobs_map \<Rightarrow> (string \<times> job_id) set \<Rightarrow> string \<Rightarrow> instant \<Rightarrow> job option" where
  "find_active_deduplication_id ext jobs released dedup_id now =
     List.find (\<lambda>j. active_deduplication_id j now = Some dedup_id
                  \<and> \<not> deduplication_owner_released released dedup_id (j_id j))
       (hash_values (ext_hash_rank ext) jobs)"

definition find_active_deduplicated_job ::
  "externals \<Rightarrow> jobs_map \<Rightarrow> (string \<times> job_id) set \<Rightarrow> job \<Rightarrow> instant \<Rightarrow> job option" where
  "find_active_deduplicated_job ext jobs released candidate now =
     (case active_deduplication_id candidate now of
        None \<Rightarrow> None
      | Some d \<Rightarrow> find_active_deduplication_id ext jobs released d now)"

definition find_active_deduplication_id_except ::
  "externals \<Rightarrow> jobs_map \<Rightarrow> (string \<times> job_id) set \<Rightarrow> string \<Rightarrow> job_id \<Rightarrow> instant \<Rightarrow> job option" where
  "find_active_deduplication_id_except ext jobs released dedup_id excluded now =
     List.find (\<lambda>j. j_id j \<noteq> excluded
                  \<and> active_deduplication_id j now = Some dedup_id
                  \<and> \<not> deduplication_owner_released released dedup_id (j_id j))
       (hash_values (ext_hash_rank ext) jobs)"

definition deduplication_replaces_delayed_owner :: "job \<Rightarrow> job \<Rightarrow> bool" where
  "deduplication_replaces_delayed_owner candidate existing \<longleftrightarrow>
     map_option do_replace (jo_deduplication (j_options candidate)) = Some True
     \<and> j_state existing = Delayed
     \<and> j_repeat_key candidate = None
     \<and> j_parent_id existing = None
     \<and> j_child_ids existing = []
     \<and> j_repeat_key existing = None"

definition deduplication_stores_next_if_active :: "job \<Rightarrow> job \<Rightarrow> bool" where
  "deduplication_stores_next_if_active candidate existing \<longleftrightarrow>
     map_option do_keep_last_if_active (jo_deduplication (j_options candidate)) = Some True
     \<and> j_state existing = Active
     \<and> j_child_ids candidate = []
     \<and> j_repeat_key candidate = j_repeat_key existing"

definition deduplication_duplicate_emits_events :: "job \<Rightarrow> job \<Rightarrow> bool" where
  "deduplication_duplicate_emits_events candidate existing =
     (case jo_deduplication (j_options candidate) of
        None \<Rightarrow> False
      | Some d \<Rightarrow> \<not> do_replace d \<or> deduplication_stores_next_if_active candidate existing)"

definition keeps_last_if_active :: "job \<Rightarrow> bool" where
  "keeps_last_if_active j =
     (case jo_deduplication (j_options j) of None \<Rightarrow> False | Some d \<Rightarrow> do_keep_last_if_active d)"

definition deduplication_stores_next_flow_if_active :: "job_flow \<Rightarrow> job \<Rightarrow> bool" where
  "deduplication_stores_next_flow_if_active candidate existing \<longleftrightarrow>
     keeps_last_if_active (fl_parent candidate)
     \<and> j_state existing = Active
     \<and> j_parent_id (fl_parent candidate) = None
     \<and> j_repeat_key (fl_parent candidate) = None
     \<and> j_repeat_key existing = None"

definition flow_child_deduplication_requires_next :: "job \<Rightarrow> job \<Rightarrow> bool" where
  "flow_child_deduplication_requires_next candidate existing \<longleftrightarrow>
     keeps_last_if_active candidate \<and> j_state existing = Active"

definition deduplication_extends_ttl :: "job \<Rightarrow> bool" where
  "deduplication_extends_ttl candidate =
     (case jo_deduplication (j_options candidate) of
        None \<Rightarrow> False
      | Some d \<Rightarrow> do_extend d \<and> do_ttl d \<noteq> None \<and> \<not> do_keep_last_if_active d)"

definition preserve_replacement_deduplication_expiration :: "job \<Rightarrow> job \<Rightarrow> job" where
  "preserve_replacement_deduplication_expiration candidate existing =
     (case jo_deduplication (j_options candidate) of
        None \<Rightarrow> candidate
      | Some d \<Rightarrow>
          if do_ttl d \<noteq> None
          then candidate\<lparr>j_deduplication_expires_at := j_deduplication_expires_at existing\<rparr>
          else candidate)"

definition state_after_dependencies :: "instant \<Rightarrow> instant \<Rightarrow> job_state" where
  "state_after_dependencies scheduled_at now = (if scheduled_at > now then Delayed else Waiting)"

definition prepare_deduplicated_next_job :: "externals \<Rightarrow> job \<Rightarrow> instant \<Rightarrow> job" where
  "prepare_deduplicated_next_job ext j now =
     (let scheduled = (case jo_delay (j_options j) of Some d \<Rightarrow> add_duration ext now d | None \<Rightarrow> now)
      in j\<lparr>j_created_at := now, j_scheduled_at := scheduled,
           j_state := state_after_dependencies scheduled now,
           j_attempts_made := 0, j_stalled_count := 0, j_processed_at := None,
           j_finished_at := None, j_worker_id := None, j_lock_token := None,
           j_lease_expires_at := None, j_deferred_failure := None, j_failed_reason := None,
           j_return_value := None, j_progress := None, j_logs := [],
           j_deduplication_expires_at := deduplication_expiration ext (j_options j) now\<rparr>)"

definition prepare_deduplicated_next_flow :: "externals \<Rightarrow> job_flow \<Rightarrow> instant \<Rightarrow> job_flow" where
  "prepare_deduplicated_next_flow ext flow now =
     (let p1 = prepare_deduplicated_next_job ext (fl_parent flow) now;
          p2 = p1\<lparr>j_child_ids := map j_id (fl_children flow)\<rparr>;
          p3 = (if fl_children flow \<noteq> [] then p2\<lparr>j_state := WaitingChildren\<rparr> else p2)
      in \<lparr>fl_parent = p3,
          fl_children = map (\<lambda>c. (prepare_deduplicated_next_job ext c now)
                                   \<lparr>j_parent_id := Some (j_id p3), j_child_ids := []\<rparr>)
                          (fl_children flow)\<rparr>)"

text \<open>The nested \<open>Option\<close>: outer \<open>None\<close> drops the candidate, inner \<open>None\<close> leaves its count alone.\<close>

definition repeat_keep_last_next_count :: "job \<Rightarrow> job \<Rightarrow> nat option option" where
  "repeat_keep_last_next_count owner candidate =
     (case j_repeat_key owner of
        None \<Rightarrow> Some None
      | Some owner_key \<Rightarrow>
          if j_repeat_key candidate \<noteq> Some owner_key then None
          else let next_count = u32_saturating_add (j_repeat_count owner) 1
               in case Option.bind (jo_repeat (j_options owner)) ro_limit of
                    Some limit \<Rightarrow> if limit \<le> next_count then None else Some (Some next_count)
                  | None \<Rightarrow> Some (Some next_count))"

definition active_repeat_key :: "job \<Rightarrow> string option" where
  "active_repeat_key j = (if is_terminal (j_state j) then None else j_repeat_key j)"

definition is_repeat_scheduler_job :: "job \<Rightarrow> bool" where
  "is_repeat_scheduler_job j \<longleftrightarrow> active_repeat_key j \<noteq> None \<and> jo_repeat (j_options j) \<noteq> None"

definition repeat_entry_of :: "job \<Rightarrow> repeat_entry option" where
  "repeat_entry_of j =
     (case active_repeat_key j of
        None \<Rightarrow> None
      | Some key' \<Rightarrow>
          (case jo_repeat (j_options j) of
             None \<Rightarrow> None
           | Some options \<Rightarrow>
               Some \<lparr>re_key = key', re_job_id = j_id j, re_name = j_name j, re_state = j_state j,
                     re_scheduled_at = j_scheduled_at j, re_repeat_count = j_repeat_count j,
                     re_options = options\<rparr>))"

definition find_active_repeat_key :: "externals \<Rightarrow> jobs_map \<Rightarrow> string \<Rightarrow> job option" where
  "find_active_repeat_key ext jobs key' =
     List.find (\<lambda>j. active_repeat_key j = Some key') (hash_values (ext_hash_rank ext) jobs)"

definition find_active_repeat_job :: "externals \<Rightarrow> jobs_map \<Rightarrow> job \<Rightarrow> job option" where
  "find_active_repeat_job ext jobs candidate =
     (case active_repeat_key candidate of
        None \<Rightarrow> None
      | Some key' \<Rightarrow> find_active_repeat_key ext jobs key')"

definition find_active_repeat_key_except :: "externals \<Rightarrow> jobs_map \<Rightarrow> string \<Rightarrow> job_id \<Rightarrow> job option" where
  "find_active_repeat_key_except ext jobs key' excluded =
     List.find (\<lambda>j. j_id j \<noteq> excluded \<and> active_repeat_key j = Some key')
       (hash_values (ext_hash_rank ext) jobs)"

definition is_delayed_repeat_owner :: "externals \<Rightarrow> jobs_map \<Rightarrow> job \<Rightarrow> bool" where
  "is_delayed_repeat_owner ext jobs j =
     (if j_state j \<noteq> Delayed then False
      else case j_repeat_key j of
             None \<Rightarrow> False
           | Some key' \<Rightarrow>
               (case find_active_repeat_key ext jobs key' of
                  None \<Rightarrow> False | Some owner \<Rightarrow> j_id owner = j_id j))"

section \<open>Guards\<close>

definition validate_job_options_at :: "externals \<Rightarrow> job_options \<Rightarrow> instant \<Rightarrow> unit result" where
  "validate_job_options_at ext options now =
     and_then (options_validate ext options) (\<lambda>_.
       case Option.bind (jo_repeat options) ro_end_at of
         Some end_at \<Rightarrow>
           (if end_at < now
            then Inl (ConfigError ''repeat end_at must not be earlier than the add timestamp'')
            else Inr ())
       | None \<Rightarrow> Inr ())"

fun validate_distinct_ids :: "job_id list \<Rightarrow> job_id set \<Rightarrow> unit result" where
  "validate_distinct_ids [] ids = Inr ()"
| "validate_distinct_ids (i # is) ids =
     (if i \<in> ids then Inl (ConfigError (''flow contains duplicate job id `'' @ i @ ''`''))
      else validate_distinct_ids is (insert i ids))"

definition validate_flow_job_ids :: "job \<Rightarrow> job list \<Rightarrow> unit result" where
  "validate_flow_job_ids parent children =
     validate_distinct_ids (j_id parent # map j_id children) {}"

definition validate_flow_child_jobs :: "job_id \<Rightarrow> job list \<Rightarrow> unit result" where
  "validate_flow_child_jobs parent_id children =
     validate_distinct_ids (map j_id children) {parent_id}"

definition require_active :: "job \<Rightarrow> string \<Rightarrow> unit result" where
  "require_active j action =
     (if j_state j = Active then Inr ()
      else Inl (JobStateConflict
        (''cannot '' @ action @ '' job '' @ j_id j @ '' from state '' @ debug_state (j_state j))))"

definition require_lock_token :: "job \<Rightarrow> string \<Rightarrow> unit result" where
  "require_lock_token j token =
     (if j_lock_token j = Some token then Inr ()
      else Inl (JobLeaseConflict (''lock token does not own job '' @ j_id j)))"

definition require_removable :: "job \<Rightarrow> unit result" where
  "require_removable j =
     (if j_state j = Active \<and> j_lock_token j \<noteq> None
      then Inl (JobLeaseConflict (''cannot remove active leased job '' @ j_id j))
      else Inr ())"

definition job_reference_time :: "job \<Rightarrow> instant" where
  "job_reference_time j =
     (case j_finished_at j of
        Some t \<Rightarrow> t
      | None \<Rightarrow> (case j_processed_at j of Some t \<Rightarrow> t | None \<Rightarrow> j_scheduled_at j))"

definition should_retry :: "job \<Rightarrow> bool" where
  "should_retry j \<longleftrightarrow>
     rp_max_retries (jo_retry_policy (j_options j)) > 0
     \<and> j_attempts_made j \<le> rp_max_retries (jo_retry_policy (j_options j))"

definition retries_exhausted :: "job \<Rightarrow> bool" where
  "retries_exhausted j \<longleftrightarrow>
     j_state j = Failed \<and> j_attempts_made j > rp_max_retries (jo_retry_policy (j_options j))"

definition child_failure_releases_dependency :: "job \<Rightarrow> bool" where
  "child_failure_releases_dependency child \<longleftrightarrow>
     jo_ignore_dependency_on_failure (j_options child)
     \<or> jo_remove_dependency_on_failure (j_options child)
     \<or> jo_continue_parent_on_failure (j_options child)"

text \<open>\<open>next_repeat_job\<close>; \<open>uuid\<close> is the identifier of the successor.\<close>

definition next_repeat_job :: "externals \<Rightarrow> job \<Rightarrow> string \<Rightarrow> instant \<Rightarrow> job option result" where
  "next_repeat_job ext j uuid now =
     (case jo_repeat (j_options j) of
        None \<Rightarrow> Inr None
      | Some rep \<Rightarrow>
          let next_count = u32_saturating_add (j_repeat_count j) 1
          in if (case ro_limit rep of Some limit \<Rightarrow> limit \<le> next_count | None \<Rightarrow> False)
             then Inr None
             else and_then (next_scheduled_at ext rep now) (\<lambda>scheduled.
               case scheduled of
                 None \<Rightarrow> Inr None
               | Some scheduled_at \<Rightarrow>
                   if (case ro_end_at rep of Some end_at \<Rightarrow> end_at < scheduled_at | None \<Rightarrow> False)
                   then Inr None
                   else Inr (Some ((job_new ext (j_queue j) (j_name j) (j_payload j)
                                      ((j_options j)\<lparr>jo_job_id := None\<rparr>) uuid now)
                          \<lparr>j_scheduled_at := scheduled_at,
                           j_state := state_after_dependencies scheduled_at now,
                           j_repeat_key := j_repeat_key j,
                           j_repeat_count := next_count\<rparr>))))"

end
