(* ===== verification/Job_Flow_Index.thy ===== *)
theory Job_Flow_Index
  imports Job_Queue_State
begin

text \<open>
  Flow dependencies (\<open>src/src/job/memory.rs\<close>): the parent-scoped side index of terminal
  children, the dependency reports computed from it and from the retained child jobs, and the
  guards that read those reports. \<open>BTreeMap\<close>s and \<open>BTreeSet\<close>s are visited in key order.
\<close>

section \<open>Reading the index\<close>

definition index_has :: "flow_index \<Rightarrow> job_id \<Rightarrow> bool" where
  "index_has i child \<longleftrightarrow>
     map_of (fi_processed i) child \<noteq> None \<or> map_of (fi_ignored i) child \<noteq> None \<or> child \<in> fi_failed i"

definition flow_dependency_index_contains :: "flow_index option \<Rightarrow> job_id \<Rightarrow> bool" where
  "flow_dependency_index_contains index child =
     (case index of None \<Rightarrow> False | Some i \<Rightarrow> index_has i child)"

definition has_child_dependency_side_index :: "job_id \<Rightarrow> job_id \<Rightarrow> qstate \<Rightarrow> bool" where
  "has_child_dependency_side_index parent child s =
     (case map_of (q_flow_dependencies s) parent of None \<Rightarrow> False | Some i \<Rightarrow> index_has i child)"

section \<open>Updating the index\<close>

definition index_entry :: "job_id \<Rightarrow> qstate \<Rightarrow> flow_index" where
  "index_entry parent s =
     (case map_of (q_flow_dependencies s) parent of Some i \<Rightarrow> i | None \<Rightarrow> flow_index_default)"

definition set_index :: "job_id \<Rightarrow> flow_index \<Rightarrow> qstate \<Rightarrow> qstate" where
  "set_index parent i s =
     s\<lparr>q_flow_dependencies := AList.update parent i (q_flow_dependencies s)\<rparr>"

definition record_completed_child_dependency :: "job_id \<Rightarrow> job_id \<Rightarrow> json \<Rightarrow> qstate \<Rightarrow> qstate" where
  "record_completed_child_dependency parent child value s =
     (let i = index_entry parent s
      in set_index parent
           (i\<lparr>fi_ignored := AList.delete child (fi_ignored i),
              fi_failed := fi_failed i - {child},
              fi_processed := AList.update child value (fi_processed i)\<rparr>) s)"

definition record_ignored_child_dependency :: "job_id \<Rightarrow> job_id \<Rightarrow> string \<Rightarrow> qstate \<Rightarrow> qstate" where
  "record_ignored_child_dependency parent child failed_reason s =
     (let i = index_entry parent s
      in set_index parent
           (i\<lparr>fi_processed := AList.delete child (fi_processed i),
              fi_failed := fi_failed i - {child},
              fi_ignored := AList.update child failed_reason (fi_ignored i)\<rparr>) s)"

definition record_failed_child_dependency :: "job_id \<Rightarrow> job_id \<Rightarrow> qstate \<Rightarrow> qstate" where
  "record_failed_child_dependency parent child s =
     (let i = index_entry parent s
      in set_index parent
           (i\<lparr>fi_processed := AList.delete child (fi_processed i),
              fi_ignored := AList.delete child (fi_ignored i),
              fi_failed := insert child (fi_failed i)\<rparr>) s)"

text \<open>
  \<open>clear_child_dependency_side_index_locked\<close>: the three removals are joined by \<open>||\<close>, so a
  later bucket is only touched when the earlier ones did not hold the child.
\<close>

definition clear_index_child :: "job_id \<Rightarrow> flow_index \<Rightarrow> bool \<times> flow_index" where
  "clear_index_child child i =
     (if map_of (fi_processed i) child \<noteq> None
      then (True, i\<lparr>fi_processed := AList.delete child (fi_processed i)\<rparr>)
      else if map_of (fi_ignored i) child \<noteq> None
      then (True, i\<lparr>fi_ignored := AList.delete child (fi_ignored i)\<rparr>)
      else (child \<in> fi_failed i, i\<lparr>fi_failed := fi_failed i - {child}\<rparr>))"

definition clear_child_dependency_side_index :: "job_id \<Rightarrow> job_id \<Rightarrow> qstate \<Rightarrow> bool \<times> qstate" where
  "clear_child_dependency_side_index parent child s =
     (case map_of (q_flow_dependencies s) parent of
        None \<Rightarrow> (False, s)
      | Some i \<Rightarrow>
          let (removed, i1) = clear_index_child child i
          in (removed,
              if flow_index_is_empty i1
              then s\<lparr>q_flow_dependencies := AList.delete parent (q_flow_dependencies s)\<rparr>
              else set_index parent i1 s))"

definition record_terminal_child_dependency :: "job_id \<Rightarrow> job \<Rightarrow> qstate \<Rightarrow> qstate" where
  "record_terminal_child_dependency parent_id child s =
     (case get_job_at s parent_id of
        None \<Rightarrow> s
      | Some parent \<Rightarrow>
          if j_id child \<notin> set (j_child_ids parent) then s
          else (case j_state child of
                  Completed \<Rightarrow>
                    record_completed_child_dependency parent_id (j_id child)
                      (case j_return_value child of Some v \<Rightarrow> v | None \<Rightarrow> JNull) s
                | Failed \<Rightarrow>
                    (if jo_ignore_dependency_on_failure (j_options child)
                        \<or> jo_continue_parent_on_failure (j_options child)
                     then record_ignored_child_dependency parent_id (j_id child)
                            (case j_failed_reason child of Some r \<Rightarrow> r | None \<Rightarrow> []) s
                     else if jo_fail_parent_on_failure (j_options child)
                     then record_failed_child_dependency parent_id (j_id child) s
                     else if jo_remove_dependency_on_failure (j_options child)
                     then snd (clear_child_dependency_side_index parent_id (j_id child) s)
                     else s)
                | _ \<Rightarrow> s))"

section \<open>Dependency reports\<close>

definition count_child ::
  "jobs_map \<Rightarrow> flow_index option \<Rightarrow> job_id \<Rightarrow> flow_counts \<Rightarrow> flow_counts" where
  "count_child jobs index child_id c =
     (if flow_dependency_index_contains index child_id then c
      else case map_of jobs child_id of
             Some child \<Rightarrow>
               (if j_state child = Completed then c\<lparr>fc_processed := fc_processed c + 1\<rparr>
                else if j_state child = Failed
                     \<and> (jo_ignore_dependency_on_failure (j_options child)
                        \<or> jo_continue_parent_on_failure (j_options child))
                then c\<lparr>fc_ignored := fc_ignored c + 1\<rparr>
                else if j_state child = Failed \<and> jo_remove_dependency_on_failure (j_options child)
                then c
                else if j_state child = Failed then c\<lparr>fc_failed := fc_failed c + 1\<rparr>
                else c\<lparr>fc_unprocessed := fc_unprocessed c + 1\<rparr>)
           | None \<Rightarrow> c\<lparr>fc_missing := fc_missing c + 1\<rparr>)"

definition flow_dependency_counts :: "job \<Rightarrow> jobs_map \<Rightarrow> flow_index option \<Rightarrow> flow_counts" where
  "flow_dependency_counts parent jobs index =
     fold (count_child jobs index) (j_child_ids parent)
       \<lparr>fc_processed = (case index of Some i \<Rightarrow> length (fi_processed i) | None \<Rightarrow> 0),
        fc_unprocessed = 0,
        fc_failed = (case index of Some i \<Rightarrow> card (fi_failed i) | None \<Rightarrow> 0),
        fc_ignored = (case index of Some i \<Rightarrow> length (fi_ignored i) | None \<Rightarrow> 0),
        fc_missing = 0\<rparr>"

fun counts_of_kind :: "flow_counts \<Rightarrow> dependency_kind \<Rightarrow> nat" where
  "counts_of_kind c KProcessed = fc_processed c"
| "counts_of_kind c KUnprocessed = fc_unprocessed c"
| "counts_of_kind c KIgnored = fc_ignored c"
| "counts_of_kind c KFailed = fc_failed c"

definition flow_dependency_selected_counts ::
  "job \<Rightarrow> jobs_map \<Rightarrow> flow_index option \<Rightarrow> count_options \<Rightarrow> selected_counts" where
  "flow_dependency_selected_counts parent jobs index options =
     (let counts = flow_dependency_counts parent jobs index
      in fold (\<lambda>kind acc. selected_counts_insert kind (counts_of_kind counts kind) acc)
           (count_options_selected options) selected_counts_default)"

definition btree_entries :: "(string, 'v) hmap \<Rightarrow> (string \<times> 'v) list" where
  "btree_entries m = sort_key fst m"

text \<open>The body of the loop over \<open>child_ids\<close> in \<open>flow_dependency_values\<close>.\<close>

definition values_retained :: "jobs_map \<Rightarrow> job_id \<Rightarrow> flow_values \<Rightarrow> flow_values" where
  "values_retained jobs child_id v =
     (case map_of jobs child_id of
        None \<Rightarrow> v
      | Some child \<Rightarrow>
          if j_state child = Completed
          then (case j_return_value child of
                  Some r \<Rightarrow> v\<lparr>fv_processed := AList.update (j_id child) r (fv_processed v)\<rparr>
                | None \<Rightarrow> v)
          else if \<not> is_terminal (j_state child)
          then v\<lparr>fv_unprocessed := fv_unprocessed v @ [j_id child]\<rparr>
          else if j_state child = Failed
          then (if jo_ignore_dependency_on_failure (j_options child)
                   \<or> jo_continue_parent_on_failure (j_options child)
                then v\<lparr>fv_ignored := AList.update (j_id child)
                         (case j_failed_reason child of Some r \<Rightarrow> r | None \<Rightarrow> []) (fv_ignored v)\<rparr>
                else if \<not> jo_remove_dependency_on_failure (j_options child)
                then v\<lparr>fv_failed := fv_failed v @ [j_id child]\<rparr>
                else v)
          else v)"

definition values_child ::
  "jobs_map \<Rightarrow> flow_index option \<Rightarrow> job_id \<Rightarrow> flow_values \<times> job_id set \<Rightarrow> flow_values \<times> job_id set" where
  "values_child jobs index child_id acc =
     (let (v, seen) = acc
      in case index of
           None \<Rightarrow> (values_retained jobs child_id v, seen)
         | Some i \<Rightarrow>
             (case map_of (fi_processed i) child_id of
                Some r \<Rightarrow> (v\<lparr>fv_processed := AList.update child_id r (fv_processed v)\<rparr>, insert child_id seen)
              | None \<Rightarrow>
                  (case map_of (fi_ignored i) child_id of
                     Some r \<Rightarrow> (v\<lparr>fv_ignored := AList.update child_id r (fv_ignored v)\<rparr>, insert child_id seen)
                   | None \<Rightarrow>
                       if child_id \<in> fi_failed i
                       then (v\<lparr>fv_failed := fv_failed v @ [child_id]\<rparr>, insert child_id seen)
                       else (values_retained jobs child_id v, seen))))"

definition flow_dependency_values :: "job \<Rightarrow> jobs_map \<Rightarrow> flow_index option \<Rightarrow> flow_values" where
  "flow_dependency_values parent jobs index =
     (let acc = fold (values_child jobs index) (j_child_ids parent)
                  (\<lparr>fv_processed = [], fv_unprocessed = [], fv_failed = [], fv_ignored = []\<rparr>, {})
      in case index of
           None \<Rightarrow> fst acc
         | Some i \<Rightarrow>
             let a1 = fold (\<lambda>(c, r) (v, seen). if c \<in> seen then (v, seen)
                        else (v\<lparr>fv_processed := AList.update c r (fv_processed v)\<rparr>, insert c seen))
                        (btree_entries (fi_processed i)) acc;
                 a2 = fold (\<lambda>(c, r) (v, seen). if c \<in> seen then (v, seen)
                        else (v\<lparr>fv_ignored := AList.update c r (fv_ignored v)\<rparr>, insert c seen))
                        (btree_entries (fi_ignored i)) a1;
                 a3 = fold (\<lambda>c (v, seen). if c \<in> seen then (v, seen)
                        else (v\<lparr>fv_failed := fv_failed v @ [c]\<rparr>, insert c seen))
                        (sorted_list_of_set (fi_failed i)) a2
             in fst a3)"

definition indexed_flow_dependency_page_item ::
  "flow_index option \<Rightarrow> job_id \<Rightarrow> dependency_kind \<Rightarrow> page_item option" where
  "indexed_flow_dependency_page_item index child_id kind =
     (case index of
        None \<Rightarrow> None
      | Some i \<Rightarrow>
          (case kind of
             KProcessed \<Rightarrow> map_option (PProcessed child_id) (map_of (fi_processed i) child_id)
           | KIgnored \<Rightarrow> map_option (PIgnored child_id) (map_of (fi_ignored i) child_id)
           | KFailed \<Rightarrow> if child_id \<in> fi_failed i then Some (PFailed child_id) else None
           | KUnprocessed \<Rightarrow> None))"

definition retained_flow_dependency_page_item :: "job \<Rightarrow> dependency_kind \<Rightarrow> page_item option" where
  "retained_flow_dependency_page_item child kind =
     (case kind of
        KProcessed \<Rightarrow>
          if j_state child = Completed
          then map_option (PProcessed (j_id child)) (j_return_value child) else None
      | KUnprocessed \<Rightarrow>
          if \<not> is_terminal (j_state child) then Some (PUnprocessed (j_id child)) else None
      | KIgnored \<Rightarrow>
          if j_state child = Failed
             \<and> (jo_ignore_dependency_on_failure (j_options child)
                \<or> jo_continue_parent_on_failure (j_options child))
          then Some (PIgnored (j_id child) (case j_failed_reason child of Some r \<Rightarrow> r | None \<Rightarrow> []))
          else None
      | KFailed \<Rightarrow>
          if j_state child = Failed
             \<and> \<not> jo_ignore_dependency_on_failure (j_options child)
             \<and> \<not> jo_continue_parent_on_failure (j_options child)
             \<and> \<not> jo_remove_dependency_on_failure (j_options child)
          then Some (PFailed (j_id child)) else None)"

definition page_child ::
  "jobs_map \<Rightarrow> flow_index option \<Rightarrow> dependency_kind \<Rightarrow> job_id
     \<Rightarrow> page_item list \<times> job_id set \<Rightarrow> page_item list \<times> job_id set" where
  "page_child jobs index kind child_id acc =
     (let (bucket, seen) = acc
      in case indexed_flow_dependency_page_item index child_id kind of
           Some item \<Rightarrow> (bucket @ [item], insert child_id seen)
         | None \<Rightarrow>
             if flow_dependency_index_contains index child_id then (bucket, seen)
             else (case map_of jobs child_id of
                     None \<Rightarrow> (bucket, seen)
                   | Some child \<Rightarrow>
                       (case retained_flow_dependency_page_item child kind of
                          Some item \<Rightarrow> (bucket @ [item], seen)
                        | None \<Rightarrow> (bucket, seen))))"

definition flow_dependency_page_items ::
  "job \<Rightarrow> jobs_map \<Rightarrow> flow_index option \<Rightarrow> dependency_kind \<Rightarrow> page_item list" where
  "flow_dependency_page_items parent jobs index kind =
     (let (bucket, seen) = fold (page_child jobs index kind) (j_child_ids parent) ([], {})
      in case index of
           None \<Rightarrow> bucket
         | Some i \<Rightarrow>
             (case kind of
                KProcessed \<Rightarrow>
                  bucket @ map (\<lambda>(c, r). PProcessed c r)
                    (filter (\<lambda>(c, _). c \<notin> seen) (btree_entries (fi_processed i)))
              | KIgnored \<Rightarrow>
                  bucket @ map (\<lambda>(c, r). PIgnored c r)
                    (filter (\<lambda>(c, _). c \<notin> seen) (btree_entries (fi_ignored i)))
              | KFailed \<Rightarrow>
                  bucket @ map PFailed (filter (\<lambda>c. c \<notin> seen) (sorted_list_of_set (fi_failed i)))
              | KUnprocessed \<Rightarrow> bucket))"

definition flow_dependency_page ::
  "job \<Rightarrow> jobs_map \<Rightarrow> flow_index option \<Rightarrow> page_options \<Rightarrow> dependency_page" where
  "flow_dependency_page parent jobs index options =
     (let bucket = flow_dependency_page_items parent jobs index (po_kind options);
          count = max (po_count options) 1;
          start = min (po_cursor options) (length bucket);
          end' = min (u64_saturating_add start count) (length bucket)
      in \<lparr>dp_kind = po_kind options,
          dp_items = take (end' - start) (drop start bucket),
          dp_next_cursor = (if end' < length bucket then end' else 0),
          dp_count = count\<rparr>)"

definition flow_dependency_pages ::
  "job \<Rightarrow> jobs_map \<Rightarrow> flow_index option \<Rightarrow> pages_options \<Rightarrow> dependency_pages" where
  "flow_dependency_pages parent jobs index options =
     fold (\<lambda>po pages. dependency_pages_insert (flow_dependency_page parent jobs index po) pages)
       (pages_options_selected options) dependency_pages_default"

definition flow_children_values :: "job \<Rightarrow> jobs_map \<Rightarrow> flow_index option \<Rightarrow> (job_id, json) hmap" where
  "flow_children_values parent jobs index =
     fold (\<lambda>child_id values.
             if flow_dependency_index_contains index child_id then values
             else case map_of jobs child_id of
                    None \<Rightarrow> values
                  | Some child \<Rightarrow>
                      if j_state child = Completed
                      then (case j_return_value child of
                              Some r \<Rightarrow> AList.update (j_id child) r values | None \<Rightarrow> values)
                      else values)
       (j_child_ids parent) (case index of Some i \<Rightarrow> fi_processed i | None \<Rightarrow> [])"

definition flow_ignored_children_failures ::
  "job \<Rightarrow> jobs_map \<Rightarrow> flow_index option \<Rightarrow> (job_id, string) hmap" where
  "flow_ignored_children_failures parent jobs index =
     fold (\<lambda>child_id failures.
             if flow_dependency_index_contains index child_id then failures
             else case map_of jobs child_id of
                    None \<Rightarrow> failures
                  | Some child \<Rightarrow>
                      if j_state child = Failed
                         \<and> (jo_ignore_dependency_on_failure (j_options child)
                            \<or> jo_continue_parent_on_failure (j_options child))
                      then AList.update (j_id child)
                             (case j_failed_reason child of Some r \<Rightarrow> r | None \<Rightarrow> []) failures
                      else failures)
       (j_child_ids parent) (case index of Some i \<Rightarrow> fi_ignored i | None \<Rightarrow> [])"

section \<open>Guards on dependencies\<close>

definition ensure_flow_dependencies_have_not_failed ::
  "job \<Rightarrow> jobs_map \<Rightarrow> flow_index option \<Rightarrow> string \<Rightarrow> unit result" where
  "ensure_flow_dependencies_have_not_failed j jobs index action =
     (let counts = flow_dependency_counts j jobs index
      in if fc_failed counts > 0
         then Inl (JobStateConflict (''cannot '' @ action @ '' job '' @ j_id j @ ''; it has ''
                @ show_nat (fc_failed counts) @ '' failed flow dependencies''))
         else Inr ())"

definition ensure_flow_dependencies_are_resolved ::
  "job \<Rightarrow> jobs_map \<Rightarrow> flow_index option \<Rightarrow> string \<Rightarrow> unit result" where
  "ensure_flow_dependencies_are_resolved j jobs index action =
     (let counts = flow_dependency_counts j jobs index
      in if fc_unprocessed counts > 0
         then Inl (JobStateConflict (''cannot '' @ action @ '' job '' @ j_id j @ ''; it has ''
                @ show_nat (fc_unprocessed counts) @ '' pending flow dependencies''))
         else if fc_failed counts > 0
         then Inl (JobStateConflict (''cannot '' @ action @ '' job '' @ j_id j @ ''; it has ''
                @ show_nat (fc_failed counts) @ '' failed flow dependencies''))
         else Inr ())"

section \<open>Collecting removable children\<close>

text \<open>
  \<open>collect_removable_unprocessed_children\<close> walks the child graph depth first, each id once.
  The recursion into a child's children spends one unit of fuel; \<open>None\<close> is running out.
\<close>

fun collect_removable ::
  "nat \<Rightarrow> jobs_map \<Rightarrow> job_id list \<Rightarrow> job_id list \<Rightarrow> job_id set \<Rightarrow> (job_id list \<times> job_id set) option" where
  "collect_removable fuel jobs [] out seen = Some (out, seen)"
| "collect_removable fuel jobs (c # cs) out seen =
     (if c \<in> seen then collect_removable fuel jobs cs out seen
      else case map_of jobs c of
             None \<Rightarrow> collect_removable fuel jobs cs out (insert c seen)
           | Some child \<Rightarrow>
               if j_state child = Active \<or> is_terminal (j_state child)
               then collect_removable fuel jobs cs out (insert c seen)
               else (case fuel of
                       0 \<Rightarrow> None
                     | Suc n \<Rightarrow>
                         (case collect_removable n jobs (j_child_ids child) out (insert c seen) of
                            None \<Rightarrow> None
                          | Some (out1, seen1) \<Rightarrow>
                              collect_removable fuel jobs cs (out1 @ [j_id child]) seen1)))"

end
