(* ===== verification/Job_Queue_Core.thy ===== *)
theory Job_Queue_Core
  imports Job_Flow_Index
begin

text \<open>
  The internal operations of \<open>InMemoryJobQueue\<close> (\<open>src/src/job/memory.rs\<close>, the
  \<open>*_locked\<close> functions), from which the public operations are composed: removing a
  record, finished-job retention, the keep-last deduplication slots, and the transitions of a
  flow parent. Each takes the state under the lock and returns its result with the new state.
\<close>

section \<open>Removal and retention\<close>

definition forget_released_deduplication_owner :: "job \<Rightarrow> qstate \<Rightarrow> qstate" where
  "forget_released_deduplication_owner j s =
     (case job_deduplication_id j of
        None \<Rightarrow> s
      | Some d \<Rightarrow> s\<lparr>q_released := q_released s - {(d, j_id j)}\<rparr>)"

definition remove_job_record :: "job_id \<Rightarrow> qstate \<Rightarrow> job option \<times> qstate" where
  "remove_job_record job_id s =
     (case get_job_at s job_id of
        None \<Rightarrow> (None, s)
      | Some removed \<Rightarrow>
          let s1 = s\<lparr>q_jobs := AList.delete job_id (q_jobs s)\<rparr>;
              s2 = s1\<lparr>q_flow_dependencies := AList.delete job_id (q_flow_dependencies s1)\<rparr>
          in (Some removed, forget_released_deduplication_owner removed s2))"

definition remove_all :: "job_id list \<Rightarrow> qstate \<Rightarrow> qstate" where
  "remove_all ids s = fold (\<lambda>i s. snd (remove_job_record i s)) ids s"

text \<open>Finished jobs of a state, newest first, ties by descending id.\<close>

definition finished_entry :: "job \<Rightarrow> (job_id \<times> instant) option" where
  "finished_entry j = map_option (\<lambda>t. (j_id j, t)) (j_finished_at j)"

definition retention_cmp :: "(job_id \<times> instant) comparator" where
  "retention_cmp = then_with (reversed (by_key snd)) (reversed (by_key fst))"

definition finished_entries :: "externals \<Rightarrow> job_state \<Rightarrow> qstate \<Rightarrow> (job_id \<times> instant) list" where
  "finished_entries ext st s =
     List.map_filter finished_entry
       (filter (\<lambda>j. j_state j = st) (hash_values (ext_hash_rank ext) (q_jobs s)))"

definition apply_retention_age :: "externals \<Rightarrow> job_state \<Rightarrow> job_retention \<Rightarrow> instant \<Rightarrow> qstate \<Rightarrow> qstate" where
  "apply_retention_age ext st retention now s =
     (case rt_age retention of
        None \<Rightarrow> s
      | Some age \<Rightarrow>
          let cutoff = subtract_duration ext now age;
              limit = (case rt_limit retention of Some n \<Rightarrow> n | None \<Rightarrow> 1000);
              expired = filter (\<lambda>(_, t). t \<le> cutoff) (finished_entries ext st s)
          in remove_all (map fst (take limit (Sorting_Algorithms.sort retention_cmp expired))) s)"

definition apply_retention_count :: "externals \<Rightarrow> job_state \<Rightarrow> job_retention \<Rightarrow> qstate \<Rightarrow> qstate" where
  "apply_retention_count ext st retention s =
     (case rt_count retention of
        None \<Rightarrow> s
      | Some keep \<Rightarrow>
          remove_all (map fst (drop keep
            (Sorting_Algorithms.sort retention_cmp (finished_entries ext st s)))) s)"

definition apply_finished_retention ::
  "externals \<Rightarrow> job_state \<Rightarrow> job_retention \<Rightarrow> instant \<Rightarrow> qstate \<Rightarrow> qstate" where
  "apply_finished_retention ext st retention now s =
     apply_retention_count ext st retention (apply_retention_age ext st retention now s)"

text \<open>The two-way choice after a terminal transition: remove now, or apply retention.\<close>

definition retire_failed :: "externals \<Rightarrow> job_id \<Rightarrow> job \<Rightarrow> instant \<Rightarrow> qstate \<Rightarrow> qstate" where
  "retire_failed ext job_id failed now s =
     (if removes_failed_immediately (j_options failed)
      then snd (remove_job_record job_id s)
      else case failed_retention (j_options failed) of
             Some retention \<Rightarrow> apply_finished_retention ext Failed retention now s
           | None \<Rightarrow> s)"

definition retire_completed :: "externals \<Rightarrow> job_id \<Rightarrow> job \<Rightarrow> instant \<Rightarrow> qstate \<Rightarrow> qstate" where
  "retire_completed ext job_id completed now s =
     (if removes_completed_immediately (j_options completed)
      then snd (remove_job_record job_id s)
      else case completed_retention (j_options completed) of
             Some retention \<Rightarrow> apply_finished_retention ext Completed retention now s
           | None \<Rightarrow> s)"

section \<open>Storing new jobs\<close>

text \<open>Forget the released owner key, number, insert, announce.\<close>

definition insert_new_job :: "job \<Rightarrow> instant \<Rightarrow> qstate \<Rightarrow> job \<times> qstate" where
  "insert_new_job j now s =
     (let s1 = forget_released_deduplication_owner j s;
          (j1, s2) = assign_waiting_order j s1
      in (j1, emit_job_created_events j1 now (put_job j1 s2)))"

section \<open>Keep-last deduplication slots\<close>

definition clear_deduplication_expiry :: "job_id \<Rightarrow> qstate \<Rightarrow> qstate" where
  "clear_deduplication_expiry i s = modify_job i (\<lambda>j. j\<lparr>j_deduplication_expires_at := None\<rparr>) s"

definition store_deduplicated_next :: "job \<Rightarrow> job \<Rightarrow> qstate \<Rightarrow> bool \<times> qstate" where
  "store_deduplicated_next candidate existing s =
     (if \<not> deduplication_stores_next_if_active candidate existing then (False, s)
      else case job_deduplication_id candidate of
             None \<Rightarrow> (False, s)
           | Some d \<Rightarrow>
               (True, clear_deduplication_expiry (j_id existing)
                 (s\<lparr>q_deduplication_next := AList.update d candidate (q_deduplication_next s),
                    q_deduplication_next_flows := AList.delete d (q_deduplication_next_flows s)\<rparr>)))"

definition store_deduplicated_next_flow :: "job_flow \<Rightarrow> job \<Rightarrow> qstate \<Rightarrow> bool \<times> qstate" where
  "store_deduplicated_next_flow candidate existing s =
     (if \<not> deduplication_stores_next_flow_if_active candidate existing then (False, s)
      else case job_deduplication_id (fl_parent candidate) of
             None \<Rightarrow> (False, s)
           | Some d \<Rightarrow>
               (True, clear_deduplication_expiry (j_id existing)
                 (s\<lparr>q_deduplication_next_flows := AList.update d candidate (q_deduplication_next_flows s),
                    q_deduplication_next := AList.delete d (q_deduplication_next s)\<rparr>)))"

definition extend_deduplication_expiration ::
  "externals \<Rightarrow> job \<Rightarrow> job_id \<Rightarrow> instant \<Rightarrow> qstate \<Rightarrow> qstate" where
  "extend_deduplication_expiration ext candidate existing_id now s =
     (if \<not> deduplication_extends_ttl candidate then s
      else modify_job existing_id
             (\<lambda>j. j\<lparr>j_deduplication_expires_at :=
                      deduplication_expiration ext (j_options candidate) now\<rparr>) s)"

definition push_child :: "job_id \<Rightarrow> job \<Rightarrow> job" where
  "push_child c p = p\<lparr>j_child_ids := push_unique c (j_child_ids p)\<rparr>"

definition enqueue_deduplicated_next :: "externals \<Rightarrow> job \<Rightarrow> instant \<Rightarrow> qstate \<Rightarrow> job option \<times> qstate" where
  "enqueue_deduplicated_next ext owner now s =
     (case job_deduplication_id owner of
        None \<Rightarrow> (None, s)
      | Some d \<Rightarrow>
          (case map_of (q_deduplication_next s) d of
             None \<Rightarrow> (None, s)
           | Some cand \<Rightarrow>
               let s1 = s\<lparr>q_deduplication_next := AList.delete d (q_deduplication_next s)\<rparr>
               in (case repeat_keep_last_next_count owner cand of
                     None \<Rightarrow> (None, s1)
                   | Some repeat_next_count \<Rightarrow>
                       let n1 = prepare_deduplicated_next_job ext cand now;
                           n2 = (case repeat_next_count of
                                   Some c \<Rightarrow> n1\<lparr>j_repeat_key := j_repeat_key owner, j_repeat_count := c\<rparr>
                                 | None \<Rightarrow> n1)
                       in if get_job_at s1 (j_id n2) \<noteq> None then (None, s1)
                          else let s2 = (case j_parent_id n2 of
                                           Some p \<Rightarrow> modify_job p (push_child (j_id n2)) s1
                                         | None \<Rightarrow> s1);
                                   (n3, s3) = insert_new_job n2 now s2
                               in (Some n3, s3))))"

fun insert_new_jobs :: "job list \<Rightarrow> instant \<Rightarrow> qstate \<Rightarrow> job list \<times> qstate" where
  "insert_new_jobs [] now s = ([], s)"
| "insert_new_jobs (c # cs) now s =
     (let (c1, s1) = insert_new_job c now s;
          (cs1, s2) = insert_new_jobs cs now s1
      in (c1 # cs1, s2))"

definition enqueue_deduplicated_next_flow ::
  "externals \<Rightarrow> job \<Rightarrow> instant \<Rightarrow> qstate \<Rightarrow> job_flow option \<times> qstate" where
  "enqueue_deduplicated_next_flow ext owner now s =
     (case job_deduplication_id owner of
        None \<Rightarrow> (None, s)
      | Some d \<Rightarrow>
          (case map_of (q_deduplication_next_flows s) d of
             None \<Rightarrow> (None, s)
           | Some flow \<Rightarrow>
               let s1 = s\<lparr>q_deduplication_next_flows := AList.delete d (q_deduplication_next_flows s)\<rparr>
               in if get_job_at s1 (j_id (fl_parent flow)) \<noteq> None
                     \<or> list_ex (\<lambda>c. get_job_at s1 (j_id c) \<noteq> None) (fl_children flow)
                  then (None, s1)
                  else let f = prepare_deduplicated_next_flow ext flow now;
                           (p, s2) = insert_new_job (fl_parent f) now s1;
                           (cs, s3) = insert_new_jobs (fl_children f) now s2
                       in (Some \<lparr>fl_parent = p, fl_children = cs\<rparr>, s3)))"

definition flow_for_existing_owner :: "job \<Rightarrow> qstate \<Rightarrow> job_flow" where
  "flow_for_existing_owner owner s =
     \<lparr>fl_parent = owner, fl_children = List.map_filter (get_job_at s) (j_child_ids owner)\<rparr>"

section \<open>Transitions of a flow parent\<close>

definition validate_existing_flow_child_parent :: "job_id \<Rightarrow> job_id \<Rightarrow> qstate \<Rightarrow> unit result" where
  "validate_existing_flow_child_parent parent_id child_id s =
     (case get_job_at s child_id of
        None \<Rightarrow> Inr ()
      | Some child \<Rightarrow>
          (case j_parent_id child of
             None \<Rightarrow> Inr ()
           | Some existing_parent_id \<Rightarrow>
               if existing_parent_id \<noteq> parent_id \<and> get_job_at s existing_parent_id \<noteq> None
               then Inl (JobStateConflict (''flow child id `'' @ child_id
                      @ ''` already belongs to parent `'' @ existing_parent_id @ ''`''))
               else Inr ()))"

text \<open>
  The assignments a parent receives when it leaves or re-enters the waiting-children state; the
  source spells them out in each function.
\<close>

definition reset_parent :: "job_state \<Rightarrow> string option \<Rightarrow> job \<Rightarrow> job" where
  "reset_parent st deferred p =
     p\<lparr>j_state := st, j_processed_at := None, j_finished_at := None, j_worker_id := None,
       j_lock_token := None, j_lease_expires_at := None, j_deferred_failure := deferred,
       j_failed_reason := None\<rparr>"

text \<open>
  The common tail of \<open>release_parent_if_ready_locked\<close>,
  \<open>continue_parent_after_child_failure_locked\<close> and
  \<open>defer_parent_failure_after_child_failure_locked\<close>: schedule the parent and announce it.
\<close>

definition reschedule_parent ::
  "job_id \<Rightarrow> string option \<Rightarrow> job_state \<Rightarrow> instant \<Rightarrow> job \<Rightarrow> qstate \<Rightarrow> job option \<times> qstate" where
  "reschedule_parent parent_id deferred prev now parent s =
     (let st = state_after_dependencies (j_scheduled_at parent) now;
          (sq, s1) = (if st = Waiting
                      then let (n, s') = next_waiting_sequence s in (Some n, s')
                      else (None, s));
          p1 = reset_parent st deferred parent;
          p2 = (case sq of Some n \<Rightarrow> p1\<lparr>j_enqueued_seq := n\<rparr> | None \<Rightarrow> p1);
          s2 = modify_job parent_id (\<lambda>_. p2) s1
      in (Some p2, emit_event (job_event_for_state (j_state p2)) (Some p2) (Some prev) now [] s2))"

definition fail_waiting_parent ::
  "externals \<Rightarrow> job_id \<Rightarrow> string \<Rightarrow> instant \<Rightarrow> qstate \<Rightarrow> job option \<times> qstate" where
  "fail_waiting_parent ext parent_id reason now s =
     (case get_job_at s parent_id of
        None \<Rightarrow> (None, s)
      | Some parent \<Rightarrow>
          if is_terminal (j_state parent) then (Some parent, s)
          else
            let failed = parent\<lparr>j_state := Failed, j_finished_at := Some now, j_worker_id := None,
                           j_lock_token := None, j_lease_expires_at := None,
                           j_deferred_failure := None, j_failed_reason := Some reason\<rparr>;
                s1 = modify_job parent_id (\<lambda>_. failed) s;
                s2 = retire_failed ext parent_id failed now s1
            in (Some failed,
                emit_event ''failed'' (Some failed) (Some WaitingChildren) now
                  [(''failedReason'', JString reason)] s2))"

definition continue_parent_after_child_failure ::
  "job_id \<Rightarrow> instant \<Rightarrow> qstate \<Rightarrow> job option \<times> qstate" where
  "continue_parent_after_child_failure parent_id now s =
     (case get_job_at s parent_id of
        None \<Rightarrow> (None, s)
      | Some parent \<Rightarrow>
          if j_state parent \<noteq> WaitingChildren then (Some parent, s)
          else reschedule_parent parent_id None WaitingChildren now parent s)"

definition defer_parent_failure_after_child_failure ::
  "job_id \<Rightarrow> job_id \<Rightarrow> instant \<Rightarrow> qstate \<Rightarrow> job option \<times> qstate" where
  "defer_parent_failure_after_child_failure parent_id child_id now s =
     (case get_job_at s parent_id of
        None \<Rightarrow> (None, s)
      | Some parent \<Rightarrow>
          if is_terminal (j_state parent) then (Some parent, s)
          else reschedule_parent parent_id (Some (''child job '' @ child_id @ '' failed''))
                 (j_state parent) now parent s)"

text \<open>
  The loop over the children in \<open>release_parent_if_ready_locked\<close>: \<open>None\<close> when a retained
  child is not finished, otherwise the last blocking failure and the last deferred failure.
\<close>

fun scan_children ::
  "jobs_map \<Rightarrow> job_id list \<Rightarrow> (job_id \<times> string option) option \<Rightarrow> job_id option
     \<Rightarrow> ((job_id \<times> string option) option \<times> job_id option) option" where
  "scan_children jobs [] failure deferred = Some (failure, deferred)"
| "scan_children jobs (c # cs) failure deferred =
     (case map_of jobs c of
        None \<Rightarrow> scan_children jobs cs failure deferred
      | Some child \<Rightarrow>
          (case j_state child of
             Completed \<Rightarrow> scan_children jobs cs failure deferred
           | Failed \<Rightarrow>
               (if jo_fail_parent_on_failure (j_options child)
                then scan_children jobs cs failure (Some (j_id child))
                else if child_failure_releases_dependency child
                then scan_children jobs cs failure deferred
                else scan_children jobs cs (Some (j_id child, j_failed_reason child)) deferred)
           | _ \<Rightarrow> None))"

definition child_failed_reason :: "job_id \<Rightarrow> string option \<Rightarrow> string" where
  "child_failed_reason child_id reason =
     ''child job '' @ child_id @ '' failed: ''
       @ (case reason of Some r \<Rightarrow> r | None \<Rightarrow> ''unknown error'')"

definition release_parent_if_ready :: "externals \<Rightarrow> job_id \<Rightarrow> instant \<Rightarrow> qstate \<Rightarrow> job option \<times> qstate" where
  "release_parent_if_ready ext parent_id now s =
     (case get_job_at s parent_id of
        None \<Rightarrow> (None, s)
      | Some parent \<Rightarrow>
          if j_state parent \<noteq> WaitingChildren then (Some parent, s)
          else
            (case scan_children (q_jobs s) (j_child_ids parent) None None of
               None \<Rightarrow> (Some parent, s)
             | Some (_, Some child_id) \<Rightarrow>
                 defer_parent_failure_after_child_failure parent_id child_id now s
             | Some (Some (child_id, reason), None) \<Rightarrow>
                 fail_waiting_parent ext parent_id (child_failed_reason child_id reason) now s
             | Some (None, None) \<Rightarrow>
                 reschedule_parent parent_id None WaitingChildren now parent s))"

definition release_all :: "externals \<Rightarrow> job_id list \<Rightarrow> instant \<Rightarrow> qstate \<Rightarrow> qstate" where
  "release_all ext parent_ids now s =
     fold (\<lambda>p s. snd (release_parent_if_ready ext p now s)) parent_ids s"

definition restore_parent_dependency_after_child_retry ::
  "job_id \<Rightarrow> job_id \<Rightarrow> instant \<Rightarrow> qstate \<Rightarrow> job option \<times> qstate" where
  "restore_parent_dependency_after_child_retry parent_id child_id now s =
     (case get_job_at s parent_id of
        None \<Rightarrow> (None, s)
      | Some parent \<Rightarrow>
          if is_terminal (j_state parent) \<or> j_state parent = Active then (Some parent, s)
          else if child_id \<notin> set (j_child_ids parent) then (Some parent, s)
          else
            let s1 = snd (clear_child_dependency_side_index parent_id child_id s);
                p = reset_parent WaitingChildren None parent;
                s2 = modify_job parent_id (\<lambda>_. p) s1
            in (Some p,
                if j_state parent \<noteq> WaitingChildren
                then emit_event ''waiting-children'' (Some p) (Some (j_state parent)) now [] s2
                else s2))"

section \<open>Promotion of due jobs\<close>

definition due_cmp :: "job comparator" where
  "due_cmp = then_with (by_key j_scheduled_at) (then_with (by_key j_created_at) (by_key j_id))"

definition due_jobs :: "externals \<Rightarrow> instant \<Rightarrow> qstate \<Rightarrow> job list" where
  "due_jobs ext now s =
     Sorting_Algorithms.sort due_cmp
       (filter (\<lambda>j. j_state j = Delayed \<and> j_scheduled_at j \<le> now)
         (hash_values (ext_hash_rank ext) (q_jobs s)))"

definition promote_one :: "instant \<Rightarrow> job \<Rightarrow> nat \<times> qstate \<Rightarrow> nat \<times> qstate" where
  "promote_one now due acc =
     (let (promoted, s) = acc;
          (n, s1) = next_waiting_sequence s
      in case get_job_at s1 (j_id due) of
           None \<Rightarrow> (promoted, s1)
         | Some j \<Rightarrow>
             let j1 = j\<lparr>j_state := Waiting, j_enqueued_seq := n\<rparr>;
                 s2 = modify_job (j_id due) (\<lambda>_. j1) s1
             in (promoted + 1, emit_event ''waiting'' (Some j1) (Some Delayed) now [] s2))"

definition promote_due :: "externals \<Rightarrow> instant \<Rightarrow> qstate \<Rightarrow> nat \<times> qstate" where
  "promote_due ext now s = fold (promote_one now) (due_jobs ext now s) (0, s)"

end
