(* ===== verification/Job_Queue_Ops.thy ===== *)
theory Job_Queue_Ops
  imports Job_Queue_Core
begin

text \<open>
  The public operations of \<open>InMemoryJobQueue\<close> on single jobs (\<open>src/src/job/memory.rs\<close>):
  adding, claiming, finishing, moving, editing, listing, removing, recovering, pausing and
  snapshots. An operation returns its \<open>Result\<close> together with the state it leaves, also
  when it fails. Values the source draws while it runs (\<open>Uuid::new_v4\<close>, \<open>Utc::now\<close>) are
  arguments.
\<close>

section \<open>Adding jobs\<close>

definition insert_unless_repeating :: "externals \<Rightarrow> job \<Rightarrow> instant \<Rightarrow> qstate \<Rightarrow> job \<times> qstate" where
  "insert_unless_repeating ext j now s =
     (case find_active_repeat_job ext (q_jobs s) j of
        Some existing \<Rightarrow> (existing, s)
      | None \<Rightarrow> insert_new_job j now s)"

text \<open>The part of \<open>add_at\<close> and of each round of \<open>add_many_at\<close> under the lock.\<close>

definition add_created :: "externals \<Rightarrow> job \<Rightarrow> instant \<Rightarrow> qstate \<Rightarrow> job \<times> qstate" where
  "add_created ext j now s =
     (case get_job_at s (j_id j) of
        Some existing \<Rightarrow> (existing, s)
      | None \<Rightarrow>
          (case find_active_deduplicated_job ext (q_jobs s) (q_released s) j now of
             None \<Rightarrow> insert_unless_repeating ext j now s
           | Some existing \<Rightarrow>
               if deduplication_replaces_delayed_owner j existing
               then let j1 = preserve_replacement_deduplication_expiration j existing;
                        (removed, s1) = remove_job_record (j_id existing) s;
                        s2 = (case removed of
                                Some r \<Rightarrow> emit_replaced_deduplicated_owner_events j1 r now
                                            (emit_removed_event r now s1)
                              | None \<Rightarrow> s1)
                    in insert_unless_repeating ext j1 now s2
               else let s1 = snd (store_deduplicated_next j existing s);
                        s2 = extend_deduplication_expiration ext j (j_id existing) now s1;
                        s3 = (if deduplication_duplicate_emits_events j existing
                              then emit_deduplicated_events existing j now s2 else s2)
                    in ((case get_job_at s3 (j_id existing) of Some e \<Rightarrow> e | None \<Rightarrow> existing), s3)))"

definition add_at ::
  "externals \<Rightarrow> string \<Rightarrow> string \<Rightarrow> json \<Rightarrow> job_options \<Rightarrow> string \<Rightarrow> instant \<Rightarrow> qstate
     \<Rightarrow> job result \<times> qstate" where
  "add_at ext queue name payload options uuid now s =
     (case validate_job_options_at ext options now of
        Inl e \<Rightarrow> (Inl e, s)
      | Inr _ \<Rightarrow>
          let (j, s1) = add_created ext (job_new ext queue name payload options uuid now) now s
          in (Inr j, s1))"

fun validate_specs :: "externals \<Rightarrow> job_spec list \<Rightarrow> instant \<Rightarrow> unit result" where
  "validate_specs ext [] now = Inr ()"
| "validate_specs ext (sp # sps) now =
     and_then (validate_job_options_at ext (sp_options sp) now) (\<lambda>_. validate_specs ext sps now)"

definition jobs_of_specs ::
  "externals \<Rightarrow> string \<Rightarrow> job_spec list \<Rightarrow> (nat \<Rightarrow> string) \<Rightarrow> instant \<Rightarrow> job list" where
  "jobs_of_specs ext queue specs uuids now =
     map (\<lambda>(i, sp). job_new ext queue (sp_name sp) (sp_payload sp) (sp_options sp) (uuids i) now)
       (List.enumerate 0 specs)"

fun add_created_all :: "externals \<Rightarrow> job list \<Rightarrow> instant \<Rightarrow> qstate \<Rightarrow> job list \<times> qstate" where
  "add_created_all ext [] now s = ([], s)"
| "add_created_all ext (j # js) now s =
     (let (j1, s1) = add_created ext j now s;
          (js1, s2) = add_created_all ext js now s1
      in (j1 # js1, s2))"

definition add_many_at ::
  "externals \<Rightarrow> string \<Rightarrow> job_spec list \<Rightarrow> (nat \<Rightarrow> string) \<Rightarrow> instant \<Rightarrow> qstate
     \<Rightarrow> job list result \<times> qstate" where
  "add_many_at ext queue specs uuids now s =
     (case validate_specs ext specs now of
        Inl e \<Rightarrow> (Inl e, s)
      | Inr _ \<Rightarrow>
          let (js, s1) = add_created_all ext (jobs_of_specs ext queue specs uuids now) now s
          in (Inr js, s1))"

section \<open>Claiming\<close>

definition lease_job :: "externals \<Rightarrow> string \<Rightarrow> string \<Rightarrow> duration \<Rightarrow> instant \<Rightarrow> job \<Rightarrow> job" where
  "lease_job ext worker_id token lease_for now j =
     j\<lparr>j_state := Active, j_attempts_made := u32_saturating_add (j_attempts_made j) 1,
       j_processed_at := Some now, j_worker_id := Some worker_id, j_lock_token := Some token,
       j_lease_expires_at := Some (add_duration ext now lease_for), j_failed_reason := None\<rparr>"

definition waiting_jobs :: "externals \<Rightarrow> qstate \<Rightarrow> job list" where
  "waiting_jobs ext s =
     filter (\<lambda>j. j_state j = Waiting) (hash_values (ext_hash_rank ext) (q_jobs s))"

definition claim_next ::
  "externals \<Rightarrow> string \<Rightarrow> string \<Rightarrow> duration \<Rightarrow> instant \<Rightarrow> qstate \<Rightarrow> job option result \<times> qstate" where
  "claim_next ext worker_id token lease_for now s =
     (if q_paused s then (Inr None, s)
      else
        let s1 = snd (promote_due ext now s)
        in case min_by compare_claim_order (waiting_jobs ext s1) of
             None \<Rightarrow> (Inr None, s1)
           | Some selected \<Rightarrow>
               (case get_job_at s1 (j_id selected) of
                  None \<Rightarrow> (Inr None, s1)
                | Some j \<Rightarrow>
                    let claimed = lease_job ext worker_id token lease_for now j;
                        s2 = modify_job (j_id selected) (\<lambda>_. claimed) s1
                    in (Inr (Some claimed),
                        emit_event ''active'' (Some claimed) (Some Waiting) now [] s2)))"

section \<open>Finishing\<close>

text \<open>The lookup and the two guards every operation of a lease holder starts with.\<close>

definition require_lease :: "job_id \<Rightarrow> string \<Rightarrow> string \<Rightarrow> qstate \<Rightarrow> job result" where
  "require_lease job_id token action s =
     (case get_job_at s job_id of
        None \<Rightarrow> Inl (JobNotFound job_id)
      | Some j \<Rightarrow>
          and_then (require_active j action) (\<lambda>_.
            and_then (require_lock_token j token) (\<lambda>_. Inr j)))"

definition complete_job_record :: "json \<Rightarrow> instant \<Rightarrow> job \<Rightarrow> job" where
  "complete_job_record value now j =
     j\<lparr>j_state := Completed, j_finished_at := Some now, j_worker_id := None, j_lock_token := None,
       j_lease_expires_at := None, j_deferred_failure := None, j_return_value := Some value\<rparr>"

definition record_in_parent :: "job \<Rightarrow> qstate \<Rightarrow> qstate" where
  "record_in_parent child s =
     (case j_parent_id child of
        Some p \<Rightarrow> record_terminal_child_dependency p child s
      | None \<Rightarrow> s)"

definition enqueue_next_or_flow :: "externals \<Rightarrow> job \<Rightarrow> instant \<Rightarrow> qstate \<Rightarrow> bool \<times> qstate" where
  "enqueue_next_or_flow ext owner now s =
     (case enqueue_deduplicated_next ext owner now s of
        (Some _, s1) \<Rightarrow> (True, s1)
      | (None, s1) \<Rightarrow>
          (case enqueue_deduplicated_next_flow ext owner now s1 of
             (Some _, s2) \<Rightarrow> (True, s2)
           | (None, s2) \<Rightarrow> (False, s2)))"

definition enqueue_repeat :: "externals \<Rightarrow> job \<Rightarrow> string \<Rightarrow> instant \<Rightarrow> qstate \<Rightarrow> unit result \<times> qstate" where
  "enqueue_repeat ext completed uuid now s =
     (case next_repeat_job ext completed uuid now of
        Inl e \<Rightarrow> (Inl e, s)
      | Inr None \<Rightarrow> (Inr (), s)
      | Inr (Some next) \<Rightarrow> (Inr (), snd (insert_new_job next now s)))"

definition complete_job ::
  "externals \<Rightarrow> job_id \<Rightarrow> string \<Rightarrow> json \<Rightarrow> string \<Rightarrow> instant \<Rightarrow> qstate \<Rightarrow> job result \<times> qstate" where
  "complete_job ext job_id token value uuid now s =
     (case require_lease job_id token ''complete'' s of
        Inl e \<Rightarrow> (Inl e, s)
      | Inr j \<Rightarrow>
          (case ensure_flow_dependencies_are_resolved j (q_jobs s)
                  (map_of (q_flow_dependencies s) job_id) ''complete'' of
             Inl e \<Rightarrow> (Inl e, s)
           | Inr _ \<Rightarrow>
               let completed = complete_job_record value now j;
                   s1 = modify_job job_id (\<lambda>_. completed) s;
                   s2 = record_in_parent completed s1;
                   s3 = retire_completed ext job_id completed now s2;
                   (enqueued, s4) = enqueue_next_or_flow ext completed now s3;
                   (rep, s5) = (if enqueued then (Inr (), s4)
                                else enqueue_repeat ext completed uuid now s4)
               in (case rep of
                     Inl e \<Rightarrow> (Inl e, s5)
                   | Inr _ \<Rightarrow>
                       let s6 = (case j_parent_id completed of
                                   Some p \<Rightarrow> snd (release_parent_if_ready ext p now s5)
                                 | None \<Rightarrow> s5);
                           s7 = emit_event ''completed'' (Some completed) (Some Active) now
                                  [(''returnvalue'', value)] s6
                       in (Inr completed, emit_drained_event_if_needed now s7))))"

definition fail_job_record :: "externals \<Rightarrow> string \<Rightarrow> instant \<Rightarrow> bool \<Rightarrow> job \<Rightarrow> job" where
  "fail_job_record ext error now allow_retry j =
     (let j1 = j\<lparr>j_worker_id := None, j_lock_token := None, j_lease_expires_at := None,
                 j_deferred_failure := None, j_failed_reason := Some error\<rparr>
      in if allow_retry \<and> should_retry j1
         then j1\<lparr>j_state := Delayed,
                 j_scheduled_at := add_duration ext now
                   (delay_for_attempt (ext_powi ext) (jo_retry_policy (j_options j1)) (j_attempts_made j1)),
                 j_finished_at := None\<rparr>
         else j1\<lparr>j_state := Failed, j_finished_at := Some now\<rparr>)"

text \<open>What the terminal failure of a child does to its parent.\<close>

definition parent_after_child_failure :: "externals \<Rightarrow> job \<Rightarrow> instant \<Rightarrow> qstate \<Rightarrow> qstate" where
  "parent_after_child_failure ext failed now s =
     (case j_parent_id failed of
        None \<Rightarrow> s
      | Some p \<Rightarrow>
          if jo_fail_parent_on_failure (j_options failed)
          then snd (defer_parent_failure_after_child_failure p (j_id failed) now s)
          else if jo_continue_parent_on_failure (j_options failed)
          then snd (continue_parent_after_child_failure p now s)
          else if child_failure_releases_dependency failed
          then snd (release_parent_if_ready ext p now s)
          else snd (fail_waiting_parent ext p
                     (child_failed_reason (j_id failed) (j_failed_reason failed)) now s))"

definition failed_reason_fields :: "job \<Rightarrow> (string \<times> json) list" where
  "failed_reason_fields j =
     (case j_failed_reason j of Some r \<Rightarrow> [(''failedReason'', JString r)] | None \<Rightarrow> [])"

definition fail_active_job ::
  "externals \<Rightarrow> job_id \<Rightarrow> string \<Rightarrow> string \<Rightarrow> instant \<Rightarrow> bool \<Rightarrow> qstate \<Rightarrow> job result \<times> qstate" where
  "fail_active_job ext job_id token error now allow_retry s =
     (case require_lease job_id token ''fail'' s of
        Inl e \<Rightarrow> (Inl e, s)
      | Inr j \<Rightarrow>
          let failed = fail_job_record ext error now allow_retry j;
              s1 = modify_job job_id (\<lambda>_. failed) s;
              s2 = (if j_state failed = Failed
                    then let t1 = record_in_parent failed s1;
                             t2 = retire_failed ext job_id failed now t1;
                             t3 = snd (enqueue_next_or_flow ext failed now t2)
                         in parent_after_child_failure ext failed now t3
                    else s1);
              s3 = emit_event (job_event_for_state (j_state failed)) (Some failed) (Some Active) now
                     (failed_reason_fields failed) s2;
              s4 = (if retries_exhausted failed then emit_retries_exhausted_event failed now s3 else s3);
              s5 = (if j_state failed = Failed then emit_drained_event_if_needed now s4 else s4)
          in (Inr failed, s5))"

section \<open>Moving and leasing\<close>

definition renew ::
  "externals \<Rightarrow> job_id \<Rightarrow> string \<Rightarrow> duration \<Rightarrow> instant \<Rightarrow> qstate \<Rightarrow> job result \<times> qstate" where
  "renew ext job_id token lease_for now s =
     (case require_lease job_id token ''renew lease'' s of
        Inl e \<Rightarrow> (Inl e, s)
      | Inr j \<Rightarrow>
          let j1 = j\<lparr>j_lease_expires_at := Some (add_duration ext now lease_for)\<rparr>
          in (Inr j1, modify_job job_id (\<lambda>_. j1) s))"

definition delay_active ::
  "externals \<Rightarrow> job_id \<Rightarrow> string \<Rightarrow> duration \<Rightarrow> instant \<Rightarrow> qstate \<Rightarrow> job result \<times> qstate" where
  "delay_active ext job_id token delay now s =
     (case require_lease job_id token ''delay active'' s of
        Inl e \<Rightarrow> (Inl e, s)
      | Inr j \<Rightarrow>
          let scheduled = add_duration ext now delay;
              j1 = j\<lparr>j_state := Delayed, j_options := (j_options j)\<lparr>jo_delay := Some delay\<rparr>,
                     j_scheduled_at := scheduled, j_processed_at := None, j_worker_id := None,
                     j_lock_token := None, j_lease_expires_at := None,
                     j_deferred_failure := None, j_failed_reason := None\<rparr>;
              s1 = modify_job job_id (\<lambda>_. j1) s
          in (Inr j1, emit_event ''delayed'' (Some j1) (Some Active) now
                        [(''delay'', json_of_int (ext_timestamp_millis ext scheduled))] s1))"

definition release_active ::
  "job_id \<Rightarrow> string \<Rightarrow> instant \<Rightarrow> qstate \<Rightarrow> job result \<times> qstate" where
  "release_active job_id token now s =
     (case require_lease job_id token ''release active'' s of
        Inl e \<Rightarrow> (Inl e, s)
      | Inr j \<Rightarrow>
          let j1 = j\<lparr>j_state := Waiting, j_scheduled_at := now, j_processed_at := None,
                     j_worker_id := None, j_lock_token := None, j_lease_expires_at := None,
                     j_deferred_failure := None, j_failed_reason := None, j_enqueued_seq := 0\<rparr>;
              s1 = modify_job job_id (\<lambda>_. j1) s
          in (Inr j1, emit_event ''waiting'' (Some j1) (Some Active) now [] s1))"

definition promote :: "job_id \<Rightarrow> instant \<Rightarrow> qstate \<Rightarrow> job result \<times> qstate" where
  "promote job_id now s =
     (case get_job_at s job_id of
        None \<Rightarrow> (Inl (JobNotFound job_id), s)
      | Some j \<Rightarrow>
          if j_state j \<noteq> Delayed
          then (Inl (JobStateConflict (''cannot promote job '' @ j_id j @ '' from state ''
                  @ debug_state (j_state j))), s)
          else let (n, s1) = next_waiting_sequence s;
                   j1 = j\<lparr>j_state := Waiting, j_scheduled_at := now, j_enqueued_seq := n\<rparr>;
                   s2 = modify_job job_id (\<lambda>_. j1) s1
               in (Inr j1, emit_event ''waiting'' (Some j1) (Some Delayed) now [] s2))"

definition reschedule ::
  "externals \<Rightarrow> job_id \<Rightarrow> duration \<Rightarrow> instant \<Rightarrow> qstate \<Rightarrow> job result \<times> qstate" where
  "reschedule ext job_id delay now s =
     (if delay = 0 then (Inl (ConfigError ''job delay must be greater than zero''), s)
      else case get_job_at s job_id of
        None \<Rightarrow> (Inl (JobNotFound job_id), s)
      | Some j \<Rightarrow>
          if j_state j \<noteq> Delayed
          then (Inl (JobStateConflict (''cannot reschedule job '' @ j_id j @ '' from state ''
                  @ debug_state (j_state j))), s)
          else let scheduled = add_duration ext now delay;
                   j1 = j\<lparr>j_options := (j_options j)\<lparr>jo_delay := Some delay\<rparr>, j_scheduled_at := scheduled\<rparr>;
                   s1 = modify_job job_id (\<lambda>_. j1) s
               in (Inr j1, emit_event ''delayed'' (Some j1) None now
                             [(''delay'', json_of_int (ext_timestamp_millis ext scheduled))] s1))"

definition retry_conflict :: "externals \<Rightarrow> job_id \<Rightarrow> job \<Rightarrow> instant \<Rightarrow> qstate \<Rightarrow> unit result" where
  "retry_conflict ext job_id j now s =
     and_then
       (case job_deduplication_id j of
          None \<Rightarrow> Inr ()
        | Some d \<Rightarrow>
            (case find_active_deduplication_id_except ext (q_jobs s) (q_released s) d job_id now of
               None \<Rightarrow> Inr ()
             | Some existing \<Rightarrow>
                 Inl (JobStateConflict (''cannot retry job '' @ job_id @ ''; deduplication id `''
                   @ d @ ''` is active on job '' @ j_id existing))))
       (\<lambda>_. case j_repeat_key j of
               None \<Rightarrow> Inr ()
             | Some k \<Rightarrow>
                 (case find_active_repeat_key_except ext (q_jobs s) k job_id of
                    None \<Rightarrow> Inr ()
                  | Some existing \<Rightarrow>
                      Inl (JobStateConflict (''cannot retry job '' @ job_id @ ''; repeat key `''
                        @ k @ ''` is active on job '' @ j_id existing))))"

definition retry_job_record :: "externals \<Rightarrow> nat \<Rightarrow> instant \<Rightarrow> job \<Rightarrow> job" where
  "retry_job_record ext n now j =
     j\<lparr>j_state := Waiting, j_scheduled_at := now,
       j_deduplication_expires_at := deduplication_expiration ext (j_options j) now,
       j_processed_at := None, j_finished_at := None, j_worker_id := None, j_lock_token := None,
       j_lease_expires_at := None, j_deferred_failure := None, j_failed_reason := None,
       j_return_value := None, j_enqueued_seq := n\<rparr>"

definition retry :: "externals \<Rightarrow> job_id \<Rightarrow> instant \<Rightarrow> qstate \<Rightarrow> job result \<times> qstate" where
  "retry ext job_id now s =
     (case get_job_at s job_id of
        None \<Rightarrow> (Inl (JobNotFound job_id), s)
      | Some current \<Rightarrow>
          if \<not> is_terminal (j_state current)
          then (Inl (JobStateConflict (''cannot retry job '' @ j_id current @ '' from state ''
                  @ debug_state (j_state current))), s)
          else (case retry_conflict ext job_id current now s of
                  Inl e \<Rightarrow> (Inl e, s)
                | Inr _ \<Rightarrow>
                    let s1 = (case job_deduplication_id current of
                                Some d \<Rightarrow> s\<lparr>q_released := q_released s - {(d, job_id)}\<rparr>
                              | None \<Rightarrow> s);
                        (n, s2) = next_waiting_sequence s1;
                        j1 = retry_job_record ext n now current;
                        s3 = modify_job job_id (\<lambda>_. j1) s2;
                        s4 = emit_event ''waiting'' (Some j1) (Some (j_state current)) now [] s3
                    in (Inr j1,
                        case j_parent_id current of
                          Some p \<Rightarrow> snd (restore_parent_dependency_after_child_retry p job_id now s4)
                        | None \<Rightarrow> s4)))"

definition set_priority_order ::
  "job_id \<Rightarrow> job_priority \<Rightarrow> bool option \<Rightarrow> qstate \<Rightarrow> job result \<times> qstate" where
  "set_priority_order job_id priority lifo s =
     (case validate_job_priority priority of
        Inl e \<Rightarrow> (Inl e, s)
      | Inr _ \<Rightarrow>
          (case get_job_at s job_id of
             None \<Rightarrow> (Inl (JobNotFound job_id), s)
           | Some j \<Rightarrow>
               let (sq, s1) = (if j_state j = Waiting
                               then let (n, s') = next_waiting_sequence s in (Some n, s')
                               else (None, s));
                   j1 = j\<lparr>j_priority := priority, j_options := (j_options j)\<lparr>jo_priority := priority\<rparr>\<rparr>;
                   j2 = (case sq of Some n \<Rightarrow> j1\<lparr>j_enqueued_seq := n\<rparr> | None \<Rightarrow> j1);
                   j3 = (case lifo of
                           Some b \<Rightarrow> j2\<lparr>j_options := (j_options j2)\<lparr>jo_lifo := b\<rparr>\<rparr>
                         | None \<Rightarrow> j2)
               in (Inr j3, modify_job job_id (\<lambda>_. j3) s1)))"

section \<open>Editing\<close>

definition edit_job :: "job_id \<Rightarrow> (job \<Rightarrow> job) \<Rightarrow> qstate \<Rightarrow> job result \<times> qstate" where
  "edit_job job_id f s =
     (case get_job_at s job_id of
        None \<Rightarrow> (Inl (JobNotFound job_id), s)
      | Some j \<Rightarrow> (Inr (f j), modify_job job_id (\<lambda>_. f j) s))"

definition set_data :: "job_id \<Rightarrow> json \<Rightarrow> qstate \<Rightarrow> job result \<times> qstate" where
  "set_data job_id payload s = edit_job job_id (\<lambda>j. j\<lparr>j_payload := payload\<rparr>) s"

definition set_progress :: "job_id \<Rightarrow> json \<Rightarrow> instant \<Rightarrow> qstate \<Rightarrow> job result \<times> qstate" where
  "set_progress job_id progress now s =
     (case edit_job job_id (\<lambda>j. j\<lparr>j_progress := Some progress\<rparr>) s of
        (Inl e, s1) \<Rightarrow> (Inl e, s1)
      | (Inr j, s1) \<Rightarrow> (Inr j, emit_event ''progress'' (Some j) None now [(''data'', progress)] s1))"

definition save_stacktrace ::
  "job_id \<Rightarrow> string list \<Rightarrow> string \<Rightarrow> qstate \<Rightarrow> job result \<times> qstate" where
  "save_stacktrace job_id stacktrace reason s =
     edit_job job_id (\<lambda>j. j\<lparr>j_stacktrace := stacktrace, j_failed_reason := Some reason\<rparr>) s"

definition append_log :: "string \<Rightarrow> nat \<Rightarrow> instant \<Rightarrow> job \<Rightarrow> job" where
  "append_log line keep now j =
     (let logs = j_logs j @ [\<lparr>log_timestamp = now, log_line = line\<rparr>]
      in j\<lparr>j_logs := (if keep > 0 \<and> length logs > keep then drop (length logs - keep) logs else logs)\<rparr>)"

definition log_job :: "job_id \<Rightarrow> string \<Rightarrow> nat \<Rightarrow> instant \<Rightarrow> qstate \<Rightarrow> job result \<times> qstate" where
  "log_job job_id line keep now s = edit_job job_id (append_log line keep now) s"

definition get_logs :: "job_id \<Rightarrow> int \<Rightarrow> int \<Rightarrow> bool \<Rightarrow> qstate \<Rightarrow> job_log_page result" where
  "get_logs job_id start end' ascending s =
     Inr (case get_job_at s job_id of
            Some j \<Rightarrow> log_page (j_logs j) start end' ascending
          | None \<Rightarrow> \<lparr>lp_logs = [], lp_count = 0\<rparr>)"

definition clear_logs :: "job_id \<Rightarrow> nat \<Rightarrow> qstate \<Rightarrow> job_log_page result \<times> qstate" where
  "clear_logs job_id keep s =
     (case get_job_at s job_id of
        None \<Rightarrow> (Inr \<lparr>lp_logs = [], lp_count = 0\<rparr>, s)
      | Some j \<Rightarrow>
          let logs = (if keep = 0 then []
                      else if length (j_logs j) > keep then drop (length (j_logs j) - keep) (j_logs j)
                      else j_logs j)
          in (Inr (log_page logs 0 (- 1) True), modify_job job_id (\<lambda>j. j\<lparr>j_logs := logs\<rparr>) s))"

section \<open>Reading\<close>

definition list_jobs :: "externals \<Rightarrow> job_list_options \<Rightarrow> qstate \<Rightarrow> job_list_page result" where
  "list_jobs ext options s =
     (let states = selected_states options;
          jobs = Sorting_Algorithms.sort compare_list_order
                   (filter (\<lambda>j. j_state j \<in> set states) (hash_values (ext_hash_rank ext) (q_jobs s)));
          jobs = (if lo_ascending options then jobs else rev jobs);
          total = length jobs;
          start = min (lo_offset options) total;
          end' = min (u64_saturating_add start (lo_limit options)) total
      in Inr \<lparr>jp_jobs = (if lo_limit options = 0 then [] else take (end' - start) (drop start jobs)),
              jp_total = total, jp_offset = lo_offset options, jp_limit = lo_limit options\<rparr>)"

definition counts_by_state :: "job_state list \<Rightarrow> qstate \<Rightarrow> job_state_count list result" where
  "counts_by_state states s =
     Inr (map (\<lambda>st. \<lparr>sc_state = st, sc_count = length (filter (\<lambda>(_, j). j_state j = st) (q_jobs s))\<rparr>)
           (unique_states states))"

definition counts_per_priority :: "job_priority list \<Rightarrow> qstate \<Rightarrow> job_priority_count list result" where
  "counts_per_priority priorities s =
     Inr (map (\<lambda>p. \<lparr>pc_priority = p,
                     pc_count = length (filter (\<lambda>(_, j). j_state j = Waiting \<and> j_priority j = p) (q_jobs s))\<rparr>)
           (unique_priorities priorities))"

definition get_job :: "job_id \<Rightarrow> qstate \<Rightarrow> job option result" where
  "get_job job_id s = Inr (get_job_at s job_id)"

definition get_state :: "job_id \<Rightarrow> qstate \<Rightarrow> job_state option result" where
  "get_state job_id s = Inr (map_option j_state (get_job_at s job_id))"

definition get_finished_result :: "job_id \<Rightarrow> qstate \<Rightarrow> finished_result option result" where
  "get_finished_result job_id s = Inr (map_option job_finished_result (get_job_at s job_id))"

definition stats_add :: "job \<Rightarrow> queue_stats \<Rightarrow> queue_stats" where
  "stats_add j st =
     (case j_state j of
        Waiting \<Rightarrow> st\<lparr>st_waiting := st_waiting st + 1\<rparr>
      | Delayed \<Rightarrow> st\<lparr>st_delayed := st_delayed st + 1\<rparr>
      | Active \<Rightarrow> st\<lparr>st_active := st_active st + 1\<rparr>
      | WaitingChildren \<Rightarrow> st\<lparr>st_waiting_children := st_waiting_children st + 1\<rparr>
      | Completed \<Rightarrow> st\<lparr>st_completed := st_completed st + 1\<rparr>
      | Failed \<Rightarrow> st\<lparr>st_failed := st_failed st + 1\<rparr>)"

definition stats :: "externals \<Rightarrow> qstate \<Rightarrow> queue_stats result" where
  "stats ext s =
     Inr (fold stats_add (hash_values (ext_hash_rank ext) (q_jobs s))
       \<lparr>st_total = length (q_jobs s), st_waiting = 0, st_delayed = 0, st_active = 0,
        st_waiting_children = 0, st_completed = 0, st_failed = 0, st_paused = q_paused s\<rparr>)"

definition read_events :: "string \<Rightarrow> string \<Rightarrow> nat \<Rightarrow> qstate \<Rightarrow> job_event list result" where
  "read_events start end' limit s =
     (if limit = 0 then Inr []
      else Inr (take limit (filter (\<lambda>ev. event_in_range ev start end') (q_events s))))"

definition trim_events_op :: "nat \<Rightarrow> qstate \<Rightarrow> nat result \<times> qstate" where
  "trim_events_op max_len s = (let (n, s1) = trim_events max_len s in (Inr n, s1))"

definition promote_due_jobs :: "externals \<Rightarrow> instant \<Rightarrow> qstate \<Rightarrow> nat result \<times> qstate" where
  "promote_due_jobs ext now s = (let (n, s1) = promote_due ext now s in (Inr n, s1))"

definition pause :: "instant \<Rightarrow> qstate \<Rightarrow> unit result \<times> qstate" where
  "pause now s = (Inr (), emit_event ''paused'' None None now [] (s\<lparr>q_paused := True\<rparr>))"

definition resume :: "instant \<Rightarrow> qstate \<Rightarrow> unit result \<times> qstate" where
  "resume now s = (Inr (), emit_event ''resumed'' None None now [] (s\<lparr>q_paused := False\<rparr>))"

definition is_paused :: "qstate \<Rightarrow> bool result" where
  "is_paused s = Inr (q_paused s)"

section \<open>Removing\<close>

definition require_removable_at :: "job_id \<Rightarrow> qstate \<Rightarrow> unit result" where
  "require_removable_at job_id s =
     (case get_job_at s job_id of None \<Rightarrow> Inr () | Some j \<Rightarrow> require_removable j)"

definition release_parent_of :: "externals \<Rightarrow> job option \<Rightarrow> instant \<Rightarrow> qstate \<Rightarrow> qstate" where
  "release_parent_of ext removed now s =
     (case Option.bind removed j_parent_id of
        Some p \<Rightarrow> snd (release_parent_if_ready ext p now s)
      | None \<Rightarrow> s)"

definition remove :: "externals \<Rightarrow> job_id \<Rightarrow> instant \<Rightarrow> qstate \<Rightarrow> job option result \<times> qstate" where
  "remove ext job_id now s =
     (case require_removable_at job_id s of
        Inl e \<Rightarrow> (Inl e, s)
      | Inr _ \<Rightarrow>
          let (removed, s1) = remove_job_record job_id s;
              s2 = release_parent_of ext removed now s1
          in (Inr removed,
              case removed of Some r \<Rightarrow> emit_removed_event r now s2 | None \<Rightarrow> s2))"

definition clean_cmp :: "job comparator" where
  "clean_cmp = then_with (by_key job_reference_time) (by_key j_id)"

definition clean_candidates ::
  "externals \<Rightarrow> job_state \<Rightarrow> instant \<Rightarrow> nat \<Rightarrow> qstate \<Rightarrow> job list" where
  "clean_candidates ext st cutoff limit s =
     take limit (Sorting_Algorithms.sort clean_cmp
       (filter (\<lambda>j. j_state j = st \<and> job_reference_time j \<le> cutoff
                  \<and> (st \<noteq> Active \<or> j_lock_token j = None))
         (hash_values (ext_hash_rank ext) (q_jobs s))))"

definition clean ::
  "externals \<Rightarrow> job_state \<Rightarrow> duration \<Rightarrow> nat \<Rightarrow> instant \<Rightarrow> qstate \<Rightarrow> job list result \<times> qstate" where
  "clean ext st grace limit now s =
     (if limit = 0 then (Inr [], s)
      else
        let jobs = clean_candidates ext st (subtract_duration ext now grace) limit s;
            s1 = remove_all (map j_id jobs) s;
            s2 = release_all ext (List.map_filter j_parent_id jobs) now s1
        in (Inr jobs, emit_cleaned_event (length jobs) now s2))"

definition drain :: "externals \<Rightarrow> bool \<Rightarrow> instant \<Rightarrow> qstate \<Rightarrow> job list result \<times> qstate" where
  "drain ext include_delayed now s =
     (let jobs = Sorting_Algorithms.sort compare_list_order
            (filter (\<lambda>j. j_state j = Waiting
                       \<or> (include_delayed \<and> j_state j = Delayed
                          \<and> \<not> is_delayed_repeat_owner ext (q_jobs s) j))
              (hash_values (ext_hash_rank ext) (q_jobs s)));
          s1 = remove_all (map j_id jobs) s
      in (Inr jobs, release_all ext (List.map_filter j_parent_id jobs) now s1))"

definition obliterate :: "bool \<Rightarrow> qstate \<Rightarrow> nat result \<times> qstate" where
  "obliterate force s =
     (let s1 = s\<lparr>q_paused := True\<rparr>
      in if list_ex (\<lambda>(_, j). j_state j = Active) (q_jobs s1) \<and> \<not> force
         then (Inl (JobStateConflict ''cannot obliterate queue with active jobs''), s1)
         else (Inr (length (q_jobs s1)),
               s1\<lparr>q_jobs := [], q_flow_dependencies := [], q_deduplication_next := [],
                  q_deduplication_next_flows := [], q_released := {}, q_paused := False\<rparr>))"

section \<open>Deduplication and repeat keys\<close>

definition remove_deduplication_key ::
  "externals \<Rightarrow> string \<Rightarrow> instant \<Rightarrow> qstate \<Rightarrow> bool result \<times> qstate" where
  "remove_deduplication_key ext d now s =
     (if d = [] then (Inr False, s)
      else case find_active_deduplication_id ext (q_jobs s) (q_released s) d now of
             None \<Rightarrow> (Inr False, s)
           | Some owner \<Rightarrow>
               (Inr True,
                s\<lparr>q_released := insert (d, j_id owner) (q_released s),
                  q_deduplication_next := AList.delete d (q_deduplication_next s),
                  q_deduplication_next_flows := AList.delete d (q_deduplication_next_flows s)\<rparr>))"

definition get_deduplication_job_id ::
  "externals \<Rightarrow> string \<Rightarrow> instant \<Rightarrow> qstate \<Rightarrow> job_id option result" where
  "get_deduplication_job_id ext d now s =
     (if d = [] then Inr None
      else Inr (map_option j_id (find_active_deduplication_id ext (q_jobs s) (q_released s) d now)))"

definition repeat_list_cmp :: "repeat_entry comparator" where
  "repeat_list_cmp = then_with (by_key re_key) (by_key re_job_id)"

definition list_repeats :: "externals \<Rightarrow> qstate \<Rightarrow> repeat_entry list" where
  "list_repeats ext s =
     Sorting_Algorithms.sort repeat_list_cmp
       (List.map_filter repeat_entry_of (hash_values (ext_hash_rank ext) (q_jobs s)))"

definition get_repeat :: "externals \<Rightarrow> string \<Rightarrow> qstate \<Rightarrow> repeat_entry option" where
  "get_repeat ext repeat_key s = List.find (\<lambda>e. re_key e = repeat_key) (list_repeats ext s)"

definition count_repeats :: "externals \<Rightarrow> qstate \<Rightarrow> nat" where
  "count_repeats ext s = length (list_repeats ext s)"

definition list_repeats_page :: "externals \<Rightarrow> repeat_list_options \<Rightarrow> qstate \<Rightarrow> repeat_page" where
  "list_repeats_page ext options s = page_repeat_entries (list_repeats ext s) options"

definition upsert_conflict :: "externals \<Rightarrow> string \<Rightarrow> job option \<Rightarrow> job \<Rightarrow> instant \<Rightarrow> qstate \<Rightarrow> unit result" where
  "upsert_conflict ext repeat_key owner j now s =
     and_then
       (case owner of
          None \<Rightarrow> Inr ()
        | Some ow \<Rightarrow>
            and_then (require_removable ow) (\<lambda>_.
              if j_parent_id ow \<noteq> None \<or> j_child_ids ow \<noteq> []
              then Inl (JobStateConflict (''cannot upsert repeat key `'' @ repeat_key
                     @ ''`; current owner '' @ j_id ow @ '' has flow dependencies''))
              else Inr ()))
       (\<lambda>_. and_then
          (case get_job_at s (j_id j) of
             None \<Rightarrow> Inr ()
           | Some existing \<Rightarrow>
               if map_option j_id owner \<noteq> Some (j_id existing)
               then Inl (ConfigError (''job id `'' @ j_id j @ ''` already exists''))
               else Inr ())
          (\<lambda>_. case job_deduplication_id j of
                  None \<Rightarrow> Inr ()
                | Some d \<Rightarrow>
                    (case find_active_deduplication_id ext (q_jobs s) (q_released s) d now of
                       None \<Rightarrow> Inr ()
                     | Some existing \<Rightarrow>
                         if map_option j_id owner \<noteq> Some (j_id existing)
                         then Inl (JobStateConflict (''cannot upsert repeat key `'' @ repeat_key
                                @ ''`; deduplication id `'' @ d @ ''` is active on job '' @ j_id existing))
                         else Inr ())))"

definition upsert_repeat ::
  "externals \<Rightarrow> string \<Rightarrow> job_spec \<Rightarrow> string \<Rightarrow> instant \<Rightarrow> qstate \<Rightarrow> job result \<times> qstate" where
  "upsert_repeat ext queue spec uuid now s =
     (case validate_job_options_at ext (sp_options spec) now of
        Inl e \<Rightarrow> (Inl e, s)
      | Inr _ \<Rightarrow>
          if jo_repeat (sp_options spec) = None
          then (Inl (ConfigError ''repeat options are required to upsert a repeat series''), s)
          else
            let j = job_new ext queue (sp_name spec) (sp_payload spec) (sp_options spec) uuid now
            in case j_repeat_key j of
                 None \<Rightarrow> (Inl (ConfigError ''repeat key must not be empty''), s)
               | Some repeat_key \<Rightarrow>
                   if repeat_key = [] then (Inl (ConfigError ''repeat key must not be empty''), s)
                   else
                     let owner = find_active_repeat_key ext (q_jobs s) repeat_key
                     in case upsert_conflict ext repeat_key owner j now s of
                          Inl e \<Rightarrow> (Inl e, s)
                        | Inr _ \<Rightarrow>
                            let s1 = (case owner of
                                        Some ow \<Rightarrow> snd (remove_job_record (j_id ow) s)
                                      | None \<Rightarrow> s);
                                (j1, s2) = insert_new_job j now s1
                            in (Inr j1, s2))"

definition remove_repeat :: "externals \<Rightarrow> string \<Rightarrow> instant \<Rightarrow> qstate \<Rightarrow> job option result \<times> qstate" where
  "remove_repeat ext repeat_key now s =
     (case find_active_repeat_key ext (q_jobs s) repeat_key of
        None \<Rightarrow> (Inr None, s)
      | Some owner \<Rightarrow> remove ext (j_id owner) now s)"

section \<open>Stalled jobs\<close>

record recovery =
  rc_recovered :: nat
  rc_remove_ids :: "job_id list"
  rc_deferred :: "(job_id \<times> job_id) list"
  rc_continuing :: "job_id list"
  rc_releasing :: "job_id list"
  rc_failed_children :: "(job_id \<times> job_id \<times> string option) list"
  rc_terminal :: "job list"
  rc_events :: "job list"

definition recovery_default :: recovery where
  "recovery_default =
     \<lparr>rc_recovered = 0, rc_remove_ids = [], rc_deferred = [], rc_continuing = [], rc_releasing = [],
      rc_failed_children = [], rc_terminal = [], rc_events = []\<rparr>"

definition stalled_cmp :: "job comparator" where
  "stalled_cmp =
     then_with (by_key j_lease_expires_at) (then_with (by_key j_processed_at) (by_key j_id))"

definition is_stalled :: "instant \<Rightarrow> job \<Rightarrow> bool" where
  "is_stalled now j \<longleftrightarrow>
     j_state j = Active \<and> (case j_lease_expires_at j of Some t \<Rightarrow> t \<le> now | None \<Rightarrow> False)"

definition stalled_jobs :: "externals \<Rightarrow> instant \<Rightarrow> qstate \<Rightarrow> job list" where
  "stalled_jobs ext now s =
     Sorting_Algorithms.sort stalled_cmp
       (filter (is_stalled now) (hash_values (ext_hash_rank ext) (q_jobs s)))"

definition stall_record :: "job \<Rightarrow> job" where
  "stall_record j =
     j\<lparr>j_stalled_count := u32_saturating_add (j_stalled_count j) 1, j_worker_id := None,
       j_lock_token := None, j_lease_expires_at := None, j_deferred_failure := None,
       j_failed_reason := Some ''job stalled after worker lease expired''\<rparr>"

definition stall_is_terminal :: "job \<Rightarrow> bool" where
  "stall_is_terminal j \<longleftrightarrow>
     j_stalled_count j > jo_max_stalled_count (j_options j) \<and> \<not> is_repeat_scheduler_job j"

text \<open>The bookkeeping of a terminally failed child: which list of parents it joins.\<close>

definition note_failed_parent :: "job \<Rightarrow> recovery \<Rightarrow> recovery" where
  "note_failed_parent j rc =
     (case j_parent_id j of
        None \<Rightarrow> rc
      | Some p \<Rightarrow>
          if jo_fail_parent_on_failure (j_options j)
          then rc\<lparr>rc_deferred := rc_deferred rc @ [(p, j_id j)]\<rparr>
          else if jo_continue_parent_on_failure (j_options j)
          then rc\<lparr>rc_continuing := rc_continuing rc @ [p]\<rparr>
          else if child_failure_releases_dependency j
          then rc\<lparr>rc_releasing := rc_releasing rc @ [p]\<rparr>
          else rc\<lparr>rc_failed_children := rc_failed_children rc @ [(p, j_id j, j_failed_reason j)]\<rparr>)"

definition recover_one :: "instant \<Rightarrow> job \<Rightarrow> recovery \<times> qstate \<Rightarrow> recovery \<times> qstate" where
  "recover_one now stalled acc =
     (let (rc, s) = acc; i = j_id stalled; rc0 = rc\<lparr>rc_recovered := rc_recovered rc + 1\<rparr>
      in case get_job_at s i of
           None \<Rightarrow> (rc0, s)
         | Some j \<Rightarrow>
             let j1 = stall_record j
             in if stall_is_terminal j1
                then let failed = j1\<lparr>j_state := Failed, j_finished_at := Some now\<rparr>;
                         rc1 = note_failed_parent failed rc0;
                         rc2 = rc1\<lparr>rc_terminal := rc_terminal rc1 @ [failed],
                                   rc_events := rc_events rc1 @ [failed],
                                   rc_remove_ids := rc_remove_ids rc1
                                     @ (if removes_failed_immediately (j_options failed) then [j_id failed] else [])\<rparr>
                     in (rc2, modify_job i (\<lambda>_. failed) s)
                else let (n, s1) = next_waiting_sequence s;
                         j2 = j1\<lparr>j_state := Waiting, j_processed_at := None, j_enqueued_seq := n\<rparr>
                     in (rc0\<lparr>rc_events := rc_events rc0 @ [j2]\<rparr>, modify_job i (\<lambda>_. j2) s1))"

definition settle_terminal :: "externals \<Rightarrow> instant \<Rightarrow> job \<Rightarrow> qstate \<Rightarrow> qstate" where
  "settle_terminal ext now failed s =
     (let s1 = record_in_parent failed s;
          s2 = snd (enqueue_next_or_flow ext failed now s1)
      in case failed_retention (j_options failed) of
           Some retention \<Rightarrow> apply_finished_retention ext Failed retention now s2
         | None \<Rightarrow> s2)"

definition emit_recovered :: "instant \<Rightarrow> job \<Rightarrow> qstate \<Rightarrow> qstate" where
  "emit_recovered now j s =
     emit_event (job_event_for_state (j_state j)) (Some j) (Some Active) now (failed_reason_fields j)
       (emit_event ''stalled'' (Some j) (Some Active) now (failed_reason_fields j) s)"

definition recover_stalled_jobs :: "externals \<Rightarrow> instant \<Rightarrow> qstate \<Rightarrow> nat result \<times> qstate" where
  "recover_stalled_jobs ext now s =
     (let (rc, s1) = fold (recover_one now) (stalled_jobs ext now s) (recovery_default, s);
          s2 = remove_all (rc_remove_ids rc) s1;
          s3 = fold (settle_terminal ext now) (rc_terminal rc) s2;
          s4 = fold (\<lambda>(p, c) s. snd (defer_parent_failure_after_child_failure p c now s)) (rc_deferred rc) s3;
          s5 = fold (\<lambda>p s. snd (continue_parent_after_child_failure p now s)) (rc_continuing rc) s4;
          s6 = release_all ext (rc_releasing rc) now s5;
          s7 = fold (\<lambda>(p, c, r) s. snd (fail_waiting_parent ext p (child_failed_reason c r) now s))
                 (rc_failed_children rc) s6
      in (Inr (rc_recovered rc), fold (emit_recovered now) (rc_events rc) s7))"

section \<open>Snapshots\<close>

definition sorted_released_deduplication_owners :: "(string \<times> job_id) set \<Rightarrow> (string \<times> job_id) list" where
  "sorted_released_deduplication_owners released = sorted_list_of_set released"

definition sorted_flow_dependency_indexes :: "(job_id, flow_index) hmap \<Rightarrow> flow_dependency_index list" where
  "sorted_flow_dependency_indexes indexes =
     map (\<lambda>(p, i). \<lparr>fx_parent_id = p, fx_processed = fi_processed i, fx_ignored = fi_ignored i,
                    fx_failed = sorted_list_of_set (fi_failed i)\<rparr>)
       (sort_key fst (filter (\<lambda>(_, i). \<not> flow_index_is_empty i) indexes))"

definition snapshot :: "externals \<Rightarrow> string \<Rightarrow> qstate \<Rightarrow> queue_snapshot" where
  "snapshot ext queue s =
     \<lparr>qs_queue = queue, qs_paused = q_paused s, qs_events = q_events s,
      qs_event_sequence = q_event_sequence s,
      qs_jobs = Sorting_Algorithms.sort compare_list_order (hash_values (ext_hash_rank ext) (q_jobs s)),
      qs_deduplication_next_jobs = Sorting_Algorithms.sort compare_list_order
        (hash_values (ext_hash_rank ext) (q_deduplication_next s)),
      qs_deduplication_next_flows = Sorting_Algorithms.sort (key fl_parent compare_list_order)
        (hash_values (ext_hash_rank ext) (q_deduplication_next_flows s)),
      qs_released_deduplication_owners = sorted_released_deduplication_owners (q_released s),
      qs_flow_dependency_indexes = sorted_flow_dependency_indexes (q_flow_dependencies s)\<rparr>"

definition collect_map :: "('k \<times> 'v) list \<Rightarrow> ('k, 'v) hmap" where
  "collect_map kvs = fold (\<lambda>(k, v) m. AList.update k v m) kvs []"

definition flow_jobs :: "job_flow \<Rightarrow> job list" where
  "flow_jobs f = fl_parent f # fl_children f"

definition from_snapshot :: "queue_snapshot \<Rightarrow> string \<times> qstate" where
  "from_snapshot sn =
     (let sequence = Max (set (0 # map j_enqueued_seq
            (qs_jobs sn @ qs_deduplication_next_jobs sn
              @ concat (map flow_jobs (qs_deduplication_next_flows sn)))))
      in (qs_queue sn,
          \<lparr>q_paused = qs_paused sn, q_sequence = sequence, q_event_sequence = qs_event_sequence sn,
           q_events = qs_events sn,
           q_jobs = collect_map (map (\<lambda>j. (j_id j, j)) (qs_jobs sn)),
           q_flow_dependencies = collect_map (List.map_filter
             (\<lambda>x. let i = \<lparr>fi_processed = fx_processed x, fi_ignored = fx_ignored x,
                             fi_failed = set (fx_failed x)\<rparr>
                   in if fx_parent_id x = [] \<or> flow_index_is_empty i then None
                      else Some (fx_parent_id x, i))
             (qs_flow_dependency_indexes sn)),
           q_deduplication_next = collect_map (List.map_filter
             (\<lambda>j. map_option (\<lambda>d. (d, j)) (job_deduplication_id j)) (qs_deduplication_next_jobs sn)),
           q_deduplication_next_flows = collect_map (List.map_filter
             (\<lambda>f. map_option (\<lambda>d. (d, f)) (job_deduplication_id (fl_parent f)))
             (qs_deduplication_next_flows sn)),
           q_released = set (qs_released_deduplication_owners sn)\<rparr>))"

end
