(* ===== verification/Job_Queue_Flow_Ops.thy ===== *)
theory Job_Queue_Flow_Ops
  imports Job_Queue_Ops
begin

text \<open>
  The public flow operations of \<open>InMemoryJobQueue\<close> (\<open>src/src/job/memory.rs\<close>): adding a
  parent with children, adding children to a retained or to an active parent, the dependency
  getters, and removing children or single dependencies. A flow is built in passes: the ids of
  the children against the retained jobs, the deduplication keys, the repeat keys, and only then
  the inserts. The deduplication pass already writes (the keep-last slot, an extended
  expiration), so a later refusal returns with those writes in place.
\<close>

section \<open>The passes over the children\<close>

text \<open>
  Ids: a child that already exists is adopted unless another retained parent owns it. The pass
  for a parent that already exists also refuses an id that the parent lists but that is gone, or
  that does not point back to it.
\<close>

fun duplicated_in_new_flow :: "job_id \<Rightarrow> job list \<Rightarrow> qstate \<Rightarrow> job_id set \<Rightarrow> job_id set result" where
  "duplicated_in_new_flow parent_id [] s dup = Inr dup"
| "duplicated_in_new_flow parent_id (c # cs) s dup =
     (if get_job_at s (j_id c) \<noteq> None
      then and_then (validate_existing_flow_child_parent parent_id (j_id c) s)
             (\<lambda>_. duplicated_in_new_flow parent_id cs s (insert (j_id c) dup))
      else duplicated_in_new_flow parent_id cs s dup)"

definition flow_child_exists :: "job_id \<Rightarrow> lane_error" where
  "flow_child_exists child_id = ConfigError (''flow child id `'' @ child_id @ ''` already exists'')"

fun duplicated_under_parent ::
  "job_id \<Rightarrow> job_id list \<Rightarrow> job list \<Rightarrow> qstate \<Rightarrow> job_id set \<Rightarrow> job_id set result" where
  "duplicated_under_parent parent_id existing_ids [] s dup = Inr dup"
| "duplicated_under_parent parent_id existing_ids (c # cs) s dup =
     (case get_job_at s (j_id c) of
        Some existing \<Rightarrow>
          and_then (validate_existing_flow_child_parent parent_id (j_id c) s) (\<lambda>_.
            if j_id c \<in> set existing_ids \<and> j_parent_id existing \<noteq> Some parent_id
            then Inl (flow_child_exists (j_id c))
            else duplicated_under_parent parent_id existing_ids cs s (insert (j_id c) dup))
      | None \<Rightarrow>
          if j_id c \<in> set existing_ids then Inl (flow_child_exists (j_id c))
          else duplicated_under_parent parent_id existing_ids cs s dup)"

text \<open>
  Deduplication keys. \<open>ds_children\<close>, \<open>ds_next\<close> and \<open>ds_next_by_id\<close> are the source's
  \<open>deduplicated_children\<close>, \<open>deduplicated_next_children\<close> and
  \<open>deduplicated_next_child_by_id\<close>; \<open>ds_ids\<close> is \<open>flow_deduplication_ids\<close>. For a new
  parent the pass also edits its \<open>child_ids\<close> (\<open>ds_child_ids\<close>) and leaves a keep-last
  child out of \<open>ds_children\<close>.
\<close>

record dedup_scan =
  ds_children :: "(job_id, job) hmap"
  ds_next :: "(job_id, job) hmap"
  ds_next_by_id :: "(string, job_id) hmap"
  ds_ids :: "string set"
  ds_child_ids :: "job_id list"

definition dedup_scan_start :: "string set \<Rightarrow> job_id list \<Rightarrow> dedup_scan" where
  "dedup_scan_start ids child_ids =
     \<lparr>ds_children = [], ds_next = [], ds_next_by_id = [], ds_ids = ids, ds_child_ids = child_ids\<rparr>"

definition note_next_child :: "bool \<Rightarrow> string \<Rightarrow> job \<Rightarrow> job \<Rightarrow> dedup_scan \<Rightarrow> dedup_scan" where
  "note_next_child new_parent d c existing ds =
     (let ds1 = ds\<lparr>ds_next_by_id := AList.update d (j_id c) (ds_next_by_id ds)\<rparr>;
          ds2 = (case map_of (ds_next_by_id ds) d of
                   None \<Rightarrow> ds1
                 | Some previous \<Rightarrow>
                     ds1\<lparr>ds_child_ids := (if new_parent then filter (\<lambda>i. i \<noteq> previous) (ds_child_ids ds1)
                                          else ds_child_ids ds1),
                         ds_next := AList.delete previous (ds_next ds1)\<rparr>);
          ds3 = (if new_parent then ds2
                 else ds2\<lparr>ds_children := AList.update (j_id c) existing (ds_children ds2)\<rparr>)
      in ds3\<lparr>ds_next := AList.update (j_id c) existing (ds_next ds3)\<rparr>)"

definition dedup_child ::
  "externals \<Rightarrow> bool \<Rightarrow> instant \<Rightarrow> job_id set \<Rightarrow> job \<Rightarrow> dedup_scan \<Rightarrow> qstate
     \<Rightarrow> dedup_scan result \<times> qstate" where
  "dedup_child ext new_parent now dup c ds s =
     (if j_id c \<in> dup then (Inr ds, s)
      else case active_deduplication_id c now of
             None \<Rightarrow> (Inr ds, s)
           | Some d \<Rightarrow>
               (case find_active_deduplication_id ext (q_jobs s) (q_released s) d now of
                  Some existing \<Rightarrow>
                    if flow_child_deduplication_requires_next c existing
                    then let (stored, s1) = store_deduplicated_next c existing s
                         in if \<not> stored
                            then (Inl (ConfigError (''flow child deduplication id `'' @ d
                                    @ ''` is already active on job '' @ j_id existing)), s1)
                            else (Inr (note_next_child new_parent d c existing ds), s1)
                    else (Inr (ds\<lparr>ds_children := AList.update (j_id c) existing (ds_children ds)\<rparr>),
                          extend_deduplication_expiration ext c (j_id existing) now s)
                | None \<Rightarrow>
                    if d \<in> ds_ids ds
                    then (Inl (ConfigError (''flow deduplication id `'' @ d @ ''` already active'')), s)
                    else (Inr (ds\<lparr>ds_ids := insert d (ds_ids ds)\<rparr>), s)))"

fun dedup_children ::
  "externals \<Rightarrow> bool \<Rightarrow> instant \<Rightarrow> job_id set \<Rightarrow> job list \<Rightarrow> dedup_scan \<Rightarrow> qstate
     \<Rightarrow> dedup_scan result \<times> qstate" where
  "dedup_children ext new_parent now dup [] ds s = (Inr ds, s)"
| "dedup_children ext new_parent now dup (c # cs) ds s =
     (case dedup_child ext new_parent now dup c ds s of
        (Inl e, s1) \<Rightarrow> (Inl e, s1)
      | (Inr ds1, s1) \<Rightarrow> dedup_children ext new_parent now dup cs ds1 s1)"

text \<open>Repeat keys: none may be active in the queue, none twice in the flow.\<close>

fun check_repeat_keys :: "externals \<Rightarrow> jobs_map \<Rightarrow> job list \<Rightarrow> string set \<Rightarrow> unit result" where
  "check_repeat_keys ext jobs [] keys = Inr ()"
| "check_repeat_keys ext jobs (j # js) keys =
     (case active_repeat_key j of
        None \<Rightarrow> check_repeat_keys ext jobs js keys
      | Some k \<Rightarrow>
          if find_active_repeat_key ext jobs k \<noteq> None \<or> k \<in> keys
          then Inl (ConfigError (''flow repeat key `'' @ k @ ''` already active''))
          else check_repeat_keys ext jobs js (insert k keys))"

definition is_new_child :: "job_id set \<Rightarrow> dedup_scan \<Rightarrow> job \<Rightarrow> bool" where
  "is_new_child dup ds c \<longleftrightarrow>
     j_id c \<notin> dup \<and> map_of (ds_children ds) (j_id c) = None \<and> map_of (ds_next ds) (j_id c) = None"

text \<open>The inserts: announce a deduplicated child, adopt an existing one, store a new one.\<close>

definition adopt_child :: "job_id \<Rightarrow> job_id \<Rightarrow> instant \<Rightarrow> qstate \<Rightarrow> job option \<times> qstate" where
  "adopt_child parent_id child_id now s =
     (case get_job_at s child_id of
        None \<Rightarrow> (None, s)
      | Some existing \<Rightarrow>
          let e = existing\<lparr>j_parent_id := Some parent_id\<rparr>;
              s1 = modify_job child_id (\<lambda>_. e) s;
              s2 = record_terminal_child_dependency parent_id e s1
          in (Some e, emit_duplicated_event e now s2))"

fun store_children ::
  "(job_id \<Rightarrow> job option) \<Rightarrow> job_id set \<Rightarrow> job_id \<Rightarrow> instant \<Rightarrow> job list \<Rightarrow> qstate
     \<Rightarrow> job list \<times> qstate" where
  "store_children owner_of dup parent_id now [] s = ([], s)"
| "store_children owner_of dup parent_id now (c # cs) s =
     (case owner_of (j_id c) of
        Some existing \<Rightarrow>
          store_children owner_of dup parent_id now cs (emit_deduplicated_events existing c now s)
      | None \<Rightarrow>
          if j_id c \<in> dup
          then (case adopt_child parent_id (j_id c) now s of
                  (None, s1) \<Rightarrow> store_children owner_of dup parent_id now cs s1
                | (Some e, s1) \<Rightarrow>
                    let (js, s2) = store_children owner_of dup parent_id now cs s1 in (e # js, s2))
          else let (c1, s1) = insert_new_job c now s;
                   (js, s2) = store_children owner_of dup parent_id now cs s1
               in (c1 # js, s2))"

definition append_children :: "dedup_scan \<Rightarrow> job list \<Rightarrow> job \<Rightarrow> job" where
  "append_children ds cs p =
     fold (\<lambda>c p. if map_of (ds_children ds) (j_id c) \<noteq> None \<and> map_of (ds_next ds) (j_id c) = None
                 then p else push_child (j_id c) p) cs p"

definition release_unless_next ::
  "externals \<Rightarrow> dedup_scan \<Rightarrow> job_id \<Rightarrow> instant \<Rightarrow> qstate \<Rightarrow> qstate" where
  "release_unless_next ext ds parent_id now s =
     (if ds_next ds = [] then snd (release_parent_if_ready ext parent_id now s) else s)"

section \<open>Adding flows\<close>

definition add_flow_for_existing_parent ::
  "externals \<Rightarrow> job \<Rightarrow> job list \<Rightarrow> instant \<Rightarrow> qstate \<Rightarrow> job_flow result \<times> qstate" where
  "add_flow_for_existing_parent ext existing_parent child_jobs now s =
     (let parent_id = j_id existing_parent;
          s1 = emit_duplicated_event existing_parent now s
      in case duplicated_under_parent parent_id (j_child_ids existing_parent) child_jobs s1 {} of
           Inl e \<Rightarrow> (Inl e, s1)
         | Inr dup \<Rightarrow>
             (case dedup_children ext False now dup child_jobs (dedup_scan_start {} []) s1 of
                (Inl e, s2) \<Rightarrow> (Inl e, s2)
              | (Inr ds, s2) \<Rightarrow>
                  (case check_repeat_keys ext (q_jobs s2) (filter (is_new_child dup ds) child_jobs) {} of
                     Inl e \<Rightarrow> (Inl e, s2)
                   | Inr _ \<Rightarrow>
                       let s3 = modify_job parent_id (append_children ds child_jobs) s2;
                           (stored, s4) = store_children (map_of (ds_children ds)) dup parent_id now
                                            child_jobs s3;
                           s5 = release_unless_next ext ds parent_id now s4
                       in (Inr \<lparr>fl_parent = (case get_job_at s5 parent_id of
                                               Some p \<Rightarrow> p | None \<Rightarrow> existing_parent),
                                fl_children = stored\<rparr>, s5))))"

text \<open>The parent and the children as \<open>Job::new\<close> builds them, linked in both directions.\<close>

definition child_jobs_of ::
  "externals \<Rightarrow> string \<Rightarrow> job_id \<Rightarrow> job_spec list \<Rightarrow> (nat \<Rightarrow> string) \<Rightarrow> instant \<Rightarrow> job list" where
  "child_jobs_of ext queue parent_id children uuids now =
     map (\<lambda>c. c\<lparr>j_parent_id := Some parent_id\<rparr>) (jobs_of_specs ext queue children uuids now)"

definition parent_job_of ::
  "externals \<Rightarrow> string \<Rightarrow> job_spec \<Rightarrow> string \<Rightarrow> job_spec list \<Rightarrow> (nat \<Rightarrow> string) \<Rightarrow> instant \<Rightarrow> job" where
  "parent_job_of ext queue parent uuid children uuids now =
     (let p = job_new ext queue (sp_name parent) (sp_payload parent) (sp_options parent) uuid now
      in p\<lparr>j_state := (if children = [] then state_after_dependencies (j_scheduled_at p) now
                       else WaitingChildren),
           j_child_ids := map j_id (jobs_of_specs ext queue children uuids now)\<rparr>)"

text \<open>The part of \<open>add_flow_at\<close> that stores the flow once its keys are known to be free.\<close>

definition store_flow ::
  "externals \<Rightarrow> job \<Rightarrow> job list \<Rightarrow> job_id set \<Rightarrow> dedup_scan \<Rightarrow> instant \<Rightarrow> qstate
     \<Rightarrow> job_flow result \<times> qstate" where
  "store_flow ext parent child_jobs dup ds now s =
     (let child_ids = filter (\<lambda>i. map_of (ds_children ds) i = None) (ds_child_ids ds);
          p1 = parent\<lparr>j_child_ids := child_ids\<rparr>;
          p2 = (if child_ids = [] then p1\<lparr>j_state := state_after_dependencies (j_scheduled_at p1) now\<rparr>
                else p1)
      in case check_repeat_keys ext (q_jobs s) (p2 # filter (is_new_child dup ds) child_jobs) {} of
           Inl e \<Rightarrow> (Inl e, s)
         | Inr _ \<Rightarrow>
             let (p3, s1) = insert_new_job p2 now s;
                 owner_of = (\<lambda>i. case map_of (ds_children ds) i of
                                   Some e \<Rightarrow> Some e | None \<Rightarrow> map_of (ds_next ds) i);
                 (stored, s2) = store_children owner_of dup (j_id p3) now child_jobs s1;
                 s3 = release_unless_next ext ds (j_id p3) now s2
             in (Inr \<lparr>fl_parent = (case get_job_at s3 (j_id p3) of Some p \<Rightarrow> p | None \<Rightarrow> p3),
                      fl_children = stored\<rparr>, s3))"

text \<open>\<open>add_flow_at\<close> under the lock, for the jobs built from the specs.\<close>

definition add_flow_jobs ::
  "externals \<Rightarrow> job \<Rightarrow> job list \<Rightarrow> instant \<Rightarrow> qstate \<Rightarrow> job_flow result \<times> qstate" where
  "add_flow_jobs ext parent child_jobs now s =
     (case get_job_at s (j_id parent) of
        Some existing_parent \<Rightarrow> add_flow_for_existing_parent ext existing_parent child_jobs now s
      | None \<Rightarrow>
          (case find_active_deduplicated_job ext (q_jobs s) (q_released s) parent now of
             Some existing \<Rightarrow>
               let (stored, s1) = store_deduplicated_next_flow
                      \<lparr>fl_parent = parent, fl_children = child_jobs\<rparr> existing s;
                   s2 = (if stored then s1
                         else extend_deduplication_expiration ext parent (j_id existing) now s1);
                   s3 = emit_deduplicated_events existing parent now s2
               in (Inr (flow_for_existing_owner existing s3), s3)
           | None \<Rightarrow>
               (case duplicated_in_new_flow (j_id parent) child_jobs s {} of
                  Inl e \<Rightarrow> (Inl e, s)
                | Inr dup \<Rightarrow>
                    let ids = (case active_deduplication_id parent now of Some d \<Rightarrow> {d} | None \<Rightarrow> {})
                    in case dedup_children ext True now dup child_jobs
                              (dedup_scan_start ids (j_child_ids parent)) s of
                         (Inl e, s1) \<Rightarrow> (Inl e, s1)
                       | (Inr ds, s1) \<Rightarrow> store_flow ext parent child_jobs dup ds now s1)))"

definition add_flow_at ::
  "externals \<Rightarrow> string \<Rightarrow> job_spec \<Rightarrow> string \<Rightarrow> job_spec list \<Rightarrow> (nat \<Rightarrow> string) \<Rightarrow> instant \<Rightarrow> qstate
     \<Rightarrow> job_flow result \<times> qstate" where
  "add_flow_at ext queue parent uuid children uuids now s =
     (case and_then (validate_job_options_at ext (sp_options parent) now)
             (\<lambda>_. validate_specs ext children now) of
        Inl e \<Rightarrow> (Inl e, s)
      | Inr _ \<Rightarrow>
          let parent_job = parent_job_of ext queue parent uuid children uuids now;
              child_jobs = child_jobs_of ext queue (j_id parent_job) children uuids now
          in case validate_flow_job_ids parent_job child_jobs of
               Inl e \<Rightarrow> (Inl e, s)
             | Inr _ \<Rightarrow> add_flow_jobs ext parent_job child_jobs now s)"

text \<open>Adding children to the active parent that the caller leases.\<close>

definition require_flow_parent :: "job_id \<Rightarrow> string \<Rightarrow> qstate \<Rightarrow> job result" where
  "require_flow_parent parent_id token s =
     and_then (require_lease parent_id token ''add flow children'' s) (\<lambda>parent.
       and_then (ensure_flow_dependencies_have_not_failed parent (q_jobs s)
                   (map_of (q_flow_dependencies s) parent_id) ''add flow children'')
         (\<lambda>_. Inr parent))"

definition add_children_under ::
  "externals \<Rightarrow> job \<Rightarrow> job_id \<Rightarrow> job list \<Rightarrow> instant \<Rightarrow> qstate \<Rightarrow> job list result \<times> qstate" where
  "add_children_under ext parent parent_id child_jobs now s =
     (case duplicated_under_parent parent_id (j_child_ids parent) child_jobs s {} of
        Inl e \<Rightarrow> (Inl e, s)
      | Inr dup \<Rightarrow>
          (case dedup_children ext False now dup child_jobs (dedup_scan_start {} []) s of
             (Inl e, s1) \<Rightarrow> (Inl e, s1)
           | (Inr ds, s1) \<Rightarrow>
               (case check_repeat_keys ext (q_jobs s1) (filter (is_new_child dup ds) child_jobs) {} of
                  Inl e \<Rightarrow> (Inl e, s1)
                | Inr _ \<Rightarrow>
                    (case get_job_at s1 parent_id of
                       None \<Rightarrow> (Inl (JobNotFound parent_id), s1)
                     | Some p \<Rightarrow>
                         let p1 = append_children ds child_jobs (reset_parent WaitingChildren None p);
                             s2 = modify_job parent_id (\<lambda>_. p1) s1;
                             (stored, s3) = store_children (map_of (ds_children ds)) dup parent_id now
                                              child_jobs s2;
                             s4 = emit_event ''waiting-children'' (Some p1) (Some Active) now [] s3
                         in (Inr stored, release_unless_next ext ds parent_id now s4)))))"

definition add_flow_children_at ::
  "externals \<Rightarrow> string \<Rightarrow> job_id \<Rightarrow> string \<Rightarrow> job_spec list \<Rightarrow> (nat \<Rightarrow> string) \<Rightarrow> instant \<Rightarrow> qstate
     \<Rightarrow> job list result \<times> qstate" where
  "add_flow_children_at ext queue parent_id token children uuids now s =
     (if children = [] then (Inl (ConfigError ''flow children cannot be empty''), s)
      else case validate_specs ext children now of
             Inl e \<Rightarrow> (Inl e, s)
           | Inr _ \<Rightarrow>
               let child_jobs = child_jobs_of ext queue parent_id children uuids now
               in case and_then (validate_flow_child_jobs parent_id child_jobs)
                         (\<lambda>_. require_flow_parent parent_id token s) of
                    Inl e \<Rightarrow> (Inl e, s)
                  | Inr parent \<Rightarrow> add_children_under ext parent parent_id child_jobs now s)"

section \<open>Reading dependencies\<close>

definition get_flow_dependencies :: "job_id \<Rightarrow> qstate \<Rightarrow> flow_dependencies option result" where
  "get_flow_dependencies parent_id s =
     Inr (map_option (\<lambda>parent.
            let children = List.map_filter (get_job_at s) (j_child_ids parent)
            in \<lparr>fd_parent = parent, fd_children = children,
                fd_pending_child_ids = map j_id (filter (\<lambda>c. \<not> is_terminal (j_state c)) children),
                fd_missing_child_ids = filter (\<lambda>i. get_job_at s i = None) (j_child_ids parent)\<rparr>)
          (get_job_at s parent_id))"

definition read_parent :: "(job \<Rightarrow> jobs_map \<Rightarrow> flow_index option \<Rightarrow> 'a) \<Rightarrow> job_id \<Rightarrow> qstate \<Rightarrow> 'a option result" where
  "read_parent report parent_id s =
     Inr (map_option (\<lambda>parent. report parent (q_jobs s) (map_of (q_flow_dependencies s) parent_id))
           (get_job_at s parent_id))"

definition get_flow_dependency_counts :: "job_id \<Rightarrow> qstate \<Rightarrow> flow_counts option result" where
  "get_flow_dependency_counts = read_parent flow_dependency_counts"

definition get_flow_dependency_selected_counts ::
  "job_id \<Rightarrow> count_options \<Rightarrow> qstate \<Rightarrow> selected_counts option result" where
  "get_flow_dependency_selected_counts parent_id options =
     read_parent (\<lambda>p jobs index. flow_dependency_selected_counts p jobs index options) parent_id"

definition get_flow_dependency_values :: "job_id \<Rightarrow> qstate \<Rightarrow> flow_values option result" where
  "get_flow_dependency_values = read_parent flow_dependency_values"

definition get_flow_dependency_page ::
  "job_id \<Rightarrow> page_options \<Rightarrow> qstate \<Rightarrow> dependency_page option result" where
  "get_flow_dependency_page parent_id options =
     read_parent (\<lambda>p jobs index. flow_dependency_page p jobs index options) parent_id"

definition get_flow_dependency_pages ::
  "job_id \<Rightarrow> pages_options \<Rightarrow> qstate \<Rightarrow> dependency_pages option result" where
  "get_flow_dependency_pages parent_id options =
     read_parent (\<lambda>p jobs index. flow_dependency_pages p jobs index options) parent_id"

definition get_flow_children_values :: "job_id \<Rightarrow> qstate \<Rightarrow> (job_id, json) hmap option result" where
  "get_flow_children_values = read_parent flow_children_values"

definition get_flow_ignored_children_failures ::
  "job_id \<Rightarrow> qstate \<Rightarrow> (job_id, string) hmap option result" where
  "get_flow_ignored_children_failures = read_parent flow_ignored_children_failures"

section \<open>Removing dependencies\<close>

fun remove_announced :: "job_id list \<Rightarrow> instant \<Rightarrow> qstate \<Rightarrow> job list \<times> qstate" where
  "remove_announced [] now s = ([], s)"
| "remove_announced (i # is) now s =
     (case remove_job_record i s of
        (None, s1) \<Rightarrow> remove_announced is now s1
      | (Some j, s1) \<Rightarrow>
          let (js, s2) = remove_announced is now (emit_removed_event j now s1) in (j # js, s2))"

text \<open>
  The walk gets one unit of fuel per retained job; \<open>collect_removable_enough_fuel\<close> shows that
  it never runs out, so the \<open>None\<close> branch below is dead.
\<close>

definition remove_unprocessed_children ::
  "externals \<Rightarrow> job_id \<Rightarrow> instant \<Rightarrow> qstate \<Rightarrow> job list option result \<times> qstate" where
  "remove_unprocessed_children ext parent_id now s =
     (case get_job_at s parent_id of
        None \<Rightarrow> (Inr None, s)
      | Some parent \<Rightarrow>
          (case collect_removable (length (q_jobs s)) (q_jobs s) (j_child_ids parent) [] {} of
             None \<Rightarrow> (Inr None, s)
           | Some (ids, _) \<Rightarrow>
               let (removed, s1) = remove_announced ids now s
               in (Inr (Some removed), snd (release_parent_if_ready ext parent_id now s1))))"

definition remove_child_dependency ::
  "externals \<Rightarrow> job_id \<Rightarrow> instant \<Rightarrow> qstate \<Rightarrow> bool result \<times> qstate" where
  "remove_child_dependency ext child_id now s =
     (case get_job_at s child_id of
        None \<Rightarrow> (Inl (JobNotFound child_id), s)
      | Some child \<Rightarrow>
          (case j_parent_id child of
             None \<Rightarrow> (Inr False, s)
           | Some parent_id \<Rightarrow>
               (case get_job_at s parent_id of
                  None \<Rightarrow> (Inl (JobNotFound parent_id), s)
                | Some parent \<Rightarrow>
                    if child_id \<notin> set (j_child_ids parent)
                       \<and> \<not> has_child_dependency_side_index parent_id child_id s
                    then (Inr False, s)
                    else
                      let s1 = modify_job parent_id
                                 (\<lambda>p. p\<lparr>j_child_ids := filter (\<lambda>i. i \<noteq> child_id) (j_child_ids p)\<rparr>) s;
                          s2 = snd (clear_child_dependency_side_index parent_id child_id s1);
                          s3 = modify_job child_id (\<lambda>c. c\<lparr>j_parent_id := None\<rparr>) s2
                      in (Inr True, snd (release_parent_if_ready ext parent_id now s3)))))"

end
