(* ===== verification/Job_Queue_Effects.thy ===== *)
theory Job_Queue_Effects
  imports Job_Queue_Flow_Ops
begin

text \<open>
  The abstract view of the job queue: the lifecycle of a job, the invariant of the queue state,
  and the atomic effects from which every operation is composed. An effect adds a
  job in its initial shape, moves one retained job along the lifecycle, removes a job
  that nobody leases, or edits the event log, the waiting sequence, a dependency index or a
  deduplication slot. Every effect preserves the invariant (\<open>q_inv_effect\<close>), so an operation
  that is a sequence of effects does too; the locale \<open>effect_invariant\<close> states this once for
  any property of states.
\<close>

section \<open>The lifecycle of a job\<close>

text \<open>The states a job may have after one update, for the state it has before.\<close>

fun lifecycle :: "job_state \<Rightarrow> job_state set" where
  "lifecycle Waiting = {Waiting, Active, Delayed, WaitingChildren, Failed}"
| "lifecycle Delayed = {Delayed, Waiting, WaitingChildren, Failed}"
| "lifecycle Active = {Active, Completed, Failed, Delayed, Waiting, WaitingChildren}"
| "lifecycle WaitingChildren = {WaitingChildren, Waiting, Delayed, Failed}"
| "lifecycle Completed = {Completed, Waiting}"
| "lifecycle Failed = {Failed, Waiting}"

definition leased :: "job \<Rightarrow> bool" where
  "leased j \<longleftrightarrow> j_state j = Active \<and> j_lock_token j \<noteq> None"

text \<open>A job holds a lease exactly while it is active, and a finish time exactly once it is terminal.\<close>

definition job_wf :: "job \<Rightarrow> bool" where
  "job_wf j \<longleftrightarrow>
     (if j_state j = Active
      then j_worker_id j \<noteq> None \<and> j_lock_token j \<noteq> None \<and> j_lease_expires_at j \<noteq> None
           \<and> j_processed_at j \<noteq> None
      else j_worker_id j = None \<and> j_lock_token j = None \<and> j_lease_expires_at j = None)
     \<and> (is_terminal (j_state j) \<longleftrightarrow> j_finished_at j \<noteq> None)"

text \<open>
  One update of a retained job: it stays the same job, it moves along the lifecycle, claiming is
  the only change that counts an attempt, and a lease is not handed over while it is held.
\<close>

definition job_step :: "nat \<Rightarrow> job \<Rightarrow> job \<Rightarrow> bool" where
  "job_step n j j' \<longleftrightarrow>
     j_id j' = j_id j \<and> j_queue j' = j_queue j \<and> j_name j' = j_name j
     \<and> j_created_at j' = j_created_at j \<and> j_repeat_key j' = j_repeat_key j
     \<and> j_repeat_count j' = j_repeat_count j
     \<and> j_state j' \<in> lifecycle (j_state j)
     \<and> j_attempts_made j' = (if j_state j = Waiting \<and> j_state j' = Active
                             then u32_saturating_add (j_attempts_made j) 1 else j_attempts_made j)
     \<and> (j_state j = Active \<and> j_state j' = Active \<longrightarrow>
          j_lock_token j' = j_lock_token j \<and> j_worker_id j' = j_worker_id j)
     \<and> j_enqueued_seq j' \<le> n
     \<and> (job_wf j \<longrightarrow> job_wf j')"

definition new_job :: "nat \<Rightarrow> job \<Rightarrow> bool" where
  "new_job n j \<longleftrightarrow>
     j_state j \<in> {Waiting, Delayed, WaitingChildren} \<and> j_attempts_made j = 0
     \<and> j_stalled_count j = 0 \<and> j_enqueued_seq j \<le> n \<and> job_wf j"

section \<open>The invariant\<close>

definition jobs_inv :: "qstate \<Rightarrow> bool" where
  "jobs_inv s \<longleftrightarrow>
     keys_distinct (q_jobs s)
     \<and> list_all (\<lambda>(k, j). j_id j = k \<and> job_wf j \<and> j_enqueued_seq j \<le> q_sequence s) (q_jobs s)
     \<and> q_sequence s \<le> u64_max"

definition index_shape :: "flow_index \<Rightarrow> bool" where
  "index_shape i \<longleftrightarrow>
     keys_distinct (fi_processed i) \<and> keys_distinct (fi_ignored i) \<and> finite (fi_failed i)
     \<and> fst ` set (fi_processed i) \<inter> fst ` set (fi_ignored i) = {}
     \<and> fst ` set (fi_processed i) \<inter> fi_failed i = {}
     \<and> fst ` set (fi_ignored i) \<inter> fi_failed i = {}"

definition index_wf :: "flow_index \<Rightarrow> bool" where
  "index_wf i \<longleftrightarrow> index_shape i \<and> \<not> flow_index_is_empty i"

definition flow_inv :: "qstate \<Rightarrow> bool" where
  "flow_inv s \<longleftrightarrow>
     keys_distinct (q_flow_dependencies s)
     \<and> list_all (\<lambda>(p, i). index_wf i \<and> map_of (q_jobs s) p \<noteq> None) (q_flow_dependencies s)"

definition slot_job_ok :: "nat \<Rightarrow> string \<times> job \<Rightarrow> bool" where
  "slot_job_ok n e \<longleftrightarrow> job_deduplication_id (snd e) = Some (fst e) \<and> j_enqueued_seq (snd e) \<le> n"

definition slot_flow_ok :: "nat \<Rightarrow> string \<times> job_flow \<Rightarrow> bool" where
  "slot_flow_ok n e \<longleftrightarrow>
     job_deduplication_id (fl_parent (snd e)) = Some (fst e)
     \<and> distinct (map j_id (flow_jobs (snd e)))
     \<and> list_all (\<lambda>j. j_enqueued_seq j \<le> n) (flow_jobs (snd e))"

definition slots_inv :: "qstate \<Rightarrow> bool" where
  "slots_inv s \<longleftrightarrow>
     keys_distinct (q_deduplication_next s) \<and> keys_distinct (q_deduplication_next_flows s)
     \<and> list_all (slot_job_ok (q_sequence s)) (q_deduplication_next s)
     \<and> list_all (slot_flow_ok (q_sequence s)) (q_deduplication_next_flows s)
     \<and> fst ` set (q_deduplication_next s) \<inter> fst ` set (q_deduplication_next_flows s) = {}
     \<and> finite (q_released s)"

text \<open>The event log is bounded, and until its counter saturates its ids are consecutive up to the counter.\<close>

definition event_ids :: "nat \<Rightarrow> nat \<Rightarrow> string list" where
  "event_ids n len = map (\<lambda>k. show_nat k @ ''-0'') [Suc n - len..<Suc n]"

definition events_numbered :: "qstate \<Rightarrow> bool" where
  "events_numbered s \<longleftrightarrow>
     q_event_sequence s \<le> u64_max
     \<and> (q_event_sequence s < u64_max \<longrightarrow>
          length (q_events s) \<le> q_event_sequence s
          \<and> map ev_id (q_events s) = event_ids (q_event_sequence s) (length (q_events s)))"

definition events_inv :: "qstate \<Rightarrow> bool" where
  "events_inv s \<longleftrightarrow>
     length (q_events s) \<le> DEFAULT_JOB_EVENT_RETENTION \<and> events_numbered s"

definition q_inv :: "qstate \<Rightarrow> bool" where
  "q_inv s \<longleftrightarrow> jobs_inv s \<and> flow_inv s \<and> slots_inv s \<and> events_inv s"

section \<open>Atomic effects\<close>

inductive effect :: "qstate \<Rightarrow> qstate \<Rightarrow> bool" where
  Emit: "effect s (emit_event ev jb prev now flds s)"
| Trim: "effect s (snd (trim_events n s))"
| Number: "effect s (snd (next_waiting_sequence s))"
| Update: "get_job_at s i = Some j \<Longrightarrow> job_step (q_sequence s) j j' \<Longrightarrow>
     effect s (modify_job i (\<lambda>_. j') s)"
| Insert: "get_job_at s (j_id j) = None \<Longrightarrow> new_job (q_sequence s) j \<Longrightarrow> effect s (put_job j s)"
| Remove: "get_job_at s i = Some j \<Longrightarrow> \<not> leased j \<Longrightarrow> effect s (snd (remove_job_record i s))"
| Index: "get_job_at s p \<noteq> None \<Longrightarrow> index_wf i \<Longrightarrow> effect s (set_index p i s)"
| Unindex: "effect s (s\<lparr>q_flow_dependencies := AList.delete p (q_flow_dependencies s)\<rparr>)"
| Hold_job: "slot_job_ok (q_sequence s) (d, j) \<Longrightarrow>
     effect s (s\<lparr>q_deduplication_next := AList.update d j (q_deduplication_next s),
                 q_deduplication_next_flows := AList.delete d (q_deduplication_next_flows s)\<rparr>)"
| Hold_flow: "slot_flow_ok (q_sequence s) (d, f) \<Longrightarrow>
     effect s (s\<lparr>q_deduplication_next_flows := AList.update d f (q_deduplication_next_flows s),
                 q_deduplication_next := AList.delete d (q_deduplication_next s)\<rparr>)"
| Unhold_job: "effect s (s\<lparr>q_deduplication_next := AList.delete d (q_deduplication_next s)\<rparr>)"
| Unhold_flow: "effect s (s\<lparr>q_deduplication_next_flows := AList.delete d (q_deduplication_next_flows s)\<rparr>)"
| Release: "effect s (s\<lparr>q_released := insert e (q_released s)\<rparr>)"
| Unrelease: "effect s (s\<lparr>q_released := q_released s - {e}\<rparr>)"
| Pause: "effect s (s\<lparr>q_paused := b\<rparr>)"
| Wipe: "effect s (s\<lparr>q_jobs := [], q_flow_dependencies := [], q_deduplication_next := [],
                     q_deduplication_next_flows := [], q_released := {}, q_paused := False\<rparr>)"

abbreviation effects :: "qstate \<Rightarrow> qstate \<Rightarrow> bool" where
  "effects \<equiv> effect\<^sup>*\<^sup>*"

section \<open>Preservation\<close>

lemma jobs_inv_alt:
  "jobs_inv s \<longleftrightarrow> keys_distinct (q_jobs s) \<and> q_sequence s \<le> u64_max
     \<and> (\<forall>k j. get_job_at s k = Some j \<longrightarrow> j_id j = k \<and> job_wf j \<and> j_enqueued_seq j \<le> q_sequence s)"
  by (auto simp: jobs_inv_def list_all_map_of)

lemma flow_inv_alt:
  "flow_inv s \<longleftrightarrow> keys_distinct (q_flow_dependencies s)
     \<and> (\<forall>p i. map_of (q_flow_dependencies s) p = Some i \<longrightarrow> index_wf i \<and> get_job_at s p \<noteq> None)"
  by (auto simp: flow_inv_def list_all_map_of)

lemma emit_event_fields [simp]:
  "q_jobs (emit_event ev jb prev now flds s) = q_jobs s"
  "q_sequence (emit_event ev jb prev now flds s) = q_sequence s"
  "q_paused (emit_event ev jb prev now flds s) = q_paused s"
  "q_flow_dependencies (emit_event ev jb prev now flds s) = q_flow_dependencies s"
  "q_deduplication_next (emit_event ev jb prev now flds s) = q_deduplication_next s"
  "q_deduplication_next_flows (emit_event ev jb prev now flds s) = q_deduplication_next_flows s"
  "q_released (emit_event ev jb prev now flds s) = q_released s"
  by (simp_all add: emit_event_def trim_events_def Let_def)

lemma trim_events_fields [simp]:
  "q_jobs (snd (trim_events n s)) = q_jobs s"
  "q_sequence (snd (trim_events n s)) = q_sequence s"
  "q_paused (snd (trim_events n s)) = q_paused s"
  "q_flow_dependencies (snd (trim_events n s)) = q_flow_dependencies s"
  "q_deduplication_next (snd (trim_events n s)) = q_deduplication_next s"
  "q_deduplication_next_flows (snd (trim_events n s)) = q_deduplication_next_flows s"
  "q_released (snd (trim_events n s)) = q_released s"
  "q_event_sequence (snd (trim_events n s)) = q_event_sequence s"
  by (simp_all add: trim_events_def Let_def)

lemma next_waiting_sequence_fields [simp]:
  "q_jobs (snd (next_waiting_sequence s)) = q_jobs s"
  "q_flow_dependencies (snd (next_waiting_sequence s)) = q_flow_dependencies s"
  "q_deduplication_next (snd (next_waiting_sequence s)) = q_deduplication_next s"
  "q_deduplication_next_flows (snd (next_waiting_sequence s)) = q_deduplication_next_flows s"
  "q_released (snd (next_waiting_sequence s)) = q_released s"
  "q_events (snd (next_waiting_sequence s)) = q_events s"
  "q_event_sequence (snd (next_waiting_sequence s)) = q_event_sequence s"
  "q_paused (snd (next_waiting_sequence s)) = q_paused s"
  "q_sequence (snd (next_waiting_sequence s)) = fst (next_waiting_sequence s)"
  by (simp_all add: next_waiting_sequence_def Let_def)

lemma next_waiting_sequence_bounds:
  "fst (next_waiting_sequence s) \<le> u64_max"
  "q_sequence s \<le> u64_max \<Longrightarrow> q_sequence s \<le> fst (next_waiting_sequence s)"
  by (simp_all add: next_waiting_sequence_def Let_def u64_saturating_add_def)

lemma event_ids_drop: "k \<le> len \<Longrightarrow> len \<le> n \<Longrightarrow> drop k (event_ids n len) = event_ids n (len - k)"
  by (simp add: event_ids_def drop_map del: upt_Suc)

lemma event_ids_snoc: "len \<le> n \<Longrightarrow> event_ids n len @ [show_nat (Suc n) @ ''-0''] = event_ids (Suc n) (Suc len)"
  by (simp add: event_ids_def)

lemma events_numbered_trim: "events_numbered s \<Longrightarrow> events_numbered (snd (trim_events n s))"
  by (auto simp: events_numbered_def trim_events_def Let_def event_ids_drop drop_map [symmetric])

lemma length_trim_events: "length (q_events (snd (trim_events n s))) = min n (length (q_events s))"
  by (simp add: trim_events_def Let_def)

lemma events_numbered_append:
  "events_numbered s \<Longrightarrow> ev_id e = show_nat n @ ''-0'' \<Longrightarrow> n = u64_saturating_add (q_event_sequence s) 1 \<Longrightarrow>
   events_numbered (s\<lparr>q_event_sequence := n, q_events := q_events s @ [e]\<rparr>)"
  by (auto simp: events_numbered_def u64_saturating_add_def event_ids_snoc)

lemma events_inv_trim: "events_inv s \<Longrightarrow> events_inv (snd (trim_events n s))"
  by (auto simp: events_inv_def events_numbered_trim length_trim_events)

lemma events_inv_emit: "events_inv s \<Longrightarrow> events_inv (emit_event ev jb prev now flds s)"
  by (simp add: events_inv_def emit_event_def Let_def length_trim_events
      events_numbered_trim events_numbered_append)

lemma q_inv_emit: "q_inv s \<Longrightarrow> q_inv (emit_event ev jb prev now flds s)"
  by (simp add: q_inv_def jobs_inv_def flow_inv_def slots_inv_def events_inv_emit)

lemma q_inv_trim: "q_inv s \<Longrightarrow> q_inv (snd (trim_events n s))"
  by (simp add: q_inv_def jobs_inv_def flow_inv_def slots_inv_def events_inv_trim)

lemma slot_job_ok_mono: "slot_job_ok n e \<Longrightarrow> n \<le> m \<Longrightarrow> slot_job_ok m e"
  by (auto simp: slot_job_ok_def)

lemma slot_flow_ok_mono: "slot_flow_ok n e \<Longrightarrow> n \<le> m \<Longrightarrow> slot_flow_ok m e"
  by (auto simp: slot_flow_ok_def list_all_iff)

lemma q_inv_next_sequence: "q_inv s \<Longrightarrow> q_inv (snd (next_waiting_sequence s))"
proof -
  assume inv: "q_inv s"
  let ?n = "fst (next_waiting_sequence s)"
  have le: "q_sequence s \<le> ?n"
    using inv by (simp add: q_inv_def jobs_inv_def next_waiting_sequence_bounds)
  have "slots_inv (snd (next_waiting_sequence s))"
    using inv le by (auto simp: q_inv_def slots_inv_def
        elim!: list_all_mono intro: slot_job_ok_mono slot_flow_ok_mono)
  moreover have "jobs_inv (snd (next_waiting_sequence s))"
    using inv le unfolding q_inv_def jobs_inv_alt
    by (auto simp: next_waiting_sequence_bounds(1) intro: order_trans)
  ultimately show ?thesis
    using inv by (simp add: q_inv_def flow_inv_def events_inv_def events_numbered_def)
qed

lemma modify_job_fields [simp]:
  "q_sequence (modify_job i f s) = q_sequence s"
  "q_paused (modify_job i f s) = q_paused s"
  "q_flow_dependencies (modify_job i f s) = q_flow_dependencies s"
  "q_deduplication_next (modify_job i f s) = q_deduplication_next s"
  "q_deduplication_next_flows (modify_job i f s) = q_deduplication_next_flows s"
  "q_released (modify_job i f s) = q_released s"
  "q_events (modify_job i f s) = q_events s"
  "q_event_sequence (modify_job i f s) = q_event_sequence s"
  by (simp_all add: modify_job_def)

lemma get_job_modify [simp]:
  "get_job_at (modify_job i f s) k = (if k = i then map_option f (get_job_at s k) else get_job_at s k)"
  by (simp add: modify_job_def map_of_map_entry_if)

lemma put_job_fields [simp]:
  "q_sequence (put_job j s) = q_sequence s"
  "q_paused (put_job j s) = q_paused s"
  "q_flow_dependencies (put_job j s) = q_flow_dependencies s"
  "q_deduplication_next (put_job j s) = q_deduplication_next s"
  "q_deduplication_next_flows (put_job j s) = q_deduplication_next_flows s"
  "q_released (put_job j s) = q_released s"
  "q_events (put_job j s) = q_events s"
  "q_event_sequence (put_job j s) = q_event_sequence s"
  by (simp_all add: put_job_def)

lemma get_job_put [simp]:
  "get_job_at (put_job j s) k = (if k = j_id j then Some j else get_job_at s k)"
  by (simp add: put_job_def map_of_update)

lemma q_inv_update:
  assumes inv: "q_inv s" and j: "get_job_at s i = Some j" and st: "job_step (q_sequence s) j j'"
  shows "q_inv (modify_job i (\<lambda>_. j') s)"
proof -
  have "jobs_inv (modify_job i (\<lambda>_. j') s)"
    using assms unfolding q_inv_def jobs_inv_alt
    by (auto simp: job_step_def modify_job_def map_of_map_entry_if split: if_splits)
  moreover have "flow_inv (modify_job i (\<lambda>_. j') s)"
    using inv j by (fastforce simp: q_inv_def flow_inv_alt)
  ultimately show ?thesis
    using inv by (simp add: q_inv_def slots_inv_def events_inv_def events_numbered_def)
qed

lemma q_inv_insert:
  assumes inv: "q_inv s" and j: "new_job (q_sequence s) j"
  shows "q_inv (put_job j s)"
proof -
  have "jobs_inv (put_job j s)"
    using assms unfolding q_inv_def jobs_inv_alt
    by (auto simp: new_job_def put_job_def map_of_update split: if_splits)
  moreover have "flow_inv (put_job j s)"
    using inv by (fastforce simp: q_inv_def flow_inv_alt)
  ultimately show ?thesis
    using inv by (simp add: q_inv_def slots_inv_def events_inv_def events_numbered_def)
qed

lemma forget_released_fields [simp]:
  "q_jobs (forget_released_deduplication_owner j s) = q_jobs s"
  "q_sequence (forget_released_deduplication_owner j s) = q_sequence s"
  "q_paused (forget_released_deduplication_owner j s) = q_paused s"
  "q_flow_dependencies (forget_released_deduplication_owner j s) = q_flow_dependencies s"
  "q_deduplication_next (forget_released_deduplication_owner j s) = q_deduplication_next s"
  "q_deduplication_next_flows (forget_released_deduplication_owner j s) = q_deduplication_next_flows s"
  "q_events (forget_released_deduplication_owner j s) = q_events s"
  "q_event_sequence (forget_released_deduplication_owner j s) = q_event_sequence s"
  by (simp_all add: forget_released_deduplication_owner_def split: option.split)

lemma remove_job_record_fields [simp]:
  "q_sequence (snd (remove_job_record i s)) = q_sequence s"
  "q_paused (snd (remove_job_record i s)) = q_paused s"
  "q_deduplication_next (snd (remove_job_record i s)) = q_deduplication_next s"
  "q_deduplication_next_flows (snd (remove_job_record i s)) = q_deduplication_next_flows s"
  "q_events (snd (remove_job_record i s)) = q_events s"
  "q_event_sequence (snd (remove_job_record i s)) = q_event_sequence s"
  "fst (remove_job_record i s) = get_job_at s i"
  by (simp_all add: remove_job_record_def Let_def split: option.split)

lemma get_job_remove [simp]:
  "get_job_at (snd (remove_job_record i s)) k = (if k = i then None else get_job_at s k)"
  by (simp add: remove_job_record_def Let_def map_of_delete_if split: option.split)

lemma q_inv_remove:
  assumes inv: "q_inv s" shows "q_inv (snd (remove_job_record i s))"
proof (cases "get_job_at s i")
  case None
  then show ?thesis using inv by (simp add: remove_job_record_def)
next
  case (Some j)
  let ?s = "snd (remove_job_record i s)"
  have jobs: "q_jobs ?s = AList.delete i (q_jobs s)"
    and flow: "q_flow_dependencies ?s = AList.delete i (q_flow_dependencies s)"
    using Some by (simp_all add: remove_job_record_def Let_def)
  have "finite (q_released s) \<Longrightarrow> finite (q_released ?s)"
    using Some by (simp add: remove_job_record_def Let_def forget_released_deduplication_owner_def
        split: option.split)
  moreover have "jobs_inv ?s"
    using inv by (auto simp: q_inv_def jobs_inv_alt jobs map_of_delete_if)
  moreover have "flow_inv ?s"
    using inv by (fastforce simp: q_inv_def flow_inv_alt flow map_of_delete_if)
  ultimately show ?thesis
    using inv by (simp add: q_inv_def slots_inv_def events_inv_def events_numbered_def)
qed

lemma q_inv_flow_dependencies:
  assumes "q_inv s" "keys_distinct fd"
    and "\<And>p i. map_of fd p = Some i \<Longrightarrow> index_wf i \<and> get_job_at s p \<noteq> None"
  shows "q_inv (s\<lparr>q_flow_dependencies := fd\<rparr>)"
  using assms by (simp add: q_inv_def flow_inv_alt jobs_inv_def slots_inv_def events_inv_def events_numbered_def)

lemma q_inv_set_index:
  assumes "q_inv s" "get_job_at s p \<noteq> None" "index_wf i"
  shows "q_inv (set_index p i s)"
  unfolding set_index_def using assms
  by (intro q_inv_flow_dependencies) (auto simp: q_inv_def flow_inv_alt map_of_update split: if_splits)

lemma q_inv_unindex:
  assumes "q_inv s" shows "q_inv (s\<lparr>q_flow_dependencies := AList.delete p (q_flow_dependencies s)\<rparr>)"
  using assms
  by (intro q_inv_flow_dependencies) (auto simp: q_inv_def flow_inv_alt map_of_delete_if split: if_splits)

lemma q_inv_slots:
  assumes "q_inv s" and "slots_inv (s\<lparr>q_deduplication_next := dn, q_deduplication_next_flows := df, q_released := r\<rparr>)"
  shows "q_inv (s\<lparr>q_deduplication_next := dn, q_deduplication_next_flows := df, q_released := r\<rparr>)"
  using assms by (simp add: q_inv_def flow_inv_def jobs_inv_def events_inv_def events_numbered_def)

lemma q_inv_effect: "effect s s' \<Longrightarrow> q_inv s \<Longrightarrow> q_inv s'"
proof (induction rule: effect.induct)
  case (Hold_job s d j)
  then have "slots_inv (s\<lparr>q_deduplication_next := AList.update d j (q_deduplication_next s),
                 q_deduplication_next_flows := AList.delete d (q_deduplication_next_flows s)\<rparr>)"
    by (auto simp: q_inv_def slots_inv_def list_all_update list_all_delete fst_set_update fst_set_delete)
  then show ?case using Hold_job by (simp add: q_inv_def flow_inv_def jobs_inv_def events_inv_def events_numbered_def)
next
  case (Hold_flow s d f)
  then have "slots_inv (s\<lparr>q_deduplication_next_flows := AList.update d f (q_deduplication_next_flows s),
                 q_deduplication_next := AList.delete d (q_deduplication_next s)\<rparr>)"
    by (auto simp: q_inv_def slots_inv_def list_all_update list_all_delete fst_set_update fst_set_delete)
  then show ?case using Hold_flow by (simp add: q_inv_def flow_inv_def jobs_inv_def events_inv_def events_numbered_def)
next
  case (Unhold_job s d)
  then show ?case
    by (auto simp: q_inv_def slots_inv_def flow_inv_def jobs_inv_def events_inv_def events_numbered_def list_all_delete fst_set_delete)
next
  case (Unhold_flow s d)
  then show ?case
    by (auto simp: q_inv_def slots_inv_def flow_inv_def jobs_inv_def events_inv_def events_numbered_def list_all_delete fst_set_delete)
next
  case (Wipe s)
  then show ?case
    by (auto simp: q_inv_def slots_inv_def flow_inv_def jobs_inv_def events_inv_def events_numbered_def)
qed (simp_all add: q_inv_emit q_inv_trim q_inv_next_sequence q_inv_update q_inv_insert q_inv_remove
      q_inv_set_index q_inv_unindex,
     simp_all add: q_inv_def slots_inv_def flow_inv_def jobs_inv_def events_inv_def events_numbered_def)

section \<open>Properties kept by every effect\<close>

text \<open>
  A property of states that every effect keeps is kept by every sequence of effects, hence by
  every operation that refines into effects.
\<close>

locale effect_invariant =
  fixes I :: "qstate \<Rightarrow> bool"
  assumes effect_keeps: "effect s s' \<Longrightarrow> q_inv s \<Longrightarrow> I s \<Longrightarrow> I s'"
begin

lemma effects_keep: "effects s s' \<Longrightarrow> q_inv s \<Longrightarrow> I s \<Longrightarrow> q_inv s' \<and> I s'"
  by (induction rule: rtranclp_induct) (auto intro: effect_keeps q_inv_effect)

end

interpretation any_state: effect_invariant "\<lambda>_. True"
  by unfold_locales simp

lemma q_inv_effects: "effects s s' \<Longrightarrow> q_inv s \<Longrightarrow> q_inv s'"
  using any_state.effects_keep by blast

text \<open>The two counters never go back.\<close>

lemma effect_sequences:
  "effect s s' \<Longrightarrow> q_inv s \<Longrightarrow>
     q_sequence s \<le> q_sequence s' \<and> q_event_sequence s \<le> q_event_sequence s'"
proof (induction rule: effect.induct)
  case (Emit s)
  then show ?case
    by (simp add: emit_event_def Let_def q_inv_def events_inv_def events_numbered_def u64_saturating_add_def)
next
  case (Number s)
  then show ?case
    by (simp add: q_inv_def jobs_inv_def next_waiting_sequence_bounds)
qed (simp_all add: set_index_def)

interpretation counters: effect_invariant "\<lambda>s. n \<le> q_sequence s \<and> m \<le> q_event_sequence s" for n m
  using effect_sequences by unfold_locales fastforce

section \<open>Refinement into effects\<close>

definition refines :: "qstate \<Rightarrow> qstate \<Rightarrow> bool" where
  "refines s s' \<longleftrightarrow> (q_inv s \<longrightarrow> effects s s')"

lemma refines_refl [simp, intro!]: "refines s s"
  by (simp add: refines_def)

lemma refines_trans [trans]: "refines s t \<Longrightarrow> refines t u \<Longrightarrow> refines s u"
  by (auto simp: refines_def intro: rtranclp_trans q_inv_effects)

lemma refines_inv: "refines s t \<Longrightarrow> q_inv s \<Longrightarrow> q_inv t"
  by (auto simp: refines_def intro: q_inv_effects)

lemma refines_step:
  assumes "refines s t" "q_inv t \<Longrightarrow> effect t u"
  shows "refines s u"
  using assms refines_inv [OF assms(1)] by (auto simp: refines_def intro: rtranclp.rtrancl_into_rtrancl)

lemma refines_fold:
  assumes "\<And>x t. x \<in> set xs \<Longrightarrow> refines t (f x t)" "refines s t"
  shows "refines s (fold f xs t)"
  using assms
proof (induction xs arbitrary: t)
  case (Cons x xs)
  have "refines s (f x t)"
    using Cons.prems by (auto intro: refines_trans)
  then show ?case using Cons by simp
qed simp

end
