(* ===== verification/Job_Queue_Refine.thy ===== *)
theory Job_Queue_Refine
  imports Job_Queue_Effects
begin

text \<open>
  Every internal operation of the queue is a sequence of effects. The rules are in continuation
  form: what refines up to a state still refines after one more operation on that state.
\<close>

section \<open>Effects in continuation form\<close>

named_theorems refine

lemma refines_emit [refine]: "refines s t \<Longrightarrow> refines s (emit_event ev jb prev now flds t)"
  by (blast intro: refines_step effect.Emit)

lemma refines_trim [refine]: "refines s t \<Longrightarrow> refines s (snd (trim_events n t))"
  by (blast intro: refines_step effect.Trim)

lemma refines_number [refine]: "refines s t \<Longrightarrow> refines s (snd (next_waiting_sequence t))"
  by (blast intro: refines_step effect.Number)

lemma modify_job_absent: "get_job_at s i = None \<Longrightarrow> modify_job i f s = s"
proof -
  have "map_of m i = None \<Longrightarrow> AList.map_entry i f m = m" for m :: jobs_map
    by (induction m) (auto split: if_splits)
  then show "get_job_at s i = None \<Longrightarrow> ?thesis" by (simp add: modify_job_def)
qed

lemma modify_job_present: "get_job_at s i = Some j \<Longrightarrow> modify_job i f s = modify_job i (\<lambda>_. f j) s"
proof -
  have "map_of m i = Some j \<Longrightarrow> AList.map_entry i f m = AList.map_entry i (\<lambda>_. f j) m" for m :: jobs_map
    by (induction m) (auto split: if_splits)
  then show "get_job_at s i = Some j \<Longrightarrow> ?thesis" by (simp add: modify_job_def)
qed

lemma refines_modify:
  assumes "refines s t"
    and "\<And>j. q_inv t \<Longrightarrow> get_job_at t i = Some j \<Longrightarrow> job_step (q_sequence t) j (f j)"
  shows "refines s (modify_job i f t)"
proof (cases "get_job_at t i")
  case None
  then show ?thesis using assms(1) by (simp add: modify_job_absent)
next
  case (Some j)
  have "refines s (modify_job i (\<lambda>_. f j) t)"
    by (rule refines_step [OF assms(1)]) (auto intro: effect.Update Some assms(2))
  then show ?thesis by (simp only: modify_job_present [OF Some, of f])
qed

lemma refines_insert:
  assumes "refines s t"
    and "q_inv t \<Longrightarrow> get_job_at t (j_id j) = None" "q_inv t \<Longrightarrow> new_job (q_sequence t) j"
  shows "refines s (put_job j t)"
  using assms by (auto intro: refines_step effect.Insert)

lemma remove_absent: "get_job_at s i = None \<Longrightarrow> snd (remove_job_record i s) = s"
  by (simp add: remove_job_record_def)

lemma refines_remove:
  assumes "refines s t" and "\<And>j. q_inv t \<Longrightarrow> get_job_at t i = Some j \<Longrightarrow> \<not> leased j"
  shows "refines s (snd (remove_job_record i t))"
  using assms by (cases "get_job_at t i") (auto simp: remove_absent intro: refines_step effect.Remove)

lemma refines_set_index:
  "refines s t \<Longrightarrow> (q_inv t \<Longrightarrow> get_job_at t p \<noteq> None) \<Longrightarrow> (q_inv t \<Longrightarrow> index_wf i) \<Longrightarrow>
   refines s (set_index p i t)"
  by (rule refines_step) (auto intro: effect.Index)

lemma refines_forget_released [refine]:
  "refines s t \<Longrightarrow> refines s (forget_released_deduplication_owner j t)"
  by (auto simp: forget_released_deduplication_owner_def split: option.split
      intro: refines_step effect.Unrelease)

section \<open>Derived events\<close>

lemma refines_emits [refine]:
  assumes "refines s t"
  shows "refines s (emit_job_created_events j now t)"
    "refines s (emit_retries_exhausted_event j now t)"
    "refines s (emit_removed_event j now t)"
    "refines s (emit_duplicated_event j now t)"
    "refines s (emit_cleaned_event n now t)"
    "refines s (emit_deduplication_events j d i now t)"
    "refines s (emit_deduplicated_events j c now t)"
    "refines s (emit_replaced_deduplicated_owner_events j c now t)"
    "refines s (emit_drained_event_if_needed now t)"
  using assms
  by (auto simp: emit_job_created_events_def emit_retries_exhausted_event_def emit_removed_event_def
      emit_duplicated_event_def emit_cleaned_event_def emit_deduplication_events_def
      emit_deduplicated_events_def emit_replaced_deduplicated_owner_events_def
      emit_drained_event_if_needed_def Let_def split: option.split intro!: refines_emit)

lemma emits_fields [simp]:
  "q_jobs (emit_job_created_events j now t) = q_jobs t"
  "q_jobs (emit_removed_event j now t) = q_jobs t"
  "q_jobs (emit_duplicated_event j now t) = q_jobs t"
  "q_jobs (emit_cleaned_event n now t) = q_jobs t"
  "q_jobs (emit_deduplicated_events j c now t) = q_jobs t"
  "q_jobs (emit_replaced_deduplicated_owner_events j c now t) = q_jobs t"
  "q_jobs (emit_drained_event_if_needed now t) = q_jobs t"
  "q_jobs (emit_retries_exhausted_event j now t) = q_jobs t"
  "q_sequence (emit_job_created_events j now t) = q_sequence t"
  "q_sequence (emit_removed_event j now t) = q_sequence t"
  "q_sequence (emit_duplicated_event j now t) = q_sequence t"
  "q_sequence (emit_deduplicated_events j c now t) = q_sequence t"
  "q_sequence (emit_replaced_deduplicated_owner_events j c now t) = q_sequence t"
  by (simp_all add: emit_job_created_events_def emit_retries_exhausted_event_def emit_removed_event_def
      emit_duplicated_event_def emit_cleaned_event_def emit_deduplication_events_def
      emit_deduplicated_events_def emit_replaced_deduplicated_owner_events_def
      emit_drained_event_if_needed_def Let_def split: option.split)

section \<open>Dependency indices\<close>

lemma index_shape_default: "index_shape flow_index_default"
  by (simp add: index_shape_def flow_index_default_def)

lemma index_shape_entry: "q_inv s \<Longrightarrow> index_shape (index_entry p s)"
  by (auto simp: index_entry_def q_inv_def flow_inv_alt index_wf_def index_shape_default split: option.split)

lemma update_not_Nil [simp]: "AList.update k v m \<noteq> []"
  by (cases m) auto

lemma index_wf_recorded:
  assumes "index_shape i"
  shows "index_wf (i\<lparr>fi_ignored := AList.delete c (fi_ignored i), fi_failed := fi_failed i - {c},
           fi_processed := AList.update c v (fi_processed i)\<rparr>)"
    "index_wf (i\<lparr>fi_processed := AList.delete c (fi_processed i), fi_failed := fi_failed i - {c},
           fi_ignored := AList.update c r (fi_ignored i)\<rparr>)"
    "index_wf (i\<lparr>fi_processed := AList.delete c (fi_processed i),
           fi_ignored := AList.delete c (fi_ignored i), fi_failed := insert c (fi_failed i)\<rparr>)"
  using assms by (auto simp: index_wf_def index_shape_def flow_index_is_empty_def fst_set_update fst_set_delete)

lemma index_shape_cleared: "index_shape i \<Longrightarrow> index_shape (snd (clear_index_child c i))"
  by (auto simp: clear_index_child_def index_shape_def fst_set_delete)

lemma refines_record [refine]:
  assumes "refines s t" "get_job_at t p \<noteq> None"
  shows "refines s (record_completed_child_dependency p c v t)"
    "refines s (record_ignored_child_dependency p c r t)"
    "refines s (record_failed_child_dependency p c t)"
  using assms
  by (auto simp: record_completed_child_dependency_def record_ignored_child_dependency_def
      record_failed_child_dependency_def Let_def
      intro!: refines_set_index index_wf_recorded index_shape_entry)

lemma refines_clear [refine]:
  assumes "refines s t"
  shows "refines s (snd (clear_child_dependency_side_index p c t))"
proof (cases "map_of (q_flow_dependencies t) p")
  case None
  then show ?thesis using assms by (simp add: clear_child_dependency_side_index_def)
next
  case (Some i)
  have wf: "q_inv t \<Longrightarrow> index_wf i \<and> get_job_at t p \<noteq> None"
    using Some by (auto simp: q_inv_def flow_inv_alt)
  obtain b i1 where i1: "clear_index_child c i = (b, i1)" by fastforce
  have "q_inv t \<Longrightarrow> index_shape i1"
    using index_shape_cleared [of i c] wf i1 by (simp add: index_wf_def)
  then show ?thesis
    using Some i1 wf assms
    by (auto simp: clear_child_dependency_side_index_def index_wf_def
        intro!: refines_set_index intro: refines_step effect.Unindex)
qed

lemma record_fields [simp]:
  "q_jobs (record_completed_child_dependency p c v t) = q_jobs t"
  "q_jobs (record_ignored_child_dependency p c r t) = q_jobs t"
  "q_jobs (record_failed_child_dependency p c t) = q_jobs t"
  "q_sequence (record_completed_child_dependency p c v t) = q_sequence t"
  "q_sequence (record_ignored_child_dependency p c r t) = q_sequence t"
  "q_sequence (record_failed_child_dependency p c t) = q_sequence t"
  by (simp_all add: record_completed_child_dependency_def record_ignored_child_dependency_def
      record_failed_child_dependency_def set_index_def Let_def)

lemma clear_fields [simp]:
  "q_jobs (snd (clear_child_dependency_side_index p c t)) = q_jobs t"
  "q_sequence (snd (clear_child_dependency_side_index p c t)) = q_sequence t"
  by (simp_all add: clear_child_dependency_side_index_def set_index_def case_prod_beta split: option.split)

lemma refines_record_terminal [refine]:
  "refines s t \<Longrightarrow> refines s (record_terminal_child_dependency p c t)"
  by (auto simp: record_terminal_child_dependency_def split: option.split job_state.split
      intro!: refine)

lemma record_terminal_fields [simp]:
  "q_jobs (record_terminal_child_dependency p c t) = q_jobs t"
  "q_sequence (record_terminal_child_dependency p c t) = q_sequence t"
  by (simp_all add: record_terminal_child_dependency_def split: option.split job_state.split)

section \<open>Facts of the job table\<close>

lemma refinesI: "(q_inv s \<Longrightarrow> refines s t) \<Longrightarrow> refines s t"
  by (auto simp: refines_def)

lemma refines_cond: "refines s t \<Longrightarrow> (q_inv t \<Longrightarrow> refines s u) \<Longrightarrow> refines s u"
  unfolding refines_def by (blast intro: q_inv_effects)

lemma q_inv_job:
  assumes "q_inv s" "get_job_at s i = Some j"
  shows "j_id j = i" "job_wf j" "j_enqueued_seq j \<le> q_sequence s"
  using assms by (auto simp: q_inv_def jobs_inv_alt)

lemma distinct_hash_entries: "keys_distinct m \<Longrightarrow> distinct (map fst (hash_entries r m))"
  by (simp add: keys_distinct_def hash_entries_def distinct_map)

lemma in_hash_values:
  assumes "q_inv s"
  shows "j \<in> set (hash_values r (q_jobs s)) \<longleftrightarrow> get_job_at s (j_id j) = Some j"
proof -
  have d: "keys_distinct (q_jobs s)" using assms by (simp add: q_inv_def jobs_inv_def)
  have "j \<in> set (hash_values r (q_jobs s)) \<longleftrightarrow> (\<exists>k. get_job_at s k = Some j)"
    unfolding set_hash_values image_iff Bex_def split_paired_Ex keys_distinct_in [OF d] by auto
  then show ?thesis using q_inv_job(1) [OF assms] by blast
qed

lemma distinct_hash_ids:
  assumes "q_inv s" shows "distinct (map j_id (hash_values r (q_jobs s)))"
proof -
  have d: "keys_distinct (q_jobs s)" using assms by (simp add: q_inv_def jobs_inv_def)
  have "map j_id (hash_values r (q_jobs s)) = map fst (hash_entries r (q_jobs s))"
    using q_inv_job(1) [OF assms] by (auto simp: hash_values_def keys_distinct_in [OF d])
  then show ?thesis by (simp add: distinct_hash_entries d)
qed

lemmas step_simps = job_step_def job_wf_def new_job_def leased_def

section \<open>Removal and retention\<close>

lemma remove_all_Nil [simp]: "remove_all [] s = s"
  and remove_all_Cons [simp]: "remove_all (i # is) s = remove_all is (snd (remove_job_record i s))"
  by (simp_all add: remove_all_def)

lemma get_job_remove_all [simp]:
  "get_job_at (remove_all is s) k = (if k \<in> set is then None else get_job_at s k)"
  by (induction "is" arbitrary: s) auto

lemma remove_all_fields [simp]: "q_sequence (remove_all is s) = q_sequence s"
  by (induction "is" arbitrary: s) auto

lemma refines_remove_all:
  assumes "refines s t" and "\<And>i j. i \<in> set is \<Longrightarrow> get_job_at t i = Some j \<Longrightarrow> \<not> leased j"
  shows "refines s (remove_all is t)"
  using assms
proof (induction "is" arbitrary: t)
  case (Cons i "is")
  have "refines s (snd (remove_job_record i t))"
    using Cons.prems by (intro refines_remove) auto
  then have "refines s (remove_all is (snd (remove_job_record i t)))"
    by (rule Cons.IH) (use Cons.prems(2) in \<open>auto split: if_splits\<close>)
  then show ?case by simp
qed simp

lemma finished_entries_state:
  assumes "q_inv t" "(i, tm) \<in> set (finished_entries ext st t)"
  shows "\<exists>j. get_job_at t i = Some j \<and> j_state j = st \<and> j_finished_at j = Some tm"
  using assms by (auto simp: finished_entries_def finished_entry_def map_filter_def in_hash_values)

text \<open>What retention removes had the given state.\<close>

definition only_removes :: "job_state \<Rightarrow> qstate \<Rightarrow> qstate \<Rightarrow> bool" where
  "only_removes st s t \<longleftrightarrow>
     q_sequence t = q_sequence s
     \<and> (\<forall>k. get_job_at t k = get_job_at s k
          \<or> get_job_at t k = None \<and> (\<exists>j. get_job_at s k = Some j \<and> j_state j = st))"

lemma only_removes_refl [simp]: "only_removes st s s"
  by (simp add: only_removes_def)

lemma only_removes_trans: "only_removes st s t \<Longrightarrow> only_removes st t u \<Longrightarrow> only_removes st s u"
  unfolding only_removes_def by (metis option.distinct(1))

lemma retention_removes:
  assumes inv: "q_inv t" and sub: "set es \<subseteq> set (finished_entries ext st t)"
  shows "only_removes st t (remove_all (map fst es) t)"
  using finished_entries_state [OF inv] sub by (fastforce simp: only_removes_def)

lemma retention_refines:
  assumes r: "refines s t" and sub: "set es \<subseteq> set (finished_entries ext st t)" and st: "st \<noteq> Active"
  shows "refines s (remove_all (map fst es) t)"
proof (rule refines_cond [OF r])
  assume inv: "q_inv t"
  show ?thesis
    using finished_entries_state [OF inv] sub st
    by (intro refines_remove_all [OF r]) (fastforce simp: leased_def)
qed

lemma in_set_filter_takeD: "x \<in> set (take n (Sorting_Algorithms.sort cmp (filter P xs))) \<Longrightarrow> x \<in> set xs"
  by (auto dest: in_set_takeD)

lemma retention_age:
  assumes "refines s t" "q_inv t" "st \<noteq> Active"
  shows "refines s (apply_retention_age ext st ret now t) \<and> only_removes st t (apply_retention_age ext st ret now t)"
  using assms unfolding apply_retention_age_def
  by (auto simp: Let_def split: option.split simp del: map_map
      intro!: retention_refines [where ext = ext and st = st] retention_removes [where ext = ext]
      dest!: in_set_takeD)

lemma retention_count':
  assumes "refines s t" "q_inv t" "st \<noteq> Active"
  shows "refines s (apply_retention_count ext st ret t) \<and> only_removes st t (apply_retention_count ext st ret t)"
  using assms unfolding apply_retention_count_def
  by (auto simp: split: option.split
      intro!: retention_refines [where ext = ext and st = st] retention_removes [where ext = ext]
      dest!: in_set_dropD)

lemma retention:
  assumes r: "refines s t" and inv: "q_inv t" and st: "st \<noteq> Active"
  shows "refines s (apply_finished_retention ext st ret now t)"
    "only_removes st t (apply_finished_retention ext st ret now t)"
proof -
  let ?u = "apply_retention_age ext st ret now t"
  have u: "refines s ?u" "only_removes st t ?u" and tu: "refines t ?u"
    using retention_age [OF r inv st] retention_age [OF refines_refl inv st] by auto
  have "q_inv ?u" using refines_inv [OF tu inv] .
  then show "refines s (apply_finished_retention ext st ret now t)"
    "only_removes st t (apply_finished_retention ext st ret now t)"
    using retention_count' [OF u(1) _ st] only_removes_trans [OF u(2)]
    by (auto simp: apply_finished_retention_def)
qed

lemma lifecycle_refl [simp]: "st \<in> lifecycle st"
  by (cases st) auto

lemma retire_refines:
  assumes r: "refines s t" and j: "\<And>j. get_job_at t i = Some j \<Longrightarrow> \<not> leased j"
  shows "refines s (retire_failed ext i f now t)" "refines s (retire_completed ext i f now t)"
proof -
  have keep: "refines s (apply_finished_retention ext st ret now t)" if "st \<noteq> Active" for st ret
    by (rule refines_cond [OF r]) (use that in \<open>auto intro: retention(1) r\<close>)
  show "refines s (retire_failed ext i f now t)" "refines s (retire_completed ext i f now t)"
    using r j by (auto simp: retire_failed_def retire_completed_def keep
        split: option.split intro!: refines_remove)
qed

section \<open>New jobs\<close>

lemma new_job_mono: "new_job n j \<Longrightarrow> n \<le> m \<Longrightarrow> new_job m j"
  by (auto simp: new_job_def)

lemma insert_new_job_id [simp]: "j_id (fst (insert_new_job j now t)) = j_id j"
  by (simp add: insert_new_job_def assign_waiting_order_def Let_def case_prod_beta)

lemma get_job_insert [simp]:
  "get_job_at (snd (insert_new_job j now t)) k =
     (if k = j_id j then Some (fst (insert_new_job j now t)) else get_job_at t k)"
  by (simp add: insert_new_job_def assign_waiting_order_def Let_def case_prod_beta)

lemma q_sequence_insert:
  "q_sequence (snd (insert_new_job j now t)) =
     (if j_state j = Waiting then fst (next_waiting_sequence t) else q_sequence t)"
  by (simp add: insert_new_job_def assign_waiting_order_def Let_def case_prod_beta next_waiting_sequence_def)

lemma sequence_le_insert: "q_inv t \<Longrightarrow> q_sequence t \<le> q_sequence (snd (insert_new_job j now t))"
  by (simp add: q_sequence_insert next_waiting_sequence_bounds q_inv_def jobs_inv_def)

lemma refines_insert_new:
  assumes r: "refines s t" and None: "get_job_at t (j_id j) = None" and n: "q_inv t \<Longrightarrow> new_job (q_sequence t) j"
  shows "refines s (snd (insert_new_job j now t))"
proof -
  let ?t = "forget_released_deduplication_owner j t"
  have t: "refines s ?t" by (rule refines_forget_released [OF r])
  have "refines s (put_job (fst (assign_waiting_order j ?t)) (snd (assign_waiting_order j ?t)))"
  proof (rule refines_cond [OF r])
    assume qt: "q_inv t"
    show ?thesis
    proof (cases "j_state j = Waiting")
      case True
      let ?j = "j\<lparr>j_enqueued_seq := fst (next_waiting_sequence ?t)\<rparr>"
      have "new_job (fst (next_waiting_sequence ?t)) ?j"
        using n [OF qt] by (simp add: new_job_def job_wf_def)
      then have "refines s (put_job ?j (snd (next_waiting_sequence ?t)))"
        using None by (intro refines_insert refines_number t) simp_all
      then show ?thesis
        using True by (simp add: assign_waiting_order_def Let_def case_prod_beta)
    next
      case False
      then show ?thesis
        using n [OF qt] None t by (simp add: assign_waiting_order_def refines_insert)
    qed
  qed
  then show ?thesis
    by (auto simp: insert_new_job_def Let_def case_prod_beta intro: refines_emits)
qed

lemma get_job_insert_all:
  "get_job_at (snd (insert_new_jobs cs now t)) k =
     (if k \<in> j_id ` set cs then get_job_at (snd (insert_new_jobs cs now t)) k else get_job_at t k)"
  by (induction cs arbitrary: t) (auto simp: Let_def case_prod_beta)

lemma refines_insert_all:
  assumes "refines s t" "distinct (map j_id cs)"
    and "\<And>c. c \<in> set cs \<Longrightarrow> get_job_at t (j_id c) = None"
    and "\<And>c. c \<in> set cs \<Longrightarrow> q_inv t \<Longrightarrow> new_job (q_sequence t) c"
  shows "refines s (snd (insert_new_jobs cs now t))"
  using assms
proof (induction cs arbitrary: t)
  case (Cons c cs)
  let ?t = "snd (insert_new_job c now t)"
  have t: "refines s ?t"
    using Cons.prems by (intro refines_insert_new) auto
  have "refines s (snd (insert_new_jobs cs now ?t))"
  proof (rule refines_cond [OF Cons.prems(1)])
    assume inv: "q_inv t"
    show ?thesis
    proof (rule Cons.IH [OF t])
      show "distinct (map j_id cs)" using Cons.prems(2) by simp
      show "get_job_at ?t (j_id d) = None" if "d \<in> set cs" for d
        using that Cons.prems(2,3) by (auto simp: image_iff)
      show "new_job (q_sequence ?t) d" if "d \<in> set cs" for d
        using that Cons.prems(4) [of d] inv by (auto intro: new_job_mono sequence_le_insert)
    qed
  qed
  then show ?case by (simp add: Let_def case_prod_beta)
qed simp

section \<open>Keep-last slots\<close>

lemma refines_clear_expiry [refine]: "refines s t \<Longrightarrow> refines s (clear_deduplication_expiry i t)"
  unfolding clear_deduplication_expiry_def
  by (rule refines_modify) (auto simp: step_simps q_inv_job(3))

lemma refines_extend [refine]:
  "refines s t \<Longrightarrow> refines s (extend_deduplication_expiration ext c i now t)"
  unfolding extend_deduplication_expiration_def
  by (auto intro!: refines_modify simp: step_simps q_inv_job(3))

lemma refines_hold_job:
  "refines s t \<Longrightarrow> slot_job_ok (q_sequence t) (d, j) \<Longrightarrow>
   refines s (t\<lparr>q_deduplication_next := AList.update d j (q_deduplication_next t),
                q_deduplication_next_flows := AList.delete d (q_deduplication_next_flows t)\<rparr>)"
  by (erule refines_step) (rule effect.Hold_job)

lemma refines_hold_flow:
  "refines s t \<Longrightarrow> slot_flow_ok (q_sequence t) (d, f) \<Longrightarrow>
   refines s (t\<lparr>q_deduplication_next_flows := AList.update d f (q_deduplication_next_flows t),
                q_deduplication_next := AList.delete d (q_deduplication_next t)\<rparr>)"
  by (erule refines_step) (rule effect.Hold_flow)

lemma refines_store_next:
  assumes "refines s t" "j_enqueued_seq c = 0"
  shows "refines s (snd (store_deduplicated_next c e t))"
  using assms unfolding store_deduplicated_next_def
  by (auto split: option.split intro!: refines_clear_expiry refines_hold_job simp: slot_job_ok_def)

lemma refines_store_next_flow:
  assumes "refines s t" "distinct (map j_id (flow_jobs f))"
    and "\<And>j. j \<in> set (flow_jobs f) \<Longrightarrow> j_enqueued_seq j = 0"
  shows "refines s (snd (store_deduplicated_next_flow f e t))"
  using assms unfolding store_deduplicated_next_flow_def
  by (auto split: option.split intro!: refines_clear_expiry refines_hold_flow simp: slot_flow_ok_def list_all_iff)

lemma q_inv_slot:
  "q_inv t \<Longrightarrow> map_of (q_deduplication_next t) d = Some c \<Longrightarrow> slot_job_ok (q_sequence t) (d, c)"
  "q_inv t \<Longrightarrow> map_of (q_deduplication_next_flows t) d = Some f \<Longrightarrow> slot_flow_ok (q_sequence t) (d, f)"
  by (auto simp: q_inv_def slots_inv_def list_all_map_of)

lemma state_after_dependencies_cases:
  "state_after_dependencies a b = Waiting \<or> state_after_dependencies a b = Delayed"
  by (simp add: state_after_dependencies_def)

lemma state_after_dependencies_simps [simp]:
  "state_after_dependencies a b \<noteq> Active" "state_after_dependencies a b \<noteq> WaitingChildren"
  "state_after_dependencies a b \<noteq> Completed" "state_after_dependencies a b \<noteq> Failed"
  "\<not> is_terminal (state_after_dependencies a b)"
  by (simp_all add: state_after_dependencies_def)

lemma new_job_prepare:
  "j_enqueued_seq j \<le> n \<Longrightarrow> new_job n (prepare_deduplicated_next_job ext j now)"
  using state_after_dependencies_cases
  by (fastforce simp: prepare_deduplicated_next_job_def Let_def new_job_def job_wf_def)

lemma prepare_id [simp]: "j_id (prepare_deduplicated_next_job ext j now) = j_id j"
  by (simp add: prepare_deduplicated_next_job_def Let_def)

lemma prepare_flow:
  assumes "slot_flow_ok n (d, f)"
  shows "new_job n (fl_parent (prepare_deduplicated_next_flow ext f now))"
    "c \<in> set (fl_children (prepare_deduplicated_next_flow ext f now)) \<Longrightarrow> new_job n c"
    "j_id (fl_parent (prepare_deduplicated_next_flow ext f now)) = j_id (fl_parent f)"
    "map j_id (fl_children (prepare_deduplicated_next_flow ext f now)) = map j_id (fl_children f)"
proof -
  have le: "j_enqueued_seq (fl_parent f) \<le> n" "c \<in> set (fl_children f) \<Longrightarrow> j_enqueued_seq c \<le> n" for c
    using assms by (auto simp: slot_flow_ok_def flow_jobs_def list_all_iff)
  show "new_job n (fl_parent (prepare_deduplicated_next_flow ext f now))"
    using le(1) state_after_dependencies_cases
    by (fastforce simp: prepare_deduplicated_next_flow_def prepare_deduplicated_next_job_def Let_def
        new_job_def job_wf_def)
  show "new_job n c" if "c \<in> set (fl_children (prepare_deduplicated_next_flow ext f now))"
  proof -
    from that obtain c0 where c0: "c0 \<in> set (fl_children f)"
      and c: "c = (prepare_deduplicated_next_job ext c0 now)
                    \<lparr>j_parent_id := Some (j_id (fl_parent f)), j_child_ids := []\<rparr>"
      by (auto simp: prepare_deduplicated_next_flow_def Let_def)
    show ?thesis
      using new_job_prepare [OF le(2) [OF c0], of ext now] by (simp add: c new_job_def job_wf_def)
  qed
qed (simp_all add: prepare_deduplicated_next_flow_def Let_def)

lemma refines_push_child: "refines s t \<Longrightarrow> refines s (modify_job p (push_child c) t)"
  by (rule refines_modify) (auto simp: push_child_def step_simps q_inv_job(3))

lemma refines_enqueue_next:
  assumes r: "refines s t"
  shows "refines s (snd (enqueue_deduplicated_next ext owner now t))"
proof (rule refines_cond [OF r])
  assume inv: "q_inv t"
  have drop: "refines s (t\<lparr>q_deduplication_next := AList.delete d (q_deduplication_next t)\<rparr>)" for d
    using r by (blast intro: refines_step effect.Unhold_job)
  have new: "new_job (q_sequence t) (prepare_deduplicated_next_job ext cand now)"
    "new_job (q_sequence t) ((prepare_deduplicated_next_job ext cand now)\<lparr>j_repeat_key := key', j_repeat_count := c\<rparr>)"
    if "map_of (q_deduplication_next t) d = Some cand" for cand c key' d
    using new_job_prepare [of cand "q_sequence t" ext now] q_inv_slot(1) [OF inv that]
    by (auto simp: slot_job_ok_def new_job_def job_wf_def)
  show ?thesis
    unfolding enqueue_deduplicated_next_def Let_def case_prod_beta
    by (auto split: option.split simp: r drop intro: new intro!: refines_insert_new refines_push_child)
qed

lemma enqueue_next_None:
  "fst (enqueue_deduplicated_next ext owner now t) = None \<Longrightarrow>
   q_jobs (snd (enqueue_deduplicated_next ext owner now t)) = q_jobs t"
  by (auto simp: enqueue_deduplicated_next_def Let_def case_prod_beta split: option.splits if_splits)

lemma refines_enqueue_flow:
  assumes r: "refines s t"
  shows "refines s (snd (enqueue_deduplicated_next_flow ext owner now t))"
proof (cases "Option.bind (job_deduplication_id owner) (map_of (q_deduplication_next_flows t))")
  case None
  then show ?thesis
    using r by (auto simp: enqueue_deduplicated_next_flow_def split: option.splits)
next
  case (Some f)
  then obtain d where d: "job_deduplication_id owner = Some d"
    and slot: "map_of (q_deduplication_next_flows t) d = Some f"
    by (auto simp: bind_eq_Some_conv)
  let ?t = "t\<lparr>q_deduplication_next_flows := AList.delete d (q_deduplication_next_flows t)\<rparr>"
  let ?f = "prepare_deduplicated_next_flow ext f now"
  have t: "refines s ?t" using r by (blast intro: refines_step effect.Unhold_flow)
  show ?thesis
  proof (cases "get_job_at ?t (j_id (fl_parent f)) \<noteq> None
                  \<or> list_ex (\<lambda>c. get_job_at ?t (j_id c) \<noteq> None) (fl_children f)")
    case True
    then show ?thesis
      using d slot t by (auto simp: enqueue_deduplicated_next_flow_def Let_def)
  next
    case False
    have "refines s (snd (insert_new_jobs (fl_children ?f) now (snd (insert_new_job (fl_parent ?f) now ?t))))"
    proof (rule refines_cond [OF r])
      assume inv: "q_inv t"
      note ok = q_inv_slot(2) [OF inv slot]
      note prep = prepare_flow [OF ok, where ext = ext and now = now]
      have dist: "distinct (j_id (fl_parent f) # map j_id (fl_children f))"
        using ok by (simp add: slot_flow_ok_def flow_jobs_def)
      have ids: "j_id ` set (fl_children ?f) = j_id ` set (fl_children f)"
        using arg_cong [OF prep(4), of set] by simp
      have le: "q_sequence t \<le> q_sequence (snd (insert_new_job (fl_parent ?f) now ?t))"
        using inv by (simp add: q_sequence_insert next_waiting_sequence_def Let_def u64_saturating_add_def
            q_inv_def jobs_inv_def)
      show ?thesis
      proof (intro refines_insert_all refines_insert_new t)
        show "get_job_at ?t (j_id (fl_parent ?f)) = None" using False prep(3) by simp
        show "new_job (q_sequence ?t) (fl_parent ?f)" using prep(1) by simp
        show "distinct (map j_id (fl_children ?f))" using dist prep(4) by simp
        show "get_job_at (snd (insert_new_job (fl_parent ?f) now ?t)) (j_id c) = None"
          if "c \<in> set (fl_children ?f)" for c
        proof -
          have "j_id c \<in> j_id ` set (fl_children f)" using that ids by blast
          then show ?thesis using False dist prep(3) by (auto simp: list_ex_iff)
        qed
        show "new_job (q_sequence (snd (insert_new_job (fl_parent ?f) now ?t))) c"
          if "c \<in> set (fl_children ?f)" for c
          using prep(2) [OF that] le by (rule new_job_mono)
      qed
    qed
    then show ?thesis
      using d slot False by (auto simp: enqueue_deduplicated_next_flow_def Let_def case_prod_beta)
  qed
qed

lemma enqueue_flow_None:
  "fst (enqueue_deduplicated_next_flow ext owner now t) = None \<Longrightarrow>
   q_jobs (snd (enqueue_deduplicated_next_flow ext owner now t)) = q_jobs t"
  by (auto simp: enqueue_deduplicated_next_flow_def Let_def case_prod_beta split: option.splits if_splits)

lemma refines_next_or_flow:
  "refines s t \<Longrightarrow> refines s (snd (enqueue_next_or_flow ext owner now t))"
  using refines_enqueue_next [of s t ext owner now]
    refines_enqueue_flow [of s "snd (enqueue_deduplicated_next ext owner now t)" ext owner now]
  by (auto simp: enqueue_next_or_flow_def split: prod.split option.split)

lemma next_or_flow_None:
  "\<not> fst (enqueue_next_or_flow ext owner now t) \<Longrightarrow>
   q_jobs (snd (enqueue_next_or_flow ext owner now t)) = q_jobs t"
  using enqueue_next_None [of ext owner now t]
    enqueue_flow_None [of ext owner now "snd (enqueue_deduplicated_next ext owner now t)"]
  by (auto simp: enqueue_next_or_flow_def split: prod.splits option.splits)

section \<open>Flow parents\<close>

lemma refines_reschedule_parent:
  assumes r: "refines s t" and p: "get_job_at t i = Some p" and st: "\<not> is_terminal (j_state p)"
  shows "refines s (snd (reschedule_parent i deferred prev now p t))"
proof (rule refines_cond [OF r])
  assume inv: "q_inv t"
  have le: "q_sequence t \<le> fst (next_waiting_sequence t)"
    using inv by (simp add: next_waiting_sequence_bounds q_inv_def jobs_inv_def)
  have step: "job_step n p (reset_parent st' deferred p)"
     "job_step n p ((reset_parent st' deferred p)\<lparr>j_enqueued_seq := n\<rparr>)"
    if "j_enqueued_seq p \<le> n" "st' = Waiting \<or> st' = Delayed" for n st'
    using st that by (cases "j_state p"; auto simp: reset_parent_def step_simps)+
  show ?thesis
    using p step(1) [of "q_sequence t"] step(2) [of "fst (next_waiting_sequence t)"]
      q_inv_job(3) [OF inv p] le state_after_dependencies_cases [of "j_scheduled_at p" now]
    by (auto simp: reschedule_parent_def Let_def case_prod_beta
        intro!: refines_emit refines_modify refines_number r)
qed

lemma refines_fail_waiting_parent:
  assumes r: "refines s t"
  shows "refines s (snd (fail_waiting_parent ext i reason now t))"
proof (cases "get_job_at t i")
  case None
  then show ?thesis using r by (simp add: fail_waiting_parent_def)
next
  case (Some p)
  let ?f = "p\<lparr>j_state := Failed, j_finished_at := Some now, j_worker_id := None,
                           j_lock_token := None, j_lease_expires_at := None,
                           j_deferred_failure := None, j_failed_reason := Some reason\<rparr>"
  have "refines s (modify_job i (\<lambda>_. ?f) t)" if "\<not> is_terminal (j_state p)"
    using that Some
    by (intro refines_modify r, cases "j_state p") (auto simp: step_simps q_inv_job(3))
  then show ?thesis
    using Some r
    by (auto simp: fail_waiting_parent_def Let_def intro!: refines_emit retire_refines simp: leased_def)
qed

lemma refines_continue_parent:
  "refines s t \<Longrightarrow> refines s (snd (continue_parent_after_child_failure i now t))"
  by (auto simp: continue_parent_after_child_failure_def split: option.split
      intro!: refines_reschedule_parent)

lemma refines_defer_parent:
  "refines s t \<Longrightarrow> refines s (snd (defer_parent_failure_after_child_failure i c now t))"
  by (auto simp: defer_parent_failure_after_child_failure_def split: option.split
      intro!: refines_reschedule_parent)

lemma refines_release_parent:
  "refines s t \<Longrightarrow> refines s (snd (release_parent_if_ready ext i now t))"
  by (auto simp: release_parent_if_ready_def split: option.split
      intro!: refines_reschedule_parent refines_defer_parent refines_fail_waiting_parent)

lemma refines_release_all: "refines s t \<Longrightarrow> refines s (release_all ext ps now t)"
  unfolding release_all_def by (rule refines_fold) (auto intro: refines_release_parent)

lemma refines_restore_parent:
  assumes r: "refines s t"
  shows "refines s (snd (restore_parent_dependency_after_child_retry i c now t))"
proof (rule refines_cond [OF r])
  assume inv: "q_inv t"
  have step: "job_step (q_sequence t) p (reset_parent WaitingChildren None p)"
    if "get_job_at t i = Some p" "\<not> is_terminal (j_state p)" "j_state p \<noteq> Active" for p
    using that q_inv_job(3) [OF inv that(1)]
    by (cases "j_state p") (auto simp: step_simps reset_parent_def)
  show ?thesis
    using step r
    by (auto simp: restore_parent_dependency_after_child_retry_def Let_def split: option.split
        intro!: refines_emit refines_modify refines_clear)
qed

section \<open>Promotion\<close>

lemma promote_one_jobs:
  "get_job_at (snd (promote_one now d acc)) k =
     (if k = j_id d then map_option (\<lambda>j. j\<lparr>j_state := Waiting, j_enqueued_seq := fst (next_waiting_sequence (snd acc))\<rparr>)
                        (get_job_at (snd acc) k)
      else get_job_at (snd acc) k)"
  by (auto simp: promote_one_def Let_def case_prod_beta split: option.split)

lemma refines_promote_one:
  assumes r: "refines s (snd acc)"
    and d: "\<And>j. get_job_at (snd acc) (j_id d) = Some j \<Longrightarrow> j_state j = Delayed"
  shows "refines s (snd (promote_one now d acc))"
  using r d
  by (auto simp: promote_one_def Let_def case_prod_beta step_simps q_inv_job(3) split: option.split
      intro!: refines_emit refines_modify refines_number)

lemma refines_promote_fold:
  assumes "refines s (snd acc)" "distinct (map j_id ds)"
    and "\<And>d j. d \<in> set ds \<Longrightarrow> get_job_at (snd acc) (j_id d) = Some j \<Longrightarrow> j_state j = Delayed"
  shows "refines s (snd (fold (promote_one now) ds acc))"
  using assms
proof (induction ds arbitrary: acc)
  case (Cons d ds)
  have "refines s (snd (promote_one now d acc))"
    by (rule refines_promote_one [OF Cons.prems(1)]) (use Cons.prems(3) [of d] in simp)
  moreover have "j_state j = Delayed"
    if "e \<in> set ds" "get_job_at (snd (promote_one now d acc)) (j_id e) = Some j" for e j
  proof -
    have "j_id e \<noteq> j_id d" using that(1) Cons.prems(2) by (simp add: image_iff) metis
    then have "get_job_at (snd acc) (j_id e) = Some j" using that(2) by (simp add: promote_one_jobs)
    then show ?thesis by (rule Cons.prems(3) [of e, rotated]) (simp add: that(1))
  qed
  moreover have "distinct (map j_id ds)" using Cons.prems(2) by simp
  ultimately show ?case by (simp add: Cons.IH)
qed simp

lemma sorted_filter_ids:
  assumes "q_inv s"
  shows "distinct (map j_id (Sorting_Algorithms.sort cmp (filter P (hash_values r (q_jobs s)))))"
proof -
  have "mset (map j_id (Sorting_Algorithms.sort cmp (filter P (hash_values r (q_jobs s)))))
      = mset (map j_id (filter P (hash_values r (q_jobs s))))" by simp
  moreover have "distinct (map j_id (filter P (hash_values r (q_jobs s))))"
    using distinct_hash_ids [OF assms] by (rule distinct_map_filter)
  ultimately show ?thesis using mset_eq_imp_distinct_iff by blast
qed

lemma in_sorted_filter:
  assumes "q_inv s"
  shows "j \<in> set (Sorting_Algorithms.sort cmp (filter P (hash_values r (q_jobs s)))) \<longleftrightarrow>
     get_job_at s (j_id j) = Some j \<and> P j"
  using in_hash_values [OF assms] by auto

lemma due_jobs_iff:
  "q_inv s \<Longrightarrow> j \<in> set (due_jobs ext now s) \<longleftrightarrow>
     get_job_at s (j_id j) = Some j \<and> j_state j = Delayed \<and> j_scheduled_at j \<le> now"
  by (auto simp: due_jobs_def in_hash_values)

lemma distinct_due_jobs: "q_inv s \<Longrightarrow> distinct (map j_id (due_jobs ext now s))"
  unfolding due_jobs_def by (rule sorted_filter_ids)

lemma refines_promote_due:
  assumes r: "refines s t"
  shows "refines s (snd (promote_due ext now t))"
proof (rule refines_cond [OF r])
  assume inv: "q_inv t"
  show ?thesis
    unfolding promote_due_def
    using r distinct_due_jobs [OF inv] due_jobs_iff [OF inv]
    by (intro refines_promote_fold) auto
qed

end
