(* ===== verification/Job_Flow_Walk.thy ===== *)
theory Job_Flow_Walk
  imports Job_Flow_Index
begin

text \<open>
  The walk of \<open>collect_removable_unprocessed_children\<close> (\<open>src/src/job/memory.rs\<close>): one unit
  of fuel per retained job is enough, also when the child lists form cycles, and the walk
  collects exactly the unprocessed jobs reachable from the roots through unprocessed jobs, each
  once.
\<close>

definition unprocessed_at :: "jobs_map \<Rightarrow> job_id \<Rightarrow> job option" where
  "unprocessed_at jobs c =
     (case map_of jobs c of
        None \<Rightarrow> None
      | Some j \<Rightarrow> if j_state j = Active \<or> is_terminal (j_state j) then None else Some j)"

inductive removable_below :: "jobs_map \<Rightarrow> job_id list \<Rightarrow> job_id \<Rightarrow> bool" for jobs roots where
  Root: "c \<in> set roots \<Longrightarrow> unprocessed_at jobs c = Some j \<Longrightarrow> removable_below jobs roots c"
| Child: "removable_below jobs roots p \<Longrightarrow> unprocessed_at jobs p = Some pj \<Longrightarrow> c \<in> set (j_child_ids pj) \<Longrightarrow>
     unprocessed_at jobs c = Some j \<Longrightarrow> removable_below jobs roots c"

lemma collect_removable_Cons:
  "collect_removable fuel jobs (c # cs) out seen =
     (if c \<in> seen then collect_removable fuel jobs cs out seen
      else case unprocessed_at jobs c of
             None \<Rightarrow> collect_removable fuel jobs cs out (insert c seen)
           | Some j \<Rightarrow>
               (case fuel of
                  0 \<Rightarrow> None
                | Suc n \<Rightarrow>
                    (case collect_removable n jobs (j_child_ids j) out (insert c seen) of
                       None \<Rightarrow> None
                     | Some (out1, seen1) \<Rightarrow> collect_removable fuel jobs cs (out1 @ [j_id j]) seen1)))"
  by (simp add: unprocessed_at_def split: option.split)

definition unseen :: "jobs_map \<Rightarrow> job_id set \<Rightarrow> nat" where
  "unseen jobs seen = card (fst ` set jobs - seen)"

lemma unseen_mono: "seen \<subseteq> seen' \<Longrightarrow> unseen jobs seen' \<le> unseen jobs seen"
  unfolding unseen_def by (intro card_mono) auto

lemma unseen_insert: "unprocessed_at jobs c = Some j \<Longrightarrow> c \<notin> seen \<Longrightarrow> unseen jobs (insert c seen) < unseen jobs seen"
  unfolding unseen_def
  by (intro psubset_card_mono)
     (force simp: unprocessed_at_def map_of_eq_None_iff split: option.splits dest: map_of_SomeD)+

text \<open>What one call of the walk achieves: it ends, sees the roots, is closed under children, and collects the new unprocessed ids once each.\<close>

definition walk_ok :: "jobs_map \<Rightarrow> job_id list \<Rightarrow> job_id list \<Rightarrow> job_id set \<Rightarrow> job_id list \<Rightarrow> job_id set \<Rightarrow> bool" where
  "walk_ok jobs cs out seen out' seen' \<longleftrightarrow>
     seen \<union> set cs \<subseteq> seen'
     \<and> (\<forall>x\<in>seen' - seen. \<forall>j. unprocessed_at jobs x = Some j \<longrightarrow> set (j_child_ids j) \<subseteq> seen')
     \<and> (\<forall>x\<in>seen' - seen. unprocessed_at jobs x \<noteq> None \<longrightarrow> removable_below jobs cs x)
     \<and> (\<exists>new. out' = out @ new \<and> distinct new \<and> set new = {x \<in> seen' - seen. unprocessed_at jobs x \<noteq> None})"

lemma walk_okD:
  assumes "walk_ok jobs cs out seen out' seen'"
  shows "x \<in> seen' \<Longrightarrow> x \<notin> seen \<Longrightarrow> unprocessed_at jobs x = Some j \<Longrightarrow> set (j_child_ids j) \<subseteq> seen'"
    and "x \<in> seen' \<Longrightarrow> x \<notin> seen \<Longrightarrow> unprocessed_at jobs x \<noteq> None \<Longrightarrow> removable_below jobs cs x"
    and "seen \<subseteq> seen'" and "set cs \<subseteq> seen'"
  using assms unfolding walk_ok_def by blast+

lemma removable_below_mono:
  "removable_below jobs cs x \<Longrightarrow> set cs \<subseteq> set ds \<Longrightarrow> removable_below jobs ds x"
  by (induction rule: removable_below.induct) (auto intro: removable_below.intros)

lemma removable_below_child:
  assumes "removable_below jobs (j_child_ids j) x" "unprocessed_at jobs c = Some j" "c \<in> set ds"
  shows "removable_below jobs ds x"
  using assms
  by (induction rule: removable_below.induct) (auto intro: removable_below.intros)

lemma walk_ok_skip:
  assumes "unprocessed_at jobs c = None" "walk_ok jobs cs out (insert c seen) out' seen'"
  shows "walk_ok jobs (c # cs) out seen out' seen'"
proof -
  have new: "{x \<in> seen' - insert c seen. unprocessed_at jobs x \<noteq> None} = {x \<in> seen' - seen. unprocessed_at jobs x \<noteq> None}"
    using assms(1) by auto
  have "removable_below jobs (c # cs) x" if "x \<in> seen' - seen" "unprocessed_at jobs x \<noteq> None" for x
  proof -
    have "x \<noteq> c" using assms(1) that by auto
    then have "removable_below jobs cs x" using walk_okD(2) [OF assms(2)] that by auto
    then show ?thesis by (rule removable_below_mono) auto
  qed
  moreover have "set (j_child_ids j) \<subseteq> seen'"
    if "x \<in> seen' - seen" "unprocessed_at jobs x = Some j" for x j
  proof -
    have "x \<noteq> c" using assms(1) that by auto
    then show ?thesis using walk_okD(1) [OF assms(2)] that by auto
  qed
  ultimately show ?thesis
    using assms(2) unfolding walk_ok_def new by auto
qed

lemma walk_ok_seen:
  "c \<in> seen \<Longrightarrow> walk_ok jobs cs out seen out' seen' \<Longrightarrow> walk_ok jobs (c # cs) out seen out' seen'"
  using removable_below_mono [of jobs cs _ "c # cs", OF _ set_subset_Cons] unfolding walk_ok_def
  by (simp, blast)

lemma collect_removable_walk:
  assumes ids: "\<And>k j. map_of jobs k = Some j \<Longrightarrow> j_id j = k"
  shows "unseen jobs seen \<le> fuel \<Longrightarrow>
    \<exists>out' seen'. collect_removable fuel jobs cs out seen = Some (out', seen') \<and> walk_ok jobs cs out seen out' seen'"
proof (induction fuel arbitrary: cs out seen rule: less_induct)
  case (less fuel)
  show ?case
    using less.prems
  proof (induction cs arbitrary: out seen)
    case Nil
    then show ?case by (simp add: walk_ok_def)
  next
    case (Cons c cs)
    show ?case
    proof (cases "c \<in> seen")
      case True
      then show ?thesis using Cons.IH [OF Cons.prems, of out] by (auto intro: walk_ok_seen)
    next
      case notin: False
      show ?thesis
      proof (cases "unprocessed_at jobs c")
        case None
        have "unseen jobs (insert c seen) \<le> fuel"
          using unseen_mono [OF subset_insertI] Cons.prems by (rule order_trans)
        from Cons.IH [OF this, of out] show ?thesis
          using None notin walk_ok_skip [of jobs c cs out seen]
          by (auto simp: collect_removable_Cons simp del: collect_removable.simps)
      next
        case (Some j)
        have lt: "unseen jobs (insert c seen) < unseen jobs seen" by (rule unseen_insert [OF Some notin])
        then obtain n where n: "fuel = Suc n" "unseen jobs (insert c seen) \<le> n"
          using Cons.prems by (cases fuel) auto
        obtain out1 seen1 where r1: "collect_removable n jobs (j_child_ids j) out (insert c seen) = Some (out1, seen1)"
          and w1: "walk_ok jobs (j_child_ids j) out (insert c seen) out1 seen1"
          using less.IH [of n "insert c seen" "j_child_ids j" out] n by auto
        have sub: "seen \<subseteq> seen1" using w1 by (auto simp: walk_ok_def)
        then have "unseen jobs seen1 \<le> fuel" using unseen_mono [of seen seen1 jobs] Cons.prems by auto
        then obtain out2 seen2 where r2: "collect_removable fuel jobs cs (out1 @ [j_id j]) seen1 = Some (out2, seen2)"
          and w2: "walk_ok jobs cs (out1 @ [j_id j]) seen1 out2 seen2"
          using Cons.IH by blast
        have idj: "j_id j = c" using Some ids by (auto simp: unprocessed_at_def split: option.splits if_splits)
        from w1 obtain new1 where new1: "out1 = out @ new1" "distinct new1"
          "set new1 = {x \<in> seen1 - insert c seen. unprocessed_at jobs x \<noteq> None}" by (auto simp: walk_ok_def)
        from w2 obtain new2 where new2: "out2 = (out1 @ [c]) @ new2" "distinct new2"
          "set new2 = {x \<in> seen2 - seen1. unprocessed_at jobs x \<noteq> None}" by (auto simp: walk_ok_def idj)
        have c1: "c \<in> seen1" using w1 by (auto simp: walk_ok_def)
        have sub2: "seen1 \<subseteq> seen2" "set cs \<subseteq> seen2" using w2 by (auto simp: walk_ok_def)
        have "out2 = out @ (new1 @ [c] @ new2)" using new1(1) new2(1) by simp
        moreover have "distinct (new1 @ [c] @ new2)" using new1(2,3) new2(2,3) c1 by auto
        moreover have "set (new1 @ [c] @ new2) = {x \<in> seen2 - seen. unprocessed_at jobs x \<noteq> None}"
          using new1(3) new2(3) sub sub2 c1 notin Some by auto
        ultimately have new: "\<exists>new. out2 = out @ new \<and> distinct new
            \<and> set new = {x \<in> seen2 - seen. unprocessed_at jobs x \<noteq> None}" by blast
        have closed: "set (j_child_ids k) \<subseteq> seen2" if "x \<in> seen2 - seen" "unprocessed_at jobs x = Some k" for x k
        proof (cases "x \<in> seen1")
          case True
          have "set (j_child_ids k) \<subseteq> seen1"
          proof (cases "x = c")
            case True
            then show ?thesis using that(2) Some w1 by (auto simp: walk_ok_def)
          next
            case False
            then show ?thesis using that \<open>x \<in> seen1\<close> walk_okD(1) [OF w1, of x] by simp
          qed
          then show ?thesis using sub2 by blast
        next
          case False
          then show ?thesis using that walk_okD(1) [OF w2, of x] by simp
        qed
        have below: "removable_below jobs (c # cs) x"
          if "x \<in> seen2 - seen" "unprocessed_at jobs x \<noteq> None" for x
        proof (cases "x \<in> seen1")
          case True
          show ?thesis
          proof (cases "x = c")
            case True
            then show ?thesis using Some by (auto intro: removable_below.Root)
          next
            case False
            then have "removable_below jobs (j_child_ids j) x"
              using that \<open>x \<in> seen1\<close> walk_okD(2) [OF w1, of x] by simp
            then show ?thesis using Some by (rule removable_below_child) simp
          qed
        next
          case False
          then have "removable_below jobs cs x" using that walk_okD(2) [OF w2, of x] by simp
          then show ?thesis by (rule removable_below_mono) auto
        qed
        have "walk_ok jobs (c # cs) out seen out2 seen2"
          unfolding walk_ok_def using new closed below sub sub2 c1 by auto
        then show ?thesis
          using Some notin r1 r2 n(1) by (auto simp: collect_removable_Cons simp del: collect_removable.simps)
      qed
    qed
  qed
qed

lemma collect_removable_enough_fuel:
  assumes ids: "\<And>k j. map_of jobs k = Some j \<Longrightarrow> j_id j = k"
  obtains out seen where "collect_removable (length jobs) jobs roots [] {} = Some (out, seen)"
    "distinct out" "\<And>c. c \<in> set out \<longleftrightarrow> removable_below jobs roots c"
proof -
  have "unseen jobs {} \<le> length jobs"
    unfolding unseen_def using card_length [of "map fst jobs"] by simp
  from collect_removable_walk [OF ids this, of roots "[]"]
  obtain out seen where r: "collect_removable (length jobs) jobs roots [] {} = Some (out, seen)"
    and w: "walk_ok jobs roots [] {} out seen" by blast
  have set_out: "set out = {x \<in> seen. unprocessed_at jobs x \<noteq> None}" and d: "distinct out"
    using w by (auto simp: walk_ok_def)
  have closed: "x \<in> seen \<Longrightarrow> unprocessed_at jobs x = Some j \<Longrightarrow> set (j_child_ids j) \<subseteq> seen" for x j
    using w by (auto simp: walk_ok_def)
  have roots: "set roots \<subseteq> seen"
    using w by (auto simp: walk_ok_def)
  have below: "x \<in> seen \<Longrightarrow> unprocessed_at jobs x \<noteq> None \<Longrightarrow> removable_below jobs roots x" for x
    using w by (auto simp: walk_ok_def)
  have "removable_below jobs roots c \<Longrightarrow> c \<in> set out" for c
  proof (induction rule: removable_below.induct)
    case (Root c j)
    then show ?case using roots set_out by auto
  next
    case (Child p pj c j)
    then show ?case using closed [of p pj] set_out by auto
  qed
  moreover have "c \<in> set out \<Longrightarrow> removable_below jobs roots c" for c
    using set_out below by blast
  ultimately show ?thesis using r d that by blast
qed

end
