(* ===== verification/Job_Queue_Steps.thy ===== *)
theory Job_Queue_Steps
  imports Job_Queue_Refine Job_Flow_Walk
begin

text \<open>
  Every public operation of the queue is a sequence of effects, on every branch, and with that
  keeps the invariant of the queue. The operations form a step relation; its reachable states
  satisfy the invariant.
\<close>

section \<open>Adding\<close>

lemma job_new_fields [simp]:
  "j_enqueued_seq (job_new ext q n p opt uuid now) = 0"
  by (simp add: job_new_def Let_def)

lemma new_job_new: "new_job n (job_new ext q nm p opt uuid now)"
  by (simp add: job_new_def Let_def new_job_def job_wf_def)

lemma found_in_table:
  assumes "q_inv s" "List.find P (hash_values r (q_jobs s)) = Some j"
  shows "get_job_at s (j_id j) = Some j" "P j"
proof -
  from assms(2) have "j \<in> set (hash_values r (q_jobs s))" "P j"
    by (auto simp: find_Some_iff)
  then show "get_job_at s (j_id j) = Some j" "P j"
    using in_hash_values [OF assms(1)] by auto
qed

lemma found_owner:
  "q_inv s \<Longrightarrow> find_active_deduplication_id ext (q_jobs s) rel d now = Some j \<Longrightarrow> get_job_at s (j_id j) = Some j"
  "q_inv s \<Longrightarrow> find_active_deduplicated_job ext (q_jobs s) rel c now = Some j \<Longrightarrow> get_job_at s (j_id j) = Some j"
  "q_inv s \<Longrightarrow> find_active_repeat_key ext (q_jobs s) k = Some j \<Longrightarrow> get_job_at s (j_id j) = Some j"
  by (auto simp: find_active_deduplication_id_def find_active_deduplicated_job_def
      find_active_repeat_key_def split: option.splits dest: found_in_table(1))

lemma refines_insert_unless_repeating:
  assumes "refines s t" "get_job_at t (j_id j) = None" "q_inv t \<Longrightarrow> new_job (q_sequence t) j"
  shows "refines s (snd (insert_unless_repeating ext j now t))"
  using assms by (auto simp: insert_unless_repeating_def split: option.split intro: refines_insert_new)

lemma refines_add_created:
  assumes r: "refines s t" and n: "\<And>n. new_job n j" and z: "j_enqueued_seq j = 0"
  shows "refines s (snd (add_created ext j now t))"
proof (cases "get_job_at t (j_id j)")
  case (Some e)
  then show ?thesis using r by (simp add: add_created_def)
next
  case None
  note absent = None
  show ?thesis
  proof (cases "find_active_deduplicated_job ext (q_jobs t) (q_released t) j now")
    case None
    then show ?thesis
      using absent r n by (simp add: add_created_def refines_insert_unless_repeating)
  next
    case (Some e)
    let ?j = "preserve_replacement_deduplication_expiration j e"
    have j: "j_id ?j = j_id j" "new_job n ?j" for n
      using n [of n] by (auto simp: preserve_replacement_deduplication_expiration_def new_job_def
          job_wf_def split: option.split)
    have replace: "refines s (snd (insert_unless_repeating ext ?j now
        (emit_replaced_deduplicated_owner_events ?j x now (emit_removed_event x now
          (snd (remove_job_record (j_id e) t))))))"
      "refines s (snd (insert_unless_repeating ext ?j now (snd (remove_job_record (j_id e) t))))"
      if "deduplication_replaces_delayed_owner j e" for x
    proof -
      have "refines s (snd (remove_job_record (j_id e) t))"
      proof (rule refines_cond [OF r])
        assume "q_inv t"
        then have "get_job_at t (j_id e) = Some e" using Some by (rule found_owner(2))
        then show ?thesis
          using r that by (auto intro!: refines_remove simp: leased_def deduplication_replaces_delayed_owner_def)
      qed
      then show "refines s (snd (insert_unless_repeating ext ?j now
        (emit_replaced_deduplicated_owner_events ?j x now (emit_removed_event x now
          (snd (remove_job_record (j_id e) t))))))"
        "refines s (snd (insert_unless_repeating ext ?j now (snd (remove_job_record (j_id e) t))))"
        using absent j by (auto intro!: refines_insert_unless_repeating refines_emits)
    qed
    show ?thesis
      using absent Some replace r z
      by (auto simp: add_created_def Let_def case_prod_beta split: option.split
          intro!: refines_emits refines_extend refines_store_next)
  qed
qed

lemma refines_add_all:
  assumes "refines s t" "\<And>j n. j \<in> set js \<Longrightarrow> new_job n j" "\<And>j. j \<in> set js \<Longrightarrow> j_enqueued_seq j = 0"
  shows "refines s (snd (add_created_all ext js now t))"
  using assms
proof (induction js arbitrary: t)
  case (Cons j js)
  have "refines s (snd (add_created ext j now t))"
    using Cons.prems by (intro refines_add_created) auto
  then show ?case using Cons by (simp add: Let_def case_prod_beta)
qed simp

lemma jobs_of_specs_new:
  "j \<in> set (jobs_of_specs ext q specs uuids now) \<Longrightarrow> new_job n j"
  "j \<in> set (jobs_of_specs ext q specs uuids now) \<Longrightarrow> j_enqueued_seq j = 0"
  by (auto simp: jobs_of_specs_def new_job_new)

lemma refines_add_at: "refines s (snd (add_at ext q nm p opt uuid now s))"
  by (auto simp: add_at_def case_prod_beta split: sum.split intro!: refines_add_created new_job_new)

lemma refines_add_many: "refines s (snd (add_many_at ext q specs uuids now s))"
  by (auto simp: add_many_at_def case_prod_beta split: sum.split intro!: refines_add_all
      intro: jobs_of_specs_new)

section \<open>Leases\<close>

lemma require_leaseD:
  "require_lease i tok act s = Inr j \<Longrightarrow>
   get_job_at s i = Some j \<and> j_state j = Active \<and> j_lock_token j = Some tok"
  by (auto simp: require_lease_def require_active_def require_lock_token_def
      split: option.splits if_splits)

lemma refines_claim: "refines s (snd (claim_next ext w tok lease now s))"
proof (cases "q_paused s")
  case True
  then show ?thesis by (simp add: claim_next_def)
next
  case False
  let ?t = "snd (promote_due ext now s)"
  have t: "refines s ?t" by (rule refines_promote_due) simp
  show ?thesis
  proof (rule refines_cond [OF t])
    assume inv: "q_inv ?t"
    have upd: "refines s (modify_job (j_id j) (\<lambda>_. lease_job ext w tok lease now k) ?t)"
      if "min_by compare_claim_order (waiting_jobs ext ?t) = Some j" "get_job_at ?t (j_id j) = Some k" for j k
    proof -
      have "j \<in> set (waiting_jobs ext ?t)" using that(1) by (rule min_by_Some_in)
      then have "get_job_at ?t (j_id j) = Some j" "j_state j = Waiting"
        using in_hash_values [OF inv] by (auto simp: waiting_jobs_def)
      then show ?thesis
        using that(2) q_inv_job(3) [OF inv that(2)]
        by (intro refines_modify [OF t]) (auto simp: lease_job_def step_simps)
    qed
    show ?thesis
      using False by (simp add: claim_next_def Let_def t upd refines_emit split: option.split)
  qed
qed

lemma refines_renew: "refines s (snd (renew ext i tok lease now s))"
  by (auto simp: renew_def Let_def split: sum.split dest!: require_leaseD
      intro!: refines_modify simp: step_simps q_inv_job(3))

lemma refines_delay_active: "refines s (snd (delay_active ext i tok delay now s))"
  by (auto simp: delay_active_def Let_def split: sum.split dest!: require_leaseD
      intro!: refines_emit refines_modify simp: step_simps q_inv_job(3))

lemma refines_release_active: "refines s (snd (release_active i tok now s))"
  by (auto simp: release_active_def Let_def split: sum.split dest!: require_leaseD
      intro!: refines_emit refines_modify simp: step_simps q_inv_job(3))

lemma refines_record_in_parent: "refines s t \<Longrightarrow> refines s (record_in_parent c t)"
  by (auto simp: record_in_parent_def split: option.split intro: refines_record_terminal)

lemma record_in_parent_jobs [simp]: "q_jobs (record_in_parent c t) = q_jobs t"
  by (simp add: record_in_parent_def split: option.split)

lemma next_repeat_jobD:
  assumes "next_repeat_job ext j uuid now = Inr (Some k)"
  shows "\<exists>a key' c. k = (job_new ext (j_queue j) (j_name j) (j_payload j) ((j_options j)\<lparr>jo_job_id := None\<rparr>) uuid now)
     \<lparr>j_scheduled_at := a, j_state := state_after_dependencies a now, j_repeat_key := key', j_repeat_count := c\<rparr>"
proof (cases "jo_repeat (j_options j)")
  case None
  then show ?thesis using assms by (simp add: next_repeat_job_def)
next
  case (Some rep)
  then obtain y where "next_scheduled_at ext rep now = Inr y"
    using assms by (auto simp: next_repeat_job_def Let_def and_then_Inr split: if_splits)
  then show ?thesis
    using Some assms by (cases y) (fastforce simp: next_repeat_job_def Let_def split: if_splits)+
qed

lemma new_next_repeat:
  "next_repeat_job ext j uuid now = Inr (Some k) \<Longrightarrow> new_job n k \<and> j_id k = uuid"
  using state_after_dependencies_cases
  by (fastforce dest!: next_repeat_jobD simp: job_new_def Let_def new_job_def job_wf_def)

lemma refines_enqueue_repeat:
  assumes "refines s t" "get_job_at t uuid = None"
  shows "refines s (snd (enqueue_repeat ext c uuid now t))"
  using assms new_next_repeat
  by (auto simp: enqueue_repeat_def split: sum.split option.split intro!: refines_insert_new)

lemma retention_absent:
  assumes "q_inv t" "st \<noteq> Active" "get_job_at t k = None"
  shows "get_job_at (apply_finished_retention ext st ret now t) k = None"
  using retention(2) [OF refines_refl assms(1,2), of ext ret now] assms(3)
  unfolding only_removes_def by metis

lemma retire_absent:
  assumes "get_job_at t k = None" "q_inv t"
  shows "get_job_at (retire_completed ext i c now t) k = None"
    "get_job_at (retire_failed ext i c now t) k = None"
  using assms retention_absent [OF assms(2) _ assms(1)]
  by (auto simp: retire_completed_def retire_failed_def split: option.split)

lemma refines_complete:
  assumes fresh: "get_job_at s uuid = None"
  shows "refines s (snd (complete_job ext i tok v uuid now s))"
proof (cases "require_lease i tok ''complete'' s")
  case (Inl e)
  then show ?thesis by (simp add: complete_job_def)
next
  case (Inr j)
  then have j: "get_job_at s i = Some j" "j_state j = Active" by (auto dest: require_leaseD)
  define c where "c = complete_job_record v now j"
  define s1 where "s1 = modify_job i (\<lambda>_. c) s"
  define s3 where "s3 = retire_completed ext i c now (record_in_parent c s1)"
  define s4 where "s4 = snd (enqueue_next_or_flow ext c now s3)"
  have s1: "refines s s1"
    unfolding s1_def using j by (intro refines_modify) (auto simp: c_def complete_job_record_def step_simps q_inv_job(3))
  have s2: "refines s (record_in_parent c s1)" by (rule refines_record_in_parent [OF s1])
  have "\<not> leased c" by (simp add: c_def complete_job_record_def leased_def)
  then have s3: "refines s s3"
    unfolding s3_def using j by (intro retire_refines s2) (auto simp: s1_def)
  have s4: "refines s s4" unfolding s4_def by (rule refines_next_or_flow [OF s3])
  have rep: "refines s (snd (enqueue_repeat ext c uuid now s4))"
    if "\<not> fst (enqueue_next_or_flow ext c now s3)"
  proof (rule refines_cond [OF s2])
    assume inv: "q_inv (record_in_parent c s1)"
    have "i \<noteq> uuid" using j fresh by auto
    then have "get_job_at (record_in_parent c s1) uuid = None" using fresh by (simp add: s1_def)
    then have "get_job_at s3 uuid = None"
      unfolding s3_def using inv by (rule retire_absent)
    then have "get_job_at s4 uuid = None"
      unfolding s4_def using next_or_flow_None [OF that] by simp
    then show ?thesis by (rule refines_enqueue_repeat [OF s4])
  qed
  show ?thesis
    using Inr s4 rep
    by (auto simp: complete_job_def Let_def case_prod_beta c_def [symmetric] s1_def [symmetric]
        s3_def [symmetric] s4_def [symmetric] split: sum.split option.split
        intro!: refines_emits refines_emit refines_release_parent)
qed

lemma refines_parent_after_failure:
  "refines s t \<Longrightarrow> refines s (parent_after_child_failure ext c now t)"
  by (auto simp: parent_after_child_failure_def split: option.split
      intro: refines_defer_parent refines_continue_parent refines_release_parent refines_fail_waiting_parent)

lemma refines_fail: "refines s (snd (fail_active_job ext i tok e now ar s))"
proof (cases "require_lease i tok ''fail'' s")
  case (Inl e)
  then show ?thesis by (simp add: fail_active_job_def)
next
  case (Inr j)
  then have j: "get_job_at s i = Some j" "j_state j = Active" by (auto dest: require_leaseD)
  define f where "f = fail_job_record ext e now ar j"
  have "refines s (modify_job i (\<lambda>_. f) s)"
    using j by (intro refines_modify) (auto simp: f_def fail_job_record_def Let_def step_simps q_inv_job(3))
  moreover have "\<not> leased f" by (simp add: f_def fail_job_record_def Let_def leased_def)
  ultimately show ?thesis
    using Inr j
    by (auto simp: fail_active_job_def Let_def f_def [symmetric]
        intro!: refines_emits refines_emit refines_parent_after_failure refines_next_or_flow
          retire_refines refines_record_in_parent)
qed

section \<open>Moving and editing\<close>

lemma refines_promote: "refines s (snd (promote i now s))"
  by (auto simp: promote_def Let_def case_prod_beta split: option.split
      intro!: refines_emit refines_modify refines_number simp: step_simps)

lemma refines_reschedule: "refines s (snd (reschedule ext i delay now s))"
  by (auto simp: reschedule_def Let_def split: option.split
      intro!: refines_emit refines_modify simp: step_simps q_inv_job(3))

lemma refines_retry: "refines s (snd (retry ext i now s))"
proof -
  have un: "refines s (s\<lparr>q_released := q_released s - {e}\<rparr>)" for e
    by (rule refines_step [OF refines_refl]) (rule effect.Unrelease)
  have step: "job_step n j (retry_job_record ext n now j)" if "is_terminal (j_state j)" for j n
    using that by (cases "j_state j") (auto simp: retry_job_record_def step_simps)
  show ?thesis
    using un step
    by (auto simp: retry_def Let_def case_prod_beta split: option.split sum.split
        intro!: refines_restore_parent refines_emit refines_modify refines_number)
qed

lemma refines_set_priority: "refines s (snd (set_priority_order i p lifo s))"
  by (auto simp: set_priority_order_def Let_def case_prod_beta split: option.split sum.split
      intro!: refines_modify refines_number simp: step_simps q_inv_job(3))

lemma refines_edit:
  assumes "\<And>j. j_enqueued_seq j \<le> q_sequence s \<Longrightarrow> job_step (q_sequence s) j (f j)"
  shows "refines s (snd (edit_job i f s))"
  using assms by (auto simp: edit_job_def split: option.split intro!: refines_modify dest: q_inv_job(3))

lemma refines_edits:
  "refines s (snd (set_data i p s))" "refines s (snd (set_progress i v now s))"
  "refines s (snd (save_stacktrace i st rs s))" "refines s (snd (log_job i line k now s))"
proof -
  show "refines s (snd (set_data i p s))" "refines s (snd (save_stacktrace i st rs s))"
    "refines s (snd (log_job i line k now s))"
    unfolding set_data_def save_stacktrace_def log_job_def
    by (auto intro!: refines_edit simp: step_simps append_log_def Let_def)
  have "refines s (snd (edit_job i (\<lambda>j. j\<lparr>j_progress := Some v\<rparr>) s))"
    by (rule refines_edit) (auto simp: step_simps)
  then show "refines s (snd (set_progress i v now s))"
    by (auto simp: set_progress_def split: prod.split sum.split intro: refines_emit)
qed

lemma refines_clear_logs: "refines s (snd (clear_logs i k s))"
  by (auto simp: clear_logs_def Let_def split: option.split intro!: refines_modify simp: step_simps q_inv_job(3))

section \<open>Removing and pausing\<close>

lemma refines_release_parent_of: "refines s t \<Longrightarrow> refines s (release_parent_of ext r now t)"
  by (auto simp: release_parent_of_def split: option.split intro: refines_release_parent)

lemma removable_not_leased: "require_removable j = Inr u \<Longrightarrow> \<not> leased j"
  by (auto simp: require_removable_def leased_def split: if_splits)

lemma refines_remove_op: "refines s (snd (remove ext i now s))"
proof (cases "require_removable_at i s")
  case (Inl e)
  then show ?thesis by (simp add: remove_def)
next
  case (Inr u)
  then have "refines s (snd (remove_job_record i s))"
    by (intro refines_remove) (auto simp: require_removable_at_def dest: removable_not_leased)
  then show ?thesis
    using Inr by (auto simp: remove_def Let_def case_prod_beta split: option.split
        intro!: refines_emits refines_release_parent_of)
qed

lemma refines_remove_listed:
  assumes inv: "q_inv s" and sub: "\<And>j. j \<in> set js \<Longrightarrow> get_job_at s (j_id j) = Some j \<and> \<not> leased j"
  shows "refines s (remove_all (map j_id js) s)"
  by (rule refines_remove_all) (use sub in auto)

lemma clean_candidates_unleased:
  assumes "q_inv s" "j \<in> set (clean_candidates ext st cutoff limit s)"
  shows "get_job_at s (j_id j) = Some j \<and> \<not> leased j"
  using assms by (auto simp: clean_candidates_def in_hash_values leased_def dest!: in_set_takeD)

lemma refines_clean: "refines s (snd (clean ext st grace limit now s))"
  by (rule refinesI)
     (auto simp: clean_def Let_def intro!: refines_emits refines_release_all refines_remove_listed
       dest: clean_candidates_unleased)

lemma refines_drain: "refines s (snd (drain ext b now s))"
  by (rule refinesI)
     (auto simp: drain_def Let_def in_hash_values leased_def intro!: refines_release_all refines_remove_listed)

lemma refines_obliterate: "refines s (snd (obliterate force s))"
proof -
  have p: "refines s (s\<lparr>q_paused := True\<rparr>)"
    by (rule refines_step [OF refines_refl]) (rule effect.Pause)
  have "refines s ((s\<lparr>q_paused := True\<rparr>)\<lparr>q_jobs := [], q_flow_dependencies := [], q_deduplication_next := [],
                  q_deduplication_next_flows := [], q_released := {}, q_paused := False\<rparr>)"
    by (rule refines_step [OF p]) (rule effect.Wipe)
  then show ?thesis using p by (simp add: obliterate_def Let_def)
qed

lemma refines_pause: "refines s (snd (pause now s))" "refines s (snd (resume now s))"
proof -
  have "refines s (s\<lparr>q_paused := b\<rparr>)" for b
    by (rule refines_step [OF refines_refl]) (rule effect.Pause)
  then show "refines s (snd (pause now s))" "refines s (snd (resume now s))"
    by (simp_all add: pause_def resume_def refines_emit)
qed

lemma refines_trim_op: "refines s (snd (trim_events_op n s))"
  by (simp add: trim_events_op_def Let_def case_prod_beta refines_trim)

lemma refines_promote_due_op: "refines s (snd (promote_due_jobs ext now s))"
  by (simp add: promote_due_jobs_def Let_def case_prod_beta refines_promote_due)

section \<open>Deduplication and repeat keys\<close>

lemma refines_remove_key: "refines s (snd (remove_deduplication_key ext d now s))"
proof -
  have "refines s (s\<lparr>q_released := insert e (q_released s),
      q_deduplication_next := AList.delete d (q_deduplication_next s),
      q_deduplication_next_flows := AList.delete d (q_deduplication_next_flows s)\<rparr>)" (is "refines s ?u") for e
  proof -
    let ?a = "s\<lparr>q_released := insert e (q_released s)\<rparr>"
    let ?b = "?a\<lparr>q_deduplication_next := AList.delete d (q_deduplication_next ?a)\<rparr>"
    have "effect s ?a" by (rule effect.Release)
    moreover have "effect ?a ?b" by (rule effect.Unhold_job)
    moreover have "effect ?b (?b\<lparr>q_deduplication_next_flows := AList.delete d (q_deduplication_next_flows ?b)\<rparr>)"
      by (rule effect.Unhold_flow)
    ultimately have "effects s (?b\<lparr>q_deduplication_next_flows := AList.delete d (q_deduplication_next_flows ?b)\<rparr>)"
      by (meson converse_rtranclp_into_rtranclp rtranclp.rtrancl_refl)
    then show ?thesis by (simp add: refines_def)
  qed
  then show ?thesis by (simp add: remove_deduplication_key_def split: option.split)
qed

lemma refines_upsert: "refines s (snd (upsert_repeat ext q spec uuid now s))"
proof (rule refinesI)
  assume inv: "q_inv s"
  let ?j = "job_new ext q (sp_name spec) (sp_payload spec) (sp_options spec) uuid now"
  have store: "refines s (snd (insert_new_job ?j now
       (case ow of Some w \<Rightarrow> snd (remove_job_record (j_id w) s) | None \<Rightarrow> s)))"
    if ok: "upsert_conflict ext k ow ?j now s = Inr u" and ow: "ow = find_active_repeat_key ext (q_jobs s) k"
    for k ow u
  proof -
    have "refines s (case ow of Some w \<Rightarrow> snd (remove_job_record (j_id w) s) | None \<Rightarrow> s)"
      using ok found_owner(3) [OF inv]
      by (auto simp: upsert_conflict_def and_then_Inr ow split: option.splits
          intro!: refines_remove dest!: removable_not_leased)
    moreover have "get_job_at (case ow of Some w \<Rightarrow> snd (remove_job_record (j_id w) s) | None \<Rightarrow> s) (j_id ?j) = None"
      using ok q_inv_job(1) [OF inv, of "j_id ?j"]
      by (auto simp: upsert_conflict_def and_then_Inr split: option.splits if_splits)
    ultimately show ?thesis by (rule refines_insert_new) (rule new_job_new)
  qed
  show ?thesis
    unfolding upsert_repeat_def Let_def case_prod_beta
    using store by (auto split: sum.split option.split)
qed

lemma refines_remove_repeat: "refines s (snd (remove_repeat ext k now s))"
  by (auto simp: remove_repeat_def split: option.split intro: refines_remove_op)

section \<open>Stalled jobs\<close>

lemma recover_one_jobs:
  "k \<noteq> j_id d \<Longrightarrow> get_job_at (snd (recover_one now d acc)) k = get_job_at (snd acc) k"
  by (auto simp: recover_one_def Let_def case_prod_beta split: option.split)

definition removes_unleased :: "recovery \<times> qstate \<Rightarrow> bool" where
  "removes_unleased acc \<longleftrightarrow>
     (\<forall>i\<in>set (rc_remove_ids (fst acc)). \<forall>j. get_job_at (snd acc) i = Some j \<longrightarrow> \<not> leased j)"

lemma note_failed_parent_ids [simp]: "rc_remove_ids (note_failed_parent j rc) = rc_remove_ids rc"
  by (simp add: note_failed_parent_def split: option.split)

lemma recover_one_id:
  "get_job_at (snd (recover_one now d acc)) (j_id d) = Some k \<Longrightarrow> \<not> leased k"
  by (auto simp: recover_one_def Let_def case_prod_beta leased_def stall_record_def split: option.splits if_splits)

lemma recover_one_ids:
  assumes "q_inv (snd acc)"
  shows "set (rc_remove_ids (fst (recover_one now d acc))) \<subseteq> insert (j_id d) (set (rc_remove_ids (fst acc)))"
proof (cases "get_job_at (snd acc) (j_id d)")
  case (Some j)
  have "j_id j = j_id d" by (rule q_inv_job(1) [OF assms Some])
  then show ?thesis
    using Some by (auto simp: recover_one_def Let_def case_prod_beta stall_record_def)
qed (simp add: recover_one_def Let_def case_prod_beta, blast)

lemma recover_one_unleased:
  assumes "removes_unleased acc" "q_inv (snd acc)"
  shows "removes_unleased (recover_one now d acc)"
  unfolding removes_unleased_def
proof (intro ballI allI impI)
  fix i j
  assume i: "i \<in> set (rc_remove_ids (fst (recover_one now d acc)))"
    and j: "get_job_at (snd (recover_one now d acc)) i = Some j"
  show "\<not> leased j"
  proof (cases "i = j_id d")
    case True
    then show ?thesis using j recover_one_id by blast
  next
    case False
    then have "i \<in> set (rc_remove_ids (fst acc))" "get_job_at (snd acc) i = Some j"
      using i j recover_one_ids [OF assms(2), of now d] by (auto simp: recover_one_jobs)
    then show ?thesis using assms(1) by (simp add: removes_unleased_def)
  qed
qed

lemma refines_recover_one:
  assumes r: "refines s (snd acc)"
    and a: "\<And>j. get_job_at (snd acc) (j_id d) = Some j \<Longrightarrow> j_state j = Active"
  shows "refines s (snd (recover_one now d acc))"
proof (cases "get_job_at (snd acc) (j_id d)")
  case None
  then show ?thesis using r by (simp add: recover_one_def case_prod_beta Let_def)
next
  case (Some j)
  show ?thesis
    using r a [OF Some] Some
    by (auto simp: recover_one_def case_prod_beta Let_def stall_record_def step_simps q_inv_job(3)
        intro!: refines_modify refines_number)
qed

lemma refines_recover_fold:
  assumes "q_inv s" "refines s (snd acc)" "removes_unleased acc" "distinct (map j_id ds)"
    and "\<And>d j. d \<in> set ds \<Longrightarrow> get_job_at (snd acc) (j_id d) = Some j \<Longrightarrow> j_state j = Active"
  shows "refines s (snd (fold (recover_one now) ds acc)) \<and> removes_unleased (fold (recover_one now) ds acc)"
  using assms(2-)
proof (induction ds arbitrary: acc)
  case (Cons d ds)
  have r: "refines s (snd (recover_one now d acc))"
    by (rule refines_recover_one [OF Cons.prems(1)]) (use Cons.prems(4) [of d] in simp)
  have u: "removes_unleased (recover_one now d acc)"
    using Cons.prems(2) refines_inv [OF Cons.prems(1) assms(1)] by (rule recover_one_unleased)
  have a: "j_state j = Active"
    if "e \<in> set ds" "get_job_at (snd (recover_one now d acc)) (j_id e) = Some j" for e j
  proof -
    have "j_id e \<noteq> j_id d" using that(1) Cons.prems(3) by (simp add: image_iff) metis
    then have "get_job_at (snd acc) (j_id e) = Some j" using that(2) by (simp add: recover_one_jobs)
    then show ?thesis by (rule Cons.prems(4) [of e, rotated]) (simp add: that(1))
  qed
  have "distinct (map j_id ds)" using Cons.prems(3) by simp
  then show ?case using Cons.IH [OF r u _ a] by simp
qed simp

lemma refines_settle: "refines s t \<Longrightarrow> refines s (settle_terminal ext now f t)"
proof -
  assume "refines s t"
  then have u: "refines s (snd (enqueue_next_or_flow ext f now (record_in_parent f t)))"
    by (intro refines_next_or_flow refines_record_in_parent)
  have "refines s (apply_finished_retention ext Failed ret now
           (snd (enqueue_next_or_flow ext f now (record_in_parent f t))))" for ret
    by (rule refines_cond [OF u]) (simp add: retention(1) u)
  then show ?thesis using u by (simp add: settle_terminal_def Let_def split: option.split)
qed

lemma stalled_jobs_iff:
  "q_inv s \<Longrightarrow> j \<in> set (stalled_jobs ext now s) \<longleftrightarrow> get_job_at s (j_id j) = Some j \<and> is_stalled now j"
  by (auto simp: stalled_jobs_def in_hash_values)

lemma distinct_stalled_jobs: "q_inv s \<Longrightarrow> distinct (map j_id (stalled_jobs ext now s))"
  unfolding stalled_jobs_def by (rule sorted_filter_ids)

lemma refines_recover: "refines s (snd (recover_stalled_jobs ext now s))"
proof (rule refinesI)
  assume inv: "q_inv s"
  define acc where "acc = fold (recover_one now) (stalled_jobs ext now s) (recovery_default, s)"
  have "refines s (snd acc) \<and> removes_unleased acc"
    unfolding acc_def using distinct_stalled_jobs [OF inv] stalled_jobs_iff [OF inv]
    by (intro refines_recover_fold inv) (auto simp: removes_unleased_def recovery_default_def is_stalled_def)
  then have "refines s (remove_all (rc_remove_ids (fst acc)) (snd acc))"
    by (auto simp: removes_unleased_def intro: refines_remove_all)
  then show ?thesis
    unfolding recover_stalled_jobs_def acc_def [symmetric] Let_def case_prod_beta snd_conv
    by (intro refines_fold refines_release_all)
       (auto simp: emit_recovered_def split: prod.split
         intro: refines_emit refines_fail_waiting_parent refines_continue_parent refines_defer_parent refines_settle)
qed

section \<open>Flows\<close>

lemma new_job_0: "new_job 0 j \<Longrightarrow> new_job n j" "new_job 0 j \<Longrightarrow> j_enqueued_seq j = 0"
  by (auto simp: new_job_def)

lemma duplicated_in_new_flowD:
  "duplicated_in_new_flow p cs s dup = Inr dup' \<Longrightarrow>
   dup \<subseteq> dup' \<and> (\<forall>c\<in>set cs. j_id c \<notin> dup' \<longrightarrow> get_job_at s (j_id c) = None)"
  by (induction cs arbitrary: dup) (fastforce simp: and_then_Inr split: if_splits)+

lemma duplicated_under_parentD:
  "duplicated_under_parent p ids cs s dup = Inr dup' \<Longrightarrow>
   dup \<subseteq> dup' \<and> (\<forall>c\<in>set cs. j_id c \<notin> dup' \<longrightarrow> get_job_at s (j_id c) = None)"
  by (induction cs arbitrary: dup) (fastforce simp: and_then_Inr split: if_splits option.splits)+

text \<open>The deduplication pass leaves the states of the jobs alone.\<close>

definition same_states :: "qstate \<Rightarrow> qstate \<Rightarrow> bool" where
  "same_states s t \<longleftrightarrow> (\<forall>k. map_option j_state (get_job_at t k) = map_option j_state (get_job_at s k))"

lemma same_states_refl [simp]: "same_states s s"
  and same_states_trans: "same_states s t \<Longrightarrow> same_states t u \<Longrightarrow> same_states s u"
  by (simp_all add: same_states_def)

lemma same_statesD:
  "same_states s t \<Longrightarrow> get_job_at t k = None \<longleftrightarrow> get_job_at s k = None"
  "same_states s t \<Longrightarrow> get_job_at s k = Some j \<Longrightarrow> \<exists>j'. get_job_at t k = Some j' \<and> j_state j' = j_state j"
  unfolding same_states_def by (metis option.map_disc_iff, metis map_option_eq_Some option.map(2))

lemma same_states_modify: "(\<And>j. j_state (f j) = j_state j) \<Longrightarrow> same_states s (modify_job i f s)"
  by (auto simp: same_states_def option.map_comp comp_def)

lemma same_states_store: "same_states s (snd (store_deduplicated_next c e s))"
  by (auto simp: store_deduplicated_next_def clear_deduplication_expiry_def split: option.split)
     (auto simp: same_states_def option.map_comp comp_def)

lemma same_states_extend: "same_states s (extend_deduplication_expiration ext c i now s)"
  by (auto simp: extend_deduplication_expiration_def intro: same_states_modify)

lemma dedup_child_refines:
  assumes "refines s t" "j_enqueued_seq c = 0"
  shows "refines s (snd (dedup_child ext np now dup c ds t)) \<and> same_states t (snd (dedup_child ext np now dup c ds t))"
  using assms same_states_store [of t c] same_states_extend [of t]
  by (auto simp: dedup_child_def Let_def case_prod_beta split: option.split
      intro: refines_store_next refines_extend)

lemma dedup_children_refines:
  assumes "refines s t" "\<And>c. c \<in> set cs \<Longrightarrow> j_enqueued_seq c = 0"
  shows "refines s (snd (dedup_children ext np now dup cs ds t)) \<and> same_states t (snd (dedup_children ext np now dup cs ds t))"
  using assms
proof (induction cs arbitrary: ds t)
  case (Cons c cs)
  obtain r u where u: "dedup_child ext np now dup c ds t = (r, u)" by fastforce
  have ru: "refines s u" "same_states t u"
    using dedup_child_refines [OF Cons.prems(1), of c ext np now dup ds] Cons.prems(2) u by auto
  show ?case
  proof (cases r)
    case (Inl e)
    then show ?thesis using u ru by simp
  next
    case (Inr ds1)
    have "refines s (snd (dedup_children ext np now dup cs ds1 u)) \<and> same_states u (snd (dedup_children ext np now dup cs ds1 u))"
      using Cons.prems(2) by (intro Cons.IH ru) simp
    then show ?thesis using u Inr ru(2) by (auto intro: same_states_trans)
  qed
qed simp

lemma adopt_child_refines:
  assumes "refines s t"
  shows "refines s (snd (adopt_child p c now t)) \<and> same_states t (snd (adopt_child p c now t))"
proof (cases "get_job_at t c")
  case None
  then show ?thesis using assms by (simp add: adopt_child_def)
next
  case (Some e)
  have "refines s (modify_job c (\<lambda>_. e\<lparr>j_parent_id := Some p\<rparr>) t)"
    using assms Some by (intro refines_modify) (auto simp: step_simps q_inv_job(3))
  moreover have "same_states t (modify_job c (\<lambda>_. e\<lparr>j_parent_id := Some p\<rparr>) t)"
    using Some by (simp add: same_states_def)
  ultimately show ?thesis
    using Some by (auto simp: adopt_child_def Let_def same_states_def intro!: refines_emits refines_record_terminal)
qed

lemma refines_store_children:
  assumes "refines s t" "distinct (map j_id cs)" "\<And>c. c \<in> set cs \<Longrightarrow> new_job 0 c"
    and "\<And>c. c \<in> set cs \<Longrightarrow> j_id c \<notin> dup \<Longrightarrow> get_job_at t (j_id c) = None"
  shows "refines s (snd (store_children own dup p now cs t))"
  using assms
proof (induction cs arbitrary: t)
  case (Cons c cs)
  have step: "refines s (snd (store_children own dup p now cs u))"
    if "refines s u" "\<And>k. k \<noteq> j_id c \<Longrightarrow> get_job_at t k = None \<Longrightarrow> get_job_at u k = None" for u
  proof (rule Cons.IH [OF that(1)])
    show "distinct (map j_id cs)" "\<And>d. d \<in> set cs \<Longrightarrow> new_job 0 d" using Cons.prems by auto
    fix d assume d: "d \<in> set cs" "j_id d \<notin> dup"
    have "j_id d \<noteq> j_id c" using d(1) Cons.prems(2) by (simp add: image_iff) metis
    then show "get_job_at u (j_id d) = None"
      using that(2) Cons.prems(4) [of d] d by simp
  qed
  have emit: "refines s (emit_deduplicated_events e c now t)" for e
    by (rule refines_emits [OF Cons.prems(1)])
  note adopt = adopt_child_refines [OF Cons.prems(1), of p "j_id c" now]
  have ins: "refines s (snd (insert_new_job c now t))" if "j_id c \<notin> dup"
    using Cons.prems that by (intro refines_insert_new) (auto intro: new_job_0)
  show ?case
    using step [OF emit] step [OF conjunct1 [OF adopt]] step [OF ins] adopt
    by (auto simp: Let_def case_prod_beta split: option.split prod.split dest: same_statesD)
qed simp

lemma append_children_eq: "\<exists>ids. append_children ds cs p = p\<lparr>j_child_ids := ids\<rparr>"
proof (induction cs arbitrary: p)
  case Nil
  show ?case by (rule exI [of _ "j_child_ids p"]) (simp add: append_children_def)
next
  case (Cons c cs)
  let ?p = "if map_of (ds_children ds) (j_id c) \<noteq> None \<and> map_of (ds_next ds) (j_id c) = None
            then p else push_child (j_id c) p"
  obtain ids where ids: "append_children ds cs ?p = ?p\<lparr>j_child_ids := ids\<rparr>" using Cons by blast
  have "append_children ds (c # cs) p = append_children ds cs ?p" by (simp add: append_children_def)
  also have "\<dots> = p\<lparr>j_child_ids := ids\<rparr>" unfolding ids by (simp add: push_child_def)
  finally show ?case by blast
qed

lemma append_children_fields [simp]: "j_id (append_children ds cs p) = j_id p"
  using append_children_eq [of ds cs p] by auto

lemma job_step_refl: "j_enqueued_seq j \<le> n \<Longrightarrow> job_step n j j"
  by (auto simp: job_step_def)

lemma job_step_children:
  assumes "job_step n j k" shows "job_step n j (append_children ds cs k)"
proof -
  obtain ids where ids: "append_children ds cs k = k\<lparr>j_child_ids := ids\<rparr>" using append_children_eq by blast
  show ?thesis using assms unfolding ids by (simp add: step_simps)
qed

lemma refines_release_unless_next: "refines s t \<Longrightarrow> refines s (release_unless_next ext ds p now t)"
  by (simp add: release_unless_next_def refines_release_parent)

text \<open>The jobs of a flow as the callers build and validate them.\<close>

definition flow_candidate :: "job \<Rightarrow> job list \<Rightarrow> bool" where
  "flow_candidate p cs \<longleftrightarrow> distinct (map j_id (p # cs)) \<and> (\<forall>j\<in>set (p # cs). new_job 0 j)"

lemma dedup_children_after:
  assumes "refines s t" "\<And>c. c \<in> set cs \<Longrightarrow> new_job 0 c" "dedup_children ext np now dup cs ds t = (r, u)"
  shows "refines s u" "same_states t u"
  using dedup_children_refines [OF assms(1), of cs ext np now dup ds] new_job_0(2) assms(2,3) by auto

lemma refines_existing_parent:
  assumes r: "refines s t" and d: "distinct (map j_id cs)" and n: "\<And>c. c \<in> set cs \<Longrightarrow> new_job 0 c"
  shows "refines s (snd (add_flow_for_existing_parent ext p cs now t))"
proof -
  let ?t = "emit_duplicated_event p now t"
  have t: "refines s ?t" by (rule refines_emits [OF r])
  show ?thesis
  proof (cases "duplicated_under_parent (j_id p) (j_child_ids p) cs ?t {}")
    case (Inl e)
    then show ?thesis using t by (simp add: add_flow_for_existing_parent_def Let_def)
  next
    case (Inr dup)
    note absent = conjunct2 [OF duplicated_under_parentD [OF Inr]]
    obtain res u where u: "dedup_children ext False now dup cs (dedup_scan_start {} []) ?t = (res, u)" by fastforce
    note ru = dedup_children_after [OF t n u]
    have store: "refines s (snd (store_children own dup (j_id p) now cs (modify_job (j_id p) (append_children ds cs) u)))"
      for ds own
    proof (rule refines_store_children [OF _ d n])
      show "refines s (modify_job (j_id p) (append_children ds cs) u)"
        by (rule refines_modify [OF ru(1)]) (auto intro!: job_step_children job_step_refl q_inv_job(3))
      show "get_job_at (modify_job (j_id p) (append_children ds cs) u) (j_id c) = None"
        if "c \<in> set cs" "j_id c \<notin> dup" for c
        using absent that same_statesD(1) [OF ru(2)] by auto
    qed
    show ?thesis
      using t u ru store Inr
      by (auto simp: add_flow_for_existing_parent_def Let_def case_prod_beta split: sum.split
          intro!: refines_release_unless_next)
  qed
qed

lemma refines_store_flow:
  assumes r: "refines s t" and f: "flow_candidate p cs" and np: "get_job_at t (j_id p) = None"
    and absent: "\<And>c. c \<in> set cs \<Longrightarrow> j_id c \<notin> dup \<Longrightarrow> get_job_at t (j_id c) = None"
  shows "refines s (snd (store_flow ext p cs dup ds now t))"
proof -
  define ids where "ids = filter (\<lambda>i. map_of (ds_children ds) i = None) (ds_child_ids ds)"
  define q where "q = (if ids = [] then p\<lparr>j_child_ids := ids, j_state := state_after_dependencies (j_scheduled_at p) now\<rparr>
                       else p\<lparr>j_child_ids := ids\<rparr>)"
  have q: "j_id q = j_id p" "new_job n q" for n
    using f state_after_dependencies_cases [of "j_scheduled_at p" now]
    by (auto simp: q_def flow_candidate_def new_job_def job_wf_def)
  let ?u = "snd (insert_new_job q now t)"
  have u: "refines s ?u" using q np by (intro refines_insert_new [OF r]) auto
  have store: "refines s (snd (store_children own dup (j_id p) now cs ?u))" for own
  proof (rule refines_store_children [OF u])
    show "distinct (map j_id cs)" "\<And>c. c \<in> set cs \<Longrightarrow> new_job 0 c" using f by (auto simp: flow_candidate_def)
    show "get_job_at ?u (j_id c) = None" if "c \<in> set cs" "j_id c \<notin> dup" for c
    proof -
      have "j_id c \<noteq> j_id p" using f that(1) by (simp add: flow_candidate_def image_iff) metis
      then show ?thesis using absent [OF that] q(1) by simp
    qed
  qed
  have qq: "(if ids = [] then (p\<lparr>j_child_ids := ids\<rparr>)\<lparr>j_state := state_after_dependencies (j_scheduled_at (p\<lparr>j_child_ids := ids\<rparr>)) now\<rparr>
             else p\<lparr>j_child_ids := ids\<rparr>) = q" by (simp add: q_def)
  show ?thesis
    unfolding store_flow_def ids_def [symmetric] Let_def qq
    using r store q(1) by (auto simp: case_prod_beta split: sum.split intro!: refines_release_unless_next)
qed

lemma refines_flow_jobs:
  assumes f: "flow_candidate p cs"
  shows "refines s (snd (add_flow_jobs ext p cs now s))"
proof -
  have cs: "distinct (map j_id cs)" "\<And>c. c \<in> set cs \<Longrightarrow> new_job 0 c"
    using f by (auto simp: flow_candidate_def)
  show ?thesis
  proof (cases "get_job_at s (j_id p)")
    case (Some e)
    then show ?thesis using refines_existing_parent [OF refines_refl cs] by (simp add: add_flow_jobs_def)
  next
    case None
    note np = None
    show ?thesis
    proof (cases "find_active_deduplicated_job ext (q_jobs s) (q_released s) p now")
      case (Some e)
      have "refines s (snd (store_deduplicated_next_flow \<lparr>fl_parent = p, fl_children = cs\<rparr> e s))"
        using f by (intro refines_store_next_flow) (auto simp: flow_candidate_def flow_jobs_def new_job_0(2))
      then show ?thesis
        using np Some by (auto simp: add_flow_jobs_def Let_def case_prod_beta intro!: refines_emits refines_extend)
    next
      case None
      show ?thesis
      proof (cases "duplicated_in_new_flow (j_id p) cs s {}")
        case (Inl e)
        then show ?thesis using np None by (simp add: add_flow_jobs_def)
      next
        case (Inr dup)
        note absent = conjunct2 [OF duplicated_in_new_flowD [OF Inr]]
        let ?ids = "case active_deduplication_id p now of Some d \<Rightarrow> {d} | None \<Rightarrow> {}"
        obtain res u where u: "dedup_children ext True now dup cs (dedup_scan_start ?ids (j_child_ids p)) s = (res, u)"
          by fastforce
        note ru = dedup_children_after [OF refines_refl cs(2) u]
        have "refines s (snd (store_flow ext p cs dup ds now u))" for ds
          using absent same_statesD(1) [OF ru(2)] np by (intro refines_store_flow [OF ru(1) f]) auto
        then show ?thesis
          using np None Inr u ru(1) by (auto simp: add_flow_jobs_def split: sum.split)
      qed
    qed
  qed
qed

lemma validate_distinct_idsD: "validate_distinct_ids is ids = Inr u \<Longrightarrow> distinct is \<and> set is \<inter> ids = {}"
  by (induction "is" arbitrary: ids) (fastforce split: if_splits)+

lemma child_jobs_new: "c \<in> set (child_jobs_of ext q p specs uuids now) \<Longrightarrow> new_job 0 c"
proof -
  assume "c \<in> set (child_jobs_of ext q p specs uuids now)"
  then obtain j where j: "j \<in> set (jobs_of_specs ext q specs uuids now)" and c: "c = j\<lparr>j_parent_id := Some p\<rparr>"
    by (auto simp: child_jobs_of_def)
  show ?thesis using jobs_of_specs_new(1) [OF j, of 0] unfolding c by (simp add: new_job_def job_wf_def)
qed

lemma parent_job_new: "new_job 0 (parent_job_of ext q sp uuid specs uuids now)"
  using state_after_dependencies_cases
  by (fastforce simp: parent_job_of_def Let_def job_new_def new_job_def job_wf_def)

lemma refines_add_flow: "refines s (snd (add_flow_at ext q sp uuid specs uuids now s))"
proof -
  let ?p = "parent_job_of ext q sp uuid specs uuids now"
  let ?cs = "child_jobs_of ext q (j_id ?p) specs uuids now"
  have "flow_candidate ?p ?cs" if "validate_flow_job_ids ?p ?cs = Inr u" for u
    using validate_distinct_idsD [OF that [unfolded validate_flow_job_ids_def]] child_jobs_new parent_job_new
    unfolding flow_candidate_def by fastforce
  then show ?thesis
    by (auto simp: add_flow_at_def Let_def split: sum.split intro: refines_flow_jobs)
qed

lemma refines_add_children_under:
  assumes d: "distinct (map j_id cs)" and n: "\<And>c. c \<in> set cs \<Longrightarrow> new_job 0 c"
    and p: "get_job_at s i = Some p" "j_state p = Active"
  shows "refines s (snd (add_children_under ext p i cs now s))"
proof (cases "duplicated_under_parent i (j_child_ids p) cs s {}")
  case (Inl e)
  then show ?thesis by (simp add: add_children_under_def)
next
  case (Inr dup)
  note absent = conjunct2 [OF duplicated_under_parentD [OF Inr]]
  obtain res u where u: "dedup_children ext False now dup cs (dedup_scan_start {} []) s = (res, u)" by fastforce
  note ru = dedup_children_after [OF refines_refl n u]
  obtain p' where p': "get_job_at u i = Some p'" "j_state p' = Active"
    using same_statesD(2) [OF ru(2) p(1)] p(2) by auto
  let ?p = "\<lambda>ds. append_children ds cs (reset_parent WaitingChildren None p')"
  have store: "refines s (snd (store_children own dup i now cs (modify_job i (\<lambda>_. ?p ds) u)))" for ds own
  proof (rule refines_store_children [OF _ d n])
    show "refines s (modify_job i (\<lambda>_. ?p ds) u)"
      using p' by (intro refines_modify [OF ru(1)] job_step_children)
        (auto simp: step_simps reset_parent_def dest: q_inv_job(3))
    show "get_job_at (modify_job i (\<lambda>_. ?p ds) u) (j_id c) = None" if "c \<in> set cs" "j_id c \<notin> dup" for c
      using absent that same_statesD(1) [OF ru(2)] by auto
  qed
  show ?thesis
    using u ru store Inr p'(1)
    by (auto simp: add_children_under_def Let_def case_prod_beta split: sum.split
        intro!: refines_release_unless_next refines_emit)
qed

lemma refines_add_children: "refines s (snd (add_flow_children_at ext q i tok specs uuids now s))"
proof -
  let ?cs = "child_jobs_of ext q i specs uuids now"
  have "refines s (snd (add_children_under ext p i ?cs now s))"
    if "validate_flow_child_jobs i ?cs = Inr u" "require_flow_parent i tok s = Inr p" for u p
  proof (rule refines_add_children_under)
    show "distinct (map j_id ?cs)"
      using validate_distinct_idsD [OF that(1) [unfolded validate_flow_child_jobs_def]] by simp
    show "new_job 0 c" if "c \<in> set ?cs" for c using that by (rule child_jobs_new)
    show "get_job_at s i = Some p" "j_state p = Active"
      using that(2) by (auto simp: require_flow_parent_def and_then_Inr dest!: require_leaseD)
  qed
  then show ?thesis
    by (auto simp: add_flow_children_at_def Let_def and_then_Inr split: sum.split)
qed

lemma refines_remove_announced:
  assumes "refines s t" "\<And>i j. i \<in> set is \<Longrightarrow> get_job_at t i = Some j \<Longrightarrow> \<not> leased j"
  shows "refines s (snd (remove_announced is now t))"
  using assms
proof (induction "is" arbitrary: t)
  case (Cons i "is")
  let ?u = "snd (remove_job_record i t)"
  have u: "refines s ?u" using Cons.prems by (intro refines_remove) auto
  have step: "refines s (snd (remove_announced is now v))" if "refines s v" "q_jobs v = q_jobs ?u" for v
  proof (rule Cons.IH [OF that(1)])
    fix k j assume "k \<in> set is" "get_job_at v k = Some j"
    then show "\<not> leased j" using Cons.prems(2) [of k j] that(2) by (auto split: if_splits)
  qed
  show ?case
    using step [OF u refl] step [OF refines_emits(3) [OF u]]
    by (cases "remove_job_record i t") (auto simp: case_prod_beta Let_def split: option.split)
qed simp

lemma refines_remove_unprocessed: "refines s (snd (remove_unprocessed_children ext i now s))"
proof (rule refinesI)
  assume inv: "q_inv s"
  show ?thesis
  proof (cases "get_job_at s i")
    case None
    then show ?thesis by (simp add: remove_unprocessed_children_def)
  next
    case (Some p)
    obtain ids seen where w: "collect_removable (length (q_jobs s)) (q_jobs s) (j_child_ids p) [] {} = Some (ids, seen)"
      and ids: "\<And>c. c \<in> set ids \<longleftrightarrow> removable_below (q_jobs s) (j_child_ids p) c"
      using collect_removable_enough_fuel [of "q_jobs s" "j_child_ids p"] q_inv_job(1) [OF inv] by metis
    have "\<not> leased j" if "c \<in> set ids" "get_job_at s c = Some j" for c j
    proof -
      have "unprocessed_at (q_jobs s) c \<noteq> None"
        using ids that(1) by (auto elim: removable_below.cases)
      then show ?thesis using that(2) by (auto simp: unprocessed_at_def leased_def)
    qed
    then have "refines s (snd (remove_announced ids now s))" by (intro refines_remove_announced) auto
    then show ?thesis
      using Some w by (auto simp: remove_unprocessed_children_def Let_def case_prod_beta intro!: refines_release_parent)
  qed
qed

lemma refines_relink:
  assumes "refines s t" "\<And>n j. j_enqueued_seq j \<le> n \<Longrightarrow> job_step n j (f j)"
  shows "refines s (modify_job i f t)"
  by (rule refines_modify [OF assms(1)]) (auto intro: assms(2) q_inv_job(3))

lemma refines_remove_child_dependency: "refines s (snd (remove_child_dependency ext c now s))"
  by (auto simp: remove_child_dependency_def Let_def split: option.split
      intro!: refines_release_parent refines_relink refines_clear simp: step_simps)


section \<open>The step relation\<close>

text \<open>
  One constructor per public operation that changes the state. The arguments a caller chooses,
  the clock and the drawn identifiers are arbitrary; the identifier that \<open>complete_job\<close> draws
  for a repeat successor is not that of a retained job (\<open>Uuid::new_v4\<close>). An operation that
  returns an error is a step too.
\<close>

inductive op_step :: "externals \<Rightarrow> qstate \<Rightarrow> qstate \<Rightarrow> bool" for ext where
  Add: "op_step ext s (snd (add_at ext q nm p opt uuid now s))"
| Add_many: "op_step ext s (snd (add_many_at ext q specs uuids now s))"
| Add_flow: "op_step ext s (snd (add_flow_at ext q sp uuid specs uuids now s))"
| Add_children: "op_step ext s (snd (add_flow_children_at ext q i tok specs uuids now s))"
| Claim: "op_step ext s (snd (claim_next ext w tok lease now s))"
| Complete: "get_job_at s uuid = None \<Longrightarrow> op_step ext s (snd (complete_job ext i tok v uuid now s))"
| Fail: "op_step ext s (snd (fail_active_job ext i tok e now ar s))"
| Renew: "op_step ext s (snd (renew ext i tok lease now s))"
| Delay_active: "op_step ext s (snd (delay_active ext i tok delay now s))"
| Release_active: "op_step ext s (snd (release_active i tok now s))"
| Promote: "op_step ext s (snd (promote i now s))"
| Promote_due: "op_step ext s (snd (promote_due_jobs ext now s))"
| Reschedule: "op_step ext s (snd (reschedule ext i delay now s))"
| Retry: "op_step ext s (snd (retry ext i now s))"
| Set_priority: "op_step ext s (snd (set_priority_order i prio lifo s))"
| Set_data: "op_step ext s (snd (set_data i p s))"
| Set_progress: "op_step ext s (snd (set_progress i v now s))"
| Save_stacktrace: "op_step ext s (snd (save_stacktrace i st rs s))"
| Log: "op_step ext s (snd (log_job i line keep now s))"
| Clear_logs: "op_step ext s (snd (clear_logs i keep s))"
| Trim_events: "op_step ext s (snd (trim_events_op n s))"
| Pause: "op_step ext s (snd (pause now s))"
| Resume: "op_step ext s (snd (resume now s))"
| Remove: "op_step ext s (snd (remove ext i now s))"
| Remove_unprocessed: "op_step ext s (snd (remove_unprocessed_children ext i now s))"
| Remove_child_dependency: "op_step ext s (snd (remove_child_dependency ext i now s))"
| Clean: "op_step ext s (snd (clean ext st' grace limit now s))"
| Drain: "op_step ext s (snd (drain ext b now s))"
| Obliterate: "op_step ext s (snd (obliterate b s))"
| Remove_key: "op_step ext s (snd (remove_deduplication_key ext d now s))"
| Upsert_repeat: "op_step ext s (snd (upsert_repeat ext q spec uuid now s))"
| Remove_repeat: "op_step ext s (snd (remove_repeat ext k now s))"
| Recover: "op_step ext s (snd (recover_stalled_jobs ext now s))"

inductive reachable :: "externals \<Rightarrow> qstate \<Rightarrow> bool" for ext where
  Start: "reachable ext qstate_default"
| Step: "reachable ext s \<Longrightarrow> op_step ext s t \<Longrightarrow> reachable ext t"

lemma op_step_refines: "op_step ext s t \<Longrightarrow> refines s t"
  by (induction rule: op_step.induct)
     (simp_all add: refines_add_at refines_add_many refines_add_flow refines_add_children refines_claim
       refines_complete refines_fail refines_renew refines_delay_active refines_release_active
       refines_promote refines_promote_due_op refines_reschedule refines_retry refines_set_priority
       refines_edits refines_clear_logs refines_trim_op refines_pause refines_remove_op
       refines_remove_unprocessed refines_remove_child_dependency refines_clean refines_drain
       refines_obliterate refines_remove_key refines_upsert refines_remove_repeat refines_recover)

lemma q_inv_default: "q_inv qstate_default"
  by (simp add: q_inv_def jobs_inv_def flow_inv_def slots_inv_def events_inv_def events_numbered_def
      event_ids_def qstate_default_def)

lemma q_inv_step: "op_step ext s t \<Longrightarrow> q_inv s \<Longrightarrow> q_inv t"
  using op_step_refines refines_inv by blast

lemma q_inv_reachable: "reachable ext s \<Longrightarrow> q_inv s"
  by (induction rule: reachable.induct) (auto intro: q_inv_default q_inv_step)

end
