(* ===== verification/Example_Externals.thy ===== *)
theory Example_Externals
  imports Job_Types
begin

text \<open>
  A concrete instance of the code outside the repository on which properties are exercised:
  total date arithmetic, no cron schedule, hash maps visited in insertion order.
\<close>

definition ex_ext :: externals where
  "ex_ext =
     \<lparr>ext_from_std = (\<lambda>d. Some (int d)), ext_checked_add_signed = (\<lambda>t d. Some (t + d)),
      ext_checked_sub_signed = (\<lambda>t d. Some (t - d)), ext_timestamp_millis = (\<lambda>t. t div 1000000),
      ext_cron_from_str = (\<lambda>_. Inl ''no schedule''), ext_cron_next_after = (\<lambda>_ _. None),
      ext_powi = powi_rounded, ext_hash_rank = (\<lambda>_ _. 0)\<rparr>"

end
