(* ===== verification/Job_Queue_Examples.thy ===== *)
theory Job_Queue_Examples
  imports Job_Queue_Steps Example_Externals
begin

text \<open>
  Small queue states on which the properties of the job queue are exercised, with the
  definitions that evaluate them.
\<close>

section \<open>Concrete data\<close>

text \<open>A job as \<open>Job::new\<close> builds it at time 0 with default options.\<close>

definition ex_job :: "job_id \<Rightarrow> job" where
  "ex_job i = job_new ex_ext ''q'' ''work'' JNull job_options_default i 0"

definition ex_waiting :: "job_id \<Rightarrow> nat \<Rightarrow> job" where
  "ex_waiting i n = (ex_job i)\<lparr>j_enqueued_seq := n\<rparr>"

definition ex_delayed :: "job_id \<Rightarrow> instant \<Rightarrow> job" where
  "ex_delayed i t = (ex_job i)\<lparr>j_state := Delayed, j_scheduled_at := t\<rparr>"

definition ex_active :: "job_id \<Rightarrow> string \<Rightarrow> instant \<Rightarrow> job" where
  "ex_active i tok t =
     (ex_job i)\<lparr>j_state := Active, j_attempts_made := 1, j_processed_at := Some 0,
       j_worker_id := Some ''w'', j_lock_token := Some tok, j_lease_expires_at := Some t,
       j_enqueued_seq := 1\<rparr>"

definition ex_state :: "job list \<Rightarrow> qstate" where
  "ex_state js = qstate_default\<lparr>q_sequence := 9, q_jobs := map (\<lambda>j. (j_id j, j)) js\<rparr>"

section \<open>Evaluation\<close>

lemmas ex_simps =
  ex_ext_def ex_job_def ex_waiting_def ex_delayed_def ex_active_def ex_state_def qstate_default_def
  job_new_def job_options_default_def deduplication_expiration_def DEFAULT_JOB_PRIORITY_def Let_def

lemmas ex_inv_simps =
  q_inv_def jobs_inv_def flow_inv_def slots_inv_def events_inv_def events_numbered_def event_ids_def
  keys_distinct_def job_wf_def u64_max_def

lemmas ex_hash_simps = hash_values_def hash_entries_def

lemmas ex_order_simps =
  compare_claim_order_def compare_by_key compare_then_with compare_waiting_order.rep_eq waiting_order_def
  default_comparator.rep_eq

lemmas ex_claim_simps =
  claim_next_def promote_due_def due_jobs_def waiting_jobs_def ex_simps ex_hash_simps ex_order_simps

lemma ex_state_inv [simp]:
  "q_inv (ex_state [])"
  "q_inv (ex_state [ex_waiting ''a'' 2])"
  "q_inv (ex_state [ex_active ''a'' ''tok'' 5])"
  "q_inv (ex_state [ex_waiting ''a'' 2, ex_waiting ''b'' 3])"
  "q_inv (ex_state [ex_active ''a'' ''tok'' 5, ex_waiting ''b'' 3])"
  "q_inv (ex_state [ex_delayed ''a'' 3, ex_waiting ''b'' 3])"
  by (simp_all add: ex_inv_simps ex_simps)

end
