(* ===== verification/Job_Queue_Claim.thy ===== *)
theory Job_Queue_Claim
  imports Job_Queue_Examples
begin

text \<open>
  Claiming (\<open>claim_next\<close> and \<open>promote_due_locked\<close> of \<open>src/src/job/memory.rs\<close>): which
  job a claim selects, when it finds none, that leases are exclusive, and what promotion does.
\<close>

definition claimable :: "instant \<Rightarrow> job \<Rightarrow> bool" where
  "claimable now j \<longleftrightarrow> j_state j = Waiting \<or> (j_state j = Delayed \<and> j_scheduled_at j \<le> now)"

section \<open>Promotion of due jobs\<close>

lemma length_filter_hash_values: "length (filter P (hash_values r m)) = length (filter P (map snd m))"
  by (metis mset_filter mset_hash_values size_mset)


lemma promote_fold_other:
  "k \<notin> j_id ` set ds \<Longrightarrow> get_job_at (snd (fold (promote_one now) ds acc)) k = get_job_at (snd acc) k"
  by (induction ds arbitrary: acc) (simp_all add: promote_one_jobs)

lemma promote_fold_due:
  assumes "distinct (map j_id ds)" "d \<in> set ds" "get_job_at (snd acc) (j_id d) = Some j"
  shows "\<exists>n. get_job_at (snd (fold (promote_one now) ds acc)) (j_id d) = Some (j\<lparr>j_state := Waiting, j_enqueued_seq := n\<rparr>)"
  using assms
proof (induction ds arbitrary: acc)
  case (Cons e ds)
  show ?case
  proof (cases "j_id d = j_id e")
    case True
    then have "j_id d \<notin> j_id ` set ds" using Cons.prems(1) by simp
    then show ?thesis
      using Cons.prems(3) True by (auto simp: promote_fold_other promote_one_jobs)
  next
    case False
    then have "d \<in> set ds" "get_job_at (snd (promote_one now e acc)) (j_id d) = Some j"
      using Cons.prems by (auto simp: promote_one_jobs)
    then show ?thesis using Cons by simp
  qed
qed simp

lemma promote_due_other:
  assumes "q_inv s" "get_job_at s i = Some j" "\<not> (j_state j = Delayed \<and> j_scheduled_at j \<le> now)"
  shows "get_job_at (snd (promote_due ext now s)) i = Some j"
proof -
  have "i \<notin> j_id ` set (due_jobs ext now s)"
    using assms due_jobs_iff [OF assms(1)] by auto
  then show ?thesis using assms(2) by (simp add: promote_due_def promote_fold_other)
qed

lemma promote_due_absent: "q_inv s \<Longrightarrow> get_job_at s i = None \<Longrightarrow> get_job_at (snd (promote_due ext now s)) i = None"
  using due_jobs_iff [of s] by (subst promote_due_def, subst promote_fold_other) auto

lemma promote_due_due:
  assumes "q_inv s" "get_job_at s i = Some j" "j_state j = Delayed" "j_scheduled_at j \<le> now"
  shows "\<exists>n. get_job_at (snd (promote_due ext now s)) i = Some (j\<lparr>j_state := Waiting, j_enqueued_seq := n\<rparr>)"
proof -
  have i: "j_id j = i" using assms by (simp add: q_inv_job(1))
  then have "j \<in> set (due_jobs ext now s)" using assms due_jobs_iff [OF assms(1)] by simp
  then show ?thesis
    using promote_fold_due [OF distinct_due_jobs [OF assms(1)], of j ext now "(0, s)" j now] i assms(2)
    by (simp add: promote_due_def)
qed

lemma promote_due_cases:
  assumes "q_inv s" "get_job_at (snd (promote_due ext now s)) i = Some k"
  obtains j where "get_job_at s i = Some j" "\<not> (j_state j = Delayed \<and> j_scheduled_at j \<le> now)" "k = j"
    | j n where "get_job_at s i = Some j" "j_state j = Delayed" "j_scheduled_at j \<le> now"
        "k = j\<lparr>j_state := Waiting, j_enqueued_seq := n\<rparr>"
proof (cases "get_job_at s i")
  case None
  then show ?thesis using promote_due_absent [OF assms(1) None] assms(2) by simp
next
  case (Some j)
  show ?thesis
  proof (cases "j_state j = Delayed \<and> j_scheduled_at j \<le> now")
    case True
    then obtain n where "get_job_at (snd (promote_due ext now s)) i = Some (j\<lparr>j_state := Waiting, j_enqueued_seq := n\<rparr>)"
      using promote_due_due [OF assms(1) Some] by blast
    then have "k = j\<lparr>j_state := Waiting, j_enqueued_seq := n\<rparr>" using assms(2) by simp
    with True show ?thesis by (intro that(2) [OF Some]) auto
  next
    case False
    then have "k = j" using promote_due_other [OF assms(1) Some False, of ext] assms(2) by simp
    with False show ?thesis by (intro that(1) [OF Some]) auto
  qed
qed

lemma promote_fold_count:
  assumes "distinct (map j_id ds)" "\<And>d. d \<in> set ds \<Longrightarrow> get_job_at (snd acc) (j_id d) \<noteq> None"
  shows "fst (fold (promote_one now) ds acc) = fst acc + length ds"
  using assms
proof (induction ds arbitrary: acc)
  case (Cons d ds)
  have f: "fst (promote_one now d acc) = fst acc + 1"
    using Cons.prems(2) [of d] by (auto simp: promote_one_def Let_def case_prod_beta split: option.split)
  have "get_job_at (snd (promote_one now d acc)) (j_id e) \<noteq> None" if "e \<in> set ds" for e
    using Cons.prems(2) [of e] that by (auto simp: promote_one_jobs)
  then show ?case using Cons.IH [of "promote_one now d acc"] Cons.prems(1) f by simp
qed simp

lemma q_inv_promote_due: "q_inv s \<Longrightarrow> q_inv (snd (promote_due ext now s))"
  using refines_promote_due [OF refines_refl] refines_inv by blast

section \<open>Claiming\<close>

lemma waiting_jobs_iff: "q_inv s \<Longrightarrow> j \<in> set (waiting_jobs ext s) \<longleftrightarrow> get_job_at s (j_id j) = Some j \<and> j_state j = Waiting"
  by (auto simp: waiting_jobs_def in_hash_values)

lemma claim_next_eq:
  assumes inv: "q_inv s" and np: "\<not> q_paused s"
  shows "claim_next ext w tok lease now s =
    (let t = snd (promote_due ext now s)
     in case min_by compare_claim_order (waiting_jobs ext t) of
          None \<Rightarrow> (Inr None, t)
        | Some j \<Rightarrow> (Inr (Some (lease_job ext w tok lease now j)),
            emit_event ''active'' (Some (lease_job ext w tok lease now j)) (Some Waiting) now []
              (modify_job (j_id j) (\<lambda>_. lease_job ext w tok lease now j) t)))"
proof -
  let ?t = "snd (promote_due ext now s)"
  have "get_job_at ?t (j_id j) = Some j" if "min_by compare_claim_order (waiting_jobs ext ?t) = Some j" for j
    using min_by_Some_in [OF that] waiting_jobs_iff [OF q_inv_promote_due [OF inv]] by auto
  then show ?thesis using np by (auto simp: claim_next_def Let_def split: option.split)
qed

lemma claimable_waiting:
  assumes inv: "q_inv s"
  shows "waiting_jobs ext (snd (promote_due ext now s)) = [] \<longleftrightarrow> (\<forall>i j. get_job_at s i = Some j \<longrightarrow> \<not> claimable now j)"
proof -
  let ?t = "snd (promote_due ext now s)"
  have it: "q_inv ?t" by (rule q_inv_promote_due [OF inv])
  have "waiting_jobs ext ?t = [] \<longleftrightarrow> (\<forall>i k. get_job_at ?t i = Some k \<longrightarrow> j_state k \<noteq> Waiting)"
  proof -
    have "waiting_jobs ext ?t = [] \<longleftrightarrow> (\<forall>j. j \<notin> set (waiting_jobs ext ?t))" by (cases "waiting_jobs ext ?t") auto
    then show ?thesis unfolding waiting_jobs_iff [OF it] using q_inv_job(1) [OF it] by metis
  qed
  also have "\<dots> \<longleftrightarrow> (\<forall>i j. get_job_at s i = Some j \<longrightarrow> \<not> claimable now j)"
  proof (intro iffI allI impI)
    fix i j assume no: "\<forall>i k. get_job_at ?t i = Some k \<longrightarrow> j_state k \<noteq> Waiting" and j: "get_job_at s i = Some j"
    show "\<not> claimable now j"
    proof (cases "j_state j = Delayed \<and> j_scheduled_at j \<le> now")
      case True
      then obtain n where "get_job_at ?t i = Some (j\<lparr>j_state := Waiting, j_enqueued_seq := n\<rparr>)"
        using promote_due_due [OF inv j] by blast
      then show ?thesis using no [rule_format, of i "j\<lparr>j_state := Waiting, j_enqueued_seq := n\<rparr>"] by simp
    next
      case False
      then have "get_job_at ?t i = Some j" by (rule promote_due_other [OF inv j])
      then show ?thesis using no False by (auto simp: claimable_def)
    qed
  next
    fix i k assume no: "\<forall>i j. get_job_at s i = Some j \<longrightarrow> \<not> claimable now j" and k: "get_job_at ?t i = Some k"
    from promote_due_cases [OF inv k] show "j_state k \<noteq> Waiting"
      using no by cases (auto simp: claimable_def)
  qed
  finally show ?thesis .
qed


lemma claim_order_Equiv: "compare compare_claim_order a b = Equiv \<Longrightarrow> j_id a = j_id b"
  by (simp add: compare_claim_order_def then_with_Equiv by_key_Equiv)

lemma claim_next_Some:
  assumes inv: "q_inv s" and c: "claim_next ext w tok lease now s = (Inr (Some c), t)"
  obtains j where "\<not> q_paused s"
    "min_by compare_claim_order (waiting_jobs ext (snd (promote_due ext now s))) = Some j"
    "get_job_at (snd (promote_due ext now s)) (j_id c) = Some j" "j_state j = Waiting" "j_id j = j_id c"
    "c = lease_job ext w tok lease now j"
    "q_jobs t = q_jobs (modify_job (j_id c) (\<lambda>_. c) (snd (promote_due ext now s)))"
proof -
  let ?t = "snd (promote_due ext now s)"
  have np: "\<not> q_paused s" using c by (auto simp: claim_next_def)
  have it: "q_inv ?t" by (rule q_inv_promote_due [OF inv])
  from c obtain j where m: "min_by compare_claim_order (waiting_jobs ext ?t) = Some j"
    and cj: "c = lease_job ext w tok lease now j"
    and t: "t = emit_event ''active'' (Some c) (Some Waiting) now [] (modify_job (j_id j) (\<lambda>_. c) ?t)"
    unfolding claim_next_eq [OF inv np] by (auto simp: Let_def split: option.splits)
  have j: "get_job_at ?t (j_id j) = Some j" "j_state j = Waiting"
    using min_by_Some_in [OF m] waiting_jobs_iff [OF it] by auto
  have "j_id j = j_id c" by (simp add: cj lease_job_def)
  with np m cj t j show ?thesis using that by simp
qed

text \<open>
  C5. A claim selects the least waiting job after due jobs have been promoted: every other
  waiting job comes strictly later in the claim order. The selected job is leased to the
  caller, and no other job changes.
\<close>

theorem claim_next_selects_least:
  assumes "q_inv s" and "claim_next ext w tok lease now s = (Inr (Some c), t)"
    and "s1 = snd (promote_due ext now s)"
  shows "\<exists>j. get_job_at s1 (j_id c) = Some j \<and> j_state j = Waiting \<and> c = lease_job ext w tok lease now j
    \<and> (\<forall>k j'. get_job_at s1 k = Some j' \<and> j_state j' = Waiting \<and> k \<noteq> j_id c \<longrightarrow>
          compare compare_claim_order j j' = Less)
    \<and> get_job_at t (j_id c) = Some c \<and> (\<forall>k. k \<noteq> j_id c \<longrightarrow> get_job_at t k = get_job_at s1 k)"
proof (rule claim_next_Some [OF assms(1,2)], unfold assms(3) [symmetric])
  fix j
  assume m: "min_by compare_claim_order (waiting_jobs ext s1) = Some j"
    and j: "get_job_at s1 (j_id c) = Some j" "j_state j = Waiting" "j_id j = j_id c"
      "c = lease_job ext w tok lease now j"
    and t: "q_jobs t = q_jobs (modify_job (j_id c) (\<lambda>_. c) s1)"
  have inv: "q_inv s1" unfolding assms(3) by (rule q_inv_promote_due [OF assms(1)])
  have "compare compare_claim_order j j' = Less"
    if "get_job_at s1 k = Some j'" "j_state j' = Waiting" "k \<noteq> j_id c" for k j'
  proof -
    have k: "j_id j' = k" by (rule q_inv_job(1) [OF inv that(1)])
    then have "compare compare_claim_order j j' \<noteq> Greater"
      using that by (intro min_by_Some_le [OF m]) (simp add: waiting_jobs_iff [OF inv])
    moreover have "compare compare_claim_order j j' \<noteq> Equiv"
      using claim_order_Equiv [of j j'] k that(3) j(3) by auto
    ultimately show ?thesis by (cases "compare compare_claim_order j j'") auto
  qed
  then show ?thesis using j t by auto
qed

theorem claim_next_selects_least_witness:
  "\<exists>c t. claim_next ex_ext ''w'' ''t1'' 10 6 (ex_state [ex_waiting ''a'' 2, ex_waiting ''b'' 3]) = (Inr (Some c), t)
     \<and> j_id c = ''a'' \<and> get_job_at t ''a'' = Some c"
proof -
  let ?s = "ex_state [ex_waiting ''a'' 2, ex_waiting ''b'' 3]"
  obtain r t where ct: "claim_next ex_ext ''w'' ''t1'' 10 6 ?s = (r, t)" by fastforce
  moreover have "fst (claim_next ex_ext ''w'' ''t1'' 10 6 ?s) =
      Inr (Some (lease_job ex_ext ''w'' ''t1'' 10 6 (ex_waiting ''a'' 2)))"
    by (simp add: ex_claim_simps)
  ultimately obtain c where c: "claim_next ex_ext ''w'' ''t1'' 10 6 ?s = (Inr (Some c), t)" "j_id c = ''a''"
    by (auto simp: lease_job_def ex_simps)
  from claim_next_selects_least [OF _ c(1) refl] c(2) have "get_job_at t ''a'' = Some c" by auto
  with c show ?thesis by blast
qed

text \<open>
  A claim comes back empty exactly when the queue is paused or holds no job that is waiting
  or delayed with its time reached.
\<close>

theorem claim_next_empty_iff:
  assumes "q_inv s"
  shows "fst (claim_next ext w tok lease now s) = Inr None \<longleftrightarrow>
     q_paused s \<or> (\<forall>i j. get_job_at s i = Some j \<longrightarrow> \<not> claimable now j)"
proof (cases "q_paused s")
  case True
  then show ?thesis by (simp add: claim_next_def)
next
  case False
  then show ?thesis
    unfolding claim_next_eq [OF assms False] claimable_waiting [OF assms, of ext now, symmetric]
    by (auto simp: Let_def split: option.split)
qed

theorem claim_next_empty_iff_witness:
  "fst (claim_next ex_ext ''w'' ''t1'' 10 6 (ex_state [ex_active ''a'' ''tok'' 5])) = Inr None"
  by (rule iffD2 [OF claim_next_empty_iff [OF ex_state_inv(3)]]) (simp add: ex_simps claimable_def)

text \<open>
  Leases are exclusive: a claim never returns a job that is already active, and leaves it
  and its lease untouched.
\<close>

theorem claim_next_exclusive:
  assumes "q_inv s" "get_job_at s i = Some j" "j_state j = Active"
  shows "get_job_at (snd (claim_next ext w tok lease now s)) i = Some j
    \<and> (\<forall>c. fst (claim_next ext w tok lease now s) = Inr (Some c) \<longrightarrow> j_id c \<noteq> i)"
proof (cases "q_paused s")
  case True
  then show ?thesis using assms by (simp add: claim_next_def)
next
  case False
  let ?t = "snd (promote_due ext now s)"
  have it: "q_inv ?t" by (rule q_inv_promote_due [OF assms(1)])
  have i: "get_job_at ?t i = Some j" using assms by (intro promote_due_other) auto
  have "j_id k \<noteq> i" if "min_by compare_claim_order (waiting_jobs ext ?t) = Some k" for k
    using min_by_Some_in [OF that] waiting_jobs_iff [OF it] i assms(3) by auto
  then show ?thesis
    using i unfolding claim_next_eq [OF assms(1) False]
    by (auto simp: Let_def lease_job_def split: option.split)
qed

theorem claim_next_exclusive_witness:
  "get_job_at (snd (claim_next ex_ext ''v'' ''t2'' 10 6 (ex_state [ex_active ''a'' ''tok'' 5, ex_waiting ''b'' 3]))) ''a''
     = Some (ex_active ''a'' ''tok'' 5)"
proof -
  let ?s = "ex_state [ex_active ''a'' ''tok'' 5, ex_waiting ''b'' 3]"
  have "get_job_at ?s ''a'' = Some (ex_active ''a'' ''tok'' 5)" "j_state (ex_active ''a'' ''tok'' 5) = Active"
    by (simp_all add: ex_simps)
  from claim_next_exclusive [OF _ this] show ?thesis by simp
qed

text \<open>
  Waiting jobs are served by priority, then first in first out: of two jobs that both wait
  with a sequence number and without \<open>lifo\<close>, the claimed one has the smaller priority value,
  or the same priority and the smaller sequence number.
\<close>

theorem claim_next_fifo:
  assumes "q_inv s" "claim_next ext w tok lease now s = (Inr (Some c), t)"
    and "get_job_at s (j_id c) = Some j" "j_state j = Waiting"
    and "get_job_at s k = Some j'" "j_state j' = Waiting" "k \<noteq> j_id c"
    and "\<not> jo_lifo (j_options j)" "\<not> jo_lifo (j_options j')" "j_enqueued_seq j > 0" "j_enqueued_seq j' > 0"
  shows "j_priority j < j_priority j' \<or> (j_priority j = j_priority j' \<and> j_enqueued_seq j \<le> j_enqueued_seq j')"
proof -
  let ?t = "snd (promote_due ext now s)"
  have it: "q_inv ?t" by (rule q_inv_promote_due [OF assms(1)])
  have j: "get_job_at ?t (j_id c) = Some j" and j': "get_job_at ?t k = Some j'"
    using assms by (auto intro!: promote_due_other)
  obtain m where m: "min_by compare_claim_order (waiting_jobs ext ?t) = Some m" "get_job_at ?t (j_id c) = Some m"
    using claim_next_Some [OF assms(1,2)] by metis
  have "m = j" using m(2) j by simp
  moreover have "j' \<in> set (waiting_jobs ext ?t)"
    using j' assms(6) q_inv_job(1) [OF it j'] by (simp add: waiting_jobs_iff [OF it])
  ultimately have "compare compare_claim_order j j' \<noteq> Greater"
    using min_by_Some_le [OF m(1)] by simp
  then show ?thesis
    using assms(8-) by (auto simp: ex_order_simps split: if_splits)
qed

theorem claim_next_fifo_witness:
  "j_priority (ex_waiting ''a'' 2) < j_priority (ex_waiting ''b'' 3)
     \<or> (j_priority (ex_waiting ''a'' 2) = j_priority (ex_waiting ''b'' 3)
        \<and> j_enqueued_seq (ex_waiting ''a'' 2) \<le> j_enqueued_seq (ex_waiting ''b'' 3))"
proof -
  let ?s = "ex_state [ex_waiting ''a'' 2, ex_waiting ''b'' 3]"
  let ?c = "lease_job ex_ext ''w'' ''t1'' 10 6 (ex_waiting ''a'' 2)"
  obtain t where t: "claim_next ex_ext ''w'' ''t1'' 10 6 ?s = (Inr (Some ?c), t)"
    by (simp add: ex_claim_simps)
  show ?thesis
    by (rule claim_next_fifo [OF ex_state_inv(4) t, where k = "''b''"]) (simp_all add: ex_simps lease_job_def)
qed

text \<open>
  Promoting due jobs moves exactly the delayed jobs whose time has come: none of them stays
  delayed, the result is their number, and every other job is as before.
\<close>

theorem promote_due_jobs_exact:
  assumes "q_inv s"
  shows "fst (promote_due_jobs ext now s) =
      Inr (length (filter (\<lambda>(_, j). j_state j = Delayed \<and> j_scheduled_at j \<le> now) (q_jobs s)))
    \<and> (\<forall>i j. get_job_at s i = Some j \<longrightarrow>
        (\<exists>n. get_job_at (snd (promote_due_jobs ext now s)) i =
          Some (if j_state j = Delayed \<and> j_scheduled_at j \<le> now
                then j\<lparr>j_state := Waiting, j_enqueued_seq := n\<rparr> else j)))"
proof -
  let ?P = "\<lambda>j. j_state j = Delayed \<and> j_scheduled_at j \<le> now"
  have ids: "distinct (map j_id (due_jobs ext now s))" by (rule distinct_due_jobs [OF assms])
  have "fst (promote_due ext now s) = length (due_jobs ext now s)"
    unfolding promote_due_def using due_jobs_iff [OF assms]
    by (subst promote_fold_count [OF ids]) auto
  also have "\<dots> = length (filter ?P (hash_values (ext_hash_rank ext) (q_jobs s)))"
    by (simp add: due_jobs_def)
  also have "\<dots> = length (filter ?P (map snd (q_jobs s)))"
    by (rule length_filter_hash_values)
  also have "\<dots> = length (filter (\<lambda>(_, j). ?P j) (q_jobs s))"
    by (simp add: filter_map comp_def case_prod_beta')
  finally show ?thesis
    using promote_due_other [OF assms] promote_due_due [OF assms]
    by (auto simp: promote_due_jobs_def case_prod_beta Let_def)
qed

theorem promote_due_jobs_exact_witness:
  "fst (promote_due_jobs ex_ext 6 (ex_state [ex_delayed ''a'' 3, ex_waiting ''b'' 3])) = Inr 1"
proof -
  have "length (filter (\<lambda>(_, j). j_state j = Delayed \<and> j_scheduled_at j \<le> 6)
      (q_jobs (ex_state [ex_delayed ''a'' 3, ex_waiting ''b'' 3]))) = 1"
    by (simp add: ex_simps)
  then show ?thesis using promote_due_jobs_exact [OF ex_state_inv(6), of ex_ext 6] by simp
qed

end
