(* ===== verification/Job_Queue_Finish.thy ===== *)
theory Job_Queue_Finish
  imports Job_Queue_Claim
begin

text \<open>
  Finishing, recovery, retention and the release of flow parents (\<open>complete_job\<close>,
  \<open>fail_active_job\<close>, \<open>recover_stalled_jobs\<close>, \<open>apply_finished_retention_locked\<close>,
  \<open>release_parent_if_ready_locked\<close> of \<open>src/src/job/memory.rs\<close>).
\<close>

section \<open>Operations that grant no lease\<close>

text \<open>Every job active after the change was active before it, with the same lease.\<close>

definition no_new_lease :: "qstate \<Rightarrow> qstate \<Rightarrow> bool" where
  "no_new_lease s t \<longleftrightarrow>
     (\<forall>i k. get_job_at t i = Some k \<and> j_state k = Active \<longrightarrow>
        (\<exists>j. get_job_at s i = Some j \<and> j_state j = Active \<and> j_lease_expires_at j = j_lease_expires_at k))"

named_theorems lease_intro

lemma no_new_lease_refl [simp, intro!]: "no_new_lease s s"
  by (simp add: no_new_lease_def)

lemma no_new_lease_trans: "no_new_lease s t \<Longrightarrow> no_new_lease t u \<Longrightarrow> no_new_lease s u"
  unfolding no_new_lease_def by metis

lemma no_new_lease_jobs: "no_new_lease s t \<Longrightarrow> q_jobs u = q_jobs t \<Longrightarrow> no_new_lease s u"
  by (simp add: no_new_lease_def)

lemma no_new_lease_modify:
  assumes "no_new_lease s t"
    and "\<And>j. get_job_at t i = Some j \<Longrightarrow> j_state (f j) = Active \<Longrightarrow>
            j_state j = Active \<and> j_lease_expires_at (f j) = j_lease_expires_at j"
  shows "no_new_lease s (modify_job i f t)"
  using assms(1) assms(2) unfolding no_new_lease_def by (auto simp: map_option_case split: option.splits)

lemma no_new_lease_remove_all: "no_new_lease s t \<Longrightarrow> no_new_lease s (remove_all is t)"
  by (simp add: no_new_lease_def)

lemma no_new_lease_remove: "no_new_lease s t \<Longrightarrow> no_new_lease s (snd (remove_job_record i t))"
  by (simp add: no_new_lease_def)

lemma no_new_lease_retention [lease_intro]:
  "no_new_lease s t \<Longrightarrow> no_new_lease s (apply_finished_retention ext st ret now t)"
  by (auto simp: apply_finished_retention_def apply_retention_count_def apply_retention_age_def Let_def
      split: option.split intro!: no_new_lease_remove_all)

lemma no_new_lease_retire [lease_intro]:
  "no_new_lease s t \<Longrightarrow> no_new_lease s (retire_failed ext i f now t)"
  "no_new_lease s t \<Longrightarrow> no_new_lease s (retire_completed ext i f now t)"
  by (auto simp: retire_failed_def retire_completed_def split: option.split
      intro: no_new_lease_remove no_new_lease_retention)

lemma no_new_lease_insert:
  "no_new_lease s t \<Longrightarrow> j_state j \<noteq> Active \<Longrightarrow> no_new_lease s (snd (insert_new_job j now t))"
  by (auto simp: no_new_lease_def insert_new_job_def assign_waiting_order_def Let_def case_prod_beta)

lemma no_new_lease_insert_all:
  "no_new_lease s t \<Longrightarrow> (\<And>c. c \<in> set cs \<Longrightarrow> j_state c \<noteq> Active) \<Longrightarrow>
   no_new_lease s (snd (insert_new_jobs cs now t))"
  by (induction cs arbitrary: t) (auto simp: Let_def case_prod_beta intro!: no_new_lease_insert)

lemma prepare_state [simp]: "j_state (prepare_deduplicated_next_job ext j now) \<noteq> Active"
  by (simp add: prepare_deduplicated_next_job_def Let_def)

lemma no_new_lease_enqueue [lease_intro]:
  assumes "no_new_lease s t"
  shows "no_new_lease s (snd (enqueue_deduplicated_next ext o' now t))"
    "no_new_lease s (snd (enqueue_deduplicated_next_flow ext o' now t))"
proof -
  have d: "no_new_lease s (t\<lparr>q_deduplication_next := x\<rparr>)" "no_new_lease s (t\<lparr>q_deduplication_next_flows := y\<rparr>)" for x y
    using assms by (auto intro: no_new_lease_jobs)
  show "no_new_lease s (snd (enqueue_deduplicated_next ext o' now t))"
    using assms d by (auto simp: enqueue_deduplicated_next_def Let_def case_prod_beta push_child_def split: option.split
        intro!: no_new_lease_insert no_new_lease_modify)
  show "no_new_lease s (snd (enqueue_deduplicated_next_flow ext o' now t))"
    using assms d by (auto simp: enqueue_deduplicated_next_flow_def prepare_deduplicated_next_flow_def
        Let_def case_prod_beta split: option.split intro!: no_new_lease_insert no_new_lease_insert_all)
qed

lemma no_new_lease_next_or_flow [lease_intro]:
  "no_new_lease s t \<Longrightarrow> no_new_lease s (snd (enqueue_next_or_flow ext o' now t))"
  using no_new_lease_enqueue(1) [of s t ext o' now]
    no_new_lease_enqueue(2) [of s "snd (enqueue_deduplicated_next ext o' now t)" ext o' now]
  by (auto simp: enqueue_next_or_flow_def split: prod.split option.split)

lemma no_new_lease_record [lease_intro]: "no_new_lease s t \<Longrightarrow> no_new_lease s (record_in_parent c t)"
  by (erule no_new_lease_jobs) simp

lemma no_new_lease_emit [lease_intro]: "no_new_lease s t \<Longrightarrow> no_new_lease s (emit_event a b c d e t)"
  by (erule no_new_lease_jobs) simp

lemma no_new_lease_number: "no_new_lease s t \<Longrightarrow> no_new_lease s (snd (next_waiting_sequence t))"
  by (erule no_new_lease_jobs) simp

lemma no_new_lease_reschedule_parent [lease_intro]:
  "no_new_lease s t \<Longrightarrow> no_new_lease s (snd (reschedule_parent i d pv now p t))"
  by (auto simp: reschedule_parent_def Let_def case_prod_beta reset_parent_def
      intro!: no_new_lease_emit no_new_lease_modify no_new_lease_number)

lemma no_new_lease_parents [lease_intro]:
  assumes "no_new_lease s t"
  shows "no_new_lease s (snd (fail_waiting_parent ext i rs now t))"
    "no_new_lease s (snd (continue_parent_after_child_failure i now t))"
    "no_new_lease s (snd (defer_parent_failure_after_child_failure i c now t))"
  using assms
  by (auto simp: fail_waiting_parent_def continue_parent_after_child_failure_def
      defer_parent_failure_after_child_failure_def Let_def split: option.split
      intro!: no_new_lease_emit no_new_lease_retire(1) no_new_lease_modify no_new_lease_reschedule_parent)

lemma no_new_lease_release [lease_intro]:
  "no_new_lease s t \<Longrightarrow> no_new_lease s (snd (release_parent_if_ready ext i now t))"
  by (auto simp: release_parent_if_ready_def split: option.split
      intro!: no_new_lease_parents no_new_lease_reschedule_parent)

lemma no_new_lease_fold:
  assumes "no_new_lease s t" "\<And>x u. no_new_lease s u \<Longrightarrow> no_new_lease s (f x u)"
  shows "no_new_lease s (fold f xs t)"
  using assms by (induction xs arbitrary: t) auto

lemma no_new_lease_settle: "no_new_lease s t \<Longrightarrow> no_new_lease s (settle_terminal ext now f t)"
  by (auto simp: settle_terminal_def Let_def split: option.split intro!: lease_intro)

section \<open>Recovery of stalled jobs\<close>

lemma recover_fold_count: "rc_recovered (fst (fold (recover_one now) ds acc)) = rc_recovered (fst acc) + length ds"
proof (induction ds arbitrary: acc)
  case (Cons d ds)
  have "rc_recovered (note_failed_parent j rc) = rc_recovered rc" for j rc
    by (simp add: note_failed_parent_def split: option.split)
  then have "rc_recovered (fst (recover_one now d acc)) = rc_recovered (fst acc) + 1"
    by (simp add: recover_one_def Let_def case_prod_beta split: option.split)
  then show ?case using Cons by simp
qed simp

lemma recover_one_state: "get_job_at (snd (recover_one now d acc)) (j_id d) = Some k \<Longrightarrow> j_state k \<noteq> Active"
  by (auto simp: recover_one_def Let_def case_prod_beta split: option.splits if_splits)

lemma recover_fold_active:
  "get_job_at (snd (fold (recover_one now) ds acc)) i = Some k \<Longrightarrow> j_state k = Active \<Longrightarrow>
   i \<notin> j_id ` set ds \<and> get_job_at (snd acc) i = Some k"
proof (induction ds arbitrary: acc)
  case (Cons d ds)
  from Cons.IH [of "recover_one now d acc"] Cons.prems
  have "i \<notin> j_id ` set ds" "get_job_at (snd (recover_one now d acc)) i = Some k" by auto
  moreover from this Cons.prems(2) have "i \<noteq> j_id d" using recover_one_state by blast
  ultimately show ?case by (simp add: recover_one_jobs)
qed simp



section \<open>Leases guard the operations of a worker\<close>

definition holds_lease :: "qstate \<Rightarrow> job_id \<Rightarrow> string \<Rightarrow> bool" where
  "holds_lease s i tok =
     (case get_job_at s i of
        Some j \<Rightarrow> j_state j = Active \<and> j_lock_token j = Some tok
      | None \<Rightarrow> False)"

lemma require_lease_refused: "\<not> holds_lease s i tok \<Longrightarrow> \<exists>e. require_lease i tok act s = Inl e"
  by (auto simp: holds_lease_def require_lease_def require_active_def require_lock_token_def split: option.splits)

text \<open>
  C8. Only the holder of the lease may finish, renew, delay, release or extend a job: with any
  other token, or for a job that is not active, every such operation returns an error and
  leaves the queue exactly as it was.
\<close>

theorem lease_required:
  assumes "\<not> holds_lease s i tok"
  shows "(\<exists>e. complete_job ext i tok v uuid now s = (Inl e, s))
    \<and> (\<exists>e. fail_active_job ext i tok err now ar s = (Inl e, s))
    \<and> (\<exists>e. renew ext i tok d now s = (Inl e, s))
    \<and> (\<exists>e. delay_active ext i tok d now s = (Inl e, s))
    \<and> (\<exists>e. release_active i tok now s = (Inl e, s))
    \<and> (\<exists>e. add_flow_children_at ext q i tok specs uuids now s = (Inl e, s))"
proof -
  obtain e where e: "require_lease i tok act s = Inl (e act)" for act
    using require_lease_refused [OF assms] by metis
  have "\<exists>e. add_flow_children_at ext q i tok specs uuids now s = (Inl e, s)"
  proof -
    obtain e' where "and_then (validate_flow_child_jobs i (child_jobs_of ext q i specs uuids now))
        (\<lambda>_. require_flow_parent i tok s) = Inl e'"
      by (cases "validate_flow_child_jobs i (child_jobs_of ext q i specs uuids now)")
         (auto simp: require_flow_parent_def e)
    then show ?thesis
      by (cases "validate_specs ext specs now") (auto simp: add_flow_children_at_def Let_def)
  qed
  then show ?thesis
    by (simp add: complete_job_def fail_active_job_def renew_def delay_active_def release_active_def e)
qed

theorem lease_required_witness:
  "\<exists>e. complete_job ex_ext ''a'' ''other'' JNull ''u'' 6 (ex_state [ex_active ''a'' ''tok'' 5])
     = (Inl e, ex_state [ex_active ''a'' ''tok'' 5])"
proof -
  have "\<not> holds_lease (ex_state [ex_active ''a'' ''tok'' 5]) ''a'' ''other''"
    by (simp add: holds_lease_def ex_simps)
  from lease_required [OF this] show ?thesis by blast
qed

section \<open>Completion\<close>

definition child_unprocessed :: "jobs_map \<Rightarrow> flow_index option \<Rightarrow> job_id \<Rightarrow> bool" where
  "child_unprocessed jobs index c =
     (\<not> flow_dependency_index_contains index c
      \<and> (case map_of jobs c of Some ch \<Rightarrow> \<not> is_terminal (j_state ch) | None \<Rightarrow> False))"

definition child_failed :: "jobs_map \<Rightarrow> flow_index option \<Rightarrow> job_id \<Rightarrow> bool" where
  "child_failed jobs index c =
     (\<not> flow_dependency_index_contains index c
      \<and> (case map_of jobs c of
           Some ch \<Rightarrow> j_state ch = Failed \<and> \<not> child_failure_releases_dependency ch
         | None \<Rightarrow> False))"

lemma is_terminal_cases: "\<not> is_terminal st \<longleftrightarrow> st \<noteq> Completed \<and> st \<noteq> Failed"
  by (auto simp: is_terminal_def)

lemma count_child_fields:
  "fc_unprocessed (count_child jobs index c k) = fc_unprocessed k + (if child_unprocessed jobs index c then 1 else 0)"
  "fc_failed (count_child jobs index c k) = fc_failed k + (if child_failed jobs index c then 1 else 0)"
  by (auto simp: count_child_def child_unprocessed_def child_failed_def child_failure_releases_dependency_def
      is_terminal_cases split: option.split)

lemma count_children:
  "fc_unprocessed (fold (count_child jobs index) cs k) = fc_unprocessed k + length (filter (child_unprocessed jobs index) cs)"
  "fc_failed (fold (count_child jobs index) cs k) = fc_failed k + length (filter (child_failed jobs index) cs)"
  by (induction cs arbitrary: k) (simp_all add: count_child_fields)

lemma dependencies_resolved:
  assumes "ensure_flow_dependencies_are_resolved j jobs index act = Inr u"
  shows "\<forall>c\<in>set (j_child_ids j). \<not> child_unprocessed jobs index c \<and> \<not> child_failed jobs index c"
  using assms
  by (auto simp: ensure_flow_dependencies_are_resolved_def flow_dependency_counts_def count_children
      Let_def filter_empty_conv split: if_splits)

text \<open>
  C22. A job completes only with all its dependencies resolved: if completion succeeds, the
  caller held the lease, and every retained child that the side index does not account for has
  completed, or failed under a policy that releases the parent.
\<close>

theorem complete_job_resolved:
  assumes "complete_job ext i tok v uuid now s = (Inr c, t)"
  shows "\<exists>j. get_job_at s i = Some j \<and> holds_lease s i tok \<and> c = complete_job_record v now j
    \<and> (\<forall>k ch. k \<in> set (j_child_ids j) \<and> get_job_at s k = Some ch
         \<and> \<not> flow_dependency_index_contains (map_of (q_flow_dependencies s) i) k \<longrightarrow>
         j_state ch = Completed \<or> (j_state ch = Failed \<and> child_failure_releases_dependency ch))"
proof -
  obtain j where j: "require_lease i tok ''complete'' s = Inr j"
    using assms by (cases "require_lease i tok ''complete'' s") (auto simp: complete_job_def)
  obtain u where u: "ensure_flow_dependencies_are_resolved j (q_jobs s) (map_of (q_flow_dependencies s) i) ''complete'' = Inr u"
    using assms j by (cases "ensure_flow_dependencies_are_resolved j (q_jobs s) (map_of (q_flow_dependencies s) i) ''complete''")
      (auto simp: complete_job_def)
  have "c = complete_job_record v now j"
    using assms j u by (auto simp: complete_job_def Let_def case_prod_beta split: sum.splits)
  then show ?thesis
    using require_leaseD [OF j] dependencies_resolved [OF u]
    by (auto simp: holds_lease_def child_unprocessed_def child_failed_def is_terminal_cases)
qed

theorem complete_job_resolved_witness:
  "holds_lease (ex_state [ex_active ''a'' ''tok'' 5]) ''a'' ''tok''"
proof -
  have "fst (complete_job ex_ext ''a'' ''tok'' JNull ''u'' 6 (ex_state [ex_active ''a'' ''tok'' 5]))
      = Inr (complete_job_record JNull 6 (ex_active ''a'' ''tok'' 5))"
    by (simp add: complete_job_def require_lease_def require_active_def require_lock_token_def
        ensure_flow_dependencies_are_resolved_def flow_dependency_counts_def record_in_parent_def
        retire_completed_def removes_completed_immediately_def completed_retention_def
        enqueue_next_or_flow_def enqueue_deduplicated_next_def enqueue_deduplicated_next_flow_def
        job_deduplication_id_def enqueue_repeat_def next_repeat_job_def complete_job_record_def
        modify_job_def ex_simps)
  then obtain t where "complete_job ex_ext ''a'' ''tok'' JNull ''u'' 6 (ex_state [ex_active ''a'' ''tok'' 5])
      = (Inr (complete_job_record JNull 6 (ex_active ''a'' ''tok'' 5)), t)" by (metis prod.collapse)
  from complete_job_resolved [OF this] show ?thesis by blast
qed

section \<open>Failure and retries\<close>



section \<open>Release of flow parents\<close>

lemma scan_children_Some:
  "scan_children jobs cs f d = Some r \<Longrightarrow> c \<in> set cs \<Longrightarrow> map_of jobs c = Some ch \<Longrightarrow> is_terminal (j_state ch)"
  by (induction cs arbitrary: f d) (auto split: option.splits job_state.splits if_splits)

lemma scan_children_not_None:
  "(\<And>c ch. c \<in> set cs \<Longrightarrow> map_of jobs c = Some ch \<Longrightarrow> is_terminal (j_state ch)) \<Longrightarrow> scan_children jobs cs f d \<noteq> None"
proof (induction cs arbitrary: f d)
  case (Cons c cs)
  have IH: "scan_children jobs cs f d \<noteq> None" for f d
    using Cons.prems by (intro Cons.IH) auto
  show ?case
    using Cons.prems [of c] IH by (cases "map_of jobs c") (auto simp: is_terminal_def split: job_state.split)
qed simp

lemma reschedule_parent_state:
  assumes "get_job_at s p = Some j"
  shows "\<exists>k. get_job_at (snd (reschedule_parent p d pv now j s)) p = Some k \<and> j_state k \<in> {Waiting, Delayed}"
  using assms state_after_dependencies_cases [of "j_scheduled_at j" now]
  by (auto simp: reschedule_parent_def Let_def case_prod_beta reset_parent_def)

lemma only_removesD:
  assumes "only_removes st s t"
  shows "get_job_at t k = get_job_at s k \<or> get_job_at t k = None"
  using spec [OF conjunct2 [OF assms [unfolded only_removes_def]], of k] by (elim disjE conjE) simp_all

lemma retire_failed_at:
  assumes "q_inv t" "get_job_at t p = Some f"
  shows "get_job_at (retire_failed ext p f' now t) p = None \<or> get_job_at (retire_failed ext p f' now t) p = Some f"
proof -
  have "get_job_at (apply_finished_retention ext Failed ret now t) p \<in> {None, Some f}" for ret
  proof -
    have "only_removes Failed t (apply_finished_retention ext Failed ret now t)"
      by (rule retention(2) [OF refines_refl assms(1)]) simp
    then have "get_job_at (apply_finished_retention ext Failed ret now t) p = get_job_at t p
        \<or> get_job_at (apply_finished_retention ext Failed ret now t) p = None"
      by (rule only_removesD)
    then show ?thesis using assms(2) by auto
  qed
  then show ?thesis using assms(2) by (auto simp: retire_failed_def split: option.split)
qed

lemma fail_waiting_parent_state:
  assumes inv: "q_inv s" and p: "get_job_at s p = Some j" "\<not> is_terminal (j_state j)"
    and k: "get_job_at (snd (fail_waiting_parent ext p rs now s)) p = Some k"
  shows "j_state k = Failed"
proof -
  let ?f = "j\<lparr>j_state := Failed, j_finished_at := Some now, j_worker_id := None, j_lock_token := None,
      j_lease_expires_at := None, j_deferred_failure := None, j_failed_reason := Some rs\<rparr>"
  let ?t = "modify_job p (\<lambda>_. ?f) s"
  have "refines s ?t"
    using p by (intro refines_modify refines_refl, cases "j_state j") (auto simp: step_simps q_inv_job(3))
  then have "q_inv ?t" using inv refines_inv by blast
  from retire_failed_at [OF this, of p ?f ext ?f now] show ?thesis
    using p k by (auto simp: fail_waiting_parent_def Let_def)
qed

text \<open>
  A parent leaves the waiting-children state exactly when it should: as long as a listed
  child is retained and not finished nothing changes at all, and as soon as every retained
  child is finished the parent is scheduled, failed or removed.
\<close>

theorem release_parent_exact:
  assumes "q_inv s" "get_job_at s p = Some j" "j_state j = WaitingChildren"
    and "t = snd (release_parent_if_ready ext p now s)"
  shows "if \<exists>c ch. c \<in> set (j_child_ids j) \<and> get_job_at s c = Some ch \<and> \<not> is_terminal (j_state ch)
    then t = s else get_job_at t p = None \<or> (\<exists>k. get_job_at t p = Some k \<and> j_state k \<in> {Waiting, Delayed, Failed})"
proof (cases "scan_children (q_jobs s) (j_child_ids j) None None")
  case None
  then have "\<exists>c ch. c \<in> set (j_child_ids j) \<and> get_job_at s c = Some ch \<and> \<not> is_terminal (j_state ch)"
    using scan_children_not_None by metis
  then show ?thesis using assms None by (simp add: release_parent_if_ready_def)
next
  case (Some r)
  obtain f d where r: "r = (f, d)" by fastforce
  have none: "\<not> (\<exists>c ch. c \<in> set (j_child_ids j) \<and> get_job_at s c = Some ch \<and> \<not> is_terminal (j_state ch))"
    using scan_children_Some [OF Some] by blast
  have "get_job_at t p = None \<or> (\<exists>k. get_job_at t p = Some k \<and> j_state k \<in> {Waiting, Delayed, Failed})"
  proof (cases "d = None \<and> f \<noteq> None")
    case True
    then obtain c rs where "t = snd (fail_waiting_parent ext p (child_failed_reason c rs) now s)"
      using assms Some r by (auto simp: release_parent_if_ready_def)
    then show ?thesis
      using fail_waiting_parent_state [OF assms(1,2)] assms(3)
      by (cases "get_job_at t p") auto
  next
    case False
    then obtain df pv where "t = snd (reschedule_parent p df pv now j s)"
      using assms Some r by (auto simp: release_parent_if_ready_def defer_parent_failure_after_child_failure_def
          split: option.splits)
    then show ?thesis using reschedule_parent_state [OF assms(2)] by blast
  qed
  then show ?thesis unfolding if_not_P [OF none] .
qed

text \<open>A parent with one finished child, for the witness.\<close>

definition ex_parent :: "job_id \<Rightarrow> job_id list \<Rightarrow> job" where
  "ex_parent i cs = (ex_job i)\<lparr>j_state := WaitingChildren, j_child_ids := cs\<rparr>"

definition ex_completed :: "job_id \<Rightarrow> instant \<Rightarrow> job" where
  "ex_completed i t = (ex_job i)\<lparr>j_state := Completed, j_finished_at := Some t\<rparr>"

theorem release_parent_exact_witness:
  "get_job_at (snd (release_parent_if_ready ex_ext ''p'' 6 (ex_state [ex_parent ''p'' [''c''], ex_completed ''c'' 5]))) ''p'' = None
   \<or> (\<exists>k. get_job_at (snd (release_parent_if_ready ex_ext ''p'' 6
          (ex_state [ex_parent ''p'' [''c''], ex_completed ''c'' 5]))) ''p'' = Some k \<and> j_state k \<in> {Waiting, Delayed, Failed})"
proof -
  let ?s = "ex_state [ex_parent ''p'' [''c''], ex_completed ''c'' 5]"
  have inv: "q_inv ?s" by (simp add: ex_inv_simps ex_parent_def ex_completed_def ex_simps)
  have p: "get_job_at ?s ''p'' = Some (ex_parent ''p'' [''c''])" "j_state (ex_parent ''p'' [''c'']) = WaitingChildren"
    by (simp_all add: ex_parent_def ex_completed_def ex_simps)
  have fin: "\<not> (\<exists>c ch. c \<in> set (j_child_ids (ex_parent ''p'' [''c''])) \<and> get_job_at ?s c = Some ch \<and> \<not> is_terminal (j_state ch))"
    by (simp add: ex_parent_def ex_completed_def ex_simps)
  show ?thesis using release_parent_exact [OF inv p refl, of ex_ext 6] unfolding if_not_P [OF fin] .
qed

section \<open>Retention of finished jobs\<close>

lemma sorted_take_drop:
  assumes "a \<in> set (take n (Sorting_Algorithms.sort cmp xs))" "b \<in> set (drop n (Sorting_Algorithms.sort cmp xs))"
  shows "compare cmp a b \<noteq> Greater"
proof -
  let ?ys = "Sorting_Algorithms.sort cmp xs"
  have "sorted_wrt (\<lambda>a b. compare cmp a b \<noteq> Greater) (take n ?ys @ drop n ?ys)"
    by (simp add: sorted_imp_sorted_wrt)
  then show ?thesis using assms unfolding sorted_wrt_append by blast
qed

lemma finished_entries_iff:
  assumes "q_inv s" "is_terminal st"
  shows "(i, tm) \<in> set (finished_entries ext st s) \<longleftrightarrow>
    (\<exists>j. get_job_at s i = Some j \<and> j_state j = st \<and> j_finished_at j = Some tm)"
proof
  show "(i, tm) \<in> set (finished_entries ext st s) \<Longrightarrow> \<exists>j. get_job_at s i = Some j \<and> j_state j = st \<and> j_finished_at j = Some tm"
    by (rule finished_entries_state [OF assms(1)])
  assume "\<exists>j. get_job_at s i = Some j \<and> j_state j = st \<and> j_finished_at j = Some tm"
  then obtain j where j: "get_job_at s i = Some j" "j_state j = st" "j_finished_at j = Some tm" by blast
  then have "j_id j = i" by (intro q_inv_job(1) [OF assms(1)])
  then show "(i, tm) \<in> set (finished_entries ext st s)"
    using j in_hash_values [OF assms(1), of j "ext_hash_rank ext"]
    by (force simp: finished_entries_def finished_entry_def map_filter_def)
qed

lemma finished_job_entry:
  assumes "q_inv s" "is_terminal st" "get_job_at s i = Some j" "j_state j = st"
  obtains tm where "j_finished_at j = Some tm" "(i, tm) \<in> set (finished_entries ext st s)"
proof -
  obtain tm where tm: "j_finished_at j = Some tm"
    using q_inv_job(2) [OF assms(1,3)] assms(2,4) by (auto simp: job_wf_def)
  then show ?thesis using that finished_entries_iff [OF assms(1,2)] assms(3,4) by blast
qed

lemma retention_count_ids:
  assumes inv: "q_inv s" and st: "is_terminal st" and n: "rt_count ret = Some n"
    and es: "es = Sorting_Algorithms.sort retention_cmp (finished_entries ext st s)"
    and k: "get_job_at (apply_retention_count ext st ret s) i = Some j" "j_state j = st"
  obtains tm where "get_job_at s i = Some j" "j_finished_at j = Some tm" "(i, tm) \<in> set (take n es)"
proof -
  have g: "get_job_at s i = Some j" and nin: "i \<notin> fst ` set (drop n es)"
    using k n by (auto simp: apply_retention_count_def es split: if_splits)
  obtain tm where tm: "j_finished_at j = Some tm" "(i, tm) \<in> set (finished_entries ext st s)"
    using finished_job_entry [OF inv st g k(2)] by blast
  then have "(i, tm) \<in> set (take n es @ drop n es)" by (simp add: es)
  then have "(i, tm) \<in> set (take n es)" using nin by (force simp del: append_take_drop_id)
  then show ?thesis using that g tm by blast
qed

text \<open>
  Count-based retention: after it runs at most the configured number of jobs of the state
  remain, and with no age limit the ones removed finished no later than any that stays.
\<close>

theorem apply_finished_retention_count:
  assumes "q_inv s" "is_terminal st" "rt_count ret = Some n"
    and "t = apply_finished_retention ext st ret now s"
  shows "card {i. \<exists>j. get_job_at t i = Some j \<and> j_state j = st} \<le> n
    \<and> (rt_age ret = None \<longrightarrow>
        (\<forall>i j k l. get_job_at s i = Some j \<and> j_state j = st \<and> get_job_at t i = None
           \<and> get_job_at t k = Some l \<and> j_state l = st \<longrightarrow> the (j_finished_at j) \<le> the (j_finished_at l)))"
proof -
  define s1 where "s1 = apply_retention_age ext st ret now s"
  define es where "es = Sorting_Algorithms.sort retention_cmp (finished_entries ext st s1)"
  have na: "st \<noteq> Active" using assms(2) by auto
  have inv1: "q_inv s1"
    unfolding s1_def using retention_age [OF refines_refl assms(1) na] refines_inv assms(1) by blast
  have t: "t = apply_retention_count ext st ret s1" by (simp add: assms(4) apply_finished_retention_def s1_def)
  have kept: "\<exists>tm. j_finished_at j = Some tm \<and> (i, tm) \<in> set (take n es)"
    if "get_job_at t i = Some j" "j_state j = st" for i j
    using retention_count_ids [OF inv1 assms(2,3) es_def that(1) [unfolded t] that(2)] by blast
  have "{i. \<exists>j. get_job_at t i = Some j \<and> j_state j = st} \<subseteq> fst ` set (take n es)"
    using kept by force
  then have "card {i. \<exists>j. get_job_at t i = Some j \<and> j_state j = st} \<le> card (fst ` set (take n es))"
    by (intro card_mono) auto
  also have "\<dots> \<le> length (take n es)" by (metis card_image_le card_length List.finite_set le_trans)
  also have "\<dots> \<le> n" by simp
  finally have bound: "card {i. \<exists>j. get_job_at t i = Some j \<and> j_state j = st} \<le> n" .
  have "the (j_finished_at j) \<le> the (j_finished_at l)"
    if age: "rt_age ret = None" and j: "get_job_at s i = Some j" "j_state j = st" "get_job_at t i = None"
      and l: "get_job_at t k = Some l" "j_state l = st" for i j k l
  proof -
    have s1: "s1 = s" using age by (simp add: s1_def apply_retention_age_def)
    obtain tm where tm: "j_finished_at j = Some tm" using finished_job_entry [OF assms(1,2) j(1,2)] by blast
    have "i \<in> fst ` set (drop n es)"
      using j assms(3) by (auto simp: t s1 apply_retention_count_def es_def split: if_splits)
    then obtain tm' where d: "(i, tm') \<in> set (drop n es)" by force
    then have "(i, tm') \<in> set (finished_entries ext st s)" using in_set_dropD by (fastforce simp: es_def s1)
    then have "tm' = tm" using finished_entries_iff [OF assms(1,2)] j(1) tm by auto
    moreover obtain lm where lm: "j_finished_at l = Some lm" "(k, lm) \<in> set (take n es)" using kept [OF l] by blast
    ultimately have "compare retention_cmp (k, lm) (i, tm) \<noteq> Greater"
      using sorted_take_drop [OF lm(2) [unfolded es_def] d [unfolded es_def]] by simp
    then show ?thesis using tm lm by (auto simp: retention_cmp_def compare_then_with compare_by_key compare_reversed_apply split: if_splits)
  qed
  then show ?thesis using bound by blast
qed

theorem apply_finished_retention_count_witness:
  "card {i. \<exists>j. get_job_at (apply_finished_retention ex_ext Completed (retention_count 1) 9
       (ex_state [ex_completed ''a'' 5, ex_completed ''b'' 7])) i = Some j \<and> j_state j = Completed} \<le> 1"
proof -
  have inv: "q_inv (ex_state [ex_completed ''a'' 5, ex_completed ''b'' 7])"
    by (simp add: ex_inv_simps ex_completed_def ex_simps)
  have "is_terminal Completed" "rt_count (retention_count 1) = Some 1" by (simp_all add: retention_count_def)
  from apply_finished_retention_count [OF inv this refl] show ?thesis by blast
qed

end
