(* ===== verification/Job_Queue_Reading.thy ===== *)
theory Job_Queue_Reading
  imports Job_Queue_Finish
begin

text \<open>
  What the reading operations of \<open>InMemoryJobQueue\<close> report: statistics, pages of jobs, the
  event stream, job logs, and the round trip of the queue state through a snapshot.
\<close>

section \<open>Statistics\<close>

definition count_state :: "job_state \<Rightarrow> job list \<Rightarrow> nat" where
  "count_state st js = length (filter (\<lambda>j. j_state j = st) js)"

lemma stats_fold:
  "fold stats_add js st =
     \<lparr>st_total = st_total st, st_waiting = st_waiting st + count_state Waiting js,
      st_delayed = st_delayed st + count_state Delayed js, st_active = st_active st + count_state Active js,
      st_waiting_children = st_waiting_children st + count_state WaitingChildren js,
      st_completed = st_completed st + count_state Completed js, st_failed = st_failed st + count_state Failed js,
      st_paused = st_paused st\<rparr>"
proof (induction js arbitrary: st)
  case Nil
  then show ?case by (simp add: count_state_def)
next
  case (Cons j js)
  show ?case unfolding fold_simps Cons by (cases "j_state j") (simp_all add: stats_add_def count_state_def)
qed

lemma count_state_total:
  "length js = count_state Waiting js + count_state Delayed js + count_state Active js
     + count_state WaitingChildren js + count_state Completed js + count_state Failed js"
proof (induction js)
  case (Cons j js)
  then show ?case by (cases "j_state j") (simp_all add: count_state_def)
qed (simp add: count_state_def)

lemma count_state_hash: "count_state st (hash_values r m) = length (filter (\<lambda>(_, j). j_state j = st) m)"
  by (simp add: count_state_def length_filter_hash_values filter_map comp_def case_prod_beta')

text \<open>
  The statistics partition the queue: each counter is the number of jobs in its state, as
  \<open>counts_by_state\<close> reports it, and the counters add up to the total.
\<close>

theorem stats_partition:
  "\<exists>st. stats ext s = Inr st
     \<and> st_total st = st_waiting st + st_delayed st + st_active st + st_waiting_children st
                     + st_completed st + st_failed st
     \<and> counts_by_state [] s =
         Inr [\<lparr>sc_state = Waiting, sc_count = st_waiting st\<rparr>, \<lparr>sc_state = Delayed, sc_count = st_delayed st\<rparr>,
              \<lparr>sc_state = Active, sc_count = st_active st\<rparr>,
              \<lparr>sc_state = WaitingChildren, sc_count = st_waiting_children st\<rparr>,
              \<lparr>sc_state = Completed, sc_count = st_completed st\<rparr>, \<lparr>sc_state = Failed, sc_count = st_failed st\<rparr>]"
proof -
  have "distinct all_states" by (simp add: all_states_def)
  then have u: "unique_states [] = [Waiting, Delayed, Active, WaitingChildren, Completed, Failed]"
    by (simp add: unique_states_def unique_in_order_distinct) (simp add: all_states_def)
  show ?thesis
    using count_state_total [of "hash_values (ext_hash_rank ext) (q_jobs s)"]
    by (simp add: stats_def stats_fold counts_by_state_def u count_state_hash)
qed

section \<open>Listing\<close>

definition listed_jobs :: "externals \<Rightarrow> job_list_options \<Rightarrow> qstate \<Rightarrow> job list" where
  "listed_jobs ext o' s =
     (let jobs = Sorting_Algorithms.sort compare_list_order
            (filter (\<lambda>j. j_state j \<in> set (selected_states o')) (hash_values (ext_hash_rank ext) (q_jobs s)))
      in if lo_ascending o' then jobs else rev jobs)"

lemma take_pages: "concat (map (\<lambda>p. take k (drop (p * k) xs)) [0..<m]) = take (m * k) xs"
  by (induction m) (simp_all add: take_add [symmetric] add.commute)

lemma slice_eq: "take (min (a + k) (length xs) - min a (length xs)) (drop (min a (length xs)) xs) = take k (drop a xs)"
  by (cases "a \<le> length xs") (auto simp: min_def)

lemma length_listed: "length (listed_jobs ext o' s) \<le> length (q_jobs s)"
  by (simp add: listed_jobs_def Let_def) (metis length_filter_le length_hash_values)

text \<open>
  Listing by pages enumerates every job in a selected state exactly once: the pages of
  size \<open>k\<close>, put after each other, are prefixes of one list without repetition that holds
  exactly the selected jobs, and each page reports the full number.
\<close>

theorem list_jobs_pages:
  assumes "q_inv s" "0 < k" "length (q_jobs s) + k \<le> u64_max" "lo_limit o' = k"
  shows "\<exists>all. (\<forall>j. j \<in> set all \<longleftrightarrow> get_job_at s (j_id j) = Some j \<and> j_state j \<in> set (selected_states o'))
    \<and> distinct (map j_id all)
    \<and> (\<forall>p. \<exists>page. list_jobs ext (o'\<lparr>lo_offset := p * k\<rparr>) s = Inr page
          \<and> jp_jobs page = take k (drop (p * k) all) \<and> jp_total page = length all)
    \<and> (\<forall>m. concat (map (\<lambda>p. take k (drop (p * k) all)) [0..<m]) = take (m * k) all)"
proof -
  let ?all = "listed_jobs ext o' s"
  have "\<forall>j. j \<in> set ?all \<longleftrightarrow> get_job_at s (j_id j) = Some j \<and> j_state j \<in> set (selected_states o')"
    using in_hash_values [OF assms(1)] by (auto simp: listed_jobs_def Let_def)
  moreover have "distinct (map j_id ?all)"
    using sorted_filter_ids [OF assms(1)] by (simp add: listed_jobs_def Let_def rev_map [symmetric])
  moreover have "\<exists>page. list_jobs ext (o'\<lparr>lo_offset := p * k\<rparr>) s = Inr page
          \<and> jp_jobs page = take k (drop (p * k) ?all) \<and> jp_total page = length ?all" for p
  proof -
    have sel: "selected_states (o'\<lparr>lo_offset := p * k\<rparr>) = selected_states o'"
      by (simp add: selected_states_def)
    have "u64_saturating_add (min (p * k) (length ?all)) k = min (p * k) (length ?all) + k"
      using assms(3) length_listed [of ext o' s] by (simp add: u64_saturating_add_def)
    moreover have "min (min (p * k) (length ?all) + k) (length ?all) = min (p * k + k) (length ?all)" by auto
    ultimately show ?thesis
      using assms(2,4) slice_eq [of "p * k" k ?all]
      by (simp add: list_jobs_def sel Let_def listed_jobs_def [unfolded Let_def, symmetric])
  qed
  ultimately show ?thesis using take_pages [of k ?all] by blast
qed

theorem list_jobs_pages_witness:
  "\<exists>all. ex_waiting ''a'' 2 \<in> set all \<and> distinct (map j_id all)
     \<and> (\<exists>page. list_jobs ex_ext (list_options_default\<lparr>lo_limit := 2, lo_offset := 0\<rparr>)
          (ex_state [ex_waiting ''a'' 2, ex_waiting ''b'' 3]) = Inr page \<and> jp_jobs page = take 2 all)"
proof -
  let ?s = "ex_state [ex_waiting ''a'' 2, ex_waiting ''b'' 3]"
  let ?o = "list_options_default\<lparr>lo_limit := 2\<rparr>"
  have len: "length (q_jobs ?s) + 2 \<le> u64_max" by (simp add: ex_simps u64_max_def)
  have a: "get_job_at ?s (j_id (ex_waiting ''a'' 2)) = Some (ex_waiting ''a'' 2)
      \<and> j_state (ex_waiting ''a'' 2) \<in> set (selected_states ?o)"
    by (simp add: ex_simps selected_states_def list_options_default_def all_states_def)
  obtain all where all: "\<forall>j. j \<in> set all \<longleftrightarrow> get_job_at ?s (j_id j) = Some j \<and> j_state j \<in> set (selected_states ?o)"
      "distinct (map j_id all)"
      "\<forall>p. \<exists>page. list_jobs ex_ext (?o\<lparr>lo_offset := p * 2\<rparr>) ?s = Inr page
          \<and> jp_jobs page = take 2 (drop (p * 2) all) \<and> jp_total page = length all"
    using list_jobs_pages [OF ex_state_inv(4) _ len, of ?o ex_ext] by auto
  show ?thesis using all(2) spec [OF all(3), of 0] a all(1) by (intro exI [of _ all]) auto
qed

section \<open>Events\<close>

lemma parse_event_id:
  assumes "int n \<le> i64_max"
  shows "parse_stream_id (show_nat n @ ''-0'') = Some (int n, 0)"
proof -
  have "CHR ''-'' \<notin> set (show_nat n)"
    using show_nat_digits [of n] by (auto simp: list_all_iff is_ascii_digit_def)
  then have "split_once (show_nat n @ ''-0'') (CHR ''-'') = Some (show_nat n, ''0'')"
    using split_once_append [of "CHR ''-''" "show_nat n" "''0''"] by simp
  moreover have "parse_u64 ''0'' = Some 0"
    by (simp add: parse_u64_def parse_digits_def is_ascii_digit_def digits_value_def char_digit_def u64_max_def Let_def)
  ultimately show ?thesis using parse_i64_show_nat [OF assms] by (simp add: parse_stream_id_def)
qed

lemma filter_events_drop:
  assumes "map f xs = map g [m..<m + length xs]" "\<And>k. m \<le> k \<Longrightarrow> k < m + length xs \<Longrightarrow> Q (g k) \<longleftrightarrow> a \<le> k"
    "\<And>x. x \<in> set xs \<Longrightarrow> P x \<longleftrightarrow> Q (f x)"
  shows "filter P xs = drop (a - m) xs"
  using assms
proof (induction xs arbitrary: m)
  case (Cons x xs)
  have up: "[m..<m + length (x # xs)] = m # [Suc m..<Suc m + length xs]"
    by (simp add: upt_conv_Cons del: upt_Suc)
  have fx: "f x = g m" and m: "map f xs = map g [Suc m..<Suc m + length xs]" using Cons.prems(1) unfolding up by auto
  have IH: "filter P xs = drop (a - Suc m) xs"
    using Cons.prems(2,3) by (intro Cons.IH m) auto
  have px: "P x \<longleftrightarrow> a \<le> m" using Cons.prems(2) [of m] Cons.prems(3) [of x] fx by simp
  show ?case
  proof (cases "a \<le> m")
    case True
    then show ?thesis using px IH by simp
  next
    case False
    then have "a - m = Suc (a - Suc m)" by simp
    then show ?thesis using px IH False by simp
  qed
qed simp

text \<open>
  The event stream is readable from any position: the retained events carry consecutive
  numbers ending at the event counter, reading from number \<open>a\<close> to the end yields, up to the
  limit, exactly the retained events numbered \<open>a\<close> or later in order, and the stream never
  holds more than the retention limit.
\<close>

theorem read_events_from:
  assumes "q_inv s" "int (q_event_sequence s) \<le> i64_max" "int a \<le> i64_max" "0 < limit"
    and "first = Suc (q_event_sequence s) - length (q_events s)"
  shows "read_events (show_nat a @ ''-0'') ''+'' limit s = Inr (take limit (drop (a - first) (q_events s)))
    \<and> (\<forall>k < length (q_events s). ev_id (q_events s ! k) = show_nat (first + k) @ ''-0'')
    \<and> length (q_events s) \<le> DEFAULT_JOB_EVENT_RETENTION"
proof -
  let ?evs = "q_events s"
  have "q_event_sequence s < u64_max" using assms(2) by (simp add: i64_max_def u64_max_def)
  then have len: "length ?evs \<le> q_event_sequence s"
    and ids: "map ev_id ?evs = event_ids (q_event_sequence s) (length ?evs)"
    and ret: "length ?evs \<le> DEFAULT_JOB_EVENT_RETENTION"
    using assms(1) by (auto simp: q_inv_def events_inv_def events_numbered_def)
  have up: "Suc (q_event_sequence s) = first + length ?evs" using len assms(5) by simp
  have ids': "map ev_id ?evs = map (\<lambda>k. show_nat k @ ''-0'') [first..<first + length ?evs]"
    unfolding ids event_ids_def up by simp
  have range: "event_in_range ev (show_nat a @ ''-0'') ''+'' \<longleftrightarrow>
      (case parse_stream_id (ev_id ev) of None \<Rightarrow> False | Some e \<Rightarrow> (int a, 0) \<le> e)" for ev
    using parse_event_id [OF assms(3)] by (simp add: event_in_range_def split: option.split)
  have num: "(case parse_stream_id (show_nat k @ ''-0'') of None \<Rightarrow> False | Some e \<Rightarrow> (int a, 0) \<le> e) \<longleftrightarrow> a \<le> k"
    if "k < first + length ?evs" for k
  proof -
    have "int k \<le> i64_max" using that up assms(2) by simp
    then show ?thesis by (auto simp: parse_event_id less_eq_prod_def)
  qed
  have "filter (\<lambda>ev. event_in_range ev (show_nat a @ ''-0'') ''+'') ?evs = drop (a - first) ?evs"
    by (rule filter_events_drop [OF ids', where Q = "\<lambda>i. case parse_stream_id i of None \<Rightarrow> False | Some e \<Rightarrow> (int a, 0) \<le> e"])
       (simp_all add: range num)
  moreover have "ev_id (?evs ! k) = show_nat (first + k) @ ''-0''" if "k < length ?evs" for k
  proof -
    have "ev_id (?evs ! k) = map ev_id ?evs ! k" using that by simp
    then show ?thesis using that by (simp add: ids')
  qed
  ultimately show ?thesis using assms(4) ret by (simp add: read_events_def)
qed

theorem read_events_from_witness:
  "read_events (show_nat 1 @ ''-0'') ''+'' 10 (snd (pause 5 (ex_state []))) =
     Inr (take 10 (drop 0 (q_events (snd (pause 5 (ex_state []))))))"
proof -
  let ?s = "snd (pause 5 (ex_state []))"
  have inv: "q_inv ?s" using refines_inv [OF refines_pause(1) ex_state_inv(1)] .
  have n: "q_event_sequence ?s = 1" "length (q_events ?s) = 1"
    by (simp_all add: pause_def emit_event_def trim_events_def ex_simps u64_saturating_add_def u64_max_def
        DEFAULT_JOB_EVENT_RETENTION_def)
  show ?thesis
    using read_events_from [OF inv, of 1 10, OF _ _ _ refl] n by (simp add: i64_max_def)
qed

section \<open>Logs\<close>

text \<open>
  A log line is kept as the last line, the log stays a suffix of the old log with the new
  line, and a positive limit bounds its length; paging over the whole log returns it.
\<close>

theorem log_job_appends:
  assumes "log_job i line keep now s = (Inr j', t)"
  shows "\<exists>j dropped. get_job_at s i = Some j \<and> get_job_at t i = Some j'
    \<and> j_logs j @ [\<lparr>log_timestamp = now, log_line = line\<rparr>] = dropped @ j_logs j' \<and> j_logs j' \<noteq> []
    \<and> last (j_logs j') = \<lparr>log_timestamp = now, log_line = line\<rparr>
    \<and> (0 < keep \<longrightarrow> length (j_logs j') \<le> keep)
    \<and> get_logs i 0 (- 1) True t = Inr \<lparr>lp_logs = j_logs j', lp_count = length (j_logs j')\<rparr>"
proof -
  obtain j where j: "get_job_at s i = Some j" and j': "j' = append_log line keep now j"
    and t: "t = modify_job i (\<lambda>_. append_log line keep now j) s"
    using assms by (auto simp: log_job_def edit_job_def split: option.splits)
  let ?all = "j_logs j @ [\<lparr>log_timestamp = now, log_line = line\<rparr>]"
  obtain d where d: "j_logs j' = drop d ?all" "d \<le> length (j_logs j)" "0 < keep \<longrightarrow> length (drop d ?all) \<le> keep"
  proof
    let ?d = "if keep > 0 \<and> length ?all > keep then length ?all - keep else 0"
    show "j_logs j' = drop ?d ?all" "?d \<le> length (j_logs j)" "0 < keep \<longrightarrow> length (drop ?d ?all) \<le> keep"
      by (auto simp: j' append_log_def Let_def)
  qed
  have ne: "j_logs j' \<noteq> []" using d(1,2) by simp
  have "get_logs i 0 (- 1) True t = Inr \<lparr>lp_logs = j_logs j', lp_count = length (j_logs j')\<rparr>"
    using j ne by (simp add: get_logs_def t j' [symmetric] log_page_def redis_range_def normalize_redis_index_def Let_def
        nat_diff_distrib)
  then show ?thesis
    using j j' t d ne append_take_drop_id [of d ?all]
    by (intro exI [of _ j] exI [of _ "take d ?all"]) (auto simp: last_drop)
qed

theorem log_job_appends_witness:
  "\<exists>j'. fst (log_job ''a'' ''hello'' 5 6 (ex_state [ex_waiting ''a'' 2])) = Inr j' \<and> length (j_logs j') \<le> 5"
proof -
  let ?s = "ex_state [ex_waiting ''a'' 2]"
  have g: "get_job_at ?s ''a'' = Some (ex_waiting ''a'' 2)" by (simp add: ex_simps)
  then obtain j' t where l: "log_job ''a'' ''hello'' 5 6 ?s = (Inr j', t)"
    by (simp add: log_job_def edit_job_def)
  from log_job_appends [OF l] l show ?thesis by auto
qed

section \<open>Snapshots\<close>

lemma fold_update_distinct:
  "distinct (map fst kvs) \<Longrightarrow> keys_distinct m \<Longrightarrow> fst ` set kvs \<inter> fst ` set m = {} \<Longrightarrow>
   keys_distinct (fold (\<lambda>(k, v) m. AList.update k v m) kvs m)
   \<and> set (fold (\<lambda>(k, v) m. AList.update k v m) kvs m) = set kvs \<union> set m"
proof (induction kvs arbitrary: m)
  case (Cons kv kvs)
  obtain k v where kv: "kv = (k, v)" by fastforce
  have "k \<notin> fst ` set m" using Cons.prems(3) kv by auto
  then have s: "set (AList.update k v m) = insert (k, v) (set m)"
    using set_update_distinct [OF Cons.prems(2), of k v] by force
  have "keys_distinct (fold (\<lambda>(k, v) m. AList.update k v m) kvs (AList.update k v m))
      \<and> set (fold (\<lambda>(k, v) m. AList.update k v m) kvs (AList.update k v m)) = set kvs \<union> set (AList.update k v m)"
    using Cons.prems kv by (intro Cons.IH) (auto simp: s)
  then show ?case using kv s by simp
qed simp

lemma collect_map_distinct:
  assumes "distinct (map fst kvs)"
  shows "keys_distinct (collect_map kvs)" "set (collect_map kvs) = set kvs"
  using fold_update_distinct [OF assms, of "[]"] by (simp_all add: collect_map_def)

lemma map_eqI:
  assumes "keys_distinct m" "keys_distinct m'" "set m = set m'"
  shows "map_of m = map_of m'"
proof
  fix k
  show "map_of m k = map_of m' k"
    using assms keys_distinct_in [OF assms(1), of k] keys_distinct_in [OF assms(2), of k]
    by (cases "map_of m k"; cases "map_of m' k") auto
qed

text \<open>Rebuilding a map from its values, each of which determines its key.\<close>

lemma collect_values:
  assumes "keys_distinct m" and key: "\<And>k v. (k, v) \<in> set m \<Longrightarrow> f v = Some k"
    and vs: "mset vs = mset (map snd m)"
  shows "keys_distinct (collect_map (List.map_filter (\<lambda>v. map_option (\<lambda>k. (k, v)) (f v)) vs))"
    "map_of (collect_map (List.map_filter (\<lambda>v. map_option (\<lambda>k. (k, v)) (f v)) vs)) = map_of m"
proof -
  let ?g = "\<lambda>v. map_option (\<lambda>k. (k, v)) (f v)"
  have "List.map_filter ?g (map snd m) = m"
    using key by (induction m) (force simp: map_filter_def)+
  then have ms: "mset (List.map_filter ?g vs) = mset m"
    using vs by (metis (no_types, lifting) map_filter_def mset_filter mset_map)
  then have "set (List.map_filter ?g vs) = set m" by (metis set_mset_mset)
  moreover have "mset (map fst (List.map_filter ?g vs)) = mset (map fst m)" using ms by simp
  then have d: "distinct (map fst (List.map_filter ?g vs))"
    using assms(1) unfolding keys_distinct_def by (metis mset_eq_imp_distinct_iff)
  ultimately show "keys_distinct (collect_map (List.map_filter ?g vs))"
    "map_of (collect_map (List.map_filter ?g vs)) = map_of m"
    using collect_map_distinct [OF d] by (auto intro!: map_eqI assms(1))
qed

lemma map_filter_total: "List.map_filter (\<lambda>v. map_option (\<lambda>k. (k, v)) (Some (g v))) vs = map (\<lambda>v. (g v, v)) vs"
  by (simp add: map_filter_def)

lemma collect_indexes:
  assumes "keys_distinct m" and wf: "\<And>p i. (p, i) \<in> set m \<Longrightarrow> index_wf i \<and> p \<noteq> []"
  shows "keys_distinct (collect_map (List.map_filter
             (\<lambda>x. let i = \<lparr>fi_processed = fx_processed x, fi_ignored = fx_ignored x, fi_failed = set (fx_failed x)\<rparr>
                   in if fx_parent_id x = [] \<or> flow_index_is_empty i then None else Some (fx_parent_id x, i))
             (sorted_flow_dependency_indexes m)))"
    and "map_of (collect_map (List.map_filter
             (\<lambda>x. let i = \<lparr>fi_processed = fx_processed x, fi_ignored = fx_ignored x, fi_failed = set (fx_failed x)\<rparr>
                   in if fx_parent_id x = [] \<or> flow_index_is_empty i then None else Some (fx_parent_id x, i))
             (sorted_flow_dependency_indexes m))) = map_of m"
proof -
  let ?h = "\<lambda>x. let i = \<lparr>fi_processed = fx_processed x, fi_ignored = fx_ignored x, fi_failed = set (fx_failed x)\<rparr>
                   in if fx_parent_id x = [] \<or> flow_index_is_empty i then None else Some (fx_parent_id x, i)"
  let ?g = "\<lambda>(p, i). \<lparr>fx_parent_id = p, fx_processed = fi_processed i, fx_ignored = fi_ignored i,
                    fx_failed = sorted_list_of_set (fi_failed i)\<rparr>"
  let ?ys = "sort_key fst (filter (\<lambda>(_, i). \<not> flow_index_is_empty i) m)"
  have one: "?h (?g e) = Some e" if "e \<in> set m" for e
    using wf [of "fst e" "snd e"] that by (auto simp: index_wf_def index_shape_def flow_index_is_empty_def Let_def split: prod.split)
  have ys: "?ys = sort_key fst m" using wf by (auto simp: index_wf_def intro!: arg_cong [of _ _ "sort_key fst"] filter_True)
  have "List.map_filter ?h (map ?g xs) = xs" if "set xs \<subseteq> set m" for xs
    using that one by (induction xs) (auto simp: map_filter_def)
  then have e: "List.map_filter ?h (sorted_flow_dependency_indexes m) = sort_key fst m"
    unfolding sorted_flow_dependency_indexes_def ys by simp
  have "mset (map fst (sort_key fst m)) = mset (map fst m)" by simp
  then have d: "distinct (map fst (sort_key fst m))"
    using assms(1) unfolding keys_distinct_def by (metis mset_eq_imp_distinct_iff)
  show "keys_distinct (collect_map (List.map_filter ?h (sorted_flow_dependency_indexes m)))"
    "map_of (collect_map (List.map_filter ?h (sorted_flow_dependency_indexes m))) = map_of m"
    unfolding e using collect_map_distinct [OF d] by (auto intro!: map_eqI assms(1))
qed

lemma hash_mset: "mset (Sorting_Algorithms.sort cmp (hash_values r m)) = mset (map snd m)"
  by (simp add: mset_hash_values del: mset_map)

lemma snapshot_restores:
  assumes "q_inv s" "map_of (q_flow_dependencies s) [] = None"
    and "from_snapshot (snapshot ext queue s) = (queue', s')"
  shows "queue' = queue \<and> q_paused s' = q_paused s \<and> q_events s' = q_events s
    \<and> q_event_sequence s' = q_event_sequence s \<and> q_released s' = q_released s
    \<and> map_of (q_jobs s') = map_of (q_jobs s)
    \<and> map_of (q_flow_dependencies s') = map_of (q_flow_dependencies s)
    \<and> map_of (q_deduplication_next s') = map_of (q_deduplication_next s)
    \<and> map_of (q_deduplication_next_flows s') = map_of (q_deduplication_next_flows s)
    \<and> q_sequence s' \<le> q_sequence s
    \<and> (\<forall>i j. get_job_at s i = Some j \<longrightarrow> j_enqueued_seq j \<le> q_sequence s')"
proof -
  have kd: "keys_distinct (q_jobs s)" "keys_distinct (q_flow_dependencies s)"
    "keys_distinct (q_deduplication_next s)" "keys_distinct (q_deduplication_next_flows s)" "finite (q_released s)"
    using assms(1) by (auto simp: q_inv_def jobs_inv_def flow_inv_def slots_inv_def)
  have job_id: "Some (j_id j) = Some k" if "(k, j) \<in> set (q_jobs s)" for k j
    using that q_inv_job(1) [OF assms(1)] by (simp add: keys_distinct_in [OF kd(1)])
  have jobs: "map_of (collect_map (map (\<lambda>j. (j_id j, j)) (Sorting_Algorithms.sort compare_list_order
      (hash_values (ext_hash_rank ext) (q_jobs s))))) = map_of (q_jobs s)"
    using collect_values(2) [OF kd(1), of "\<lambda>j. Some (j_id j)", OF job_id hash_mset, of compare_list_order "ext_hash_rank ext"]
    unfolding map_filter_total .
  have flows: "index_wf i \<and> p \<noteq> []" if "(p, i) \<in> set (q_flow_dependencies s)" for p i
    using that assms(1,2) by (auto simp: q_inv_def flow_inv_alt keys_distinct_in [OF kd(2)])
  have next': "job_deduplication_id j = Some d" if "(d, j) \<in> set (q_deduplication_next s)" for d j
    using that assms(1) by (auto simp: q_inv_def slots_inv_def list_all_iff slot_job_ok_def)
  have nextf: "job_deduplication_id (fl_parent f) = Some d" if "(d, f) \<in> set (q_deduplication_next_flows s)" for d f
    using that assms(1) by (auto simp: q_inv_def slots_inv_def list_all_iff slot_flow_ok_def)
  let ?seqs = "0 # map j_enqueued_seq (qs_jobs (snapshot ext queue s) @ qs_deduplication_next_jobs (snapshot ext queue s)
                @ concat (map flow_jobs (qs_deduplication_next_flows (snapshot ext queue s))))"
  have s': "q_sequence s' = Max (set ?seqs)" "queue' = queue"
    using assms(3) by (auto simp: from_snapshot_def snapshot_def Let_def)
  have set_seqs: "set ?seqs = insert 0 (j_enqueued_seq ` (snd ` set (q_jobs s) \<union> snd ` set (q_deduplication_next s)
       \<union> (\<Union>f\<in>snd ` set (q_deduplication_next_flows s). set (flow_jobs f))))"
    by (simp add: snapshot_def set_hash_values image_Un Un_assoc)
  have le: "x \<le> q_sequence s" if "x \<in> set ?seqs" for x
    using that assms(1) unfolding set_seqs
    by (fastforce simp: q_inv_def jobs_inv_def slots_inv_def list_all_iff slot_job_ok_def slot_flow_ok_def)
  have "q_sequence s' \<le> q_sequence s" unfolding s'(1) using le by (intro Max.boundedI) auto
  moreover have "j_enqueued_seq j \<le> q_sequence s'" if "get_job_at s i = Some j" for i j
  proof -
    have "j_enqueued_seq j \<in> set ?seqs" unfolding set_seqs using map_of_SomeD [OF that] by force
    then show ?thesis unfolding s'(1) by (intro Max_ge) auto
  qed
  ultimately show ?thesis
    using assms(3) jobs collect_indexes(2) [OF kd(2) flows] collect_values(2) [OF kd(3) next' hash_mset]
      collect_values(2) [OF kd(4) nextf hash_mset] kd(5) s'(2)
    by (auto simp: from_snapshot_def snapshot_def Let_def sorted_released_deduplication_owners_def)
qed

text \<open>
  C24. A snapshot loses nothing: restoring it yields the same jobs, dependency indices,
  keep-last slots, released keys, events and pause flag. The waiting sequence restarts at the
  largest number still in use, so new jobs queue behind every retained one.
\<close>

theorem snapshot_roundtrip:
  assumes "q_inv s" "map_of (q_flow_dependencies s) [] = None"
    and "from_snapshot (snapshot ext queue s) = (queue', s')"
  shows "queue' = queue \<and> q_paused s' = q_paused s \<and> q_events s' = q_events s
    \<and> q_event_sequence s' = q_event_sequence s \<and> q_released s' = q_released s
    \<and> map_of (q_jobs s') = map_of (q_jobs s)
    \<and> map_of (q_flow_dependencies s') = map_of (q_flow_dependencies s)
    \<and> map_of (q_deduplication_next s') = map_of (q_deduplication_next s)
    \<and> map_of (q_deduplication_next_flows s') = map_of (q_deduplication_next_flows s)
    \<and> q_sequence s' \<le> q_sequence s
    \<and> (\<forall>i j. get_job_at s i = Some j \<longrightarrow> j_enqueued_seq j \<le> q_sequence s')"
  using assms by (rule snapshot_restores)

theorem snapshot_roundtrip_witness:
  "map_of (q_jobs (snd (from_snapshot (snapshot ex_ext ''q'' (ex_state [ex_waiting ''a'' 2, ex_waiting ''b'' 3])))))
     = map_of (q_jobs (ex_state [ex_waiting ''a'' 2, ex_waiting ''b'' 3]))"
proof -
  let ?s = "ex_state [ex_waiting ''a'' 2, ex_waiting ''b'' 3]"
  obtain q' s' where f: "from_snapshot (snapshot ex_ext ''q'' ?s) = (q', s')" by fastforce
  have "map_of (q_flow_dependencies ?s) [] = None" by (simp add: ex_simps)
  from snapshot_roundtrip [OF ex_state_inv(4) this f] f show ?thesis by simp
qed

end
