(* ===== verification/Job_Queue_Admission.thy ===== *)
theory Job_Queue_Admission
  imports Job_Queue_Reading
begin

text \<open>
  Adding, deduplicating, removing and retrying jobs (\<open>src/src/job/memory.rs\<close>), and what the
  failure of a child does further up a flow.
\<close>

section \<open>Adding\<close>

text \<open>
  A new job queues behind everything: when no retained job has its id, its deduplication
  key or its repeat key, the job is stored as built, alone changes the job table, and, if it
  can run at once, carries a sequence number larger than that of every other job.
\<close>

theorem add_at_stores:
  assumes "q_inv s" "q_sequence s < u64_max" "validate_job_options_at ext opt now = Inr u"
    and "j = job_new ext q nm p opt uuid now" "get_job_at s (j_id j) = None"
    and "find_active_deduplicated_job ext (q_jobs s) (q_released s) j now = None"
    and "find_active_repeat_job ext (q_jobs s) j = None"
    and "add_at ext q nm p opt uuid now s = (r, t)"
  shows "\<exists>n. r = Inr (j\<lparr>j_enqueued_seq := n\<rparr>) \<and> get_job_at t (j_id j) = Some (j\<lparr>j_enqueued_seq := n\<rparr>)
    \<and> (\<forall>k. k \<noteq> j_id j \<longrightarrow> get_job_at t k = get_job_at s k)
    \<and> (j_state j = Waiting \<longrightarrow> (\<forall>k j'. get_job_at s k = Some j' \<longrightarrow> j_enqueued_seq j' < n))"
proof -
  have a: "add_at ext q nm p opt uuid now s = (Inr (fst (insert_new_job j now s)), snd (insert_new_job j now s))"
    using assms(3-7) by (simp add: add_at_def add_created_def insert_unless_repeating_def case_prod_beta)
  define n where "n = (if j_state j = Waiting then fst (next_waiting_sequence s) else 0)"
  have z: "j\<lparr>j_enqueued_seq := 0\<rparr> = j" using assms(4) by (simp add: job_new_def Let_def)
  have i: "fst (insert_new_job j now s) = j\<lparr>j_enqueued_seq := n\<rparr>"
    using z by (simp add: insert_new_job_def assign_waiting_order_def n_def Let_def case_prod_beta next_waiting_sequence_def)
  have "j_enqueued_seq j' < n" if "j_state j = Waiting" "get_job_at s k = Some j'" for k j'
    using that q_inv_job(3) [OF assms(1) that(2)] assms(2)
    by (simp add: n_def next_waiting_sequence_def Let_def u64_saturating_add_def)
  then show ?thesis using a i assms(8) by auto
qed

theorem add_at_stores_witness:
  "\<exists>n. get_job_at (snd (add_at ex_ext ''q'' ''work'' JNull job_options_default ''c'' 4 (ex_state [ex_waiting ''a'' 2]))) ''c''
     = Some ((job_new ex_ext ''q'' ''work'' JNull job_options_default ''c'' 4)\<lparr>j_enqueued_seq := n\<rparr>)"
proof -
  let ?s = "ex_state [ex_waiting ''a'' 2]"
  let ?j = "job_new ex_ext ''q'' ''work'' JNull job_options_default ''c'' 4"
  have v: "validate_job_options_at ex_ext job_options_default 4 = Inr ()"
    by (simp add: validate_job_options_at_def options_validate_def opt_validate_def validate_job_priority_def
        MAX_JOB_PRIORITY_def flow_failure_policies_def job_options_default_def DEFAULT_JOB_PRIORITY_def)
  have g: "get_job_at ?s (j_id ?j) = None" "j_id ?j = ''c''" "q_sequence ?s < u64_max" by (simp_all add: ex_simps u64_max_def)
  have d: "find_active_deduplicated_job ex_ext (q_jobs ?s) (q_released ?s) ?j 4 = None"
    "find_active_repeat_job ex_ext (q_jobs ?s) ?j = None"
    by (simp_all add: find_active_deduplicated_job_def active_deduplication_id_def job_deduplication_id_def
        find_active_repeat_job_def active_repeat_key_def ex_simps)
  obtain r t where a: "add_at ex_ext ''q'' ''work'' JNull job_options_default ''c'' 4 ?s = (r, t)" by fastforce
  from add_at_stores [OF ex_state_inv(2) g(3) v refl g(1) d a] g(2) a show ?thesis by auto
qed

text \<open>
  Deduplication: while a retained job holds the deduplication key, adding another job with
  that key (and no replacement of a delayed holder) creates no job. The caller gets the holder,
  and the set of retained ids and the state of every job stay the same.
\<close>

theorem add_at_deduplicated:
  assumes "q_inv s" "validate_job_options_at ext opt now = Inr u"
    and "j = job_new ext q nm p opt uuid now" "get_job_at s (j_id j) = None"
    and "find_active_deduplicated_job ext (q_jobs s) (q_released s) j now = Some e"
    and "\<not> deduplication_replaces_delayed_owner j e"
    and "add_at ext q nm p opt uuid now s = (r, t)"
  shows "(\<exists>e'. r = Inr e' \<and> j_id e' = j_id e) \<and> same_states s t"
proof -
  let ?t = "extend_deduplication_expiration ext j (j_id e) now (snd (store_deduplicated_next j e s))"
  have t: "q_jobs t = q_jobs ?t" "r = Inr (case get_job_at t (j_id e) of Some e' \<Rightarrow> e' | None \<Rightarrow> e)"
    using assms(2-7) by (auto simp: add_at_def add_created_def Let_def case_prod_beta)
  have same: "same_states s ?t" using same_states_store same_states_extend same_states_trans by blast
  have "refines s ?t" using assms(3) by (intro refines_extend refines_store_next) auto
  then have "q_inv ?t" using assms(1) refines_inv by blast
  then have "j_id e' = j_id e" if "get_job_at t (j_id e) = Some e'" for e'
    using that unfolding t(1) by (rule q_inv_job(1))
  then have "\<exists>e'. r = Inr e' \<and> j_id e' = j_id e" unfolding t(2) by (cases "get_job_at t (j_id e)") auto
  moreover have "same_states s t" using same unfolding same_states_def t(1) .
  ultimately show ?thesis by blast
qed

text \<open>A job with a deduplication key, for the witness.\<close>

definition ex_dedup_options :: job_options where
  "ex_dedup_options = job_options_default\<lparr>jo_deduplication := Some (dedup_new ''key'')\<rparr>"

definition ex_owner :: "job_id \<Rightarrow> job" where
  "ex_owner i = (job_new ex_ext ''q'' ''work'' JNull ex_dedup_options i 0)\<lparr>j_enqueued_seq := 2\<rparr>"

theorem add_at_deduplicated_witness:
  "same_states (ex_state [ex_owner ''a''])
     (snd (add_at ex_ext ''q'' ''work'' JNull ex_dedup_options ''b'' 4 (ex_state [ex_owner ''a''])))"
proof -
  let ?s = "ex_state [ex_owner ''a'']"
  let ?j = "job_new ex_ext ''q'' ''work'' JNull ex_dedup_options ''b'' 4"
  note defs = ex_owner_def ex_dedup_options_def dedup_new_def ex_simps
  have inv: "q_inv ?s" by (simp add: ex_inv_simps defs)
  have t: "trim ''key'' = ''key''" by (simp add: trim_def trim_start.simps trim_end.simps ws_prefix_def ws_suffix_def)
  have v: "validate_job_options_at ex_ext ex_dedup_options 4 = Inr ()"
    using t by (simp add: validate_job_options_at_def options_validate_def opt_validate_def validate_job_priority_def
        MAX_JOB_PRIORITY_def flow_failure_policies_def dedup_validate_def defs)
  have g: "get_job_at ?s (j_id ?j) = None" by (simp add: defs)
  have d: "find_active_deduplicated_job ex_ext (q_jobs ?s) (q_released ?s) ?j 4 = Some (ex_owner ''a'')"
    by (simp add: find_active_deduplicated_job_def find_active_deduplication_id_def active_deduplication_id_def
        job_deduplication_id_def deduplication_owner_released_def ex_hash_simps defs)
  have "\<not> deduplication_replaces_delayed_owner ?j (ex_owner ''a'')"
    by (simp add: deduplication_replaces_delayed_owner_def defs)
  moreover obtain r t where "add_at ex_ext ''q'' ''work'' JNull ex_dedup_options ''b'' 4 ?s = (r, t)" by fastforce
  ultimately show ?thesis using add_at_deduplicated [OF inv v refl g d] by simp
qed

section \<open>Removing\<close>

lemma remove_announced_distinct:
  assumes "distinct is" "\<And>i. i \<in> set is \<Longrightarrow> get_job_at s i \<noteq> None"
  shows "fst (remove_announced is now s) = map (\<lambda>i. the (get_job_at s i)) is"
  using assms
proof (induction "is" arbitrary: s)
  case (Cons i "is")
  obtain j where j: "get_job_at s i = Some j" using Cons.prems(2) [of i] by auto
  let ?u = "emit_removed_event j now (snd (remove_job_record i s))"
  have r: "remove_job_record i s = (Some j, snd (remove_job_record i s))"
    using remove_job_record_fields(7) [of i s] j by (cases "remove_job_record i s") auto
  have u: "get_job_at ?u k = get_job_at s k" if "k \<in> set is" for k
    using that Cons.prems(1) by auto
  have "fst (remove_announced is now ?u) = map (\<lambda>k. the (get_job_at ?u k)) is"
    using Cons.prems u by (intro Cons.IH) auto
  also have "\<dots> = map (\<lambda>k. the (get_job_at s k)) is" using u by (intro map_cong) auto
  finally show ?case by (subst remove_announced.simps, subst r) (simp add: case_prod_beta Let_def j)
qed simp



lemma get_job_release_absent:
  assumes "q_inv s" "get_job_at s k = None"
  shows "get_job_at (snd (release_parent_if_ready ext p now s)) k = None"
proof -
  have m: "get_job_at (modify_job i f s) k = None" for i f using assms(2) by auto
  have resched: "get_job_at (snd (reschedule_parent i d pv now j s)) k = None" for i d pv j
    using assms(2) by (auto simp: reschedule_parent_def Let_def case_prod_beta)
  have fail: "get_job_at (snd (fail_waiting_parent ext i rs now s)) k = None" for i rs
  proof (cases "get_job_at s i")
    case (Some j)
    let ?f = "j\<lparr>j_state := Failed, j_finished_at := Some now, j_worker_id := None, j_lock_token := None,
      j_lease_expires_at := None, j_deferred_failure := None, j_failed_reason := Some rs\<rparr>"
    have "q_inv (modify_job i (\<lambda>_. ?f) s)" if "\<not> is_terminal (j_state j)"
    proof -
      have "refines s (modify_job i (\<lambda>_. ?f) s)"
        using that Some by (intro refines_modify refines_refl, cases "j_state j") (auto simp: step_simps q_inv_job(3))
      then show ?thesis using assms(1) refines_inv by blast
    qed
    then show ?thesis using Some retire_absent(2) [OF m] assms(2) by (auto simp: fail_waiting_parent_def Let_def)
  qed (simp add: fail_waiting_parent_def assms(2))
  show ?thesis
    using resched fail assms(2)
    by (auto simp: release_parent_if_ready_def defer_parent_failure_after_child_failure_def split: option.split)
qed

lemma get_job_release_all_absent:
  assumes "q_inv s" "get_job_at s k = None"
  shows "get_job_at (release_all ext ps now s) k = None"
proof -
  have "q_inv (fold (\<lambda>p s. snd (release_parent_if_ready ext p now s)) ps s) \<and>
        get_job_at (fold (\<lambda>p s. snd (release_parent_if_ready ext p now s)) ps s) k = None"
    using assms
  proof (induction ps arbitrary: s)
    case (Cons p ps)
    have "q_inv (snd (release_parent_if_ready ext p now s))"
      by (rule refines_inv [OF refines_release_parent [OF refines_refl] Cons.prems(1)])
    then show ?case using Cons.IH [OF _ get_job_release_absent [OF Cons.prems]] by simp
  qed simp
  then show ?thesis by (simp add: release_all_def)
qed

text \<open>
  Cleaning is safe and bounded: it returns at most the limit, only jobs of the requested
  state whose reference time is at least the grace period old, and never a job that a worker
  leases; the jobs it returns are gone from the queue.
\<close>

theorem clean_safe:
  assumes "q_inv s" "clean ext st grace limit now s = (Inr removed, t)"
  shows "length removed \<le> limit
    \<and> (\<forall>j\<in>set removed. get_job_at s (j_id j) = Some j \<and> j_state j = st \<and> \<not> leased j
         \<and> job_reference_time j \<le> subtract_duration ext now grace \<and> get_job_at t (j_id j) = None)"
proof (cases "limit = 0")
  case True
  then show ?thesis using assms(2) by (auto simp: clean_def)
next
  case False
  let ?c = "clean_candidates ext st (subtract_duration ext now grace) limit s"
  let ?u = "remove_all (map j_id ?c) s"
  have r: "removed = ?c" and t: "q_jobs t = q_jobs (release_all ext (List.map_filter j_parent_id ?c) now ?u)"
    using assms(2) False by (auto simp: clean_def Let_def)
  have cand: "get_job_at s (j_id j) = Some j \<and> \<not> leased j \<and> j_state j = st
      \<and> job_reference_time j \<le> subtract_duration ext now grace" if "j \<in> set ?c" for j
    using clean_candidates_unleased [OF assms(1) that] that by (auto simp: clean_candidates_def dest!: in_set_takeD)
  have "refines s ?u" using cand by (intro refines_remove_listed assms(1)) blast
  then have "q_inv ?u" using assms(1) refines_inv by blast
  then have "get_job_at t (j_id j) = None" if "j \<in> set ?c" for j
    unfolding t using that by (intro get_job_release_all_absent) auto
  moreover have "length ?c \<le> limit" by (simp add: clean_candidates_def)
  ultimately show ?thesis using cand unfolding r by blast
qed

theorem clean_safe_witness:
  "\<exists>t. clean ex_ext Completed 2 10 9 (ex_state [ex_completed ''a'' 5]) = (Inr [ex_completed ''a'' 5], t)
     \<and> get_job_at t ''a'' = None"
proof -
  let ?s = "ex_state [ex_completed ''a'' 5]"
  have inv: "q_inv ?s" by (simp add: ex_inv_simps ex_completed_def ex_simps)
  have "clean_candidates ex_ext Completed (subtract_duration ex_ext 9 2) 10 ?s = [ex_completed ''a'' 5]"
    by (simp add: clean_candidates_def ex_hash_simps job_reference_time_def subtract_duration_def ex_completed_def ex_simps)
  then obtain t where c: "clean ex_ext Completed 2 10 9 ?s = (Inr [ex_completed ''a'' 5], t)"
    by (simp add: clean_def Let_def)
  have "j_id (ex_completed ''a'' 5) = ''a''" by (simp add: ex_completed_def ex_simps)
  with clean_safe [OF inv c] c show ?thesis by auto
qed

section \<open>Retrying a finished child\<close>

lemma clear_index_child_gone: "index_shape i \<Longrightarrow> \<not> index_has (snd (clear_index_child c i)) c"
  by (auto simp: clear_index_child_def index_has_def index_shape_def map_of_eq_None_iff
      set_delete dest: map_of_SomeD)

lemma side_index_cleared:
  assumes "q_inv s"
  shows "\<not> has_child_dependency_side_index p c (snd (clear_child_dependency_side_index p c s))"
proof (cases "map_of (q_flow_dependencies s) p")
  case None
  then show ?thesis by (simp add: clear_child_dependency_side_index_def has_child_dependency_side_index_def)
next
  case (Some i)
  then have "index_shape i" using assms by (auto simp: q_inv_def flow_inv_alt index_wf_def)
  from clear_index_child_gone [OF this, of c] show ?thesis
    using Some by (auto simp: clear_child_dependency_side_index_def has_child_dependency_side_index_def
        set_index_def case_prod_beta map_of_delete_if map_of_update)
qed

lemma restore_parent_outcome:
  assumes "q_inv s" "get_job_at s p = Some pj" "\<not> is_terminal (j_state pj)" "j_state pj \<noteq> Active"
    and "c \<in> set (j_child_ids pj)"
  shows "\<exists>pk. get_job_at (snd (restore_parent_dependency_after_child_retry p c now s)) p = Some pk
      \<and> j_state pk = WaitingChildren \<and> j_child_ids pk = j_child_ids pj"
    and "\<not> has_child_dependency_side_index p c (snd (restore_parent_dependency_after_child_retry p c now s))"
    and "k \<noteq> p \<Longrightarrow> get_job_at (snd (restore_parent_dependency_after_child_retry p c now s)) k = get_job_at s k"
  using assms(2-) side_index_cleared [OF assms(1), of p c]
  by (auto simp: restore_parent_dependency_after_child_retry_def Let_def reset_parent_def has_child_dependency_side_index_def)

lemma retry_Inr:
  assumes "retry ext i now s = (Inr k, t)" "get_job_at s i = Some j"
  obtains u where "is_terminal (j_state j)" "refines s u" "get_job_at u i = Some k" "k = retry_job_record ext (j_enqueued_seq k) now j"
    "\<And>x. x \<noteq> i \<Longrightarrow> get_job_at u x = get_job_at s x" 
    "t = (case j_parent_id j of Some p \<Rightarrow> snd (restore_parent_dependency_after_child_retry p i now u) | None \<Rightarrow> u)"
proof -
  define s1 where "s1 = (case job_deduplication_id j of Some d \<Rightarrow> s\<lparr>q_released := q_released s - {(d, i)}\<rparr> | None \<Rightarrow> s)"
  define n where "n = fst (next_waiting_sequence s1)"
  define s2 where "s2 = snd (next_waiting_sequence s1)"
  define u where "u = emit_event ''waiting'' (Some (retry_job_record ext n now j)) (Some (j_state j)) now []
                     (modify_job i (\<lambda>_. retry_job_record ext n now j) s2)"
  have fin: "is_terminal (j_state j)" using assms by (auto simp: retry_def split: if_splits)
  obtain v where v: "retry_conflict ext i j now s = Inr v"
    using assms fin by (cases "retry_conflict ext i j now s") (auto simp: retry_def)
  have "retry ext i now s = (Inr (retry_job_record ext n now j),
      case j_parent_id j of Some p \<Rightarrow> snd (restore_parent_dependency_after_child_retry p i now u) | None \<Rightarrow> u)"
    unfolding u_def s2_def n_def s1_def using assms(2) fin v by (simp add: retry_def Let_def case_prod_beta)
  then have k: "k = retry_job_record ext n now j"
    and t: "t = (case j_parent_id j of Some p \<Rightarrow> snd (restore_parent_dependency_after_child_retry p i now u) | None \<Rightarrow> u)"
    using assms(1) by auto
  have jobs: "q_jobs s2 = q_jobs s" by (simp add: s2_def s1_def split: option.split)
  have step: "job_step n j (retry_job_record ext n now j)"
    using fin by (cases "j_state j") (auto simp: retry_job_record_def step_simps)
  have "refines s s1"
    by (auto simp: s1_def split: option.split intro: refines_step [OF refines_refl] effect.Unrelease)
  then have "refines s s2" unfolding s2_def by (rule refines_number)
  then have "refines s u"
    unfolding u_def using step assms(2) jobs by (intro refines_emit refines_modify) (auto simp: n_def s2_def)
  then show ?thesis
    using that [OF fin, of u] k t jobs assms(2) by (simp add: u_def retry_job_record_def)
qed

text \<open>
  Retrying a finished child puts its parent back to waiting: if the parent is still pending
  and lists the child, then after a successful retry the child waits again, the parent is in the
  waiting-children state, and the side index no longer counts the child as finished, so the
  parent cannot run before the child finishes anew.
\<close>

theorem retry_restores_parent:
  assumes "q_inv s" "retry ext i now s = (Inr k, t)" "get_job_at s i = Some j" "j_parent_id j = Some p" "p \<noteq> i"
    and "get_job_at s p = Some pj" "\<not> is_terminal (j_state pj)" "j_state pj \<noteq> Active" "i \<in> set (j_child_ids pj)"
  shows "get_job_at t i = Some k \<and> j_state k = Waiting
    \<and> (\<exists>pk. get_job_at t p = Some pk \<and> j_state pk = WaitingChildren \<and> i \<in> set (j_child_ids pk))
    \<and> \<not> has_child_dependency_side_index p i t"
proof (rule retry_Inr [OF assms(2,3)])
  fix u
  assume u: "refines s u" "get_job_at u i = Some k" "k = retry_job_record ext (j_enqueued_seq k) now j"
    "\<And>x. x \<noteq> i \<Longrightarrow> get_job_at u x = get_job_at s x"
    and t: "t = (case j_parent_id j of Some p \<Rightarrow> snd (restore_parent_dependency_after_child_retry p i now u) | None \<Rightarrow> u)"
  have inv: "q_inv u" by (rule refines_inv [OF u(1) assms(1)])
  have pj: "get_job_at u p = Some pj" using u(4) [OF assms(5)] assms(6) by simp
  have t': "t = snd (restore_parent_dependency_after_child_retry p i now u)" using t assms(4) by simp
  have "j_state k = Waiting" by (subst u(3)) (simp add: retry_job_record_def)
  then show ?thesis
    using restore_parent_outcome [OF inv pj assms(7-9), where now = now] u(2) assms(5,9) unfolding t' by auto
qed

theorem retry_restores_parent_witness:
  "\<exists>k t. retry ex_ext ''c'' 9 (ex_state [ex_parent ''p'' [''c''], (ex_completed ''c'' 5)\<lparr>j_parent_id := Some ''p''\<rparr>]) = (Inr k, t)
     \<and> \<not> has_child_dependency_side_index ''p'' ''c'' t"
proof -
  let ?c = "(ex_completed ''c'' 5)\<lparr>j_parent_id := Some ''p''\<rparr>"
  let ?s = "ex_state [ex_parent ''p'' [''c''], ?c]"
  note defs = ex_parent_def ex_completed_def ex_simps
  have inv: "q_inv ?s" by (simp add: ex_inv_simps defs)
  have c: "get_job_at ?s ''c'' = Some ?c" and p: "get_job_at ?s ''p'' = Some (ex_parent ''p'' [''c''])"
    by (simp_all add: defs)
  have "retry_conflict ex_ext ''c'' ?c 9 ?s = Inr ()"
    by (simp add: retry_conflict_def job_deduplication_id_def defs)
  moreover have "is_terminal (j_state ?c)" by (simp add: defs)
  ultimately obtain k t where r: "retry ex_ext ''c'' 9 ?s = (Inr k, t)"
    using c by (simp add: retry_def Let_def case_prod_beta)
  have "\<not> has_child_dependency_side_index ''p'' ''c'' t"
    using retry_restores_parent [OF inv r c _ _ p] by (simp add: defs)
  then show ?thesis using r by blast
qed

section \<open>Obliteration\<close>

text \<open>
  Obliteration is refused while a job is active unless forced, but the refusal leaves the
  queue paused: every later claim comes back empty although nothing was deleted. A successful
  obliteration empties the queue, reports the number of jobs, and leaves it running.
\<close>

theorem obliterate_outcome:
  "if (\<exists>i j. (i, j) \<in> set (q_jobs s) \<and> j_state j = Active) \<and> \<not> force
   then (\<exists>e. fst (obliterate force s) = Inl e) \<and> q_jobs (snd (obliterate force s)) = q_jobs s
     \<and> fst (claim_next ext w tok lease now (snd (obliterate force s))) = Inr None
   else obliterate force s = (Inr (length (q_jobs s)), s\<lparr>q_jobs := [], q_flow_dependencies := [],
          q_deduplication_next := [], q_deduplication_next_flows := [], q_released := {}, q_paused := False\<rparr>)"
  by (auto simp: obliterate_def Let_def list_ex_iff claim_next_def)

section \<open>Failure further up a flow\<close>

text \<open>
  The failure of a grandchild stops at its parent. In this queue \<open>g\<close> waits for \<open>p\<close>,
  \<open>p\<close> waits for the active job \<open>c\<close>, and no policy is set. When \<open>c\<close> fails, \<open>p\<close> fails
  with it, but \<open>g\<close> stays in the waiting-children state although its only child is finished.
\<close>

theorem grandparent_not_notified:
  "let s = ex_state [ex_parent ''g'' [''p''], (ex_parent ''p'' [''c''])\<lparr>j_parent_id := Some ''g''\<rparr>,
                     (ex_active ''c'' ''tok'' 50)\<lparr>j_parent_id := Some ''p''\<rparr>];
       t = snd (fail_active_job ex_ext ''c'' ''tok'' ''boom'' 6 True s)
   in q_inv s \<and> map_option j_state (get_job_at t ''c'') = Some Failed
      \<and> map_option j_state (get_job_at t ''p'') = Some Failed
      \<and> map_option j_state (get_job_at t ''g'') = Some WaitingChildren"
proof -
  note defs = ex_parent_def ex_simps
  let ?s = "ex_state [ex_parent ''g'' [''p''], (ex_parent ''p'' [''c''])\<lparr>j_parent_id := Some ''g''\<rparr>,
                     (ex_active ''c'' ''tok'' 50)\<lparr>j_parent_id := Some ''p''\<rparr>]"
  have inv: "q_inv ?s" by (simp add: ex_inv_simps defs)
  show ?thesis
    unfolding Let_def using inv
    by (simp add: fail_active_job_def require_lease_def require_active_def require_lock_token_def
        fail_job_record_def should_retry_def record_in_parent_def record_terminal_child_dependency_def
        retire_failed_def removes_failed_immediately_def failed_retention_def enqueue_next_or_flow_def
        enqueue_deduplicated_next_def enqueue_deduplicated_next_flow_def job_deduplication_id_def
        parent_after_child_failure_def child_failure_releases_dependency_def fail_waiting_parent_def rp_none_def
        retries_exhausted_def defs)
qed

end
