(* ===== verification/Rate_Limit.thy ===== *)
theory Rate_Limit
  imports Retry_Policy
begin

text \<open>
  The rate limiters of \<open>src/src/ratelimit.rs\<close>. A limiter is driven by a monotonic clock;
  the reading is an argument of each call. The token bucket computes in \<open>f64\<close> and its
  \<open>u64\<close> addition wraps, as in a release build.
\<close>

section \<open>Model\<close>

record rate_limit_config =
  rlc_max_commands :: nat
  rlc_window :: duration

definition rlc_per_second :: "nat \<Rightarrow> rate_limit_config" where
  "rlc_per_second n = \<lparr>rlc_max_commands = n, rlc_window = from_secs 1\<rparr>"

definition rlc_per_minute :: "nat \<Rightarrow> rate_limit_config" where
  "rlc_per_minute n = \<lparr>rlc_max_commands = n, rlc_window = from_secs 60\<rparr>"

definition rlc_per_hour :: "nat \<Rightarrow> rate_limit_config" where
  "rlc_per_hour n = \<lparr>rlc_max_commands = n, rlc_window = from_secs 3600\<rparr>"

definition rlc_unlimited :: rate_limit_config where
  "rlc_unlimited = \<lparr>rlc_max_commands = u64_max, rlc_window = from_secs 1\<rparr>"

record token_bucket =
  tb_capacity :: nat
  tb_tokens :: nat
  tb_refill_rate :: f64
  tb_last_refill :: instant

definition token_bucket_new :: "rate_limit_config \<Rightarrow> instant \<Rightarrow> token_bucket" where
  "token_bucket_new config now =
     \<lparr>tb_capacity = rlc_max_commands config, tb_tokens = rlc_max_commands config,
      tb_refill_rate = f64_div (f64_of_nat (rlc_max_commands config)) (as_secs_f64 (rlc_window config)),
      tb_last_refill = now\<rparr>"

text \<open>\<open>Instant::duration_since\<close>, zero for an earlier instant; and \<open>u64\<close> addition.\<close>

definition duration_since :: "instant \<Rightarrow> instant \<Rightarrow> duration" where
  "duration_since now earlier = nat (now - earlier)"

definition u64_wrapping_add :: "nat \<Rightarrow> nat \<Rightarrow> nat" where
  "u64_wrapping_add a b = (a + b) mod 2 ^ 64"

definition new_tokens :: "instant \<Rightarrow> token_bucket \<Rightarrow> nat" where
  "new_tokens now b =
     (let elapsed = as_secs_f64 (duration_since now (tb_last_refill b))
      in if f64_positive elapsed then f64_to_u64 (f64_mul elapsed (tb_refill_rate b)) else 0)"

definition tb_refill :: "instant \<Rightarrow> token_bucket \<Rightarrow> token_bucket" where
  "tb_refill now b =
     (if new_tokens now b > 0
      then b\<lparr>tb_tokens := min (u64_wrapping_add (tb_tokens b) (new_tokens now b)) (tb_capacity b),
             tb_last_refill := now\<rparr>
      else b)"

definition tb_try_acquire :: "instant \<Rightarrow> token_bucket \<Rightarrow> bool \<times> token_bucket" where
  "tb_try_acquire now b =
     (let b1 = tb_refill now b
      in if tb_tokens b1 = 0 then (False, b1)
         else (True, b1\<lparr>tb_tokens := tb_tokens b1 - 1\<rparr>))"

record sliding_window =
  sw_max_commands :: nat
  sw_window :: duration
  sw_timestamps :: "instant list"

definition sliding_window_new :: "rate_limit_config \<Rightarrow> sliding_window" where
  "sliding_window_new config =
     \<lparr>sw_max_commands = rlc_max_commands config, sw_window = rlc_window config, sw_timestamps = []\<rparr>"

definition sw_expire :: "instant \<Rightarrow> sliding_window \<Rightarrow> sliding_window" where
  "sw_expire now w =
     w\<lparr>sw_timestamps := filter (\<lambda>ts. ts > now - int (sw_window w)) (sw_timestamps w)\<rparr>"

definition sw_try_acquire :: "instant \<Rightarrow> sliding_window \<Rightarrow> bool \<times> sliding_window" where
  "sw_try_acquire now w =
     (let w1 = sw_expire now w
      in if length (sw_timestamps w1) < sw_max_commands w1
         then (True, w1\<lparr>sw_timestamps := sw_timestamps w1 @ [now]\<rparr>)
         else (False, w1))"

definition sw_current_count :: "instant \<Rightarrow> sliding_window \<Rightarrow> nat \<times> sliding_window" where
  "sw_current_count now w =
     (let w1 = sw_expire now w in (length (sw_timestamps w1), w1))"

definition sw_remaining :: "instant \<Rightarrow> sliding_window \<Rightarrow> nat \<times> sliding_window" where
  "sw_remaining now w =
     (let (count, w1) = sw_current_count now w in (sw_max_commands w1 - count, w1))"

datatype rate_limiter = TokenBucket token_bucket | SlidingWindow sliding_window | Unlimited

fun rl_try_acquire :: "instant \<Rightarrow> rate_limiter \<Rightarrow> bool \<times> rate_limiter" where
  "rl_try_acquire now (TokenBucket b) = (let (ok, b1) = tb_try_acquire now b in (ok, TokenBucket b1))"
| "rl_try_acquire now (SlidingWindow w) = (let (ok, w1) = sw_try_acquire now w in (ok, SlidingWindow w1))"
| "rl_try_acquire now Unlimited = (True, Unlimited)"

text \<open>A run of calls at the given times: for each call its time and whether it was admitted.\<close>

fun run_acquires :: "(instant \<Rightarrow> 'l \<Rightarrow> bool \<times> 'l) \<Rightarrow> instant list \<Rightarrow> 'l \<Rightarrow> (instant \<times> bool) list \<times> 'l" where
  "run_acquires acquire [] l = ([], l)"
| "run_acquires acquire (t # ts) l =
     (let (ok, l1) = acquire t l; (lg, l2) = run_acquires acquire ts l1 in ((t, ok) # lg, l2))"

definition admitted_in :: "instant \<Rightarrow> instant \<Rightarrow> (instant \<times> bool) list \<Rightarrow> nat" where
  "admitted_in a b lg = length (filter (\<lambda>(t, ok). ok \<and> a < t \<and> t \<le> b) lg)"

section \<open>The sliding window\<close>

definition times_admitted :: "(instant \<times> bool) list \<Rightarrow> instant list" where
  "times_admitted lg = map fst (filter snd lg)"

text \<open>At most \<open>m\<close> of the instants fall into any window of length \<open>W\<close>.\<close>

definition window_bounded :: "int \<Rightarrow> nat \<Rightarrow> instant list \<Rightarrow> bool" where
  "window_bounded W m acc \<longleftrightarrow> (\<forall>x. length (filter (\<lambda>t. x - W < t \<and> t \<le> x) acc) \<le> m)"

lemma admitted_in_times:
  "admitted_in a b lg = length (filter (\<lambda>t. a < t \<and> t \<le> b) (times_admitted lg))"
  by (induction lg) (auto simp: admitted_in_def times_admitted_def)

lemma length_filter_mono: "(\<And>x. x \<in> set xs \<Longrightarrow> P x \<Longrightarrow> Q x) \<Longrightarrow> length (filter P xs) \<le> length (filter Q xs)"
  by (induction xs) (auto intro: le_SucI)

lemma window_bounded_snoc:
  assumes "window_bounded W m acc" "\<forall>a \<in> set acc. a \<le> t" "0 \<le> W"
    and room: "length (filter (\<lambda>a. t - W < a) acc) < m"
  shows "window_bounded W m (acc @ [t])"
  unfolding window_bounded_def
proof
  fix x
  have "length (filter (\<lambda>a. x - W < a \<and> a \<le> x) acc) + 1 \<le> m" if "t \<le> x"
  proof -
    have "length (filter (\<lambda>a. x - W < a \<and> a \<le> x) acc) \<le> length (filter (\<lambda>a. t - W < a) acc)"
      using that by (intro length_filter_mono) auto
    with room show ?thesis by simp
  qed
  then show "length (filter (\<lambda>a. x - W < a \<and> a \<le> x) (acc @ [t])) \<le> m"
    using assms(1) by (auto simp: window_bounded_def)
qed

text \<open>
  The retained timestamps are the admitted instants of the current window: expired ones are
  never needed again because the clock does not go back.
\<close>

lemma sw_run_bounded:
  assumes "run_acquires sw_try_acquire ts w = (lg, w')" "List.sorted ts"
    and "\<forall>t \<in> set ts. \<forall>a \<in> set acc. a \<le> t"
    and "\<forall>t \<in> set ts. filter (\<lambda>a. t - int (sw_window w) < a) (sw_timestamps w) = filter (\<lambda>a. t - int (sw_window w) < a) acc"
    and "window_bounded (int (sw_window w)) (sw_max_commands w) acc"
  shows "window_bounded (int (sw_window w)) (sw_max_commands w) (acc @ times_admitted lg)"
  using assms
proof (induction ts arbitrary: w lg acc)
  case Nil
  then show ?case by (simp add: times_admitted_def)
next
  case (Cons t ts)
  let ?W = "int (sw_window w)" and ?m = "sw_max_commands w"
  let ?kept = "filter (\<lambda>a. t - ?W < a) acc"
  obtain ok w1 where a: "sw_try_acquire t w = (ok, w1)" by fastforce
  obtain lg1 where r: "run_acquires sw_try_acquire ts w1 = (lg1, w')" and lg: "lg = (t, ok) # lg1"
    using Cons.prems(1) a by (auto simp: split: prod.splits)
  have kept: "filter (\<lambda>a. t - ?W < a) (sw_timestamps w) = ?kept" using Cons.prems(4) by simp
  have ok: "ok \<longleftrightarrow> length ?kept < ?m" and w1: "sw_window w1 = sw_window w" "sw_max_commands w1 = ?m"
    "sw_timestamps w1 = ?kept @ (if ok then [t] else [])"
    using a kept by (auto simp: sw_try_acquire_def sw_expire_def Let_def split: if_splits)
  let ?acc = "acc @ (if ok then [t] else [])"
  have later: "t \<le> t'" if "t' \<in> set ts" for t' using Cons.prems(2) that by simp
  have "window_bounded ?W ?m ?acc"
    using Cons.prems(3,5) ok window_bounded_snoc [of ?W ?m acc t] by auto
  moreover have "filter (\<lambda>a. t' - ?W < a) (sw_timestamps w1) = filter (\<lambda>a. t' - ?W < a) ?acc"
    if "t' \<in> set ts" for t'
    using later [OF that] w1(3) by (auto intro!: filter_cong)
  moreover have "\<forall>t' \<in> set ts. \<forall>a \<in> set ?acc. a \<le> t'"
    using Cons.prems(3) later by auto
  ultimately have "window_bounded ?W ?m (?acc @ times_admitted lg1)"
    using Cons.IH [OF r, of ?acc] Cons.prems(2) w1(1,2) by simp
  then show ?case by (simp add: lg times_admitted_def split: if_splits)
qed

section \<open>Properties\<close>

text \<open>
  However the calls are spread over time, a sliding window limiter admits at most
  \<open>max_commands\<close> of them in any period as long as its window.
\<close>

theorem sliding_window_limit:
  assumes "List.sorted ts" "run_acquires sw_try_acquire ts (sliding_window_new config) = (lg, w)"
  shows "admitted_in (x - int (rlc_window config)) x lg \<le> rlc_max_commands config"
  using sw_run_bounded [OF assms(2,1), of "[]"]
  by (simp add: window_bounded_def sliding_window_new_def admitted_in_times)

theorem sliding_window_limit_witness:
  "admitted_in 0 5 (fst (run_acquires sw_try_acquire [1, 2, 3, 7]
     (sliding_window_new \<lparr>rlc_max_commands = 2, rlc_window = 5\<rparr>))) \<le> 2
   \<and> map snd (fst (run_acquires sw_try_acquire [1, 2, 3, 7]
     (sliding_window_new \<lparr>rlc_max_commands = 2, rlc_window = 5\<rparr>))) = [True, True, False, True]"
proof -
  let ?c = "\<lparr>rlc_max_commands = 2, rlc_window = 5\<rparr>"
  obtain lg w where r: "run_acquires sw_try_acquire [1, 2, 3, 7] (sliding_window_new ?c) = (lg, w)"
    by fastforce
  have "map snd lg = [True, True, False, True]"
    using r by (auto simp: sliding_window_new_def sw_try_acquire_def sw_expire_def Let_def)
  then show ?thesis
    using sliding_window_limit [OF _ r, of 5] r by simp
qed

text \<open>
  The \<open>u64\<close> addition in the refill of a token bucket made from
  \<open>RateLimitConfig::unlimited()\<close> overflows: after the first acquired token, one
  second later the sum of the tokens left and the new ones exceeds \<open>u64::MAX\<close>, and the
  wrapped result leaves fewer tokens than before the refill.
\<close>

theorem unlimited_bucket_overflows:
  "let b = snd (tb_try_acquire 0 (token_bucket_new rlc_unlimited 0))
   in tb_tokens b + new_tokens 1000000000 b > u64_max
      \<and> tb_tokens (tb_refill 1000000000 b) < tb_tokens b"
proof -
  note rate = f64_of_u64_max
  have one: "as_secs_f64 1000000000 = Fin 1"
    using as_secs_f64_whole [of 1] by simp
  have div: "f64_div (Fin (2 ^ 64)) (Fin 1) = Fin (2 ^ 64)"
    using f64_round_2_64 by simp
  have mul: "f64_mul (Fin 1) (Fin (2 ^ 64)) = Fin (2 ^ 64)"
    using f64_round_2_64 by simp
  have zero: "\<not> f64_positive (as_secs_f64 0)"
    using as_secs_f64_whole [of 0] by simp
  define b where "b = token_bucket_new rlc_unlimited 0"
  have b: "b = \<lparr>tb_capacity = u64_max, tb_tokens = u64_max, tb_refill_rate = Fin (2 ^ 64), tb_last_refill = 0\<rparr>"
    unfolding b_def token_bucket_new_def rlc_unlimited_def from_secs_def
    by (simp add: rate one div [simplified])
  have "new_tokens 0 b = 0"
    using zero by (simp add: new_tokens_def duration_since_def b Let_def)
  then have s: "snd (tb_try_acquire 0 b) = b\<lparr>tb_tokens := u64_max - 1\<rparr>"
    by (simp add: tb_try_acquire_def tb_refill_def b u64_max_def Let_def)
  have n: "new_tokens 1000000000 (b\<lparr>tb_tokens := u64_max - 1\<rparr>) = u64_max"
    by (simp add: new_tokens_def duration_since_def b one mul [simplified] Let_def u64_max_def)
  show ?thesis
    unfolding b_def [symmetric] s Let_def tb_refill_def n
    by (simp add: b u64_wrapping_add_def u64_max_def)
qed

end
