(* ===== verification/Priority_Boost.thy ===== *)
theory Priority_Boost
  imports Job_Types "HOL-Library.Word"
begin

text \<open>
  Deadline-based priority boosting (\<open>src/src/boost.rs\<close>). Priorities are 8-bit, lower runs
  first; a boost is subtracted with saturation. The clock reading is an argument, and
  \<open>DateTime + Duration\<close>, which panics when the sum is out of range, is \<open>None\<close> there.
\<close>

section \<open>Model\<close>

record boost_config =
  bc_enabled :: bool
  bc_deadline :: duration
  bc_intervals :: "(duration \<times> 8 word) list"

definition boost_new :: "duration \<Rightarrow> boost_config" where
  "boost_new deadline = \<lparr>bc_enabled = True, bc_deadline = deadline, bc_intervals = []\<rparr>"

definition boost_disabled :: boost_config where
  "boost_disabled = \<lparr>bc_enabled = False, bc_deadline = 0, bc_intervals = []\<rparr>"

definition with_boost :: "duration \<Rightarrow> 8 word \<Rightarrow> boost_config \<Rightarrow> boost_config" where
  "with_boost time_before_deadline boost c =
     c\<lparr>bc_intervals := Sorting_Algorithms.sort (reversed (by_key fst))
          (bc_intervals c @ [(time_before_deadline, boost)])\<rparr>"

text \<open>A literal of the source, and a step of the preset configurations; \<open>None\<close> is a panic.\<close>

definition boost_at :: "duration \<Rightarrow> rat \<Rightarrow> 8 word \<Rightarrow> boost_config option \<Rightarrow> boost_config option" where
  "boost_at deadline fraction boost c =
     Option.bind c (\<lambda>c'.
       map_option (\<lambda>d. with_boost d boost c')
         (from_secs_f64 (f64_mul (as_secs_f64 deadline) (f64_round fraction))))"

definition boost_standard :: "duration \<Rightarrow> boost_config option" where
  "boost_standard deadline =
     boost_at deadline (10 / 100) 4 (boost_at deadline (25 / 100) 3
       (boost_at deadline (50 / 100) 2 (boost_at deadline (75 / 100) 1 (Some (boost_new deadline)))))"

definition boost_aggressive :: "duration \<Rightarrow> boost_config option" where
  "boost_aggressive deadline =
     boost_at deadline (20 / 100) 8 (boost_at deadline (40 / 100) 6
       (boost_at deadline (60 / 100) 4 (boost_at deadline (80 / 100) 2 (Some (boost_new deadline)))))"

definition boost_deadline :: "externals \<Rightarrow> boost_config \<Rightarrow> instant \<Rightarrow> instant option" where
  "boost_deadline ext c created_at =
     ext_checked_add_signed ext created_at
       (case ext_from_std ext (bc_deadline c) of Some d \<Rightarrow> d | None \<Rightarrow> 0)"

definition u8_saturating_sub :: "8 word \<Rightarrow> 8 word \<Rightarrow> 8 word" where
  "u8_saturating_sub a b = (if b \<le> a then a - b else 0)"

text \<open>The loop over the intervals: the last one that matches wins.\<close>

definition applicable_boost :: "duration \<Rightarrow> (duration \<times> 8 word) list \<Rightarrow> 8 word" where
  "applicable_boost remaining intervals =
     fold (\<lambda>(threshold, amount) boost. if remaining \<le> threshold then amount else boost) intervals 0"

definition calculate_priority ::
  "externals \<Rightarrow> boost_config \<Rightarrow> 8 word \<Rightarrow> instant \<Rightarrow> instant \<Rightarrow> 8 word option" where
  "calculate_priority ext c base created_at now =
     (if \<not> bc_enabled c then Some base
      else map_option (\<lambda>deadline.
             let remaining = deadline - now
             in if remaining \<le> 0 then 0
                else u8_saturating_sub base
                       (applicable_boost (from_millis (nat (remaining div 1000000))) (bc_intervals c)))
           (boost_deadline ext c created_at))"

definition is_past_deadline :: "externals \<Rightarrow> boost_config \<Rightarrow> instant \<Rightarrow> instant \<Rightarrow> bool option" where
  "is_past_deadline ext c created_at now =
     (if \<not> bc_enabled c then Some False
      else map_option (\<lambda>deadline. now \<ge> deadline) (boost_deadline ext c created_at))"

definition time_remaining ::
  "externals \<Rightarrow> boost_config \<Rightarrow> instant \<Rightarrow> instant \<Rightarrow> duration option option" where
  "time_remaining ext c created_at now =
     (if \<not> bc_enabled c then Some None
      else map_option (\<lambda>deadline.
             let remaining = deadline - now
             in Some (if remaining \<le> 0 then 0 else from_millis (nat (remaining div 1000000))))
           (boost_deadline ext c created_at))"

section \<open>Properties\<close>

text \<open>A configuration built with \<open>with_boost\<close>: its intervals are in descending order.\<close>

definition boost_wf :: "boost_config \<Rightarrow> bool" where
  "boost_wf c \<longleftrightarrow> List.sorted (rev (map fst (bc_intervals c)))"

text \<open>The boosts of a configuration grow as the deadline comes closer.\<close>

definition boosts_grow :: "boost_config \<Rightarrow> bool" where
  "boosts_grow c \<longleftrightarrow>
     (\<forall>i \<in> set (bc_intervals c). \<forall>k \<in> set (bc_intervals c). fst k \<le> fst i \<longrightarrow> snd i \<le> snd k)"

lemma applicable_boost_snoc:
  "applicable_boost r (xs @ [(d, b)]) = (if r \<le> d then b else applicable_boost r xs)"
  by (simp add: applicable_boost_def)

lemma applicable_boost_last:
  "applicable_boost r xs =
     (if \<exists>i \<in> set xs. r \<le> fst i then snd (last (filter (\<lambda>i. r \<le> fst i) xs)) else 0)"
proof (induction xs rule: rev_induct)
  case (snoc x xs)
  then show ?case by (cases x) (auto simp: applicable_boost_snoc)
qed (simp add: applicable_boost_def)

lemma sorted_reversed_by_key:
  "Sorting_Algorithms.sorted (reversed (by_key fst)) xs \<Longrightarrow> List.sorted (rev (map fst xs))"
  for xs :: "('a::linorder \<times> 'b) list"
proof (induction xs)
  case (Cons x xs)
  have s: "Sorting_Algorithms.sorted (reversed (by_key fst)) xs"
    and le: "\<And>y. y \<in> set xs \<Longrightarrow> compare (reversed (by_key fst)) x y \<noteq> Greater"
    using Cons.prems by (auto dest: sorted_Cons_imp_sorted sorted_Cons_imp_not_less)
  have "fst y \<le> fst x" if "y \<in> set xs" for y
    using le [OF that] by (auto simp: compare_by_key split: if_splits)
  then show ?case using Cons.IH [OF s] by (auto simp: sorted_append)
qed simp

lemma boost_wf_with_boost: "boost_wf (with_boost d b c)"
  unfolding boost_wf_def with_boost_def by (simp add: sorted_reversed_by_key)

text \<open>In descending order the last match has the smallest threshold of all matches.\<close>

lemma last_match_least:
  assumes "List.sorted (rev (map fst xs))" "i \<in> set xs" "r \<le> fst i"
  shows "fst (last (filter (\<lambda>i. r \<le> fst i) xs)) \<le> fst i"
  using assms
proof (induction xs rule: rev_induct)
  case (snoc x xs)
  then show ?case by (cases "r \<le> fst x") auto
qed simp

lemma last_match:
  assumes "\<exists>i \<in> set xs. r \<le> fst i"
  shows "last (filter (\<lambda>i. r \<le> fst i) xs) \<in> set xs" "r \<le> fst (last (filter (\<lambda>i. r \<le> fst i) xs))"
proof -
  have "filter (\<lambda>i. r \<le> fst i) xs \<noteq> []" using assms by (auto simp: filter_empty_conv)
  from last_in_set [OF this]
  show "last (filter (\<lambda>i. r \<le> fst i) xs) \<in> set xs" "r \<le> fst (last (filter (\<lambda>i. r \<le> fst i) xs))"
    by auto
qed

lemma applicable_boost_mono:
  assumes "boost_wf c" "boosts_grow c" "r' \<le> r"
  shows "applicable_boost r (bc_intervals c) \<le> applicable_boost r' (bc_intervals c)"
proof (cases "\<exists>i \<in> set (bc_intervals c). r \<le> fst i")
  case True
  let ?l = "\<lambda>r. last (filter (\<lambda>i. r \<le> fst i) (bc_intervals c))"
  have e': "\<exists>i \<in> set (bc_intervals c). r' \<le> fst i" using True assms(3) by force
  have "fst (?l r') \<le> fst (?l r)"
    using last_match [OF True] assms(1,3) unfolding boost_wf_def
    by (intro last_match_least) auto
  then have "snd (?l r) \<le> snd (?l r')"
    using assms(2) last_match(1) [OF True] last_match(1) [OF e'] unfolding boosts_grow_def by blast
  then show ?thesis using True e' by (simp add: applicable_boost_last)
next
  case False
  then show ?thesis by (simp add: applicable_boost_last)
qed

lemma u8_saturating_sub_anti: "b \<le> b' \<Longrightarrow> u8_saturating_sub a b' \<le> u8_saturating_sub a b"
  by (auto simp: u8_saturating_sub_def word_le_nat_alt unat_sub)

lemma u8_saturating_sub_le: "u8_saturating_sub a b \<le> a"
  by (auto simp: u8_saturating_sub_def word_le_nat_alt unat_sub)

text \<open>
  Boosting never makes a command worse than its base priority, and it never takes a
  boost back while the deadline comes closer: for a configuration built with
  \<open>with_boost\<close> whose boosts grow towards the deadline, a later reading of the clock gives the
  same or a better priority, and the best one from the deadline on.
\<close>

theorem boost_monotone:
  assumes "boost_wf c" "boosts_grow c" "now \<le> now'"
    and "calculate_priority ext c base created now = Some p"
    and "calculate_priority ext c base created now' = Some p'"
  shows "p' \<le> p \<and> p \<le> base
    \<and> (\<forall>d. bc_enabled c \<and> boost_deadline ext c created = Some d \<and> d \<le> now \<longrightarrow> p = 0)"
proof -
  have "applicable_boost (from_millis (nat ((d - now) div 1000000))) (bc_intervals c)
      \<le> applicable_boost (from_millis (nat ((d - now') div 1000000))) (bc_intervals c)" for d
    using assms(3) by (intro applicable_boost_mono assms(1,2))
      (auto simp: from_millis_def intro!: nat_mono zdiv_mono1)
  then show ?thesis
    using assms(3-5) by (auto simp: calculate_priority_def Let_def u8_saturating_sub_anti u8_saturating_sub_le
      split: if_splits)
qed

theorem boost_monotone_witness:
  "let c = with_boost 4000000 3 (with_boost 8000000 1 (boost_new 10000000));
       ext = \<lparr>ext_from_std = (\<lambda>d. Some (int d)), ext_checked_add_signed = (\<lambda>t d. Some (t + d)),
              ext_checked_sub_signed = (\<lambda>t d. Some (t - d)), ext_timestamp_millis = (\<lambda>t. t div 1000000),
              ext_cron_from_str = (\<lambda>_. Inl []), ext_cron_next_after = (\<lambda>_ _. None),
              ext_powi = powi_rounded, ext_hash_rank = (\<lambda>_ _. 0)\<rparr>
   in calculate_priority ext c 5 0 3000000 = Some 4 \<and> calculate_priority ext c 5 0 7000000 = Some 2
      \<and> (2::8 word) \<le> 4"
proof -
  define c where "c = with_boost 4000000 3 (with_boost 8000000 1 (boost_new 10000000))"
  define ext where "ext = \<lparr>ext_from_std = (\<lambda>d. Some (int d)), ext_checked_add_signed = (\<lambda>t d. Some (t + d)),
              ext_checked_sub_signed = (\<lambda>t d. Some (t - d)), ext_timestamp_millis = (\<lambda>t. t div 1000000),
              ext_cron_from_str = (\<lambda>_. Inl []), ext_cron_next_after = (\<lambda>_ _. None),
              ext_powi = powi_rounded, ext_hash_rank = (\<lambda>_ _. 0)\<rparr>"
  have c: "bc_intervals c = [(8000000, 1), (4000000, 3)]" "bc_enabled c" "bc_deadline c = 10000000"
    by (simp_all add: c_def with_boost_def boost_new_def Sorting_Algorithms.sort_def compare_by_key)
  have wf: "boost_wf c" by (simp add: c_def boost_wf_with_boost)
  have grow: "boosts_grow c" by (auto simp: boosts_grow_def c word_le_nat_alt)
  have p: "calculate_priority ext c 5 0 3000000 = Some 4" "calculate_priority ext c 5 0 7000000 = Some 2"
    by (simp_all add: calculate_priority_def boost_deadline_def c ext_def applicable_boost_def
        from_millis_def u8_saturating_sub_def word_le_nat_alt)
  show ?thesis
    using boost_monotone [OF wf grow _ p] p unfolding c_def ext_def Let_def by simp
qed

text \<open>
  The comment in the loop promises the highest applicable boost; the code takes the one of the
  tightest matching interval, also when a wider one boosts more.
\<close>

lemma boost_not_highest:
  "applicable_boost 3 (bc_intervals (with_boost 5 1 (with_boost 10 7 (boost_new 20)))) = 1"
  by (simp add: with_boost_def boost_new_def applicable_boost_def Sorting_Algorithms.sort_def compare_by_key)

end
