(* ===== verification/Dead_Letter_Queue.thy ===== *)
theory Dead_Letter_Queue
  imports Lane_Prelude
begin

text \<open>
  The dead letter queue of \<open>src/src/dlq.rs\<close>: a deque of permanently failed commands with a
  maximum size. Every operation holds the mutex of the deque, so each is one function of
  the deque.
\<close>

section \<open>Model\<close>

record dead_letter =
  dl_command_id :: string
  dl_command_type :: string
  dl_lane_id :: string
  dl_error :: string
  dl_attempts :: nat
  dl_failed_at :: instant

record dead_letter_queue =
  dlq_letters :: "dead_letter list"
  dlq_max_size :: nat

definition dlq_new :: "nat \<Rightarrow> dead_letter_queue" where
  "dlq_new max_size = \<lparr>dlq_letters = [], dlq_max_size = max_size\<rparr>"

definition dlq_push :: "dead_letter \<Rightarrow> dead_letter_queue \<Rightarrow> dead_letter_queue" where
  "dlq_push letter q =
     (let letters = (if length (dlq_letters q) \<ge> dlq_max_size q then tl (dlq_letters q)
                     else dlq_letters q)
      in q\<lparr>dlq_letters := letters @ [letter]\<rparr>)"

definition dlq_pop :: "dead_letter_queue \<Rightarrow> dead_letter option \<times> dead_letter_queue" where
  "dlq_pop q =
     (case dlq_letters q of
        [] \<Rightarrow> (None, q)
      | l # ls \<Rightarrow> (Some l, q\<lparr>dlq_letters := ls\<rparr>))"

definition dlq_list :: "dead_letter_queue \<Rightarrow> dead_letter list" where
  "dlq_list q = dlq_letters q"

definition dlq_clear :: "dead_letter_queue \<Rightarrow> dead_letter_queue" where
  "dlq_clear q = q\<lparr>dlq_letters := []\<rparr>"

definition dlq_len :: "dead_letter_queue \<Rightarrow> nat" where
  "dlq_len q = length (dlq_letters q)"

definition dlq_is_empty :: "dead_letter_queue \<Rightarrow> bool" where
  "dlq_is_empty q \<longleftrightarrow> dlq_letters q = []"

section \<open>A bounded buffer that forgets its oldest entries\<close>

text \<open>
  What a client may rely on: the buffer holds a suffix of everything pushed, at most its
  capacity, and entries leave in the order they came. The capacity a buffer honours is at
  least one, which is what \<open>dlq_push\<close> does for \<open>max_size = 0\<close>.
\<close>

locale bounded_log =
  fixes push :: "'x \<Rightarrow> 'q \<Rightarrow> 'q"
    and content :: "'q \<Rightarrow> 'x list"
    and capacity :: "'q \<Rightarrow> nat"
  assumes content_push: "length (content q) \<le> capacity q \<Longrightarrow>
        content (push x q) = drop (length (content q) + 1 - capacity q) (content q @ [x])"
    and capacity_push: "capacity (push x q) = capacity q"
    and capacity_pos: "0 < capacity q"
begin

lemma length_push: "length (content q) \<le> capacity q \<Longrightarrow> length (content (push x q)) \<le> capacity (push x q)"
  using capacity_pos [of q] by (simp add: content_push capacity_push)

lemma content_fold:
  assumes "length (content q) \<le> capacity q"
  shows "content (fold push xs q) = drop (length (content q) + length xs - capacity q) (content q @ xs)
    \<and> capacity (fold push xs q) = capacity q"
  using assms
proof (induction xs arbitrary: q)
  case Nil
  then show ?case by simp
next
  case (Cons x xs)
  let ?c = "capacity q" and ?n = "length (content q)"
  have IH: "content (fold push xs (push x q)) =
      drop (length (content (push x q)) + length xs - ?c) (content (push x q) @ xs)"
    using Cons.IH [OF length_push [OF Cons.prems]] by (simp add: capacity_push)
  have len: "length (content (push x q)) = ?n + 1 - (?n + 1 - ?c)"
    using Cons.prems by (simp add: content_push)
  have app: "content (push x q) @ xs = drop (?n + 1 - ?c) (content q @ x # xs)"
    using Cons.prems capacity_pos [of q] by (simp add: content_push)
  have "content (fold push xs (push x q)) =
      drop ((length (content (push x q)) + length xs - ?c) + (?n + 1 - ?c)) (content q @ x # xs)"
    unfolding IH app by (simp only: drop_drop)
  moreover have "(length (content (push x q)) + length xs - ?c) + (?n + 1 - ?c) = ?n + length (x # xs) - ?c"
    using Cons.prems capacity_pos [of q] len by (cases "?n = ?c") auto
  ultimately show ?case
    using Cons.IH [OF length_push [OF Cons.prems]] by (simp add: capacity_push)
qed

end

definition dlq_capacity :: "dead_letter_queue \<Rightarrow> nat" where
  "dlq_capacity q = max 1 (dlq_max_size q)"

interpretation dlq: bounded_log dlq_push dlq_list dlq_capacity
proof
  fix q x
  assume len: "length (dlq_list q) \<le> dlq_capacity q"
  show "dlq_list (dlq_push x q) = drop (length (dlq_list q) + 1 - dlq_capacity q) (dlq_list q @ [x])"
  proof (cases "dlq_letters q")
    case Nil
    then show ?thesis by (simp add: dlq_list_def dlq_push_def dlq_capacity_def)
  next
    case (Cons l ls)
    then show ?thesis
      using len by (auto simp: dlq_list_def dlq_push_def dlq_capacity_def Let_def max_def split: if_splits)
  qed
qed (simp_all add: dlq_push_def dlq_capacity_def Let_def)

section \<open>Properties\<close>

text \<open>
  After any pushes into a new dead letter queue it holds exactly the last \<open>max_size\<close>
  letters in order (the last one when \<open>max_size\<close> is 0), and popping takes the oldest of them.
\<close>

theorem dead_letters_kept:
  "dlq_list (fold dlq_push letters (dlq_new n)) = drop (length letters - max 1 n) letters
   \<and> fst (dlq_pop (fold dlq_push letters (dlq_new n))) =
       (if letters = [] then None else Some (letters ! (length letters - max 1 n)))"
proof -
  have e: "dlq_list (dlq_new n) = []" "dlq_capacity (dlq_new n) = max 1 n"
    by (simp_all add: dlq_new_def dlq_list_def dlq_capacity_def)
  then have l: "dlq_list (fold dlq_push letters (dlq_new n)) = drop (length letters - max 1 n) letters"
    using dlq.content_fold [of "dlq_new n" letters] by simp
  show ?thesis
  proof (cases "letters = []")
    case True
    then show ?thesis by (simp add: dlq_pop_def dlq_new_def dlq_list_def)
  next
    case False
    then have "length letters - max 1 n < length letters" by (cases letters) auto
    then have "drop (length letters - max 1 n) letters =
        letters ! (length letters - max 1 n) # drop (Suc (length letters - max 1 n)) letters"
      by (simp add: Cons_nth_drop_Suc)
    then show ?thesis using l False by (simp add: dlq_pop_def dlq_list_def)
  qed
qed

end
