(* ===== verification/Lane_Types.thy ===== *)
theory Lane_Types
  imports Rate_Limit Priority_Boost Dead_Letter_Queue
begin

text \<open>
  The data of the lane scheduler: lane configuration (\<open>src/src/config.rs\<close>), lane events
  (\<open>src/src/event.rs\<close>), stored commands (\<open>src/src/storage.rs\<close>) and the types of
  \<open>src/src/queue.rs\<close>. A \<open>Command\<close> is seen through its type; what its \<open>execute\<close> returns
  is an argument of the step that finishes it.
\<close>

section \<open>Configuration\<close>

record lane_config =
  lc_min_concurrency :: nat
  lc_max_concurrency :: nat
  lc_default_timeout :: "duration option"
  lc_retry_policy :: retry_policy
  lc_rate_limit :: "rate_limit_config option"
  lc_priority_boost :: "boost_config option"
  lc_pressure_threshold :: "nat option"

definition lane_config_new :: "nat \<Rightarrow> nat \<Rightarrow> lane_config" where
  "lane_config_new min_concurrency max_concurrency =
     \<lparr>lc_min_concurrency = min_concurrency, lc_max_concurrency = max_concurrency,
      lc_default_timeout = None, lc_retry_policy = rp_none, lc_rate_limit = None,
      lc_priority_boost = None, lc_pressure_threshold = None\<rparr>"

definition lane_config_default :: lane_config where
  "lane_config_default =
     \<lparr>lc_min_concurrency = 1, lc_max_concurrency = 4, lc_default_timeout = None,
      lc_retry_policy = rp_none, lc_rate_limit = None, lc_priority_boost = None,
      lc_pressure_threshold = None\<rparr>"

definition lc_with_timeout :: "duration \<Rightarrow> lane_config \<Rightarrow> lane_config" where
  "lc_with_timeout d c = c\<lparr>lc_default_timeout := Some d\<rparr>"

definition lc_with_retry_policy :: "retry_policy \<Rightarrow> lane_config \<Rightarrow> lane_config" where
  "lc_with_retry_policy p c = c\<lparr>lc_retry_policy := p\<rparr>"

definition lc_with_rate_limit :: "rate_limit_config \<Rightarrow> lane_config \<Rightarrow> lane_config" where
  "lc_with_rate_limit r c = c\<lparr>lc_rate_limit := Some r\<rparr>"

definition lc_with_priority_boost :: "boost_config \<Rightarrow> lane_config \<Rightarrow> lane_config" where
  "lc_with_priority_boost b c = c\<lparr>lc_priority_boost := Some b\<rparr>"

definition lc_with_pressure_threshold :: "nat \<Rightarrow> lane_config \<Rightarrow> lane_config" where
  "lc_with_pressure_threshold n c = c\<lparr>lc_pressure_threshold := Some n\<rparr>"

text \<open>\<open>duration_serde\<close>: a timeout is stored in whole milliseconds, cast to \<open>u64\<close>.\<close>

definition serialize_timeout :: "duration option \<Rightarrow> nat option" where
  "serialize_timeout d = map_option (\<lambda>d. as_millis d mod 2 ^ 64) d"

definition deserialize_timeout :: "nat option \<Rightarrow> duration option" where
  "deserialize_timeout ms = map_option from_millis ms"

section \<open>Events\<close>

datatype event_payload = PayloadEmpty | PayloadString string | PayloadMap "(string \<times> json) list"

record lane_event =
  le_key :: string
  le_payload :: event_payload
  le_timestamp :: instant

definition event_empty :: "string \<Rightarrow> instant \<Rightarrow> lane_event" where
  "event_empty k now = \<lparr>le_key = k, le_payload = PayloadEmpty, le_timestamp = now\<rparr>"

definition event_with_string :: "string \<Rightarrow> string \<Rightarrow> instant \<Rightarrow> lane_event" where
  "event_with_string k msg now = \<lparr>le_key = k, le_payload = PayloadString msg, le_timestamp = now\<rparr>"

definition event_with_map :: "string \<Rightarrow> (string \<times> json) list \<Rightarrow> instant \<Rightarrow> lane_event" where
  "event_with_map k m now = \<lparr>le_key = k, le_payload = PayloadMap m, le_timestamp = now\<rparr>"

definition QUEUE_LANE_PRESSURE :: string where "QUEUE_LANE_PRESSURE = ''queue.lane.pressure''"
definition QUEUE_LANE_IDLE :: string where "QUEUE_LANE_IDLE = ''queue.lane.idle''"
definition QUEUE_COMMAND_SUBMITTED :: string where "QUEUE_COMMAND_SUBMITTED = ''queue.command.submitted''"
definition QUEUE_COMMAND_STARTED :: string where "QUEUE_COMMAND_STARTED = ''queue.command.started''"
definition QUEUE_COMMAND_COMPLETED :: string where "QUEUE_COMMAND_COMPLETED = ''queue.command.completed''"
definition QUEUE_COMMAND_FAILED :: string where "QUEUE_COMMAND_FAILED = ''queue.command.failed''"
definition QUEUE_COMMAND_TIMEOUT :: string where "QUEUE_COMMAND_TIMEOUT = ''queue.command.timeout''"
definition QUEUE_COMMAND_RETRY :: string where "QUEUE_COMMAND_RETRY = ''queue.command.retry''"
definition QUEUE_COMMAND_DEAD_LETTERED :: string where "QUEUE_COMMAND_DEAD_LETTERED = ''queue.command.dead_lettered''"
definition QUEUE_SHUTDOWN_STARTED :: string where "QUEUE_SHUTDOWN_STARTED = ''queue.shutdown.started''"
definition QUEUE_SHUTDOWN_COMPLETE :: string where "QUEUE_SHUTDOWN_COMPLETE = ''queue.shutdown.complete''"

section \<open>Commands and lanes\<close>

type_synonym lane_id = string
type_synonym command_id = string
type_synonym priority = "8 word"

record stored_command =
  sc_id :: command_id
  sc_command_type :: string
  sc_lane_id :: lane_id
  sc_payload :: json
  sc_retry_count :: nat
  sc_created_at :: instant
  sc_last_attempt_at :: "instant option"

text \<open>
  \<open>CommandWrapper\<close>: \<open>cw_result_tx\<close> and \<open>cw_permit\<close> say whether the optional sender and work
  permit are present.
\<close>

record command_wrapper =
  cw_id :: command_id
  cw_result_tx :: bool
  cw_timeout :: "duration option"
  cw_retry_policy :: retry_policy
  cw_attempt :: nat
  cw_lane_id :: lane_id
  cw_command_type :: string
  cw_permit :: bool
  cw_enqueue_time :: instant

text \<open>\<open>LaneState\<close>. Its semaphore is created but never acquired by the source.\<close>

record lane_state =
  ls_config :: lane_config
  ls_priority :: priority
  ls_pending :: "command_wrapper list"
  ls_active :: nat
  ls_delayed_retries :: nat
  ls_is_pressured :: bool

record lane =
  ln_id :: lane_id
  ln_state :: lane_state
  ln_storage :: bool
  ln_rate_limiter :: rate_limiter
  ln_booster :: "boost_config option"

record lane_status =
  st_pending :: nat
  st_lane_active :: nat
  st_min :: nat
  st_max :: nat

end
