(* ===== verification/Lane_Queue.thy ===== *)
theory Lane_Queue
  imports Lane_Types
begin

text \<open>
  The lane scheduler of \<open>src/src/queue.rs\<close>: the operations of a lane, the admission
  lifecycle and the command queue. A \<open>Lane\<close> is shared (\<open>Arc\<close>), so the queue keeps the lanes
  in a store and its table maps an id to an address. Every lock of the source is held
  for one of the small operations below; the asynchronous functions are sequences of them, and
  \<open>lane_task\<close> names the points between two of them at which a task can be suspended.
\<close>

section \<open>Operations of a lane\<close>

definition lane_state_new :: "lane_config \<Rightarrow> priority \<Rightarrow> lane_state" where
  "lane_state_new config priority =
     \<lparr>ls_config = config, ls_priority = priority, ls_pending = [], ls_active = 0,
      ls_delayed_retries = 0, ls_is_pressured = False\<rparr>"

definition has_capacity :: "lane_state \<Rightarrow> bool" where
  "has_capacity st \<longleftrightarrow> ls_active st < lc_max_concurrency (ls_config st)"

definition has_pending :: "lane_state \<Rightarrow> bool" where
  "has_pending st \<longleftrightarrow> ls_pending st \<noteq> []"

definition lane_limiter :: "lane_config \<Rightarrow> instant \<Rightarrow> rate_limiter" where
  "lane_limiter config tick =
     (case lc_rate_limit config of
        Some r \<Rightarrow> TokenBucket (token_bucket_new r tick)
      | None \<Rightarrow> Unlimited)"

definition lane_new :: "lane_id \<Rightarrow> lane_config \<Rightarrow> priority \<Rightarrow> instant \<Rightarrow> lane" where
  "lane_new i config priority tick =
     \<lparr>ln_id = i, ln_state = lane_state_new config priority, ln_storage = False,
      ln_rate_limiter = lane_limiter config tick, ln_booster = lc_priority_boost config\<rparr>"

definition lane_with_storage :: "lane_id \<Rightarrow> lane_config \<Rightarrow> priority \<Rightarrow> instant \<Rightarrow> lane" where
  "lane_with_storage i config priority tick =
     \<lparr>ln_id = i, ln_state = lane_state_new config priority, ln_storage = True,
      ln_rate_limiter = lane_limiter config tick, ln_booster = lc_priority_boost config\<rparr>"

text \<open>The boosted priority; \<open>None\<close> is the panic of the deadline's date arithmetic.\<close>

definition effective_priority :: "externals \<Rightarrow> instant \<Rightarrow> lane \<Rightarrow> priority option" where
  "effective_priority ext now l =
     (case (ln_booster l, ls_pending (ln_state l)) of
        (Some c, front # _) \<Rightarrow>
          calculate_priority ext c (ls_priority (ln_state l)) (cw_enqueue_time front) now
      | _ \<Rightarrow> Some (ls_priority (ln_state l)))"

definition on_state :: "(lane_state \<Rightarrow> lane_state) \<Rightarrow> lane \<Rightarrow> lane" where
  "on_state f l = l\<lparr>ln_state := f (ln_state l)\<rparr>"

text \<open>The wrapper \<open>enqueue_with_permit\<close> builds, its stored form, and the push.\<close>

definition new_wrapper :: "command_id \<Rightarrow> string \<Rightarrow> bool \<Rightarrow> instant \<Rightarrow> lane \<Rightarrow> command_wrapper" where
  "new_wrapper uuid command_type permit now l =
     \<lparr>cw_id = uuid, cw_result_tx = True,
      cw_timeout = lc_default_timeout (ls_config (ln_state l)),
      cw_retry_policy = lc_retry_policy (ls_config (ln_state l)), cw_attempt = 0,
      cw_lane_id = ln_id l, cw_command_type = command_type, cw_permit = permit,
      cw_enqueue_time = now\<rparr>"

definition stored_form :: "command_wrapper \<Rightarrow> instant \<Rightarrow> stored_command" where
  "stored_form w now =
     \<lparr>sc_id = cw_id w, sc_command_type = cw_command_type w, sc_lane_id = cw_lane_id w,
      sc_payload = JObject [], sc_retry_count = 0, sc_created_at = now, sc_last_attempt_at = None\<rparr>"

definition push_back :: "command_wrapper \<Rightarrow> lane \<Rightarrow> lane" where
  "push_back w = on_state (\<lambda>st. st\<lparr>ls_pending := ls_pending st @ [w]\<rparr>)"

text \<open>\<open>retry_command\<close> under the lock, and the task it spawns when the delay is over.\<close>

definition add_delayed_retry :: "lane \<Rightarrow> lane" where
  "add_delayed_retry = on_state (\<lambda>st. st\<lparr>ls_delayed_retries := ls_delayed_retries st + 1\<rparr>)"

definition next_attempt :: "command_wrapper \<Rightarrow> command_wrapper" where
  "next_attempt w = w\<lparr>cw_attempt := cw_attempt w + 1\<rparr>"

definition requeue_retry :: "command_wrapper \<Rightarrow> lane \<Rightarrow> lane" where
  "requeue_retry w =
     on_state (\<lambda>st. st\<lparr>ls_delayed_retries := ls_delayed_retries st - 1,
                       ls_pending := ls_pending st @ [w]\<rparr>)"

text \<open>A token of the rate limiter is taken before the lane is looked at.\<close>

definition try_dequeue :: "instant \<Rightarrow> lane \<Rightarrow> command_wrapper option \<times> lane" where
  "try_dequeue tick l =
     (let (ok, rl) = rl_try_acquire tick (ln_rate_limiter l);
          l1 = l\<lparr>ln_rate_limiter := rl\<rparr>;
          st = ln_state l1
      in if \<not> ok then (None, l1)
         else if has_capacity st \<and> has_pending st
         then (Some (hd (ls_pending st)),
               on_state (\<lambda>st. st\<lparr>ls_active := ls_active st + 1, ls_pending := tl (ls_pending st)\<rparr>) l1)
         else (None, l1))"

text \<open>\<open>saturating_sub\<close> is the subtraction of the naturals.\<close>

definition mark_completed :: "lane \<Rightarrow> lane" where
  "mark_completed = on_state (\<lambda>st. st\<lparr>ls_active := ls_active st - 1\<rparr>)"

definition lane_status_of :: "lane \<Rightarrow> lane_status" where
  "lane_status_of l =
     \<lparr>st_pending = length (ls_pending (ln_state l)) + ls_delayed_retries (ln_state l),
      st_lane_active = ls_active (ln_state l),
      st_min = lc_min_concurrency (ls_config (ln_state l)),
      st_max = lc_max_concurrency (ls_config (ln_state l))\<rparr>"

definition lane_is_idle :: "lane \<Rightarrow> bool" where
  "lane_is_idle l \<longleftrightarrow>
     ls_pending (ln_state l) = [] \<and> ls_active (ln_state l) = 0 \<and> ls_delayed_retries (ln_state l) = 0"

definition check_pressure :: "lane \<Rightarrow> string option \<times> lane" where
  "check_pressure l =
     (case lc_pressure_threshold (ls_config (ln_state l)) of
        None \<Rightarrow> (None, l)
      | Some threshold \<Rightarrow>
          let pending = length (ls_pending (ln_state l));
              was_pressured = ls_is_pressured (ln_state l)
          in if pending \<ge> threshold \<and> \<not> was_pressured
             then (Some QUEUE_LANE_PRESSURE, on_state (\<lambda>st. st\<lparr>ls_is_pressured := True\<rparr>) l)
             else if pending = 0 \<and> was_pressured
             then (Some QUEUE_LANE_IDLE, on_state (\<lambda>st. st\<lparr>ls_is_pressured := False\<rparr>) l)
             else (None, l))"

section \<open>The queue\<close>

text \<open>
  A suspended task: a submission after admission, after the lane was found, after the command
  was stored; a spawned execution running the command, about to re-enqueue it, after it was
  handed to the backoff task, after its result was sent, and before the wrapper is dropped;
  and the backoff task itself. The number is the address of the lane.
\<close>

datatype lane_task =
    Admitted lane_id string
  | Located nat string
  | Persisted nat command_wrapper
  | Executing nat command_wrapper
  | Retrying nat command_wrapper duration
  | Backoff nat command_wrapper duration
  | Rescheduled nat
  | Finished nat command_wrapper
  | Released command_wrapper

text \<open>
  \<open>CommandQueue\<close> with its \<open>QueueLifecycle\<close>, the contents of the storage backend, and what the
  outside observes: emitted events, results sent to the submitters, and tasks that died in a
  panic of \<open>execute\<close> (the address of their lane).
\<close>

record lane_queue =
  lq_store :: "lane list"
  lq_lanes :: "(lane_id, nat) hmap"
  lq_dlq :: "dead_letter_queue option"
  lq_stored :: "(command_id, stored_command) hmap"
  lq_shutting_down :: bool
  lq_outstanding :: nat
  lq_tasks :: "lane_task list"
  lq_events :: "lane_event list"
  lq_results :: "(command_id \<times> json result) list"
  lq_panicked :: "nat list"

definition queue_new :: "nat option \<Rightarrow> lane_queue" where
  "queue_new dlq_size =
     \<lparr>lq_store = [], lq_lanes = [], lq_dlq = map_option dlq_new dlq_size, lq_stored = [],
      lq_shutting_down = False, lq_outstanding = 0, lq_tasks = [], lq_events = [], lq_results = [],
      lq_panicked = []\<rparr>"

definition on_lane :: "nat \<Rightarrow> (lane \<Rightarrow> lane) \<Rightarrow> lane_queue \<Rightarrow> lane_queue" where
  "on_lane a f q = q\<lparr>lq_store := (lq_store q)[a := f (lq_store q ! a)]\<rparr>"

definition emit :: "lane_event \<Rightarrow> lane_queue \<Rightarrow> lane_queue" where
  "emit e q = q\<lparr>lq_events := lq_events q @ [e]\<rparr>"

text \<open>A task moves on: it is replaced by what it becomes.\<close>

definition move_task :: "lane_task \<Rightarrow> lane_task list \<Rightarrow> lane_queue \<Rightarrow> lane_queue" where
  "move_task old new q = q\<lparr>lq_tasks := new @ remove1 old (lq_tasks q)\<rparr>"

definition register_lane :: "lane \<Rightarrow> lane_queue \<Rightarrow> lane_queue" where
  "register_lane l q =
     q\<lparr>lq_store := lq_store q @ [l],
       lq_lanes := AList.update (ln_id l) (length (lq_store q)) (lq_lanes q)\<rparr>"

text \<open>Admission, shutdown and the drop of a work permit.\<close>

definition admit :: "lane_queue \<Rightarrow> unit result \<times> lane_queue" where
  "admit q =
     (if lq_shutting_down q then (Inl ShutdownInProgress, q)
      else (Inr (), q\<lparr>lq_outstanding := lq_outstanding q + 1\<rparr>))"

definition begin_shutdown :: "lane_queue \<Rightarrow> bool \<times> lane_queue" where
  "begin_shutdown q = (\<not> lq_shutting_down q, q\<lparr>lq_shutting_down := True\<rparr>)"

definition drop_permit :: "lane_queue \<Rightarrow> lane_queue" where
  "drop_permit q = q\<lparr>lq_outstanding := lq_outstanding q - 1\<rparr>"

definition drop_wrapper :: "command_wrapper \<Rightarrow> lane_queue \<Rightarrow> lane_queue" where
  "drop_wrapper w q = (if cw_permit w then drop_permit q else q)"

definition shutdown :: "instant \<Rightarrow> lane_queue \<Rightarrow> lane_queue" where
  "shutdown now q =
     (let (started, q1) = begin_shutdown q
      in if started then emit (event_empty QUEUE_SHUTDOWN_STARTED now) q1 else q1)"

definition queue_is_idle :: "lane_queue \<Rightarrow> bool" where
  "queue_is_idle q \<longleftrightarrow>
     lq_outstanding q = 0 \<and> list_all (\<lambda>(_, a). lane_is_idle (lq_store q ! a)) (lq_lanes q)"

section \<open>Submitting\<close>

definition submit_admit :: "lane_id \<Rightarrow> string \<Rightarrow> lane_queue \<Rightarrow> unit result \<times> lane_queue" where
  "submit_admit lane_id command_type q =
     (case admit q of
        (Inl e, q1) \<Rightarrow> (Inl e, q1)
      | (Inr _, q1) \<Rightarrow> (Inr (), q1\<lparr>lq_tasks := Admitted lane_id command_type # lq_tasks q1\<rparr>))"

text \<open>An unknown lane drops the permit again.\<close>

definition submit_locate :: "lane_id \<Rightarrow> string \<Rightarrow> lane_queue \<Rightarrow> unit result \<times> lane_queue" where
  "submit_locate lane_id command_type q =
     (let task = Admitted lane_id command_type
      in case map_of (lq_lanes q) lane_id of
           None \<Rightarrow> (Inl (LaneNotFound lane_id), drop_permit (move_task task [] q))
         | Some a \<Rightarrow> (Inr (), move_task task [Located a command_type] q))"

text \<open>A failure to store the command is ignored (\<open>saved\<close> is whether the call succeeded).\<close>

definition store_wrapper :: "command_wrapper \<Rightarrow> nat \<Rightarrow> instant \<Rightarrow> bool \<Rightarrow> lane_queue \<Rightarrow> lane_queue" where
  "store_wrapper w a now saved q =
     (if ln_storage (lq_store q ! a) \<and> saved
      then q\<lparr>lq_stored := AList.update (cw_id w) (stored_form w now) (lq_stored q)\<rparr>
      else q)"

definition submit_persist :: "nat \<Rightarrow> string \<Rightarrow> command_id \<Rightarrow> instant \<Rightarrow> bool \<Rightarrow> lane_queue \<Rightarrow> lane_queue" where
  "submit_persist a command_type uuid now saved q =
     (let w = new_wrapper uuid command_type True now (lq_store q ! a)
      in move_task (Located a command_type) [Persisted a w] (store_wrapper w a now saved q))"

definition submit_push :: "nat \<Rightarrow> command_wrapper \<Rightarrow> instant \<Rightarrow> lane_queue \<Rightarrow> lane_queue" where
  "submit_push a w now q =
     (let q1 = on_lane a (push_back w) (move_task (Persisted a w) [] q)
      in if cw_permit w
         then emit (event_with_map QUEUE_COMMAND_SUBMITTED [(''lane_id'', JString (cw_lane_id w))] now) q1
         else q1)"

text \<open>\<open>Lane::enqueue\<close>, called on a lane directly: no admission and no permit.\<close>

definition direct_enqueue :: "nat \<Rightarrow> string \<Rightarrow> command_id \<Rightarrow> instant \<Rightarrow> bool \<Rightarrow> lane_queue \<Rightarrow> lane_queue" where
  "direct_enqueue a command_type uuid now saved q =
     (let w = new_wrapper uuid command_type False now (lq_store q ! a);
          q1 = store_wrapper w a now saved q
      in q1\<lparr>lq_tasks := Persisted a w # lq_tasks q1\<rparr>)"

text \<open>\<open>submit\<close> when nothing else runs in between.\<close>

definition submit ::
  "lane_id \<Rightarrow> string \<Rightarrow> command_id \<Rightarrow> instant \<Rightarrow> bool \<Rightarrow> lane_queue \<Rightarrow> unit result \<times> lane_queue" where
  "submit lane_id command_type uuid now saved q =
     (case submit_admit lane_id command_type q of
        (Inl e, q1) \<Rightarrow> (Inl e, q1)
      | (Inr _, q1) \<Rightarrow>
          (case submit_locate lane_id command_type q1 of
             (Inl e, q2) \<Rightarrow> (Inl e, q2)
           | (Inr _, q2) \<Rightarrow>
               let a = the (map_of (lq_lanes q1) lane_id);
                   w = new_wrapper uuid command_type True now (lq_store q2 ! a);
                   q3 = submit_persist a command_type uuid now saved q2
               in (Inr (), submit_push a w now q3)))"

section \<open>Scheduling\<close>

definition pressure_step :: "nat \<Rightarrow> instant \<Rightarrow> lane_queue \<Rightarrow> lane_queue" where
  "pressure_step a now q =
     (let (event_key, l) = check_pressure (lq_store q ! a);
          q1 = on_lane a (\<lambda>_. l) q
      in case event_key of
           Some k \<Rightarrow> emit (event_with_map k [(''lane_id'', JString (ln_id l))] now) q1
         | None \<Rightarrow> q1)"

definition started_event :: "command_wrapper \<Rightarrow> instant \<Rightarrow> lane_event" where
  "started_event w now =
     event_with_map QUEUE_COMMAND_STARTED
       [(''lane_id'', JString (cw_lane_id w)), (''command_id'', JString (cw_id w)),
        (''command_type'', JString (cw_command_type w))] now"

text \<open>One turn of the loop over the lanes: dequeue, announce, and spawn the execution.\<close>

definition dequeue_step :: "nat \<Rightarrow> instant \<Rightarrow> instant \<Rightarrow> lane_queue \<Rightarrow> bool \<times> lane_queue" where
  "dequeue_step a tick now q =
     (let (dequeued, l) = try_dequeue tick (lq_store q ! a);
          q1 = on_lane a (\<lambda>_. l) q
      in case dequeued of
           None \<Rightarrow> (False, q1)
         | Some w \<Rightarrow>
             (True, emit (started_event w now) (q1\<lparr>lq_tasks := Executing a w # lq_tasks q1\<rparr>)))"

fun dequeue_first :: "nat list \<Rightarrow> instant \<Rightarrow> instant \<Rightarrow> lane_queue \<Rightarrow> nat option \<times> lane_queue" where
  "dequeue_first [] tick now q = (None, q)"
| "dequeue_first (a # as) tick now q =
     (let (found, q1) = dequeue_step a tick now q
      in if found then (Some a, q1) else dequeue_first as tick now q1)"

fun lane_priorities :: "externals \<Rightarrow> instant \<Rightarrow> lane list \<Rightarrow> nat list \<Rightarrow> (priority \<times> nat) list option" where
  "lane_priorities ext now store [] = Some []"
| "lane_priorities ext now store (a # as) =
     (case effective_priority ext now (store ! a) of
        None \<Rightarrow> None
      | Some p \<Rightarrow> map_option (\<lambda>ps. (p, a) # ps) (lane_priorities ext now store as))"

text \<open>
  \<open>schedule_next\<close> when nothing else runs in between; it returns the lane whose command was
  started. The lanes come in the order of the hash map, and \<open>sort_by_key\<close> is stable.
\<close>

definition queue_lanes :: "externals \<Rightarrow> lane_queue \<Rightarrow> nat list" where
  "queue_lanes ext q = hash_values (ext_hash_rank ext) (lq_lanes q)"

definition schedule_next ::
  "externals \<Rightarrow> instant \<Rightarrow> instant \<Rightarrow> lane_queue \<Rightarrow> (nat option \<times> lane_queue) option" where
  "schedule_next ext tick now q =
     (let lanes = queue_lanes ext q;
          q1 = fold (\<lambda>a. pressure_step a now) lanes q
      in map_option (\<lambda>ps. dequeue_first (map snd (sort_key fst ps)) tick now q1)
           (lane_priorities ext now (lq_store q1) lanes))"

section \<open>Finishing an execution\<close>

text \<open>
  What \<open>execute\<close> returned, or \<open>None\<close> when the timeout fired first. A lane without a timeout
  waits for the command, so \<open>None\<close> is possible only with one.
\<close>

definition execution_result :: "command_wrapper \<Rightarrow> json result option \<Rightarrow> json result option" where
  "execution_result w returned =
     (case returned of
        Some r \<Rightarrow> Some r
      | None \<Rightarrow> map_option (\<lambda>d. Inl (Timeout d)) (cw_timeout w))"

text \<open>A failure to remove the stored command is ignored (\<open>removed\<close>).\<close>

definition unstore_wrapper :: "command_wrapper \<Rightarrow> nat \<Rightarrow> bool \<Rightarrow> lane_queue \<Rightarrow> lane_queue" where
  "unstore_wrapper w a removed q =
     (if ln_storage (lq_store q ! a) \<and> removed
      then q\<lparr>lq_stored := AList.delete (cw_id w) (lq_stored q)\<rparr> else q)"

definition send_result :: "command_wrapper \<Rightarrow> json result \<Rightarrow> lane_queue \<Rightarrow> lane_queue" where
  "send_result w r q =
     (if cw_result_tx w then q\<lparr>lq_results := lq_results q @ [(cw_id w, r)]\<rparr> else q)"

definition sent :: "command_wrapper \<Rightarrow> command_wrapper" where
  "sent w = w\<lparr>cw_result_tx := False\<rparr>"

definition id_fields :: "command_wrapper \<Rightarrow> (string \<times> json) list" where
  "id_fields w = [(''lane_id'', JString (cw_lane_id w)), (''command_id'', JString (cw_id w))]"

definition finish_ok :: "nat \<Rightarrow> command_wrapper \<Rightarrow> json \<Rightarrow> instant \<Rightarrow> bool \<Rightarrow> lane_queue \<Rightarrow> lane_queue" where
  "finish_ok a w v now removed q =
     (let q1 = unstore_wrapper w a removed q;
          q2 = emit (event_with_map QUEUE_COMMAND_COMPLETED (id_fields w) now) q1
      in move_task (Executing a w) [Finished a (sent w)] (send_result w (Inr v) q2))"

definition dead_letter_of :: "command_wrapper \<Rightarrow> string \<Rightarrow> instant \<Rightarrow> dead_letter" where
  "dead_letter_of w msg now =
     \<lparr>dl_command_id = cw_id w, dl_command_type = cw_command_type w, dl_lane_id = cw_lane_id w,
      dl_error = msg, dl_attempts = cw_attempt w + 1, dl_failed_at = now\<rparr>"

definition bury :: "command_wrapper \<Rightarrow> string \<Rightarrow> instant \<Rightarrow> lane_queue \<Rightarrow> lane_queue" where
  "bury w msg now q =
     (case lq_dlq q of
        None \<Rightarrow> q
      | Some d \<Rightarrow>
          emit (event_with_map QUEUE_COMMAND_DEAD_LETTERED
                  (id_fields w @ [(''command_type'', JString (cw_command_type w))]) now)
            (q\<lparr>lq_dlq := Some (dlq_push (dead_letter_of w msg now) d)\<rparr>))"

fun is_timeout :: "lane_error \<Rightarrow> bool" where
  "is_timeout (Timeout _) = True"
| "is_timeout _ = False"

definition finish_failed ::
  "(duration \<Rightarrow> string) \<Rightarrow> nat \<Rightarrow> command_wrapper \<Rightarrow> lane_error \<Rightarrow> instant \<Rightarrow> bool \<Rightarrow> lane_queue \<Rightarrow> lane_queue" where
  "finish_failed dbg a w err now removed q =
     (let msg = error_display dbg err;
          q1 = unstore_wrapper w a removed q;
          q2 = bury w msg now q1;
          q3 = emit (event_with_map (if is_timeout err then QUEUE_COMMAND_TIMEOUT else QUEUE_COMMAND_FAILED)
                       (id_fields w @ [(''error'', JString msg)]) now) q2
      in move_task (Executing a w) [Finished a (sent w)] (send_result w (Inl err) q3))"

definition start_retry ::
  "(f64 \<Rightarrow> int \<Rightarrow> f64) \<Rightarrow> nat \<Rightarrow> command_wrapper \<Rightarrow> lane_queue \<Rightarrow> lane_queue" where
  "start_retry pw a w q =
     move_task (Executing a w)
       [Retrying a w (delay_for_attempt pw (cw_retry_policy w) (cw_attempt w + 1))] q"

text \<open>The end of \<open>execute\<close>: success, another attempt, or a permanent failure.\<close>

definition finish ::
  "externals \<Rightarrow> (duration \<Rightarrow> string) \<Rightarrow> nat \<Rightarrow> command_wrapper \<Rightarrow> json result \<Rightarrow> instant \<Rightarrow> bool
     \<Rightarrow> lane_queue \<Rightarrow> lane_queue" where
  "finish ext dbg a w r now removed q =
     (case r of
        Inr v \<Rightarrow> finish_ok a w v now removed q
      | Inl err \<Rightarrow>
          if rp_should_retry (cw_retry_policy w) (cw_attempt w)
          then start_retry (ext_powi ext) a w q
          else finish_failed dbg a w err now removed q)"

text \<open>\<open>retry_command\<close> and the retry event; the wrapper goes to the spawned backoff task.\<close>

definition hand_to_backoff :: "nat \<Rightarrow> command_wrapper \<Rightarrow> duration \<Rightarrow> instant \<Rightarrow> lane_queue \<Rightarrow> lane_queue" where
  "hand_to_backoff a w delay now q =
     (let q1 = on_lane a add_delayed_retry
                 (move_task (Retrying a w delay) [Backoff a (next_attempt w) delay, Rescheduled a] q)
      in emit (event_with_map QUEUE_COMMAND_RETRY
                 (id_fields w @ [(''attempt'', json_of_int (int (cw_attempt w + 1)))]) now) q1)"

definition wake_retry :: "nat \<Rightarrow> command_wrapper \<Rightarrow> duration \<Rightarrow> lane_queue \<Rightarrow> lane_queue" where
  "wake_retry a w delay q = on_lane a (requeue_retry w) (move_task (Backoff a w delay) [] q)"

definition complete_rescheduled :: "nat \<Rightarrow> lane_queue \<Rightarrow> lane_queue" where
  "complete_rescheduled a q = on_lane a mark_completed (move_task (Rescheduled a) [] q)"

definition complete_finished :: "nat \<Rightarrow> command_wrapper \<Rightarrow> lane_queue \<Rightarrow> lane_queue" where
  "complete_finished a w q = on_lane a mark_completed (move_task (Finished a w) [Released w] q)"

definition release_wrapper :: "command_wrapper \<Rightarrow> lane_queue \<Rightarrow> lane_queue" where
  "release_wrapper w q = drop_wrapper w (move_task (Released w) [] q)"

text \<open>
  A panic of \<open>execute\<close> unwinds the spawned task: the wrapper is dropped, nothing else happens.
\<close>

definition task_panics :: "nat \<Rightarrow> command_wrapper \<Rightarrow> lane_queue \<Rightarrow> lane_queue" where
  "task_panics a w q =
     (let q1 = drop_wrapper w (move_task (Executing a w) [] q)
      in q1\<lparr>lq_panicked := a # lq_panicked q1\<rparr>)"

section \<open>Status\<close>

definition queue_status :: "lane_queue \<Rightarrow> (lane_id, lane_status) hmap" where
  "queue_status q = map (\<lambda>(i, a). (i, lane_status_of (lq_store q ! a))) (lq_lanes q)"

end
