(* ===== verification/Lane_Steps.thy ===== *)
theory Lane_Steps
  imports Lane_Queue
begin

text \<open>
  The interleavings of the lane scheduler: submitters, the scheduler, spawned executions,
  backoff tasks and shutdown each take one step at a time, in any order. A scheduler pass is
  over-approximated by pressure checks and dequeues on any lanes. The accounting
  invariant (slots, delayed retries, outstanding permits, identifiers) is expressed with
  tallies: sums over the lanes plus sums over the suspended tasks.
\<close>

section \<open>Steps\<close>

text \<open>The wrapper a task owns, and the lane it refers to.\<close>

fun task_wrapper :: "lane_task \<Rightarrow> command_wrapper option" where
  "task_wrapper (Admitted i ty) = None"
| "task_wrapper (Located a ty) = None"
| "task_wrapper (Persisted a w) = Some w"
| "task_wrapper (Executing a w) = Some w"
| "task_wrapper (Retrying a w d) = Some w"
| "task_wrapper (Backoff a w d) = Some w"
| "task_wrapper (Rescheduled a) = None"
| "task_wrapper (Finished a w) = Some w"
| "task_wrapper (Released w) = Some w"

fun task_lane :: "lane_task \<Rightarrow> nat option" where
  "task_lane (Admitted i ty) = None"
| "task_lane (Located a ty) = Some a"
| "task_lane (Persisted a w) = Some a"
| "task_lane (Executing a w) = Some a"
| "task_lane (Retrying a w d) = Some a"
| "task_lane (Backoff a w d) = Some a"
| "task_lane (Rescheduled a) = Some a"
| "task_lane (Finished a w) = Some a"
| "task_lane (Released w) = None"

definition pending_of :: "lane \<Rightarrow> command_wrapper list" where
  "pending_of l = ls_pending (ln_state l)"

text \<open>A sum over the lanes plus a sum over the suspended tasks.\<close>

definition tally :: "(lane \<Rightarrow> 'n) \<Rightarrow> (lane_task \<Rightarrow> 'n) \<Rightarrow> lane_queue \<Rightarrow> 'n::cancel_comm_monoid_add" where
  "tally f g q = sum_list (map f (lq_store q)) + sum_list (map g (lq_tasks q))"

text \<open>
  The identifiers of the commands that still owe their submitter a result, each as often as it
  occurs, restricted by a predicate on the work permit; and with those already answered all
  identifiers in use.
\<close>

definition id_if :: "(bool \<Rightarrow> bool) \<Rightarrow> command_wrapper \<Rightarrow> command_id multiset" where
  "id_if P w = (if P (cw_permit w) then {#cw_id w#} else {#})"

fun owed_id :: "(bool \<Rightarrow> bool) \<Rightarrow> lane_task \<Rightarrow> command_id multiset" where
  "owed_id P (Persisted a w) = id_if P w"
| "owed_id P (Executing a w) = id_if P w"
| "owed_id P (Retrying a w d) = id_if P w"
| "owed_id P (Backoff a w d) = id_if P w"
| "owed_id P _ = {#}"

definition pending_ids :: "(bool \<Rightarrow> bool) \<Rightarrow> lane \<Rightarrow> command_id multiset" where
  "pending_ids P l = sum_list (map (id_if P) (pending_of l))"

definition unanswered :: "(bool \<Rightarrow> bool) \<Rightarrow> lane_queue \<Rightarrow> command_id multiset" where
  "unanswered P = tally (pending_ids P) (owed_id P)"

definition accounted_ids :: "lane_queue \<Rightarrow> command_id multiset" where
  "accounted_ids q = unanswered (\<lambda>_. True) q + mset (map fst (lq_results q))"

text \<open>A lane as \<open>Lane::new\<close> or \<open>Lane::with_storage\<close> builds it.\<close>

definition new_lane :: "lane \<Rightarrow> bool" where
  "new_lane l \<longleftrightarrow> (\<exists>i c p tick. l = lane_new i c p tick \<or> l = lane_with_storage i c p tick)"

datatype actor = Outside | Submitter | Scheduler nat | Task lane_task

text \<open>
  One step, labelled by who takes it. A fresh \<open>Uuid\<close> is none the queue knows; the clock
  readings, the outcome of \<open>execute\<close> and of the storage calls are arbitrary.
\<close>

inductive lane_step :: "externals \<Rightarrow> (duration \<Rightarrow> string) \<Rightarrow> actor \<Rightarrow> lane_queue \<Rightarrow> lane_queue \<Rightarrow> bool"
  for ext dbg where
  Register: "new_lane l \<Longrightarrow> lane_step ext dbg Outside q (register_lane l q)"
| Admit: "lane_step ext dbg Submitter q (snd (submit_admit i ty q))"
| Locate: "Admitted i ty \<in> set (lq_tasks q) \<Longrightarrow> lane_step ext dbg (Task (Admitted i ty)) q (snd (submit_locate i ty q))"
| Persist: "Located a ty \<in> set (lq_tasks q) \<Longrightarrow> uuid \<notin># accounted_ids q \<Longrightarrow>
    lane_step ext dbg (Task (Located a ty)) q (submit_persist a ty uuid now saved q)"
| Direct: "a < length (lq_store q) \<Longrightarrow> uuid \<notin># accounted_ids q \<Longrightarrow>
    lane_step ext dbg Outside q (direct_enqueue a ty uuid now saved q)"
| Push: "Persisted a w \<in> set (lq_tasks q) \<Longrightarrow> lane_step ext dbg (Task (Persisted a w)) q (submit_push a w now q)"
| Pressure: "a < length (lq_store q) \<Longrightarrow> lane_step ext dbg (Scheduler a) q (pressure_step a now q)"
| Dequeue: "a < length (lq_store q) \<Longrightarrow> lane_step ext dbg (Scheduler a) q (snd (dequeue_step a tick now q))"
| Finish: "Executing a w \<in> set (lq_tasks q) \<Longrightarrow> execution_result w returned = Some r \<Longrightarrow>
    lane_step ext dbg (Task (Executing a w)) q (finish ext dbg a w r now removed q)"
| Retry: "Retrying a w d \<in> set (lq_tasks q) \<Longrightarrow> lane_step ext dbg (Task (Retrying a w d)) q (hand_to_backoff a w d now q)"
| Wake: "Backoff a w d \<in> set (lq_tasks q) \<Longrightarrow> lane_step ext dbg (Task (Backoff a w d)) q (wake_retry a w d q)"
| Reschedule: "Rescheduled a \<in> set (lq_tasks q) \<Longrightarrow> lane_step ext dbg (Task (Rescheduled a)) q (complete_rescheduled a q)"
| Complete: "Finished a w \<in> set (lq_tasks q) \<Longrightarrow> lane_step ext dbg (Task (Finished a w)) q (complete_finished a w q)"
| Release: "Released w \<in> set (lq_tasks q) \<Longrightarrow> lane_step ext dbg (Task (Released w)) q (release_wrapper w q)"
| Panic: "Executing a w \<in> set (lq_tasks q) \<Longrightarrow> lane_step ext dbg (Task (Executing a w)) q (task_panics a w q)"
| Shutdown: "lane_step ext dbg Outside q (shutdown now q)"
| Take_letter: "lq_dlq q = Some d \<Longrightarrow> lane_step ext dbg Outside q (q\<lparr>lq_dlq := Some (snd (dlq_pop d))\<rparr>)"
| Clear_letters: "lq_dlq q = Some d \<Longrightarrow> lane_step ext dbg Outside q (q\<lparr>lq_dlq := Some (dlq_clear d)\<rparr>)"

inductive lane_reachable :: "externals \<Rightarrow> (duration \<Rightarrow> string) \<Rightarrow> lane_queue \<Rightarrow> bool"
  for ext dbg where
  Start: "lane_reachable ext dbg (queue_new dlq_size)"
| Step: "lane_reachable ext dbg q \<Longrightarrow> lane_step ext dbg actor q q' \<Longrightarrow> lane_reachable ext dbg q'"

section \<open>Tallies\<close>

lemma tally_on_lane:
  assumes "a < length (lq_store q)"
  shows "tally f g (on_lane a h q) + f (lq_store q ! a) = tally f g q + f (h (lq_store q ! a))"
proof -
  let ?s = "lq_store q"
  have u: "take a ?s @ h (?s ! a) # drop (Suc a) ?s = ?s[a := h (?s ! a)]"
    using assms by (simp add: upd_conv_take_nth_drop)
  have s: "sum_list (map f ?s) = sum_list (map f (take a ?s @ ?s ! a # drop (Suc a) ?s))"
    using assms by (simp add: id_take_nth_drop [symmetric])
  show ?thesis
    unfolding tally_def on_lane_def by (simp add: s u [symmetric] ac_simps del: map_append) (simp add: ac_simps)
qed

lemma tally_move_task:
  assumes "old \<in> set (lq_tasks q)"
  shows "tally f g (move_task old new q) + g old = tally f g q + sum_list (map g new)"
proof -
  have "sum_list (map g (lq_tasks q)) = g old + sum_list (map g (remove1 old (lq_tasks q)))"
    using assms by (rule sum_list_map_remove1)
  then show ?thesis by (simp add: tally_def move_task_def ac_simps)
qed

section \<open>What the primitives leave alone\<close>

lemma emit_fields [simp]:
  "lq_store (emit e q) = lq_store q"
  "lq_lanes (emit e q) = lq_lanes q"
  "lq_tasks (emit e q) = lq_tasks q"
  "lq_outstanding (emit e q) = lq_outstanding q"
  "lq_results (emit e q) = lq_results q"
  "lq_panicked (emit e q) = lq_panicked q"
  "lq_shutting_down (emit e q) = lq_shutting_down q"
  by (simp_all add: emit_def)

lemma on_lane_fields [simp]:
  "lq_lanes (on_lane a h q) = lq_lanes q"
  "lq_tasks (on_lane a h q) = lq_tasks q"
  "lq_outstanding (on_lane a h q) = lq_outstanding q"
  "lq_results (on_lane a h q) = lq_results q"
  "lq_panicked (on_lane a h q) = lq_panicked q"
  "lq_shutting_down (on_lane a h q) = lq_shutting_down q"
  by (simp_all add: on_lane_def)

lemma move_task_fields [simp]:
  "lq_store (move_task old new q) = lq_store q"
  "lq_lanes (move_task old new q) = lq_lanes q"
  "lq_outstanding (move_task old new q) = lq_outstanding q"
  "lq_results (move_task old new q) = lq_results q"
  "lq_panicked (move_task old new q) = lq_panicked q"
  "lq_shutting_down (move_task old new q) = lq_shutting_down q"
  by (simp_all add: move_task_def)

lemma drop_permit_fields [simp]:
  "lq_store (drop_permit q) = lq_store q"
  "lq_lanes (drop_permit q) = lq_lanes q"
  "lq_tasks (drop_permit q) = lq_tasks q"
  "lq_results (drop_permit q) = lq_results q"
  "lq_panicked (drop_permit q) = lq_panicked q"
  "lq_shutting_down (drop_permit q) = lq_shutting_down q"
  by (simp_all add: drop_permit_def)

lemma drop_wrapper_fields [simp]:
  "lq_store (drop_wrapper w q) = lq_store q"
  "lq_lanes (drop_wrapper w q) = lq_lanes q"
  "lq_tasks (drop_wrapper w q) = lq_tasks q"
  "lq_results (drop_wrapper w q) = lq_results q"
  "lq_panicked (drop_wrapper w q) = lq_panicked q"
  "lq_shutting_down (drop_wrapper w q) = lq_shutting_down q"
  by (simp_all add: drop_wrapper_def)

lemma store_wrapper_fields [simp]:
  "lq_store (store_wrapper w a now saved q) = lq_store q"
  "lq_lanes (store_wrapper w a now saved q) = lq_lanes q"
  "lq_tasks (store_wrapper w a now saved q) = lq_tasks q"
  "lq_outstanding (store_wrapper w a now saved q) = lq_outstanding q"
  "lq_results (store_wrapper w a now saved q) = lq_results q"
  "lq_panicked (store_wrapper w a now saved q) = lq_panicked q"
  "lq_shutting_down (store_wrapper w a now saved q) = lq_shutting_down q"
  by (simp_all add: store_wrapper_def)

lemma unstore_wrapper_fields [simp]:
  "lq_store (unstore_wrapper w a removed q) = lq_store q"
  "lq_lanes (unstore_wrapper w a removed q) = lq_lanes q"
  "lq_tasks (unstore_wrapper w a removed q) = lq_tasks q"
  "lq_outstanding (unstore_wrapper w a removed q) = lq_outstanding q"
  "lq_results (unstore_wrapper w a removed q) = lq_results q"
  "lq_panicked (unstore_wrapper w a removed q) = lq_panicked q"
  "lq_shutting_down (unstore_wrapper w a removed q) = lq_shutting_down q"
  by (simp_all add: unstore_wrapper_def)

lemma send_result_fields [simp]:
  "lq_store (send_result w r q) = lq_store q"
  "lq_lanes (send_result w r q) = lq_lanes q"
  "lq_tasks (send_result w r q) = lq_tasks q"
  "lq_outstanding (send_result w r q) = lq_outstanding q"
  "lq_panicked (send_result w r q) = lq_panicked q"
  "lq_shutting_down (send_result w r q) = lq_shutting_down q"
  by (simp_all add: send_result_def)

lemma bury_fields [simp]:
  "lq_store (bury w msg now q) = lq_store q"
  "lq_lanes (bury w msg now q) = lq_lanes q"
  "lq_tasks (bury w msg now q) = lq_tasks q"
  "lq_outstanding (bury w msg now q) = lq_outstanding q"
  "lq_results (bury w msg now q) = lq_results q"
  "lq_panicked (bury w msg now q) = lq_panicked q"
  "lq_shutting_down (bury w msg now q) = lq_shutting_down q"
  by (simp_all add: bury_def split: option.split)

lemma on_lane_store [simp]: "lq_store (on_lane a h q) = (lq_store q)[a := h (lq_store q ! a)]"
  by (simp add: on_lane_def)

lemma drop_outstanding [simp]:
  "lq_outstanding (drop_permit q) = lq_outstanding q - 1"
  "lq_outstanding (drop_wrapper w q) = lq_outstanding q - of_bool (cw_permit w)"
  by (simp_all add: drop_permit_def drop_wrapper_def)

text \<open>A sum over the tasks alone, and how moving a task changes it.\<close>

definition task_sum :: "(lane_task \<Rightarrow> 'n) \<Rightarrow> lane_queue \<Rightarrow> 'n::cancel_comm_monoid_add" where
  "task_sum g q = sum_list (map g (lq_tasks q))"

lemma task_sum_cong: "lq_tasks q' = lq_tasks q \<Longrightarrow> task_sum g q' = task_sum g q"
  by (simp add: task_sum_def)

lemma task_sum_add: "lq_tasks q' = t # lq_tasks q \<Longrightarrow> task_sum g q' = g t + task_sum g q"
  by (simp add: task_sum_def)

lemma task_sum_move:
  assumes "old \<in> set (lq_tasks q)"
  shows "task_sum g (move_task old new q) + g old = task_sum g q + sum_list (map g new)"
  using tally_move_task [OF assms, of "\<lambda>_. 0"] by (simp add: tally_def task_sum_def)

lemma task_sum_move_nat:
  fixes g :: "lane_task \<Rightarrow> nat"
  assumes "old \<in> set (lq_tasks q)"
  shows "task_sum g (move_task old new q) = task_sum g q + sum_list (map g new) - g old"
  using task_sum_move [OF assms, of g new] by simp

lemma task_sum_ge:
  fixes g :: "lane_task \<Rightarrow> nat"
  shows "old \<in> set (lq_tasks q) \<Longrightarrow> g old \<le> task_sum g q"
  using sum_list_map_remove1 [of old "lq_tasks q" g] by (simp add: task_sum_def)

section \<open>The invariant\<close>

text \<open>Addresses are those of registered lanes.\<close>

definition addr_inv :: "lane_queue \<Rightarrow> bool" where
  "addr_inv q \<longleftrightarrow>
     (\<forall>t \<in> set (lq_tasks q). \<forall>a. task_lane t = Some a \<longrightarrow> a < length (lq_store q))
     \<and> (\<forall>e \<in> set (lq_lanes q). snd e < length (lq_store q))"

text \<open>The tasks that occupy an execution slot of lane \<open>a\<close>, and those sleeping for it.\<close>

fun slot :: "nat \<Rightarrow> lane_task \<Rightarrow> nat" where
  "slot a (Executing b w) = of_bool (a = b)"
| "slot a (Retrying b w d) = of_bool (a = b)"
| "slot a (Rescheduled b) = of_bool (a = b)"
| "slot a (Finished b w) = of_bool (a = b)"
| "slot a _ = 0"

fun asleep :: "nat \<Rightarrow> lane_task \<Rightarrow> nat" where
  "asleep a (Backoff b w d) = of_bool (a = b)"
| "asleep a _ = 0"

text \<open>
  The counters of a lane are exact: \<open>active\<close> counts the tasks in a slot and the slots lost in
  a panic, never more than \<open>max_concurrency\<close>; \<open>delayed_retries\<close> counts the backoff tasks.
\<close>

definition slot_inv :: "lane_queue \<Rightarrow> bool" where
  "slot_inv q \<longleftrightarrow>
     (\<forall>a < length (lq_store q).
        ls_active (ln_state (lq_store q ! a)) = task_sum (slot a) q + count_list (lq_panicked q) a
        \<and> ls_active (ln_state (lq_store q ! a)) \<le> lc_max_concurrency (ls_config (ln_state (lq_store q ! a)))
        \<and> ls_delayed_retries (ln_state (lq_store q ! a)) = task_sum (asleep a) q)
     \<and> (\<forall>a. length (lq_store q) \<le> a \<longrightarrow> count_list (lq_panicked q) a = 0)"

text \<open>Every outstanding permit is owned by a pending command or a task.\<close>

fun task_permits :: "lane_task \<Rightarrow> nat" where
  "task_permits (Admitted i ty) = 1"
| "task_permits (Located a ty) = 1"
| "task_permits (Rescheduled a) = 0"
| "task_permits t = (case task_wrapper t of None \<Rightarrow> 0 | Some w \<Rightarrow> of_bool (cw_permit w))"

definition lane_permits :: "lane \<Rightarrow> nat" where
  "lane_permits l = sum_list (map (\<lambda>w. of_bool (cw_permit w)) (pending_of l))"

definition permit_inv :: "lane_queue \<Rightarrow> bool" where
  "permit_inv q \<longleftrightarrow> lq_outstanding q = tally lane_permits task_permits q"

text \<open>
  A wrapper can still answer exactly as long as it owes a result, identifiers are unique, and
  no command has used more attempts than its policy allows.
\<close>

definition wrapper_ok :: "command_wrapper \<Rightarrow> bool" where
  "wrapper_ok w \<longleftrightarrow> cw_result_tx w \<and> cw_attempt w \<le> rp_max_retries (cw_retry_policy w)"

fun task_ok :: "lane_task \<Rightarrow> bool" where
  "task_ok (Persisted a w) = wrapper_ok w"
| "task_ok (Executing a w) = wrapper_ok w"
| "task_ok (Retrying a w d) = (wrapper_ok w \<and> cw_attempt w < rp_max_retries (cw_retry_policy w))"
| "task_ok (Backoff a w d) = wrapper_ok w"
| "task_ok _ = True"

definition command_inv :: "lane_queue \<Rightarrow> bool" where
  "command_inv q \<longleftrightarrow>
     list_all task_ok (lq_tasks q) \<and> list_all (\<lambda>l. list_all wrapper_ok (pending_of l)) (lq_store q)
     \<and> (\<forall>i. count (accounted_ids q) i \<le> 1)"

definition lane_inv :: "lane_queue \<Rightarrow> bool" where
  "lane_inv q \<longleftrightarrow> addr_inv q \<and> slot_inv q \<and> permit_inv q \<and> command_inv q"

end
