(* ===== verification/Lane_Invariant.thy ===== *)
theory Lane_Invariant
  imports Lane_Steps
begin

text \<open>
  Preservation of the lane scheduler's invariant by every step, one part at a time: addresses,
  slots, permits, commands.
\<close>

section \<open>Steps of the scheduler\<close>

lemma try_dequeue_None: "try_dequeue tick l = (None, l') \<Longrightarrow> ln_state l' = ln_state l"
  by (auto simp: try_dequeue_def Let_def split: prod.splits if_splits)

lemma try_dequeue_Some:
  assumes "try_dequeue tick l = (Some w, l')"
  obtains ps where "ls_pending (ln_state l) = w # ps"
    and "ls_active (ln_state l) < lc_max_concurrency (ls_config (ln_state l))"
    and "ln_state l' = (ln_state l)\<lparr>ls_active := ls_active (ln_state l) + 1, ls_pending := ps\<rparr>"
  using assms
  by (cases "ls_pending (ln_state l)")
     (auto simp: try_dequeue_def Let_def has_capacity_def has_pending_def on_state_def
       split: prod.splits if_splits)

lemma check_pressure_state [simp]:
  "ls_config (ln_state (snd (check_pressure l))) = ls_config (ln_state l)"
  "ls_active (ln_state (snd (check_pressure l))) = ls_active (ln_state l)"
  "ls_pending (ln_state (snd (check_pressure l))) = ls_pending (ln_state l)"
  "ls_delayed_retries (ln_state (snd (check_pressure l))) = ls_delayed_retries (ln_state l)"
  by (simp_all add: check_pressure_def on_state_def Let_def split: option.split)

lemma pressure_step_fields [simp]:
  "lq_lanes (pressure_step a now q) = lq_lanes q" "lq_tasks (pressure_step a now q) = lq_tasks q"
  "lq_outstanding (pressure_step a now q) = lq_outstanding q"
  "lq_results (pressure_step a now q) = lq_results q"
  "lq_panicked (pressure_step a now q) = lq_panicked q"
  "lq_shutting_down (pressure_step a now q) = lq_shutting_down q"
  "lq_store (pressure_step a now q) = (lq_store q)[a := snd (check_pressure (lq_store q ! a))]"
  by (simp_all add: pressure_step_def Let_def case_prod_beta split: option.split)

text \<open>A dequeue either starts the front command of a lane with capacity, or changes only the limiter.\<close>

lemma dequeue_stepE:
  assumes "dequeue_step a tick now q = (found, q')"
  obtains (none) l where "\<not> found" "ln_state l = ln_state (lq_store q ! a)" "q' = on_lane a (\<lambda>_. l) q"
  | (start) w ps l q1 where "found" "ls_pending (ln_state (lq_store q ! a)) = w # ps"
      "ls_active (ln_state (lq_store q ! a)) < lc_max_concurrency (ls_config (ln_state (lq_store q ! a)))"
      "ln_state l = (ln_state (lq_store q ! a))
         \<lparr>ls_active := ls_active (ln_state (lq_store q ! a)) + 1, ls_pending := ps\<rparr>"
      "q1 = on_lane a (\<lambda>_. l) q"
      "q' = emit (started_event w now) (q1\<lparr>lq_tasks := Executing a w # lq_tasks q1\<rparr>)"
proof -
  obtain r l where d: "try_dequeue tick (lq_store q ! a) = (r, l)" by fastforce
  show ?thesis
  proof (cases r)
    case None
    then show ?thesis
      using assms d try_dequeue_None [of tick "lq_store q ! a" l]
      by (intro none [of l]) (auto simp: dequeue_step_def)
  next
    case (Some w)
    obtain ps where p: "ls_pending (ln_state (lq_store q ! a)) = w # ps"
      "ls_active (ln_state (lq_store q ! a)) < lc_max_concurrency (ls_config (ln_state (lq_store q ! a)))"
      "ln_state l = (ln_state (lq_store q ! a))\<lparr>ls_active := ls_active (ln_state (lq_store q ! a)) + 1, ls_pending := ps\<rparr>"
      using d Some by (metis try_dequeue_Some)
    show ?thesis
      by (rule start [OF _ p refl]) (use assms d Some in \<open>auto simp: dequeue_step_def\<close>)
  qed
qed

lemmas submit_defs =
  submit_admit_def admit_def submit_locate_def submit_persist_def submit_push_def direct_enqueue_def
  register_lane_def shutdown_def begin_shutdown_def Let_def

lemmas finish_defs =
  finish_def finish_ok_def finish_failed_def start_retry_def hand_to_backoff_def wake_retry_def
  complete_rescheduled_def complete_finished_def release_wrapper_def task_panics_def Let_def

lemmas lane_update_defs =
  push_back_def add_delayed_retry_def requeue_retry_def mark_completed_def on_state_def

section \<open>Addresses\<close>

lemma in_move_task: "t \<in> set (lq_tasks (move_task old new q)) \<Longrightarrow> t \<in> set new \<or> t \<in> set (lq_tasks q)"
  by (auto simp: move_task_def dest: notin_set_remove1)

lemma in_update: "e \<in> set (AList.update k v al) \<Longrightarrow> e = (k, v) \<or> e \<in> set al"
  by (induction al) (auto split: if_splits)

lemma addr_inv_dequeue:
  assumes "dequeue_step a tick now q = (found, q')" "a < length (lq_store q)" "addr_inv q"
  shows "addr_inv q'"
  using assms(1) by (cases rule: dequeue_stepE) (use assms(2,3) in \<open>auto simp: addr_inv_def\<close>)

lemma addr_inv_step:
  assumes "lane_step ext dbg actor q q'" "addr_inv q"
  shows "addr_inv q'"
  using assms
proof (cases rule: lane_step.cases)
  case (Register l)
  then show ?thesis using assms(2)
    by (fastforce simp: addr_inv_def register_lane_def less_Suc_eq dest: in_update)
next
  case (Dequeue a tick now)
  then show ?thesis using assms(2) addr_inv_dequeue [of a tick now q] by (metis prod.collapse)
next
  case (Locate i ty)
  then show ?thesis using assms(2)
    by (auto simp: addr_inv_def submit_defs dest!: in_move_task map_of_SomeD split: option.split)
next
  case (Admit i ty)
  then show ?thesis using assms(2) by (auto simp: addr_inv_def submit_defs)
next
  case (Persist a ty uuid now saved)
  then show ?thesis using assms(2) by (auto simp: addr_inv_def submit_defs dest!: in_move_task)
next
  case (Direct a uuid ty now saved)
  then show ?thesis using assms(2) by (auto simp: addr_inv_def submit_defs)
next
  case (Push a w now)
  then show ?thesis using assms(2) by (auto simp: addr_inv_def submit_defs dest!: in_move_task)
next
  case (Finish a w returned r now removed)
  then show ?thesis using assms(2)
    by (auto simp: addr_inv_def finish_defs dest!: in_move_task split: sum.split)
qed (auto simp: addr_inv_def finish_defs submit_defs dest!: in_move_task split: prod.splits)

section \<open>Slots\<close>

lemma task_sum_other [simp]:
  "task_sum g (emit e q) = task_sum g q"
  "task_sum g (drop_permit q) = task_sum g q"
  "task_sum g (drop_wrapper w q) = task_sum g q"
  "task_sum g (store_wrapper w a now saved q) = task_sum g q"
  "task_sum g (unstore_wrapper w a removed q) = task_sum g q"
  "task_sum g (send_result w r q) = task_sum g q"
  "task_sum g (bury w msg now q) = task_sum g q"
  "task_sum g (on_lane a h q) = task_sum g q"
  by (simp_all add: task_sum_def)

lemma task_sum_update [simp]:
  "task_sum g (q\<lparr>lq_tasks := t # lq_tasks q'\<rparr>) = g t + task_sum g q'"
  "task_sum g (q\<lparr>lq_outstanding := n\<rparr>) = task_sum g q"
  "task_sum g (q\<lparr>lq_shutting_down := b\<rparr>) = task_sum g q"
  "task_sum g (q\<lparr>lq_dlq := d\<rparr>) = task_sum g q"
  "task_sum g (q\<lparr>lq_panicked := ps\<rparr>) = task_sum g q"
  by (simp_all add: task_sum_def)

lemma tally_update [simp]:
  "tally f g (q\<lparr>lq_tasks := t # lq_tasks q\<rparr>) = g t + tally f g q"
  "tally f g (q\<lparr>lq_outstanding := n\<rparr>) = tally f g q"
  "tally f g (q\<lparr>lq_shutting_down := b\<rparr>) = tally f g q"
  "tally f g (q\<lparr>lq_dlq := d\<rparr>) = tally f g q"
  "tally f g (q\<lparr>lq_panicked := ps\<rparr>) = tally f g q"
  by (simp_all add: tally_def ac_simps)

lemma tally_add_task:
  "lq_store q' = lq_store q \<Longrightarrow> lq_tasks q' = t # lq_tasks q \<Longrightarrow> tally f g q' = g t + tally f g q"
  by (simp add: tally_def ac_simps)

lemma tally_other [simp]:
  "tally f g (emit e q) = tally f g q"
  "tally f g (drop_permit q) = tally f g q"
  "tally f g (drop_wrapper w q) = tally f g q"
  "tally f g (store_wrapper w a now saved q) = tally f g q"
  "tally f g (unstore_wrapper w a removed q) = tally f g q"
  "tally f g (send_result w r q) = tally f g q"
  "tally f g (bury w msg now q) = tally f g q"
  by (simp_all add: tally_def)

lemma tally_move_other [simp]:
  "tally f g (move_task old new (emit e q)) = tally f g (move_task old new q)"
  "tally f g (move_task old new (unstore_wrapper w a removed q)) = tally f g (move_task old new q)"
  "tally f g (move_task old new (send_result w r q)) = tally f g (move_task old new q)"
  "tally f g (move_task old new (bury w msg now q)) = tally f g (move_task old new q)"
  by (simp_all add: tally_def move_task_def)

lemma send_result_results [simp]:
  "cw_result_tx w \<Longrightarrow> lq_results (send_result w r q) = lq_results q @ [(cw_id w, r)]"
  by (simp add: send_result_def)

lemma slot_invI:
  assumes "slot_inv q" "length (lq_store q') = length (lq_store q)" "lq_panicked q' = lq_panicked q"
    and "\<And>a. a < length (lq_store q) \<Longrightarrow>
      ls_config (ln_state (lq_store q' ! a)) = ls_config (ln_state (lq_store q ! a))
      \<and> ls_active (ln_state (lq_store q' ! a)) + task_sum (slot a) q = ls_active (ln_state (lq_store q ! a)) + task_sum (slot a) q'
      \<and> (ls_active (ln_state (lq_store q' ! a)) \<le> ls_active (ln_state (lq_store q ! a))
         \<or> ls_active (ln_state (lq_store q' ! a)) \<le> lc_max_concurrency (ls_config (ln_state (lq_store q ! a))))
      \<and> ls_delayed_retries (ln_state (lq_store q' ! a)) + task_sum (asleep a) q
          = ls_delayed_retries (ln_state (lq_store q ! a)) + task_sum (asleep a) q'"
  shows "slot_inv q'"
  using assms(1-3) assms(4) unfolding slot_inv_def by fastforce

lemma slot_inv_dequeue:
  assumes "dequeue_step a tick now q = (found, q')" "a < length (lq_store q)" "slot_inv q"
  shows "slot_inv q'"
  using assms(1)
proof (cases rule: dequeue_stepE)
  case (none l)
  then show ?thesis using assms(2,3) by (intro slot_invI [OF assms(3)]) (auto simp: nth_list_update)
next
  case (start w ps l q1)
  then show ?thesis using assms(2,3)
    by (intro slot_invI [OF assms(3)]) (auto simp: nth_list_update task_sum_def)
qed

lemma slot_inv_register:
  assumes "new_lane l" "slot_inv q" "addr_inv q"
  shows "slot_inv (register_lane l q)"
proof -
  have "slot (length (lq_store q)) t = 0 \<and> asleep (length (lq_store q)) t = 0" if "t \<in> set (lq_tasks q)" for t
    using assms(3) that unfolding addr_inv_def by (cases t) fastforce+
  then have "task_sum (slot (length (lq_store q))) q = 0" "task_sum (asleep (length (lq_store q))) q = 0"
    by (auto simp: task_sum_def)
  moreover have "ls_active (ln_state l) = 0" "ls_delayed_retries (ln_state l) = 0"
    using assms(1) by (auto simp: new_lane_def lane_new_def lane_with_storage_def lane_state_new_def)
  moreover have "task_sum g (register_lane l q) = task_sum g q" for g :: "lane_task \<Rightarrow> nat"
    by (simp add: task_sum_def register_lane_def)
  ultimately show ?thesis
    using assms(2) by (auto simp: slot_inv_def register_lane_def nth_append less_Suc_eq)
qed

text \<open>A lane at least holds the slot of a task it runs.\<close>

lemma active_ge_slot:
  "slot_inv q \<Longrightarrow> a < length (lq_store q) \<Longrightarrow> t \<in> set (lq_tasks q) \<Longrightarrow>
   slot a t \<le> ls_active (ln_state (lq_store q ! a)) \<and> asleep a t \<le> ls_delayed_retries (ln_state (lq_store q ! a))"
  using task_sum_ge [of t q "slot a"] task_sum_ge [of t q "asleep a"] by (auto simp: slot_inv_def)

lemma slot_inv_panic:
  assumes "Executing a w \<in> set (lq_tasks q)" "slot_inv q" "a < length (lq_store q)"
  shows "slot_inv (task_panics a w q)"
proof -
  have "task_sum (slot b) q = task_sum (slot b) (task_panics a w q) + of_bool (b = a)" for b
    using task_sum_move [OF assms(1), of "slot b" "[]"]
    by (simp add: task_panics_def Let_def task_sum_def drop_wrapper_def drop_permit_def)
  moreover have "task_sum (asleep b) (task_panics a w q) = task_sum (asleep b) q" for b
    using task_sum_move [OF assms(1), of "asleep b" "[]"]
    by (simp add: task_panics_def Let_def task_sum_def drop_wrapper_def drop_permit_def)
  moreover have "lq_panicked (task_panics a w q) = a # lq_panicked q" "lq_store (task_panics a w q) = lq_store q"
    by (simp_all add: task_panics_def Let_def)
  moreover have "ls_active (ln_state (lq_store q ! b)) =
      task_sum (slot b) (task_panics a w q) + of_bool (b = a) + count_list (lq_panicked q) b"
    if "b < length (lq_store q)" for b
    using assms(2) that calculation(1) [of b] by (simp add: slot_inv_def)
  ultimately show ?thesis
    using assms(2,3) by (auto simp: slot_inv_def)
qed

lemma slot_inv_step:
  assumes "lane_step ext dbg actor q q'" "slot_inv q" "addr_inv q"
  shows "slot_inv q'"
  using assms(1)
proof (cases rule: lane_step.cases)
  case (Register l)
  then show ?thesis using assms(2,3) slot_inv_register by simp
next
  case (Dequeue a tick now)
  then show ?thesis using assms(2) slot_inv_dequeue [of a tick now q] by (metis prod.collapse)
next
  case (Pressure a now)
  then show ?thesis
    by (intro slot_invI [OF assms(2)]) (auto simp: nth_list_update task_sum_def)
next
  case (Panic a w)
  then show ?thesis using assms(2,3) by (auto simp: addr_inv_def intro!: slot_inv_panic)
next
  case (Finish a w returned r now removed)
  then show ?thesis
    by (intro slot_invI [OF assms(2)]) (auto simp: finish_defs task_sum_move_nat split: sum.split)
next
  case (Complete a w)
  then show ?thesis
    using active_ge_slot [OF assms(2) _ Complete(3), of a] assms(3) task_sum_ge [OF Complete(3), of "slot a"]
    by (intro slot_invI [OF assms(2)])
       (auto simp: finish_defs task_sum_move_nat nth_list_update lane_update_defs addr_inv_def)
next
  case (Reschedule a)
  then show ?thesis
    using active_ge_slot [OF assms(2) _ Reschedule(3), of a] assms(3) task_sum_ge [OF Reschedule(3), of "slot a"]
    by (intro slot_invI [OF assms(2)])
       (auto simp: finish_defs task_sum_move_nat nth_list_update lane_update_defs addr_inv_def)
next
  case (Wake a w d)
  then show ?thesis
    using active_ge_slot [OF assms(2) _ Wake(3), of a] assms(3) task_sum_ge [OF Wake(3), of "asleep a"]
    by (intro slot_invI [OF assms(2)])
       (auto simp: finish_defs task_sum_move_nat nth_list_update lane_update_defs addr_inv_def)
next
  case (Retry a w d now)
  then show ?thesis
    using task_sum_ge [OF Retry(3), of "slot a"]
    by (intro slot_invI [OF assms(2)])
       (auto simp: finish_defs task_sum_move_nat nth_list_update lane_update_defs)
next
  case (Push a w now)
  then have "a < length (lq_store q)" using assms(3) by (auto simp: addr_inv_def)
  then show ?thesis using Push
    by (intro slot_invI [OF assms(2)])
       (auto simp: submit_defs task_sum_move_nat nth_list_update lane_update_defs)
qed (intro slot_invI [OF assms(2)];
     auto simp: submit_defs finish_defs task_sum_move_nat nth_list_update lane_update_defs
       split: option.split prod.split)+

section \<open>Permits\<close>

lemma tally_ge:
  fixes g :: "lane_task \<Rightarrow> nat"
  assumes "old \<in> set (lq_tasks q)"
  shows "g old \<le> tally f g q"
  using task_sum_ge [OF assms, of g] by (simp add: tally_def task_sum_def)

lemma tally_ge_both:
  fixes f :: "lane \<Rightarrow> nat" and g :: "lane_task \<Rightarrow> nat"
  assumes "old \<in> set (lq_tasks q)" "a < length (lq_store q)"
  shows "g old + f (lq_store q ! a) \<le> tally f g q"
proof -
  have "f (lq_store q ! a) \<le> sum_list (map f (lq_store q))"
    using assms(2) by (intro member_le_sum_list) simp_all
  then show ?thesis
    using task_sum_ge [OF assms(1), of g] by (simp add: tally_def task_sum_def)
qed

lemma tally_on_lane_nat:
  fixes f :: "lane \<Rightarrow> nat"
  assumes "a < length (lq_store q)"
  shows "tally f g (on_lane a h q) = tally f g q + f (h (lq_store q ! a)) - f (lq_store q ! a)"
  using tally_on_lane [OF assms, of f g h] by simp

lemma tally_move_task_nat:
  fixes g :: "lane_task \<Rightarrow> nat"
  assumes "old \<in> set (lq_tasks q)"
  shows "tally f g (move_task old new q) = tally f g q + sum_list (map g new) - g old"
  using tally_move_task [OF assms, of f g new] by simp

lemma tally_register: "tally f g (register_lane l q) = f l + tally f g q"
  by (simp add: tally_def register_lane_def ac_simps)

lemma tally_pressure:
  assumes "a < length (lq_store q)" "f (snd (check_pressure (lq_store q ! a))) = f (lq_store q ! a)"
  shows "tally f g (pressure_step a now q) = tally f g q"
proof -
  have "tally f g (pressure_step a now q) = tally f g (on_lane a (\<lambda>_. snd (check_pressure (lq_store q ! a))) q)"
    by (simp add: tally_def)
  then show ?thesis using tally_on_lane [OF assms(1), of f g "\<lambda>_. snd (check_pressure (lq_store q ! a))"] assms(2)
    by simp
qed

text \<open>A started command leaves the queue of its lane and becomes an execution.\<close>

lemma tally_dequeue:
  assumes "dequeue_step a tick now q = (found, q')" "a < length (lq_store q)"
    and f: "\<And>l l'. pending_of l = pending_of l' \<Longrightarrow> f l = f l'"
    and move: "\<And>l l' w ps. pending_of l = w # ps \<Longrightarrow> pending_of l' = ps \<Longrightarrow> f l' + g (Executing a w) = f l"
  shows "tally f g q' = tally f g q"
  using assms(1)
proof (cases rule: dequeue_stepE)
  case (none l)
  then show ?thesis using tally_on_lane [OF assms(2), of f g "\<lambda>_. l"] f [of l "lq_store q ! a"]
    by (simp add: pending_of_def)
next
  case (start w ps l q1)
  have "tally f g q' = g (Executing a w) + tally f g q1"
    using start(6) by (simp add: tally_def ac_simps)
  moreover have "f l + g (Executing a w) = f (lq_store q ! a)"
    using start(2,4) by (intro move [of _ w ps]) (simp_all add: pending_of_def)
  ultimately have "tally f g q' + f (lq_store q ! a) = tally f g q + f (lq_store q ! a)"
    using tally_on_lane [OF assms(2), of f g "\<lambda>_. l"] start(5) by (metis add.assoc add.commute)
  then show ?thesis by simp
qed

lemma pending_of_updates [simp]:
  "pending_of (push_back w l) = pending_of l @ [w]"
  "pending_of (add_delayed_retry l) = pending_of l"
  "pending_of (requeue_retry w l) = pending_of l @ [w]"
  "pending_of (mark_completed l) = pending_of l"
  "pending_of (snd (check_pressure l)) = pending_of l"
  by (simp_all add: pending_of_def lane_update_defs)

lemma pending_of_new [simp]: "new_lane l \<Longrightarrow> pending_of l = []"
  by (auto simp: new_lane_def lane_new_def lane_with_storage_def lane_state_new_def pending_of_def)

lemma wrapper_updates [simp]:
  "cw_permit (new_wrapper u ty b now l) = b" "cw_permit (next_attempt w) = cw_permit w"
  "cw_permit (sent w) = cw_permit w" "cw_id (next_attempt w) = cw_id w" "cw_id (sent w) = cw_id w"
  "cw_id (new_wrapper u ty b now l) = u"
  by (simp_all add: new_wrapper_def next_attempt_def sent_def)

lemma task_lane_less:
  "addr_inv q \<Longrightarrow> t \<in> set (lq_tasks q) \<Longrightarrow> task_lane t = Some a \<Longrightarrow> a < length (lq_store q)"
  by (simp add: addr_inv_def)

lemma permit_inv_step:
  assumes "lane_step ext dbg actor q q'" "permit_inv q" "addr_inv q"
  shows "permit_inv q'"
  using assms(1)
proof (cases rule: lane_step.cases)
  case (Register l)
  then show ?thesis using assms(2)
    by (simp add: permit_inv_def tally_register lane_permits_def) (simp add: register_lane_def)
next
  case (Dequeue a tick now)
  obtain found q'' where d: "dequeue_step a tick now q = (found, q'')" by fastforce
  have "tally lane_permits task_permits q'' = tally lane_permits task_permits q"
    using d Dequeue(3) by (rule tally_dequeue) (auto simp: lane_permits_def)
  moreover have "lq_outstanding q'' = lq_outstanding q"
    using d by (cases rule: dequeue_stepE) simp_all
  ultimately show ?thesis using assms(2) d Dequeue(2) by (simp add: permit_inv_def)
next
  case (Pressure a now)
  then show ?thesis using assms(2) by (simp add: permit_inv_def tally_pressure lane_permits_def)
next
  case (Locate i ty)
  then show ?thesis
    using assms(2) tally_ge [OF Locate(3), of task_permits lane_permits]
    by (auto simp: permit_inv_def submit_defs tally_move_task_nat split: option.split)
next
  case (Push a w now)
  then show ?thesis
    using assms(2) task_lane_less [OF assms(3) Push(3)] tally_ge_both [OF Push(3), of a task_permits lane_permits]
    by (auto simp: permit_inv_def submit_defs tally_move_task_nat tally_on_lane_nat lane_permits_def)
next
  case (Wake a w d)
  then show ?thesis
    using assms(2) task_lane_less [OF assms(3) Wake(3)] tally_ge_both [OF Wake(3), of a task_permits lane_permits]
    by (auto simp: permit_inv_def finish_defs tally_move_task_nat tally_on_lane_nat lane_permits_def)
next
  case (Finish a w returned r now removed)
  then show ?thesis
    using assms(2) tally_ge [OF Finish(3), of task_permits lane_permits]
    by (auto simp: permit_inv_def finish_defs tally_move_task_nat split: sum.split)
next
  case (Retry a w d now)
  then show ?thesis
    using assms(2) task_lane_less [OF assms(3) Retry(3)] tally_ge_both [OF Retry(3), of a task_permits lane_permits]
    by (auto simp: permit_inv_def finish_defs tally_move_task_nat tally_on_lane_nat lane_permits_def)
next
  case (Reschedule a)
  then show ?thesis
    using assms(2) task_lane_less [OF assms(3) Reschedule(3)]
    by (auto simp: permit_inv_def finish_defs tally_move_task_nat tally_on_lane_nat lane_permits_def)
next
  case (Complete a w)
  then show ?thesis
    using assms(2) task_lane_less [OF assms(3) Complete(3)] tally_ge_both [OF Complete(3), of a task_permits lane_permits]
    by (auto simp: permit_inv_def finish_defs tally_move_task_nat tally_on_lane_nat lane_permits_def)
next
  case (Release w)
  then show ?thesis
    using assms(2) tally_ge [OF Release(3), of task_permits lane_permits]
    by (auto simp: permit_inv_def finish_defs tally_move_task_nat)
next
  case (Panic a w)
  then show ?thesis
    using assms(2) tally_ge [OF Panic(3), of task_permits lane_permits]
    by (auto simp: permit_inv_def finish_defs tally_move_task_nat)
next
  case (Persist a ty uuid now saved)
  then show ?thesis
    using assms(2) tally_ge [OF Persist(3), of task_permits lane_permits]
    by (auto simp: permit_inv_def submit_defs tally_move_task_nat)
next
  case (Admit i ty)
  then show ?thesis
    using assms(2) tally_add_task [of q' q "Admitted i ty" lane_permits task_permits]
    by (auto simp: permit_inv_def submit_defs)
next
  case (Direct a uuid ty now saved)
  then show ?thesis
    using assms(2) tally_add_task [of q' q _ lane_permits task_permits]
    by (auto simp: permit_inv_def submit_defs)
qed (use assms(2) in \<open>auto simp: permit_inv_def submit_defs\<close>)

section \<open>Commands\<close>

text \<open>Moves that conserve a tally: within the tasks, within a lane, from a task to its lane.\<close>

lemma tally_move_same:
  "old \<in> set (lq_tasks q) \<Longrightarrow> sum_list (map g new) = g old \<Longrightarrow> tally f g (move_task old new q) = tally f g q"
  using tally_move_task [of old q f g new] by simp

lemma tally_on_lane_same:
  "a < length (lq_store q) \<Longrightarrow> f (h (lq_store q ! a)) = f (lq_store q ! a) \<Longrightarrow> tally f g (on_lane a h q) = tally f g q"
  using tally_on_lane [of a q f g h] by simp

lemma tally_requeue:
  assumes "old \<in> set (lq_tasks q)" "a < length (lq_store q)"
    and "f (h (lq_store q ! a)) = f (lq_store q ! a) + g old"
  shows "tally f g (on_lane a h (move_task old [] q)) = tally f g q"
proof -
  have "tally f g (on_lane a h (move_task old [] q)) + f (lq_store q ! a)
      = tally f g (move_task old [] q) + (f (lq_store q ! a) + g old)"
    using tally_on_lane [of a "move_task old [] q" f g h] assms(2,3) by simp
  then show ?thesis
    using tally_move_task [OF assms(1), of f g "[]"] by (simp add: ac_simps) (metis add.assoc add.commute add_right_cancel)
qed

lemma pending_ids_updates [simp]:
  "pending_ids P (push_back w l) = pending_ids P l + id_if P w"
  "pending_ids P (add_delayed_retry l) = pending_ids P l"
  "pending_ids P (requeue_retry w l) = pending_ids P l + id_if P w"
  "pending_ids P (mark_completed l) = pending_ids P l"
  "pending_ids P (snd (check_pressure l)) = pending_ids P l"
  "id_if P (next_attempt w) = id_if P w"
  by (simp_all add: pending_ids_def id_if_def)

lemma executing_ok: "command_inv q \<Longrightarrow> Executing a w \<in> set (lq_tasks q) \<Longrightarrow> wrapper_ok w"
  by (auto simp: command_inv_def list_all_iff)

text \<open>
  What one step does to the commands in use: nothing, a fresh one is created, one is answered,
  or an execution dies in a panic.
\<close>

lemma unanswered_step:
  assumes "lane_step ext dbg actor q q'" "command_inv q" "addr_inv q"
  obtains (same) "unanswered P q' = unanswered P q" "lq_results q' = lq_results q" "lq_panicked q' = lq_panicked q"
  | (fresh) w where "cw_id w \<notin># accounted_ids q" "unanswered P q' = id_if P w + unanswered P q"
      "lq_results q' = lq_results q" "lq_panicked q' = lq_panicked q"
  | (answered) a w r where "actor = Task (Executing a w)" "lq_results q' = lq_results q @ [(cw_id w, r)]"
      "unanswered P q = id_if P w + unanswered P q'" "lq_panicked q' = lq_panicked q"
  | (lost) a w where "actor = Task (Executing a w)" "lq_panicked q' = a # lq_panicked q"
      "unanswered P q = id_if P w + unanswered P q'" "lq_results q' = lq_results q"
  using assms(1)
proof (cases rule: lane_step.cases)
  case (Register l)
  then show ?thesis
    by (intro same) (simp add: unanswered_def tally_register pending_ids_def, simp_all add: register_lane_def)
next
  case (Admit i ty)
  then show ?thesis using tally_add_task [of q' q "Admitted i ty" "pending_ids P" "owed_id P"]
    by (intro same) (auto simp: unanswered_def submit_defs)
next
  case (Locate i ty)
  then show ?thesis
    by (intro same) (auto simp: unanswered_def submit_defs tally_move_same split: option.split)
next
  case (Persist a ty uuid now saved)
  then show ?thesis
    using tally_move_task [of "Located a ty" "store_wrapper _ a now saved q" "pending_ids P" "owed_id P"]
    by (intro fresh [of "new_wrapper uuid ty True now (lq_store q ! a)"])
       (auto simp: unanswered_def submit_defs ac_simps)
next
  case (Direct a uuid ty now saved)
  then show ?thesis using tally_add_task [of q' q _ "pending_ids P" "owed_id P"]
    by (intro fresh [of "new_wrapper uuid ty False now (lq_store q ! a)"])
       (auto simp: unanswered_def submit_defs)
next
  case (Push a w now)
  then show ?thesis
    using tally_requeue [OF Push(3), of a "pending_ids P" "push_back w" "owed_id P"] task_lane_less [OF assms(3) Push(3)]
    by (intro same) (auto simp: unanswered_def submit_defs)
next
  case (Pressure a now)
  then show ?thesis by (intro same) (simp_all add: unanswered_def tally_pressure)
next
  case (Dequeue a tick now)
  obtain found q'' where d: "dequeue_step a tick now q = (found, q'')" by fastforce
  have "tally (pending_ids P) (owed_id P) q'' = tally (pending_ids P) (owed_id P) q"
    using d Dequeue(3) by (rule tally_dequeue) (auto simp: pending_ids_def ac_simps)
  moreover have "lq_results q'' = lq_results q \<and> lq_panicked q'' = lq_panicked q"
    using d by (cases rule: dequeue_stepE) simp_all
  ultimately show ?thesis using d Dequeue(2) by (intro same) (simp_all add: unanswered_def)
next
  case (Finish a w returned r now removed)
  note moves = tally_move_task [OF Finish(3), of "pending_ids P" "owed_id P"]
    tally_move_same [OF Finish(3), of "owed_id P"] executing_ok [OF assms(2) Finish(3)]
  show ?thesis
  proof (cases "\<exists>e. r = Inl e \<and> rp_should_retry (cw_retry_policy w) (cw_attempt w)")
    case True
    then show ?thesis using moves Finish(1,2)
      by (intro same) (auto simp: unanswered_def finish_defs)
  next
    case False
    then show ?thesis using moves Finish(1,2)
      by (intro answered [of a w r]) (auto simp: unanswered_def finish_defs wrapper_ok_def ac_simps split: sum.split)
  qed
next
  case (Retry a w d now)
  then show ?thesis using task_lane_less [OF assms(3) Retry(3)]
    by (intro same) (auto simp: unanswered_def finish_defs tally_on_lane_same tally_move_same)
next
  case (Wake a w d)
  then show ?thesis
    using tally_requeue [OF Wake(3), of a "pending_ids P" "requeue_retry w" "owed_id P"] task_lane_less [OF assms(3) Wake(3)]
    by (intro same) (auto simp: unanswered_def finish_defs)
next
  case (Reschedule a)
  then show ?thesis using task_lane_less [OF assms(3) Reschedule(3)]
    by (intro same) (auto simp: unanswered_def finish_defs tally_on_lane_same tally_move_same)
next
  case (Complete a w)
  then show ?thesis using task_lane_less [OF assms(3) Complete(3)]
    by (intro same) (auto simp: unanswered_def finish_defs tally_on_lane_same tally_move_same)
next
  case (Release w)
  then show ?thesis by (intro same) (auto simp: unanswered_def finish_defs tally_move_same)
next
  case (Panic a w)
  then show ?thesis using tally_move_task [OF Panic(3), of "pending_ids P" "owed_id P" "[]"]
    by (intro lost [of a w]) (auto simp: unanswered_def finish_defs ac_simps)
qed (intro same; auto simp: unanswered_def submit_defs)+

text \<open>The wrappers a step leaves: the condition on tasks and pending commands.\<close>

definition wrappers_ok :: "lane_queue \<Rightarrow> bool" where
  "wrappers_ok q \<longleftrightarrow> list_all task_ok (lq_tasks q) \<and> list_all (\<lambda>l. list_all wrapper_ok (pending_of l)) (lq_store q)"

lemma wrappers_ok_other [simp]:
  "wrappers_ok (emit e q) = wrappers_ok q"
  "wrappers_ok (drop_permit q) = wrappers_ok q"
  "wrappers_ok (drop_wrapper w q) = wrappers_ok q"
  "wrappers_ok (unstore_wrapper w a removed q) = wrappers_ok q"
  "wrappers_ok (send_result w r q) = wrappers_ok q"
  "wrappers_ok (bury w msg now q) = wrappers_ok q"
  by (simp_all add: wrappers_ok_def)

lemma wrappers_ok_move:
  "wrappers_ok q \<Longrightarrow> list_all task_ok new \<Longrightarrow> wrappers_ok (move_task old new q)"
  by (auto simp: wrappers_ok_def move_task_def list_all_iff dest: notin_set_remove1)

lemma in_set_upd_cases: "x \<in> set (xs[i := y]) \<Longrightarrow> x \<in> set xs \<or> (i < length xs \<and> x = y)"
  using set_update_subset_insert [of xs i y] by (cases "i < length xs") (auto simp: not_less list_update_beyond)

lemma wrappers_ok_on_lane:
  "wrappers_ok q \<Longrightarrow> (a < length (lq_store q) \<Longrightarrow> list_all wrapper_ok (pending_of (h (lq_store q ! a))))
    \<Longrightarrow> wrappers_ok (on_lane a h q)"
  by (auto simp: wrappers_ok_def list_all_iff dest!: in_set_upd_cases)

lemma wrappers_ok_task: "wrappers_ok q \<Longrightarrow> t \<in> set (lq_tasks q) \<Longrightarrow> task_ok t"
  by (simp add: wrappers_ok_def list_all_iff)

lemma wrappers_ok_lane: "wrappers_ok q \<Longrightarrow> a < length (lq_store q) \<Longrightarrow> list_all wrapper_ok (pending_of (lq_store q ! a))"
  by (simp add: wrappers_ok_def list_all_length)

lemma wrapper_ok_new: "wrapper_ok (new_wrapper u ty b now l)"
  by (simp add: wrapper_ok_def new_wrapper_def)

lemma wrapper_ok_next:
  "wrapper_ok w \<Longrightarrow> cw_attempt w < rp_max_retries (cw_retry_policy w) \<Longrightarrow> wrapper_ok (next_attempt w)"
  by (simp add: wrapper_ok_def next_attempt_def)

lemma wrappers_ok_dequeue:
  assumes "dequeue_step a tick now q = (found, q')" "a < length (lq_store q)" "wrappers_ok q"
  shows "wrappers_ok q'"
  using assms(1)
proof (cases rule: dequeue_stepE)
  case (none l)
  then show ?thesis using wrappers_ok_lane [OF assms(3,2)]
    by (auto intro!: wrappers_ok_on_lane [OF assms(3)] simp: pending_of_def)
next
  case (start w ps l q1)
  then have "wrappers_ok q1" using wrappers_ok_lane [OF assms(3,2)]
    by (auto intro!: wrappers_ok_on_lane [OF assms(3)] simp: pending_of_def)
  then show ?thesis using start wrappers_ok_lane [OF assms(3,2)]
    by (auto simp: wrappers_ok_def pending_of_def)
qed

lemma wrappers_ok_step:
  assumes "lane_step ext dbg actor q q'" "wrappers_ok q"
  shows "wrappers_ok q'"
  using assms(1)
proof (cases rule: lane_step.cases)
  case (Register l)
  then show ?thesis using assms(2) by (simp add: wrappers_ok_def register_lane_def)
next
  case (Dequeue a tick now)
  then show ?thesis using assms(2) wrappers_ok_dequeue [of a tick now q] by (metis prod.collapse)
next
  case (Pressure a now)
  have "wrappers_ok (on_lane a (\<lambda>_. snd (check_pressure (lq_store q ! a))) q)"
    using wrappers_ok_lane [OF assms(2) Pressure(3)] by (auto intro: wrappers_ok_on_lane [OF assms(2)])
  then show ?thesis using Pressure(2) by (simp add: wrappers_ok_def)
next
  case (Persist a ty uuid now saved)
  have "wrappers_ok (store_wrapper (new_wrapper uuid ty True now (lq_store q ! a)) a now saved q)"
    using assms(2) by (simp add: wrappers_ok_def)
  then show ?thesis using Persist(2) by (simp add: submit_defs wrappers_ok_move wrapper_ok_new)
next
  case (Direct a uuid ty now saved)
  then show ?thesis using assms(2) by (simp add: submit_defs wrappers_ok_def wrapper_ok_new)
next
  case (Push a w now)
  have "wrappers_ok (on_lane a (push_back w) (move_task (Persisted a w) [] q))"
    using wrappers_ok_task [OF assms(2) Push(3)] wrappers_ok_lane [OF assms(2)]
    by (auto intro!: wrappers_ok_on_lane wrappers_ok_move assms(2))
  then show ?thesis using Push(2) by (simp add: submit_defs wrappers_ok_def)
next
  case (Finish a w returned r now removed)
  have "wrappers_ok q1 \<Longrightarrow> wrappers_ok (move_task (Executing a w) [Finished a (sent w)] q1)" for q1
    by (simp add: wrappers_ok_move)
  then show ?thesis using Finish(2) wrappers_ok_task [OF assms(2) Finish(3)] assms(2)
    by (simp add: finish_defs wrappers_ok_move rp_should_retry_def wrapper_ok_def
        split: sum.split)
next
  case (Retry a w d now)
  have "wrappers_ok (on_lane a add_delayed_retry
      (move_task (Retrying a w d) [Backoff a (next_attempt w) d, Rescheduled a] q))"
    using wrappers_ok_task [OF assms(2) Retry(3)] wrappers_ok_lane [OF assms(2)]
    by (auto intro!: wrappers_ok_on_lane wrappers_ok_move assms(2) simp: wrapper_ok_next)
  then show ?thesis using Retry(2) by (simp add: finish_defs wrappers_ok_def)
next
  case (Wake a w d)
  then show ?thesis
    using wrappers_ok_task [OF assms(2) Wake(3)] wrappers_ok_lane [OF assms(2)]
    by (auto simp: finish_defs intro!: wrappers_ok_on_lane wrappers_ok_move assms(2))
next
  case (Reschedule a)
  then show ?thesis
    using wrappers_ok_lane [OF assms(2)]
    by (auto simp: finish_defs intro!: wrappers_ok_on_lane wrappers_ok_move assms(2))
next
  case (Complete a w)
  then show ?thesis
    using wrappers_ok_lane [OF assms(2)]
    by (auto simp: finish_defs intro!: wrappers_ok_on_lane wrappers_ok_move assms(2))
next
  case (Locate i ty)
  then show ?thesis using assms(2)
    by (auto simp: submit_defs wrappers_ok_move split: option.split)
next
  case (Release w)
  then show ?thesis using wrappers_ok_move [OF assms(2), of "[]"] by (simp add: finish_defs wrappers_ok_def)
next
  case (Panic a w)
  then show ?thesis using wrappers_ok_move [OF assms(2), of "[]" "Executing a w"]
    by (simp add: finish_defs wrappers_ok_def)
qed (use assms(2) in \<open>simp add: submit_defs wrappers_ok_def\<close>)+

lemma command_inv_step:
  assumes "lane_step ext dbg actor q q'" "command_inv q" "addr_inv q"
  shows "command_inv q'"
proof -
  have w: "wrappers_ok q'"
    using wrappers_ok_step [OF assms(1)] assms(2) by (simp add: wrappers_ok_def command_inv_def)
  have c: "count (accounted_ids q) i \<le> 1" for i
    using assms(2) by (simp add: command_inv_def)
  have "count (accounted_ids q') i \<le> 1" for i
    using assms
  proof (cases rule: unanswered_step [where P = "\<lambda>_. True"])
    case (fresh w)
    moreover have "count (accounted_ids q) (cw_id w) = 0" using fresh(1) by (simp only: not_in_iff)
    ultimately show ?thesis using c [of i]
      by (cases "i = cw_id w") (simp_all add: accounted_ids_def id_if_def del: not_in_iff)
  next
    case (answered a w r)
    then show ?thesis using c [of i] by (cases "i = cw_id w") (simp_all add: accounted_ids_def id_if_def)
  next
    case (lost a w)
    then show ?thesis using c [of i] by (cases "i = cw_id w") (simp_all add: accounted_ids_def id_if_def)
  qed (use c in \<open>simp add: accounted_ids_def\<close>)
  with w show ?thesis by (simp add: wrappers_ok_def command_inv_def)
qed

section \<open>The invariant\<close>

lemma lane_inv_step: "lane_step ext dbg actor q q' \<Longrightarrow> lane_inv q \<Longrightarrow> lane_inv q'"
  by (simp add: lane_inv_def addr_inv_step slot_inv_step permit_inv_step command_inv_step)

lemma lane_inv_new: "lane_inv (queue_new dlq_size)"
  by (simp add: lane_inv_def queue_new_def addr_inv_def slot_inv_def permit_inv_def command_inv_def
      tally_def task_sum_def accounted_ids_def unanswered_def)

lemma reachable_lane_inv: "lane_reachable ext dbg q \<Longrightarrow> lane_inv q"
  by (induction rule: lane_reachable.induct) (auto intro: lane_inv_new lane_inv_step)

end
