(* ===== verification/Lane_Runs.thy ===== *)
theory Lane_Runs
  imports Lane_Invariant Example_Externals
begin

text \<open>
  Runs of the lane scheduler and the public operations as runs of steps; a small queue on
  which the properties of the scheduler are exercised.
\<close>

section \<open>Runs\<close>

definition lane_run :: "externals \<Rightarrow> (duration \<Rightarrow> string) \<Rightarrow> lane_queue \<Rightarrow> lane_queue \<Rightarrow> bool" where
  "lane_run ext dbg = rtranclp (\<lambda>q q'. \<exists>actor. lane_step ext dbg actor q q')"

lemma lane_run_refl [simp, intro]: "lane_run ext dbg q q"
  by (simp add: lane_run_def)

lemma lane_run_step: "lane_run ext dbg q q1 \<Longrightarrow> lane_step ext dbg actor q1 q2 \<Longrightarrow> lane_run ext dbg q q2"
  by (auto simp: lane_run_def intro: rtranclp.rtrancl_into_rtrancl)

lemma lane_run_trans: "lane_run ext dbg q q1 \<Longrightarrow> lane_run ext dbg q1 q2 \<Longrightarrow> lane_run ext dbg q q2"
  unfolding lane_run_def by (rule rtranclp_trans)

lemma lane_run_one: "lane_step ext dbg actor q q' \<Longrightarrow> lane_run ext dbg q q'"
  using lane_run_step by blast

lemma lane_run_induct [consumes 1, case_names Refl Step]:
  assumes "lane_run ext dbg q q'" "P q"
    and "\<And>actor q1 q2. lane_run ext dbg q q1 \<Longrightarrow> P q1 \<Longrightarrow> lane_step ext dbg actor q1 q2 \<Longrightarrow> P q2"
  shows "P q'"
  using assms(1)
  unfolding lane_run_def
proof (induction rule: rtranclp_induct)
  case base
  show ?case by (rule assms(2))
next
  case (step q1 q2)
  then show ?case using assms(3) [of q1] by (auto simp: lane_run_def)
qed

lemma lane_run_inv: "lane_run ext dbg q q' \<Longrightarrow> lane_inv q \<Longrightarrow> lane_inv q'"
  by (induction rule: lane_run_induct) (blast intro: lane_inv_step)+

lemma lane_run_reachable: "lane_run ext dbg q q' \<Longrightarrow> lane_reachable ext dbg q \<Longrightarrow> lane_reachable ext dbg q'"
  by (induction rule: lane_run_induct) (blast intro: lane_reachable.Step)+

lemma submit_run:
  assumes "uuid \<notin># accounted_ids q"
  shows "lane_run ext dbg q (snd (submit i ty uuid now saved q))"
proof -
  obtain r1 q1 where s1: "submit_admit i ty q = (r1, q1)" by fastforce
  have run1: "lane_run ext dbg q q1" using lane_step.Admit [of ext dbg q i ty] s1 by (auto intro: lane_run_one)
  show ?thesis
  proof (cases r1)
    case (Inl e)
    then show ?thesis using s1 run1 by (simp add: submit_def)
  next
    case (Inr u)
    then have t1: "Admitted i ty \<in> set (lq_tasks q1)" and a1: "accounted_ids q1 = accounted_ids q"
      using s1 tally_add_task [of q1 q "Admitted i ty" "pending_ids (\<lambda>_. True)" "owed_id (\<lambda>_. True)"]
      by (auto simp: submit_admit_def admit_def accounted_ids_def unanswered_def split: if_splits)
    obtain r2 q2 where s2: "submit_locate i ty q1 = (r2, q2)" by fastforce
    have run2: "lane_run ext dbg q q2"
      using lane_run_step [OF run1] lane_step.Locate [OF t1, of ext dbg] s2 by fastforce
    show ?thesis
    proof (cases "map_of (lq_lanes q1) i")
      case None
      then show ?thesis using s1 s2 Inr run2 by (auto simp: submit_def submit_locate_def)
    next
      case (Some a)
      let ?w = "new_wrapper uuid ty True now (lq_store q2 ! a)"
      let ?q3 = "submit_persist a ty uuid now saved q2"
      have q2: "q2 = move_task (Admitted i ty) [Located a ty] q1" and r2: "r2 = Inr ()"
        using s2 Some by (auto simp: submit_locate_def)
      have a2: "accounted_ids q2 = accounted_ids q1"
        by (simp add: q2 accounted_ids_def unanswered_def tally_move_same [OF t1])
      have l2: "Located a ty \<in> set (lq_tasks q2)" by (simp add: q2 move_task_def)
      have run3: "lane_run ext dbg q ?q3"
        using lane_run_step [OF run2] lane_step.Persist [OF l2, of uuid ext dbg] assms a1 a2 by metis
      have l3: "Persisted a ?w \<in> set (lq_tasks ?q3)" by (simp add: submit_persist_def Let_def move_task_def)
      have "submit i ty uuid now saved q = (Inr (), submit_push a ?w now ?q3)"
        using s1 s2 Inr r2 Some by (simp add: submit_def Let_def)
      then show ?thesis using lane_run_step [OF run3 lane_step.Push [OF l3]] by simp
    qed
  qed
qed

lemma pressure_run:
  "\<forall>a \<in> set lanes. a < length (lq_store q) \<Longrightarrow> lane_run ext dbg q (fold (\<lambda>a. pressure_step a now) lanes q)"
proof (induction lanes arbitrary: q)
  case (Cons a lanes)
  have "lane_run ext dbg q (pressure_step a now q)"
    using lane_step.Pressure [of a q ext dbg now] Cons.prems by (auto intro: lane_run_one)
  moreover have "lane_run ext dbg (pressure_step a now q) (fold (\<lambda>a. pressure_step a now) lanes (pressure_step a now q))"
    using Cons.prems by (intro Cons.IH) simp
  ultimately show ?case using lane_run_trans by fastforce
qed simp

lemma dequeue_step_store:
  "length (lq_store (snd (dequeue_step a tick now q))) = length (lq_store q)"
proof -
  obtain found q' where d: "dequeue_step a tick now q = (found, q')" by fastforce
  then have "length (lq_store q') = length (lq_store q)" by (cases rule: dequeue_stepE) simp_all
  then show ?thesis by (simp add: d)
qed

lemma dequeue_first_run:
  "\<forall>a \<in> set lanes. a < length (lq_store q) \<Longrightarrow> lane_run ext dbg q (snd (dequeue_first lanes tick now q))"
proof (induction lanes arbitrary: q)
  case (Cons a lanes)
  obtain found q1 where d: "dequeue_step a tick now q = (found, q1)" by fastforce
  have s: "lane_run ext dbg q q1"
    using lane_step.Dequeue [of a q ext dbg tick now] Cons.prems d by (auto intro: lane_run_one)
  show ?case
  proof (cases found)
    case False
    have "lane_run ext dbg q1 (snd (dequeue_first lanes tick now q1))"
      using Cons.prems dequeue_step_store [of a tick now q] d by (intro Cons.IH) simp
    then show ?thesis using s d False by (auto intro: lane_run_trans)
  qed (use s d in simp)
qed simp

lemma lane_priorities_map:
  "lane_priorities ext now store as = Some ps \<Longrightarrow>
   map snd ps = as \<and> (\<forall>(p, a) \<in> set ps. effective_priority ext now (store ! a) = Some p)"
  by (induction as arbitrary: ps) (auto split: option.splits)

lemma queue_lanes_less: "addr_inv q \<Longrightarrow> a \<in> set (queue_lanes ext q) \<Longrightarrow> a < length (lq_store q)"
  by (auto simp: addr_inv_def queue_lanes_def set_hash_values)

lemma fold_pressure_length [simp]:
  "length (lq_store (fold (\<lambda>a. pressure_step a now) lanes q)) = length (lq_store q)"
  by (induction lanes arbitrary: q) simp_all

lemma schedule_next_run:
  assumes "lane_inv q" "schedule_next ext tick now q = Some (found, q')"
  shows "lane_run ext dbg q q'"
proof -
  let ?lanes = "queue_lanes ext q" and ?q1 = "fold (\<lambda>a. pressure_step a now) (queue_lanes ext q) q"
  obtain ps where ps: "lane_priorities ext now (lq_store ?q1) ?lanes = Some ps"
      and q': "(found, q') = dequeue_first (map snd (sort_key fst ps)) tick now ?q1"
    using assms(2) by (auto simp: schedule_next_def Let_def)
  have less: "\<forall>a \<in> set ?lanes. a < length (lq_store q)"
    using assms(1) queue_lanes_less by (auto simp: lane_inv_def)
  have "\<forall>a \<in> set (map snd (sort_key fst ps)). a < length (lq_store ?q1)"
    using less lane_priorities_map [OF ps] by (simp only: set_map set_sort) (simp flip: set_map)
  from dequeue_first_run [OF this, of ext dbg tick now] show ?thesis
    using pressure_run [OF less, of ext dbg now] q' by (metis lane_run_trans snd_conv)
qed

text \<open>
  \<open>submit\<close> and a scheduling pass are runs of the atomic steps, so that every
  invariant and every property of runs applies to them.
\<close>

theorem lane_operations_are_runs:
  assumes "lane_inv q" "uuid \<notin># accounted_ids q" "schedule_next ext tick now q = Some (found, q1)"
  shows "lane_run ext dbg q (snd (submit i ty uuid now saved q)) \<and> lane_run ext dbg q q1"
  using submit_run [OF assms(2)] schedule_next_run [OF assms(1,3)] by blast

section \<open>A small queue\<close>

text \<open>One lane with one slot and one retry; a command waiting, then running, then lost in a panic.\<close>

definition ex_lane :: lane where
  "ex_lane = lane_new ''main'' (lc_with_retry_policy (rp_fixed 1 0) (lane_config_new 1 1)) 1 0"

definition ex_queue :: lane_queue where
  "ex_queue = register_lane ex_lane (queue_new (Some 5))"

definition ex_wrapper :: command_wrapper where
  "ex_wrapper = new_wrapper ''c1'' ''work'' True 0 ex_lane"

definition ex_submitted :: lane_queue where
  "ex_submitted = snd (submit ''main'' ''work'' ''c1'' 0 False ex_queue)"

definition ex_running :: lane_queue where
  "ex_running = snd (dequeue_step 0 0 0 ex_submitted)"

definition ex_panicked :: lane_queue where
  "ex_panicked = task_panics 0 ex_wrapper ex_running"

lemmas ex_lane_simps =
  ex_lane_def ex_queue_def ex_wrapper_def lane_new_def lane_config_new_def lc_with_retry_policy_def
  lane_state_new_def lane_limiter_def queue_new_def register_lane_def new_wrapper_def

lemma ex_queue_lanes [simp]: "lq_lanes ex_queue = [(''main'', 0)]" "lq_store ex_queue = [ex_lane]"
  "\<not> lq_shutting_down ex_queue" "lq_tasks ex_queue = []" "lq_results ex_queue = []" "lq_panicked ex_queue = []"
  "lq_outstanding ex_queue = 0" "accounted_ids ex_queue = {#}"
  by (simp_all add: ex_lane_simps accounted_ids_def unanswered_def tally_def pending_ids_def pending_of_def)

lemma ex_lane_fields [simp]: "ln_id ex_lane = ''main''" "ln_rate_limiter ex_lane = Unlimited" "ln_booster ex_lane = None"
  "ln_storage ex_lane = False" "pending_of ex_lane = []" "ls_active (ln_state ex_lane) = 0"
  "lc_max_concurrency (ls_config (ln_state ex_lane)) = 1" "lc_pressure_threshold (ls_config (ln_state ex_lane)) = None"
  by (simp_all add: ex_lane_simps pending_of_def)

lemma ex_submitted_fields [simp]:
  "lq_lanes ex_submitted = [(''main'', 0)]" "lq_store ex_submitted = [push_back ex_wrapper ex_lane]"
  "lq_tasks ex_submitted = []" "lq_results ex_submitted = []" "lq_panicked ex_submitted = []"
  "lq_outstanding ex_submitted = 1" "\<not> lq_shutting_down ex_submitted"
  by (simp_all add: ex_submitted_def submit_def submit_defs move_task_def ex_wrapper_def)

lemma ex_running_fields [simp]:
  "lq_lanes ex_running = [(''main'', 0)]" "lq_tasks ex_running = [Executing 0 ex_wrapper]"
  "lq_results ex_running = []" "lq_panicked ex_running = []"
  by (simp_all add: ex_running_def dequeue_step_def try_dequeue_def has_capacity_def has_pending_def
      push_back_def on_state_def ex_lane_simps Let_def)

lemma ex_running_store [simp]:
  "lq_store ex_running = [on_state (\<lambda>st. st\<lparr>ls_active := 1\<rparr>) ex_lane]" "lq_outstanding ex_running = 1"
  by (simp_all add: ex_running_def dequeue_step_def try_dequeue_def has_capacity_def has_pending_def
      push_back_def on_state_def ex_lane_simps Let_def)

lemma ex_panicked_fields [simp]: "lq_lanes ex_panicked = [(''main'', 0)]" "lq_panicked ex_panicked = [0]"
  by (simp_all add: ex_panicked_def task_panics_def Let_def)

lemma ex_reachable [simp]:
  "lane_reachable ext dbg ex_queue" "lane_reachable ext dbg ex_submitted"
  "lane_reachable ext dbg ex_running" "lane_reachable ext dbg ex_panicked"
proof -
  have "new_lane ex_lane" by (auto simp: new_lane_def ex_lane_def)
  from lane_reachable.Step [OF lane_reachable.Start lane_step.Register [OF this]]
  show q: "lane_reachable ext dbg ex_queue" by (simp add: ex_queue_def)
  show s: "lane_reachable ext dbg ex_submitted"
    unfolding ex_submitted_def by (rule lane_run_reachable [OF submit_run q]) simp
  show r: "lane_reachable ext dbg ex_running"
    unfolding ex_running_def by (rule lane_reachable.Step [OF s], rule lane_step.Dequeue) simp
  show "lane_reachable ext dbg ex_panicked"
    unfolding ex_panicked_def by (rule lane_reachable.Step [OF r], rule lane_step.Panic) simp
qed

lemma ex_pressure: "pressure_step 0 0 ex_submitted = ex_submitted"
proof -
  have "check_pressure (push_back ex_wrapper ex_lane) = (None, push_back ex_wrapper ex_lane)"
    by (simp add: check_pressure_def push_back_def on_state_def)
  then show ?thesis
    by (simp add: pressure_step_def on_lane_def)
qed

lemma ex_dequeue: "dequeue_step 0 0 0 ex_submitted = (True, ex_running)"
proof -
  have "fst (dequeue_step 0 0 0 ex_submitted)"
    by (simp add: dequeue_step_def try_dequeue_def has_capacity_def has_pending_def push_back_def on_state_def
        ex_lane_simps Let_def)
  then show ?thesis by (simp add: ex_running_def prod_eq_iff)
qed

lemma ex_schedule: "schedule_next ex_ext 0 0 ex_submitted = Some (Some 0, ex_running)"
proof -
  have "ln_booster (push_back ex_wrapper ex_lane) = None" by (simp add: push_back_def on_state_def)
  then have "effective_priority ex_ext 0 (push_back ex_wrapper ex_lane) = Some (ls_priority (ln_state (push_back ex_wrapper ex_lane)))"
    by (simp add: effective_priority_def)
  moreover have "queue_lanes ex_ext ex_submitted = [0]"
    by (simp add: queue_lanes_def hash_values_def hash_entries_def)
  ultimately show ?thesis
    by (simp add: schedule_next_def ex_pressure ex_dequeue del: pressure_step_fields)
qed

lemma ex_accounted: "''c2'' \<notin># accounted_ids ex_submitted"
  by (simp add: accounted_ids_def unanswered_def tally_def id_if_def pending_ids_def) (simp add: ex_wrapper_def)

theorem lane_operations_are_runs_witness:
  "lane_run ex_ext (\<lambda>_. []) ex_submitted (snd (submit ''main'' ''work'' ''c2'' 0 False ex_submitted))
   \<and> lane_run ex_ext (\<lambda>_. []) ex_submitted ex_running"
  by (rule lane_operations_are_runs [OF reachable_lane_inv [OF ex_reachable(2) [of ex_ext "\<lambda>_. []"]] ex_accounted ex_schedule])

text \<open>The run that finishes the command.\<close>

definition ex_answered :: lane_queue where
  "ex_answered = finish ex_ext (\<lambda>_. []) 0 ex_wrapper (Inr JNull) 0 False ex_running"

definition ex_done :: lane_queue where
  "ex_done = release_wrapper (sent ex_wrapper) (complete_finished 0 (sent ex_wrapper) ex_answered)"

lemma ex_done_fields [simp]:
  "lq_panicked ex_done = []" "queue_is_idle ex_done" "lq_results ex_done = [(''c1'', Inr JNull)]"
  by (simp_all add: ex_done_def ex_answered_def finish_defs queue_is_idle_def lane_is_idle_def
      mark_completed_def on_state_def)
     (simp_all add: ex_lane_simps sent_def)

lemma ex_done_run: "lane_run ex_ext dbg ex_running ex_done"
proof -
  have "lane_step ex_ext dbg (Task (Executing 0 ex_wrapper)) ex_running ex_answered"
    using lane_step.Finish [of 0 ex_wrapper ex_running "Some (Inr JNull)" "Inr JNull" ex_ext dbg 0 False]
    by (simp add: execution_result_def ex_answered_def finish_def)
  moreover have "lane_step ex_ext dbg (Task (Finished 0 (sent ex_wrapper))) ex_answered
      (complete_finished 0 (sent ex_wrapper) ex_answered)"
    by (rule lane_step.Complete) (simp add: ex_answered_def finish_defs move_task_def)
  moreover have "lane_step ex_ext dbg (Task (Released (sent ex_wrapper)))
      (complete_finished 0 (sent ex_wrapper) ex_answered) ex_done"
    unfolding ex_done_def by (rule lane_step.Release) (simp add: finish_defs move_task_def)
  ultimately show ?thesis by (meson lane_run_one lane_run_step)
qed

end
