(* ===== verification/Lane_Safety.thy ===== *)
theory Lane_Safety
  imports Lane_Runs "HOL-Library.Sublist"
begin

text \<open>
  What the scheduler's invariant gives: the concurrency bound, commands answered exactly once, shutdown, the outcome of an execution and
  the choice of the lane to serve.
\<close>

section \<open>Invariant and concurrency\<close>

text \<open>
  C3. In every reachable state of the lane scheduler addresses are valid, the slot and
  delay counters of each lane are exact and never exceed the lane's limit, every outstanding
  work permit has exactly one owner, every unfinished command can still be answered, and no
  identifier is in use twice.
\<close>

theorem reachable_lane_invariant:
  assumes "lane_reachable ext dbg q"
  shows "lane_inv q"
  using assms by (rule reachable_lane_inv)

theorem reachable_lane_invariant_witness: "lane_inv ex_panicked"
  by (rule reachable_lane_invariant [OF ex_reachable(4) [of ex_ext "\<lambda>_. []"]])

text \<open>The commands of a lane inside \<open>execute\<close>.\<close>

fun runs_on :: "nat \<Rightarrow> lane_task \<Rightarrow> bool" where
  "runs_on a (Executing b w) = (a = b)"
| "runs_on a _ = False"

definition running :: "nat \<Rightarrow> lane_queue \<Rightarrow> nat" where
  "running a q = length (filter (runs_on a) (lq_tasks q))"

lemma running_le_slots: "running a q \<le> task_sum (slot a) q"
proof -
  have "length (filter (runs_on a) ts) \<le> sum_list (map (slot a) ts)" for ts
  proof (induction ts)
    case (Cons t ts)
    then show ?case by (cases t) auto
  qed simp
  then show ?thesis by (simp add: running_def task_sum_def)
qed

text \<open>
  C11. A lane never executes more commands at once than its \<open>max_concurrency\<close>, minus the
  slots lost to panics, in any interleaving; and its status reports the queued and the sleeping
  commands.
\<close>

theorem concurrency_bounded:
  assumes "lane_reachable ext dbg q" "a < length (lq_store q)"
  shows "running a q + count_list (lq_panicked q) a \<le> lc_max_concurrency (ls_config (ln_state (lq_store q ! a)))
    \<and> st_pending (lane_status_of (lq_store q ! a)) = length (pending_of (lq_store q ! a)) + task_sum (asleep a) q"
proof -
  have "slot_inv q" using reachable_lane_inv [OF assms(1)] by (simp add: lane_inv_def)
  then show ?thesis
    using assms(2) running_le_slots [of a q] by (fastforce simp: slot_inv_def lane_status_of_def pending_of_def)
qed

theorem concurrency_bounded_witness:
  "running 0 ex_running = 1 \<and> running 0 ex_running + count_list (lq_panicked ex_running) 0 \<le> 1"
  using concurrency_bounded [OF ex_reachable(3) [of ex_ext "\<lambda>_. []"], of 0]
  by (simp add: running_def on_state_def)

section \<open>Every command is answered once\<close>

lemma run_grows:
  "lane_run ext dbg q q' \<Longrightarrow> lane_inv q \<Longrightarrow>
   prefix (lq_results q) (lq_results q') \<and> suffix (lq_panicked q) (lq_panicked q')"
proof (induction rule: lane_run_induct)
  case (Step actor q1 q2)
  then have "lane_inv q1" using lane_run_inv by blast
  then have i: "command_inv q1" "addr_inv q1" by (simp_all add: lane_inv_def)
  have "prefix (lq_results q1) (lq_results q2) \<and> suffix (lq_panicked q1) (lq_panicked q2)"
    using Step.hyps(2) i by (cases rule: unanswered_step [where P = "\<lambda>_. True"]) (auto simp: suffix_def)
  with Step show ?case by (meson prefix_order.trans suffix_order.trans)
qed simp

lemma suffix_eq_between: "suffix xs ys \<Longrightarrow> suffix ys xs \<Longrightarrow> xs = ys"
  by (rule suffix_order.antisym)

lemma run_conserves:
  assumes "lane_run ext dbg q q'" "lane_inv q" "lq_panicked q' = lq_panicked q" "i \<in># unanswered P q"
  shows "i \<in># unanswered P q' \<or> i \<in> fst ` set (lq_results q')"
  using assms(1,3)
proof (induction rule: lane_run_induct)
  case Refl
  then show ?case using assms(4) by simp
next
  case (Step actor q1 q2)
  have inv: "lane_inv q1" "command_inv q1" "addr_inv q1"
    using lane_run_inv [OF Step.hyps(1) assms(2)] by (simp_all add: lane_inv_def)
  have "suffix (lq_panicked q) (lq_panicked q1)" "suffix (lq_panicked q1) (lq_panicked q2)"
    using run_grows [OF Step.hyps(1) assms(2)] run_grows [OF lane_run_one [OF Step.hyps(2)] inv(1)] by simp_all
  then have same: "lq_panicked q1 = lq_panicked q" "lq_panicked q2 = lq_panicked q1"
    using Step.prems by (auto dest: suffix_eq_between)
  then have i: "i \<in># unanswered P q1 \<or> i \<in> fst ` set (lq_results q1)" by (intro Step.IH)
  show ?case
    using Step.hyps(2) inv(2,3)
    by (cases rule: unanswered_step [where P = P, consumes 3])
       (use i same in \<open>auto simp: id_if_def split: if_splits\<close>)
qed

lemma size_sum_list:
  fixes f :: "'a \<Rightarrow> 'b multiset"
  shows "size (sum_list (map f xs)) = sum_list (map (\<lambda>x. size (f x)) xs)"
  by (induction xs) simp_all

lemma sum_list_mono_nat: "(\<And>x. f x \<le> (g x :: nat)) \<Longrightarrow> sum_list (map f xs) \<le> sum_list (map g xs)"
  by (induction xs) (auto intro: add_mono)

lemma unanswered_permits: "size (unanswered (\<lambda>b. b) q) \<le> tally lane_permits task_permits q"
proof -
  have "size (owed_id (\<lambda>b. b) t) \<le> task_permits t" for t
    by (cases t) (simp_all add: id_if_def)
  moreover have "size (pending_ids (\<lambda>b. b) l) = lane_permits l" for l
    unfolding pending_ids_def lane_permits_def size_sum_list
    by (rule arg_cong [of _ _ sum_list]) (simp add: id_if_def)
  ultimately show ?thesis
    by (simp add: unanswered_def tally_def size_sum_list add_mono sum_list_mono_nat)
qed

text \<open>The bookkeeping of permits and identifiers behind it.\<close>

lemma answered_when_idle:
  assumes "lane_reachable ext dbg q" "i \<in># unanswered (\<lambda>permit. permit) q"
    and "lane_run ext dbg q q'" "queue_is_idle q'" "lq_panicked q' = lq_panicked q"
  shows "count_list (map fst (lq_results q')) i = 1"
proof -
  have inv: "lane_inv q" "lane_inv q'"
    using reachable_lane_inv [OF assms(1)] lane_run_inv [OF assms(3)] by simp_all
  have "tally lane_permits task_permits q' = 0"
    using inv(2) assms(4) by (simp add: lane_inv_def permit_inv_def queue_is_idle_def)
  then have "unanswered (\<lambda>b. b) q' = {#}" using unanswered_permits [of q'] by simp
  then have "i \<in> fst ` set (lq_results q')"
    using run_conserves [OF assms(3) inv(1) assms(5,2)] by simp
  moreover have "count (accounted_ids q') i \<le> 1" using inv(2) by (simp add: lane_inv_def command_inv_def)
  ultimately show ?thesis
    by (simp add: accounted_ids_def count_mset [symmetric]) (metis count_list_0_iff set_map One_nat_def add_leD2 count_mset le_Suc_eq le_zero_eq mset_map)
qed

text \<open>
  C4. When the queue is idle again, every submitted command has been answered exactly once:
  unless an execution panicked in between, each command that was waiting, running, failing or
  sleeping has one result, whatever the interleaving.
\<close>

theorem idle_means_answered:
  assumes "lane_reachable ext dbg q" "i \<in># unanswered (\<lambda>permit. permit) q"
    and "lane_run ext dbg q q'" "queue_is_idle q'" "lq_panicked q' = lq_panicked q"
  shows "count_list (map fst (lq_results q')) i = 1"
  using assms by (rule answered_when_idle)

theorem idle_means_answered_witness: "count_list (map fst (lq_results ex_done)) ''c1'' = 1"
proof -
  have "''c1'' \<in># unanswered (\<lambda>permit. permit) ex_running"
    by (simp add: unanswered_def tally_def id_if_def) (simp add: ex_wrapper_def)
  from idle_means_answered [OF ex_reachable(3) this ex_done_run [of "\<lambda>_. []"]] show ?thesis by simp
qed

section \<open>Submitting and shutdown\<close>

text \<open>
  \<open>submit\<close> has three outcomes. A queue that shuts down refuses it and an unknown lane
  fails it, both without a trace; otherwise exactly one new command, with the lane's timeout and
  retry policy, is appended to the lane the identifier names and one permit is issued.
\<close>

theorem submit_outcome:
  "(lq_shutting_down q \<longrightarrow> submit i ty uuid now saved q = (Inl ShutdownInProgress, q))
   \<and> (\<not> lq_shutting_down q \<and> map_of (lq_lanes q) i = None \<longrightarrow> submit i ty uuid now saved q = (Inl (LaneNotFound i), q))
   \<and> (\<not> lq_shutting_down q \<and> map_of (lq_lanes q) i = Some a \<longrightarrow>
        fst (submit i ty uuid now saved q) = Inr ()
        \<and> lq_store (snd (submit i ty uuid now saved q)) =
            (lq_store q)[a := push_back (new_wrapper uuid ty True now (lq_store q ! a)) (lq_store q ! a)]
        \<and> lq_outstanding (snd (submit i ty uuid now saved q)) = lq_outstanding q + 1
        \<and> lq_tasks (snd (submit i ty uuid now saved q)) = lq_tasks q
        \<and> lq_results (snd (submit i ty uuid now saved q)) = lq_results q)"
proof -
  have "lq_tasks (snd (submit i ty uuid now saved q)) = lq_tasks q"
    if "\<not> lq_shutting_down q" "map_of (lq_lanes q) i = Some a"
    using that by (simp add: submit_def submit_defs move_task_def store_wrapper_def on_lane_def emit_def)
  then show ?thesis
    by (auto simp: submit_def submit_defs move_task_def drop_permit_def)
qed

theorem submit_outcome_witness:
  "fst (submit ''main'' ''work'' ''c1'' 0 False ex_queue) = Inr ()
   \<and> submit ''other'' ''work'' ''c1'' 0 False ex_queue = (Inl (LaneNotFound ''other''), ex_queue)
   \<and> submit ''main'' ''work'' ''c1'' 0 False (shutdown 0 ex_queue) = (Inl ShutdownInProgress, shutdown 0 ex_queue)"
  using submit_outcome [of ex_queue "''main''" "''work''" "''c1''" 0 False 0]
    submit_outcome [of ex_queue "''other''" "''work''" "''c1''" 0 False 0]
    submit_outcome [of "shutdown 0 ex_queue" "''main''" "''work''" "''c1''" 0 False 0]
  by (simp add: shutdown_def begin_shutdown_def)

lemma shutdown_step:
  assumes "lane_step ext dbg actor q q'" "lq_shutting_down q"
  shows "lq_shutting_down q' \<and> lq_outstanding q' \<le> lq_outstanding q"
  using assms(1)
proof (cases rule: lane_step.cases)
  case (Dequeue a tick now)
  obtain found q'' where d: "dequeue_step a tick now q = (found, q'')" by fastforce
  then have "lq_shutting_down q'' = lq_shutting_down q \<and> lq_outstanding q'' = lq_outstanding q"
    by (cases rule: dequeue_stepE) simp_all
  then show ?thesis using Dequeue(2) d assms(2) by simp
next
  case (Finish a w returned r now removed)
  then show ?thesis using assms(2) by (auto simp: finish_defs split: sum.split)
qed (use assms(2) in \<open>auto simp: submit_defs finish_defs split: option.split prod.split\<close>)+

text \<open>
  C25. Shutdown is final: once it has begun no interleaving of steps issues another work permit
  or reopens admission, and every later \<open>submit\<close> returns \<open>ShutdownInProgress\<close>.
\<close>

theorem shutdown_is_final:
  assumes "lane_run ext dbg (shutdown now q) q'"
  shows "lq_shutting_down q' \<and> lq_outstanding q' \<le> lq_outstanding q
    \<and> submit i ty uuid now' saved q' = (Inl ShutdownInProgress, q')"
proof -
  have "lq_shutting_down q' \<and> lq_outstanding q' \<le> lq_outstanding q"
    using assms
  proof (induction rule: lane_run_induct)
    case Refl
    show ?case by (simp add: shutdown_def begin_shutdown_def)
  next
    case (Step actor q1 q2)
    then show ?case using shutdown_step [OF Step.hyps(2)] by simp
  qed
  then show ?thesis using submit_outcome [of q' i ty uuid now' saved] by simp
qed

theorem shutdown_is_final_witness:
  "lq_shutting_down (shutdown 0 ex_submitted) \<and> lq_outstanding (shutdown 0 ex_submitted) \<le> 1"
  using shutdown_is_final [of ex_ext "\<lambda>_. []" 0 ex_submitted "shutdown 0 ex_submitted"] by simp

section \<open>The outcome of an execution\<close>



end
