(* ===== verification/Lane_Schedule.thy ===== *)
theory Lane_Schedule
  imports Lane_Safety
begin

text \<open>
  The choice \<open>schedule_next\<close> makes, and what a panic or a replaced lane does to a queue for
  good.
\<close>

section \<open>The table of lanes\<close>

lemma lanes_step:
  assumes "lane_step ext dbg actor q q'"
  obtains (same) "lq_lanes q' = lq_lanes q" | (register) l where "q' = register_lane l q"
  using assms
proof (cases rule: lane_step.cases)
  case (Dequeue a tick now)
  obtain found q'' where d: "dequeue_step a tick now q = (found, q'')" by fastforce
  then have "lq_lanes q'' = lq_lanes q" by (cases rule: dequeue_stepE) simp_all
  then show ?thesis using Dequeue(2) d same by simp
next
  case (Finish a w returned r now removed)
  then show ?thesis using same by (auto simp: finish_defs split: sum.splits if_splits)
next
  case (Register l)
  then show ?thesis using register by simp
qed (use same in \<open>auto simp: submit_defs finish_defs split: option.splits prod.splits if_splits\<close>)+

lemma distinct_update_snd:
  "distinct (map snd al) \<Longrightarrow> v \<notin> snd ` set al \<Longrightarrow> distinct (map snd (AList.update k v al))"
proof (induction al)
  case (Cons e al)
  have "snd ` set (AList.update k v al) \<subseteq> insert v (snd ` set al)"
    by (auto dest: in_update)
  then show ?case using Cons by (cases e) auto
qed simp

lemma reachable_lanes_distinct: "lane_reachable ext dbg q \<Longrightarrow> distinct (map snd (lq_lanes q))"
proof (induction rule: lane_reachable.induct)
  case (Step q actor q')
  have "addr_inv q" using reachable_lane_inv [OF Step.hyps(1)] by (simp add: lane_inv_def)
  then have "length (lq_store q) \<notin> snd ` set (lq_lanes q)" by (auto simp: addr_inv_def)
  with Step.hyps(2) show ?case
    by (cases rule: lanes_step) (use Step.IH in \<open>auto simp: register_lane_def distinct_update_snd\<close>)
qed (simp add: queue_new_def)

lemma queue_lanes_distinct: "lane_reachable ext dbg q \<Longrightarrow> distinct (queue_lanes ext q)"
  unfolding queue_lanes_def
  using reachable_lanes_distinct mset_eq_imp_distinct_iff mset_hash_values by blast

section \<open>One pass\<close>

text \<open>A lane from which the next command can be started.\<close>

definition can_start :: "instant \<Rightarrow> lane \<Rightarrow> bool" where
  "can_start tick l \<longleftrightarrow>
     fst (rl_try_acquire tick (ln_rate_limiter l)) \<and> has_capacity (ln_state l) \<and> has_pending (ln_state l)"

lemma dequeue_step_found: "fst (dequeue_step a tick now q) \<longleftrightarrow> can_start tick (lq_store q ! a)"
  by (auto simp: dequeue_step_def try_dequeue_def can_start_def has_capacity_def has_pending_def Let_def
      split: prod.split option.split)

text \<open>What a pass does to the commands: it starts at most one, the front of lane \<open>a\<close>.\<close>

definition starts :: "nat \<Rightarrow> lane_queue \<Rightarrow> lane_queue \<Rightarrow> bool" where
  "starts a q q' \<longleftrightarrow>
     (\<exists>w ps. pending_of (lq_store q ! a) = w # ps \<and> pending_of (lq_store q' ! a) = ps
        \<and> lq_tasks q' = Executing a w # lq_tasks q)
     \<and> (\<forall>b. b \<noteq> a \<longrightarrow> pending_of (lq_store q' ! b) = pending_of (lq_store q ! b))"

definition starts_none :: "lane_queue \<Rightarrow> lane_queue \<Rightarrow> bool" where
  "starts_none q q' \<longleftrightarrow>
     lq_tasks q' = lq_tasks q \<and> (\<forall>b. pending_of (lq_store q' ! b) = pending_of (lq_store q ! b))"

lemma starts_trans: "starts_none q q1 \<Longrightarrow> starts a q1 q2 \<Longrightarrow> starts a q q2"
  unfolding starts_def starts_none_def by metis

lemma starts_none_trans: "starts_none q q1 \<Longrightarrow> starts_none q1 q2 \<Longrightarrow> starts_none q q2"
  unfolding starts_none_def by metis

lemma dequeue_step_effect:
  assumes "dequeue_step a tick now q = (found, q')" "a < length (lq_store q)"
  shows "(if found then starts a q q' else starts_none q q')
    \<and> (\<forall>b. b \<noteq> a \<longrightarrow> lq_store q' ! b = lq_store q ! b)"
  using assms(1)
  by (cases rule: dequeue_stepE)
     (use assms(2) in \<open>auto simp: starts_def starts_none_def pending_of_def nth_list_update\<close>)

lemma dequeue_first_effect:
  assumes "dequeue_first as tick now q = (found, q')" "distinct as" "\<forall>a \<in> set as. a < length (lq_store q)"
  shows "case found of
      None \<Rightarrow> (\<forall>a \<in> set as. \<not> can_start tick (lq_store q ! a)) \<and> starts_none q q'
    | Some a \<Rightarrow> (\<exists>pre post. as = pre @ a # post \<and> (\<forall>b \<in> set pre. \<not> can_start tick (lq_store q ! b)))
        \<and> can_start tick (lq_store q ! a) \<and> starts a q q'"
  using assms
proof (induction as arbitrary: q)
  case Nil
  then show ?case by (simp add: starts_none_def)
next
  case (Cons a as)
  obtain ok q1 where d: "dequeue_step a tick now q = (ok, q1)" by fastforce
  have ok: "ok \<longleftrightarrow> can_start tick (lq_store q ! a)"
    using dequeue_step_found [of a tick now q] d by simp
  note e = dequeue_step_effect [OF d]
  show ?case
  proof (cases ok)
    case True
    have "\<exists>pre post. a # as = pre @ a # post \<and> (\<forall>b \<in> set pre. \<not> can_start tick (lq_store q ! b))"
      by (rule exI [of _ "[]"]) simp
    moreover have "found = Some a" "q' = q1" using Cons.prems(1) d True by simp_all
    ultimately show ?thesis using Cons.prems e ok True by simp
  next
    case False
    have r: "dequeue_first as tick now q1 = (found, q')" using Cons.prems(1) d False by simp
    have len: "length (lq_store q1) = length (lq_store q)"
      using dequeue_step_store [of a tick now q] d by simp
    have same: "lq_store q1 ! b = lq_store q ! b" if "b \<in> set as" for b
      using e Cons.prems(2,3) that by auto
    have none: "starts_none q q1" using e False Cons.prems(3) by simp
    have ih: "case found of
      None \<Rightarrow> (\<forall>a \<in> set as. \<not> can_start tick (lq_store q1 ! a)) \<and> starts_none q1 q'
    | Some a \<Rightarrow> (\<exists>pre post. as = pre @ a # post \<and> (\<forall>b \<in> set pre. \<not> can_start tick (lq_store q1 ! b)))
        \<and> can_start tick (lq_store q1 ! a) \<and> starts a q1 q'"
      using Cons.IH [OF r] Cons.prems(2,3) len by simp
    show ?thesis
    proof (cases found)
      case None
      then show ?thesis using ih same none ok False starts_none_trans by auto
    next
      case (Some c)
      then obtain pre post where p: "as = pre @ c # post" "\<forall>b \<in> set pre. \<not> can_start tick (lq_store q1 ! b)"
        using ih by auto
      have "a # as = (a # pre) @ c # post" using p(1) by simp
      moreover have "\<forall>b \<in> set (a # pre). \<not> can_start tick (lq_store q ! b)"
        using p same ok False by auto
      ultimately have "\<exists>pre post. a # as = pre @ c # post \<and> (\<forall>b \<in> set pre. \<not> can_start tick (lq_store q ! b))"
        by blast
      moreover have "can_start tick (lq_store q ! c)" "starts c q q'"
        using Some ih same p(1) starts_trans [OF none] by auto
      ultimately show ?thesis using Some by simp
    qed
  qed
qed

text \<open>Pressure checks change no lane but its flag.\<close>

lemma check_pressure_lane [simp]:
  "ln_rate_limiter (snd (check_pressure l)) = ln_rate_limiter l"
  "ln_booster (snd (check_pressure l)) = ln_booster l"
  "ls_priority (ln_state (snd (check_pressure l))) = ls_priority (ln_state l)"
  by (simp_all add: check_pressure_def on_state_def Let_def split: option.split)

lemma pressure_step_effect:
  "starts_none q (pressure_step a now q)
   \<and> can_start tick (lq_store (pressure_step a now q) ! b) = can_start tick (lq_store q ! b)
   \<and> effective_priority ext t (lq_store (pressure_step a now q) ! b) = effective_priority ext t (lq_store q ! b)"
proof -
  let ?s = "(lq_store q)[a := snd (check_pressure (lq_store q ! a))]"
  have "ln_rate_limiter (?s ! c) = ln_rate_limiter (lq_store q ! c)" "ln_booster (?s ! c) = ln_booster (lq_store q ! c)"
    "ls_priority (ln_state (?s ! c)) = ls_priority (ln_state (lq_store q ! c))"
    "ls_config (ln_state (?s ! c)) = ls_config (ln_state (lq_store q ! c))"
    "ls_active (ln_state (?s ! c)) = ls_active (ln_state (lq_store q ! c))"
    "ls_pending (ln_state (?s ! c)) = ls_pending (ln_state (lq_store q ! c))" for c
    by (cases "a < length (lq_store q)"; cases "a = c"; simp add: list_update_beyond)+
  then show ?thesis
    by (simp add: starts_none_def can_start_def has_capacity_def has_pending_def effective_priority_def pending_of_def
        split: option.split list.split)
qed

lemma fold_pressure_effect:
  "starts_none q (fold (\<lambda>a. pressure_step a now) as q)
   \<and> can_start tick (lq_store (fold (\<lambda>a. pressure_step a now) as q) ! b) = can_start tick (lq_store q ! b)
   \<and> effective_priority ext t (lq_store (fold (\<lambda>a. pressure_step a now) as q) ! b) = effective_priority ext t (lq_store q ! b)"
proof (induction as arbitrary: q)
  case Nil
  then show ?case by (simp add: starts_none_def)
next
  case (Cons a as)
  show ?case
    using pressure_step_effect [of q a now tick b ext t] Cons.IH [of "pressure_step a now q"]
      starts_none_trans [of q "pressure_step a now q"] by simp
qed

text \<open>
  C6. A scheduling pass starts the front command of a lane of least effective priority value
  (boosts included) among those that have a waiting command, a free slot and a token, and
  touches no other lane's commands; it starts nothing only when there is no such lane.
\<close>

theorem schedule_next_choice:
  assumes "lane_reachable ext dbg q" "schedule_next ext tick now q = Some (found, q')"
  shows "case found of
      None \<Rightarrow> (\<forall>a \<in> set (queue_lanes ext q). \<not> can_start tick (lq_store q ! a)) \<and> starts_none q q'
    | Some a \<Rightarrow> a \<in> set (queue_lanes ext q) \<and> can_start tick (lq_store q ! a) \<and> starts a q q'
        \<and> (\<exists>p. effective_priority ext now (lq_store q ! a) = Some p
            \<and> (\<forall>b \<in> set (queue_lanes ext q). can_start tick (lq_store q ! b) \<longrightarrow>
                 (\<exists>p'. effective_priority ext now (lq_store q ! b) = Some p' \<and> p \<le> p')))"
proof -
  let ?lanes = "queue_lanes ext q" and ?q1 = "fold (\<lambda>a. pressure_step a now) (queue_lanes ext q) q"
  obtain ps where ps: "lane_priorities ext now (lq_store ?q1) ?lanes = Some ps"
      and d: "dequeue_first (map snd (sort_key fst ps)) tick now ?q1 = (found, q')"
    using assms(2) by (auto simp: schedule_next_def Let_def)
  let ?as = "map snd (sort_key fst ps)"
  have prio: "map snd ps = ?lanes" "effective_priority ext now (lq_store q ! a) = Some p" if "(p, a) \<in> set ps" for p a
    using lane_priorities_map [OF ps] fold_pressure_effect [of q now ?lanes tick _ ext now] that by auto
  have snds: "map snd ps = ?lanes" using lane_priorities_map [OF ps] by simp
  have as: "set ?as = set ?lanes" by (simp flip: snds)
  have "mset ?as = mset ?lanes" by (simp flip: snds)
  then have "distinct ?as"
    using queue_lanes_distinct [OF assms(1)] mset_eq_imp_distinct_iff by blast
  moreover have "\<forall>a \<in> set ?as. a < length (lq_store ?q1)"
    using as reachable_lane_inv [OF assms(1)] queue_lanes_less by (auto simp: lane_inv_def)
  ultimately have r: "case found of
      None \<Rightarrow> (\<forall>a \<in> set ?as. \<not> can_start tick (lq_store ?q1 ! a)) \<and> starts_none ?q1 q'
    | Some a \<Rightarrow> (\<exists>pre post. ?as = pre @ a # post \<and> (\<forall>b \<in> set pre. \<not> can_start tick (lq_store ?q1 ! b)))
        \<and> can_start tick (lq_store ?q1 ! a) \<and> starts a ?q1 q'"
    by (rule dequeue_first_effect [OF d])
  have press: "starts_none q ?q1" "can_start tick (lq_store ?q1 ! b) = can_start tick (lq_store q ! b)" for b
    using fold_pressure_effect [of q now ?lanes tick b ext now] by simp_all
  show ?thesis
  proof (cases found)
    case None
    then have "\<forall>a \<in> set ?lanes. \<not> can_start tick (lq_store q ! a)" "starts_none ?q1 q'"
      using r unfolding press(2) as by simp_all
    then show ?thesis using None starts_none_trans [OF press(1)] by simp
  next
    case (Some a)
    then obtain pre post where split: "?as = pre @ a # post" "\<forall>b \<in> set pre. \<not> can_start tick (lq_store q ! b)"
      using r press by auto
    let ?f = "\<lambda>b. fst (sort_key fst ps ! b)"
    have sorted: "List.sorted (map fst (sort_key fst ps))" by simp
    obtain pre' pa post' where s': "sort_key fst ps = pre' @ (pa, a) # post'" "map snd pre' = pre" "map snd post' = post"
      using split(1) by (auto simp: map_eq_append_conv map_eq_Cons_conv)
    have pa: "effective_priority ext now (lq_store q ! a) = Some pa"
    proof -
      have "(pa, a) \<in> set (sort_key fst ps)" unfolding s'(1) by simp
      then show ?thesis using prio(2) by simp
    qed
    have "\<exists>p'. effective_priority ext now (lq_store q ! b) = Some p' \<and> pa \<le> p'"
      if b: "b \<in> set ?lanes" "can_start tick (lq_store q ! b)" for b
    proof -
      have "b \<in> set (a # post)" using b split as by auto
      then have "b \<in> snd ` set ((pa, a) # post')" by (simp flip: s'(3))
      then obtain p' where p': "(p', b) \<in> set ((pa, a) # post')" by fastforce
      then have "(p', b) \<in> set (sort_key fst ps)" unfolding s'(1) by auto
      then have "(p', b) \<in> set ps" by simp
      moreover have "pa \<le> p'" using sorted p' unfolding s'(1) by (auto simp: sorted_append)
      ultimately show ?thesis using prio(2) by blast
    qed
    moreover have "a \<in> set ?lanes" using as split(1) by auto
    ultimately show ?thesis using Some r press pa starts_trans by auto
  qed
qed

theorem schedule_next_choice_witness: "can_start 0 (lq_store ex_submitted ! 0) \<and> starts 0 ex_submitted ex_running"
  using schedule_next_choice [OF ex_reachable(2) [of ex_ext "\<lambda>_. []"] ex_schedule] by simp

end
