(* ===== verification/Lane_Drain.thy ===== *)
theory Lane_Drain
  imports Lane_Schedule
begin

text \<open>
  Draining: productive steps are bounded by a work measure, and while work is left some step is
  possible unless slots were lost in panics or a lane was replaced; what those two do is
  stated as well.
\<close>

section \<open>The work measure\<close>

definition retries_left :: "command_wrapper \<Rightarrow> nat" where
  "retries_left w = rp_max_retries (cw_retry_policy w) - cw_attempt w"

definition lane_max_retries :: "lane \<Rightarrow> nat" where
  "lane_max_retries l = rp_max_retries (lc_retry_policy (ls_config (ln_state l)))"

definition most_retries :: "lane_queue \<Rightarrow> nat" where
  "most_retries q = fold max (map lane_max_retries (lq_store q)) 0"

text \<open>
  An attempt is queued, runs, and is retried through the backoff task, each with less work than
  before; \<open>M\<close> bounds the retries of commands not created yet.
\<close>

fun task_work :: "nat \<Rightarrow> lane_task \<Rightarrow> nat" where
  "task_work M (Admitted i ty) = 5 * M + 8"
| "task_work M (Located a ty) = 5 * M + 7"
| "task_work M (Persisted a w) = 5 * retries_left w + 6"
| "task_work M (Executing a w) = 5 * retries_left w + 3"
| "task_work M (Retrying a w d) = 5 * retries_left w + 2"
| "task_work M (Backoff a w d) = 5 * retries_left w + 5"
| "task_work M (Rescheduled a) = 1"
| "task_work M (Finished a w) = 2"
| "task_work M (Released w) = 1"

definition lane_work :: "lane \<Rightarrow> nat" where
  "lane_work l = sum_list (map (\<lambda>w. 5 * retries_left w + 4) (pending_of l))"

definition work :: "lane_queue \<Rightarrow> nat" where
  "work q = tally lane_work (task_work (most_retries q)) q"

lemma lane_work_updates [simp]:
  "lane_work (push_back w l) = lane_work l + (5 * retries_left w + 4)"
  "lane_work (add_delayed_retry l) = lane_work l"
  "lane_work (requeue_retry w l) = lane_work l + (5 * retries_left w + 4)"
  "lane_work (mark_completed l) = lane_work l"
  "lane_work (snd (check_pressure l)) = lane_work l"
  by (simp_all add: lane_work_def)

text \<open>Tasks and the scheduler never change a configuration.\<close>

lemma map_update_same: "f (h (xs ! a)) = f (xs ! a) \<Longrightarrow> map f (xs[a := h (xs ! a)]) = map f xs"
  by (metis list_update_id map_update)

lemma lane_max_retries_updates [simp]:
  "lane_max_retries (push_back w l) = lane_max_retries l"
  "lane_max_retries (add_delayed_retry l) = lane_max_retries l"
  "lane_max_retries (requeue_retry w l) = lane_max_retries l"
  "lane_max_retries (mark_completed l) = lane_max_retries l"
  "lane_max_retries (snd (check_pressure l)) = lane_max_retries l"
  by (simp_all add: lane_max_retries_def lane_update_defs)

lemma most_retries_cong: "map lane_max_retries (lq_store q') = map lane_max_retries (lq_store q) \<Longrightarrow> most_retries q' = most_retries q"
  by (simp add: most_retries_def)

lemma most_retries_dequeue:
  assumes "dequeue_step a tick now q = (found, q')"
  shows "most_retries q' = most_retries q"
  using assms
proof (cases rule: dequeue_stepE)
  case (none l)
  then show ?thesis
    by (intro most_retries_cong) (simp add: map_update_same [of lane_max_retries "\<lambda>_. l"] lane_max_retries_def)
next
  case (start w ps l q1)
  then show ?thesis
    by (intro most_retries_cong) (simp add: map_update_same [of lane_max_retries "\<lambda>_. l"] lane_max_retries_def)
qed

lemma most_retries_task:
  assumes "lane_step ext dbg (Task t) q q'"
  shows "most_retries q' = most_retries q"
  using assms
  by (cases rule: lane_step.cases)
     (auto simp: most_retries_def finish_defs submit_defs map_update_same simp del: map_update
       split: option.split sum.split)

lemma fold_max_ge: "(n :: nat) \<le> fold max xs n \<and> (\<forall>x \<in> set xs. x \<le> fold max xs n)"
proof (induction xs arbitrary: n)
  case (Cons x xs)
  have "max x n \<le> fold max xs (max x n) \<and> (\<forall>y \<in> set xs. y \<le> fold max xs (max x n))" by (rule Cons.IH)
  then show ?case by simp
qed simp

lemma most_retries_ge: "a < length (lq_store q) \<Longrightarrow> lane_max_retries (lq_store q ! a) \<le> most_retries q"
  using fold_max_ge [where n = 0 and xs = "map lane_max_retries (lq_store q)"] by (simp add: most_retries_def)

section \<open>Every productive step lowers it\<close>

lemma move_task_work:
  assumes "old \<in> set (lq_tasks q)" "sum_list (map g new) < (g old :: nat)"
  shows "tally f g (move_task old new q) < tally f g q"
  using tally_move_task [OF assms(1), of f g new] assms(2) by simp

lemma requeue_work:
  fixes f :: "lane \<Rightarrow> nat"
  assumes "old \<in> set (lq_tasks q)" "a < length (lq_store q)"
    and "f (h (lq_store q ! a)) + sum_list (map g new) < f (lq_store q ! a) + g old"
  shows "tally f g (on_lane a h (move_task old new q)) < tally f g q"
  using tally_on_lane [of a "move_task old new q" f g h] tally_move_task [OF assms(1), of f g new] assms(2,3)
  by simp

lemma task_step_work:
  assumes "lane_step ext dbg (Task t) q q'" "lane_inv q"
  shows "work q' < work q"
proof -
  let ?g = "task_work (most_retries q)"
  have addr: "addr_inv q" and ok: "list_all task_ok (lq_tasks q)"
    using assms(2) by (simp_all add: lane_inv_def command_inv_def)
  note less = task_lane_less [OF addr]
  have "tally lane_work ?g q' < tally lane_work ?g q"
    using assms(1)
  proof (cases rule: lane_step.cases)
    case (Locate i ty)
    then show ?thesis by (auto simp: submit_defs move_task_work split: option.split)
  next
    case (Persist a ty uuid now saved)
    let ?w = "new_wrapper uuid ty True now (lq_store q ! a)"
    have "retries_left ?w \<le> most_retries q"
      using most_retries_ge [of a q] less [OF Persist(3)]
      by (simp add: retries_left_def new_wrapper_def lane_max_retries_def)
    then show ?thesis
      using Persist move_task_work [of "Located a ty" "store_wrapper ?w a now saved q" ?g "[Persisted a ?w]" lane_work]
      by (simp add: submit_defs)
  next
    case (Push a w now)
    then show ?thesis using less [OF Push(3)] by (simp add: submit_defs requeue_work)
  next
    case (Finish a w returned r now removed)
    then show ?thesis by (auto simp: finish_defs move_task_work split: sum.split)
  next
    case (Retry a w d now)
    then have "cw_attempt w < rp_max_retries (cw_retry_policy w)" using ok by (auto simp: list_all_iff)
    then have "retries_left w = Suc (retries_left (next_attempt w))"
      by (simp add: retries_left_def next_attempt_def)
    then show ?thesis using Retry less [OF Retry(3)] by (simp add: finish_defs requeue_work)
  next
    case (Wake a w d)
    then show ?thesis using less [OF Wake(3)] by (simp add: finish_defs requeue_work)
  next
    case (Reschedule a)
    then show ?thesis using less [OF Reschedule(3)] by (simp add: finish_defs requeue_work)
  next
    case (Complete a w)
    then show ?thesis using less [OF Complete(3)] by (simp add: finish_defs requeue_work)
  next
    case (Release w)
    then show ?thesis by (simp add: finish_defs move_task_work)
  next
    case (Panic a w)
    then show ?thesis by (simp add: finish_defs move_task_work)
  qed
  then show ?thesis by (simp add: work_def most_retries_task [OF assms(1)])
qed

lemma dequeue_work:
  assumes "dequeue_step a tick now q = (True, q')" "a < length (lq_store q)"
  shows "work q' < work q"
  using assms(1)
proof (cases rule: dequeue_stepE)
  case (start w ps l q1)
  let ?g = "task_work (most_retries q)"
  have "lane_work (lq_store q ! a) = lane_work l + (5 * retries_left w + 4)"
    using start(2,4) by (simp add: lane_work_def pending_of_def)
  then have "tally lane_work ?g q1 + (5 * retries_left w + 4) = tally lane_work ?g q"
    using tally_on_lane [OF assms(2), of lane_work ?g "\<lambda>_. l"] start(5) by simp
  moreover have "tally lane_work ?g q' = ?g (Executing a w) + tally lane_work ?g q1"
    using start(6) by (simp add: tally_add_task)
  ultimately show ?thesis by (simp add: work_def most_retries_dequeue [OF assms(1)])
qed simp

section \<open>Draining ends\<close>

text \<open>A step of a task, or a scheduler turn that starts a command of a registered lane.\<close>

definition productive :: "externals \<Rightarrow> (duration \<Rightarrow> string) \<Rightarrow> lane_queue \<Rightarrow> lane_queue \<Rightarrow> bool" where
  "productive ext dbg q q' \<longleftrightarrow>
     (\<exists>t. lane_step ext dbg (Task t) q q')
     \<or> (\<exists>i a tick now. (i, a) \<in> set (lq_lanes q) \<and> dequeue_step a tick now q = (True, q'))"

lemma lane_address: "lane_inv q \<Longrightarrow> (i, a) \<in> set (lq_lanes q) \<Longrightarrow> a < length (lq_store q)"
  by (auto simp: lane_inv_def addr_inv_def)

lemma productive_step:
  assumes "productive ext dbg q q'" "lane_inv q"
  obtains actor where "lane_step ext dbg actor q q'"
  using assms lane_step.Dequeue [of _ q ext dbg] lane_address [OF assms(2)]
  unfolding productive_def by (metis snd_conv)

lemma productive_work: "productive ext dbg q q' \<Longrightarrow> lane_inv q \<Longrightarrow> work q' < work q"
  unfolding productive_def using task_step_work dequeue_work lane_address by blast

text \<open>
  C9. Draining ends: from any reachable state at most \<open>work q\<close> productive steps can follow
  one another, however tasks and scheduler interleave and however often executions fail.
\<close>

theorem drain_terminates:
  assumes "lane_reachable ext dbg q" "(productive ext dbg ^^ n) q q'"
  shows "n + work q' \<le> work q"
  using assms(2)
proof (induction n arbitrary: q')
  case 0
  then show ?case by simp
next
  case (Suc n)
  then obtain q1 where q1: "(productive ext dbg ^^ n) q q1" "productive ext dbg q1 q'" by auto
  have "lane_inv q1"
    using q1(1)
  proof (induction n arbitrary: q1)
    case 0
    then show ?case using reachable_lane_inv [OF assms(1)] by simp
  next
    case (Suc n)
    then obtain q2 where q2: "(productive ext dbg ^^ n) q q2" "productive ext dbg q2 q1" by auto
    obtain actor where "lane_step ext dbg actor q2 q1"
      using q2(2) Suc.IH [OF q2(1)] by (rule productive_step)
    then show ?case using Suc.IH [OF q2(1)] by (rule lane_inv_step)
  qed
  then show ?case using Suc.IH [OF q1(1)] productive_work [OF q1(2)] by simp
qed

theorem drain_terminates_witness: "1 + work ex_running \<le> work ex_submitted"
proof -
  have "productive ex_ext (\<lambda>_. []) ex_submitted ex_running"
    using ex_dequeue by (auto simp: productive_def)
  then have "(productive ex_ext (\<lambda>_. []) ^^ 1) ex_submitted ex_running" by (simp add: eq_OO)
  from drain_terminates [OF ex_reachable(2) this] show ?thesis .
qed

section \<open>Draining never gets stuck\<close>

lemma fresh_id: "\<exists>uuid :: string. uuid \<notin># M"
proof -
  have "finite (set_mset M)" by simp
  then show ?thesis using ex_new_if_finite [OF infinite_UNIV_listI] by blast
qed

lemma task_enabled:
  assumes "t \<in> set (lq_tasks q)"
  shows "\<exists>q'. lane_step ext dbg (Task t) q q'"
proof (cases t)
  case (Located a ty)
  obtain uuid where "uuid \<notin># accounted_ids q" using fresh_id by blast
  then show ?thesis using assms Located by (metis lane_step.Persist)
next
  case (Executing a w)
  have "execution_result w (Some r) = Some r" for r by (simp add: execution_result_def)
  then show ?thesis using assms Executing by (metis lane_step.Finish)
next
  case (Admitted i ty)
  then show ?thesis using assms by (metis lane_step.Locate)
next
  case (Persisted a w)
  then show ?thesis using assms by (metis lane_step.Push)
next
  case (Retrying a w d)
  then show ?thesis using assms by (metis lane_step.Retry)
next
  case (Backoff a w d)
  then show ?thesis using assms by (metis lane_step.Wake)
next
  case (Rescheduled a)
  then show ?thesis using assms by (metis lane_step.Reschedule)
next
  case (Finished a w)
  then show ?thesis using assms by (metis lane_step.Complete)
next
  case (Released w)
  then show ?thesis using assms by (metis lane_step.Release)
qed

text \<open>
  C10. Draining never gets stuck: as long as no execution panicked, every lane is still
  registered and may run a command, and the rate limiters grant a token, a queue that is not
  idle has a productive step.
\<close>

theorem drain_progress:
  assumes "lane_reachable ext dbg q" "\<not> queue_is_idle q" "lq_panicked q = []"
    and "\<forall>a < length (lq_store q). a \<in> snd ` set (lq_lanes q)"
    and "\<forall>a < length (lq_store q). 0 < lc_max_concurrency (ls_config (ln_state (lq_store q ! a)))
           \<and> fst (rl_try_acquire tick (ln_rate_limiter (lq_store q ! a)))"
  shows "\<exists>q'. productive ext dbg q q'"
proof (cases "lq_tasks q")
  case (Cons t ts)
  then show ?thesis using task_enabled [of t q ext dbg] unfolding productive_def by auto
next
  case Nil
  have inv: "addr_inv q" "slot_inv q" "permit_inv q"
    using reachable_lane_inv [OF assms(1)] by (simp_all add: lane_inv_def)
  have sums: "task_sum g q = 0" for g :: "lane_task \<Rightarrow> nat" by (simp add: task_sum_def Nil)
  then have idle: "ls_active (ln_state (lq_store q ! a)) = 0 \<and> ls_delayed_retries (ln_state (lq_store q ! a)) = 0"
    if "a < length (lq_store q)" for a
    using inv(2) that assms(3) by (simp add: slot_inv_def)
  have "\<exists>a < length (lq_store q). pending_of (lq_store q ! a) \<noteq> []"
  proof (rule ccontr)
    assume none: "\<not> ?thesis"
    then have "\<forall>l \<in> set (lq_store q). lane_permits l = 0" by (auto simp: lane_permits_def in_set_conv_nth)
    then have "lq_outstanding q = 0"
      using inv(3) by (simp add: permit_inv_def tally_def Nil)
    moreover have "lane_is_idle (lq_store q ! a)" if "(i, a) \<in> set (lq_lanes q)" for i a
      using inv(1) that none idle by (auto simp: addr_inv_def lane_is_idle_def pending_of_def)
    ultimately have "queue_is_idle q" by (auto simp: queue_is_idle_def list_all_iff)
    with assms(2) show False by simp
  qed
  then obtain a where a: "a < length (lq_store q)" "pending_of (lq_store q ! a) \<noteq> []" by blast
  then have "can_start tick (lq_store q ! a)"
    using assms(5) idle a by (simp add: can_start_def has_capacity_def has_pending_def pending_of_def)
  then have "dequeue_step a tick 0 q = (True, snd (dequeue_step a tick 0 q))"
    using dequeue_step_found [of a tick 0 q] by (metis prod.collapse)
  then show ?thesis using a(1) assms(4) unfolding productive_def by fastforce
qed

theorem drain_progress_witness: "\<exists>q'. productive ex_ext (\<lambda>_. []) ex_submitted q'"
  by (rule drain_progress [OF ex_reachable(2), where tick = 0])
     (simp_all add: queue_is_idle_def push_back_def on_state_def)

section \<open>What blocks it\<close>

text \<open>
  C39. A panic of \<open>execute\<close> costs its lane a slot for good: a lane that is still
  registered is never idle again, so a drain can never complete, and once
  \<open>max_concurrency\<close> executions panicked the lane starts no command any more.
\<close>

theorem panic_leaks_slot:
  assumes "lane_reachable ext dbg q" "a \<in> set (lq_panicked q)" "lane_run ext dbg q q'" "(i, a) \<in> set (lq_lanes q')"
  shows "\<not> queue_is_idle q'
    \<and> (lc_max_concurrency (ls_config (ln_state (lq_store q' ! a))) \<le> count_list (lq_panicked q') a
         \<longrightarrow> \<not> can_start tick (lq_store q' ! a))"
proof -
  have inv: "lane_inv q'" using lane_run_inv [OF assms(3) reachable_lane_inv [OF assms(1)]] .
  then have less: "a < length (lq_store q')" and s: "slot_inv q'"
    using assms(4) by (auto simp: lane_inv_def addr_inv_def)
  have "a \<in> set (lq_panicked q')"
    using run_grows [OF assms(3) reachable_lane_inv [OF assms(1)]] assms(2) by (meson set_mono_suffix subsetD)
  then have "0 < count_list (lq_panicked q') a" by (metis count_list_0_iff gr0I)
  then have "0 < ls_active (ln_state (lq_store q' ! a))"
    "count_list (lq_panicked q') a \<le> ls_active (ln_state (lq_store q' ! a))"
    using s less by (simp_all add: slot_inv_def)
  then show ?thesis
    using assms(4) by (force simp: queue_is_idle_def list_all_iff lane_is_idle_def can_start_def has_capacity_def)
qed

theorem panic_leaks_slot_witness: "\<not> queue_is_idle ex_panicked \<and> \<not> can_start 0 (lq_store ex_panicked ! 0)"
proof -
  have "lq_store ex_panicked = lq_store ex_running" by (simp add: ex_panicked_def task_panics_def Let_def)
  then have "lc_max_concurrency (ls_config (ln_state (lq_store ex_panicked ! 0))) = 1"
    by (simp add: on_state_def)
  then show ?thesis
    using panic_leaks_slot [OF ex_reachable(4) [of ex_ext "\<lambda>_. []"] _ lane_run_refl, of 0 "''main''" 0] by simp
qed

lemma store_grows:
  assumes "lane_run ext dbg q q'"
  shows "length (lq_store q) \<le> length (lq_store q')"
  using assms
proof (induction rule: lane_run_induct)
  case (Step actor q1 q2)
  have "length (lq_store q1) \<le> length (lq_store q2)"
    using Step.hyps(2)
  proof (cases rule: lane_step.cases)
    case (Finish a w returned r now removed)
    then show ?thesis by (auto simp: finish_defs split: sum.split)
  qed (auto simp: submit_defs finish_defs dequeue_step_store split: option.split)
  with Step show ?case by simp
qed simp

lemma reachable_lane_keys: "lane_reachable ext dbg q \<Longrightarrow> keys_distinct (lq_lanes q)"
proof (induction rule: lane_reachable.induct)
  case (Step q actor q')
  from Step.hyps(2) show ?case
    by (cases rule: lanes_step) (use Step.IH in \<open>auto simp: register_lane_def\<close>)
qed (simp add: queue_new_def)

lemma register_unlists:
  assumes "lane_reachable ext dbg q" "map_of (lq_lanes q) (ln_id l) = Some a"
  shows "a \<notin> set (queue_lanes ext (register_lane l q))"
proof -
  have d: "distinct (map snd (lq_lanes q))" and k: "keys_distinct (lq_lanes q)"
    using assms(1) reachable_lanes_distinct reachable_lane_keys by blast+
  have addr: "addr_inv q" using reachable_lane_inv [OF assms(1)] by (simp add: lane_inv_def)
  have e: "(ln_id l, a) \<in> set (lq_lanes q)" using assms(2) by (rule map_of_SomeD)
  then have a: "a < length (lq_store q)" using addr by (auto simp: addr_inv_def)
  have "k' = ln_id l" if "(k', a) \<in> set (lq_lanes q)" for k'
    using d e that by (metis distinct_map inj_on_eq_iff prod.inject snd_conv)
  then show ?thesis
    using a by (auto simp: queue_lanes_def set_hash_values register_lane_def set_update_distinct [OF k])
qed



end
