(* ===== verification/Partition.thy ===== *)
theory Partition
  imports Lane_Prelude "HOL-Library.Word"
begin

text \<open>
  The partitioners of \<open>src/src/partition.rs\<close>. A command is seen only through its type. A
  partitioner is a state with a function from a command type and a number of partitions to a
  partition; \<open>None\<close> is the panic of a remainder by zero. \<open>DefaultHasher\<close> and the function of a
  custom partitioner are arguments.
\<close>

section \<open>Model\<close>

type_synonym partition_id = nat

text \<open>The counter of \<open>RoundRobinPartitioner\<close>; \<open>fetch_add\<close> wraps.\<close>

definition round_robin_new :: "64 word" where
  "round_robin_new = 0"

definition round_robin_partition :: "string \<Rightarrow> nat \<Rightarrow> 64 word \<Rightarrow> partition_id option \<times> 64 word" where
  "round_robin_partition command_type num_partitions counter =
     (if num_partitions = 0 then None else Some (unat counter mod num_partitions), counter + 1)"

definition hash_partition :: "(string \<Rightarrow> 64 word) \<Rightarrow> string \<Rightarrow> nat \<Rightarrow> partition_id option" where
  "hash_partition hash_string command_type num_partitions =
     (if num_partitions = 0 then None else Some (unat (hash_string command_type) mod num_partitions))"

definition custom_partition :: "(string \<Rightarrow> 64 word) \<Rightarrow> string \<Rightarrow> nat \<Rightarrow> partition_id option" where
  "custom_partition func command_type num_partitions =
     (if num_partitions = 0 then None else Some (unat (func command_type) mod num_partitions))"

datatype partition_strategy = RoundRobin | Hash | NoPartitioning

record partition_config =
  pc_num_partitions :: nat
  pc_strategy :: partition_strategy

definition partition_config_hash :: "nat \<Rightarrow> partition_config" where
  "partition_config_hash n = \<lparr>pc_num_partitions = n, pc_strategy = Hash\<rparr>"

definition partition_config_round_robin :: "nat \<Rightarrow> partition_config" where
  "partition_config_round_robin n = \<lparr>pc_num_partitions = n, pc_strategy = RoundRobin\<rparr>"

definition partition_config_none :: partition_config where
  "partition_config_none = \<lparr>pc_num_partitions = 1, pc_strategy = NoPartitioning\<rparr>"

text \<open>\<open>num_cpus::get\<close> is the argument of \<open>auto\<close>.\<close>

definition partition_config_auto :: "nat \<Rightarrow> partition_config" where
  "partition_config_auto num_cpus = \<lparr>pc_num_partitions = num_cpus, pc_strategy = RoundRobin\<rparr>"

datatype partitioner_state = RoundRobinState "64 word" | HashState

definition create_partitioner :: "partition_config \<Rightarrow> partitioner_state" where
  "create_partitioner c =
     (case pc_strategy c of
        RoundRobin \<Rightarrow> RoundRobinState round_robin_new
      | Hash \<Rightarrow> HashState
      | NoPartitioning \<Rightarrow> RoundRobinState round_robin_new)"

fun partition_command ::
  "(string \<Rightarrow> 64 word) \<Rightarrow> string \<Rightarrow> nat \<Rightarrow> partitioner_state \<Rightarrow> partition_id option \<times> partitioner_state" where
  "partition_command hash_string ty n (RoundRobinState counter) =
     (let (p, counter1) = round_robin_partition ty n counter in (p, RoundRobinState counter1))"
| "partition_command hash_string ty n HashState = (hash_partition hash_string ty n, HashState)"

section \<open>The contract of a partitioner\<close>

primrec partition_all :: "(string \<Rightarrow> nat \<Rightarrow> 'p \<Rightarrow> partition_id option \<times> 'p) \<Rightarrow> nat \<Rightarrow> string list \<Rightarrow> 'p \<Rightarrow> partition_id option list" where
  "partition_all part n [] st = []"
| "partition_all part n (ty # tys) st = fst (part ty n st) # partition_all part n tys (snd (part ty n st))"

locale partitioner =
  fixes part :: "string \<Rightarrow> nat \<Rightarrow> 'p \<Rightarrow> partition_id option \<times> 'p"
  assumes in_range: "0 < n \<Longrightarrow> \<exists>p < n. fst (part ty n st) = Some p"
begin

lemma partition_all_in_range:
  "0 < n \<Longrightarrow> r \<in> set (partition_all part n tys st) \<Longrightarrow> \<exists>p < n. r = Some p"
  by (induction tys arbitrary: st) (auto dest: in_range)

end

interpretation round_robin: partitioner round_robin_partition
  by unfold_locales (simp add: round_robin_partition_def)

interpretation configured: partitioner "partition_command hash_string" for hash_string
proof
  fix n ty st
  assume "0 < (n::nat)"
  then show "\<exists>p < n. fst (partition_command hash_string ty n st) = Some p"
    by (cases st) (auto simp: round_robin_partition_def hash_partition_def)
qed

section \<open>Properties\<close>

text \<open>The results of consecutive calls count up modulo the number of partitions.\<close>

lemma round_robin_run:
  "0 < n \<Longrightarrow> unat c + length tys \<le> 2 ^ 64 \<Longrightarrow>
   partition_all round_robin_partition n tys c = map (\<lambda>k. Some ((unat c + k) mod n)) [0..<length tys]"
proof (induction tys arbitrary: c)
  case (Cons ty tys)
  show ?case
  proof (cases tys)
    case Nil
    then show ?thesis using Cons.prems by (simp add: round_robin_partition_def)
  next
    case (Cons ty' tys')
    have "unat (c + 1) = Suc (unat c)"
      using Cons.prems(2) Cons unat_add_lem [of c 1] by simp
    then have "partition_all round_robin_partition n tys (c + 1) =
        map (\<lambda>k. Some ((unat c + Suc k) mod n)) [0..<length tys]"
      using Cons.IH [of "c + 1"] Cons.prems by simp
    moreover have "map (\<lambda>k. Some ((unat c + k) mod n)) [0..<Suc (length tys)] =
        Some (unat c mod n) # map (\<lambda>k. Some ((unat c + Suc k) mod n)) [0..<length tys]"
      by (subst upt_rec) (simp add: map_Suc_upt [symmetric] comp_def del: upt_Suc)
    moreover have "round_robin_partition ty n c = (Some (unat c mod n), c + 1)"
      using Cons.prems(1) by (simp add: round_robin_partition_def)
    ultimately show ?thesis by (simp del: upt_Suc)
  qed
qed simp

lemma consecutive_mod_eq:
  "i < n \<Longrightarrow> j < n \<Longrightarrow> (a + i) mod n = (a + j) mod n \<Longrightarrow> i = j" for n :: nat
proof (induction i j rule: linorder_wlog)
  case (le i j)
  then have "n dvd (a + j) - (a + i)" by (metis add_le_cancel_left mod_eq_dvd_iff_nat)
  then show ?case using le by (auto dest: dvd_imp_le)
qed simp

text \<open>
  Round robin is fair: as long as the counter does not wrap, any \<open>n\<close> consecutive commands
  over \<open>n\<close> partitions go to \<open>n\<close> different partitions, so each gets exactly one.
\<close>

theorem round_robin_fair:
  assumes "0 < n" "unat c + n \<le> 2 ^ 64" "length tys = n"
  shows "distinct (partition_all round_robin_partition n tys c)
    \<and> set (partition_all round_robin_partition n tys c) = Some ` {..<n}"
proof -
  let ?r = "partition_all round_robin_partition n tys c"
  have r: "?r = map (\<lambda>k. Some ((unat c + k) mod n)) [0..<n]"
    using round_robin_run [of n c tys] assms by simp
  have d: "distinct ?r"
    unfolding r distinct_map
    by (intro conjI distinct_upt inj_onI, rule consecutive_mod_eq [of _ n _ "unat c"]) simp_all
  have "set ?r \<subseteq> Some ` {..<n}"
    using round_robin.partition_all_in_range [OF assms(1)] by blast
  moreover have "card (set ?r) = card (Some ` {..<n})"
    using distinct_card [OF d] r by (simp add: card_image)
  ultimately have "set ?r = Some ` {..<n}" by (intro card_subset_eq) auto
  with d show ?thesis by blast
qed

theorem round_robin_fair_witness:
  "set (partition_all round_robin_partition 3 [''a'', ''b'', ''a''] 7) = Some ` {..<3}"
  using round_robin_fair [of 3 7 "[''a'', ''b'', ''a'']"] by simp

text \<open>
  Hashing keeps no state and sends equal command types to the same partition; without
  partitioning everything goes to partition 0.
\<close>

lemma hash_partitioner_stable:
  "partition_command h ty n (create_partitioner (partition_config_hash m))
     = (hash_partition h ty n, create_partitioner (partition_config_hash m))"
  by (simp add: create_partitioner_def partition_config_hash_def)

lemma no_partitioning_single:
  "fst (partition_command h ty (pc_num_partitions partition_config_none) (create_partitioner partition_config_none))
     = Some 0"
  by (simp add: create_partitioner_def partition_config_none_def round_robin_partition_def)

end
