(* ===== verification/Local_Queue.thy ===== *)
theory Local_Queue
  imports Job_Queue_Admission
begin

text \<open>
  The durable queue of \<open>src/src/job/local.rs\<close>: the in-memory queue with a snapshot written to a
  file after every mutation. The JSON encoding of a snapshot and what the filesystem does in one
  call are arguments; a file is its content.
\<close>

section \<open>The snapshot file\<close>

text \<open>\<open>serde_json\<close> on \<open>JobQueueSnapshot\<close>; an error is its text.\<close>

record snapshot_codec =
  to_vec_pretty :: "queue_snapshot \<Rightarrow> string + string"
  from_slice :: "string \<Rightarrow> string + queue_snapshot"

text \<open>
  What goes wrong in a call of \<open>persist_job_snapshot\<close>: nothing, or one of its filesystem calls;
  a failed write may leave anything in the temporary file.
\<close>

datatype disk_fault = NoFault | DirFault string | WriteFault string "string option" | RenameFault string

record local_queue =
  lj_queue :: string
  lj_inner :: qstate
  lj_file :: "string option"
  lj_tmp :: "string option"

definition load_job_snapshot :: "snapshot_codec \<Rightarrow> string + string option \<Rightarrow> queue_snapshot option result" where
  "load_job_snapshot codec content =
     (case content of
        Inr (Some bytes) \<Rightarrow>
          (case from_slice codec bytes of
             Inl e \<Rightarrow> Inl (Other (''failed to decode job snapshot: '' @ e))
           | Inr sn \<Rightarrow> Inr (Some sn))
      | Inr None \<Rightarrow> Inr None
      | Inl e \<Rightarrow> Inl (Other (''failed to read job snapshot: '' @ e)))"

definition quoted :: "string \<Rightarrow> string" where
  "quoted s = [CHR 0x27] @ s @ [CHR 0x27]"

definition local_open :: "snapshot_codec \<Rightarrow> string \<Rightarrow> string + string option \<Rightarrow> local_queue result" where
  "local_open codec queue content =
     and_then (load_job_snapshot codec content) (\<lambda>loaded.
       case loaded of
         None \<Rightarrow> Inr \<lparr>lj_queue = queue, lj_inner = qstate_default, lj_file = None, lj_tmp = None\<rparr>
       | Some sn \<Rightarrow>
           if qs_queue sn \<noteq> queue
           then Inl (ConfigError (''snapshot queue '' @ quoted (qs_queue sn)
                       @ '' does not match requested queue '' @ quoted queue))
           else Inr \<lparr>lj_queue = fst (from_snapshot sn), lj_inner = snd (from_snapshot sn),
                      lj_file = (case content of Inr c \<Rightarrow> c | Inl _ \<Rightarrow> None), lj_tmp = None\<rparr>)"

text \<open>The write goes to a temporary file that then replaces the snapshot.\<close>

definition persist_job_snapshot ::
  "snapshot_codec \<Rightarrow> queue_snapshot \<Rightarrow> disk_fault \<Rightarrow> local_queue \<Rightarrow> unit result \<times> local_queue" where
  "persist_job_snapshot codec sn fault q =
     (case fault of
        DirFault e \<Rightarrow> (Inl (Other (''failed to create job snapshot directory: '' @ e)), q)
      | _ \<Rightarrow>
          (case to_vec_pretty codec sn of
             Inl e \<Rightarrow> (Inl (Other (''failed to encode job snapshot: '' @ e)), q)
           | Inr data \<Rightarrow>
               (case fault of
                  WriteFault e left \<Rightarrow>
                    (Inl (Other (''failed to write job snapshot: '' @ e)), q\<lparr>lj_tmp := left\<rparr>)
                | RenameFault e \<Rightarrow>
                    (Inl (Other (''failed to replace job snapshot: '' @ e)), q\<lparr>lj_tmp := Some data\<rparr>)
                | _ \<Rightarrow> (Inr (), q\<lparr>lj_file := Some data, lj_tmp := None\<rparr>))))"

definition local_snapshot :: "externals \<Rightarrow> local_queue \<Rightarrow> queue_snapshot" where
  "local_snapshot ext q = snapshot ext (lj_queue q) (lj_inner q)"

definition local_persist :: "externals \<Rightarrow> snapshot_codec \<Rightarrow> disk_fault \<Rightarrow> local_queue \<Rightarrow> unit result \<times> local_queue" where
  "local_persist ext codec fault q = persist_job_snapshot codec (local_snapshot ext q) fault q"

text \<open>
  \<open>let x = self.inner.op(...).await?; self.persist().await?; Ok(x)\<close>, the body of every
  mutation: an error of the operation skips the write.
\<close>

definition and_persist ::
  "externals \<Rightarrow> snapshot_codec \<Rightarrow> (qstate \<Rightarrow> 'a result \<times> qstate) \<Rightarrow> disk_fault \<Rightarrow> local_queue
     \<Rightarrow> 'a result \<times> local_queue" where
  "and_persist ext codec inner_op fault q =
     (let (r, s) = inner_op (lj_inner q); q1 = q\<lparr>lj_inner := s\<rparr>
      in case r of
           Inl e \<Rightarrow> (Inl e, q1)
         | Inr x \<Rightarrow>
             (case local_persist ext codec fault q1 of
                (Inl e, q2) \<Rightarrow> (Inl e, q2)
              | (Inr _, q2) \<Rightarrow> (Inr x, q2)))"

text \<open>\<open>promote_due_jobs\<close> and \<open>recover_stalled_jobs\<close> write only when they changed a job.\<close>

definition and_persist_if_any ::
  "externals \<Rightarrow> snapshot_codec \<Rightarrow> (qstate \<Rightarrow> nat result \<times> qstate) \<Rightarrow> disk_fault \<Rightarrow> local_queue
     \<Rightarrow> nat result \<times> local_queue" where
  "and_persist_if_any ext codec inner_op fault q =
     (let (r, s) = inner_op (lj_inner q); q1 = q\<lparr>lj_inner := s\<rparr>
      in case r of
           Inl e \<Rightarrow> (Inl e, q1)
         | Inr n \<Rightarrow>
             if n > 0
             then (case local_persist ext codec fault q1 of
                     (Inl e, q2) \<Rightarrow> (Inl e, q2)
                   | (Inr _, q2) \<Rightarrow> (Inr n, q2))
             else (Inr n, q1))"

section \<open>Operations\<close>

definition local_add_at ::
  "externals \<Rightarrow> snapshot_codec \<Rightarrow> string \<Rightarrow> json \<Rightarrow> job_options \<Rightarrow> string \<Rightarrow> instant \<Rightarrow> disk_fault \<Rightarrow> local_queue
     \<Rightarrow> job result \<times> local_queue" where
  "local_add_at ext codec name payload options uuid now fault q =
     and_persist ext codec (add_at ext (lj_queue q) name payload options uuid now) fault q"

definition local_add_many_at ::
  "externals \<Rightarrow> snapshot_codec \<Rightarrow> job_spec list \<Rightarrow> (nat \<Rightarrow> string) \<Rightarrow> instant \<Rightarrow> disk_fault \<Rightarrow> local_queue
     \<Rightarrow> job list result \<times> local_queue" where
  "local_add_many_at ext codec specs uuids now fault q =
     and_persist ext codec (add_many_at ext (lj_queue q) specs uuids now) fault q"

definition local_add_flow_at ::
  "externals \<Rightarrow> snapshot_codec \<Rightarrow> job_spec \<Rightarrow> string \<Rightarrow> job_spec list \<Rightarrow> (nat \<Rightarrow> string) \<Rightarrow> instant \<Rightarrow> disk_fault \<Rightarrow> local_queue
     \<Rightarrow> job_flow result \<times> local_queue" where
  "local_add_flow_at ext codec parent uuid children uuids now fault q =
     and_persist ext codec (add_flow_at ext (lj_queue q) parent uuid children uuids now) fault q"

definition local_add_flow_children_at ::
  "externals \<Rightarrow> snapshot_codec \<Rightarrow> job_id \<Rightarrow> string \<Rightarrow> job_spec list \<Rightarrow> (nat \<Rightarrow> string) \<Rightarrow> instant \<Rightarrow> disk_fault \<Rightarrow> local_queue
     \<Rightarrow> job list result \<times> local_queue" where
  "local_add_flow_children_at ext codec parent_id token children uuids now fault q =
     and_persist ext codec (add_flow_children_at ext (lj_queue q) parent_id token children uuids now) fault q"

definition local_remove_unprocessed_children ::
  "externals \<Rightarrow> snapshot_codec \<Rightarrow> job_id \<Rightarrow> instant \<Rightarrow> disk_fault \<Rightarrow> local_queue
     \<Rightarrow> job list option result \<times> local_queue" where
  "local_remove_unprocessed_children ext codec parent_id now fault q =
     and_persist ext codec (remove_unprocessed_children ext parent_id now) fault q"

definition local_remove_child_dependency ::
  "externals \<Rightarrow> snapshot_codec \<Rightarrow> job_id \<Rightarrow> instant \<Rightarrow> disk_fault \<Rightarrow> local_queue
     \<Rightarrow> bool result \<times> local_queue" where
  "local_remove_child_dependency ext codec child_id now fault q =
     and_persist ext codec (remove_child_dependency ext child_id now) fault q"

definition local_remove_repeat ::
  "externals \<Rightarrow> snapshot_codec \<Rightarrow> string \<Rightarrow> instant \<Rightarrow> disk_fault \<Rightarrow> local_queue
     \<Rightarrow> job option result \<times> local_queue" where
  "local_remove_repeat ext codec k now fault q =
     and_persist ext codec (remove_repeat ext k now) fault q"

definition local_remove_deduplication_key ::
  "externals \<Rightarrow> snapshot_codec \<Rightarrow> string \<Rightarrow> instant \<Rightarrow> disk_fault \<Rightarrow> local_queue
     \<Rightarrow> bool result \<times> local_queue" where
  "local_remove_deduplication_key ext codec dedup_id now fault q =
     and_persist ext codec (remove_deduplication_key ext dedup_id now) fault q"

definition local_upsert_repeat ::
  "externals \<Rightarrow> snapshot_codec \<Rightarrow> job_spec \<Rightarrow> string \<Rightarrow> instant \<Rightarrow> disk_fault \<Rightarrow> local_queue
     \<Rightarrow> job result \<times> local_queue" where
  "local_upsert_repeat ext codec spec uuid now fault q =
     and_persist ext codec (upsert_repeat ext (lj_queue q) spec uuid now) fault q"

definition local_clear_logs ::
  "externals \<Rightarrow> snapshot_codec \<Rightarrow> job_id \<Rightarrow> nat \<Rightarrow> disk_fault \<Rightarrow> local_queue
     \<Rightarrow> job_log_page result \<times> local_queue" where
  "local_clear_logs ext codec job_id keep fault q =
     and_persist ext codec (clear_logs job_id keep) fault q"

definition local_save_stacktrace ::
  "externals \<Rightarrow> snapshot_codec \<Rightarrow> job_id \<Rightarrow> string list \<Rightarrow> string \<Rightarrow> disk_fault \<Rightarrow> local_queue
     \<Rightarrow> job result \<times> local_queue" where
  "local_save_stacktrace ext codec job_id stacktrace reason fault q =
     and_persist ext codec (save_stacktrace job_id stacktrace reason) fault q"

definition local_drain ::
  "externals \<Rightarrow> snapshot_codec \<Rightarrow> bool \<Rightarrow> instant \<Rightarrow> disk_fault \<Rightarrow> local_queue
     \<Rightarrow> job list result \<times> local_queue" where
  "local_drain ext codec include_delayed now fault q =
     and_persist ext codec (drain ext include_delayed now) fault q"

definition local_claim_next ::
  "externals \<Rightarrow> snapshot_codec \<Rightarrow> string \<Rightarrow> string \<Rightarrow> duration \<Rightarrow> instant \<Rightarrow> disk_fault \<Rightarrow> local_queue
     \<Rightarrow> job option result \<times> local_queue" where
  "local_claim_next ext codec worker_id token lease_for now fault q =
     and_persist ext codec (claim_next ext worker_id token lease_for now) fault q"

definition local_complete_job ::
  "externals \<Rightarrow> snapshot_codec \<Rightarrow> job_id \<Rightarrow> string \<Rightarrow> json \<Rightarrow> string \<Rightarrow> instant \<Rightarrow> disk_fault \<Rightarrow> local_queue
     \<Rightarrow> job result \<times> local_queue" where
  "local_complete_job ext codec job_id token value uuid now fault q =
     and_persist ext codec (complete_job ext job_id token value uuid now) fault q"

definition local_fail_job ::
  "externals \<Rightarrow> snapshot_codec \<Rightarrow> job_id \<Rightarrow> string \<Rightarrow> string \<Rightarrow> instant \<Rightarrow> disk_fault \<Rightarrow> local_queue
     \<Rightarrow> job result \<times> local_queue" where
  "local_fail_job ext codec job_id token err now fault q =
     and_persist ext codec (fail_active_job ext job_id token err now True) fault q"

definition local_fail_job_discarding_retry ::
  "externals \<Rightarrow> snapshot_codec \<Rightarrow> job_id \<Rightarrow> string \<Rightarrow> string \<Rightarrow> instant \<Rightarrow> disk_fault \<Rightarrow> local_queue
     \<Rightarrow> job result \<times> local_queue" where
  "local_fail_job_discarding_retry ext codec job_id token err now fault q =
     and_persist ext codec (fail_active_job ext job_id token err now False) fault q"

definition local_renew_lease ::
  "externals \<Rightarrow> snapshot_codec \<Rightarrow> job_id \<Rightarrow> string \<Rightarrow> duration \<Rightarrow> instant \<Rightarrow> disk_fault \<Rightarrow> local_queue
     \<Rightarrow> job result \<times> local_queue" where
  "local_renew_lease ext codec job_id token lease_for now fault q =
     and_persist ext codec (renew ext job_id token lease_for now) fault q"

definition local_delay_active_job ::
  "externals \<Rightarrow> snapshot_codec \<Rightarrow> job_id \<Rightarrow> string \<Rightarrow> duration \<Rightarrow> instant \<Rightarrow> disk_fault \<Rightarrow> local_queue
     \<Rightarrow> job result \<times> local_queue" where
  "local_delay_active_job ext codec job_id token delay now fault q =
     and_persist ext codec (delay_active ext job_id token delay now) fault q"

definition local_release_active_job ::
  "externals \<Rightarrow> snapshot_codec \<Rightarrow> job_id \<Rightarrow> string \<Rightarrow> instant \<Rightarrow> disk_fault \<Rightarrow> local_queue
     \<Rightarrow> job result \<times> local_queue" where
  "local_release_active_job ext codec job_id token now fault q =
     and_persist ext codec (release_active job_id token now) fault q"

definition local_promote_job ::
  "externals \<Rightarrow> snapshot_codec \<Rightarrow> job_id \<Rightarrow> instant \<Rightarrow> disk_fault \<Rightarrow> local_queue
     \<Rightarrow> job result \<times> local_queue" where
  "local_promote_job ext codec job_id now fault q =
     and_persist ext codec (promote job_id now) fault q"

definition local_reschedule_job ::
  "externals \<Rightarrow> snapshot_codec \<Rightarrow> job_id \<Rightarrow> duration \<Rightarrow> instant \<Rightarrow> disk_fault \<Rightarrow> local_queue
     \<Rightarrow> job result \<times> local_queue" where
  "local_reschedule_job ext codec job_id delay now fault q =
     and_persist ext codec (reschedule ext job_id delay now) fault q"

definition local_retry_job ::
  "externals \<Rightarrow> snapshot_codec \<Rightarrow> job_id \<Rightarrow> instant \<Rightarrow> disk_fault \<Rightarrow> local_queue
     \<Rightarrow> job result \<times> local_queue" where
  "local_retry_job ext codec job_id now fault q =
     and_persist ext codec (retry ext job_id now) fault q"

definition local_update_priority ::
  "externals \<Rightarrow> snapshot_codec \<Rightarrow> job_id \<Rightarrow> job_priority \<Rightarrow> disk_fault \<Rightarrow> local_queue
     \<Rightarrow> job result \<times> local_queue" where
  "local_update_priority ext codec job_id priority fault q =
     and_persist ext codec (set_priority_order job_id priority None) fault q"

definition local_update_priority_with_lifo ::
  "externals \<Rightarrow> snapshot_codec \<Rightarrow> job_id \<Rightarrow> job_priority \<Rightarrow> bool \<Rightarrow> disk_fault \<Rightarrow> local_queue
     \<Rightarrow> job result \<times> local_queue" where
  "local_update_priority_with_lifo ext codec job_id priority lifo fault q =
     and_persist ext codec (set_priority_order job_id priority (Some lifo)) fault q"

definition local_remove_job ::
  "externals \<Rightarrow> snapshot_codec \<Rightarrow> job_id \<Rightarrow> instant \<Rightarrow> disk_fault \<Rightarrow> local_queue
     \<Rightarrow> job option result \<times> local_queue" where
  "local_remove_job ext codec job_id now fault q =
     and_persist ext codec (remove ext job_id now) fault q"

definition local_clean_jobs ::
  "externals \<Rightarrow> snapshot_codec \<Rightarrow> job_state \<Rightarrow> duration \<Rightarrow> nat \<Rightarrow> instant \<Rightarrow> disk_fault \<Rightarrow> local_queue
     \<Rightarrow> job list result \<times> local_queue" where
  "local_clean_jobs ext codec st grace limit now fault q =
     and_persist ext codec (clean ext st grace limit now) fault q"

definition local_update_data ::
  "externals \<Rightarrow> snapshot_codec \<Rightarrow> job_id \<Rightarrow> json \<Rightarrow> disk_fault \<Rightarrow> local_queue
     \<Rightarrow> job result \<times> local_queue" where
  "local_update_data ext codec job_id payload fault q =
     and_persist ext codec (set_data job_id payload) fault q"

definition local_update_progress ::
  "externals \<Rightarrow> snapshot_codec \<Rightarrow> job_id \<Rightarrow> json \<Rightarrow> instant \<Rightarrow> disk_fault \<Rightarrow> local_queue
     \<Rightarrow> job result \<times> local_queue" where
  "local_update_progress ext codec job_id progress now fault q =
     and_persist ext codec (set_progress job_id progress now) fault q"

definition local_add_log ::
  "externals \<Rightarrow> snapshot_codec \<Rightarrow> job_id \<Rightarrow> string \<Rightarrow> nat \<Rightarrow> instant \<Rightarrow> disk_fault \<Rightarrow> local_queue
     \<Rightarrow> job result \<times> local_queue" where
  "local_add_log ext codec job_id line keep now fault q =
     and_persist ext codec (log_job job_id line keep now) fault q"

definition local_trim_events ::
  "externals \<Rightarrow> snapshot_codec \<Rightarrow> nat \<Rightarrow> disk_fault \<Rightarrow> local_queue
     \<Rightarrow> nat result \<times> local_queue" where
  "local_trim_events ext codec max_len fault q =
     and_persist ext codec (trim_events_op max_len) fault q"

definition local_pause ::
  "externals \<Rightarrow> snapshot_codec \<Rightarrow> instant \<Rightarrow> disk_fault \<Rightarrow> local_queue
     \<Rightarrow> unit result \<times> local_queue" where
  "local_pause ext codec now fault q =
     and_persist ext codec (pause now) fault q"

definition local_resume ::
  "externals \<Rightarrow> snapshot_codec \<Rightarrow> instant \<Rightarrow> disk_fault \<Rightarrow> local_queue
     \<Rightarrow> unit result \<times> local_queue" where
  "local_resume ext codec now fault q =
     and_persist ext codec (resume now) fault q"

definition local_promote_due_jobs ::
  "externals \<Rightarrow> snapshot_codec \<Rightarrow> instant \<Rightarrow> disk_fault \<Rightarrow> local_queue
     \<Rightarrow> nat result \<times> local_queue" where
  "local_promote_due_jobs ext codec now fault q =
     and_persist_if_any ext codec (promote_due_jobs ext now) fault q"

definition local_recover_stalled_jobs ::
  "externals \<Rightarrow> snapshot_codec \<Rightarrow> instant \<Rightarrow> disk_fault \<Rightarrow> local_queue
     \<Rightarrow> nat result \<times> local_queue" where
  "local_recover_stalled_jobs ext codec now fault q =
     and_persist_if_any ext codec (recover_stalled_jobs ext now) fault q"

text \<open>\<open>obliterate\<close> writes the snapshot also when it was refused.\<close>

definition local_obliterate ::
  "externals \<Rightarrow> snapshot_codec \<Rightarrow> bool \<Rightarrow> disk_fault \<Rightarrow> local_queue \<Rightarrow> nat result \<times> local_queue" where
  "local_obliterate ext codec force fault q =
     (let (r, s) = obliterate force (lj_inner q)
      in case local_persist ext codec fault (q\<lparr>lj_inner := s\<rparr>) of
           (Inl e, q2) \<Rightarrow> (Inl e, q2)
         | (Inr _, q2) \<Rightarrow> (r, q2))"

text \<open>Queries read the queue in memory.\<close>

definition local_read :: "(qstate \<Rightarrow> 'a) \<Rightarrow> local_queue \<Rightarrow> 'a" where
  "local_read f q = f (lj_inner q)"

end
