(* ===== verification/Local_Safety.thy ===== *)
theory Local_Safety
  imports Local_Queue
begin

text \<open>
  Durability of the local queue: what an acknowledged call leaves in the snapshot file, what a
  failed one leaves, and what two concurrent calls can do to it.
\<close>

section \<open>Calls\<close>

definition ok :: "'a result \<Rightarrow> bool" where
  "ok r \<longleftrightarrow> (\<exists>x. r = Inr x)"

text \<open>One call, labelled by whether it succeeded; the filesystem may fail in any way.\<close>

inductive local_call :: "externals \<Rightarrow> snapshot_codec \<Rightarrow> bool \<Rightarrow> local_queue \<Rightarrow> local_queue \<Rightarrow> bool"
  for ext codec where
  Call_add_at: "local_add_at ext codec name payload options uuid now fault q = (r, q') \<Longrightarrow> local_call ext codec (ok r) q q'"
| Call_add_many_at: "local_add_many_at ext codec specs uuids now fault q = (r, q') \<Longrightarrow> local_call ext codec (ok r) q q'"
| Call_add_flow_at: "local_add_flow_at ext codec parent uuid children uuids now fault q = (r, q') \<Longrightarrow> local_call ext codec (ok r) q q'"
| Call_add_flow_children_at: "local_add_flow_children_at ext codec parent_id token children uuids now fault q = (r, q') \<Longrightarrow> local_call ext codec (ok r) q q'"
| Call_remove_unprocessed_children: "local_remove_unprocessed_children ext codec parent_id now fault q = (r, q') \<Longrightarrow> local_call ext codec (ok r) q q'"
| Call_remove_child_dependency: "local_remove_child_dependency ext codec child_id now fault q = (r, q') \<Longrightarrow> local_call ext codec (ok r) q q'"
| Call_remove_repeat: "local_remove_repeat ext codec k now fault q = (r, q') \<Longrightarrow> local_call ext codec (ok r) q q'"
| Call_remove_deduplication_key: "local_remove_deduplication_key ext codec dedup_id now fault q = (r, q') \<Longrightarrow> local_call ext codec (ok r) q q'"
| Call_upsert_repeat: "local_upsert_repeat ext codec spec uuid now fault q = (r, q') \<Longrightarrow> local_call ext codec (ok r) q q'"
| Call_clear_logs: "local_clear_logs ext codec job_id keep fault q = (r, q') \<Longrightarrow> local_call ext codec (ok r) q q'"
| Call_save_stacktrace: "local_save_stacktrace ext codec job_id stacktrace reason fault q = (r, q') \<Longrightarrow> local_call ext codec (ok r) q q'"
| Call_drain: "local_drain ext codec include_delayed now fault q = (r, q') \<Longrightarrow> local_call ext codec (ok r) q q'"
| Call_claim_next: "local_claim_next ext codec worker_id token lease_for now fault q = (r, q') \<Longrightarrow> local_call ext codec (ok r) q q'"
| Call_complete_job: "get_job_at (lj_inner q) uuid = None \<Longrightarrow> local_complete_job ext codec job_id token value uuid now fault q = (r, q') \<Longrightarrow> local_call ext codec (ok r) q q'"
| Call_fail_job: "local_fail_job ext codec job_id token err now fault q = (r, q') \<Longrightarrow> local_call ext codec (ok r) q q'"
| Call_fail_job_discarding_retry: "local_fail_job_discarding_retry ext codec job_id token err now fault q = (r, q') \<Longrightarrow> local_call ext codec (ok r) q q'"
| Call_renew_lease: "local_renew_lease ext codec job_id token lease_for now fault q = (r, q') \<Longrightarrow> local_call ext codec (ok r) q q'"
| Call_delay_active_job: "local_delay_active_job ext codec job_id token delay now fault q = (r, q') \<Longrightarrow> local_call ext codec (ok r) q q'"
| Call_release_active_job: "local_release_active_job ext codec job_id token now fault q = (r, q') \<Longrightarrow> local_call ext codec (ok r) q q'"
| Call_promote_job: "local_promote_job ext codec job_id now fault q = (r, q') \<Longrightarrow> local_call ext codec (ok r) q q'"
| Call_reschedule_job: "local_reschedule_job ext codec job_id delay now fault q = (r, q') \<Longrightarrow> local_call ext codec (ok r) q q'"
| Call_retry_job: "local_retry_job ext codec job_id now fault q = (r, q') \<Longrightarrow> local_call ext codec (ok r) q q'"
| Call_update_priority: "local_update_priority ext codec job_id priority fault q = (r, q') \<Longrightarrow> local_call ext codec (ok r) q q'"
| Call_update_priority_with_lifo: "local_update_priority_with_lifo ext codec job_id priority lifo fault q = (r, q') \<Longrightarrow> local_call ext codec (ok r) q q'"
| Call_remove_job: "local_remove_job ext codec job_id now fault q = (r, q') \<Longrightarrow> local_call ext codec (ok r) q q'"
| Call_clean_jobs: "local_clean_jobs ext codec st grace limit now fault q = (r, q') \<Longrightarrow> local_call ext codec (ok r) q q'"
| Call_update_data: "local_update_data ext codec job_id payload fault q = (r, q') \<Longrightarrow> local_call ext codec (ok r) q q'"
| Call_update_progress: "local_update_progress ext codec job_id progress now fault q = (r, q') \<Longrightarrow> local_call ext codec (ok r) q q'"
| Call_add_log: "local_add_log ext codec job_id line keep now fault q = (r, q') \<Longrightarrow> local_call ext codec (ok r) q q'"
| Call_trim_events: "local_trim_events ext codec max_len fault q = (r, q') \<Longrightarrow> local_call ext codec (ok r) q q'"
| Call_pause: "local_pause ext codec now fault q = (r, q') \<Longrightarrow> local_call ext codec (ok r) q q'"
| Call_resume: "local_resume ext codec now fault q = (r, q') \<Longrightarrow> local_call ext codec (ok r) q q'"
| Call_promote_due_jobs: "local_promote_due_jobs ext codec now fault q = (r, q') \<Longrightarrow> local_call ext codec (ok r) q q'"
| Call_recover_stalled_jobs: "local_recover_stalled_jobs ext codec now fault q = (r, q') \<Longrightarrow> local_call ext codec (ok r) q q'"
| Call_obliterate: "local_obliterate ext codec force fault q = (r, q') \<Longrightarrow> local_call ext codec (ok r) q q'"

lemmas local_defs =
  local_add_at_def local_add_many_at_def local_add_flow_at_def local_add_flow_children_at_def
  local_remove_unprocessed_children_def local_remove_child_dependency_def
  local_remove_repeat_def local_remove_deduplication_key_def local_upsert_repeat_def
  local_clear_logs_def local_save_stacktrace_def local_drain_def local_claim_next_def
  local_complete_job_def local_fail_job_def local_fail_job_discarding_retry_def
  local_renew_lease_def local_delay_active_job_def local_release_active_job_def
  local_promote_job_def local_reschedule_job_def local_retry_job_def local_update_priority_def
  local_update_priority_with_lifo_def local_remove_job_def local_clean_jobs_def
  local_update_data_def local_update_progress_def local_add_log_def local_trim_events_def
  local_pause_def local_resume_def local_promote_due_jobs_def local_recover_stalled_jobs_def

text \<open>The file holds the snapshot of the queue in memory.\<close>

definition saved :: "externals \<Rightarrow> snapshot_codec \<Rightarrow> local_queue \<Rightarrow> bool" where
  "saved ext codec q \<longleftrightarrow> (\<exists>data. to_vec_pretty codec (local_snapshot ext q) = Inr data \<and> lj_file q = Some data)"

definition effect :: "externals \<Rightarrow> snapshot_codec \<Rightarrow> bool \<Rightarrow> local_queue \<Rightarrow> local_queue \<Rightarrow> bool" where
  "effect ext codec b q q' \<longleftrightarrow>
     op_step ext (lj_inner q) (lj_inner q') \<and> lj_queue q' = lj_queue q
     \<and> (lj_file q' = lj_file q \<or> saved ext codec q')
     \<and> (b \<longrightarrow> saved ext codec q' \<or> lj_inner q' = lj_inner q \<and> lj_file q' = lj_file q)"

lemma persist_effect:
  assumes "local_persist ext codec fault q = (r, q')"
  shows "lj_inner q' = lj_inner q \<and> lj_queue q' = lj_queue q \<and> (lj_file q' = lj_file q \<or> saved ext codec q')
    \<and> (ok r \<longrightarrow> saved ext codec q')"
  using assms
  by (auto simp: local_persist_def persist_job_snapshot_def saved_def local_snapshot_def ok_def
      split: disk_fault.splits sum.splits)

lemma saved_inner: "saved ext codec q \<Longrightarrow> lj_inner q' = lj_inner q \<Longrightarrow> lj_queue q' = lj_queue q \<Longrightarrow>
    lj_file q' = lj_file q \<Longrightarrow> saved ext codec q'"
  by (simp add: saved_def local_snapshot_def)

lemma and_persist_effect:
  assumes "and_persist ext codec f fault q = (r, q')" "op_step ext (lj_inner q) (snd (f (lj_inner q)))"
  shows "effect ext codec (ok r) q q'"
proof -
  obtain x s where f: "f (lj_inner q) = (x, s)" by fastforce
  obtain p q2 where p: "local_persist ext codec fault (q\<lparr>lj_inner := s\<rparr>) = (p, q2)" by fastforce
  show ?thesis
    using assms f p persist_effect [OF p]
    by (auto simp: and_persist_def effect_def ok_def Let_def split: sum.splits)
qed

lemma and_persist_if_any_effect:
  assumes "and_persist_if_any ext codec f fault q = (r, q')" "op_step ext (lj_inner q) (snd (f (lj_inner q)))"
    and "\<And>n s. f (lj_inner q) = (Inr 0, s) \<Longrightarrow> s = lj_inner q"
  shows "effect ext codec (ok r) q q'"
proof -
  obtain x s where f: "f (lj_inner q) = (x, s)" by fastforce
  obtain p q2 where p: "local_persist ext codec fault (q\<lparr>lj_inner := s\<rparr>) = (p, q2)" by fastforce
  show ?thesis
    using assms f p persist_effect [OF p]
    by (auto simp: and_persist_if_any_def effect_def ok_def Let_def split: sum.splits if_splits)
qed

lemma promote_none:
  assumes "q_inv s" "promote_due_jobs ext now s = (Inr 0, s')"
  shows "s' = s"
proof -
  have "fst (promote_due ext now s) = length (due_jobs ext now s)"
    using promote_fold_count [OF distinct_due_jobs [OF assms(1)], of ext now "(0, s)" now] due_jobs_iff [OF assms(1)]
    by (simp add: promote_due_def)
  then have "due_jobs ext now s = []"
    using assms(2) by (simp add: promote_due_jobs_def Let_def case_prod_beta)
  then show ?thesis using assms(2) by (simp add: promote_due_jobs_def promote_due_def)
qed

lemma recover_none:
  assumes "recover_stalled_jobs ext now s = (Inr 0, s')"
  shows "s' = s"
proof -
  have "stalled_jobs ext now s = []"
    using assms recover_fold_count [of now "stalled_jobs ext now s" "(recovery_default, s)"]
    by (auto simp: recover_stalled_jobs_def Let_def split: prod.splits)
  then show ?thesis
    using assms by (simp add: recover_stalled_jobs_def recovery_default_def remove_all_def release_all_def Let_def)
qed

lemma obliterate_effect:
  assumes "local_obliterate ext codec force fault q = (r, q')"
  shows "effect ext codec (ok r) q q'"
proof -
  obtain x s where f: "obliterate force (lj_inner q) = (x, s)" by fastforce
  obtain p q2 where p: "local_persist ext codec fault (q\<lparr>lj_inner := s\<rparr>) = (p, q2)" by fastforce
  show ?thesis
    using assms f p persist_effect [OF p] op_step.Obliterate [of ext "lj_inner q" force]
    by (auto simp: local_obliterate_def effect_def ok_def Let_def split: sum.splits)
qed

lemma local_call_effect:
  assumes "local_call ext codec b q q'" "q_inv (lj_inner q)"
  shows "effect ext codec b q q'"
  using assms
  by (induction rule: local_call.induct)
     ((simp only: local_defs)?,
      ((rule obliterate_effect, assumption)
       | (erule and_persist_effect, rule op_step.intros, assumption?)
       | (erule and_persist_if_any_effect, rule op_step.intros, erule (1) promote_none)
       | (erule and_persist_if_any_effect, rule op_step.intros, erule recover_none)))+

section \<open>Durability\<close>

text \<open>What a restored queue shares with the one that was saved.\<close>

definition restored :: "qstate \<Rightarrow> qstate \<Rightarrow> bool" where
  "restored s s' \<longleftrightarrow>
     q_paused s' = q_paused s \<and> q_events s' = q_events s \<and> q_event_sequence s' = q_event_sequence s
     \<and> q_released s' = q_released s \<and> map_of (q_jobs s') = map_of (q_jobs s)
     \<and> map_of (q_flow_dependencies s') = map_of (q_flow_dependencies s)
     \<and> map_of (q_deduplication_next s') = map_of (q_deduplication_next s)
     \<and> map_of (q_deduplication_next_flows s') = map_of (q_deduplication_next_flows s)"

lemma open_saved:
  assumes "\<forall>sn data. to_vec_pretty codec sn = Inr data \<longrightarrow> from_slice codec data = Inr sn"
    and "saved ext codec q" "q_inv (lj_inner q)" "map_of (q_flow_dependencies (lj_inner q)) [] = None"
  shows "\<exists>r. local_open codec (lj_queue q) (Inr (lj_file q)) = Inr r \<and> restored (lj_inner q) (lj_inner r)"
proof -
  let ?sn = "local_snapshot ext q"
  obtain data where d: "to_vec_pretty codec ?sn = Inr data" "lj_file q = Some data"
    using assms(2) by (auto simp: saved_def)
  have "from_slice codec data = Inr ?sn" using assms(1) d(1) by blast
  moreover obtain n s where f: "from_snapshot ?sn = (n, s)" by fastforce
  moreover have "qs_queue ?sn = lj_queue q" by (simp add: local_snapshot_def snapshot_def)
  ultimately show ?thesis
    using d(2) snapshot_restores [OF assms(3,4) f [unfolded local_snapshot_def]]
    by (simp add: local_open_def load_job_snapshot_def restored_def)
qed


definition ex_local :: local_queue where
  "ex_local = \<lparr>lj_queue = ''q'', lj_inner = ex_state [ex_waiting ''a'' 2], lj_file = None, lj_tmp = None\<rparr>"

lemma pause_resume_fields [simp]:
  "q_paused (snd (pause now s))" "\<not> q_paused (snd (resume now s))"
  "q_flow_dependencies (snd (pause now s)) = q_flow_dependencies s"
  by (simp_all add: pause_def resume_def emit_event_def Let_def)

text \<open>A codec for a single snapshot, which decodes what it encodes.\<close>

definition ex_codec :: "queue_snapshot \<Rightarrow> snapshot_codec" where
  "ex_codec sn0 =
     \<lparr>to_vec_pretty = (\<lambda>sn. if sn = sn0 then Inr ''snapshot'' else Inl ''unsupported''),
      from_slice = (\<lambda>_. Inr sn0)\<rparr>"


text \<open>
  C33. The snapshot file is replaced as a whole or not at all: whatever the call and whatever
  fails in it, the file is the one before or the snapshot of the queue after it.
\<close>

theorem local_file_atomic:
  assumes "q_inv (lj_inner q)" "local_call ext codec b q q'"
  shows "lj_file q' = lj_file q \<or> saved ext codec q'"
  using local_call_effect [OF assms(2,1)] by (simp add: effect_def)

theorem local_file_atomic_witness:
  "let codec = ex_codec (snapshot ex_ext ''q'' (lj_inner ex_local));
       q' = snd (local_pause ex_ext codec 0 (RenameFault ''full'') ex_local)
   in lj_file q' = None \<or> saved ex_ext codec q'"
proof -
  let ?codec = "ex_codec (snapshot ex_ext ''q'' (lj_inner ex_local))"
  obtain x q' where c: "local_pause ex_ext ?codec 0 (RenameFault ''full'') ex_local = (x, q')" by fastforce
  have "q_inv (lj_inner ex_local)" by (simp add: ex_local_def)
  from local_file_atomic [OF this local_call.Call_pause [OF c]] show ?thesis
    using c by (simp add: ex_local_def Let_def)
qed

section \<open>Concurrent calls\<close>

text \<open>
  The queue is shared between tasks and \<open>persist\<close> holds no lock: a call that mutated the queue
  takes its snapshot, writes the temporary file and renames it in three steps, between which
  other calls run. A rename fails when another call has already renamed the file away.
\<close>

datatype flight = Mutated | Captured queue_snapshot | Written

record local_race =
  lr_queue :: local_queue
  lr_flights :: "flight list"
  lr_errors :: nat

definition fly :: "flight \<Rightarrow> flight list \<Rightarrow> local_queue \<Rightarrow> local_race \<Rightarrow> local_race" where
  "fly old new q r = r\<lparr>lr_queue := q, lr_flights := new @ remove1 old (lr_flights r)\<rparr>"

inductive race_step :: "externals \<Rightarrow> snapshot_codec \<Rightarrow> local_race \<Rightarrow> local_race \<Rightarrow> bool"
  for ext codec where
  Operate: "op_step ext (lj_inner (lr_queue r)) s \<Longrightarrow>
    race_step ext codec r (r\<lparr>lr_queue := (lr_queue r)\<lparr>lj_inner := s\<rparr>, lr_flights := Mutated # lr_flights r\<rparr>)"
| Capture: "Mutated \<in> set (lr_flights r) \<Longrightarrow>
    race_step ext codec r (fly Mutated [Captured (local_snapshot ext (lr_queue r))] (lr_queue r) r)"
| Write: "Captured sn \<in> set (lr_flights r) \<Longrightarrow> to_vec_pretty codec sn = Inr data \<Longrightarrow>
    race_step ext codec r (fly (Captured sn) [Written] ((lr_queue r)\<lparr>lj_tmp := Some data\<rparr>) r)"
| Rename: "Written \<in> set (lr_flights r) \<Longrightarrow> lj_tmp (lr_queue r) = Some data \<Longrightarrow>
    race_step ext codec r (fly Written [] ((lr_queue r)\<lparr>lj_file := Some data, lj_tmp := None\<rparr>) r)"
| Rename_missing: "Written \<in> set (lr_flights r) \<Longrightarrow> lj_tmp (lr_queue r) = None \<Longrightarrow>
    race_step ext codec r ((fly Written [] (lr_queue r) r)\<lparr>lr_errors := lr_errors r + 1\<rparr>)"



end
