(* ===== verification/Job_Backend.thy ===== *)
theory Job_Backend
  imports Local_Queue
begin

text \<open>
  The interface between workers and queues, the trait \<open>JobQueueBackend\<close> of
  \<open>src/src/job/backend.rs\<close> as far as a worker and the trait's own default methods use it, its
  implementations by the in-memory and the local queue, and the laws of leases a worker relies
  on.
\<close>

section \<open>The trait\<close>

text \<open>
  A method takes its arguments, the clock reading or fresh identifiers its implementation
  draws, and the state of the queue.
\<close>

record 's job_backend =
  jb_promote_due_jobs :: "instant \<Rightarrow> 's \<Rightarrow> nat result \<times> 's"
  jb_claim_next :: "string \<Rightarrow> string \<Rightarrow> duration \<Rightarrow> instant \<Rightarrow> 's \<Rightarrow> job option result \<times> 's"
  jb_complete_job :: "job_id \<Rightarrow> string \<Rightarrow> json \<Rightarrow> string \<Rightarrow> instant \<Rightarrow> 's \<Rightarrow> job result \<times> 's"
  jb_fail_job :: "job_id \<Rightarrow> string \<Rightarrow> string \<Rightarrow> instant \<Rightarrow> 's \<Rightarrow> job result \<times> 's"
  jb_fail_job_discarding_retry :: "job_id \<Rightarrow> string \<Rightarrow> string \<Rightarrow> instant \<Rightarrow> 's \<Rightarrow> job result \<times> 's"
  jb_renew_lease :: "job_id \<Rightarrow> string \<Rightarrow> duration \<Rightarrow> instant \<Rightarrow> 's \<Rightarrow> job result \<times> 's"
  jb_update_data :: "job_id \<Rightarrow> json \<Rightarrow> 's \<Rightarrow> job result \<times> 's"
  jb_update_progress :: "job_id \<Rightarrow> json \<Rightarrow> instant \<Rightarrow> 's \<Rightarrow> job result \<times> 's"
  jb_add_log :: "job_id \<Rightarrow> string \<Rightarrow> nat \<Rightarrow> instant \<Rightarrow> 's \<Rightarrow> job result \<times> 's"
  jb_recover_stalled_jobs :: "instant \<Rightarrow> 's \<Rightarrow> nat result \<times> 's"
  jb_get_job_counts :: "job_state list \<Rightarrow> 's \<Rightarrow> job_state_count list result"
  jb_list_repeats :: "'s \<Rightarrow> repeat_entry list result"

text \<open>The default methods. A backend without a blocking primitive claims once.\<close>

definition claim_next_blocking ::
  "'s job_backend \<Rightarrow> string \<Rightarrow> string \<Rightarrow> duration \<Rightarrow> duration \<Rightarrow> instant \<Rightarrow> 's \<Rightarrow> job option result \<times> 's" where
  "claim_next_blocking b worker_id token lease_for block_for now s =
     jb_claim_next b worker_id token lease_for now s"

fun renew_each ::
  "'s job_backend \<Rightarrow> job_lease_renewal list \<Rightarrow> duration \<Rightarrow> instant \<Rightarrow> 's \<Rightarrow> job_id list \<times> 's" where
  "renew_each b [] lease_for now s = ([], s)"
| "renew_each b (r # rs) lease_for now s =
     (let (res, s1) = jb_renew_lease b (lr_job_id r) (lr_lock_token r) lease_for now s;
          (failed, s2) = renew_each b rs lease_for now s1
      in (case res of Inl _ \<Rightarrow> lr_job_id r # failed | Inr _ \<Rightarrow> failed, s2))"

definition renew_leases ::
  "'s job_backend \<Rightarrow> job_lease_renewal list \<Rightarrow> duration \<Rightarrow> instant \<Rightarrow> 's \<Rightarrow> job_id list result \<times> 's" where
  "renew_leases b renewals lease_for now s =
     (let (failed, s1) = renew_each b renewals lease_for now s in (Inr failed, s1))"

definition get_job_count :: "'s job_backend \<Rightarrow> job_state list \<Rightarrow> 's \<Rightarrow> nat result" where
  "get_job_count b states s =
     and_then (jb_get_job_counts b states s) (\<lambda>counts. Inr (sum_list (map sc_count counts)))"

definition count_pending_jobs :: "'s job_backend \<Rightarrow> 's \<Rightarrow> nat result" where
  "count_pending_jobs b s = get_job_count b pending_states s"

definition backend_get_repeat :: "'s job_backend \<Rightarrow> string \<Rightarrow> 's \<Rightarrow> repeat_entry option result" where
  "backend_get_repeat b k s =
     and_then (jb_list_repeats b s) (\<lambda>entries. Inr (List.find (\<lambda>e. re_key e = k) entries))"

definition backend_count_repeats :: "'s job_backend \<Rightarrow> 's \<Rightarrow> nat result" where
  "backend_count_repeats b s = and_then (jb_list_repeats b s) (\<lambda>entries. Inr (length entries))"

definition backend_list_repeats_page :: "'s job_backend \<Rightarrow> repeat_list_options \<Rightarrow> 's \<Rightarrow> repeat_page result" where
  "backend_list_repeats_page b options s =
     and_then (jb_list_repeats b s) (\<lambda>entries. Inr (page_repeat_entries entries options))"

section \<open>The implementations\<close>

text \<open>\<open>impl JobQueueBackend for InMemoryJobQueue\<close>.\<close>

definition fail_job :: "externals \<Rightarrow> job_id \<Rightarrow> string \<Rightarrow> string \<Rightarrow> instant \<Rightarrow> qstate \<Rightarrow> job result \<times> qstate" where
  "fail_job ext job_id token err now s = fail_active_job ext job_id token err now True s"

definition fail_job_discarding_retry ::
  "externals \<Rightarrow> job_id \<Rightarrow> string \<Rightarrow> string \<Rightarrow> instant \<Rightarrow> qstate \<Rightarrow> job result \<times> qstate" where
  "fail_job_discarding_retry ext job_id token err now s = fail_active_job ext job_id token err now False s"

definition memory_backend :: "externals \<Rightarrow> qstate job_backend" where
  "memory_backend ext =
     \<lparr>jb_promote_due_jobs = promote_due_jobs ext, jb_claim_next = claim_next ext,
      jb_complete_job = complete_job ext, jb_fail_job = fail_job ext,
      jb_fail_job_discarding_retry = fail_job_discarding_retry ext, jb_renew_lease = renew ext,
      jb_update_data = set_data, jb_update_progress = set_progress, jb_add_log = log_job,
      jb_recover_stalled_jobs = recover_stalled_jobs ext, jb_get_job_counts = counts_by_state,
      jb_list_repeats = (\<lambda>s. Inr (list_repeats ext s))\<rparr>"

text \<open>\<open>impl JobQueueBackend for LocalJobQueue\<close>, with the same fault in every call.\<close>

definition local_backend :: "externals \<Rightarrow> snapshot_codec \<Rightarrow> disk_fault \<Rightarrow> local_queue job_backend" where
  "local_backend ext codec fault =
     \<lparr>jb_promote_due_jobs = (\<lambda>now. local_promote_due_jobs ext codec now fault),
      jb_claim_next = (\<lambda>w tok lease now. local_claim_next ext codec w tok lease now fault),
      jb_complete_job = (\<lambda>i tok v uuid now. local_complete_job ext codec i tok v uuid now fault),
      jb_fail_job = (\<lambda>i tok err now. local_fail_job ext codec i tok err now fault),
      jb_fail_job_discarding_retry = (\<lambda>i tok err now. local_fail_job_discarding_retry ext codec i tok err now fault),
      jb_renew_lease = (\<lambda>i tok lease now. local_renew_lease ext codec i tok lease now fault),
      jb_update_data = (\<lambda>i payload. local_update_data ext codec i payload fault),
      jb_update_progress = (\<lambda>i v now. local_update_progress ext codec i v now fault),
      jb_add_log = (\<lambda>i line keep now. local_add_log ext codec i line keep now fault),
      jb_recover_stalled_jobs = (\<lambda>now. local_recover_stalled_jobs ext codec now fault),
      jb_get_job_counts = (\<lambda>states. local_read (counts_by_state states)),
      jb_list_repeats = local_read (\<lambda>s. Inr (list_repeats ext s))\<rparr>"

section \<open>The laws of leases\<close>

text \<open>
  What a worker relies on: a claim hands out a lease, and finishing a job succeeds only for
  the holder of its lease, who loses it.
\<close>

locale lease_backend =
  fixes b :: "'s job_backend" and inv :: "'s \<Rightarrow> bool" and owns :: "'s \<Rightarrow> job_id \<Rightarrow> string \<Rightarrow> bool"
  assumes promote_inv: "inv s \<Longrightarrow> jb_promote_due_jobs b now s = (r, t) \<Longrightarrow> inv t"
    and claim_owns: "inv s \<Longrightarrow> jb_claim_next b w tok lease now s = (Inr (Some j), t) \<Longrightarrow>
      owns t (j_id j) tok \<and> j_lock_token j = Some tok"
    and complete_releases: "jb_complete_job b i tok v uuid now s = (Inr j, t) \<Longrightarrow> owns s i tok \<and> \<not> owns t i tok'"
    and fail_releases: "jb_fail_job b i tok err now s = (Inr j, t) \<Longrightarrow> owns s i tok \<and> \<not> owns t i tok'"
    and discard_releases:
      "jb_fail_job_discarding_retry b i tok err now s = (Inr j, t) \<Longrightarrow> owns s i tok \<and> \<not> owns t i tok'"
    and renew_owned: "jb_renew_lease b i tok lease now s = (Inr j, t) \<Longrightarrow> owns s i tok"
    and renew_owner: "jb_renew_lease b i tok lease now s = (res, t) \<Longrightarrow> owns t k tok' = owns s k tok'"
begin

lemma renew_each_owns: "renew_each b rs lease now s = (failed, t) \<Longrightarrow> owns t k tok = owns s k tok"
proof (induction rs arbitrary: s failed t)
  case (Cons r rs)
  then show ?case
    using renew_owner [of "lr_job_id r" "lr_lock_token r" lease now s]
    by (auto simp: Let_def split: prod.splits)
qed simp

text \<open>A renewal round reports every lease that is no longer owned.\<close>

lemma renew_each_reports:
  "renew_each b rs lease now s = (failed, t) \<Longrightarrow> r \<in> set rs \<Longrightarrow> \<not> owns s (lr_job_id r) (lr_lock_token r)
    \<Longrightarrow> lr_job_id r \<in> set failed"
proof (induction rs arbitrary: s failed t)
  case (Cons a rs)
  obtain res s1 where a: "jb_renew_lease b (lr_job_id a) (lr_lock_token a) lease now s = (res, s1)" by fastforce
  obtain f t1 where r: "renew_each b rs lease now s1 = (f, t1)" by fastforce
  have failed: "failed = (case res of Inl _ \<Rightarrow> lr_job_id a # f | Inr _ \<Rightarrow> f)"
    using Cons.prems(1) a r by auto
  show ?case
  proof (cases "r = a")
    case True
    then show ?thesis using renew_owned [of "lr_job_id a" "lr_lock_token a" lease now s] a Cons.prems(3) failed
      by (cases res) auto
  next
    case False
    then have "lr_job_id r \<in> set f"
      using Cons.IH [OF r] Cons.prems(2,3) renew_owner [OF a] by simp
    then show ?thesis using failed by (auto split: sum.split)
  qed
qed simp

end

lemma no_new_lease_drained [lease_intro]:
  "no_new_lease s t \<Longrightarrow> no_new_lease s (emit_drained_event_if_needed now t)"
  by (auto simp: emit_drained_event_if_needed_def intro: no_new_lease_emit)

lemma no_new_lease_repeat [lease_intro]:
  assumes "no_new_lease s t"
  shows "no_new_lease s (snd (enqueue_repeat ext c uuid now t))"
proof -
  have "j_state k \<noteq> Active" if "next_repeat_job ext c uuid now = Inr (Some k)" for k
    using new_next_repeat [OF that, of 0] by (auto simp: new_job_def)
  then show ?thesis
    using assms by (auto simp: enqueue_repeat_def split: sum.split option.split intro: no_new_lease_insert)
qed

lemma no_new_lease_parent_failure [lease_intro]:
  "no_new_lease s t \<Longrightarrow> no_new_lease s (parent_after_child_failure ext c now t)"
  by (auto simp: parent_after_child_failure_def Let_def split: option.split intro!: lease_intro)

lemma no_new_lease_exhausted [lease_intro]:
  "no_new_lease s t \<Longrightarrow> no_new_lease s (emit_retries_exhausted_event c now t)"
  by (auto simp: emit_retries_exhausted_event_def intro: no_new_lease_emit)

text \<open>A job that is finished and never leased again is owned by nobody.\<close>

lemma released_by:
  assumes "no_new_lease (modify_job i (\<lambda>_. k) s) t" "j_state k \<noteq> Active" "get_job_at s i \<noteq> None"
  shows "\<not> holds_lease t i tok"
proof
  assume "holds_lease t i tok"
  then obtain l where "get_job_at t i = Some l" "j_state l = Active"
    by (auto simp: holds_lease_def split: option.splits)
  then obtain j where "get_job_at (modify_job i (\<lambda>_. k) s) i = Some j" "j_state j = Active"
    using assms(1) unfolding no_new_lease_def by blast
  then show False using assms(2,3) by auto
qed

lemma require_lease_holds: "require_lease i tok act s = Inr k \<Longrightarrow> holds_lease s i tok \<and> get_job_at s i = Some k"
  using require_leaseD by (fastforce simp: holds_lease_def)

lemma fail_releases_lease:
  assumes "fail_active_job ext i tok err now ar s = (Inr j, t)"
  shows "holds_lease s i tok \<and> \<not> holds_lease t i tok'"
proof -
  obtain k where k: "require_lease i tok ''fail'' s = Inr k"
    using assms by (cases "require_lease i tok ''fail'' s") (auto simp: fail_active_job_def)
  let ?f = "fail_job_record ext err now ar k"
  have "no_new_lease (modify_job i (\<lambda>_. ?f) s) t"
    using assms k by (auto simp: fail_active_job_def Let_def split: if_splits intro!: lease_intro)
  then have "\<not> holds_lease t i tok'"
    by (rule released_by) (use require_lease_holds [OF k] in \<open>simp_all add: fail_job_record_def Let_def\<close>)
  then show ?thesis using require_lease_holds [OF k] by simp
qed

lemma complete_releases_lease:
  assumes "complete_job ext i tok v uuid now s = (Inr j, t)"
  shows "holds_lease s i tok \<and> \<not> holds_lease t i tok'"
proof -
  obtain k where k: "require_lease i tok ''complete'' s = Inr k"
    using assms by (cases "require_lease i tok ''complete'' s") (auto simp: complete_job_def)
  let ?c = "complete_job_record v now k"
  have "no_new_lease (modify_job i (\<lambda>_. ?c) s) t"
    using assms k
    by (auto simp: complete_job_def Let_def case_prod_beta split: sum.splits if_splits option.splits intro!: lease_intro)
  then have "\<not> holds_lease t i tok'"
    by (rule released_by) (use require_lease_holds [OF k] in \<open>simp_all add: complete_job_record_def\<close>)
  then show ?thesis using require_lease_holds [OF k] by simp
qed

lemma claim_gives_lease:
  assumes "q_inv s" "claim_next ext w tok lease now s = (Inr (Some j), t)"
  shows "holds_lease t (j_id j) tok \<and> j_lock_token j = Some tok"
proof -
  have np: "\<not> q_paused s" using assms(2) by (auto simp: claim_next_def)
  obtain k where k: "min_by compare_claim_order (waiting_jobs ext (snd (promote_due ext now s))) = Some k"
      "j = lease_job ext w tok lease now k"
      "t = emit_event ''active'' (Some j) (Some Waiting) now [] (modify_job (j_id k) (\<lambda>_. j) (snd (promote_due ext now s)))"
    using assms(2) unfolding claim_next_eq [OF assms(1) np] by (auto simp: Let_def split: option.splits)
  have "get_job_at (snd (promote_due ext now s)) (j_id k) = Some k"
    using min_by_Some_in [OF k(1)] waiting_jobs_iff [OF q_inv_promote_due [OF assms(1)]] by auto
  then show ?thesis by (simp add: holds_lease_def k(2,3)) (simp add: lease_job_def)
qed

lemma renew_keeps_owner: "renew ext i tok lease now s = (r, t) \<Longrightarrow> holds_lease t k tok' = holds_lease s k tok'"
  by (auto simp: renew_def holds_lease_def Let_def split: sum.splits option.splits if_splits dest!: require_leaseD)

lemma renew_needs_lease: "renew ext i tok lease now s = (Inr j, t) \<Longrightarrow> holds_lease s i tok"
  by (auto simp: renew_def Let_def split: sum.splits dest: require_lease_holds)

lemma promote_keeps_inv: "q_inv s \<Longrightarrow> promote_due_jobs ext now s = (r, t) \<Longrightarrow> q_inv t"
  using q_inv_step [OF op_step.Promote_due, of s ext now] by simp

interpretation memory: lease_backend "memory_backend ext" q_inv holds_lease for ext
  by unfold_locales
     (auto simp: memory_backend_def fail_job_def fail_job_discarding_retry_def renew_keeps_owner
       intro: promote_keeps_inv claim_gives_lease fail_releases_lease complete_releases_lease renew_needs_lease
       dest: fail_releases_lease complete_releases_lease claim_gives_lease)

text \<open>The local queue obeys them because its memory does, also when a write fails.\<close>

lemma and_persist_inner:
  assumes "and_persist ext codec f fault q = (r, t)"
  shows "lj_inner t = snd (f (lj_inner q)) \<and> (\<forall>x. r = Inr x \<longrightarrow> fst (f (lj_inner q)) = Inr x)"
  using assms
  by (auto simp: and_persist_def local_persist_def persist_job_snapshot_def Let_def
      split: prod.splits sum.splits disk_fault.splits)

lemma and_persist_if_any_inner:
  assumes "and_persist_if_any ext codec f fault q = (r, t)"
  shows "lj_inner t = snd (f (lj_inner q))"
  using assms
  by (auto simp: and_persist_if_any_def local_persist_def persist_job_snapshot_def Let_def
      split: prod.splits sum.splits disk_fault.splits if_splits)

lemma and_persist_Inr:
  "and_persist ext codec f fault q = (Inr x, t) \<Longrightarrow> f (lj_inner q) = (Inr x, lj_inner t)"
  using and_persist_inner by (metis prod.collapse)

lemmas local_backend_defs =
  local_backend_def local_promote_due_jobs_def local_claim_next_def local_complete_job_def local_fail_job_def
  local_fail_job_discarding_retry_def local_renew_lease_def

interpretation durable: lease_backend "local_backend ext codec fault" "\<lambda>q. q_inv (lj_inner q)" "\<lambda>q. holds_lease (lj_inner q)"
  for ext codec fault
proof (unfold_locales, unfold local_backend_defs, simp_all only: job_backend.simps)
  fix s t :: local_queue and now and r :: "nat result"
  assume "q_inv (lj_inner s)" "and_persist_if_any ext codec (promote_due_jobs ext now) fault s = (r, t)"
  then show "q_inv (lj_inner t)"
    using and_persist_if_any_inner promote_keeps_inv by (metis prod.collapse)
next
  fix s t :: local_queue and w tok lease now j
  assume "q_inv (lj_inner s)" "and_persist ext codec (claim_next ext w tok lease now) fault s = (Inr (Some j), t)"
  then show "holds_lease (lj_inner t) (j_id j) tok \<and> j_lock_token j = Some tok"
    by (rule claim_gives_lease [OF _ and_persist_Inr])
next
  fix s t :: local_queue and i tok v uuid now j tok'
  assume "and_persist ext codec (complete_job ext i tok v uuid now) fault s = (Inr j, t)"
  then show "holds_lease (lj_inner s) i tok \<and> \<not> holds_lease (lj_inner t) i tok'"
    by (rule complete_releases_lease [OF and_persist_Inr])
next
  fix s t :: local_queue and i tok lease now j
  assume "and_persist ext codec (renew ext i tok lease now) fault s = (Inr j, t)"
  then show "holds_lease (lj_inner s) i tok"
    by (rule renew_needs_lease [OF and_persist_Inr])
next
  fix s t :: local_queue and i tok lease now k tok' and r :: "job result"
  assume "and_persist ext codec (renew ext i tok lease now) fault s = (r, t)"
  then show "holds_lease (lj_inner t) k tok' = holds_lease (lj_inner s) k tok'"
    using and_persist_inner renew_keeps_owner by (metis prod.collapse)
qed (rule fail_releases_lease [OF and_persist_Inr], assumption)+

end
