(* ===== verification/Job_Worker.thy ===== *)
theory Job_Worker
  imports Job_Backend
begin

text \<open>
  The worker runtime of \<open>src/src/job/worker.rs\<close> over the backend interface: processors and
  their router, the context a processor gets, claiming, processing and finalising one job, and
  the shared renewal of leases. An \<open>Arc<AtomicBool>\<close> is the address of a cell. A processor may
  do anything to the backend and to the cells while it runs, which covers the other tasks of
  the worker and other workers.
\<close>

section \<open>State\<close>

record active_lease =
  al_lock_token :: string
  al_lease_lost :: nat

record 's worker_world =
  ww_store :: 's
  ww_cells :: "bool list"
  ww_leases :: "(job_id, active_lease) hmap"

record job_context =
  jc_job_id :: job_id
  jc_worker_id :: string
  jc_lock_token :: string
  jc_lease_duration :: duration
  jc_log_retention :: nat
  jc_lease_lost :: nat
  jc_discard_retry :: nat

text \<open>\<open>None\<close>: still running when the timeout fires, or for ever without one.\<close>

type_synonym 's processor =
  "job \<Rightarrow> job_context \<Rightarrow> 's worker_world \<Rightarrow> json result option \<times> 's worker_world"

record 's processor_router =
  pr_processors :: "(string, 's processor) hmap"
  pr_default :: "'s processor option"

record worker_config =
  wc_worker_id :: string
  wc_concurrency :: nat
  wc_lease_duration :: duration
  wc_lease_renew_interval :: duration
  wc_poll_interval :: duration
  wc_blocking_claim_timeout :: duration
  wc_stalled_check_interval :: duration
  wc_recover_stalled :: bool
  wc_log_retention :: nat

datatype run_outcome = RunCompleted job | RunFailed job | NoJob

datatype renewal_mode = PerJob | SharedWorker

section \<open>Routing\<close>

definition router_new :: "'s processor_router" where
  "router_new = \<lparr>pr_processors = [], pr_default = None\<rparr>"

definition register_processor :: "string \<Rightarrow> 's processor \<Rightarrow> 's processor_router \<Rightarrow> 's processor_router" where
  "register_processor nm p r = r\<lparr>pr_processors := AList.update nm p (pr_processors r)\<rparr>"

definition register_default_processor :: "'s processor \<Rightarrow> 's processor_router \<Rightarrow> 's processor_router" where
  "register_default_processor p r = r\<lparr>pr_default := Some p\<rparr>"

definition router_len :: "'s processor_router \<Rightarrow> nat" where
  "router_len r = length (pr_processors r)"

definition router_is_empty :: "'s processor_router \<Rightarrow> bool" where
  "router_is_empty r \<longleftrightarrow> pr_processors r = []"

definition contains_processor :: "string \<Rightarrow> 's processor_router \<Rightarrow> bool" where
  "contains_processor nm r \<longleftrightarrow> map_of (pr_processors r) nm \<noteq> None"

definition router_process :: "'s processor_router \<Rightarrow> 's processor" where
  "router_process r j cx w =
     (case map_of (pr_processors r) (j_name j) of
        Some p \<Rightarrow> p j cx w
      | None \<Rightarrow>
          (case pr_default r of
             Some p \<Rightarrow> p j cx w
           | None \<Rightarrow>
               (Some (Inl (ConfigError (''no processor registered for job `'' @ j_name j @ ''`''))), w)))"

section \<open>The context of a job\<close>

definition has_lost_lease :: "job_context \<Rightarrow> 's worker_world \<Rightarrow> bool" where
  "has_lost_lease cx w \<longleftrightarrow> ww_cells w ! jc_lease_lost cx"

definition ensure_lease :: "job_context \<Rightarrow> 's worker_world \<Rightarrow> unit result" where
  "ensure_lease cx w =
     (if has_lost_lease cx w
      then Inl (JobLeaseConflict (''worker '' @ jc_worker_id cx @ '' lost lease for job '' @ jc_job_id cx))
      else Inr ())"

definition set_cell :: "nat \<Rightarrow> 's worker_world \<Rightarrow> 's worker_world" where
  "set_cell a w = w\<lparr>ww_cells := (ww_cells w)[a := True]\<rparr>"

definition discard_retry :: "job_context \<Rightarrow> 's worker_world \<Rightarrow> 's worker_world" where
  "discard_retry cx w = set_cell (jc_discard_retry cx) w"

definition should_discard_retry :: "job_context \<Rightarrow> 's worker_world \<Rightarrow> bool" where
  "should_discard_retry cx w \<longleftrightarrow> ww_cells w ! jc_discard_retry cx"

text \<open>A call of the backend, and one that first checks the lease.\<close>

definition on_store :: "('s \<Rightarrow> 'a result \<times> 's) \<Rightarrow> 's worker_world \<Rightarrow> 'a result \<times> 's worker_world" where
  "on_store f w = (let (r, s) = f (ww_store w) in (r, w\<lparr>ww_store := s\<rparr>))"

definition if_leased ::
  "job_context \<Rightarrow> ('s \<Rightarrow> 'a result \<times> 's) \<Rightarrow> 's worker_world \<Rightarrow> 'a result \<times> 's worker_world" where
  "if_leased cx f w =
     (case ensure_lease cx w of Inl e \<Rightarrow> (Inl e, w) | Inr _ \<Rightarrow> on_store f w)"

definition context_update_data ::
  "'s job_backend \<Rightarrow> job_context \<Rightarrow> json \<Rightarrow> 's worker_world \<Rightarrow> job result \<times> 's worker_world" where
  "context_update_data b cx payload w = if_leased cx (jb_update_data b (jc_job_id cx) payload) w"

definition context_update_progress ::
  "'s job_backend \<Rightarrow> job_context \<Rightarrow> json \<Rightarrow> instant \<Rightarrow> 's worker_world \<Rightarrow> job result \<times> 's worker_world" where
  "context_update_progress b cx progress now w =
     if_leased cx (jb_update_progress b (jc_job_id cx) progress now) w"

definition context_add_log ::
  "'s job_backend \<Rightarrow> job_context \<Rightarrow> string \<Rightarrow> instant \<Rightarrow> 's worker_world \<Rightarrow> job result \<times> 's worker_world" where
  "context_add_log b cx line now w =
     if_leased cx (jb_add_log b (jc_job_id cx) line (jc_log_retention cx) now) w"

text \<open>A failed renewal marks the lease as lost.\<close>

definition context_renew_lease ::
  "'s job_backend \<Rightarrow> job_context \<Rightarrow> instant \<Rightarrow> 's worker_world \<Rightarrow> job result \<times> 's worker_world" where
  "context_renew_lease b cx now w =
     (case ensure_lease cx w of
        Inl e \<Rightarrow> (Inl e, w)
      | Inr _ \<Rightarrow>
          (case on_store (jb_renew_lease b (jc_job_id cx) (jc_lock_token cx) (jc_lease_duration cx) now) w of
             (Inr j, w1) \<Rightarrow> (Inr j, w1)
           | (Inl e, w1) \<Rightarrow> (Inl e, set_cell (jc_lease_lost cx) w1)))"

section \<open>Configuration\<close>

definition worker_config_new :: "string \<Rightarrow> worker_config" where
  "worker_config_new worker_id =
     \<lparr>wc_worker_id = worker_id, wc_concurrency = 1, wc_lease_duration = from_secs 30,
      wc_lease_renew_interval = from_secs 10, wc_poll_interval = from_millis 250,
      wc_blocking_claim_timeout = from_secs 5, wc_stalled_check_interval = from_secs 30,
      wc_recover_stalled = True, wc_log_retention = 1000\<rparr>"

definition with_concurrency :: "nat \<Rightarrow> worker_config \<Rightarrow> worker_config" where
  "with_concurrency n c = c\<lparr>wc_concurrency := max n 1\<rparr>"

definition with_lease_duration :: "duration \<Rightarrow> worker_config \<Rightarrow> worker_config" where
  "with_lease_duration d c = c\<lparr>wc_lease_duration := d\<rparr>"

definition with_lease_renew_interval :: "duration \<Rightarrow> worker_config \<Rightarrow> worker_config" where
  "with_lease_renew_interval d c = c\<lparr>wc_lease_renew_interval := d\<rparr>"

definition with_poll_interval :: "duration \<Rightarrow> worker_config \<Rightarrow> worker_config" where
  "with_poll_interval v c = c\<lparr>wc_poll_interval := v\<rparr>"

definition with_blocking_claim_timeout :: "duration \<Rightarrow> worker_config \<Rightarrow> worker_config" where
  "with_blocking_claim_timeout v c = c\<lparr>wc_blocking_claim_timeout := v\<rparr>"

definition with_stalled_check_interval :: "duration \<Rightarrow> worker_config \<Rightarrow> worker_config" where
  "with_stalled_check_interval v c = c\<lparr>wc_stalled_check_interval := v\<rparr>"

definition with_recover_stalled :: "bool \<Rightarrow> worker_config \<Rightarrow> worker_config" where
  "with_recover_stalled v c = c\<lparr>wc_recover_stalled := v\<rparr>"

definition with_log_retention :: "nat \<Rightarrow> worker_config \<Rightarrow> worker_config" where
  "with_log_retention v c = c\<lparr>wc_log_retention := v\<rparr>"

definition lease_renewal_enabled :: "worker_config \<Rightarrow> bool" where
  "lease_renewal_enabled c \<longleftrightarrow>
     wc_lease_renew_interval c \<noteq> 0 \<and> wc_lease_renew_interval c < wc_lease_duration c"

text \<open>The number of tasks \<open>start\<close> spawns.\<close>

definition started_tasks :: "worker_config \<Rightarrow> nat" where
  "started_tasks c =
     wc_concurrency c + of_bool (wc_recover_stalled c) + of_bool (lease_renewal_enabled c)"

section \<open>Leases of the shared renewal\<close>

definition register_active_lease :: "job_id \<Rightarrow> string \<Rightarrow> nat \<Rightarrow> 's worker_world \<Rightarrow> 's worker_world" where
  "register_active_lease job_id token a w =
     w\<lparr>ww_leases := AList.update job_id \<lparr>al_lock_token = token, al_lease_lost = a\<rparr> (ww_leases w)\<rparr>"

definition unregister_active_lease :: "job_id \<Rightarrow> 's worker_world \<Rightarrow> 's worker_world" where
  "unregister_active_lease job_id w = w\<lparr>ww_leases := AList.delete job_id (ww_leases w)\<rparr>"

definition active_lease_renewals :: "externals \<Rightarrow> 's worker_world \<Rightarrow> job_lease_renewal list" where
  "active_lease_renewals ext w =
     map (\<lambda>(i, l). \<lparr>lr_job_id = i, lr_lock_token = al_lock_token l\<rparr>)
       (hash_entries (ext_hash_rank ext) (ww_leases w))"

fun mark_lost_leases :: "job_id list \<Rightarrow> 's worker_world \<Rightarrow> nat \<times> 's worker_world" where
  "mark_lost_leases [] w = (0, w)"
| "mark_lost_leases (i # is) w =
     (case map_of (ww_leases w) i of
        None \<Rightarrow> mark_lost_leases is w
      | Some l \<Rightarrow> let (n, w1) = mark_lost_leases is (set_cell (al_lease_lost l) w) in (n + 1, w1))"

text \<open>One turn of the renewal loop; a failure of the whole batch gives up every lease.\<close>

definition lease_renewal_turn ::
  "externals \<Rightarrow> 's job_backend \<Rightarrow> worker_config \<Rightarrow> instant \<Rightarrow> 's worker_world \<Rightarrow> 's worker_world" where
  "lease_renewal_turn ext b c now w =
     (let renewals = active_lease_renewals ext w
      in if renewals = [] then w
         else
           (case on_store (renew_leases b renewals (wc_lease_duration c) now) w of
              (Inr failed, w1) \<Rightarrow> snd (mark_lost_leases failed w1)
            | (Inl _, w1) \<Rightarrow> snd (mark_lost_leases (map lr_job_id renewals) w1)))"

section \<open>One job\<close>

definition context_new :: "worker_config \<Rightarrow> job_id \<Rightarrow> string \<Rightarrow> nat \<Rightarrow> nat \<Rightarrow> job_context" where
  "context_new c job_id token lost discard =
     \<lparr>jc_job_id = job_id, jc_worker_id = wc_worker_id c, jc_lock_token = token,
      jc_lease_duration = wc_lease_duration c, jc_log_retention = wc_log_retention c,
      jc_lease_lost = lost, jc_discard_retry = discard\<rparr>"

text \<open>\<open>None\<close>: the processor never returns.\<close>

definition process_with_timeout ::
  "'s processor \<Rightarrow> job \<Rightarrow> job_context \<Rightarrow> 's worker_world \<Rightarrow> (json result \<times> 's worker_world) option" where
  "process_with_timeout p j cx w =
     (case p j cx w of
        (Some r, w1) \<Rightarrow> Some (r, w1)
      | (None, w1) \<Rightarrow> map_option (\<lambda>d. (Inl (Timeout d), w1)) (jo_timeout (j_options j)))"

definition stop_lease_renewal :: "job_id \<Rightarrow> renewal_mode \<Rightarrow> 's worker_world \<Rightarrow> 's worker_world" where
  "stop_lease_renewal job_id mode w =
     (if mode = SharedWorker then unregister_active_lease job_id w else w)"

definition result_map :: "('a \<Rightarrow> 'b) \<Rightarrow> 'a result \<times> 'w \<Rightarrow> 'b result \<times> 'w" where
  "result_map f x = (case fst x of Inl e \<Rightarrow> Inl e | Inr y \<Rightarrow> Inr (f y), snd x)"

definition finalize ::
  "'s job_backend \<Rightarrow> (duration \<Rightarrow> string) \<Rightarrow> job_context \<Rightarrow> json result \<Rightarrow> string \<Rightarrow> instant
     \<Rightarrow> 's worker_world \<Rightarrow> run_outcome result \<times> 's worker_world" where
  "finalize b dbg cx r uuid now w =
     (case r of
        Inr v \<Rightarrow> result_map RunCompleted
                   (on_store (jb_complete_job b (jc_job_id cx) (jc_lock_token cx) v uuid now) w)
      | Inl err \<Rightarrow>
          result_map RunFailed
            (if should_discard_retry cx w \<or> is_unrecoverable_job err
             then on_store (jb_fail_job_discarding_retry b (jc_job_id cx) (jc_lock_token cx) (error_display dbg err) now) w
             else on_store (jb_fail_job b (jc_job_id cx) (jc_lock_token cx) (error_display dbg err) now) w))"

definition process_claimed ::
  "'s job_backend \<Rightarrow> (duration \<Rightarrow> string) \<Rightarrow> 's processor \<Rightarrow> worker_config \<Rightarrow> renewal_mode \<Rightarrow> job \<Rightarrow> string
     \<Rightarrow> instant \<Rightarrow> 's worker_world \<Rightarrow> (run_outcome result \<times> 's worker_world) option" where
  "process_claimed b dbg p c mode j uuid now w =
     (case j_lock_token j of
        None \<Rightarrow> Some (Inl (JobLeaseConflict (''claimed job '' @ j_id j @ '' has no lock token'')), w)
      | Some token \<Rightarrow>
          (case j_deferred_failure j of
             Some reason \<Rightarrow>
               Some (result_map RunFailed (on_store (jb_fail_job_discarding_retry b (j_id j) token reason now) w))
           | None \<Rightarrow>
               let lost = length (ww_cells w);
                   cx = context_new c (j_id j) token lost (lost + 1);
                   w1 = w\<lparr>ww_cells := ww_cells w @ [False, False]\<rparr>;
                   w2 = (if mode = SharedWorker then register_active_lease (j_id j) token lost w1 else w1)
               in map_option (\<lambda>(r, w3).
                    if has_lost_lease cx w3
                    then (Inl (JobLeaseConflict (''worker '' @ wc_worker_id c @ '' lost lease for job '' @ j_id j
                            @ '' before finalizing'')), stop_lease_renewal (j_id j) mode w3)
                    else let (outcome, w4) = finalize b dbg cx r uuid now w3
                         in (outcome, stop_lease_renewal (j_id j) mode w4))
                  (process_with_timeout p j cx w2)))"

section \<open>The loops\<close>

text \<open>Promote what is due, claim by the given call, and process what was claimed.\<close>

definition run_claim ::
  "'s job_backend \<Rightarrow> (duration \<Rightarrow> string) \<Rightarrow> 's processor \<Rightarrow> worker_config \<Rightarrow> renewal_mode
     \<Rightarrow> ('s \<Rightarrow> job option result \<times> 's) \<Rightarrow> string \<Rightarrow> instant \<Rightarrow> instant
     \<Rightarrow> 's worker_world \<Rightarrow> (run_outcome result \<times> 's worker_world) option" where
  "run_claim b dbg p c mode claim uuid now later w =
     (case on_store (jb_promote_due_jobs b now) w of
        (Inl e, w1) \<Rightarrow> Some (Inl e, w1)
      | (Inr _, w1) \<Rightarrow>
          (case on_store claim w1 of
             (Inl e, w2) \<Rightarrow> Some (Inl e, w2)
           | (Inr None, w2) \<Rightarrow> Some (Inr NoJob, w2)
           | (Inr (Some j), w2) \<Rightarrow> process_claimed b dbg p c mode j uuid later w2))"

definition run_once ::
  "'s job_backend \<Rightarrow> (duration \<Rightarrow> string) \<Rightarrow> 's processor \<Rightarrow> worker_config \<Rightarrow> string \<Rightarrow> string
     \<Rightarrow> instant \<Rightarrow> instant \<Rightarrow> 's worker_world \<Rightarrow> (run_outcome result \<times> 's worker_world) option" where
  "run_once b dbg p c token uuid now later w =
     run_claim b dbg p c PerJob (jb_claim_next b (wc_worker_id c) token (wc_lease_duration c) now) uuid now later w"

definition run_once_blocking ::
  "'s job_backend \<Rightarrow> (duration \<Rightarrow> string) \<Rightarrow> 's processor \<Rightarrow> worker_config \<Rightarrow> duration \<Rightarrow> string \<Rightarrow> string
     \<Rightarrow> instant \<Rightarrow> instant \<Rightarrow> instant \<Rightarrow> 's worker_world \<Rightarrow> (run_outcome result \<times> 's worker_world) option" where
  "run_once_blocking b dbg p c block_for token uuid now claimed_at later w =
     run_claim b dbg p c PerJob
       (claim_next_blocking b (wc_worker_id c) token (wc_lease_duration c) block_for claimed_at) uuid now later w"

text \<open>The iteration of the background loop.\<close>

definition run_loop_once ::
  "'s job_backend \<Rightarrow> (duration \<Rightarrow> string) \<Rightarrow> 's processor \<Rightarrow> worker_config \<Rightarrow> string \<Rightarrow> string
     \<Rightarrow> instant \<Rightarrow> instant \<Rightarrow> instant \<Rightarrow> 's worker_world \<Rightarrow> (run_outcome result \<times> 's worker_world) option" where
  "run_loop_once b dbg p c token uuid now claimed_at later w =
     run_claim b dbg p c SharedWorker
       (claim_next_blocking b (wc_worker_id c) token (wc_lease_duration c) (wc_blocking_claim_timeout c) claimed_at)
       uuid now later w"

definition recover_stalled :: "'s job_backend \<Rightarrow> instant \<Rightarrow> 's worker_world \<Rightarrow> nat result \<times> 's worker_world" where
  "recover_stalled b now w = on_store (jb_recover_stalled_jobs b now) w"

text \<open>One turn of the renewer of a single job, and whether it goes on.\<close>

definition lease_renewer_turn ::
  "'s job_backend \<Rightarrow> job_context \<Rightarrow> bool \<Rightarrow> instant \<Rightarrow> 's worker_world \<Rightarrow> bool \<times> 's worker_world" where
  "lease_renewer_turn b cx lease_shutdown now w =
     (if lease_shutdown then (False, w)
      else case context_renew_lease b cx now w of
             (Inl _, w1) \<Rightarrow> (False, w1)
           | (Inr _, w1) \<Rightarrow> (True, w1))"

text \<open>\<open>draws n\<close> is the token, the fresh identifier and the two clock readings of iteration \<open>n\<close>.\<close>

fun run_until_idle ::
  "'s job_backend \<Rightarrow> (duration \<Rightarrow> string) \<Rightarrow> 's processor \<Rightarrow> worker_config
     \<Rightarrow> (nat \<Rightarrow> string \<times> string \<times> instant \<times> instant) \<Rightarrow> nat \<Rightarrow> nat \<Rightarrow> 's worker_world
     \<Rightarrow> (nat result \<times> 's worker_world) option" where
  "run_until_idle b dbg p c draws 0 processed w = Some (Inr processed, w)"
| "run_until_idle b dbg p c draws (Suc left) processed w =
     (let (token, uuid, now, later) = draws processed
      in case run_once b dbg p c token uuid now later w of
           None \<Rightarrow> None
         | Some (Inl e, w1) \<Rightarrow> Some (Inl e, w1)
         | Some (Inr NoJob, w1) \<Rightarrow> Some (Inr processed, w1)
         | Some (Inr _, w1) \<Rightarrow> run_until_idle b dbg p c draws left (processed + 1) w1)"

end
