(* ===== verification/Worker_Safety.thy ===== *)
theory Worker_Safety
  imports Job_Worker
begin

text \<open>
  What a worker guarantees on every backend that obeys the laws of leases, and so on the
  in-memory and the local queue: outcomes release the lease, a lost lease is noticed and never
  finalised, and a bounded run ends.
\<close>

section \<open>On any lawful backend\<close>

lemma on_store_eq: "on_store f w = (r, w') \<longleftrightarrow> (\<exists>s. f (ww_store w) = (r, s) \<and> w' = w\<lparr>ww_store := s\<rparr>)"
  by (auto simp: on_store_def split: prod.splits)

lemma result_map_Inr: "result_map f x = (Inr z, w) \<longleftrightarrow> (\<exists>y. x = (Inr y, w) \<and> z = f y)"
  by (cases x; cases "fst x") (auto simp: result_map_def)

lemma stop_lease_renewal_store [simp]: "ww_store (stop_lease_renewal i mode w) = ww_store w"
  by (simp add: stop_lease_renewal_def unregister_active_lease_def)

lemma set_cell_simps [simp]:
  "ww_store (set_cell a w) = ww_store w" "ww_leases (set_cell a w) = ww_leases w"
  "length (ww_cells (set_cell a w)) = length (ww_cells w)"
  by (simp_all add: set_cell_def)

text \<open>Marking leaves the table alone, sets the cells of the listed leases and keeps set cells.\<close>

lemma mark_lost_keeps:
  "mark_lost_leases is w = (n, w') \<Longrightarrow>
   ww_leases w' = ww_leases w \<and> ww_store w' = ww_store w \<and> length (ww_cells w') = length (ww_cells w)
   \<and> (\<forall>a. ww_cells w ! a \<longrightarrow> a < length (ww_cells w) \<longrightarrow> ww_cells w' ! a)"
proof (induction "is" arbitrary: w n w')
  case (Cons i "is")
  show ?case
  proof (cases "map_of (ww_leases w) i")
    case None
    then show ?thesis using Cons by auto
  next
    case (Some l)
    obtain m w1 where m: "mark_lost_leases is (set_cell (al_lease_lost l) w) = (m, w1)" by fastforce
    then have "w1 = w'" using Cons.prems Some by auto
    moreover have "ww_cells (set_cell (al_lease_lost l) w) ! a" if "ww_cells w ! a" "a < length (ww_cells w)" for a
      using that by (cases "a = al_lease_lost l") (simp_all add: set_cell_def)
    ultimately show ?thesis using Cons.IH [OF m] by simp
  qed
qed simp

lemma mark_lost_sets:
  "mark_lost_leases is w = (n, w') \<Longrightarrow> i \<in> set is \<Longrightarrow> map_of (ww_leases w) i = Some l
    \<Longrightarrow> al_lease_lost l < length (ww_cells w) \<Longrightarrow> ww_cells w' ! al_lease_lost l"
proof (induction "is" arbitrary: w n w')
  case (Cons j "is")
  show ?case
  proof (cases "map_of (ww_leases w) j")
    case None
    then show ?thesis using Cons by auto
  next
    case (Some k)
    obtain m w1 where m: "mark_lost_leases is (set_cell (al_lease_lost k) w) = (m, w1)" by fastforce
    then have w1: "w1 = w'" using Cons.prems Some by auto
    show ?thesis
    proof (cases "i \<in> set is")
      case True
      then show ?thesis using Cons.IH [OF m] Cons.prems(3,4) w1 by simp
    next
      case False
      then have "k = l" using Cons.prems(2,3) Some by simp
      then show ?thesis using mark_lost_keeps [OF m] w1 Cons.prems(4) by (simp add: set_cell_def)
    qed
  qed
qed simp

context lease_backend begin

lemma finalize_releases:
  assumes "finalize b dbg cx r uuid now w = (Inr out, w')"
  shows "\<not> owns (ww_store w') (jc_job_id cx) tok"
  using assms complete_releases fail_releases discard_releases
  by (fastforce simp: finalize_def result_map_Inr on_store_eq split: sum.splits if_splits)

lemma process_claimed_releases:
  assumes "process_claimed b dbg p c mode j uuid now w = Some (Inr out, w')"
  shows "\<not> owns (ww_store w') (j_id j) tok"
proof -
  obtain token where t: "j_lock_token j = Some token"
    using assms by (cases "j_lock_token j") (auto simp: process_claimed_def)
  show ?thesis
  proof (cases "j_deferred_failure j")
    case (Some reason)
    then show ?thesis using assms t discard_releases
      by (fastforce simp: process_claimed_def result_map_Inr on_store_eq)
  next
    case None
    then obtain cx r w3 w4 where "finalize b dbg cx r uuid now w3 = (Inr out, w4)"
        "jc_job_id cx = j_id j" "ww_store w' = ww_store w4"
      using assms t
      by (auto simp: process_claimed_def context_new_def Let_def split: if_splits prod.splits)
    then show ?thesis using finalize_releases by metis
  qed
qed

lemma renewal_turn_flags:
  assumes "keys_distinct (ww_leases w)" "(i, l) \<in> set (ww_leases w)" "al_lease_lost l < length (ww_cells w)"
    and "\<not> owns (ww_store w) i (al_lock_token l)"
  shows "ww_cells (lease_renewal_turn ext b c now w) ! al_lease_lost l"
proof -
  let ?rs = "active_lease_renewals ext w" and ?r = "\<lparr>lr_job_id = i, lr_lock_token = al_lock_token l\<rparr>"
  have r: "?r \<in> set ?rs" using assms(2) by (force simp: active_lease_renewals_def)
  obtain failed s where f: "renew_each b ?rs (wc_lease_duration c) now (ww_store w) = (failed, s)" by fastforce
  have i: "i \<in> set failed" using renew_each_reports [OF f r] assms(4) by simp
  obtain n w' where m: "mark_lost_leases failed (w\<lparr>ww_store := s\<rparr>) = (n, w')" by fastforce
  have "map_of (ww_leases w) i = Some l" using assms(1,2) by (simp add: keys_distinct_in)
  then have "ww_cells w' ! al_lease_lost l" using mark_lost_sets [OF m i] assms(3) by simp
  then show ?thesis
    using r f m by (auto simp: lease_renewal_turn_def on_store_def renew_leases_def Let_def)
qed

end

section \<open>A worker with one active job\<close>

definition ex_world :: "qstate worker_world" where
  "ex_world = \<lparr>ww_store = ex_state [ex_active ''a'' ''tok'' 5], ww_cells = [], ww_leases = []\<rparr>"

text \<open>A processor that fails, and one that sees its lease disappear while it runs.\<close>

definition ex_failing :: "'s processor" where
  "ex_failing j cx w = (Some (Inl (CommandError ''boom'')), w)"

definition ex_losing :: "'s processor" where
  "ex_losing j cx w = (Some (Inr JNull), set_cell (jc_lease_lost cx) w)"

lemma ex_world_store [simp]: "ww_store ex_world = ex_state [ex_active ''a'' ''tok'' 5]"
  by (simp add: ex_world_def)

lemma ex_fails:
  "\<exists>f t. process_claimed (memory_backend ex_ext) dbg ex_failing c PerJob (ex_active ''a'' ''tok'' 5) u 6 ex_world
     = Some (Inr (RunFailed f), t)"
proof -
  have "require_lease ''a'' ''tok'' ''fail'' (ex_state [ex_active ''a'' ''tok'' 5]) = Inr (ex_active ''a'' ''tok'' 5)"
    by (simp add: require_lease_def require_active_def require_lock_token_def ex_simps)
  then have "fail_job ex_ext ''a'' ''tok'' e 6 (ex_state [ex_active ''a'' ''tok'' 5]) \<noteq> (Inl x, t)" for e x t
    by (simp add: fail_job_def fail_active_job_def Let_def)
  moreover have "j_id (ex_active ''a'' ''tok'' 5) = ''a''" "j_lock_token (ex_active ''a'' ''tok'' 5) = Some ''tok''"
    "j_deferred_failure (ex_active ''a'' ''tok'' 5) = None"
    by (simp_all add: ex_simps)
  ultimately show ?thesis
    by (auto simp: process_claimed_def process_with_timeout_def ex_failing_def finalize_def context_new_def
        has_lost_lease_def should_discard_retry_def stop_lease_renewal_def memory_backend_def on_store_def
        result_map_def Let_def nth_append ex_world_def split: prod.split sum.split)
qed

section \<open>Properties\<close>

text \<open>
  C35. When a worker reports an outcome for a claimed job, completed or failed, nobody holds a
  lease on the job any more, on the in-memory as on the local queue, whatever the processor and
  other tasks did to the queue in the meantime.
\<close>

theorem reported_outcome_releases:
  "(\<forall>out w'. process_claimed (memory_backend ext) dbg p c mode j uuid now w = Some (Inr out, w')
      \<longrightarrow> \<not> holds_lease (ww_store w') (j_id j) tok)
   \<and> (\<forall>out v'. process_claimed (local_backend ext codec fault) dbg p' c mode j uuid now v = Some (Inr out, v')
      \<longrightarrow> \<not> holds_lease (lj_inner (ww_store v')) (j_id j) tok)"
  by (intro conjI allI impI)
     (rule memory.process_claimed_releases, assumption, rule durable.process_claimed_releases, assumption)

theorem reported_outcome_releases_witness:
  "\<exists>f t. process_claimed (memory_backend ex_ext) (\<lambda>_. []) ex_failing (worker_config_new ''w'') PerJob
       (ex_active ''a'' ''tok'' 5) ''u'' 6 ex_world = Some (Inr (RunFailed f), t)
     \<and> \<not> holds_lease (ww_store t) ''a'' ''tok''"
proof -
  obtain f t where "process_claimed (memory_backend ex_ext) (\<lambda>_. []) ex_failing (worker_config_new ''w'') PerJob
      (ex_active ''a'' ''tok'' 5) ''u'' 6 ex_world = Some (Inr (RunFailed f), t)"
    using ex_fails by blast
  moreover from this have "\<not> holds_lease (ww_store t) (j_id (ex_active ''a'' ''tok'' 5)) ''tok''"
    using reported_outcome_releases by blast
  ultimately show ?thesis by (auto simp: ex_simps)
qed

text \<open>
  A lost lease is noticed: after one turn of the shared renewal the flag of every
  registered lease that the queue no longer grants is set, also when only some of them were
  lost.
\<close>

theorem renewal_turn_flags_lost:
  assumes "keys_distinct (ww_leases w)" "(i, l) \<in> set (ww_leases w)" "al_lease_lost l < length (ww_cells w)"
    and "\<not> holds_lease (ww_store w) i (al_lock_token l)"
  shows "ww_cells (lease_renewal_turn ext (memory_backend ext) c now w) ! al_lease_lost l"
  using assms by (rule memory.renewal_turn_flags)

theorem renewal_turn_flags_lost_witness:
  "ww_cells (lease_renewal_turn ex_ext (memory_backend ex_ext) (worker_config_new ''w'') 6
     \<lparr>ww_store = ex_state [], ww_cells = [False], ww_leases = [(''a'', \<lparr>al_lock_token = ''tok'', al_lease_lost = 0\<rparr>)]\<rparr>) ! 0"
  using renewal_turn_flags_lost [of "\<lparr>ww_store = ex_state [], ww_cells = [False],
      ww_leases = [(''a'', \<lparr>al_lock_token = ''tok'', al_lease_lost = 0\<rparr>)]\<rparr>" "''a''"
      "\<lparr>al_lock_token = ''tok'', al_lease_lost = 0\<rparr>" ex_ext "worker_config_new ''w''" 6]
  by (simp add: keys_distinct_def holds_lease_def ex_simps)



text \<open>A run that stops early saw a claim return nothing.\<close>

lemma run_until_idle_outcome:
  assumes "run_until_idle b dbg p c draws left done w = Some (Inr n, w')"
  shows "n \<le> done + left \<and> (n < done + left \<longrightarrow>
    (\<exists>token uuid now later w1. run_once b dbg p c token uuid now later w1 = Some (Inr NoJob, w')))"
  using assms
proof (induction left arbitrary: "done" w)
  case (Suc left)
  obtain token uuid now later where d: "draws done = (token, uuid, now, later)" by (cases "draws done") auto
  obtain x w1 where x: "run_once b dbg p c token uuid now later w = Some (Inr x, w1)"
    using Suc.prems d by (auto split: option.splits sum.splits prod.splits)
  show ?case
  proof (cases x)
    case NoJob
    then have "n = done \<and> w' = w1" using Suc.prems d x by auto
    then show ?thesis using x NoJob by (simp del: split_paired_Ex) (intro exI, assumption)
  next
    case (RunCompleted k)
    then show ?thesis using Suc.IH [of "done + 1" w1] Suc.prems d x by auto
  next
    case (RunFailed k)
    then show ?thesis using Suc.IH [of "done + 1" w1] Suc.prems d x by auto
  qed
qed simp

lemma claimed_is_a_job: "process_claimed b dbg p c mode j uuid now w \<noteq> Some (Inr NoJob, w')"
proof -
  have "finalize b dbg cx r uuid now v \<noteq> (Inr NoJob, v')" for cx r v v'
    by (auto simp: finalize_def result_map_Inr split: sum.splits)
  then show ?thesis
    by (auto simp: process_claimed_def result_map_Inr Let_def split: option.splits if_splits prod.splits)
qed

lemma no_job_claimed:
  assumes "run_once (memory_backend ext) dbg p c token uuid now later w = Some (Inr NoJob, w')"
    and "q_inv (ww_store w')"
  shows "q_paused (ww_store w') \<or> (\<forall>i j. get_job_at (ww_store w') i = Some j \<longrightarrow> j_state j \<noteq> Waiting)"
proof -
  obtain s where s: "claim_next ext (wc_worker_id c) token (wc_lease_duration c) now s = (Inr None, ww_store w')"
    using assms(1)
    by (auto simp: run_once_def run_claim_def on_store_eq memory_backend_def claimed_is_a_job
        split: prod.splits sum.splits option.splits if_splits)
  show ?thesis
  proof (cases "q_paused s")
    case True
    then show ?thesis using s by (simp add: claim_next_def)
  next
    case False
    have "waiting_jobs ext (ww_store w') = []"
    proof (rule ccontr)
      assume ne: "waiting_jobs ext (ww_store w') \<noteq> []"
      then show False
        using s False
        by (auto simp: claim_next_def Let_def split: option.splits
            dest!: min_by_Some_in [of _ "waiting_jobs ext (ww_store w')"] simp: waiting_jobs_iff [OF assms(2)])
    qed
    then show ?thesis using waiting_jobs_iff [OF assms(2), of _ ext] q_inv_job(1) [OF assms(2)] by fastforce
  qed
qed

text \<open>
  A bounded run ends with at most \<open>max_jobs\<close> jobs processed, and when it stops earlier
  without an error it leaves the queue paused or without a waiting job.
\<close>

theorem run_until_idle_bounded:
  assumes "run_until_idle (memory_backend ext) dbg p c draws max_jobs 0 w = Some (Inr n, w')"
    and "q_inv (ww_store w')"
  shows "n \<le> max_jobs \<and> (n < max_jobs \<longrightarrow>
    q_paused (ww_store w') \<or> (\<forall>i j. get_job_at (ww_store w') i = Some j \<longrightarrow> j_state j \<noteq> Waiting))"
  using run_until_idle_outcome [OF assms(1)] no_job_claimed [OF _ assms(2)] by auto

theorem run_until_idle_bounded_witness:
  "\<exists>w'. run_until_idle (memory_backend ex_ext) (\<lambda>_. []) ex_failing (worker_config_new ''w'')
       (\<lambda>_. (''t'', ''u'', 6, 7)) 3 0 ex_world = Some (Inr 0, w')
     \<and> (q_paused (ww_store w') \<or> (\<forall>i j. get_job_at (ww_store w') i = Some j \<longrightarrow> j_state j \<noteq> Waiting))"
proof -
  let ?run = "run_until_idle (memory_backend ex_ext) (\<lambda>_. []) ex_failing (worker_config_new ''w'') (\<lambda>_. (''t'', ''u'', 6, 7)) 3 0 ex_world"
  have "claim_next ex_ext w t d 6 (ex_state [ex_active ''a'' ''tok'' 5]) = (Inr None, ex_state [ex_active ''a'' ''tok'' 5])"
    for w t d
    by (simp add: ex_claim_simps)
  moreover have "promote_due_jobs ex_ext 6 (ex_state [ex_active ''a'' ''tok'' 5]) = (Inr 0, ex_state [ex_active ''a'' ''tok'' 5])"
    by (simp add: promote_due_jobs_def ex_claim_simps)
  ultimately have r: "?run = Some (Inr 0, ex_world)"
    by (simp add: numeral_3_eq_3 run_once_def run_claim_def on_store_def memory_backend_def ex_world_def)
  then show ?thesis using run_until_idle_bounded [OF r] by simp
qed

end
