(* ===== verification/Queue_Manager.thy ===== *)
theory Queue_Manager
  imports Lane_Queue
begin

text \<open>
  The facade over the lane scheduler: the queue manager and its builder (\<open>src/src/manager.rs\<close>),
  the statistics (\<open>src/src/lib.rs\<close>), the health monitor (\<open>src/src/monitor.rs\<close>), and the loop of
  the scheduler task, the default lanes and the JSON command (\<open>src/src/queue.rs\<close>). The optional
  metrics and alert manager are only handed through and are left out.
\<close>

section \<open>The default lanes\<close>

definition lane_SYSTEM :: lane_id where "lane_SYSTEM = ''system''"
definition lane_CONTROL :: lane_id where "lane_CONTROL = ''control''"
definition lane_QUERY :: lane_id where "lane_QUERY = ''query''"
definition lane_SESSION :: lane_id where "lane_SESSION = ''session''"
definition lane_SKILL :: lane_id where "lane_SKILL = ''skill''"
definition lane_PROMPT :: lane_id where "lane_PROMPT = ''prompt''"

definition priority_SYSTEM :: priority where "priority_SYSTEM = 0"
definition priority_CONTROL :: priority where "priority_CONTROL = 1"
definition priority_QUERY :: priority where "priority_QUERY = 2"
definition priority_SESSION :: priority where "priority_SESSION = 3"
definition priority_SKILL :: priority where "priority_SKILL = 4"
definition priority_PROMPT :: priority where "priority_PROMPT = 5"

lemmas default_lane_defs =
  lane_SYSTEM_def lane_CONTROL_def lane_QUERY_def lane_SESSION_def lane_SKILL_def lane_PROMPT_def
  priority_SYSTEM_def priority_CONTROL_def priority_QUERY_def priority_SESSION_def priority_SKILL_def
  priority_PROMPT_def

record json_command =
  jc_command_type :: string
  jc_payload :: json

definition json_command_execute :: "json_command \<Rightarrow> json result" where
  "json_command_execute c = Inr (jc_payload c)"

section \<open>The builder\<close>

record manager_builder =
  mb_lane_configs :: "(lane_id, lane_config \<times> priority) hmap"
  mb_storage :: bool
  mb_dlq_size :: "nat option"

definition builder_new :: manager_builder where
  "builder_new = \<lparr>mb_lane_configs = [], mb_storage = False, mb_dlq_size = None\<rparr>"

definition with_lane :: "lane_id \<Rightarrow> lane_config \<Rightarrow> priority \<Rightarrow> manager_builder \<Rightarrow> manager_builder" where
  "with_lane i config priority b =
     b\<lparr>mb_lane_configs := AList.update i (config, priority) (mb_lane_configs b)\<rparr>"

definition with_storage :: "manager_builder \<Rightarrow> manager_builder" where
  "with_storage b = b\<lparr>mb_storage := True\<rparr>"

definition with_dlq :: "nat \<Rightarrow> manager_builder \<Rightarrow> manager_builder" where
  "with_dlq n b = b\<lparr>mb_dlq_size := Some n\<rparr>"

definition with_default_lanes :: "manager_builder \<Rightarrow> manager_builder" where
  "with_default_lanes b =
     with_lane lane_PROMPT (lane_config_new 1 2) priority_PROMPT
       (with_lane lane_SKILL (lane_config_new 1 3) priority_SKILL
         (with_lane lane_SESSION (lane_config_new 1 5) priority_SESSION
           (with_lane lane_QUERY (lane_config_new 1 10) priority_QUERY
             (with_lane lane_CONTROL (lane_config_new 1 3) priority_CONTROL
               (with_lane lane_SYSTEM (lane_config_new 1 5) priority_SYSTEM b)))))"

section \<open>The manager\<close>

text \<open>
  The join handle of the scheduler task: still running, or ended, with the text of the join
  error if the task panicked.
\<close>

datatype scheduler_handle = SchedulerRunning | SchedulerEnded "string option"

record queue_manager =
  qm_queue :: lane_queue
  qm_scheduler :: "scheduler_handle option"

definition manager_new :: "lane_queue \<Rightarrow> queue_manager" where
  "manager_new q = \<lparr>qm_queue = q, qm_scheduler = None\<rparr>"

text \<open>The lanes are made in the order of the hash map; \<open>ticks\<close> are their clock readings.\<close>

definition built_lane :: "manager_builder \<Rightarrow> (lane_id \<Rightarrow> instant) \<Rightarrow> lane_id \<times> lane_config \<times> priority \<Rightarrow> lane" where
  "built_lane b ticks = (\<lambda>(i, config, priority).
     if mb_storage b then lane_with_storage i config priority (ticks i)
     else lane_new i config priority (ticks i))"

definition build :: "externals \<Rightarrow> (lane_id \<Rightarrow> instant) \<Rightarrow> manager_builder \<Rightarrow> queue_manager" where
  "build ext ticks b =
     manager_new
       (fold (\<lambda>e. register_lane (built_lane b ticks e))
          (hash_entries (ext_hash_rank ext) (mb_lane_configs b)) (queue_new (mb_dlq_size b)))"

definition scheduler_failed :: "string \<Rightarrow> lane_error" where
  "scheduler_failed e = Other (''Queue scheduler task failed: '' @ e)"

definition manager_start :: "queue_manager \<Rightarrow> unit result \<times> queue_manager" where
  "manager_start m =
     (case qm_scheduler m of
        Some SchedulerRunning \<Rightarrow> (Inr (), m)
      | Some (SchedulerEnded (Some e)) \<Rightarrow> (Inl (scheduler_failed e), m\<lparr>qm_scheduler := None\<rparr>)
      | _ \<Rightarrow> (Inr (), m\<lparr>qm_scheduler := Some SchedulerRunning\<rparr>))"

definition manager_submit ::
  "lane_id \<Rightarrow> string \<Rightarrow> command_id \<Rightarrow> instant \<Rightarrow> bool \<Rightarrow> queue_manager \<Rightarrow> unit result \<times> queue_manager" where
  "manager_submit lane_id command_type uuid now saved m =
     (let (r, q) = submit lane_id command_type uuid now saved (qm_queue m) in (r, m\<lparr>qm_queue := q\<rparr>))"

definition manager_shutdown :: "instant \<Rightarrow> queue_manager \<Rightarrow> queue_manager" where
  "manager_shutdown now m = m\<lparr>qm_queue := shutdown now (qm_queue m)\<rparr>"

definition manager_is_shutting_down :: "queue_manager \<Rightarrow> bool" where
  "manager_is_shutting_down m = lq_shutting_down (qm_queue m)"

text \<open>
  One turn of the scheduler task; \<open>None\<close> is a panic. It ends when the queue shuts down and is
  idle.
\<close>

definition scheduler_turn :: "externals \<Rightarrow> instant \<Rightarrow> instant \<Rightarrow> lane_queue \<Rightarrow> (bool \<times> lane_queue) option" where
  "scheduler_turn ext tick now q =
     (case schedule_next ext tick now q of
        None \<Rightarrow> None
      | Some (_, q1) \<Rightarrow>
          if lq_shutting_down q1 \<and> queue_is_idle q1
          then Some (True, emit (event_empty QUEUE_SHUTDOWN_COMPLETE now) q1)
          else Some (False, q1))"

text \<open>
  The future of \<open>drain\<close>: first it waits for the queue to be idle, then, during a shutdown, for
  the scheduler task. A poll stays in a phase or ends with a result.
\<close>

datatype drain_phase = WaitingForIdle | JoiningScheduler

definition join_scheduler :: "queue_manager \<Rightarrow> (drain_phase + unit result) \<times> queue_manager" where
  "join_scheduler m =
     (case qm_scheduler m of
        None \<Rightarrow> (Inr (Inr ()), m)
      | Some SchedulerRunning \<Rightarrow> (Inl JoiningScheduler, m)
      | Some (SchedulerEnded e) \<Rightarrow>
          (Inr (case e of None \<Rightarrow> Inr () | Some t \<Rightarrow> Inl (scheduler_failed t)), m\<lparr>qm_scheduler := None\<rparr>))"

fun drain_poll :: "drain_phase \<Rightarrow> queue_manager \<Rightarrow> (drain_phase + unit result) \<times> queue_manager" where
  "drain_poll WaitingForIdle m =
     (if \<not> queue_is_idle (qm_queue m) then (Inl WaitingForIdle, m)
      else if manager_is_shutting_down m then join_scheduler m
      else (Inr (Inr ()), m))"
| "drain_poll JoiningScheduler m = join_scheduler m"

text \<open>A pending drain whose timer has fired returns the timeout.\<close>

definition manager_drain :: "duration \<Rightarrow> bool \<Rightarrow> drain_phase \<Rightarrow> queue_manager \<Rightarrow> (drain_phase + unit result) \<times> queue_manager" where
  "manager_drain timeout fired phase m =
     (case drain_poll phase m of
        (Inl phase', m') \<Rightarrow> (if fired then Inr (Inl (Timeout timeout)) else Inl phase', m')
      | (Inr r, m') \<Rightarrow> (Inr r, m'))"

section \<open>Statistics and the monitor\<close>

record manager_stats =
  ms_total_pending :: nat
  ms_total_active :: nat
  ms_dead_letter_count :: nat
  ms_lanes :: "(lane_id, lane_status) hmap"

definition queue_manager_stats :: "externals \<Rightarrow> lane_queue \<Rightarrow> manager_stats" where
  "queue_manager_stats ext q =
     (let status = queue_status q;
          (pending, active) =
            fold (\<lambda>st (p, a). (p + st_pending st, a + st_lane_active st))
              (hash_values (ext_hash_rank ext) status) (0, 0)
      in \<lparr>ms_total_pending = pending, ms_total_active = active,
          ms_dead_letter_count = (case lq_dlq q of Some d \<Rightarrow> dlq_len d | None \<Rightarrow> 0),
          ms_lanes = status\<rparr>)"

record monitor_config =
  mc_interval :: duration
  mc_pending_warning_threshold :: nat
  mc_active_warning_threshold :: nat

definition monitor_config_default :: monitor_config where
  "monitor_config_default =
     \<lparr>mc_interval = from_secs 10, mc_pending_warning_threshold = 100, mc_active_warning_threshold = 50\<rparr>"

text \<open>The warnings a check logs, in order.\<close>

datatype health_warning = AtMaximumCapacity lane_id | HighPending nat nat | HighActive nat nat

definition check_health :: "externals \<Rightarrow> monitor_config \<Rightarrow> lane_queue \<Rightarrow> health_warning list" where
  "check_health ext c q =
     (let (pending, active, full) =
        fold (\<lambda>(i, st) (p, a, ws).
            (p + st_pending st, a + st_lane_active st,
             if st_lane_active st \<ge> st_max st then ws @ [AtMaximumCapacity i] else ws))
          (hash_entries (ext_hash_rank ext) (queue_status q)) (0, 0, [])
      in full
         @ (if pending > mc_pending_warning_threshold c then [HighPending pending (mc_pending_warning_threshold c)] else [])
         @ (if active > mc_active_warning_threshold c then [HighActive active (mc_active_warning_threshold c)] else []))"

end
