(* ===== verification/Manager_Safety.thy ===== *)
theory Manager_Safety
  imports Queue_Manager Lane_Safety
begin

text \<open>
  What the facade guarantees: a built queue has exactly the configured lanes and is a start of
  the scheduler's runs, a successful drain means that everything is answered, and the
  statistics and the monitor report what is in the lanes.
\<close>

section \<open>Building\<close>

lemma keys_distinct_builders [simp]:
  "keys_distinct (mb_lane_configs builder_new)"
  "keys_distinct (mb_lane_configs b) \<Longrightarrow> keys_distinct (mb_lane_configs (with_lane i c p b))"
  "keys_distinct (mb_lane_configs b) \<Longrightarrow> keys_distinct (mb_lane_configs (with_storage b))"
  "keys_distinct (mb_lane_configs b) \<Longrightarrow> keys_distinct (mb_lane_configs (with_dlq n b))"
  "keys_distinct (mb_lane_configs b) \<Longrightarrow> keys_distinct (mb_lane_configs (with_default_lanes b))"
  by (simp_all add: builder_new_def with_lane_def with_storage_def with_dlq_def with_default_lanes_def)

lemma built_lane_id [simp]: "ln_id (built_lane b ticks e) = fst e"
  by (simp add: built_lane_def lane_new_def lane_with_storage_def split: prod.split)

lemma new_built_lane: "new_lane (built_lane b ticks e)"
  by (cases e) (auto simp: built_lane_def new_lane_def)

lemma idle_built_lane [simp]: "lane_is_idle (built_lane b ticks e)"
  by (cases e) (simp add: built_lane_def lane_new_def lane_with_storage_def lane_is_idle_def lane_state_new_def)

text \<open>Registering a list of lanes with different identifiers appends them to the store.\<close>

lemma register_all_store: "lq_store (fold register_lane ls q) = lq_store q @ ls"
  by (induction ls arbitrary: q) (simp_all add: register_lane_def)

lemma register_all_lanes:
  assumes "distinct (map ln_id ls)"
  shows "map_of (lq_lanes (fold register_lane ls q)) i = Some a \<longleftrightarrow>
    (if i \<in> ln_id ` set ls then \<exists>k < length ls. a = length (lq_store q) + k \<and> ln_id (ls ! k) = i
     else map_of (lq_lanes q) i = Some a)"
  using assms
proof (induction ls arbitrary: q)
  case (Cons l ls)
  let ?q = "register_lane l q"
  have n: "length (lq_store ?q) = Suc (length (lq_store q))" by (simp add: register_lane_def)
  have l: "map_of (lq_lanes ?q) i = (if i = ln_id l then Some (length (lq_store q)) else map_of (lq_lanes q) i)"
    by (simp add: register_lane_def map_of_update)
  have ex: "(\<exists>k < length (l # ls). a = length (lq_store q) + k \<and> ln_id ((l # ls) ! k) = i) \<longleftrightarrow>
      a = length (lq_store q) \<and> ln_id l = i
      \<or> (\<exists>k < length ls. a = Suc (length (lq_store q)) + k \<and> ln_id (ls ! k) = i)"
    by (auto simp: less_Suc_eq_0_disj)
  have d: "distinct (map ln_id ls)" "ln_id l \<notin> ln_id ` set ls" using Cons.prems by simp_all
  have none: "ln_id (ls ! k) \<noteq> ln_id l" if "k < length ls" for k using d(2) that by (metis image_eqI nth_mem)
  show ?case
  proof (cases "i = ln_id l")
    case True
    then show ?thesis unfolding ex using Cons.IH [OF d(1), of ?q] l d(2) none by auto
  next
    case False
    then show ?thesis unfolding ex using Cons.IH [OF d(1), of ?q] l n by simp
  qed
qed simp

lemma register_all_fields:
  "lq_outstanding (fold register_lane ls q) = lq_outstanding q"
  "lq_shutting_down (fold register_lane ls q) = lq_shutting_down q"
  by (induction ls arbitrary: q) (simp_all add: register_lane_def)

lemma register_all_reachable:
  "\<forall>l \<in> set ls. new_lane l \<Longrightarrow> lane_reachable ext dbg q \<Longrightarrow> lane_reachable ext dbg (fold register_lane ls q)"
  by (induction ls arbitrary: q) (auto intro: lane_reachable.Step lane_step.Register)

text \<open>
  The builder makes exactly the lanes it was given: each identifier names a lane with its
  configuration and priority, no other identifier is known, no lane is left over, and the queue
  is idle, accepts commands and is a start of the scheduler's runs, so everything proved of runs
  holds of it.
\<close>

theorem build_registers:
  assumes "keys_distinct (mb_lane_configs b)" "q = qm_queue (build ext ticks b)"
  shows "lane_reachable ext dbg q \<and> queue_is_idle q \<and> \<not> lq_shutting_down q
    \<and> length (lq_store q) = length (mb_lane_configs b)
    \<and> dom (map_of (lq_lanes q)) = dom (map_of (mb_lane_configs b))
    \<and> (\<forall>i c p. map_of (mb_lane_configs b) i = Some (c, p) \<longrightarrow>
        (\<exists>a < length (lq_store q). map_of (lq_lanes q) i = Some a \<and> lq_store q ! a = built_lane b ticks (i, c, p)))"
proof -
  define es where "es = hash_entries (ext_hash_rank ext) (mb_lane_configs b)"
  let ?ls = "map (built_lane b ticks) es" and ?q0 = "queue_new (mb_dlq_size b)"
  have q: "q = fold register_lane ?ls ?q0"
    by (simp add: assms(2) build_def manager_new_def fold_map comp_def es_def)
  have ids: "map ln_id ?ls = map fst es" by simp
  have es: "mset es = mset (mb_lane_configs b)" by (simp add: hash_entries_def es_def)
  have de: "distinct (map fst es)" and le: "length es = length (mb_lane_configs b)"
    using assms(1) es unfolding keys_distinct_def by (metis mset_map mset_eq_imp_distinct_iff, metis size_mset)
  have s0: "lq_store ?q0 = []" "lq_lanes ?q0 = []" "lq_outstanding ?q0 = 0" "\<not> lq_shutting_down ?q0"
    by (simp_all add: queue_new_def)
  have store: "lq_store q = ?ls" by (simp add: q register_all_store s0)
  have at: "map_of (lq_lanes q) i = Some a \<longleftrightarrow> a < length es \<and> fst (es ! a) = i" for i a
  proof -
    have "map_of (lq_lanes q) i = Some a \<longleftrightarrow> i \<in> fst ` set es \<and> (\<exists>k < length es. a = k \<and> fst (es ! k) = i)"
      using register_all_lanes [of ?ls ?q0 i a, unfolded ids, OF de, folded q]
      by (simp only: set_map [symmetric] ids) (simp add: s0 cong: conj_cong)
    then show ?thesis using nth_mem [of a es] by fastforce
  qed
  have fields: "lq_outstanding q = 0" "\<not> lq_shutting_down q"
    by (simp_all add: q register_all_fields s0)
  have reach: "lane_reachable ext dbg q"
    unfolding q by (rule register_all_reachable) (auto simp: new_built_lane intro: lane_reachable.Start)
  have idle: "lane_is_idle (lq_store q ! a)" if "(i, a) \<in> set (lq_lanes q)" for i a
  proof -
    have "a < length (lq_store q)" using reachable_lane_inv [OF reach] that by (fastforce simp: lane_inv_def addr_inv_def)
    then show ?thesis by (simp add: store)
  qed
  have "\<exists>a < length es. map_of (lq_lanes q) i = Some a \<and> ?ls ! a = built_lane b ticks (i, c, p)"
    if "map_of (mb_lane_configs b) i = Some (c, p)" for i c p
  proof -
    have "(i, c, p) \<in> set es" using map_of_SomeD [OF that] mset_eq_setD [OF es] by simp
    then obtain a where "a < length es" "es ! a = (i, c, p)" by (auto simp: in_set_conv_nth)
    then show ?thesis by (auto simp: at)
  qed
  then have lanes: "\<forall>i c p. map_of (mb_lane_configs b) i = Some (c, p) \<longrightarrow>
      (\<exists>a < length (lq_store q). map_of (lq_lanes q) i = Some a \<and> lq_store q ! a = built_lane b ticks (i, c, p))"
    by (simp add: store)
  have dom: "dom (map_of (lq_lanes q)) = dom (map_of (mb_lane_configs b))"
  proof -
    have "i \<in> dom (map_of (lq_lanes q)) \<longleftrightarrow> (\<exists>a < length es. fst (es ! a) = i)" for i
      by (simp add: dom_def at)
    also have "\<dots> i \<longleftrightarrow> i \<in> set (map fst es)" for i
      unfolding in_set_conv_nth by auto
    finally have "i \<in> dom (map_of (lq_lanes q)) \<longleftrightarrow> i \<in> fst ` set es" for i by simp
    then show ?thesis using mset_eq_setD [OF es] by (auto simp: dom_map_of_conv_image_fst)
  qed
  have "queue_is_idle q" using fields idle by (auto simp: queue_is_idle_def list_all_iff)
  moreover have "length (lq_store q) = length (mb_lane_configs b)" by (simp add: store le)
  ultimately show ?thesis using reach fields dom lanes by blast
qed

theorem build_registers_witness:
  "\<exists>a. map_of (lq_lanes (qm_queue (build ex_ext (\<lambda>_. 0) (with_default_lanes builder_new)))) ''query'' = Some a
     \<and> ls_priority (ln_state (lq_store (qm_queue (build ex_ext (\<lambda>_. 0) (with_default_lanes builder_new))) ! a)) = 2"
proof -
  let ?b = "with_default_lanes builder_new"
  have d: "keys_distinct (mb_lane_configs ?b)" by simp
  have m: "map_of (mb_lane_configs ?b) ''query'' = Some (lane_config_new 1 10, 2)"
    by (simp add: with_default_lanes_def with_lane_def builder_new_def map_of_update default_lane_defs)
  from build_registers [OF d refl, where ext = ex_ext and ticks = "\<lambda>_. 0"] m show ?thesis
    by (fastforce simp: built_lane_def lane_new_def lane_with_storage_def lane_state_new_def)
qed

section \<open>Draining\<close>

lemma join_scheduler_keeps: "qm_queue (snd (join_scheduler m)) = qm_queue m"
  by (auto simp: join_scheduler_def split: option.split scheduler_handle.split)

lemma manager_drain_keeps: "qm_queue (snd (manager_drain timeout fired phase m)) = qm_queue m"
  using join_scheduler_keeps [of m]
  by (cases phase) (auto simp: manager_drain_def split: prod.splits sum.splits)

text \<open>
  A drain that succeeds at its first look has found everything answered: it leaves the
  queue as it is, each command submitted before has exactly one result unless an execution
  panicked, and during a shutdown the scheduler task has ended without a failure.
\<close>

theorem drain_ok_answers:
  assumes "lane_reachable ext dbg q" "i \<in># unanswered (\<lambda>permit. permit) q"
    and "lane_run ext dbg q (qm_queue m)" "lq_panicked (qm_queue m) = lq_panicked q"
    and "manager_drain timeout fired WaitingForIdle m = (Inr (Inr ()), m')"
  shows "count_list (map fst (lq_results (qm_queue m'))) i = 1 \<and> qm_queue m' = qm_queue m
    \<and> (lq_shutting_down (qm_queue m) \<longrightarrow> qm_scheduler m \<in> {None, Some (SchedulerEnded None)} \<and> qm_scheduler m' = None)"
proof -
  have idle: "queue_is_idle (qm_queue m)"
    using assms(5) by (auto simp: manager_drain_def split: if_splits prod.splits sum.splits)
  have "count_list (map fst (lq_results (qm_queue m))) i = 1"
    by (rule answered_when_idle [OF assms(1-3) idle assms(4)])
  moreover have "qm_queue m' = qm_queue m"
    using manager_drain_keeps [of timeout fired WaitingForIdle m] assms(5) by simp
  moreover have "qm_scheduler m \<in> {None, Some (SchedulerEnded None)} \<and> qm_scheduler m' = None"
    if "lq_shutting_down (qm_queue m)"
  proof -
    have "manager_drain timeout fired WaitingForIdle m = manager_drain timeout fired JoiningScheduler m"
      using idle that by (simp add: manager_drain_def manager_is_shutting_down_def)
    then have "join_scheduler m = (Inr (Inr ()), m')"
      using assms(5) by (auto simp: manager_drain_def split: prod.splits sum.splits if_splits)
    then show ?thesis
      by (auto simp: join_scheduler_def split: option.splits scheduler_handle.splits)
  qed
  ultimately show ?thesis by simp
qed

theorem drain_ok_answers_witness:
  "count_list (map fst (lq_results (qm_queue (snd (manager_drain 5 False WaitingForIdle (manager_new ex_done)))))) ''c1'' = 1"
proof -
  have i: "''c1'' \<in># unanswered (\<lambda>permit. permit) ex_running"
    by (simp add: unanswered_def tally_def id_if_def) (simp add: ex_wrapper_def)
  have r: "lane_run ex_ext (\<lambda>_. []) ex_running (qm_queue (manager_new ex_done))"
    using ex_done_run by (simp add: manager_new_def)
  obtain m' where d: "manager_drain 5 False WaitingForIdle (manager_new ex_done) = (Inr (Inr ()), m')"
    by (simp add: manager_drain_def manager_new_def manager_is_shutting_down_def join_scheduler_def)
  have "lq_panicked (qm_queue (manager_new ex_done)) = lq_panicked ex_running" by (simp add: manager_new_def)
  from drain_ok_answers [OF ex_reachable(3) i r this d] have "count_list (map fst (lq_results (qm_queue m'))) ''c1'' = 1"
    by (rule conjunct1)
  then show ?thesis by (simp only: d snd_conv)
qed

section \<open>The scheduler task\<close>

text \<open>
  The failure of a scheduler task is reported once, by the next \<open>start\<close> or by a drain during a
  shutdown, and the next \<open>start\<close> spawns a new task; a running task is never spawned twice.
\<close>

lemma start_restarts:
  assumes "qm_scheduler m = Some (SchedulerEnded (Some e))" "manager_start m = (r, m1)"
  shows "r = Inl (scheduler_failed e) \<and> manager_start m1 = (Inr (), m1\<lparr>qm_scheduler := Some SchedulerRunning\<rparr>)"
  using assms by (auto simp: manager_start_def)

section \<open>Statistics\<close>

lemma status_fold:
  "fold (\<lambda>st (p, a). (p + st_pending st, a + st_lane_active st)) sts (p, a)
     = (p + sum_list (map st_pending sts), a + sum_list (map st_lane_active sts))"
  by (induction sts arbitrary: p a) simp_all

lemma stats_totals:
  "ms_total_pending (queue_manager_stats ext q) = (\<Sum>(i, a) \<leftarrow> lq_lanes q. st_pending (lane_status_of (lq_store q ! a)))"
  "ms_total_active (queue_manager_stats ext q) = (\<Sum>(i, a) \<leftarrow> lq_lanes q. st_lane_active (lane_status_of (lq_store q ! a)))"
proof -
  have "mset (map f (hash_values (ext_hash_rank ext) (queue_status q)))
      = mset (map (\<lambda>(i, a). f (lane_status_of (lq_store q ! a))) (lq_lanes q))" for f :: "lane_status \<Rightarrow> nat"
    unfolding mset_map [of f] mset_hash_values
    by (auto simp: queue_status_def simp flip: mset_map intro!: arg_cong [where f = mset])
  then have "sum_list (map f (hash_values (ext_hash_rank ext) (queue_status q)))
      = (\<Sum>(i, a) \<leftarrow> lq_lanes q. f (lane_status_of (lq_store q ! a)))" for f :: "lane_status \<Rightarrow> nat"
    by (metis sum_mset_sum_list)
  then show "ms_total_pending (queue_manager_stats ext q) = (\<Sum>(i, a) \<leftarrow> lq_lanes q. st_pending (lane_status_of (lq_store q ! a)))"
    "ms_total_active (queue_manager_stats ext q) = (\<Sum>(i, a) \<leftarrow> lq_lanes q. st_lane_active (lane_status_of (lq_store q ! a)))"
    by (simp_all add: queue_manager_stats_def status_fold Let_def)
qed

text \<open>
  The statistics agree with the lifecycle: the queue is idle exactly when no permit is
  outstanding and the totals of pending and active commands are zero.
\<close>

theorem idle_iff_stats_zero:
  "queue_is_idle q \<longleftrightarrow>
     lq_outstanding q = 0 \<and> ms_total_pending (queue_manager_stats ext q) = 0
     \<and> ms_total_active (queue_manager_stats ext q) = 0"
  unfolding stats_totals queue_is_idle_def sum_list_eq_0_iff
  by (fastforce simp: list_all_iff lane_is_idle_def lane_status_of_def)

text \<open>The monitor.\<close>

lemma health_fold:
  "fold (\<lambda>(i, st) (p, a, ws). (p + st_pending st, a + st_lane_active st,
        if st_lane_active st \<ge> st_max st then ws @ [AtMaximumCapacity i] else ws)) es (p, a, ws)
   = (p + sum_list (map (st_pending \<circ> snd) es), a + sum_list (map (st_lane_active \<circ> snd) es),
      ws @ map (AtMaximumCapacity \<circ> fst) (filter (\<lambda>(i, st). st_lane_active st \<ge> st_max st) es))"
  by (induction es arbitrary: p a ws) auto

lemma check_health_capacity:
  "AtMaximumCapacity i \<in> set (check_health ext c q) \<longleftrightarrow>
     (\<exists>st. (i, st) \<in> set (queue_status q) \<and> st_max st \<le> st_lane_active st)"
  by (auto simp: check_health_def health_fold image_iff split: if_splits)

end
