(* ===== verification/Command_Storage.thy ===== *)
theory Command_Storage
  imports Lane_Queue
begin

text \<open>
  The command storage of \<open>src/src/storage.rs\<close>: an in-memory cache of the pending commands and the
  dead letters, each written to a JSON file after every change. The JSON encoding and what
  the filesystem does in one call are arguments; a file is its content.
\<close>

section \<open>State\<close>

record stored_dead_letter =
  sd_command_id :: command_id
  sd_command_type :: string
  sd_lane_id :: lane_id
  sd_error :: string
  sd_attempts :: nat
  sd_failed_at :: instant

record storage_codec =
  commands_to_string :: "stored_command list \<Rightarrow> string + string"
  commands_from_str :: "string \<Rightarrow> string + stored_command list"
  letters_to_string :: "stored_dead_letter list \<Rightarrow> string + string"
  letters_from_str :: "string \<Rightarrow> string + stored_dead_letter list"

record local_storage =
  so_commands :: "(command_id, stored_command) hmap"
  so_dead_letters :: "stored_dead_letter list"
  so_commands_file :: "string option"
  so_letters_file :: "string option"

text \<open>\<open>fs::write\<close> truncates the file first, so a failed write may leave anything in it.\<close>

datatype write_fault = Written | WriteFails string "string option"

section \<open>The files\<close>

text \<open>What could not be read or decoded is taken for empty.\<close>

definition load_from_disk :: "storage_codec \<Rightarrow> string option \<Rightarrow> string option \<Rightarrow> local_storage \<Rightarrow> local_storage" where
  "load_from_disk codec commands_data letters_data s =
     (let s1 = (case commands_data of
                  Some data \<Rightarrow>
                    (case commands_from_str codec data of
                       Inr cs \<Rightarrow> s\<lparr>so_commands := fold (\<lambda>c. AList.update (sc_id c) c) cs (so_commands s)\<rparr>
                     | Inl _ \<Rightarrow> s)
                | None \<Rightarrow> s)
      in case letters_data of
           Some data \<Rightarrow>
             (case letters_from_str codec data of Inr ls \<Rightarrow> s1\<lparr>so_dead_letters := ls\<rparr> | Inl _ \<Rightarrow> s1)
         | None \<Rightarrow> s1)"

text \<open>
  \<open>dir_error\<close> is the failure to create the directory; \<open>commands_read\<close> and \<open>letters_read\<close> say
  whether the files can be read.
\<close>

definition storage_open ::
  "storage_codec \<Rightarrow> string option \<Rightarrow> bool \<Rightarrow> bool \<Rightarrow> string option \<Rightarrow> string option \<Rightarrow> local_storage result" where
  "storage_open codec dir_error commands_read letters_read commands_file letters_file =
     (case dir_error of
        Some e \<Rightarrow> Inl (Other (''Failed to create storage directory: '' @ e))
      | None \<Rightarrow>
          Inr (load_from_disk codec (if commands_read then commands_file else None)
                 (if letters_read then letters_file else None)
                 \<lparr>so_commands = [], so_dead_letters = [], so_commands_file = commands_file,
                  so_letters_file = letters_file\<rparr>))"

definition persist_commands :: "externals \<Rightarrow> storage_codec \<Rightarrow> write_fault \<Rightarrow> local_storage \<Rightarrow> unit result \<times> local_storage" where
  "persist_commands ext codec fault s =
     (case commands_to_string codec (hash_values (ext_hash_rank ext) (so_commands s)) of
        Inl e \<Rightarrow> (Inl (Other (''Failed to serialize commands: '' @ e)), s)
      | Inr json \<Rightarrow>
          (case fault of
             WriteFails e left \<Rightarrow>
               (Inl (Other (''Failed to write commands file: '' @ e)), s\<lparr>so_commands_file := left\<rparr>)
           | Written \<Rightarrow> (Inr (), s\<lparr>so_commands_file := Some json\<rparr>)))"

definition persist_dead_letters :: "storage_codec \<Rightarrow> write_fault \<Rightarrow> local_storage \<Rightarrow> unit result \<times> local_storage" where
  "persist_dead_letters codec fault s =
     (case letters_to_string codec (so_dead_letters s) of
        Inl e \<Rightarrow> (Inl (Other (''Failed to serialize dead letters: '' @ e)), s)
      | Inr json \<Rightarrow>
          (case fault of
             WriteFails e left \<Rightarrow>
               (Inl (Other (''Failed to write dead letters file: '' @ e)), s\<lparr>so_letters_file := left\<rparr>)
           | Written \<Rightarrow> (Inr (), s\<lparr>so_letters_file := Some json\<rparr>)))"

section \<open>The operations\<close>

definition save_command ::
  "externals \<Rightarrow> storage_codec \<Rightarrow> stored_command \<Rightarrow> write_fault \<Rightarrow> local_storage \<Rightarrow> unit result \<times> local_storage" where
  "save_command ext codec c fault s =
     persist_commands ext codec fault (s\<lparr>so_commands := AList.update (sc_id c) c (so_commands s)\<rparr>)"

definition load_commands :: "externals \<Rightarrow> local_storage \<Rightarrow> stored_command list result" where
  "load_commands ext s = Inr (hash_values (ext_hash_rank ext) (so_commands s))"

definition remove_command ::
  "externals \<Rightarrow> storage_codec \<Rightarrow> command_id \<Rightarrow> write_fault \<Rightarrow> local_storage \<Rightarrow> unit result \<times> local_storage" where
  "remove_command ext codec i fault s =
     persist_commands ext codec fault (s\<lparr>so_commands := AList.delete i (so_commands s)\<rparr>)"

definition save_dead_letter ::
  "storage_codec \<Rightarrow> stored_dead_letter \<Rightarrow> write_fault \<Rightarrow> local_storage \<Rightarrow> unit result \<times> local_storage" where
  "save_dead_letter codec l fault s =
     persist_dead_letters codec fault (s\<lparr>so_dead_letters := so_dead_letters s @ [l]\<rparr>)"

definition load_dead_letters :: "local_storage \<Rightarrow> stored_dead_letter list result" where
  "load_dead_letters s = Inr (so_dead_letters s)"

definition clear_dead_letters :: "storage_codec \<Rightarrow> write_fault \<Rightarrow> local_storage \<Rightarrow> unit result \<times> local_storage" where
  "clear_dead_letters codec fault s = persist_dead_letters codec fault (s\<lparr>so_dead_letters := []\<rparr>)"

text \<open>A failure to remove a file is ignored.\<close>

definition storage_clear_all :: "bool \<Rightarrow> bool \<Rightarrow> local_storage \<Rightarrow> unit result \<times> local_storage" where
  "storage_clear_all commands_removed letters_removed s =
     (Inr (),
      \<lparr>so_commands = [], so_dead_letters = [],
       so_commands_file = (if commands_removed then None else so_commands_file s),
       so_letters_file = (if letters_removed then None else so_letters_file s)\<rparr>)"

end
