(* ===== verification/Storage_Safety.thy ===== *)
theory Storage_Safety
  imports Command_Storage Example_Externals
begin

text \<open>
  What the command storage guarantees: it implements the map of stored commands the scheduler
  relies on, an acknowledged change survives a restart, concurrent calls do not undo each other,
  and what a damaged file costs.
\<close>

section \<open>The contract of a store\<close>

datatype 'f store_call = Save stored_command 'f | Remove command_id 'f

fun run_call ::
  "(stored_command \<Rightarrow> 'f \<Rightarrow> 's \<Rightarrow> unit result \<times> 's) \<Rightarrow> (command_id \<Rightarrow> 'f \<Rightarrow> 's \<Rightarrow> unit result \<times> 's)
     \<Rightarrow> 'f store_call \<Rightarrow> 's \<Rightarrow> unit result \<times> 's" where
  "run_call save rem (Save c f) s = save c f s"
| "run_call save rem (Remove i f) s = rem i f s"

fun run_calls ::
  "(stored_command \<Rightarrow> 'f \<Rightarrow> 's \<Rightarrow> unit result \<times> 's) \<Rightarrow> (command_id \<Rightarrow> 'f \<Rightarrow> 's \<Rightarrow> unit result \<times> 's)
     \<Rightarrow> 'f store_call list \<Rightarrow> 's \<Rightarrow> unit result list \<times> 's" where
  "run_calls save rem [] s = ([], s)"
| "run_calls save rem (c # cs) s =
     (let (r, t) = run_call save rem c s; (rs, u) = run_calls save rem cs t in (r # rs, u))"

fun call_effect :: "'f store_call \<Rightarrow> (command_id \<rightharpoonup> stored_command) \<Rightarrow> (command_id \<rightharpoonup> stored_command)" where
  "call_effect (Save c f) m = m(sc_id c \<mapsto> c)"
| "call_effect (Remove i f) m = m(i := None)"

locale command_store =
  fixes save :: "stored_command \<Rightarrow> 'f \<Rightarrow> 's \<Rightarrow> unit result \<times> 's"
    and rem :: "command_id \<Rightarrow> 'f \<Rightarrow> 's \<Rightarrow> unit result \<times> 's"
    and contents :: "'s \<Rightarrow> (command_id \<rightharpoonup> stored_command)"
    and inv :: "'s \<Rightarrow> bool" and durable :: "'s \<Rightarrow> bool"
  assumes save_contents: "inv s \<Longrightarrow> save c f s = (r, t) \<Longrightarrow> inv t \<and> contents t = (contents s)(sc_id c \<mapsto> c)"
    and rem_contents: "inv s \<Longrightarrow> rem i f s = (r, t) \<Longrightarrow> inv t \<and> contents t = (contents s)(i := None)"
    and save_durable: "save c f s = (Inr u, t) \<Longrightarrow> durable t"
    and rem_durable: "rem i f s = (Inr u, t) \<Longrightarrow> durable t"
begin

lemma run_call_contents:
  "inv s \<Longrightarrow> run_call save rem c s = (r, t) \<Longrightarrow> inv t \<and> contents t = call_effect c (contents s)"
  by (cases c) (simp_all del: fun_upd_apply, blast dest: save_contents, blast dest: rem_contents)

lemma run_call_durable: "run_call save rem c s = (Inr u, t) \<Longrightarrow> durable t"
  by (cases c) (simp_all, blast dest: save_durable, blast dest: rem_durable)

text \<open>Failed calls count: a later success makes them durable too.\<close>

lemma run_calls_contents:
  "inv s \<Longrightarrow> run_calls save rem cs s = (rs, t) \<Longrightarrow> inv t \<and> contents t = fold call_effect cs (contents s)"
proof (induction cs arbitrary: s rs)
  case (Cons c cs)
  then show ?case using run_call_contents [of s c] by (auto simp: Let_def split: prod.splits)
qed simp

lemma run_calls_durable:
  "run_calls save rem cs s = (rs, t) \<Longrightarrow> rs \<noteq> [] \<Longrightarrow> last rs = Inr u \<Longrightarrow> durable t"
proof (induction cs arbitrary: s rs)
  case (Cons c cs)
  obtain r t' where c: "run_call save rem c s = (r, t')" by fastforce
  obtain rs' t'' where cs: "run_calls save rem cs t' = (rs', t'')" by fastforce
  have rs: "rs = r # rs'" "t = t''" using Cons.prems(1) c cs by simp_all
  show ?case
  proof (cases "rs' = []")
    case True
    then have "t'' = t'" using cs by (cases cs) (auto simp: Let_def split: prod.splits)
    then show ?thesis using run_call_durable c rs True Cons.prems(3) by simp
  next
    case False
    then show ?thesis using Cons.IH cs rs Cons.prems(3) by simp
  qed
qed simp

end

section \<open>The local storage implements it\<close>

definition storage_inv :: "local_storage \<Rightarrow> bool" where
  "storage_inv s \<longleftrightarrow> keys_distinct (so_commands s) \<and> (\<forall>(k, c) \<in> set (so_commands s). sc_id c = k)"

text \<open>The file holds the cache.\<close>

definition storage_durable :: "externals \<Rightarrow> storage_codec \<Rightarrow> local_storage \<Rightarrow> bool" where
  "storage_durable ext codec s \<longleftrightarrow>
     (\<exists>json. commands_to_string codec (hash_values (ext_hash_rank ext) (so_commands s)) = Inr json
        \<and> so_commands_file s = Some json)"

lemma persist_commands_cache: "persist_commands ext codec fault s = (r, t) \<Longrightarrow> so_commands t = so_commands s"
  by (auto simp: persist_commands_def split: sum.splits write_fault.splits)

lemma persist_commands_durable: "persist_commands ext codec fault s = (Inr u, t) \<Longrightarrow> storage_durable ext codec t"
  by (auto simp: persist_commands_def storage_durable_def split: sum.splits write_fault.splits)

lemma storage_inv_update: "storage_inv s \<Longrightarrow> storage_inv (s\<lparr>so_commands := AList.update (sc_id c) c (so_commands s)\<rparr>)"
  by (auto simp: storage_inv_def set_update_distinct)

lemma storage_inv_delete: "storage_inv s \<Longrightarrow> storage_inv (s\<lparr>so_commands := AList.delete i (so_commands s)\<rparr>)"
  by (auto simp: storage_inv_def set_delete)

interpretation stored: command_store "save_command ext codec" "remove_command ext codec"
    "\<lambda>s. map_of (so_commands s)" storage_inv "storage_durable ext codec" for ext codec
proof
  fix s t :: local_storage and c f and r :: "unit result"
  assume "storage_inv s" "save_command ext codec c f s = (r, t)"
  then show "storage_inv t \<and> map_of (so_commands t) = (map_of (so_commands s))(sc_id c \<mapsto> c)"
    using storage_inv_update [of s c] persist_commands_cache
    by (fastforce simp: save_command_def storage_inv_def update_conv')
next
  fix s t :: local_storage and i f and r :: "unit result"
  assume "storage_inv s" "remove_command ext codec i f s = (r, t)"
  then show "storage_inv t \<and> map_of (so_commands t) = (map_of (so_commands s))(i := None)"
    using storage_inv_delete [of s i] persist_commands_cache
    by (fastforce simp: remove_command_def storage_inv_def delete_conv')
qed (simp_all add: save_command_def remove_command_def persist_commands_durable)

section \<open>Restarting\<close>

lemma fold_update_ids:
  "distinct (map sc_id cs) \<Longrightarrow> map_of (fold (\<lambda>c. AList.update (sc_id c) c) cs m) k
     = (case map_of (map (\<lambda>c. (sc_id c, c)) cs) k of Some c \<Rightarrow> Some c | None \<Rightarrow> map_of m k)"
proof (induction cs arbitrary: m)
  case (Cons c cs)
  then show ?case
    by (auto simp: update_conv' map_of_eq_None_iff image_image split: option.split dest!: map_of_SomeD)
qed simp

lemma hash_values_ids:
  assumes "storage_inv s" "cs = hash_values (ext_hash_rank ext) (so_commands s)"
  shows "distinct (map sc_id cs) \<and> map_of (map (\<lambda>c. (sc_id c, c)) cs) = map_of (so_commands s)"
proof -
  let ?es = "hash_entries (ext_hash_rank ext) (so_commands s)"
  have m: "mset ?es = mset (so_commands s)" by (simp add: hash_entries_def)
  have e: "map (\<lambda>c. (sc_id c, c)) cs = ?es"
    using assms by (auto simp: hash_values_def storage_inv_def intro!: map_idI)
  then have ids: "map sc_id cs = map fst ?es" by (metis (mono_tags, lifting) comp_def fst_conv map_eq_conv map_map)
  have d: "distinct (map fst ?es)"
    using assms(1) m unfolding storage_inv_def keys_distinct_def by (metis mset_eq_imp_distinct_iff mset_map)
  have "map_of ?es = map_of (so_commands s)"
    using d assms(1) mset_eq_setD [OF m] by (simp add: map_of_inject_set storage_inv_def keys_distinct_def)
  then show ?thesis using d e ids by simp
qed


text \<open>A codec that is one-to-one on the lists of one command used below.\<close>

definition ex_stored :: "command_id \<Rightarrow> stored_command" where
  "ex_stored i =
     \<lparr>sc_id = i, sc_command_type = ''work'', sc_lane_id = ''main'', sc_payload = JObject [],
      sc_retry_count = 0, sc_created_at = 0, sc_last_attempt_at = None\<rparr>"

definition ex_storage_codec :: storage_codec where
  "ex_storage_codec =
     \<lparr>commands_to_string = (\<lambda>cs. if cs = [] then Inr ''[]'' else if cs = [ex_stored ''a''] then Inr ''[a]'' else Inl ''unsupported''),
      commands_from_str = (\<lambda>s. if s = ''[]'' then Inr [] else if s = ''[a]'' then Inr [ex_stored ''a''] else Inl ''garbage''),
      letters_to_string = (\<lambda>_. Inl ''unsupported''), letters_from_str = (\<lambda>_. Inl ''garbage'')\<rparr>"

definition ex_storage :: "string option \<Rightarrow> local_storage" where
  "ex_storage data = \<lparr>so_commands = [], so_dead_letters = [], so_commands_file = data, so_letters_file = None\<rparr>"

lemmas ex_storage_simps =
  ex_storage_def ex_storage_codec_def save_command_def remove_command_def persist_commands_def
  hash_values_def hash_entries_def ex_stored_def


section \<open>The scheduler's view\<close>

text \<open>
  The local storage implements the stored commands of the scheduler: when it holds them
  before a command is stored or removed, it holds them after, and with a successful write so
  does its file.
\<close>

theorem storage_implements_stored:
  assumes "storage_inv s" "map_of (so_commands s) = map_of (lq_stored q)" "ln_storage (lq_store q ! a)"
    and "f = Inr (stored_form w now) \<and> q' = store_wrapper w a now True q \<or> f = Inl (cw_id w) \<and> q' = unstore_wrapper w a True q"
    and "(case f of Inr c \<Rightarrow> save_command ext codec c fault s | Inl i \<Rightarrow> remove_command ext codec i fault s) = (r, t)"
  shows "storage_inv t \<and> map_of (so_commands t) = map_of (lq_stored q') \<and> (r = Inr () \<longrightarrow> storage_durable ext codec t)"
  using assms(4)
proof (elim disjE conjE)
  assume f: "f = Inr (stored_form w now)" "q' = store_wrapper w a now True q"
  then have c: "save_command ext codec (stored_form w now) fault s = (r, t)" using assms(5) by simp
  show ?thesis
    using stored.save_contents [OF assms(1) c] stored.save_durable [of ext codec "stored_form w now" fault s "()" t] c f(2) assms(2,3)
    by (simp add: store_wrapper_def update_conv' stored_form_def)
next
  assume f: "f = Inl (cw_id w)" "q' = unstore_wrapper w a True q"
  then have c: "remove_command ext codec (cw_id w) fault s = (r, t)" using assms(5) by simp
  show ?thesis
    using stored.rem_contents [OF assms(1) c] stored.rem_durable [of ext codec "cw_id w" fault s "()" t] c f(2) assms(2,3)
    by (simp add: unstore_wrapper_def delete_conv')
qed

theorem storage_implements_stored_witness:
  "let q = register_lane (lane_with_storage ''main'' (lane_config_new 1 1) 1 0) (queue_new None);
       w = new_wrapper ''a'' ''work'' True 0 (lq_store q ! 0)
   in map_of (so_commands (snd (save_command ex_ext ex_storage_codec (stored_form w 0) Written (ex_storage None))))
        = map_of (lq_stored (store_wrapper w 0 0 True q))"
proof -
  let ?q = "register_lane (lane_with_storage ''main'' (lane_config_new 1 1) 1 0) (queue_new None)"
  let ?w = "new_wrapper ''a'' ''work'' True 0 (lq_store ?q ! 0)"
  have "storage_inv (ex_storage None)" "map_of (so_commands (ex_storage None)) = map_of (lq_stored ?q)"
    "ln_storage (lq_store ?q ! 0)"
    by (simp_all add: storage_inv_def ex_storage_def register_lane_def queue_new_def lane_with_storage_def)
  from storage_implements_stored [OF this, of "Inr (stored_form ?w 0)" ?w 0] show ?thesis
    by (simp add: Let_def) (metis prod.collapse)
qed

section \<open>A damaged file\<close>

text \<open>
  A file that cannot be decoded, such as a write cut short leaves, is opened without an error
  as an empty storage, and the next save replaces it: every command it held is lost.
\<close>

theorem damaged_file_is_lost:
  assumes "commands_from_str codec data = Inl e"
  shows "\<exists>s. storage_open codec None True letters_read (Some data) letters_file = Inr s \<and> so_commands s = []
    \<and> (save_command ext codec c Written s = (Inr (), t) \<longrightarrow>
         commands_to_string codec [c] = Inr (the (so_commands_file t)) \<and> so_commands t = [(sc_id c, c)])"
  using assms
  by (auto simp: storage_open_def load_from_disk_def save_command_def persist_commands_def hash_values_def
      hash_entries_def Let_def split: option.split sum.splits)

theorem damaged_file_is_lost_witness:
  "\<exists>s. storage_open ex_storage_codec None True True (Some ''[a'') None = Inr s \<and> so_commands s = []"
proof -
  have "commands_from_str ex_storage_codec ''[a'' = Inl ''garbage''" by (simp add: ex_storage_codec_def)
  from damaged_file_is_lost [OF this] show ?thesis by blast
qed

section \<open>Concurrent calls\<close>

text \<open>
  A call changes the cache under the write lock, lets go of it, and writes the file while it
  holds the read lock: between the two other calls run. A write that fails is counted.
\<close>

record storage_race =
  sr_storage :: local_storage
  sr_pending :: nat
  sr_writing :: "string list"
  sr_errors :: nat

inductive storage_step :: "externals \<Rightarrow> storage_codec \<Rightarrow> storage_race \<Rightarrow> storage_race \<Rightarrow> bool" for ext codec where
  Change_save: "sr_writing r = [] \<Longrightarrow>
    storage_step ext codec r (r\<lparr>sr_storage := (sr_storage r)\<lparr>so_commands := AList.update (sc_id c) c (so_commands (sr_storage r))\<rparr>,
      sr_pending := sr_pending r + 1\<rparr>)"
| Change_remove: "sr_writing r = [] \<Longrightarrow>
    storage_step ext codec r (r\<lparr>sr_storage := (sr_storage r)\<lparr>so_commands := AList.delete i (so_commands (sr_storage r))\<rparr>,
      sr_pending := sr_pending r + 1\<rparr>)"
| Encode: "sr_pending r = Suc n \<Longrightarrow>
    commands_to_string codec (hash_values (ext_hash_rank ext) (so_commands (sr_storage r))) = Inr json \<Longrightarrow>
    storage_step ext codec r (r\<lparr>sr_pending := n, sr_writing := json # sr_writing r\<rparr>)"
| Encode_fails: "sr_pending r = Suc n \<Longrightarrow>
    storage_step ext codec r (r\<lparr>sr_pending := n, sr_errors := sr_errors r + 1\<rparr>)"
| Write: "json \<in> set (sr_writing r) \<Longrightarrow>
    storage_step ext codec r (r\<lparr>sr_storage := (sr_storage r)\<lparr>so_commands_file := Some json\<rparr>, sr_writing := remove1 json (sr_writing r)\<rparr>)"
| Write_fails: "json \<in> set (sr_writing r) \<Longrightarrow>
    storage_step ext codec r (r\<lparr>sr_storage := (sr_storage r)\<lparr>so_commands_file := left\<rparr>, sr_writing := remove1 json (sr_writing r),
      sr_errors := sr_errors r + 1\<rparr>)"

definition race_inv :: "externals \<Rightarrow> storage_codec \<Rightarrow> storage_race \<Rightarrow> bool" where
  "race_inv ext codec r \<longleftrightarrow>
     sr_errors r = 0 \<longrightarrow>
       (\<forall>json \<in> set (sr_writing r).
          commands_to_string codec (hash_values (ext_hash_rank ext) (so_commands (sr_storage r))) = Inr json)
       \<and> (sr_pending r = 0 \<and> sr_writing r = [] \<longrightarrow> storage_durable ext codec (sr_storage r))"

lemma race_inv_step: "storage_step ext codec r r' \<Longrightarrow> race_inv ext codec r \<Longrightarrow> race_inv ext codec r'"
proof (induction rule: storage_step.induct)
  case (Write json r)
  let ?enc = "commands_to_string codec (hash_values (ext_hash_rank ext) (so_commands (sr_storage r)))"
  have all: "\<forall>j \<in> set (sr_writing r). ?enc = Inr j" if "sr_errors r = 0"
    using Write that by (simp add: race_inv_def)
  have "\<forall>j \<in> set (remove1 json (sr_writing r)). ?enc = Inr j" if "sr_errors r = 0"
    using all [OF that] set_remove1_subset [of json "sr_writing r"] by blast
  then show ?case using all Write.hyps by (simp add: race_inv_def storage_durable_def)
qed (auto simp: race_inv_def)

text \<open>
  Concurrent saves and removals never undo each other: whatever their interleaving, when no
  call is left and none failed, the file holds exactly the cache.
\<close>

theorem storage_writes_agree:
  assumes "rtranclp (storage_step ext codec) r0 r"
    and "storage_durable ext codec (sr_storage r0)" "sr_pending r0 = 0" "sr_writing r0 = []"
    and "sr_pending r = 0" "sr_writing r = []" "sr_errors r = 0"
  shows "storage_durable ext codec (sr_storage r)"
proof -
  have "race_inv ext codec r0" using assms(2-4) by (simp add: race_inv_def)
  with assms(1) have "race_inv ext codec r"
    by (induction rule: rtranclp_induct) (auto intro: race_inv_step)
  then show ?thesis using assms(5-7) by (simp add: race_inv_def)
qed

theorem storage_writes_agree_witness:
  "\<exists>r. rtranclp (storage_step ex_ext ex_storage_codec)
       \<lparr>sr_storage = ex_storage (Some ''[]''), sr_pending = 0, sr_writing = [], sr_errors = 0\<rparr> r
     \<and> so_commands (sr_storage r) \<noteq> [] \<and> storage_durable ex_ext ex_storage_codec (sr_storage r)"
proof -
  let ?r0 = "\<lparr>sr_storage = ex_storage (Some ''[]''), sr_pending = 0, sr_writing = [], sr_errors = 0\<rparr>"
  let ?c = "ex_stored ''a''" and ?m = "[(''a'', ex_stored ''a'')]"
  let ?s = "\<lambda>file. (ex_storage file)\<lparr>so_commands := ?m\<rparr>"
  have 1: "storage_step ex_ext ex_storage_codec ?r0 \<lparr>sr_storage = ?s (Some ''[]''), sr_pending = 1, sr_writing = [], sr_errors = 0\<rparr>"
    using storage_step.Change_save [of ?r0 ex_ext ex_storage_codec ?c] by (simp add: ex_storage_def ex_stored_def)
  have 2: "storage_step ex_ext ex_storage_codec \<lparr>sr_storage = ?s (Some ''[]''), sr_pending = 1, sr_writing = [], sr_errors = 0\<rparr>
      \<lparr>sr_storage = ?s (Some ''[]''), sr_pending = 0, sr_writing = [''[a]''], sr_errors = 0\<rparr>"
    using storage_step.Encode [of "\<lparr>sr_storage = ?s (Some ''[]''), sr_pending = 1, sr_writing = [], sr_errors = 0\<rparr>" 0
        ex_storage_codec ex_ext "''[a]''"]
    by (simp add: ex_storage_simps)
  have 3: "storage_step ex_ext ex_storage_codec \<lparr>sr_storage = ?s (Some ''[]''), sr_pending = 0, sr_writing = [''[a]''], sr_errors = 0\<rparr>
      \<lparr>sr_storage = ?s (Some ''[a]''), sr_pending = 0, sr_writing = [], sr_errors = 0\<rparr>"
    using storage_step.Write [of "''[a]''" "\<lparr>sr_storage = ?s (Some ''[]''), sr_pending = 0, sr_writing = [''[a]''], sr_errors = 0\<rparr>"
        ex_ext ex_storage_codec]
    by (simp add: ex_storage_def)
  have run: "rtranclp (storage_step ex_ext ex_storage_codec) ?r0
      \<lparr>sr_storage = ?s (Some ''[a]''), sr_pending = 0, sr_writing = [], sr_errors = 0\<rparr>"
    using 1 2 3 by (meson rtranclp.intros)
  have "storage_durable ex_ext ex_storage_codec (sr_storage ?r0)"
    by (simp add: storage_durable_def ex_storage_simps)
  from storage_writes_agree [OF run this] show ?thesis using run by (fastforce simp: ex_storage_def)
qed

end
