(* ===== verification/Float64_Order.thy ===== *)
theory Float64_Order
  imports Float64
begin

text \<open>
  Comparisons of doubles. The linear order puts NaN on top; without NaN it is the order of
  Rust's \<open>PartialOrd\<close>, whose comparison operators are all false on NaN. Rounding is monotone.
\<close>

instantiation f64 :: linorder
begin

fun f64_class :: "f64 \<Rightarrow> nat" where
  "f64_class NegInf = 0"
| "f64_class (Fin a) = 1"
| "f64_class PosInf = 2"
| "f64_class NaN = 3"

definition f64_value :: "f64 \<Rightarrow> rat" where
  "f64_value x = (case x of Fin a \<Rightarrow> a | _ \<Rightarrow> 0)"

definition less_eq_f64 :: "f64 \<Rightarrow> f64 \<Rightarrow> bool" where
  "less_eq_f64 x y \<longleftrightarrow>
     f64_class x < f64_class y \<or> f64_class x = f64_class y \<and> f64_value x \<le> f64_value y"

definition less_f64 :: "f64 \<Rightarrow> f64 \<Rightarrow> bool" where
  "less_f64 x y \<longleftrightarrow> x \<le> y \<and> \<not> y \<le> (x :: f64)"

instance
proof
  fix x y z :: f64
  show "x \<le> y \<Longrightarrow> y \<le> x \<Longrightarrow> x = y"
    by (cases x; cases y) (auto simp: less_eq_f64_def f64_value_def)
qed (auto simp: less_f64_def less_eq_f64_def)

end

lemma Fin_le_iff [simp]: "Fin a \<le> Fin b \<longleftrightarrow> a \<le> b"
  by (simp add: less_eq_f64_def f64_value_def)

lemma Fin_le_PosInf [simp]: "Fin a \<le> PosInf"
  by (simp add: less_eq_f64_def)

text \<open>\<open>x >= y\<close>, \<open>f64::min\<close> and \<open>f64::max\<close>, which ignore a NaN.\<close>

definition f64_ge :: "f64 \<Rightarrow> f64 \<Rightarrow> bool" where
  "f64_ge x y \<longleftrightarrow> x \<noteq> NaN \<and> y \<noteq> NaN \<and> y \<le> x"

definition f64_min :: "f64 \<Rightarrow> f64 \<Rightarrow> f64" where
  "f64_min x y = (if x = NaN then y else if y = NaN then x else min x y)"

definition f64_max :: "f64 \<Rightarrow> f64 \<Rightarrow> f64" where
  "f64_max x y = (if x = NaN then y else if y = NaN then x else max x y)"

definition f64_MAX :: f64 where
  "f64_MAX = Fin (2 ^ 1024 - 2 ^ 971)"

definition f64_MIN :: f64 where
  "f64_MIN = Fin (- (2 ^ 1024 - 2 ^ 971))"

section \<open>The exponent\<close>

lemma pow2_pos [simp]: "0 < pow2 k"
  by (simp add: pow2_def)

lemma pow2_add: "pow2 (j + k) = pow2 j * pow2 k"
proof -
  have p: "pow2 k = 2 powi k" for k
    by (simp add: pow2_def power_int_def field_simps)
  show ?thesis by (simp add: p power_int_add)
qed

lemma pow2_mono: "j \<le> k \<Longrightarrow> pow2 j \<le> pow2 k"
proof -
  assume "j \<le> k"
  then obtain n where n: "k = j + int n" by (metis zle_iff_zadd)
  have "1 \<le> pow2 (int n)" by (simp add: pow2_def)
  then show ?thesis by (simp add: n pow2_add)
qed

lemma floorlog_2_bounds: "0 < n \<Longrightarrow> 2 ^ (floorlog 2 n - 1) \<le> n \<and> n < 2 ^ floorlog 2 n"
  using floorlog_bounds [of n 2] by simp

lemma pow2_int [simp]: "pow2 (int k) = 2 ^ k"
  by (simp add: pow2_def)

lemma pow2_int_Suc: "pow2 (int k + 1) = 2 ^ Suc k"
  using pow2_int [of "Suc k"] by (simp only: of_nat_Suc add.commute)

lemma pow2_minus_int: "pow2 (- int k) = 1 / 2 ^ k"
  by (cases k) (simp_all add: pow2_def nat_add_distrib)

lemma rat_exponent_bounds:
  assumes "0 < x"
  shows "pow2 (rat_exponent x) \<le> x \<and> x < pow2 (rat_exponent x + 1)"
proof (cases "1 \<le> x")
  case True
  define n where "n = nat \<lfloor>x\<rfloor>"
  have n: "0 < n" using True by (simp add: n_def)
  obtain k where k: "floorlog 2 n = Suc k" using n by (auto simp: floorlog_def)
  have b: "2 ^ k \<le> n" "n < 2 ^ Suc k" using floorlog_2_bounds [OF n] by (simp_all add: k)
  have e: "rat_exponent x = int k" using True by (simp add: rat_exponent_def n_def [symmetric] k)
  have x: "of_nat n \<le> x" "x < of_nat n + 1"
    using True floor_correct [of x] by (simp_all add: n_def)
  have "Suc n \<le> 2 ^ Suc k" using b(2) by simp
  then have "(of_nat (Suc n) :: rat) \<le> of_nat (2 ^ Suc k)" by (simp only: of_nat_le_iff)
  then have "of_nat n + 1 \<le> (2 ^ Suc k :: rat)" by (simp del: power_Suc)
  moreover have "(of_nat (2 ^ k) :: rat) \<le> x"
    by (rule order_trans [OF _ x(1)]) (use b(1) in \<open>simp only: of_nat_le_iff\<close>)
  then have "2 ^ k \<le> x" by simp
  ultimately show ?thesis unfolding e pow2_int pow2_int_Suc using x(2) by (simp del: power_Suc)
next
  case False
  define m where "m = nat (\<lceil>1 / x\<rceil> - 1)"
  have inv: "1 < 1 / x" using False assms by simp
  then have c: "2 \<le> \<lceil>1 / x\<rceil>" by linarith
  then have m: "0 < m" by (simp add: m_def)
  obtain k where k: "floorlog 2 m = Suc k" using m by (auto simp: floorlog_def)
  have b: "2 ^ k \<le> m" "m < 2 ^ Suc k" using floorlog_2_bounds [OF m] by (simp_all add: k)
  have e: "rat_exponent x = - int (Suc k)" using False by (simp add: rat_exponent_def m_def [symmetric] k)
  have mr: "(of_nat m :: rat) = of_int \<lceil>1 / x\<rceil> - 1" 
  proof -
    have "0 \<le> \<lceil>1 / x\<rceil> - 1" using c by linarith
    then show ?thesis by (simp only: m_def of_nat_nat of_int_diff of_int_1)
  qed
  have x: "of_nat m < 1 / x" "1 / x \<le> of_nat m + 1"
    unfolding mr using ceiling_correct [of "1 / x"] by simp_all
  have "Suc m \<le> 2 ^ Suc k" using b(2) by simp
  then have "(of_nat (Suc m) :: rat) \<le> of_nat (2 ^ Suc k)" by (simp only: of_nat_le_iff)
  then have up: "1 / x \<le> 2 ^ Suc k" using x(2) by (simp del: power_Suc)
  have "(of_nat (2 ^ k) :: rat) < 1 / x"
    by (rule le_less_trans [OF _ x(1)]) (use b(1) in \<open>simp only: of_nat_le_iff\<close>)
  then have lo: "2 ^ k < 1 / x" by simp
  have e1: "- int (Suc k) + 1 = - int k" by simp
  have "1 / 2 ^ Suc k \<le> x" using up assms by (simp add: field_simps del: power_Suc)
  moreover have "x < 1 / 2 ^ k" using lo assms by (simp add: field_simps)
  ultimately show ?thesis unfolding e e1 pow2_minus_int by blast
qed

section \<open>Monotonicity\<close>

lemma round_half_even_mono: "x \<le> y \<Longrightarrow> round_half_even x \<le> round_half_even y"
proof -
  assume xy: "x \<le> y"
  then have f: "\<lfloor>x\<rfloor> \<le> \<lfloor>y\<rfloor>" by (rule floor_mono)
  have r: "\<lfloor>z\<rfloor> \<le> round_half_even z" "round_half_even z \<le> \<lfloor>z\<rfloor> + 1" for z :: rat
    by (simp_all add: round_half_even_def Let_def)
  show ?thesis
  proof (cases "\<lfloor>x\<rfloor> = \<lfloor>y\<rfloor>")
    case True
    then show ?thesis using xy by (simp add: round_half_even_def Let_def)
  next
    case False
    then show ?thesis using f r(1) [of y] r(2) [of x] by simp
  qed
qed

lemma rat_exponent_mono: "0 < x \<Longrightarrow> x \<le> y \<Longrightarrow> rat_exponent x \<le> rat_exponent y"
proof (rule ccontr)
  assume xy: "0 < x" "x \<le> y" and n: "\<not> rat_exponent x \<le> rat_exponent y"
  then have "pow2 (rat_exponent y + 1) \<le> pow2 (rat_exponent x)" by (intro pow2_mono) simp
  then show False using rat_exponent_bounds [of x] rat_exponent_bounds [of y] xy by simp
qed

lemma pow2_shift: "pow2 (e + 1) = of_int (2 ^ 53) * pow2 (e - 52)" "pow2 e = of_int (2 ^ 52) * pow2 (e - 52)"
proof -
  have n: "pow2 53 = 2 ^ 53" "pow2 52 = 2 ^ 52" by (simp_all add: pow2_def)
  have e: "53 + (e - 52) = e + 1" "52 + (e - 52) = e" by simp_all
  show "pow2 (e + 1) = of_int (2 ^ 53) * pow2 (e - 52)" using pow2_add [of 53 "e - 52"] unfolding e n by simp
  show "pow2 e = of_int (2 ^ 52) * pow2 (e - 52)" using pow2_add [of 52 "e - 52"] unfolding e n by simp
qed

lemma pow2_nonzero [simp]: "pow2 k \<noteq> 0"
  using pow2_pos [of k] by linarith

lemma divide_pow2_mono: "x \<le> y \<Longrightarrow> x / pow2 k \<le> y / pow2 k"
  by (rule divide_right_mono [OF _ less_imp_le [OF pow2_pos]])

text \<open>The exact value rounding aims at, before overflow to infinity.\<close>

definition rounded :: "rat \<Rightarrow> rat" where
  "rounded x =
     (let u = pow2 (max (rat_exponent x) (- 1022) - 52) in of_int (round_half_even (x / u)) * u)"

lemma rounded_mono:
  assumes "0 < x" "x \<le> y"
  shows "rounded x \<le> rounded y"
proof -
  define ex where "ex = max (rat_exponent x) (- 1022)"
  define ey where "ey = max (rat_exponent y) (- 1022)"
  have le: "ex \<le> ey" using rat_exponent_mono [OF assms] by (auto simp: ex_def ey_def)
  have rx: "rounded x = of_int (round_half_even (x / pow2 (ex - 52))) * pow2 (ex - 52)"
    and ry: "rounded y = of_int (round_half_even (y / pow2 (ey - 52))) * pow2 (ey - 52)"
    by (simp_all add: rounded_def ex_def ey_def Let_def)
  show ?thesis
  proof (cases "ex = ey")
    case True
    have "x / pow2 (ey - 52) \<le> y / pow2 (ey - 52)" using assms(2) by (rule divide_pow2_mono)
    from round_half_even_mono [OF this] show ?thesis
      unfolding rx ry True by (intro mult_right_mono less_imp_le [OF pow2_pos]) simp
  next
    case False
    then have lt: "ex + 1 \<le> ey" using le by simp
    then have eyr: "ey = rat_exponent y" by (auto simp: ex_def ey_def)
    have "x < pow2 (rat_exponent x + 1)" using rat_exponent_bounds [OF assms(1)] by simp
    also have "\<dots> \<le> pow2 (ex + 1)" by (intro pow2_mono) (simp add: ex_def)
    finally have "x / pow2 (ex - 52) \<le> pow2 (ex + 1) / pow2 (ex - 52)" by (intro divide_pow2_mono less_imp_le)
    also have "\<dots> = of_int (2 ^ 53)" unfolding pow2_shift(1) by simp
    finally have "round_half_even (x / pow2 (ex - 52)) \<le> 2 ^ 53"
      using round_half_even_mono [of "x / pow2 (ex - 52)" "of_int (2 ^ 53)"] by (simp only: round_half_even_of_int)
    then have "of_int (round_half_even (x / pow2 (ex - 52))) \<le> (of_int (2 ^ 53) :: rat)" by (simp only: of_int_le_iff)
    then have "rounded x \<le> of_int (2 ^ 53) * pow2 (ex - 52)" unfolding rx by (intro mult_right_mono less_imp_le [OF pow2_pos])
    also have "\<dots> = pow2 (ex + 1)" by (rule pow2_shift(1) [symmetric])
    also have "\<dots> \<le> pow2 ey" using lt by (rule pow2_mono)
    finally have up: "rounded x \<le> pow2 ey" .
    have "pow2 ey \<le> y" using rat_exponent_bounds [of y] assms by (simp add: eyr)
    then have "pow2 ey / pow2 (ey - 52) \<le> y / pow2 (ey - 52)" by (rule divide_pow2_mono)
    moreover have "pow2 ey / pow2 (ey - 52) = of_int (2 ^ 52)" by (subst pow2_shift(2)) simp
    ultimately have "of_int (2 ^ 52) \<le> y / pow2 (ey - 52)" by simp
    then have "2 ^ 52 \<le> round_half_even (y / pow2 (ey - 52))"
      using round_half_even_mono [of "of_int (2 ^ 52)" "y / pow2 (ey - 52)"] by (simp only: round_half_even_of_int)
    then have "(of_int (2 ^ 52) :: rat) \<le> of_int (round_half_even (y / pow2 (ey - 52)))" by (simp only: of_int_le_iff)
    then have "of_int (2 ^ 52) * pow2 (ey - 52) \<le> rounded y" unfolding ry by (intro mult_right_mono less_imp_le [OF pow2_pos])
    moreover have "of_int (2 ^ 52) * pow2 (ey - 52) = pow2 ey" by (rule pow2_shift(2) [symmetric])
    ultimately show ?thesis using up by simp
  qed
qed

lemma rounded_nonneg: "0 < x \<Longrightarrow> 0 \<le> rounded x"
proof -
  assume "0 < x"
  let ?u = "pow2 (max (rat_exponent x) (- 1022) - 52)"
  have "0 \<le> x / ?u" using \<open>0 < x\<close> by (intro divide_nonneg_pos pow2_pos) simp
  then have "0 \<le> round_half_even (x / ?u)"
    using round_half_even_mono [of 0 "x / ?u"] round_half_even_of_int [of 0] by simp
  then show ?thesis unfolding rounded_def Let_def
    by (intro mult_nonneg_nonneg less_imp_le [OF pow2_pos]) simp
qed

lemma f64_round_pos: "0 < x \<Longrightarrow> f64_round x = (if 2 ^ 1024 \<le> rounded x then PosInf else Fin (rounded x))"
  using rounded_nonneg [of x] by (simp add: f64_round_def rounded_def Let_def)

lemma f64_round_mono: "0 < x \<Longrightarrow> x \<le> y \<Longrightarrow> f64_round x \<le> f64_round y"
  using rounded_mono [of x y] by (auto simp: f64_round_pos)

lemma f64_to_u64_mono: "x \<le> y \<Longrightarrow> y \<noteq> NaN \<Longrightarrow> f64_to_u64 x \<le> f64_to_u64 y"
  by (cases x; cases y) (auto simp: less_eq_f64_def f64_value_def min.coboundedI1 floor_mono nat_mono)

end
