(* ===== verification/Alerts.thy ===== *)
theory Alerts
  imports Float64_Order Job_Types
begin

text \<open>
  The alert manager of \<open>src/src/alerts.rs\<close>. A check returns the calls of callbacks it makes, in
  order; a callback is known by the value it was registered as. The text \<open>{:.2}\<close> of a double
  is an argument.
\<close>

datatype alert_level = InfoLevel | WarningLevel | CriticalLevel

fun alert_rank :: "alert_level \<Rightarrow> nat" where
  "alert_rank InfoLevel = 0"
| "alert_rank WarningLevel = 1"
| "alert_rank CriticalLevel = 2"

record alert =
  at_level :: alert_level
  at_lane_id :: string
  at_message :: string
  at_current_value :: f64
  at_threshold :: f64

record depth_alert_config =
  da_warning_threshold :: nat
  da_critical_threshold :: nat
  da_enabled :: bool

record latency_alert_config =
  la_warning_threshold_ms :: f64
  la_critical_threshold_ms :: f64
  la_enabled :: bool

record 'cb alert_manager =
  am_queue_depth_config :: depth_alert_config
  am_latency_config :: latency_alert_config
  am_callbacks :: "'cb list"

definition depth_alert_new :: "nat \<Rightarrow> nat \<Rightarrow> depth_alert_config" where
  "depth_alert_new warning critical =
     \<lparr>da_warning_threshold = warning, da_critical_threshold = critical, da_enabled = True\<rparr>"

definition depth_alert_disabled :: depth_alert_config where
  "depth_alert_disabled =
     \<lparr>da_warning_threshold = u64_max, da_critical_threshold = u64_max, da_enabled = False\<rparr>"

definition latency_alert_new :: "f64 \<Rightarrow> f64 \<Rightarrow> latency_alert_config" where
  "latency_alert_new warning critical =
     \<lparr>la_warning_threshold_ms = warning, la_critical_threshold_ms = critical, la_enabled = True\<rparr>"

definition latency_alert_disabled :: latency_alert_config where
  "latency_alert_disabled =
     \<lparr>la_warning_threshold_ms = f64_MAX, la_critical_threshold_ms = f64_MAX, la_enabled = False\<rparr>"

definition alert_manager_new :: "'cb alert_manager" where
  "alert_manager_new =
     \<lparr>am_queue_depth_config = depth_alert_disabled, am_latency_config = latency_alert_disabled,
      am_callbacks = []\<rparr>"

definition with_queue_depth_alerts :: "nat \<Rightarrow> nat \<Rightarrow> 'cb alert_manager" where
  "with_queue_depth_alerts warning critical =
     \<lparr>am_queue_depth_config = depth_alert_new warning critical, am_latency_config = latency_alert_disabled,
      am_callbacks = []\<rparr>"

definition with_latency_alerts :: "f64 \<Rightarrow> f64 \<Rightarrow> 'cb alert_manager" where
  "with_latency_alerts warning critical =
     \<lparr>am_queue_depth_config = depth_alert_disabled, am_latency_config = latency_alert_new warning critical,
      am_callbacks = []\<rparr>"

definition set_queue_depth_config :: "depth_alert_config \<Rightarrow> 'cb alert_manager \<Rightarrow> 'cb alert_manager" where
  "set_queue_depth_config c m = m\<lparr>am_queue_depth_config := c\<rparr>"

definition set_latency_config :: "latency_alert_config \<Rightarrow> 'cb alert_manager \<Rightarrow> 'cb alert_manager" where
  "set_latency_config c m = m\<lparr>am_latency_config := c\<rparr>"

definition add_callback :: "'cb \<Rightarrow> 'cb alert_manager \<Rightarrow> 'cb alert_manager" where
  "add_callback cb m = m\<lparr>am_callbacks := am_callbacks m @ [cb]\<rparr>"

text \<open>\<open>Clone\<close> makes a fresh manager.\<close>

definition clone_alert_manager :: "'cb alert_manager \<Rightarrow> 'cb alert_manager" where
  "clone_alert_manager m = alert_manager_new"

definition trigger_alert :: "alert \<Rightarrow> 'cb alert_manager \<Rightarrow> ('cb \<times> alert) list" where
  "trigger_alert a m = map (\<lambda>cb. (cb, a)) (am_callbacks m)"

definition check_queue_depth :: "string \<Rightarrow> nat \<Rightarrow> 'cb alert_manager \<Rightarrow> ('cb \<times> alert) list" where
  "check_queue_depth lane_id depth m =
     (let c = am_queue_depth_config m
      in if \<not> da_enabled c then []
         else if depth \<ge> da_critical_threshold c
         then trigger_alert
                \<lparr>at_level = CriticalLevel, at_lane_id = lane_id,
                 at_message = ''Queue depth critical: '' @ show_nat depth @ '' (threshold: ''
                   @ show_nat (da_critical_threshold c) @ '')'',
                 at_current_value = f64_of_nat depth, at_threshold = f64_of_nat (da_critical_threshold c)\<rparr> m
         else if depth \<ge> da_warning_threshold c
         then trigger_alert
                \<lparr>at_level = WarningLevel, at_lane_id = lane_id,
                 at_message = ''Queue depth warning: '' @ show_nat depth @ '' (threshold: ''
                   @ show_nat (da_warning_threshold c) @ '')'',
                 at_current_value = f64_of_nat depth, at_threshold = f64_of_nat (da_warning_threshold c)\<rparr> m
         else [])"

definition check_latency :: "(f64 \<Rightarrow> string) \<Rightarrow> string \<Rightarrow> f64 \<Rightarrow> 'cb alert_manager \<Rightarrow> ('cb \<times> alert) list" where
  "check_latency fmt2 lane_id latency_ms m =
     (let c = am_latency_config m
      in if \<not> la_enabled c then []
         else if f64_ge latency_ms (la_critical_threshold_ms c)
         then trigger_alert
                \<lparr>at_level = CriticalLevel, at_lane_id = lane_id,
                 at_message = ''Latency critical: '' @ fmt2 latency_ms @ ''ms (threshold: ''
                   @ fmt2 (la_critical_threshold_ms c) @ ''ms)'',
                 at_current_value = latency_ms, at_threshold = la_critical_threshold_ms c\<rparr> m
         else if f64_ge latency_ms (la_warning_threshold_ms c)
         then trigger_alert
                \<lparr>at_level = WarningLevel, at_lane_id = lane_id,
                 at_message = ''Latency warning: '' @ fmt2 latency_ms @ ''ms (threshold: ''
                   @ fmt2 (la_warning_threshold_ms c) @ ''ms)'',
                 at_current_value = latency_ms, at_threshold = la_warning_threshold_ms c\<rparr> m
         else [])"

section \<open>Properties\<close>

text \<open>
  While an enabled check raises alerts at all, every callback is called once, in the order of
  registration and with the same alert, and a greater depth never gives a lower level: the
  level is critical from the critical threshold on, and a warning from the warning threshold
  on when that is lower.
\<close>

theorem depth_alert_level:
  assumes "da_enabled (am_queue_depth_config m)"
    and "w = da_warning_threshold (am_queue_depth_config m)" "c = da_critical_threshold (am_queue_depth_config m)"
  shows "map fst (check_queue_depth i d m) = (if min w c \<le> d then am_callbacks m else [])
    \<and> (\<forall>(cb, a) \<in> set (check_queue_depth i d m).
         at_lane_id a = i \<and> at_current_value a = f64_of_nat d
         \<and> at_level a = (if c \<le> d then CriticalLevel else WarningLevel))
    \<and> (d \<le> d' \<longrightarrow> list_all2 (\<lambda>(cb, a) (cb', a'). cb = cb' \<and> alert_rank (at_level a) \<le> alert_rank (at_level a'))
         (check_queue_depth i d m) (take (length (check_queue_depth i d m)) (check_queue_depth i d' m)))"
  using assms
  by (auto simp: check_queue_depth_def trigger_alert_def Let_def comp_def list_all2_conv_all_nth)

theorem depth_alert_level_witness:
  "map (\<lambda>(cb, a). (cb, at_level a)) (check_queue_depth ''query'' 12 (add_callback True (add_callback False (with_queue_depth_alerts 10 20))))
     = [(False, WarningLevel), (True, WarningLevel)]"
proof -
  let ?m = "add_callback True (add_callback False (with_queue_depth_alerts 10 20))"
  have e: "da_enabled (am_queue_depth_config ?m)"
    by (simp add: add_callback_def with_queue_depth_alerts_def depth_alert_new_def)
  note l = depth_alert_level [OF e refl refl, of "''query''" 12 12]
  have "map fst (check_queue_depth ''query'' 12 ?m) = [False, True]"
    using l by (simp add: add_callback_def with_queue_depth_alerts_def depth_alert_new_def)
  then obtain a b where ab: "check_queue_depth ''query'' 12 ?m = [(False, a), (True, b)]" by auto
  then show ?thesis
    using l by (simp add: add_callback_def with_queue_depth_alerts_def depth_alert_new_def)
qed

text \<open>A latency that is not a number raises no alert.\<close>

lemma latency_nan_silent: "check_latency fmt2 i NaN m = []"
  by (simp add: check_latency_def f64_ge_def Let_def)

end
