(* ===== verification/Metrics.thy ===== *)
theory Metrics
  imports Float64_Order Job_Types "HOL-Library.Word"
begin

text \<open>
  The in-memory metrics of \<open>src/src/metrics.rs\<close> and the recorder that names them. A list that
  holds a NaN is sorted by a comparison that is no order, with an unspecified result: it is the
  argument \<open>nan_sort\<close>. A counter is a \<open>u64\<close> whose addition wraps, as in a release build.
\<close>

section \<open>Histograms\<close>

record percentiles =
  pc_p50 :: f64
  pc_p90 :: f64
  pc_p95 :: f64
  pc_p99 :: f64

record histogram_stats =
  hs_count :: nat
  hs_sum :: f64
  hs_min :: f64
  hs_max :: f64
  hs_mean :: f64
  hs_percentiles :: percentiles

record histogram_data =
  hd_values :: "f64 list"
  hd_stats :: histogram_stats

definition percentiles_default :: percentiles where
  "percentiles_default = \<lparr>pc_p50 = Fin 0, pc_p90 = Fin 0, pc_p95 = Fin 0, pc_p99 = Fin 0\<rparr>"

definition histogram_stats_new :: histogram_stats where
  "histogram_stats_new =
     \<lparr>hs_count = 0, hs_sum = Fin 0, hs_min = f64_MAX, hs_max = f64_MIN, hs_mean = Fin 0,
      hs_percentiles = percentiles_default\<rparr>"

definition histogram_data_new :: histogram_data where
  "histogram_data_new = \<lparr>hd_values = [], hd_stats = histogram_stats_new\<rparr>"

definition sort_values :: "(f64 list \<Rightarrow> f64 list) \<Rightarrow> f64 list \<Rightarrow> f64 list" where
  "sort_values nan_sort xs = (if NaN \<in> set xs then nan_sort xs else sort_key (\<lambda>x. x) xs)"

definition percentile_index :: "nat \<Rightarrow> f64 \<Rightarrow> nat" where
  "percentile_index len p = min (f64_to_u64 (f64_mul (f64_of_nat len) p)) (len - 1)"

definition percentile :: "f64 list \<Rightarrow> nat \<Rightarrow> f64 \<Rightarrow> f64" where
  "percentile vs len p = (if len = 0 then Fin 0 else vs ! percentile_index len p)"

text \<open>The literals \<open>0.50\<close>, \<open>0.90\<close>, \<open>0.95\<close> and \<open>0.99\<close>.\<close>

definition update_percentiles :: "(f64 list \<Rightarrow> f64 list) \<Rightarrow> histogram_data \<Rightarrow> histogram_data" where
  "update_percentiles nan_sort h =
     (if hd_values h = [] then h
      else let vs = sort_values nan_sort (hd_values h); len = length vs
           in h\<lparr>hd_stats := (hd_stats h)\<lparr>hs_percentiles :=
                \<lparr>pc_p50 = percentile vs len (f64_round (1 / 2)), pc_p90 = percentile vs len (f64_round (9 / 10)),
                 pc_p95 = percentile vs len (f64_round (95 / 100)), pc_p99 = percentile vs len (f64_round (99 / 100))\<rparr>\<rparr>\<rparr>)"

definition histogram_record :: "(f64 list \<Rightarrow> f64 list) \<Rightarrow> f64 \<Rightarrow> histogram_data \<Rightarrow> histogram_data" where
  "histogram_record nan_sort v h =
     (let st = hd_stats h; n = hs_count st + 1; s = f64_add (hs_sum st) v
      in update_percentiles nan_sort
           \<lparr>hd_values = hd_values h @ [v],
            hd_stats = st\<lparr>hs_count := n, hs_sum := s, hs_min := f64_min (hs_min st) v,
              hs_max := f64_max (hs_max st) v, hs_mean := f64_div s (f64_of_nat n)\<rparr>\<rparr>)"

section \<open>The local backend\<close>

record local_metrics =
  lm_counters :: "(string, 64 word) hmap"
  lm_gauges :: "(string, f64) hmap"
  lm_histograms :: "(string, histogram_data) hmap"

record metrics_snapshot =
  sn_counters :: "(string, 64 word) hmap"
  sn_gauges :: "(string, f64) hmap"
  sn_histograms :: "(string, histogram_stats) hmap"

definition local_metrics_new :: local_metrics where
  "local_metrics_new = \<lparr>lm_counters = [], lm_gauges = [], lm_histograms = []\<rparr>"

definition increment_counter :: "string \<Rightarrow> 64 word \<Rightarrow> local_metrics \<Rightarrow> local_metrics" where
  "increment_counter nm v m =
     m\<lparr>lm_counters := AList.update nm ((case map_of (lm_counters m) nm of Some n \<Rightarrow> n | None \<Rightarrow> 0) + v) (lm_counters m)\<rparr>"

definition set_gauge :: "string \<Rightarrow> f64 \<Rightarrow> local_metrics \<Rightarrow> local_metrics" where
  "set_gauge nm v m = m\<lparr>lm_gauges := AList.update nm v (lm_gauges m)\<rparr>"

definition record_histogram :: "(f64 list \<Rightarrow> f64 list) \<Rightarrow> string \<Rightarrow> f64 \<Rightarrow> local_metrics \<Rightarrow> local_metrics" where
  "record_histogram nan_sort nm v m =
     m\<lparr>lm_histograms :=
         AList.update nm
           (histogram_record nan_sort v
              (case map_of (lm_histograms m) nm of Some h \<Rightarrow> h | None \<Rightarrow> histogram_data_new))
           (lm_histograms m)\<rparr>"

definition get_counter :: "string \<Rightarrow> local_metrics \<Rightarrow> 64 word option" where
  "get_counter nm m = map_of (lm_counters m) nm"

definition get_gauge :: "string \<Rightarrow> local_metrics \<Rightarrow> f64 option" where
  "get_gauge nm m = map_of (lm_gauges m) nm"

definition get_histogram_stats :: "string \<Rightarrow> local_metrics \<Rightarrow> histogram_stats option" where
  "get_histogram_stats nm m = map_option hd_stats (map_of (lm_histograms m) nm)"

definition reset_metrics :: "local_metrics \<Rightarrow> local_metrics" where
  "reset_metrics m = \<lparr>lm_counters = [], lm_gauges = [], lm_histograms = []\<rparr>"

definition metrics_snapshot_of :: "local_metrics \<Rightarrow> metrics_snapshot" where
  "metrics_snapshot_of m =
     \<lparr>sn_counters = lm_counters m, sn_gauges = lm_gauges m,
      sn_histograms = map (\<lambda>(k, h). (k, hd_stats h)) (lm_histograms m)\<rparr>"

section \<open>The recorder\<close>

definition COMMANDS_SUBMITTED :: string where "COMMANDS_SUBMITTED = ''lane.commands.submitted''"
definition COMMANDS_COMPLETED :: string where "COMMANDS_COMPLETED = ''lane.commands.completed''"
definition COMMANDS_FAILED :: string where "COMMANDS_FAILED = ''lane.commands.failed''"
definition COMMANDS_TIMEOUT :: string where "COMMANDS_TIMEOUT = ''lane.commands.timeout''"
definition COMMANDS_RETRIED :: string where "COMMANDS_RETRIED = ''lane.commands.retried''"
definition COMMANDS_DEAD_LETTERED :: string where "COMMANDS_DEAD_LETTERED = ''lane.commands.dead_lettered''"
definition QUEUE_DEPTH :: string where "QUEUE_DEPTH = ''lane.queue.depth''"
definition QUEUE_ACTIVE :: string where "QUEUE_ACTIVE = ''lane.queue.active''"
definition COMMAND_LATENCY :: string where "COMMAND_LATENCY = ''lane.command.latency_ms''"
definition COMMAND_WAIT_TIME :: string where "COMMAND_WAIT_TIME = ''lane.command.wait_time_ms''"

text \<open>\<open>format!("{}.{}", name, lane_id)\<close>.\<close>

definition lane_metric :: "string \<Rightarrow> string \<Rightarrow> string" where
  "lane_metric nm lane_id = nm @ ''.'' @ lane_id"

definition count_twice :: "string \<Rightarrow> string \<Rightarrow> local_metrics \<Rightarrow> local_metrics" where
  "count_twice nm lane_id m = increment_counter (lane_metric nm lane_id) 1 (increment_counter nm 1 m)"

definition observe_twice ::
  "(f64 list \<Rightarrow> f64 list) \<Rightarrow> string \<Rightarrow> string \<Rightarrow> f64 \<Rightarrow> local_metrics \<Rightarrow> local_metrics" where
  "observe_twice nan_sort nm lane_id v m =
     record_histogram nan_sort (lane_metric nm lane_id) v (record_histogram nan_sort nm v m)"

definition record_submit :: "string \<Rightarrow> local_metrics \<Rightarrow> local_metrics" where
  "record_submit lane_id m = count_twice COMMANDS_SUBMITTED lane_id m"

definition record_complete :: "(f64 list \<Rightarrow> f64 list) \<Rightarrow> string \<Rightarrow> f64 \<Rightarrow> local_metrics \<Rightarrow> local_metrics" where
  "record_complete nan_sort lane_id latency_ms m =
     observe_twice nan_sort COMMAND_LATENCY lane_id latency_ms (count_twice COMMANDS_COMPLETED lane_id m)"

definition record_failure :: "string \<Rightarrow> local_metrics \<Rightarrow> local_metrics" where
  "record_failure lane_id m = count_twice COMMANDS_FAILED lane_id m"

definition record_timeout :: "string \<Rightarrow> local_metrics \<Rightarrow> local_metrics" where
  "record_timeout lane_id m = count_twice COMMANDS_TIMEOUT lane_id m"

definition record_retry :: "string \<Rightarrow> local_metrics \<Rightarrow> local_metrics" where
  "record_retry lane_id m = count_twice COMMANDS_RETRIED lane_id m"

definition record_dead_letter :: "string \<Rightarrow> local_metrics \<Rightarrow> local_metrics" where
  "record_dead_letter lane_id m = count_twice COMMANDS_DEAD_LETTERED lane_id m"

definition set_queue_depth :: "string \<Rightarrow> nat \<Rightarrow> local_metrics \<Rightarrow> local_metrics" where
  "set_queue_depth lane_id depth m = set_gauge (lane_metric QUEUE_DEPTH lane_id) (f64_of_nat depth) m"

definition set_active_commands :: "string \<Rightarrow> nat \<Rightarrow> local_metrics \<Rightarrow> local_metrics" where
  "set_active_commands lane_id active m = set_gauge (lane_metric QUEUE_ACTIVE lane_id) (f64_of_nat active) m"

definition record_wait_time :: "(f64 list \<Rightarrow> f64 list) \<Rightarrow> string \<Rightarrow> f64 \<Rightarrow> local_metrics \<Rightarrow> local_metrics" where
  "record_wait_time nan_sort lane_id wait_time_ms m = observe_twice nan_sort COMMAND_WAIT_TIME lane_id wait_time_ms m"

section \<open>Counters\<close>

text \<open>What a recorder call counts.\<close>

datatype metric_call =
    Record_submit string | Record_complete string f64 | Record_failure string | Record_timeout string
  | Record_retry string | Record_dead_letter string | Set_queue_depth string nat
  | Set_active_commands string nat | Record_wait_time string f64

fun run_metric :: "(f64 list \<Rightarrow> f64 list) \<Rightarrow> metric_call \<Rightarrow> local_metrics \<Rightarrow> local_metrics" where
  "run_metric ns (Record_submit l) = record_submit l"
| "run_metric ns (Record_complete l v) = record_complete ns l v"
| "run_metric ns (Record_failure l) = record_failure l"
| "run_metric ns (Record_timeout l) = record_timeout l"
| "run_metric ns (Record_retry l) = record_retry l"
| "run_metric ns (Record_dead_letter l) = record_dead_letter l"
| "run_metric ns (Set_queue_depth l n) = set_queue_depth l n"
| "run_metric ns (Set_active_commands l n) = set_active_commands l n"
| "run_metric ns (Record_wait_time l v) = record_wait_time ns l v"

fun counted :: "metric_call \<Rightarrow> (string \<times> string) option" where
  "counted (Record_submit l) = Some (COMMANDS_SUBMITTED, l)"
| "counted (Record_complete l v) = Some (COMMANDS_COMPLETED, l)"
| "counted (Record_failure l) = Some (COMMANDS_FAILED, l)"
| "counted (Record_timeout l) = Some (COMMANDS_TIMEOUT, l)"
| "counted (Record_retry l) = Some (COMMANDS_RETRIED, l)"
| "counted (Record_dead_letter l) = Some (COMMANDS_DEAD_LETTERED, l)"
| "counted _ = None"

definition counter_names :: "string list" where
  "counter_names = [COMMANDS_SUBMITTED, COMMANDS_COMPLETED, COMMANDS_FAILED, COMMANDS_TIMEOUT,
     COMMANDS_RETRIED, COMMANDS_DEAD_LETTERED]"

definition counter_value :: "string \<Rightarrow> local_metrics \<Rightarrow> 64 word" where
  "counter_value nm m = (case get_counter nm m of Some n \<Rightarrow> n | None \<Rightarrow> 0)"

lemmas counter_name_defs =
  counter_names_def COMMANDS_SUBMITTED_def COMMANDS_COMPLETED_def COMMANDS_FAILED_def COMMANDS_TIMEOUT_def
  COMMANDS_RETRIED_def COMMANDS_DEAD_LETTERED_def

text \<open>No counter of a lane has the name of a total or of another lane's counter.\<close>

lemma lane_metric_inj:
  "a \<in> set counter_names \<Longrightarrow> b \<in> set counter_names \<Longrightarrow> lane_metric a l = lane_metric b k \<longleftrightarrow> a = b \<and> l = k"
  by (auto simp: counter_name_defs lane_metric_def)

lemma lane_metric_not_total:
  "a \<in> set counter_names \<Longrightarrow> b \<in> set counter_names \<Longrightarrow> lane_metric a l \<noteq> b"
  by (auto simp: counter_name_defs lane_metric_def)

lemma counter_value_increment:
  "counter_value nm (increment_counter nm' v m) = counter_value nm m + (if nm = nm' then v else 0)"
  by (auto simp: counter_value_def get_counter_def increment_counter_def map_of_update split: option.split)

lemma counter_value_other [simp]:
  "counter_value nm (set_gauge g x m) = counter_value nm m"
  "counter_value nm (record_histogram ns h x m) = counter_value nm m"
  "counter_value nm (observe_twice ns h l x m) = counter_value nm m"
  by (simp_all add: counter_value_def get_counter_def set_gauge_def record_histogram_def observe_twice_def)

lemma counted_name: "counted c = Some (b, l) \<Longrightarrow> b \<in> set counter_names"
  by (cases c) (auto simp: counter_names_def)

lemma counter_value_run:
  "counter_value nm (run_metric ns c m) = counter_value nm m +
     (case counted c of None \<Rightarrow> 0
      | Some (b, l) \<Rightarrow> (if nm = b then 1 else 0) + (if nm = lane_metric b l then 1 else 0))"
  by (cases c)
     (simp_all add: record_submit_def record_complete_def record_failure_def record_timeout_def record_retry_def
       record_dead_letter_def set_queue_depth_def set_active_commands_def record_wait_time_def count_twice_def
       counter_value_increment)

text \<open>
  The counters are exact: after any sequence of recorder calls the total of each kind of event
  is the number of its calls, and the counter of each lane the number of those for the lane, up
  to the wrap-around at \<open>2 ^ 64\<close>.
\<close>

theorem counters_exact:
  assumes "b \<in> set counter_names" "m = fold (run_metric ns) calls local_metrics_new"
  shows "counter_value b m = of_nat (length (filter (\<lambda>c. \<exists>l. counted c = Some (b, l)) calls))
    \<and> counter_value (lane_metric b l) m = of_nat (length (filter (\<lambda>c. counted c = Some (b, l)) calls))"
proof -
  have start: "counter_value nm local_metrics_new = 0" for nm
    by (simp add: counter_value_def get_counter_def local_metrics_new_def)
  have total: "counter_value b (run_metric ns c m) = counter_value b m + (if \<exists>l. counted c = Some (b, l) then 1 else 0)"
    for c m
    using assms(1) counted_name [of c] lane_metric_not_total [of _ b]
    by (auto simp: counter_value_run split: option.split)
  have lane: "counter_value (lane_metric b l) (run_metric ns c m)
      = counter_value (lane_metric b l) m + (if counted c = Some (b, l) then 1 else 0)" for c m
    using assms(1) counted_name [of c] lane_metric_not_total [of b _ l] lane_metric_inj [of b _ l]
    by (auto simp: counter_value_run split: option.split)
  have "counter_value b (fold (run_metric ns) calls m) = counter_value b m
      + of_nat (length (filter (\<lambda>c. \<exists>l. counted c = Some (b, l)) calls))" for m
    by (induction calls arbitrary: m) (simp_all add: total)
  moreover have "counter_value (lane_metric b l) (fold (run_metric ns) calls m) = counter_value (lane_metric b l) m
      + of_nat (length (filter (\<lambda>c. counted c = Some (b, l)) calls))" for m
    by (induction calls arbitrary: m) (simp_all add: lane)
  ultimately show ?thesis by (simp add: assms(2) start)
qed

theorem counters_exact_witness:
  "counter_value COMMANDS_SUBMITTED
     (fold (run_metric id) [Record_submit ''a'', Record_failure ''a'', Record_submit ''b''] local_metrics_new) = 2"
proof -
  have b: "COMMANDS_SUBMITTED \<in> set counter_names" by (simp add: counter_names_def)
  show ?thesis
    using counters_exact [OF b refl, of id "[Record_submit ''a'', Record_failure ''a'', Record_submit ''b'']"]
    by (simp add: counter_name_defs)
qed

section \<open>Percentiles\<close>

lemma f64_round_mono_0: "0 \<le> x \<Longrightarrow> x \<le> y \<Longrightarrow> f64_round x \<le> f64_round y"
proof (cases "x = 0")
  case True
  assume "x \<le> y"
  then show ?thesis using True rounded_nonneg [of y]
    by (cases "y = 0") (simp_all add: f64_round_pos, simp add: f64_round_def)
qed (simp add: f64_round_mono)

text \<open>A literal between 0 and 1 is a finite double, and literals keep their order.\<close>

lemma f64_literal: "0 < p \<Longrightarrow> p \<le> 1 \<Longrightarrow> f64_round p = Fin (rounded p)"
  using f64_round_mono [of p 1] f64_round_small_nat [of 1]
  by (auto simp: f64_round_pos less_eq_f64_def split: if_splits)

lemma percentile_index_mono:
  assumes "len < 2 ^ 53" "0 < p" "p \<le> r" "r \<le> 1"
  shows "percentile_index len (f64_round p) \<le> percentile_index len (f64_round r)"
proof -
  have l: "f64_of_nat len = Fin (of_nat len)" using assms(1) by (simp add: f64_of_nat_def f64_round_small_nat)
  have "f64_round (of_nat len * rounded p) \<le> f64_round (of_nat len * rounded r)"
    using rounded_mono [of p r] rounded_nonneg [of p] assms(2,3)
    by (intro f64_round_mono_0 mult_left_mono mult_nonneg_nonneg) simp_all
  moreover have "f64_round (of_nat len * rounded r) \<noteq> NaN" by (simp add: f64_round_def Let_def)
  ultimately have "f64_to_u64 (f64_round (of_nat len * rounded p)) \<le> f64_to_u64 (f64_round (of_nat len * rounded r))"
    by (rule f64_to_u64_mono)
  then show ?thesis
    using f64_literal [of p] f64_literal [of r] assms by (simp add: percentile_index_def l min.coboundedI1 min_le_iff_disj)
qed

lemma percentile_index_less: "0 < len \<Longrightarrow> percentile_index len p < len"
  by (auto simp: percentile_index_def min_def)

lemma percentile_mono:
  assumes "sorted_wrt (\<le>) xs" "len = length xs" "len < 2 ^ 53" "0 < len" "0 < p" "p \<le> r" "r \<le> 1"
  shows "percentile xs len (f64_round p) \<le> percentile xs len (f64_round r)"
  using assms percentile_index_mono [of len p r] percentile_index_less [of len]
  by (simp add: percentile_def sorted_nth_mono)

lemma percentile_in: "xs \<noteq> [] \<Longrightarrow> percentile xs (length xs) p \<in> set xs"
  using percentile_index_less [of "length xs"] by (simp add: percentile_def)

definition recorded :: "(f64 list \<Rightarrow> f64 list) \<Rightarrow> f64 list \<Rightarrow> histogram_data" where
  "recorded ns vs = fold (histogram_record ns) vs histogram_data_new"

lemma histogram_record_fields [simp]:
  "hd_values (histogram_record ns v h) = hd_values h @ [v]"
  "hs_count (hd_stats (histogram_record ns v h)) = hs_count (hd_stats h) + 1"
  "hs_min (hd_stats (histogram_record ns v h)) = f64_min (hs_min (hd_stats h)) v"
  "hs_max (hd_stats (histogram_record ns v h)) = f64_max (hs_max (hd_stats h)) v"
  by (simp_all add: histogram_record_def update_percentiles_def Let_def)

lemma recorded_values: "hd_values (recorded ns vs) = vs \<and> hs_count (hd_stats (recorded ns vs)) = length vs"
  by (induction vs rule: rev_induct) (simp_all add: recorded_def histogram_data_new_def histogram_stats_new_def)

lemma recorded_extremes:
  "\<forall>v \<in> set vs. v \<noteq> NaN \<Longrightarrow>
     hs_min (hd_stats (recorded ns vs)) \<noteq> NaN \<and> hs_max (hd_stats (recorded ns vs)) \<noteq> NaN
     \<and> (\<forall>v \<in> set vs. hs_min (hd_stats (recorded ns vs)) \<le> v \<and> v \<le> hs_max (hd_stats (recorded ns vs)))"
proof (induction vs rule: rev_induct)
  case Nil
  show ?case by (simp add: recorded_def histogram_data_new_def histogram_stats_new_def f64_MAX_def f64_MIN_def)
next
  case (snoc v vs)
  then show ?case
    by (auto simp: recorded_def f64_min_def f64_max_def min_def max_def)
qed

text \<open>
  The percentiles of a histogram are recorded values in ascending order between the minimum and
  the maximum, for any number of recorded values below \<open>2 ^ 53\<close> without a NaN.
\<close>

theorem percentiles_ordered:
  assumes "vs \<noteq> []" "NaN \<notin> set vs" "length vs < 2 ^ 53"
    and "st = hd_stats (fold (histogram_record ns) vs histogram_data_new)" "pc = hs_percentiles st"
  shows "hs_count st = length vs
    \<and> hs_min st \<le> pc_p50 pc \<and> pc_p50 pc \<le> pc_p90 pc \<and> pc_p90 pc \<le> pc_p95 pc \<and> pc_p95 pc \<le> pc_p99 pc
    \<and> pc_p99 pc \<le> hs_max st
    \<and> {pc_p50 pc, pc_p90 pc, pc_p95 pc, pc_p99 pc} \<subseteq> set vs"
proof -
  have st: "st = hd_stats (recorded ns vs)" by (simp add: assms(4) recorded_def)
  let ?xs = "sort_key (\<lambda>x. x) vs"
  obtain v us where vs: "vs = us @ [v]" using assms(1) by (cases vs rule: rev_cases) auto
  have "pc = \<lparr>pc_p50 = percentile ?xs (length ?xs) (f64_round (1 / 2)), pc_p90 = percentile ?xs (length ?xs) (f64_round (9 / 10)),
      pc_p95 = percentile ?xs (length ?xs) (f64_round (95 / 100)), pc_p99 = percentile ?xs (length ?xs) (f64_round (99 / 100))\<rparr>"
    using assms(2) recorded_values [of ns us]
    by (simp add: assms(5) st vs recorded_def histogram_record_def update_percentiles_def sort_values_def Let_def
        del: sort_key_simps)
  moreover have "sorted_wrt (\<le>) ?xs" "set ?xs = set vs" by (simp_all add: sorted_sort)
  moreover from this(2) have "?xs \<noteq> []" using assms(1) by (metis set_empty)
  moreover have "\<forall>v \<in> set vs. hs_min st \<le> v \<and> v \<le> hs_max st"
    using recorded_extremes [of vs ns] assms(2) by (auto simp: st)
  ultimately show ?thesis
    using percentile_mono [of ?xs "length ?xs"] percentile_in [of ?xs] recorded_values [of ns vs] assms(1,3)
    by (simp add: st)
qed

theorem percentiles_ordered_witness:
  "let st = hd_stats (fold (histogram_record id) [Fin 5, Fin 1, Fin 3] histogram_data_new)
   in hs_count st = 3 \<and> hs_min st \<le> pc_p50 (hs_percentiles st) \<and> pc_p99 (hs_percentiles st) \<le> hs_max st"
  using percentiles_ordered [of "[Fin 5, Fin 1, Fin 3]", OF _ _ _ refl refl, of id]
  unfolding Let_def by simp

end
