(* ===== verification/Distributed_Queue.thy ===== *)
theory Distributed_Queue
  imports Partition Job_Types "HOL-Library.Sublist" "HOL-Library.Multiset"
begin

text \<open>
  The local distributed queue and its worker pool (\<open>src/src/distributed.rs\<close>): one bounded channel
  per partition and one for results. A send into a full channel waits, which is \<open>None\<close>. The pool
  has one task per partition for each call of \<open>start\<close>.
\<close>

section \<open>The queue\<close>

record command_envelope =
  ce_id :: string
  ce_command_type :: string
  ce_lane_id :: string
  ce_partition_id :: partition_id
  ce_payload :: json
  ce_retry_count :: nat
  ce_created_at :: instant

record command_result =
  cr_command_id :: string
  cr_result :: "string + json"
  cr_worker_id :: string
  cr_duration_ms :: nat

record distributed_queue =
  dq_worker_id :: string
  dq_partition_config :: partition_config
  dq_partitioner :: partitioner_state
  dq_partitions :: "command_envelope list list"
  dq_results :: "command_result list"

text \<open>The buffer size of every channel.\<close>

definition channel_capacity :: nat where
  "channel_capacity = 1000"

definition distributed_new :: "partition_config \<Rightarrow> string \<Rightarrow> distributed_queue" where
  "distributed_new c uuid =
     \<lparr>dq_worker_id = ''local-'' @ uuid, dq_partition_config = c, dq_partitioner = create_partitioner c,
      dq_partitions = replicate (pc_num_partitions c) [], dq_results = []\<rparr>"

definition distributed_auto :: "nat \<Rightarrow> string \<Rightarrow> distributed_queue" where
  "distributed_auto num_cpus uuid = distributed_new (partition_config_auto num_cpus) uuid"

definition invalid_partition :: "partition_id \<Rightarrow> lane_error" where
  "invalid_partition p = Other (''Invalid partition ID: '' @ show_nat p)"

definition distributed_enqueue ::
  "command_envelope \<Rightarrow> distributed_queue \<Rightarrow> (unit result \<times> distributed_queue) option" where
  "distributed_enqueue e q =
     (let p = ce_partition_id e
      in if p \<ge> length (dq_partitions q) then Some (Inl (invalid_partition p), q)
         else if length (dq_partitions q ! p) \<ge> channel_capacity then None
         else Some (Inr (), q\<lparr>dq_partitions := (dq_partitions q)[p := dq_partitions q ! p @ [e]]\<rparr>))"

definition distributed_dequeue ::
  "partition_id \<Rightarrow> distributed_queue \<Rightarrow> command_envelope option result \<times> distributed_queue" where
  "distributed_dequeue p q =
     (if p \<ge> length (dq_partitions q) then (Inl (invalid_partition p), q)
      else case dq_partitions q ! p of
             [] \<Rightarrow> (Inr None, q)
           | e # es \<Rightarrow> (Inr (Some e), q\<lparr>dq_partitions := (dq_partitions q)[p := es]\<rparr>))"

definition distributed_complete ::
  "command_result \<Rightarrow> distributed_queue \<Rightarrow> (unit result \<times> distributed_queue) option" where
  "distributed_complete r q =
     (if length (dq_results q) \<ge> channel_capacity then None
      else Some (Inr (), q\<lparr>dq_results := dq_results q @ [r]\<rparr>))"

definition distributed_num_partitions :: "distributed_queue \<Rightarrow> nat" where
  "distributed_num_partitions q = pc_num_partitions (dq_partition_config q)"

section \<open>The worker pool\<close>

text \<open>A worker between two awaits: looking for work, executing, reporting, or gone.\<close>

datatype worker_state = Polling | Working command_envelope | Reporting command_result | Stopped

record worker_pool =
  wp_queue :: distributed_queue
  wp_workers :: "(partition_id \<times> worker_state) list"
  wp_shutdown :: bool

definition pool_new :: "distributed_queue \<Rightarrow> worker_pool" where
  "pool_new q = \<lparr>wp_queue = q, wp_workers = [], wp_shutdown = False\<rparr>"

definition pool_start :: "worker_pool \<Rightarrow> worker_pool" where
  "pool_start w =
     w\<lparr>wp_workers := wp_workers w @ map (\<lambda>p. (p, Polling)) [0..<distributed_num_partitions (wp_queue w)]\<rparr>"

text \<open>The start of an iteration: an error of \<open>dequeue\<close> is slept over like an empty channel.\<close>

definition worker_poll :: "nat \<Rightarrow> worker_pool \<Rightarrow> worker_pool" where
  "worker_poll n w =
     (let p = fst (wp_workers w ! n)
      in if wp_shutdown w then w\<lparr>wp_workers := (wp_workers w)[n := (p, Stopped)]\<rparr>
         else case distributed_dequeue p (wp_queue w) of
                (Inr (Some e), q) \<Rightarrow> w\<lparr>wp_queue := q, wp_workers := (wp_workers w)[n := (p, Working e)]\<rparr>
              | (_, q) \<Rightarrow> w\<lparr>wp_queue := q\<rparr>)"

text \<open>The executor returned.\<close>

definition worker_executed :: "nat \<Rightarrow> command_envelope \<Rightarrow> string + json \<Rightarrow> nat \<Rightarrow> worker_pool \<Rightarrow> worker_pool" where
  "worker_executed n e r duration_ms w =
     w\<lparr>wp_workers := (wp_workers w)[n := (fst (wp_workers w ! n),
         Reporting \<lparr>cr_command_id = ce_id e, cr_result = r, cr_worker_id = dq_worker_id (wp_queue w),
           cr_duration_ms = duration_ms mod 2 ^ 64\<rparr>)]\<rparr>"

definition worker_report :: "nat \<Rightarrow> command_result \<Rightarrow> worker_pool \<Rightarrow> worker_pool option" where
  "worker_report n r w =
     map_option (\<lambda>(_, q). w\<lparr>wp_queue := q, wp_workers := (wp_workers w)[n := (fst (wp_workers w ! n), Polling)]\<rparr>)
       (distributed_complete r (wp_queue w))"

text \<open>\<open>shutdown\<close> sets the flag and then waits for every task; it returns when all have stopped.\<close>

definition begin_pool_shutdown :: "worker_pool \<Rightarrow> worker_pool" where
  "begin_pool_shutdown w = w\<lparr>wp_shutdown := True\<rparr>"

definition end_pool_shutdown :: "worker_pool \<Rightarrow> worker_pool option" where
  "end_pool_shutdown w =
     (if list_all (\<lambda>(_, st). st = Stopped) (wp_workers w) then Some (w\<lparr>wp_workers := []\<rparr>) else None)"

definition pool_is_running :: "worker_pool \<Rightarrow> bool" where
  "pool_is_running w \<longleftrightarrow> wp_workers w \<noteq> [] \<and> \<not> wp_shutdown w"

section \<open>Runs\<close>

text \<open>A pool with what was accepted by \<open>enqueue\<close> and what was collected from the result channel.\<close>

record pool_run =
  pr_pool :: worker_pool
  pr_accepted :: "command_envelope list"
  pr_collected :: "command_result list"

inductive pool_step :: "pool_run \<Rightarrow> pool_run \<Rightarrow> bool" where
  Enqueue: "distributed_enqueue e (wp_queue (pr_pool r)) = Some (Inr (), q) \<Longrightarrow>
    pool_step r (r\<lparr>pr_pool := (pr_pool r)\<lparr>wp_queue := q\<rparr>, pr_accepted := pr_accepted r @ [e]\<rparr>)"
| Start: "pool_step r (r\<lparr>pr_pool := pool_start (pr_pool r)\<rparr>)"
| Poll: "n < length (wp_workers (pr_pool r)) \<Longrightarrow> snd (wp_workers (pr_pool r) ! n) = Polling \<Longrightarrow>
    pool_step r (r\<lparr>pr_pool := worker_poll n (pr_pool r)\<rparr>)"
| Executed: "n < length (wp_workers (pr_pool r)) \<Longrightarrow> snd (wp_workers (pr_pool r) ! n) = Working e \<Longrightarrow>
    pool_step r (r\<lparr>pr_pool := worker_executed n e res ms (pr_pool r)\<rparr>)"
| Report: "n < length (wp_workers (pr_pool r)) \<Longrightarrow> snd (wp_workers (pr_pool r) ! n) = Reporting cr \<Longrightarrow>
    worker_report n cr (pr_pool r) = Some w \<Longrightarrow> pool_step r (r\<lparr>pr_pool := w\<rparr>)"
| Collect: "dq_results (wp_queue (pr_pool r)) = cr # crs \<Longrightarrow>
    pool_step r (r\<lparr>pr_pool := (pr_pool r)\<lparr>wp_queue := (wp_queue (pr_pool r))\<lparr>dq_results := crs\<rparr>\<rparr>,
      pr_collected := pr_collected r @ [cr]\<rparr>)"
| Shutdown: "pool_step r (r\<lparr>pr_pool := begin_pool_shutdown (pr_pool r)\<rparr>)"
| Joined: "end_pool_shutdown (pr_pool r) = Some w \<Longrightarrow> pool_step r (r\<lparr>pr_pool := w\<rparr>)"

text \<open>The commands a worker holds.\<close>

fun held_ids :: "partition_id \<times> worker_state \<Rightarrow> string multiset" where
  "held_ids (p, Working e) = {#ce_id e#}"
| "held_ids (p, Reporting r) = {#cr_command_id r#}"
| "held_ids _ = {#}"

definition placed_ids :: "pool_run \<Rightarrow> string multiset" where
  "placed_ids r =
     (let q = wp_queue (pr_pool r)
      in mset (map ce_id (concat (dq_partitions q))) + sum_list (map held_ids (wp_workers (pr_pool r)))
         + mset (map cr_command_id (dq_results q)) + mset (map cr_command_id (pr_collected r)))"

definition pool_inv :: "pool_run \<Rightarrow> bool" where
  "pool_inv r \<longleftrightarrow>
     placed_ids r = mset (map ce_id (pr_accepted r))
     \<and> length (dq_results (wp_queue (pr_pool r))) \<le> channel_capacity
     \<and> (\<forall>es \<in> set (dq_partitions (wp_queue (pr_pool r))). length es \<le> channel_capacity)"

lemma mset_concat_update:
  "i < length xss \<Longrightarrow> mset (concat (xss[i := ys])) + mset (xss ! i) = mset (concat xss) + mset ys"
proof (induction xss arbitrary: i)
  case (Cons xs xss)
  then show ?case by (cases i) (auto simp: ac_simps)
qed simp

lemma sum_list_update_ms:
  fixes f :: "'a \<Rightarrow> 'b multiset"
  shows "i < length xs \<Longrightarrow> sum_list (map f (xs[i := y])) + f (xs ! i) = sum_list (map f xs) + f y"
proof (induction xs arbitrary: i)
  case (Cons x xs)
  then show ?case by (cases i) (auto simp: ac_simps)
qed simp

lemma placed_ids_cong:
  "placed_ids r = mset (map ce_id (concat (dq_partitions (wp_queue (pr_pool r)))))
     + sum_list (map held_ids (wp_workers (pr_pool r)))
     + mset (map cr_command_id (dq_results (wp_queue (pr_pool r)))) + mset (map cr_command_id (pr_collected r))"
  by (simp add: placed_ids_def Let_def)

lemma held_ids_idle: "st = Polling \<or> st = Stopped \<Longrightarrow> held_ids (p, st) = {#}"
  by auto

lemma idle_workers_hold_nothing: "list_all (\<lambda>(p, st). st = Polling \<or> st = Stopped) ws \<Longrightarrow> sum_list (map held_ids ws) = {#}"
  by (induction ws) auto

lemma move_worker:
  assumes "n < length ws" "ws ! n = (p, st)"
  shows "sum_list (map held_ids (ws[n := (p, st')])) + held_ids (p, st) = sum_list (map held_ids ws) + held_ids (p, st')"
  using sum_list_update_ms [OF assms(1), of held_ids "(p, st')"] assms(2) by simp

lemma pool_inv_step: "pool_step r r' \<Longrightarrow> pool_inv r \<Longrightarrow> pool_inv r'"
proof (induction rule: pool_step.induct)
  case (Enqueue e r q)
  let ?ps = "dq_partitions (wp_queue (pr_pool r))" and ?p = "ce_partition_id e"
  have p: "?p < length ?ps" "length (?ps ! ?p) < channel_capacity"
      "q = (wp_queue (pr_pool r))\<lparr>dq_partitions := ?ps[?p := ?ps ! ?p @ [e]]\<rparr>"
    using Enqueue.hyps by (auto simp: distributed_enqueue_def Let_def split: if_splits)
  have "mset (concat (?ps[?p := ?ps ! ?p @ [e]])) = mset (concat ?ps) + {#e#}"
    using mset_concat_update [OF p(1), of "?ps ! ?p @ [e]"] by simp
  then have "mset (map ce_id (concat (?ps[?p := ?ps ! ?p @ [e]]))) = mset (map ce_id (concat ?ps)) + {#ce_id e#}"
    by (metis mset_map image_mset_add_mset add_mset_add_single image_mset_union image_mset_single)
  then show ?case
    using Enqueue.prems p by (auto simp: pool_inv_def placed_ids_cong dest!: set_update_subset_insert [THEN subsetD])
next
  case (Start r)
  have "sum_list (map held_ids (map (\<lambda>p. (p, Polling)) ns)) = {#}" for ns
    by (induction ns) simp_all
  with Start show ?case by (simp add: pool_inv_def placed_ids_cong pool_start_def)
next
  case (Poll n r)
  let ?w = "pr_pool r"
  obtain p where p: "wp_workers ?w ! n = (p, Polling)" using Poll.hyps(2) by (cases "wp_workers ?w ! n") auto
  show ?case
  proof (cases "wp_shutdown ?w")
    case True
    then show ?thesis
      using Poll.prems p move_worker [OF Poll.hyps(1) p, of Stopped]
      by (simp add: pool_inv_def placed_ids_cong worker_poll_def)
  next
    case False
    let ?ps = "dq_partitions (wp_queue ?w)"
    show ?thesis
    proof (cases "p < length ?ps \<and> ?ps ! p \<noteq> []")
      case True
      then obtain e es where e: "p < length ?ps" "?ps ! p = e # es" by (cases "?ps ! p") auto
      have "mset (concat (?ps[p := es])) + {#e#} = mset (concat ?ps)"
        using mset_concat_update [OF e(1), of es] e(2) by simp
      then have "mset (map ce_id (concat ?ps)) = mset (map ce_id (concat (?ps[p := es]))) + {#ce_id e#}"
        by (metis mset_map image_mset_union image_mset_single)
      moreover have "length es \<le> channel_capacity"
        using Poll.prems e nth_mem [OF e(1)] by (fastforce simp: pool_inv_def)
      ultimately show ?thesis
        using Poll.prems p False e move_worker [OF Poll.hyps(1) p, of "Working e"]
        by (auto simp: pool_inv_def placed_ids_cong worker_poll_def distributed_dequeue_def ac_simps
            dest!: set_update_subset_insert [THEN subsetD])
    next
      case False2: False
      then have "distributed_dequeue p (wp_queue ?w) = (Inl (invalid_partition p), wp_queue ?w)
          \<or> distributed_dequeue p (wp_queue ?w) = (Inr None, wp_queue ?w)"
        by (auto simp: distributed_dequeue_def)
      then show ?thesis using Poll.prems p False by (auto simp: worker_poll_def)
    qed
  qed
next
  case (Executed n r e res ms)
  then obtain p where p: "wp_workers (pr_pool r) ! n = (p, Working e)" by (cases "wp_workers (pr_pool r) ! n") auto
  show ?case
    using Executed.prems p move_worker [OF Executed.hyps(1) p, of "Reporting \<lparr>cr_command_id = ce_id e, cr_result = res,
        cr_worker_id = dq_worker_id (wp_queue (pr_pool r)), cr_duration_ms = ms mod 2 ^ 64\<rparr>"]
    by (simp add: pool_inv_def placed_ids_cong worker_executed_def)
next
  case (Report n r cr w)
  then obtain p where p: "wp_workers (pr_pool r) ! n = (p, Reporting cr)" by (cases "wp_workers (pr_pool r) ! n") auto
  have m: "sum_list (map held_ids (wp_workers (pr_pool r)))
      = add_mset (cr_command_id cr) (sum_list (map held_ids ((wp_workers (pr_pool r))[n := (p, Polling)])))"
    using move_worker [OF Report.hyps(1) p, of Polling] by simp
  show ?case
    using Report.prems Report.hyps(3) p
    by (auto simp: pool_inv_def placed_ids_cong worker_report_def distributed_complete_def m split: if_splits)
next
  case (Collect r cr crs)
  then show ?case by (simp add: pool_inv_def placed_ids_cong)
next
  case (Shutdown r)
  then show ?case by (simp add: pool_inv_def placed_ids_cong begin_pool_shutdown_def)
next
  case (Joined r w)
  then have "sum_list (map held_ids (wp_workers (pr_pool r))) = {#}"
    by (intro idle_workers_hold_nothing) (auto simp: end_pool_shutdown_def list_all_iff split: if_splits)
  with Joined show ?case
    by (auto simp: pool_inv_def placed_ids_cong end_pool_shutdown_def split: if_splits)
qed

section \<open>Properties\<close>

definition pool_initial :: "partition_config \<Rightarrow> string \<Rightarrow> pool_run" where
  "pool_initial c uuid = \<lparr>pr_pool = pool_new (distributed_new c uuid), pr_accepted = [], pr_collected = []\<rparr>"

lemma pool_inv_initial: "pool_inv (pool_initial c uuid)"
proof -
  have "concat (replicate n []) = []" for n :: nat by (induction n) simp_all
  then show ?thesis by (simp add: pool_inv_def placed_ids_cong pool_initial_def pool_new_def distributed_new_def)
qed

lemma pool_inv_run: "rtranclp pool_step r r' \<Longrightarrow> pool_inv r \<Longrightarrow> pool_inv r'"
  by (induction rule: rtranclp_induct) (auto intro: pool_inv_step)

text \<open>
  No command is lost or executed twice: in every state of a pool each accepted command is in a
  channel, at a worker, or has one result; when the channels are empty and no worker is busy,
  the collected results are those of the accepted commands, one each.
\<close>

theorem pool_conserves:
  assumes "rtranclp pool_step (pool_initial c uuid) r"
  shows "placed_ids r = mset (map ce_id (pr_accepted r))
    \<and> (concat (dq_partitions (wp_queue (pr_pool r))) = [] \<and> dq_results (wp_queue (pr_pool r)) = []
         \<and> list_all (\<lambda>(p, st). st = Polling \<or> st = Stopped) (wp_workers (pr_pool r))
         \<longrightarrow> mset (map cr_command_id (pr_collected r)) = mset (map ce_id (pr_accepted r)))"
proof -
  have "placed_ids r = mset (map ce_id (pr_accepted r))"
    using pool_inv_run [OF assms pool_inv_initial] by (simp add: pool_inv_def)
  moreover from this have "mset (map cr_command_id (pr_collected r)) = mset (map ce_id (pr_accepted r))"
    if "concat (dq_partitions (wp_queue (pr_pool r))) = []" "dq_results (wp_queue (pr_pool r)) = []"
      "list_all (\<lambda>(p, st). st = Polling \<or> st = Stopped) (wp_workers (pr_pool r))"
    using idle_workers_hold_nothing [OF that(3)] that(1,2)
    by (simp add: placed_ids_cong del: concat_eq_Nil_conv)
  ultimately show ?thesis by blast
qed

definition ex_envelope :: command_envelope where
  "ex_envelope =
     \<lparr>ce_id = ''c1'', ce_command_type = ''work'', ce_lane_id = ''main'', ce_partition_id = 0, ce_payload = JNull,
      ce_retry_count = 0, ce_created_at = 0\<rparr>"

definition ex_accepted :: pool_run where
  "ex_accepted =
     \<lparr>pr_pool = pool_new (distributed_new (partition_config_hash 1) ''u'')\<lparr>wp_queue :=
        (distributed_new (partition_config_hash 1) ''u'')\<lparr>dq_partitions := [[ex_envelope]]\<rparr>\<rparr>,
      pr_accepted = [ex_envelope], pr_collected = []\<rparr>"

lemma ex_accepted_run: "rtranclp pool_step (pool_initial (partition_config_hash 1) ''u'') ex_accepted"
proof (rule r_into_rtranclp)
  let ?q = "distributed_new (partition_config_hash 1) ''u''"
  have "distributed_enqueue ex_envelope ?q = Some (Inr (), ?q\<lparr>dq_partitions := [[ex_envelope]]\<rparr>)"
    by (simp add: distributed_enqueue_def distributed_new_def partition_config_hash_def ex_envelope_def channel_capacity_def)
  then show "pool_step (pool_initial (partition_config_hash 1) ''u'') ex_accepted"
    using pool_step.Enqueue [of ex_envelope "pool_initial (partition_config_hash 1) ''u''" "?q\<lparr>dq_partitions := [[ex_envelope]]\<rparr>"]
    by (simp add: pool_initial_def pool_new_def ex_accepted_def)
qed

theorem pool_conserves_witness: "placed_ids ex_accepted = {#''c1''#}"
  using pool_conserves [OF ex_accepted_run] by (simp add: ex_accepted_def ex_envelope_def)

text \<open>What a step does to the channels.\<close>

lemma pool_step_shutdown:
  assumes "pool_step r r'" "wp_shutdown (pr_pool r)"
  shows "wp_shutdown (pr_pool r') \<and> length (dq_partitions (wp_queue (pr_pool r'))) = length (dq_partitions (wp_queue (pr_pool r)))
    \<and> (\<forall>p < length (dq_partitions (wp_queue (pr_pool r))).
         prefix (dq_partitions (wp_queue (pr_pool r)) ! p) (dq_partitions (wp_queue (pr_pool r')) ! p))"
  using assms
proof (induction rule: pool_step.induct)
  case (Enqueue e r q)
  then show ?case
    by (auto simp: distributed_enqueue_def Let_def nth_list_update split: if_splits)
next
  case (Report n r cr w)
  then show ?case by (auto simp: worker_report_def distributed_complete_def split: if_splits)
next
  case (Joined r w)
  then show ?case by (auto simp: end_pool_shutdown_def split: if_splits)
qed (simp_all add: pool_start_def worker_poll_def worker_executed_def begin_pool_shutdown_def Let_def)



text \<open>
  The configured partitioner and the queue agree: a command sent to the partition the
  partitioner chooses is never refused; at worst the sender waits for room.
\<close>

theorem partitioned_command_accepted:
  assumes "0 < pc_num_partitions c" "ce_partition_id e = p"
    and "fst (partition_command hash_string (ce_command_type e) (pc_num_partitions c) st) = Some p"
    and "rtranclp pool_step (pool_initial c uuid) r" "wp_queue (pr_pool r) = q"
  shows "distributed_enqueue e q = None \<and> length (dq_partitions q ! p) = channel_capacity
    \<or> (\<exists>q'. distributed_enqueue e q = Some (Inr (), q') \<and> last (dq_partitions q' ! p) = e)"
proof -
  have "p < pc_num_partitions c" using configured.in_range [OF assms(1), of hash_string "ce_command_type e" st] assms(3) by auto
  moreover have "length (dq_partitions (wp_queue (pr_pool r))) = pc_num_partitions c"
    using assms(4)
  proof (induction rule: rtranclp_induct)
    case base
    show ?case by (simp add: pool_initial_def pool_new_def distributed_new_def)
  next
    case (step r1 r2)
    from step.hyps(2) step.IH show ?case
    proof (induction rule: pool_step.induct)
      case (Poll n r)
      then show ?case
        by (auto simp: worker_poll_def distributed_dequeue_def Let_def split: list.split)
    qed (auto simp: distributed_enqueue_def pool_start_def worker_executed_def worker_report_def distributed_complete_def
        begin_pool_shutdown_def end_pool_shutdown_def Let_def split: if_splits)
  qed
  moreover have "length (dq_partitions q ! p) \<le> channel_capacity"
    if "p < length (dq_partitions q)"
    using pool_inv_run [OF assms(4) pool_inv_initial] assms(5) nth_mem [OF that] by (auto simp: pool_inv_def)
  ultimately show ?thesis
    using assms(2,5) by (auto simp: distributed_enqueue_def Let_def)
qed

theorem partitioned_command_accepted_witness:
  "\<exists>q'. distributed_enqueue ex_envelope (wp_queue (pr_pool ex_accepted)) = Some (Inr (), q') \<and> last (dq_partitions q' ! 0) = ex_envelope"
proof -
  have h: "fst (partition_command (\<lambda>_. 0) (ce_command_type ex_envelope) (pc_num_partitions (partition_config_hash 1)) HashState) = Some 0"
    by (simp add: partition_config_hash_def hash_partition_def)
  have c: "0 < pc_num_partitions (partition_config_hash 1)" "ce_partition_id ex_envelope = 0"
    by (simp_all add: partition_config_hash_def ex_envelope_def)
  show ?thesis
    using partitioned_command_accepted [OF c h ex_accepted_run refl]
    by (auto simp: ex_accepted_def channel_capacity_def)
qed

end
