(* ===== verification/Redis_Replies.thy ===== *)
theory Redis_Replies
  imports Job_Queue_State
begin

text \<open>
  How the Redis backend reads the replies of its server-side scripts: the \<open>decode_*\<close> functions
  of \<open>src/src/job/redis.rs\<close>. A script replies with a list of strings whose first one is a
  status, or with a list of integers; a decoder turns it into a result of the backend's
  interface or into an error. Each function here has the name and the branches of the source.

  \<open>redis_codec\<close> holds what serde does: reading a text as JSON, a JSON value as a job, a text as
  a log entry, with the error texts; chrono's
  \<open>from_timestamp_millis\<close> and \<open>to_rfc3339\<close>, and how the client writes a double as an argument.
  \<open>redis_value\<close> holds the views of a reply of the \<open>redis\<close>
  crate that the code takes; both are arguments of the definitions that use them.
\<close>

record redis_codec =
  rc_from_str :: "string \<Rightarrow> string + json"
  rc_job_of_value :: "json \<Rightarrow> string + job"
  rc_job_to_string :: "job \<Rightarrow> string + string"
  rc_log_from_str :: "string \<Rightarrow> string + job_log_entry"
  rc_from_timestamp_millis :: "int \<Rightarrow> instant option"
  rc_rfc3339 :: "instant \<Rightarrow> string"
  rc_duration_to_string :: "duration \<Rightarrow> string + string"
  rc_float_text :: "f64 \<Rightarrow> string"
  rc_error_text :: string
    \<comment> \<open>the text of an error the \<open>redis\<close> crate reports\<close>
  rc_json_to_string :: "json \<Rightarrow> string + string"
  rc_log_to_string :: "job_log_entry \<Rightarrow> string + string"

record 'v redis_value =
  rv_is_nil :: "'v \<Rightarrow> bool"
  rv_array :: "'v \<Rightarrow> 'v list option"
  rv_string :: "'v \<Rightarrow> string + string"
  rv_usize :: "'v \<Rightarrow> string + nat"
  rv_i64 :: "'v \<Rightarrow> string + int"

section \<open>Results of lists, pairs and numbers\<close>

text \<open>\<open>collect::<Result<Vec<_>>>()\<close>: the first error ends the walk.\<close>

fun collect_results :: "('a \<Rightarrow> 'b result) \<Rightarrow> 'a list \<Rightarrow> 'b list result" where
  "collect_results f [] = Inr []"
| "collect_results f (x # xs) =
     and_then (f x) (\<lambda>y. and_then (collect_results f xs) (\<lambda>ys. Inr (y # ys)))"

text \<open>\<open>chunks_exact(2)\<close>.\<close>

fun chunk_pairs :: "'a list \<Rightarrow> ('a \<times> 'a) list" where
  "chunk_pairs (a # b # rest) = (a, b) # chunk_pairs rest"
| "chunk_pairs _ = []"

text \<open>\<open>map_err\<close> with the text of the error.\<close>

definition map_err :: "(string \<Rightarrow> string) \<Rightarrow> string + 'a \<Rightarrow> 'a result" where
  "map_err f r = (case r of Inl e \<Rightarrow> Inl (Other (f e)) | Inr x \<Rightarrow> Inr x)"

text \<open>
  \<open>str::parse::<usize>()\<close> and \<open>str::parse::<u64>()\<close> (64 bits both), with the texts of
  \<open>ParseIntError\<close>: an optional \<open>+\<close>, then digits, read from the left.
\<close>

fun parse_digits_from :: "nat \<Rightarrow> string \<Rightarrow> string + nat" where
  "parse_digits_from acc [] = Inr acc"
| "parse_digits_from acc (c # cs) =
     (if \<not> is_ascii_digit c then Inl ''invalid digit found in string''
      else let n = acc * 10 + char_digit c
           in if n > u64_max then Inl ''number too large to fit in target type''
              else parse_digits_from n cs)"

definition parse_usize :: "string \<Rightarrow> string + nat" where
  "parse_usize s =
     (case s of
        [] \<Rightarrow> Inl ''cannot parse integer from empty string''
      | [c] \<Rightarrow> if c = CHR ''+'' then Inl ''invalid digit found in string'' else parse_digits_from 0 s
      | c # rest \<Rightarrow> parse_digits_from 0 (if c = CHR ''+'' then rest else s))"

definition decode_usize_field :: "string \<Rightarrow> string \<Rightarrow> string \<Rightarrow> nat result" where
  "decode_usize_field raw field owner_id =
     map_err (\<lambda>e. ''failed to decode Redis '' @ field @ '' count for '' @ owner_id @ '': '' @ e)
       (parse_usize raw)"

definition decode_u64_field :: "string \<Rightarrow> string \<Rightarrow> string \<Rightarrow> nat result" where
  "decode_u64_field raw field owner_id =
     map_err (\<lambda>e. ''failed to decode Redis '' @ field @ '' for '' @ owner_id @ '': '' @ e)
       (parse_usize raw)"

section \<open>Jobs\<close>

definition encode_job :: "redis_codec \<Rightarrow> job \<Rightarrow> string result" where
  "encode_job c j = map_err (\<lambda>e. ''failed to encode Redis job: '' @ e) (rc_job_to_string c j)"

text \<open>
  A script that rewrites a job writes its empty arrays as empty objects, as Lua has one kind of
  empty table; three fields are read back as arrays.
\<close>

definition normalize_lua_empty_array :: "string \<Rightarrow> json \<Rightarrow> json" where
  "normalize_lua_empty_array field v =
     (case v of
        JObject kvs \<Rightarrow>
          if map_of kvs field = Some (JObject []) then JObject (AList.update field (JArray []) kvs) else v
      | _ \<Rightarrow> v)"

definition decode_job :: "redis_codec \<Rightarrow> string \<Rightarrow> job result" where
  "decode_job c raw =
     and_then (map_err (\<lambda>e. ''failed to decode Redis job: '' @ e) (rc_from_str c raw)) (\<lambda>v.
       let v1 = normalize_lua_empty_array ''logs'' v;
           v2 = normalize_lua_empty_array ''child_ids'' v1;
           v3 = normalize_lua_empty_array ''stacktrace'' v2
       in map_err (\<lambda>e. ''failed to decode Redis job: '' @ e) (rc_job_of_value c v3))"

text \<open>\<open>result.get(i).map(String::as_str).unwrap_or(\<dots>)\<close> and \<open>result.get(i).ok_or_else(\<dots>)\<close>.\<close>

definition nth_or :: "string \<Rightarrow> nat \<Rightarrow> string list \<Rightarrow> string" where
  "nth_or d i xs = (if i < length xs then xs ! i else d)"

definition nth_or_error :: "string \<Rightarrow> nat \<Rightarrow> string list \<Rightarrow> string result" where
  "nth_or_error msg i xs = (if i < length xs then Inr (xs ! i) else Inl (Other msg))"

lemma nth_or_simps [simp]:
  "nth_or d 0 (x # xs) = x" "nth_or d (Suc i) (x # xs) = nth_or d i xs" "nth_or d i [] = d"
  by (simp_all add: nth_or_def)

lemma nth_or_error_simps [simp]:
  "nth_or_error m 0 (x # xs) = Inr x" "nth_or_error m (Suc i) (x # xs) = nth_or_error m i xs"
  "nth_or_error m i [] = Inl (Other m)"
  by (simp_all add: nth_or_error_def)

section \<open>Adding jobs\<close>

definition decode_add_job_result :: "redis_codec \<Rightarrow> string list \<Rightarrow> job_id \<Rightarrow> job result" where
  "decode_add_job_result c result job_id =
     (case result of
        [] \<Rightarrow> Inl (Other (''Redis add job script returned no status for '' @ job_id))
      | status # _ \<Rightarrow>
          if status \<in> set [''inserted'', ''existing'', ''deduplicated'', ''repeat''] then
            and_then (nth_or_error (''Redis add job script returned no payload for '' @ job_id) 1 result)
              (decode_job c)
          else if status = ''missing'' then Inl (JobNotFound job_id)
          else Inl (Other (''unexpected Redis add job script status `'' @ status @ ''` for '' @ job_id)))"

definition decode_upsert_repeat_result ::
  "redis_codec \<Rightarrow> string list \<Rightarrow> string \<Rightarrow> job_id \<Rightarrow> job result" where
  "decode_upsert_repeat_result c result repeat_key job_id =
     (case result of
        [] \<Rightarrow> Inl (Other (''Redis repeat upsert script returned no status for '' @ job_id))
      | status # _ \<Rightarrow>
          if status = ''inserted'' then
            and_then (nth_or_error (''Redis repeat upsert script returned no payload for '' @ job_id)
              1 result) (decode_job c)
          else if status = ''exists'' then
            Inl (ConfigError (''job id `'' @ job_id @ ''` already exists''))
          else if status = ''active'' then
            Inl (JobLeaseConflict (''cannot upsert repeat key `'' @ repeat_key @ ''`; current owner ''
              @ nth_or ''unknown'' 1 result @ '' is active''))
          else if status = ''flow'' then
            Inl (JobStateConflict (''cannot upsert repeat key `'' @ repeat_key @ ''`; current owner ''
              @ nth_or ''unknown'' 1 result @ '' has flow dependencies''))
          else if status = ''deduplicated'' then
            Inl (JobStateConflict (''cannot upsert repeat key `'' @ repeat_key
              @ ''`; deduplication id is active on job '' @ nth_or ''unknown'' 1 result))
          else if status = ''config'' then
            Inl (ConfigError (nth_or ''invalid repeat upsert configuration'' 1 result))
          else if status = ''missing'' then Inl (JobNotFound job_id)
          else Inl (Other (''unexpected Redis repeat upsert script status `'' @ status @ ''` for '' @ job_id)))"

definition decode_add_jobs_result :: "redis_codec \<Rightarrow> string list \<Rightarrow> nat \<Rightarrow> job list result" where
  "decode_add_jobs_result c result expected_len =
     (if result \<noteq> [] \<and> hd result = ''missing'' then Inl (JobNotFound (nth_or ''unknown'' 1 result))
      else if length result \<noteq> expected_len then
        Inl (Other (''Redis add jobs script returned '' @ show_nat (length result)
          @ '' jobs, expected '' @ show_nat expected_len))
      else collect_results (decode_job c) result)"

record redis_add_flow_result =
  af_existing_parent_id :: "job_id option"
  af_skipped_child_ids :: "job_id set"

definition decode_add_flow_result :: "string list \<Rightarrow> redis_add_flow_result result" where
  "decode_add_flow_result result =
     (case result of
        [] \<Rightarrow> Inl (Other ''Redis add flow script returned no status'')
      | status # rest \<Rightarrow>
          if status = ''ok'' then
            Inr \<lparr>af_existing_parent_id = None, af_skipped_child_ids = set rest\<rparr>
          else if status \<in> set [''deduplicated_next'', ''deduplicated_parent''] then
            and_then (nth_or_error (''Redis add flow script returned '' @ status @ '' without parent id'')
              1 result)
              (\<lambda>i. Inr \<lparr>af_existing_parent_id = Some i, af_skipped_child_ids = {}\<rparr>)
          else if status = ''exists'' then
            Inl (ConfigError (''flow job id `'' @ nth_or ''unknown'' 1 result @ ''` already exists''))
          else if status = ''parent_conflict'' then
            Inl (JobStateConflict (''flow child id `'' @ nth_or ''unknown'' 1 result
              @ ''` already belongs to parent `'' @ nth_or ''unknown'' 2 result @ ''`''))
          else if status = ''deduplicated'' then
            Inl (ConfigError (''flow deduplication id is already active for job `''
              @ nth_or ''unknown'' 1 result @ ''`''))
          else if status = ''repeat'' then
            Inl (ConfigError (''flow repeat key is already active for job `''
              @ nth_or ''unknown'' 1 result @ ''`''))
          else Inl (Other (''unexpected Redis add flow script status `'' @ status @ ''`'')))"

definition decode_add_flow_children_result :: "string list \<Rightarrow> job_id \<Rightarrow> job_id set result" where
  "decode_add_flow_children_result result parent_id =
     (case result of
        [] \<Rightarrow> Inl (Other ''Redis add flow children script returned no status'')
      | status # rest \<Rightarrow>
          if status = ''ok'' then Inr (set rest)
          else if status = ''empty'' then Inl (ConfigError ''flow children cannot be empty'')
          else if status = ''missing'' then Inl (JobNotFound parent_id)
          else if status = ''state'' then
            Inl (JobStateConflict (''cannot add flow children to job '' @ parent_id
              @ ''; expected active state, found '' @ nth_or ''unknown'' 1 result))
          else if status = ''lock_missing'' then
            Inl (JobLeaseConflict (''missing lock for job '' @ parent_id))
          else if status = ''lock_mismatch'' then
            Inl (JobLeaseConflict (''lock token mismatch for job '' @ parent_id))
          else if status = ''failed_dependencies'' then
            Inl (JobStateConflict (''cannot add flow children to job '' @ parent_id
              @ ''; it has failed flow dependencies''))
          else if status = ''exists'' then
            Inl (ConfigError (''flow child id `'' @ nth_or ''unknown'' 1 result @ ''` already exists''))
          else if status = ''parent_conflict'' then
            Inl (JobStateConflict (''flow child id `'' @ nth_or ''unknown'' 1 result
              @ ''` already belongs to parent `'' @ nth_or ''unknown'' 2 result @ ''`''))
          else if status = ''deduplicated'' then
            Inl (ConfigError (''flow deduplication id is already active for job `''
              @ nth_or ''unknown'' 1 result @ ''`''))
          else if status = ''repeat'' then
            Inl (ConfigError (''flow repeat key is already active for job `''
              @ nth_or ''unknown'' 1 result @ ''`''))
          else Inl (Other (''unexpected Redis add flow children script status `'' @ status @ ''`'')))"

section \<open>Transitions, priorities, removals\<close>

definition decode_priority_update_result :: "redis_codec \<Rightarrow> string list \<Rightarrow> job_id \<Rightarrow> job result" where
  "decode_priority_update_result c result job_id =
     (case result of
        [] \<Rightarrow> Inl (Other (''Redis priority update script returned no status for '' @ job_id))
      | status # _ \<Rightarrow>
          if status = ''ok'' then
            and_then (nth_or_error (''Redis priority update script returned no payload for '' @ job_id)
              1 result) (decode_job c)
          else if status = ''missing'' then Inl (JobNotFound job_id)
          else Inl (Other (''unexpected Redis priority update script status `'' @ status
            @ ''` for '' @ job_id)))"

definition decode_transition_result ::
  "redis_codec \<Rightarrow> string list \<Rightarrow> job_id \<Rightarrow> string \<Rightarrow> job result" where
  "decode_transition_result c result job_id action =
     (case result of
        [] \<Rightarrow> Inl (Other (''Redis job '' @ action @ '' script returned no status''))
      | status # _ \<Rightarrow>
          if status = ''ok'' then
            and_then (nth_or_error (''Redis job '' @ action @ '' script returned no job payload'') 1 result)
              (decode_job c)
          else if status = ''missing'' then Inl (JobNotFound job_id)
          else if status = ''state'' then
            Inl (JobStateConflict (''cannot '' @ action @ '' job '' @ job_id @ '' from state ''
              @ nth_or ''unknown'' 1 result))
          else if status = ''pending_dependencies'' then
            Inl (JobStateConflict (''cannot '' @ action @ '' job '' @ job_id
              @ ''; it has pending flow dependencies''))
          else if status = ''failed_dependencies'' then
            Inl (JobStateConflict (''cannot '' @ action @ '' job '' @ job_id
              @ ''; it has failed flow dependencies''))
          else if status = ''lock_missing'' then
            Inl (JobLeaseConflict (''missing lock for job '' @ job_id))
          else if status = ''lock_mismatch'' then
            Inl (JobLeaseConflict (''lock token does not own job '' @ job_id))
          else if status = ''deduplicated'' then
            Inl (JobStateConflict (''cannot '' @ action @ '' job '' @ job_id
              @ ''; deduplication id is active on job '' @ nth_or ''unknown'' 1 result))
          else if status = ''repeat'' then
            Inl (JobStateConflict (''cannot '' @ action @ '' job '' @ job_id
              @ ''; repeat key is active on job '' @ nth_or ''unknown'' 1 result))
          else Inl (Other (''unexpected Redis job '' @ action @ '' script status `'' @ status @ ''`'')))"

definition decode_remove_job_result :: "redis_codec \<Rightarrow> string list \<Rightarrow> job_id \<Rightarrow> job option result" where
  "decode_remove_job_result c result job_id =
     (case result of
        [] \<Rightarrow> Inl (Other (''Redis remove job script returned no status for '' @ job_id))
      | status # _ \<Rightarrow>
          if status = ''ok'' then
            and_then (nth_or_error (''Redis remove job script returned no payload for '' @ job_id) 1 result)
              (\<lambda>raw. and_then (decode_job c raw) (\<lambda>j. Inr (Some j)))
          else if status = ''missing'' then Inr None
          else if status = ''active'' then
            Inl (JobLeaseConflict (''cannot remove active leased job '' @ job_id))
          else Inl (Other (''unexpected Redis remove job script status `'' @ status @ ''` for '' @ job_id)))"

definition decode_clean_jobs_result :: "redis_codec \<Rightarrow> string list \<Rightarrow> job list result" where
  "decode_clean_jobs_result c result =
     (if result \<noteq> [] \<and> hd result = ''bad_state'' then
        Inl (Other ''Redis clean jobs script received an unknown state'')
      else collect_results (decode_job c) result)"

definition decode_remove_unprocessed_children_result ::
  "redis_codec \<Rightarrow> string list \<Rightarrow> job_id \<Rightarrow> job list option result" where
  "decode_remove_unprocessed_children_result c result parent_id =
     (case result of
        [] \<Rightarrow> Inl (Other (''Redis remove unprocessed children script returned no status for '' @ parent_id))
      | status # rest \<Rightarrow>
          if status = ''missing'' then Inr None
          else if status = ''ok'' then
            and_then (collect_results (decode_job c) rest) (\<lambda>js. Inr (Some js))
          else Inl (Other (''unexpected Redis remove unprocessed children script status `'' @ status
            @ ''` for '' @ parent_id)))"

definition decode_remove_child_dependency_result :: "string list \<Rightarrow> job_id \<Rightarrow> bool result" where
  "decode_remove_child_dependency_result result child_id =
     (case result of
        [] \<Rightarrow> Inl (Other (''Redis remove child dependency script returned no status for '' @ child_id))
      | status # _ \<Rightarrow>
          if status = ''ok'' then Inr True
          else if status = ''no_relationship'' then Inr False
          else if status = ''missing_child'' then Inl (JobNotFound child_id)
          else if status = ''missing_parent'' then Inl (JobNotFound (nth_or ''unknown parent'' 1 result))
          else Inl (Other (''unexpected Redis remove child dependency script status `'' @ status
            @ ''` for '' @ child_id)))"

section \<open>What the decoders accept\<close>

lemma and_then_Inl_iff [simp]: "and_then r f = Inl e \<longleftrightarrow> r = Inl e \<or> (\<exists>x. r = Inr x \<and> f x = Inl e)"
  by (cases r) auto

lemma map_err_Inr [simp]: "map_err f r = Inr x \<longleftrightarrow> r = Inr x"
  by (cases r) (simp_all add: map_err_def)

lemma map_err_of_Inr [simp]: "map_err f (Inr x) = Inr x"
  by (simp add: map_err_def)

lemma collect_results_Inr:
  "collect_results f xs = Inr ys \<longleftrightarrow> list_all2 (\<lambda>x y. f x = Inr y) xs ys"
  by (induction xs arbitrary: ys) (auto simp: and_then_Inr list_all2_Cons1)

lemma parse_digits_from_value:
  "parse_digits_from acc s = Inr n \<longleftrightarrow>
     list_all is_ascii_digit s \<and> n = foldl (\<lambda>a c. a * 10 + char_digit c) acc s \<and> (s = [] \<or> n \<le> u64_max)"
proof (induction s arbitrary: acc)
  case (Cons c cs)
  have grow: "acc' \<le> foldl (\<lambda>a c. a * 10 + char_digit c) acc' cs" for acc' :: nat
  proof (induction cs arbitrary: acc')
    case (Cons a cs)
    have "acc' \<le> acc' * 10 + char_digit a" by simp
    also note Cons.IH
    finally show ?case by simp
  qed simp
  show ?case
  proof (cases "is_ascii_digit c \<and> acc * 10 + char_digit c \<le> u64_max")
    case True
    then show ?thesis by (auto simp: Cons.IH Let_def)
  next
    case False
    with grow [of "acc * 10 + char_digit c"] show ?thesis by (auto simp: Let_def)
  qed
qed auto

text \<open>Parsing with error texts accepts what \<open>parse_u64\<close> of the event ids accepts.\<close>

lemma parse_usize_iff: "parse_usize s = Inr n \<longleftrightarrow> parse_u64 s = Some n"
proof -
  have digit: "\<not> is_ascii_digit (CHR ''+'')"
    by (simp add: is_ascii_digit_def)
  have body: "parse_digits_from 0 t = Inr n \<and> t \<noteq> [] \<longleftrightarrow>
      (case parse_digits t of None \<Rightarrow> None | Some n \<Rightarrow> if n \<le> u64_max then Some n else None) = Some n" for t
    by (auto simp: parse_digits_from_value parse_digits_def digits_value_def)
  show ?thesis
  proof (cases s)
    case Nil
    then show ?thesis by (simp add: parse_usize_def parse_u64_def parse_digits_def)
  next
    case (Cons c rest)
    show ?thesis
    proof (cases "c = CHR ''+''")
      case True
      then show ?thesis
        using body [of rest] Cons by (cases rest) (auto simp: parse_usize_def parse_u64_def)
    next
      case False
      then show ?thesis
        using body [of s] Cons by (cases rest) (auto simp: parse_usize_def parse_u64_def)
    qed
  qed
qed

lemma parse_usize_show_nat [simp]: "n \<le> u64_max \<Longrightarrow> parse_usize (show_nat n) = Inr n"
  by (simp add: parse_usize_iff parse_u64_show_nat)

lemma decode_field_show_nat [simp]:
  "n \<le> u64_max \<Longrightarrow> decode_usize_field (show_nat n) field owner = Inr n"
  "n \<le> u64_max \<Longrightarrow> decode_u64_field (show_nat n) field owner = Inr n"
  by (simp_all add: decode_usize_field_def decode_u64_field_def)

lemma chunk_pairs_concat [simp]: "chunk_pairs (concat (map (\<lambda>(a, b). [a, b]) ps)) = ps"
  by (induction ps) auto

text \<open>
  A transition of the Redis backend reports a job only when its script replied
  \<open>ok\<close> with a job text that decodes; no other status, known or unknown, and no empty reply
  is ever taken for a transition that happened.
\<close>

theorem transition_ok_only:
  "decode_transition_result c result job_id action = Inr j \<longleftrightarrow>
   (\<exists>raw rest. result = ''ok'' # raw # rest \<and> decode_job c raw = Inr j)"
  by (cases result; cases "tl result")
     (auto simp: decode_transition_result_def and_then_Inr)

end
