(* ===== verification/Redis_Reports.thy ===== *)
theory Redis_Reports
  imports Redis_Replies
begin

text \<open>
  How the Redis backend reads the replies of its read-only scripts: dependency reports of flows,
  job states and results, logs, events, statistics and metrics (the \<open>decode_*\<close> functions of
  \<open>src/src/job/redis.rs\<close> that \<open>Redis_Replies\<close> leaves). A \<open>BTreeMap\<close> is an association list without
  duplicate keys; what is stated of it is stated of its lookups.
\<close>

section \<open>States\<close>

fun job_state_name :: "job_state \<Rightarrow> string" where
  "job_state_name Waiting = ''waiting''"
| "job_state_name Delayed = ''delayed''"
| "job_state_name Active = ''active''"
| "job_state_name WaitingChildren = ''waiting_children''"
| "job_state_name Completed = ''completed''"
| "job_state_name Failed = ''failed''"

definition decode_job_state :: "string \<Rightarrow> job_state option result" where
  "decode_job_state state =
     (if state = ''waiting'' then Inr (Some Waiting)
      else if state = ''delayed'' then Inr (Some Delayed)
      else if state = ''active'' then Inr (Some Active)
      else if state = ''waiting_children'' then Inr (Some WaitingChildren)
      else if state = ''completed'' then Inr (Some Completed)
      else if state = ''failed'' then Inr (Some Failed)
      else if state = ''unknown'' then Inr None
      else Inl (Other (''unexpected Redis job state `'' @ state @ ''`'')))"

definition decode_event_prev_state :: "string \<Rightarrow> job_state result" where
  "decode_event_prev_state state =
     (if state = ''waiting'' then Inr Waiting
      else if state = ''delayed'' then Inr Delayed
      else if state = ''active'' then Inr Active
      else if state \<in> set [''waiting_children'', ''waiting-children''] then Inr WaitingChildren
      else if state = ''completed'' then Inr Completed
      else if state = ''failed'' then Inr Failed
      else Inl (Other (''unexpected Redis event prev state `'' @ state @ ''`'')))"

fun terminal_metrics_suffix :: "job_state \<Rightarrow> string result" where
  "terminal_metrics_suffix Completed = Inr ''completed''"
| "terminal_metrics_suffix Failed = Inr ''failed''"
| "terminal_metrics_suffix other =
     Inl (ConfigError (''job metrics are only available for completed or failed jobs, got ''
       @ job_state_name other))"

section \<open>Dependency reports\<close>

fun kind_as_str :: "dependency_kind \<Rightarrow> string" where
  "kind_as_str KProcessed = ''processed''"
| "kind_as_str KUnprocessed = ''unprocessed''"
| "kind_as_str KIgnored = ''ignored''"
| "kind_as_str KFailed = ''failed''"

fun debug_kind :: "dependency_kind \<Rightarrow> string" where
  "debug_kind KProcessed = ''Processed''"
| "debug_kind KUnprocessed = ''Unprocessed''"
| "debug_kind KIgnored = ''Ignored''"
| "debug_kind KFailed = ''Failed''"

definition decode_flow_dependency_kind :: "string \<Rightarrow> job_id \<Rightarrow> dependency_kind result" where
  "decode_flow_dependency_kind raw parent_id =
     (if raw = ''processed'' then Inr KProcessed
      else if raw = ''unprocessed'' then Inr KUnprocessed
      else if raw = ''ignored'' then Inr KIgnored
      else if raw = ''failed'' then Inr KFailed
      else Inl (Other (''unexpected Redis flow dependency kind `'' @ raw @ ''` for '' @ parent_id)))"

definition decode_flow_dependency_counts_result :: "string list \<Rightarrow> job_id \<Rightarrow> flow_counts option result" where
  "decode_flow_dependency_counts_result result parent_id =
     (case result of
        [] \<Rightarrow> Inl (Other (''Redis flow dependency count script returned no status for '' @ parent_id))
      | status # _ \<Rightarrow>
          if status = ''missing'' then Inr None
          else if status = ''ok'' then
            if length result \<noteq> 6 then
              Inl (Other (''Redis flow dependency count script returned '' @ show_nat (length result)
                @ '' fields for '' @ parent_id))
            else
              and_then (decode_usize_field (result ! 1) ''processed'' parent_id) (\<lambda>processed.
              and_then (decode_usize_field (result ! 2) ''unprocessed'' parent_id) (\<lambda>unprocessed.
              and_then (decode_usize_field (result ! 3) ''failed'' parent_id) (\<lambda>failed.
              and_then (decode_usize_field (result ! 4) ''ignored'' parent_id) (\<lambda>ignored.
              and_then (decode_usize_field (result ! 5) ''missing'' parent_id) (\<lambda>missing.
                Inr (Some \<lparr>fc_processed = processed, fc_unprocessed = unprocessed, fc_failed = failed,
                  fc_ignored = ignored, fc_missing = missing\<rparr>))))))
          else Inl (Other (''unexpected Redis flow dependency count script status `'' @ status
            @ ''` for '' @ parent_id)))"

fun insert_selected_counts ::
  "job_id \<Rightarrow> (string \<times> string) list \<Rightarrow> selected_counts \<Rightarrow> selected_counts result" where
  "insert_selected_counts parent_id [] counts = Inr counts"
| "insert_selected_counts parent_id ((raw_kind, raw_count) # rest) counts =
     and_then (decode_flow_dependency_kind raw_kind parent_id) (\<lambda>kind.
     and_then (decode_usize_field raw_count (kind_as_str kind) parent_id) (\<lambda>count.
       insert_selected_counts parent_id rest (selected_counts_insert kind count counts)))"

definition decode_flow_dependency_selected_counts_result ::
  "string list \<Rightarrow> job_id \<Rightarrow> selected_counts option result" where
  "decode_flow_dependency_selected_counts_result result parent_id =
     (case result of
        [] \<Rightarrow> Inl (Other (''Redis flow dependency selected count script returned no status for '' @ parent_id))
      | status # payload \<Rightarrow>
          if status = ''missing'' then Inr None
          else if status = ''ok'' then
            if odd (length payload) then
              Inl (Other (''Redis flow dependency selected count script returned an odd pair count for ''
                @ parent_id))
            else and_then (insert_selected_counts parent_id (chunk_pairs payload) selected_counts_default)
              (\<lambda>counts. Inr (Some counts))
          else if status = ''invalid_kind'' then
            Inl (Other (''Redis flow dependency selected count script rejected kind `''
              @ nth_or ''<missing kind>'' 1 result @ ''` for '' @ parent_id))
          else Inl (Other (''unexpected Redis flow dependency selected count script status `'' @ status
            @ ''` for '' @ parent_id)))"

text \<open>A segment is its length followed by that many strings; the rest of the reply is returned.\<close>

definition read_dependency_value_segment ::
  "string list \<Rightarrow> string \<Rightarrow> job_id \<Rightarrow> (string list \<times> string list) result" where
  "read_dependency_value_segment rest field parent_id =
     (case rest of
        [] \<Rightarrow> Inl (Other (''Redis flow dependency values script returned no '' @ field @ '' length for ''
          @ parent_id))
      | raw_len # rest' \<Rightarrow>
          and_then (decode_usize_field raw_len field parent_id) (\<lambda>len.
            if length rest' < len then
              Inl (Other (''Redis flow dependency values script returned a truncated '' @ field
                @ '' payload for '' @ parent_id))
            else Inr (take len rest', drop len rest')))"

text \<open>Decoding of pairs of a child id and a value in JSON, into a map.\<close>

fun decode_value_pairs ::
  "redis_codec \<Rightarrow> string \<Rightarrow> job_id \<Rightarrow> (string \<times> string) list \<Rightarrow> (job_id, json) hmap \<Rightarrow>
   (job_id, json) hmap result" where
  "decode_value_pairs c what parent_id [] m = Inr m"
| "decode_value_pairs c what parent_id ((child_id, raw) # rest) m =
     and_then (map_err (\<lambda>e. ''failed to decode Redis '' @ what @ '' for '' @ child_id @ '' on ''
         @ parent_id @ '': '' @ e) (rc_from_str c raw))
       (\<lambda>v. decode_value_pairs c what parent_id rest (AList.update child_id v m))"

definition insert_pairs :: "(string \<times> 'a) list \<Rightarrow> (string, 'a) hmap" where
  "insert_pairs ps = fold (\<lambda>(k, v). AList.update k v) ps []"

definition decode_flow_dependency_values_result ::
  "redis_codec \<Rightarrow> string list \<Rightarrow> job_id \<Rightarrow> flow_values option result" where
  "decode_flow_dependency_values_result c result parent_id =
     (case result of
        [] \<Rightarrow> Inl (Other (''Redis flow dependency values script returned no status for '' @ parent_id))
      | status # rest \<Rightarrow>
          if status = ''missing'' then Inr None
          else if status = ''ok'' then
            and_then (read_dependency_value_segment rest ''processed'' parent_id) (\<lambda>(processed_raw, r1).
            if odd (length processed_raw) then
              Inl (Other (''Redis flow dependency values script returned an odd processed pair count for ''
                @ parent_id))
            else
            and_then (decode_value_pairs c ''processed dependency value'' parent_id
              (chunk_pairs processed_raw) []) (\<lambda>processed.
            and_then (read_dependency_value_segment r1 ''unprocessed'' parent_id) (\<lambda>(unprocessed, r2).
            and_then (read_dependency_value_segment r2 ''ignored'' parent_id) (\<lambda>(ignored_raw, r3).
            if odd (length ignored_raw) then
              Inl (Other (''Redis flow dependency values script returned an odd ignored pair count for ''
                @ parent_id))
            else
            and_then (read_dependency_value_segment r3 ''failed'' parent_id) (\<lambda>(failed, r4).
            if r4 \<noteq> [] then
              Inl (Other (''Redis flow dependency values script returned '' @ show_nat (length r4)
                @ '' trailing fields for '' @ parent_id))
            else Inr (Some \<lparr>fv_processed = processed, fv_unprocessed = unprocessed, fv_failed = failed,
                fv_ignored = insert_pairs (chunk_pairs ignored_raw)\<rparr>))))))
          else Inl (Other (''unexpected Redis flow dependency values script status `'' @ status
            @ ''` for '' @ parent_id)))"

fun decode_processed_item :: "redis_codec \<Rightarrow> job_id \<Rightarrow> string \<times> string \<Rightarrow> page_item result" where
  "decode_processed_item c parent_id (child_id, raw) =
     and_then (map_err (\<lambda>e. ''failed to decode Redis processed dependency value for '' @ child_id
         @ '' on '' @ parent_id @ '': '' @ e) (rc_from_str c raw))
       (\<lambda>v. Inr (PProcessed child_id v))"

definition decode_flow_dependency_page_items ::
  "redis_codec \<Rightarrow> dependency_kind \<Rightarrow> string list \<Rightarrow> job_id \<Rightarrow> page_item list result" where
  "decode_flow_dependency_page_items c kind payload parent_id =
     (case kind of
        KProcessed \<Rightarrow>
          if odd (length payload) then
            Inl (Other (''Redis processed dependency page returned an odd pair count for '' @ parent_id))
          else collect_results (decode_processed_item c parent_id) (chunk_pairs payload)
      | KUnprocessed \<Rightarrow> Inr (map PUnprocessed payload)
      | KIgnored \<Rightarrow>
          if odd (length payload) then
            Inl (Other (''Redis ignored dependency page returned an odd pair count for '' @ parent_id))
          else Inr (map (\<lambda>(child_id, reason). PIgnored child_id reason) (chunk_pairs payload))
      | KFailed \<Rightarrow> Inr (map PFailed payload))"

definition decode_flow_dependency_page_result ::
  "redis_codec \<Rightarrow> string list \<Rightarrow> job_id \<Rightarrow> dependency_kind \<Rightarrow> nat \<Rightarrow> dependency_page option result" where
  "decode_flow_dependency_page_result c result parent_id kind page_count =
     (case result of
        [] \<Rightarrow> Inl (Other (''Redis flow dependency page script returned no status for '' @ parent_id))
      | status # _ \<Rightarrow>
          if status = ''missing'' then Inr None
          else if status = ''ok'' then
            if length result < 3 then
              Inl (Other (''Redis flow dependency page script returned '' @ show_nat (length result)
                @ '' fields for '' @ parent_id))
            else if result ! 1 \<noteq> kind_as_str kind then
              Inl (Other (''Redis flow dependency page script returned `'' @ result ! 1
                @ ''` for requested `'' @ kind_as_str kind @ ''` on '' @ parent_id))
            else
              and_then (decode_u64_field (result ! 2) ''dependency page cursor'' parent_id) (\<lambda>next_cursor.
              and_then (decode_flow_dependency_page_items c kind (drop 3 result) parent_id) (\<lambda>items.
                Inr (Some \<lparr>dp_kind = kind, dp_items = items, dp_next_cursor = next_cursor,
                  dp_count = page_count\<rparr>)))
          else if status = ''invalid_kind'' then
            Inl (Other (''Redis flow dependency page script rejected kind `''
              @ nth_or ''<missing kind>'' 1 result @ ''` for '' @ parent_id))
          else Inl (Other (''unexpected Redis flow dependency page script status `'' @ status
            @ ''` for '' @ parent_id)))"

text \<open>
  Several pages in one reply: a header of four strings, whose last one is the length of the
  payload, and the payload, as often as the request count says. The rest is returned.
\<close>

fun decode_pages ::
  "redis_codec \<Rightarrow> job_id \<Rightarrow> nat \<Rightarrow> string list \<Rightarrow> dependency_pages \<Rightarrow>
   (dependency_pages \<times> string list) result" where
  "decode_pages c parent_id 0 rest pages = Inr (pages, rest)"
| "decode_pages c parent_id (Suc n) rest pages =
     (case rest of
        raw_kind # raw_cursor # raw_count # raw_len # rest' \<Rightarrow>
          and_then (decode_flow_dependency_kind raw_kind parent_id) (\<lambda>kind.
          and_then (decode_u64_field raw_cursor ''dependency page cursor'' parent_id) (\<lambda>next_cursor.
          and_then (decode_usize_field raw_count ''dependency page count'' parent_id) (\<lambda>count.
          and_then (decode_usize_field raw_len ''dependency page payload'' parent_id) (\<lambda>payload_len.
          if length rest' < payload_len then
            Inl (Other (''Redis flow dependency pages script returned a truncated '' @ debug_kind kind
              @ '' payload for '' @ parent_id))
          else
          and_then (decode_flow_dependency_page_items c kind (take payload_len rest') parent_id) (\<lambda>items.
            decode_pages c parent_id n (drop payload_len rest')
              (dependency_pages_insert \<lparr>dp_kind = kind, dp_items = items, dp_next_cursor = next_cursor,
                 dp_count = count\<rparr> pages))))))
      | _ \<Rightarrow> Inl (Other (''Redis flow dependency pages script returned a truncated page header for ''
               @ parent_id)))"

definition decode_flow_dependency_pages_result ::
  "redis_codec \<Rightarrow> string list \<Rightarrow> job_id \<Rightarrow> dependency_pages option result" where
  "decode_flow_dependency_pages_result c result parent_id =
     (case result of
        [] \<Rightarrow> Inl (Other (''Redis flow dependency pages script returned no status for '' @ parent_id))
      | status # _ \<Rightarrow>
          if status = ''missing'' then Inr None
          else if status = ''ok'' then
            and_then (nth_or_error (''Redis flow dependency pages script returned no request count for ''
              @ parent_id) 1 result) (\<lambda>raw.
            and_then (decode_usize_field raw ''dependency page request'' parent_id) (\<lambda>request_count.
            and_then (decode_pages c parent_id request_count (drop 2 result) dependency_pages_default)
              (\<lambda>(pages, rest).
            if rest \<noteq> [] then
              Inl (Other (''Redis flow dependency pages script returned '' @ show_nat (length rest)
                @ '' trailing fields for '' @ parent_id))
            else Inr (Some pages))))
          else if status = ''invalid_kind'' then
            Inl (Other (''Redis flow dependency pages script rejected kind `''
              @ nth_or ''<missing kind>'' 1 result @ ''` for '' @ parent_id))
          else Inl (Other (''unexpected Redis flow dependency pages script status `'' @ status
            @ ''` for '' @ parent_id)))"

definition decode_flow_children_values_result ::
  "redis_codec \<Rightarrow> string list \<Rightarrow> job_id \<Rightarrow> (job_id, json) hmap option result" where
  "decode_flow_children_values_result c result parent_id =
     (case result of
        [] \<Rightarrow> Inl (Other (''Redis flow child values script returned no status for '' @ parent_id))
      | status # rest \<Rightarrow>
          if status = ''missing'' then Inr None
          else if status = ''ok'' then
            if even (length result) then
              Inl (Other (''Redis flow child values script returned an odd pair count for '' @ parent_id))
            else and_then (decode_value_pairs c ''flow child value'' parent_id (chunk_pairs rest) [])
              (\<lambda>m. Inr (Some m))
          else Inl (Other (''unexpected Redis flow child values script status `'' @ status
            @ ''` for '' @ parent_id)))"

definition decode_flow_ignored_children_failures_result ::
  "string list \<Rightarrow> job_id \<Rightarrow> (job_id, string) hmap option result" where
  "decode_flow_ignored_children_failures_result result parent_id =
     (case result of
        [] \<Rightarrow> Inl (Other (''Redis flow ignored child failures script returned no status for '' @ parent_id))
      | status # rest \<Rightarrow>
          if status = ''missing'' then Inr None
          else if status = ''ok'' then
            if even (length result) then
              Inl (Other (''Redis flow ignored child failures script returned an odd pair count for ''
                @ parent_id))
            else Inr (Some (insert_pairs (chunk_pairs rest)))
          else Inl (Other (''unexpected Redis flow ignored child failures script status `'' @ status
            @ ''` for '' @ parent_id)))"

text \<open>
  \<open>decode_flow_dependencies_result\<close>: a child with an empty payload is missing; a child whose
  state is not terminal is pending.
\<close>

fun decode_children ::
  "redis_codec \<Rightarrow> (string \<times> string) list \<Rightarrow> (job list \<times> job_id list \<times> job_id list) result" where
  "decode_children c [] = Inr ([], [], [])"
| "decode_children c ((child_id, child_raw) # rest) =
     (if child_raw = [] then
        and_then (decode_children c rest) (\<lambda>(children, pending, missing).
          Inr (children, pending, child_id # missing))
      else
        and_then (decode_job c child_raw) (\<lambda>child.
        and_then (decode_children c rest) (\<lambda>(children, pending, missing).
          Inr (child # children,
               if is_terminal (j_state child) then pending else j_id child # pending, missing))))"

definition decode_flow_dependencies_result ::
  "redis_codec \<Rightarrow> string list \<Rightarrow> job_id \<Rightarrow> flow_dependencies option result" where
  "decode_flow_dependencies_result c result parent_id =
     (case result of
        [] \<Rightarrow> Inl (Other (''Redis flow dependency script returned no status for '' @ parent_id))
      | status # _ \<Rightarrow>
          if status = ''missing'' then Inr None
          else if status = ''ok'' then
            and_then (nth_or_error (''Redis flow dependency script returned no parent payload for ''
              @ parent_id) 1 result) (\<lambda>parent_raw.
            and_then (decode_job c parent_raw) (\<lambda>parent.
            if odd (length (drop 2 result)) then
              Inl (Other (''Redis flow dependency script returned an odd child payload count for ''
                @ parent_id))
            else
            and_then (decode_children c (chunk_pairs (drop 2 result))) (\<lambda>(children, pending, missing).
              Inr (Some \<lparr>fd_parent = parent, fd_children = children, fd_pending_child_ids = pending,
                fd_missing_child_ids = missing\<rparr>))))
          else Inl (Other (''unexpected Redis flow dependency script status `'' @ status
            @ ''` for '' @ parent_id)))"

section \<open>Results, logs and events\<close>

definition decode_job_finished_result ::
  "redis_codec \<Rightarrow> string list \<Rightarrow> job_id \<Rightarrow> finished_result option result" where
  "decode_job_finished_result c result job_id =
     (case result of
        [] \<Rightarrow> Inl (Other (''Redis job finished script returned no status for '' @ job_id))
      | status # rest \<Rightarrow>
          if status = ''missing'' then Inr None
          else if status = ''not_finished'' then Inr (Some NotFinished)
          else if status = ''completed'' then
            (case rest of
               [] \<Rightarrow> Inr (Some (FinishedCompleted None))
             | raw # _ \<Rightarrow>
                 and_then (map_err (\<lambda>e. ''failed to decode Redis job completion value for '' @ job_id
                     @ '': '' @ e) (rc_from_str c raw))
                   (\<lambda>v. Inr (Some (FinishedCompleted (Some v)))))
          else if status = ''failed'' then
            Inr (Some (FinishedFailed (case rest of [] \<Rightarrow> None | reason # _ \<Rightarrow> Some reason)))
          else Inl (Other (''unexpected Redis job finished script status `'' @ status @ ''` for '' @ job_id)))"

definition decode_log_entries :: "redis_codec \<Rightarrow> string list \<Rightarrow> job_log_entry list result" where
  "decode_log_entries c raw_logs =
     collect_results (\<lambda>raw. map_err (\<lambda>e. ''failed to decode Redis job log entry: '' @ e)
       (rc_log_from_str c raw)) raw_logs"

definition decode_clear_logs_result :: "redis_codec \<Rightarrow> string list \<Rightarrow> job_id \<Rightarrow> job_log_page result" where
  "decode_clear_logs_result c result job_id =
     (case result of
        [] \<Rightarrow> Inl (Other (''Redis clear logs script returned no count for '' @ job_id))
      | raw_count # rest \<Rightarrow>
          and_then (decode_usize_field raw_count ''log'' job_id) (\<lambda>cnt.
          and_then (decode_log_entries c rest) (\<lambda>logs.
          if length logs > cnt then
            Inl (Other (''Redis clear logs script returned '' @ show_nat (length logs)
              @ '' logs but count was '' @ show_nat cnt @ '' for '' @ job_id))
          else Inr \<lparr>lp_logs = logs, lp_count = cnt\<rparr>)))"

record 'v stream_entry =
  se_id :: string
  se_map :: "(string \<times> 'v) list"

definition stream_string_field :: "'v redis_value \<Rightarrow> (string \<times> 'v) list \<Rightarrow> string \<Rightarrow> string option" where
  "stream_string_field rv m field =
     (case map_of m field of
        None \<Rightarrow> None
      | Some v \<Rightarrow> (case rv_string rv v of Inl _ \<Rightarrow> None | Inr s \<Rightarrow> Some s))"

definition stream_field_value :: "redis_codec \<Rightarrow> 'v redis_value \<Rightarrow> 'v \<Rightarrow> json" where
  "stream_field_value c rv v =
     (case rv_string rv v of
        Inr raw \<Rightarrow> (case rc_from_str c raw of Inr j \<Rightarrow> j | Inl _ \<Rightarrow> JString raw)
      | Inl _ \<Rightarrow> (case rv_i64 rv v of Inr n \<Rightarrow> json_of_int n | Inl _ \<Rightarrow> JNull))"

text \<open>\<open>now\<close> is the clock reading of the fallback \<open>Utc::now\<close>.\<close>

definition stream_id_timestamp :: "redis_codec \<Rightarrow> instant \<Rightarrow> string \<Rightarrow> instant" where
  "stream_id_timestamp c now i =
     (let millis = (case split_once i (CHR ''-'') of
                      None \<Rightarrow> 0
                    | Some (m, _) \<Rightarrow> (case parse_i64 m of None \<Rightarrow> 0 | Some n \<Rightarrow> n))
      in case rc_from_timestamp_millis c millis of None \<Rightarrow> now | Some t \<Rightarrow> t)"

definition decode_stream_entry ::
  "redis_codec \<Rightarrow> 'v redis_value \<Rightarrow> instant \<Rightarrow> 'v stream_entry \<Rightarrow> job_event result" where
  "decode_stream_entry c rv now entry =
     (case stream_string_field rv (se_map entry) ''event'' of
        None \<Rightarrow> Inl (Other (''Redis event stream entry '' @ se_id entry @ '' has no event''))
      | Some event \<Rightarrow>
          and_then (case stream_string_field rv (se_map entry) ''prev'' of
                      None \<Rightarrow> Inr None
                    | Some p \<Rightarrow> and_then (decode_event_prev_state p) (\<lambda>st. Inr (Some st)))
            (\<lambda>prev. Inr
               \<lparr>ev_id = se_id entry, ev_event = event,
                ev_timestamp = stream_id_timestamp c now (se_id entry),
                ev_job_id = stream_string_field rv (se_map entry) ''jobId'',
                ev_prev = prev,
                ev_fields = insert_pairs
                  (map (\<lambda>(k, v). (k, stream_field_value c rv v))
                    (filter (\<lambda>(k, v). k \<notin> set [''event'', ''jobId'', ''prev'']) (se_map entry)))\<rparr>))"

definition decode_event_stream ::
  "redis_codec \<Rightarrow> 'v redis_value \<Rightarrow> instant \<Rightarrow> 'v stream_entry list \<Rightarrow> job_event list result" where
  "decode_event_stream c rv now entries = collect_results (decode_stream_entry c rv now) entries"

section \<open>Counts, pages and metrics\<close>

definition decode_stats_count :: "int \<Rightarrow> string \<Rightarrow> nat result" where
  "decode_stats_count value field =
     (if value < 0 then
        Inl (Other (''Redis stats script returned negative '' @ field @ '' count: '' @ show_int value))
      else Inr (nat value))"

text \<open>\<open>try_fold\<close> with \<open>checked_add\<close> on \<open>usize\<close>.\<close>

fun checked_total :: "nat \<Rightarrow> nat list \<Rightarrow> nat result" where
  "checked_total acc [] = Inr acc"
| "checked_total acc (n # ns) =
     (if acc + n > u64_max then
        Inl (Other ''Redis stats script returned counts that overflow usize'')
      else checked_total (acc + n) ns)"

definition decode_stats_result :: "int list \<Rightarrow> queue_stats result" where
  "decode_stats_result result =
     (if length result \<noteq> 7 then
        Inl (Other (''Redis stats script returned '' @ show_nat (length result) @ '' values, expected 7''))
      else
        and_then (decode_stats_count (result ! 0) ''waiting'') (\<lambda>waiting.
        and_then (decode_stats_count (result ! 1) ''delayed'') (\<lambda>delayed.
        and_then (decode_stats_count (result ! 2) ''active'') (\<lambda>active.
        and_then (decode_stats_count (result ! 3) ''waiting_children'') (\<lambda>waiting_children.
        and_then (decode_stats_count (result ! 4) ''completed'') (\<lambda>completed.
        and_then (decode_stats_count (result ! 5) ''failed'') (\<lambda>failed.
        if result ! 6 < 0 then
          Inl (Other (''Redis stats script returned negative paused flag: '' @ show_int (result ! 6)))
        else
        and_then (checked_total 0 [waiting, delayed, active, waiting_children, completed, failed]) (\<lambda>total.
          Inr \<lparr>st_total = total, st_waiting = waiting, st_delayed = delayed, st_active = active,
            st_waiting_children = waiting_children, st_completed = completed, st_failed = failed,
            st_paused = (result ! 6 \<noteq> 0)\<rparr>))))))))"

definition decode_priority_counts :: "job_priority list \<Rightarrow> int list \<Rightarrow> job_priority_count list result" where
  "decode_priority_counts priorities result =
     (if length result \<noteq> length priorities then
        Inl (Other (''Redis priority count script returned '' @ show_nat (length result)
          @ '' values, expected '' @ show_nat (length priorities)))
      else collect_results (\<lambda>(priority, n).
        and_then (decode_stats_count n ''priority'') (\<lambda>k.
          Inr \<lparr>pc_priority = priority, pc_count = k\<rparr>)) (zip priorities result))"

definition decode_state_counts :: "job_state list \<Rightarrow> int list \<Rightarrow> job_state_count list result" where
  "decode_state_counts states result =
     (if length result \<noteq> length states then
        Inl (Other (''Redis job count script returned '' @ show_nat (length result)
          @ '' values, expected '' @ show_nat (length states)))
      else collect_results (\<lambda>(state, n).
        and_then (decode_stats_count n (job_state_name state)) (\<lambda>k.
          Inr \<lparr>sc_state = state, sc_count = k\<rparr>)) (zip states result))"

definition redis_error :: "string \<Rightarrow> lane_error" where
  "redis_error e = Other (''Redis job backend error: '' @ e)"

definition or_redis_error :: "string + 'a \<Rightarrow> 'a result" where
  "or_redis_error r = (case r of Inl e \<Rightarrow> Inl (redis_error e) | Inr x \<Rightarrow> Inr x)"

definition decode_redis_string :: "'v redis_value \<Rightarrow> 'v \<Rightarrow> string result" where
  "decode_redis_string rv v = or_redis_error (rv_string rv v)"

definition decode_list_jobs_result ::
  "redis_codec \<Rightarrow> 'v redis_value \<Rightarrow> 'v list \<Rightarrow> nat \<Rightarrow> nat \<Rightarrow> job_list_page result" where
  "decode_list_jobs_result c rv result offset limit =
     (case result of
        [] \<Rightarrow> Inl (Other ''Redis list jobs script returned no values'')
      | v # rest \<Rightarrow>
          if decode_redis_string rv v = Inr ''bad_state'' then
            Inl (Other ''Redis list jobs script received an unknown state'')
          else
            and_then (or_redis_error (rv_usize rv v)) (\<lambda>total.
            and_then (collect_results (\<lambda>w. and_then (decode_redis_string rv w) (decode_job c)) rest)
              (\<lambda>jobs.
            if limit > 0 \<and> length jobs > limit then
              Inl (Other (''Redis list jobs script returned '' @ show_nat (length jobs)
                @ '' jobs, expected at most '' @ show_nat limit))
            else Inr \<lparr>jp_jobs = jobs, jp_total = total, jp_offset = offset, jp_limit = limit\<rparr>)))"

definition decode_optional_usize_value :: "'v redis_value \<Rightarrow> 'v \<Rightarrow> string \<Rightarrow> nat result" where
  "decode_optional_usize_value rv v field =
     (if rv_is_nil rv v then Inr 0
      else map_err (\<lambda>e. ''failed to decode Redis '' @ field @ '': '' @ e) (rv_usize rv v))"

definition decode_optional_i64_value :: "'v redis_value \<Rightarrow> 'v \<Rightarrow> string \<Rightarrow> int result" where
  "decode_optional_i64_value rv v field =
     (if rv_is_nil rv v then Inr 0
      else map_err (\<lambda>e. ''failed to decode Redis '' @ field @ '': '' @ e) (rv_i64 rv v))"

record job_metrics_meta =
  jm_count :: nat
  jm_previous_timestamp_millis :: int
  jm_previous_count :: nat

record job_metrics =
  jm_meta :: job_metrics_meta
  jm_data :: "nat list"
  jm_points :: nat

definition decode_metrics_result :: "'v redis_value \<Rightarrow> 'v \<Rightarrow> job_state \<Rightarrow> job_metrics result" where
  "decode_metrics_result rv value state =
     and_then (terminal_metrics_suffix state) (\<lambda>_.
     case rv_array rv value of
       None \<Rightarrow> Inl (Other ''Redis metrics script returned a non-array payload'')
     | Some items \<Rightarrow>
         if length items \<noteq> 3 then
           Inl (Other (''Redis metrics script returned '' @ show_nat (length items) @ '' values, expected 3''))
         else
           (case rv_array rv (items ! 0) of
              None \<Rightarrow> Inl (Other ''Redis metrics script returned non-array metadata'')
            | Some meta_values \<Rightarrow>
                if length meta_values \<noteq> 3 then
                  Inl (Other (''Redis metrics metadata returned '' @ show_nat (length meta_values)
                    @ '' values, expected 3''))
                else
                  (case rv_array rv (items ! 1) of
                     None \<Rightarrow> Inl (Other ''Redis metrics script returned non-array data points'')
                   | Some data_values \<Rightarrow>
                       and_then (decode_optional_usize_value rv (meta_values ! 0) ''metrics count'') (\<lambda>n.
                       and_then (decode_optional_i64_value rv (meta_values ! 1)
                         ''metrics previous timestamp'') (\<lambda>prev_ts.
                       and_then (decode_optional_usize_value rv (meta_values ! 2)
                         ''metrics previous count'') (\<lambda>prev_n.
                       and_then (collect_results (\<lambda>v. decode_optional_usize_value rv v
                         ''metrics data point'') data_values) (\<lambda>data.
                       and_then (or_redis_error (rv_usize rv (items ! 2))) (\<lambda>points.
                         Inr \<lparr>jm_meta = \<lparr>jm_count = n, jm_previous_timestamp_millis = prev_ts,
                                jm_previous_count = prev_n\<rparr>,
                              jm_data = data, jm_points = points\<rparr>))))))))"

section \<open>The replies as the scripts frame them\<close>

text \<open>
  The framing written by the scripts: \<open>append_scan_page\<close> of the multi-page report and the four
  segments of the values report.
\<close>

definition append_scan_page :: "string \<Rightarrow> nat \<Rightarrow> nat \<Rightarrow> string list \<Rightarrow> string list" where
  "append_scan_page kind next_cursor page_count entries =
     [kind, show_nat next_cursor, show_nat page_count, show_nat (length entries)] @ entries"

definition value_segments ::
  "string list \<Rightarrow> string list \<Rightarrow> string list \<Rightarrow> string list \<Rightarrow> string list" where
  "value_segments processed unprocessed ignored failed =
     ''ok'' # concat (map (\<lambda>seg. show_nat (length seg) # seg) [processed, unprocessed, ignored, failed])"

lemma decode_kind_as_str [simp]: "decode_flow_dependency_kind (kind_as_str kind) parent_id = Inr kind"
  by (cases kind) (simp_all add: decode_flow_dependency_kind_def)

text \<open>A page as a script sends it: kind, next cursor, count and the raw entries.\<close>

type_synonym raw_page = "dependency_kind \<times> nat \<times> nat \<times> string list"

definition raw_page_ok :: "redis_codec \<Rightarrow> job_id \<Rightarrow> raw_page \<Rightarrow> dependency_page \<Rightarrow> bool" where
  "raw_page_ok c parent_id raw page \<longleftrightarrow>
     (case raw of (kind, cursor, n, entries) \<Rightarrow>
        cursor \<le> u64_max \<and> n \<le> u64_max \<and> length entries \<le> u64_max \<and>
        dp_kind page = kind \<and> dp_next_cursor page = cursor \<and> dp_count page = n \<and>
        decode_flow_dependency_page_items c kind entries parent_id = Inr (dp_items page))"

definition frame_page :: "raw_page \<Rightarrow> string list" where
  "frame_page raw = (case raw of (kind, cursor, n, entries) \<Rightarrow>
     append_scan_page (kind_as_str kind) cursor n entries)"

lemma decode_pages_framed:
  assumes "list_all2 (raw_page_ok c parent_id) raws pages"
  shows "decode_pages c parent_id (length raws) (concat (map frame_page raws) @ rest) acc =
         Inr (fold dependency_pages_insert pages acc, rest)"
  using assms
proof (induction raws pages arbitrary: acc rule: list_all2_induct)
  case (Cons raw raws page pages)
  obtain kind cursor n entries where raw: "raw = (kind, cursor, n, entries)"
    by (cases raw) auto
  have page: "\<lparr>dp_kind = kind, dp_items = dp_items page, dp_next_cursor = cursor, dp_count = n\<rparr> = page"
    using Cons.hyps(1) by (simp add: raw_page_ok_def raw)
  show ?case
    using Cons by (simp add: raw frame_page_def append_scan_page_def raw_page_ok_def page)
qed simp

text \<open>
  A multi-page dependency report survives the wire: for any list of pages, whatever strings
  their entries hold (also strings that look like a header, a status or a number), the reply the
  script frames is decoded into exactly those pages, none truncated, shifted or left over.
\<close>

theorem pages_reply_roundtrip:
  assumes "list_all2 (raw_page_ok c parent_id) raws pages" "length raws \<le> u64_max"
  shows "decode_flow_dependency_pages_result c
           (''ok'' # show_nat (length raws) # concat (map frame_page raws)) parent_id =
         Inr (Some (fold dependency_pages_insert pages dependency_pages_default))"
  using assms(2) decode_pages_framed [OF assms(1), of "[]" dependency_pages_default]
  by (simp add: decode_flow_dependency_pages_result_def)

lemma read_segment_framed:
  assumes "n = length seg" "n \<le> u64_max"
  shows "read_dependency_value_segment (show_nat n # seg @ rest) field parent_id = Inr (seg, rest)"
    and "read_dependency_value_segment (show_nat n # seg) field parent_id = Inr (seg, [])"
  using assms by (simp_all add: read_dependency_value_segment_def)

lemma length_pairs: "length (concat (map (\<lambda>(a, b). [a, b]) ps)) = 2 * length ps"
  by (induction ps) auto

lemma decode_value_pairs_Inr:
  assumes "list_all2 (\<lambda>(i, raw) (i', v). i' = i \<and> rc_from_str c raw = Inr v) raws vs"
  shows "decode_value_pairs c what parent_id raws m = Inr (fold (\<lambda>(k, v). AList.update k v) vs m)"
  using assms by (induction raws vs arbitrary: m rule: list_all2_induct) (auto split: prod.splits)

text \<open>
  The values report of a flow survives the wire in the same way: the four framed segments
  give back the processed values, the pending and the failed children and the ignored
  failures.
\<close>

theorem values_reply_roundtrip:
  assumes "list_all2 (\<lambda>(i, raw) (i', v). i' = i \<and> rc_from_str c raw = Inr v) raws vs"
    and "2 * length raws \<le> u64_max" "2 * length ignored \<le> u64_max"
    and "length unprocessed \<le> u64_max" "length failed \<le> u64_max"
  shows "decode_flow_dependency_values_result c
           (value_segments (concat (map (\<lambda>(a, b). [a, b]) raws)) unprocessed
              (concat (map (\<lambda>(a, b). [a, b]) ignored)) failed) parent_id =
         Inr (Some \<lparr>fv_processed = insert_pairs vs, fv_unprocessed = unprocessed,
           fv_failed = failed, fv_ignored = insert_pairs ignored\<rparr>)"
proof -
  have pairs: "length (concat (map (\<lambda>(a, b). [a, b]) ps)) = 2 * length ps" for ps :: "(string \<times> string) list"
    by (rule length_pairs)
  show ?thesis
    using assms(2-5)
    by (simp add: decode_flow_dependency_values_result_def value_segments_def read_segment_framed
        pairs decode_value_pairs_Inr [OF assms(1)] insert_pairs_def del: length_concat)
qed

lemma decode_state_name [simp]:
  "decode_job_state (job_state_name st) = Inr (Some st)"
  "decode_event_prev_state (job_state_name st) = Inr st"
  by (cases st; simp add: decode_job_state_def decode_event_prev_state_def)+

lemma checked_total_Inr:
  "checked_total acc ns = Inr t \<longleftrightarrow> t = acc + sum_list ns \<and> (ns = [] \<or> t \<le> u64_max)"
proof (induction ns arbitrary: acc)
  case (Cons n ns)
  show ?case
  proof (cases "acc + n \<le> u64_max")
    case True
    then show ?thesis
      using Cons.IH [of "acc + n"] by (cases "ns = []") (auto simp: add.assoc)
  next
    case False
    then have "\<not> acc + (n + sum_list ns) \<le> u64_max" by simp
    with False show ?thesis by simp
  qed
qed auto

text \<open>
  The statistics reply is accepted exactly when it has seven values, none negative, whose
  first six add up within \<open>usize\<close>; then every count is the script's and the total is their
  sum, never a wrapped one.
\<close>

theorem stats_reply_exact:
  "decode_stats_result result = Inr st \<longleftrightarrow>
   length result = 7 \<and> list_all (\<lambda>v. 0 \<le> v) result \<and>
   sum_list (take 6 result) \<le> int u64_max \<and>
   map int [st_waiting st, st_delayed st, st_active st, st_waiting_children st, st_completed st,
     st_failed st] = take 6 result \<and>
   int (st_total st) = sum_list (take 6 result) \<and>
   st_paused st = (result ! 6 \<noteq> 0)"
proof (cases "length result = 7")
  case True
  then obtain a b d e f g h where r: "result = [a, b, d, e, f, g, h]"
    by (auto simp: length_Suc_conv eval_nat_numeral)
  show ?thesis
    by (cases st)
       (auto simp: r decode_stats_result_def decode_stats_count_def and_then_Inr checked_total_Inr)
qed (simp add: decode_stats_result_def)

end
