(* ===== verification/Redis_Keys.thy ===== *)
theory Redis_Keys
  imports Redis_Reports Float64_Order
begin

text \<open>
  The parts of \<open>src/src/job/redis.rs\<close> that compute without the server: the names of the keys,
  the scores that order the waiting jobs, durations in milliseconds, the time a worker blocks on
  the marker, and the rules on jobs. A queue is identified by its namespace and its name.
\<close>

record redis_queue =
  rq_namespace :: string
  rq_queue :: string
  rq_claim_rate_limit :: "job_rate_limit option"

definition redis_with_namespace :: "string \<Rightarrow> string \<Rightarrow> redis_queue" where
  "redis_with_namespace namespace queue =
     \<lparr>rq_namespace = namespace, rq_queue = queue, rq_claim_rate_limit = None\<rparr>"

definition redis_new :: "string \<Rightarrow> redis_queue" where
  "redis_new queue = redis_with_namespace ''a3s:lane'' queue"

definition with_claim_rate_limit :: "job_rate_limit \<Rightarrow> redis_queue \<Rightarrow> redis_queue result" where
  "with_claim_rate_limit rate_limit q =
     and_then (rate_limit_validate rate_limit) (\<lambda>_.
       Inr (q\<lparr>rq_claim_rate_limit := Some rate_limit\<rparr>))"

section \<open>Keys\<close>

definition redis_key :: "redis_queue \<Rightarrow> string \<Rightarrow> string" where
  "redis_key q suffix = rq_namespace q @ '':'' @ rq_queue q @ '':'' @ suffix"

definition queue_key_prefix :: "redis_queue \<Rightarrow> string" where
  "queue_key_prefix q = rq_namespace q @ '':'' @ rq_queue q @ '':''"

definition jobs_key :: "redis_queue \<Rightarrow> string" where "jobs_key q = redis_key q ''jobs''"
definition meta_key :: "redis_queue \<Rightarrow> string" where "meta_key q = redis_key q ''meta''"
definition sequence_key :: "redis_queue \<Rightarrow> string" where "sequence_key q = redis_key q ''sequence''"
definition events_key :: "redis_queue \<Rightarrow> string" where "events_key q = redis_key q ''events''"
definition marker_key :: "redis_queue \<Rightarrow> string" where "marker_key q = redis_key q ''marker''"

definition metrics_key :: "redis_queue \<Rightarrow> job_state \<Rightarrow> string result" where
  "metrics_key q state =
     and_then (terminal_metrics_suffix state) (\<lambda>suffix. Inr (redis_key q (''metrics:'' @ suffix)))"

definition metrics_data_key :: "redis_queue \<Rightarrow> job_state \<Rightarrow> string result" where
  "metrics_data_key q state =
     and_then (terminal_metrics_suffix state) (\<lambda>suffix.
       Inr (redis_key q (''metrics:'' @ suffix @ '':data'')))"

definition claim_rate_limit_key :: "redis_queue \<Rightarrow> string" where
  "claim_rate_limit_key q = redis_key q ''claim_rate_limit''"

definition stalled_key :: "redis_queue \<Rightarrow> string" where "stalled_key q = redis_key q ''stalled''"

definition lock_key :: "redis_queue \<Rightarrow> job_id \<Rightarrow> string" where
  "lock_key q job_id = rq_namespace q @ '':'' @ rq_queue q @ '':locks:'' @ job_id"

definition lock_key_prefix :: "redis_queue \<Rightarrow> string" where
  "lock_key_prefix q = rq_namespace q @ '':'' @ rq_queue q @ '':locks:''"

definition dependencies_key_prefix :: "redis_queue \<Rightarrow> string" where
  "dependencies_key_prefix q = rq_namespace q @ '':'' @ rq_queue q @ '':dependencies:''"

definition dependencies_key :: "redis_queue \<Rightarrow> job_id \<Rightarrow> string" where
  "dependencies_key q parent_id = dependencies_key_prefix q @ parent_id"

definition logs_key :: "redis_queue \<Rightarrow> job_id \<Rightarrow> string" where
  "logs_key q job_id = rq_namespace q @ '':'' @ rq_queue q @ '':logs:'' @ job_id"

definition logs_key_prefix :: "redis_queue \<Rightarrow> string" where
  "logs_key_prefix q = rq_namespace q @ '':'' @ rq_queue q @ '':logs:''"

definition deduplication_key_prefix :: "redis_queue \<Rightarrow> string" where
  "deduplication_key_prefix q = rq_namespace q @ '':'' @ rq_queue q @ '':deduplication:''"

definition deduplication_key :: "redis_queue \<Rightarrow> string \<Rightarrow> string" where
  "deduplication_key q deduplication_id = deduplication_key_prefix q @ deduplication_id"

definition deduplication_next_key_prefix :: "redis_queue \<Rightarrow> string" where
  "deduplication_next_key_prefix q = rq_namespace q @ '':'' @ rq_queue q @ '':deduplication_next:''"

definition deduplication_next_key :: "redis_queue \<Rightarrow> string \<Rightarrow> string" where
  "deduplication_next_key q deduplication_id = deduplication_next_key_prefix q @ deduplication_id"

definition repeat_key_prefix :: "redis_queue \<Rightarrow> string" where
  "repeat_key_prefix q = rq_namespace q @ '':'' @ rq_queue q @ '':repeat:''"

definition repeat_schedulers_key :: "redis_queue \<Rightarrow> string" where
  "repeat_schedulers_key q = redis_key q ''repeat''"

definition repeat_owner_key :: "redis_queue \<Rightarrow> string \<Rightarrow> string" where
  "repeat_owner_key q repeat_key = repeat_key_prefix q @ repeat_key"

definition repeat_scheduler_meta_key :: "redis_queue \<Rightarrow> string \<Rightarrow> string" where
  "repeat_scheduler_meta_key q repeat_key = redis_key q (''repeat_meta:'' @ repeat_key)"

definition state_key :: "redis_queue \<Rightarrow> job_state \<Rightarrow> string" where
  "state_key q state = redis_key q
     (case state of Waiting \<Rightarrow> ''waiting'' | Delayed \<Rightarrow> ''delayed'' | Active \<Rightarrow> ''active''
      | WaitingChildren \<Rightarrow> ''waiting_children'' | Completed \<Rightarrow> ''completed'' | Failed \<Rightarrow> ''failed'')"

lemmas key_defs = redis_key_def jobs_key_def meta_key_def sequence_key_def events_key_def
  marker_key_def claim_rate_limit_key_def stalled_key_def lock_key_def lock_key_prefix_def
  dependencies_key_prefix_def dependencies_key_def logs_key_def logs_key_prefix_def
  deduplication_key_prefix_def deduplication_key_def deduplication_next_key_prefix_def
  deduplication_next_key_def repeat_key_prefix_def repeat_schedulers_key_def repeat_owner_key_def
  repeat_scheduler_meta_key_def state_key_def

lemma redis_key_inj [simp]: "redis_key q a = redis_key q b \<longleftrightarrow> a = b"
  by (simp add: redis_key_def)

lemma state_key_inj [simp]: "state_key q a = state_key q b \<longleftrightarrow> a = b"
  by (cases a; cases b) (simp_all add: state_key_def)

text \<open>
  The same key for two queues: the name of a queue may hold the separator, so the namespace
  \<open>a\<close> with the queue \<open>b:c\<close> and the namespace \<open>a:b\<close> with the queue \<open>c\<close> share every key.
\<close>

lemma namespaces_overlap:
  "redis_key (redis_with_namespace ''a'' ''b:c'') = redis_key (redis_with_namespace ''a:b'' ''c'')"
  by (simp add: redis_key_def redis_with_namespace_def fun_eq_iff)

section \<open>Times\<close>

definition NANOS_PER_MILLI :: nat where "NANOS_PER_MILLI = 1000000"

definition duration_millis :: "duration \<Rightarrow> nat" where
  "duration_millis d = min (d div NANOS_PER_MILLI) u64_max"

definition lock_duration_millis :: "duration \<Rightarrow> nat" where
  "lock_duration_millis d = max (duration_millis d) 1"

definition f64_of_int :: "int \<Rightarrow> f64" where
  "f64_of_int i = f64_round (of_int i)"

definition millis :: "externals \<Rightarrow> instant \<Rightarrow> f64" where
  "millis ext t = f64_of_int (ext_timestamp_millis ext t)"

definition MAX_MARKER_BLOCK_TIMEOUT :: duration where "MAX_MARKER_BLOCK_TIMEOUT = 10000000000"
definition MIN_MARKER_BLOCK_TIMEOUT :: duration where "MIN_MARKER_BLOCK_TIMEOUT = 1000000"

definition i64_saturating_sub :: "int \<Rightarrow> int \<Rightarrow> int" where
  "i64_saturating_sub a b = max i64_min (min i64_max (a - b))"

definition marker_block_timeout :: "externals \<Rightarrow> int option \<Rightarrow> duration \<Rightarrow> instant \<Rightarrow> duration" where
  "marker_block_timeout ext block_until_millis remaining now =
     (if remaining = 0 then 0
      else
        let timeout = min remaining MAX_MARKER_BLOCK_TIMEOUT;
            clamp = (\<lambda>t. if t < MIN_MARKER_BLOCK_TIMEOUT \<and> remaining \<ge> MIN_MARKER_BLOCK_TIMEOUT
                         then MIN_MARKER_BLOCK_TIMEOUT else t)
        in case block_until_millis of
             None \<Rightarrow> clamp timeout
           | Some until_millis \<Rightarrow>
               let delay_millis = i64_saturating_sub until_millis (ext_timestamp_millis ext now)
               in if delay_millis \<le> 0 then 0
                  else clamp (min timeout (nat delay_millis * NANOS_PER_MILLI)))"

text \<open>
  A worker never blocks past what it was asked to wait, nor longer than ten seconds at a
  time, nor past the moment the next delayed job is due by more than a millisecond: the marker
  cannot make it oversleep a job.
\<close>

theorem block_timeout_bounds:
  "marker_block_timeout ext until remaining now \<le> remaining \<and>
   marker_block_timeout ext until remaining now \<le> MAX_MARKER_BLOCK_TIMEOUT \<and>
   (\<forall>u. until = Some u \<longrightarrow>
      marker_block_timeout ext until remaining now
        \<le> nat (i64_saturating_sub u (ext_timestamp_millis ext now)) * NANOS_PER_MILLI)"
  by (cases until)
     (auto simp: marker_block_timeout_def Let_def MIN_MARKER_BLOCK_TIMEOUT_def
        MAX_MARKER_BLOCK_TIMEOUT_def NANOS_PER_MILLI_def)

section \<open>Rules on jobs\<close>

definition redis_job_deduplication_id :: "job \<Rightarrow> string option" where
  "redis_job_deduplication_id j = map_option do_id (jo_deduplication (j_options j))"

definition job_deduplication_ttl_millis :: "job \<Rightarrow> nat option" where
  "job_deduplication_ttl_millis j =
     (case jo_deduplication (j_options j) of
        None \<Rightarrow> None
      | Some d \<Rightarrow> if do_keep_last_if_active d then None else map_option lock_duration_millis (do_ttl d))"

definition job_repeat_key :: "job \<Rightarrow> string option" where
  "job_repeat_key j = j_repeat_key j"

definition redis_repeat_entry :: "job \<Rightarrow> repeat_entry option" where
  "redis_repeat_entry j =
     (case (job_repeat_key j, jo_repeat (j_options j)) of
        (Some key', Some options) \<Rightarrow>
          Some \<lparr>re_key = key', re_job_id = j_id j, re_name = j_name j, re_state = j_state j,
                re_scheduled_at = j_scheduled_at j, re_repeat_count = j_repeat_count j,
                re_options = options\<rparr>
      | _ \<Rightarrow> None)"

definition redis_should_retry :: "job \<Rightarrow> bool" where
  "redis_should_retry j \<longleftrightarrow>
     (let policy = jo_retry_policy (j_options j)
      in rp_max_retries policy > 0 \<and> j_attempts_made j \<le> rp_max_retries policy)"

lemma redis_rules_agree:
  "redis_job_deduplication_id j = job_deduplication_id j"
  "redis_should_retry j = should_retry j"
  "\<not> is_terminal (j_state j) \<Longrightarrow> redis_repeat_entry j = repeat_entry_of j"
  by (auto simp: redis_job_deduplication_id_def job_deduplication_id_def redis_should_retry_def
      should_retry_def Let_def redis_repeat_entry_def repeat_entry_of_def active_repeat_key_def
      job_repeat_key_def split: option.splits)

end
