(* ===== verification/Redis_Scores.thy ===== *)
theory Redis_Scores
  imports Redis_Keys Job_Queue_Examples
begin

text \<open>
  The order in which the Redis backend hands out waiting jobs. A waiting job is a member of a
  sorted set whose score packs priority, queueing discipline and sequence number into one
  double; the server keeps equal scores in the order of the ids. The numbers of the scripts
  (\<open>waiting_score_for\<close>, \<open>push_back_waiting_job\<close>, the ranges of \<open>COUNTS_PER_PRIORITY_SCRIPT\<close>) are
  Lua numbers, which are doubles.
\<close>

definition WAITING_SCORE_BUCKET :: f64 where
  "WAITING_SCORE_BUCKET = Fin 1000000000000"

section \<open>Lua numbers\<close>

fun f64_neg :: "f64 \<Rightarrow> f64" where
  "f64_neg (Fin a) = Fin (- a)"
| "f64_neg PosInf = NegInf"
| "f64_neg NegInf = PosInf"
| "f64_neg NaN = NaN"

definition f64_sub :: "f64 \<Rightarrow> f64 \<Rightarrow> f64" where
  "f64_sub x y = f64_add x (f64_neg y)"

fun lua_floor :: "f64 \<Rightarrow> f64" where
  "lua_floor (Fin a) = Fin (of_int \<lfloor>a\<rfloor>)"
| "lua_floor x = x"

text \<open>Lua 5.1 defines \<open>a % b\<close> as \<open>a - math.floor(a / b) * b\<close>.\<close>

definition lua_mod :: "f64 \<Rightarrow> f64 \<Rightarrow> f64" where
  "lua_mod a b = f64_sub a (f64_mul (lua_floor (f64_div a b)) b)"

section \<open>Scores\<close>

definition waiting_score_for :: "f64 \<Rightarrow> f64 \<Rightarrow> bool \<Rightarrow> f64 \<Rightarrow> f64" where
  "waiting_score_for priority sequence lifo bucket =
     (let half_bucket = lua_floor (f64_div bucket (Fin 2));
          sequence_index = lua_mod sequence half_bucket
      in if lifo
         then f64_add (f64_mul priority bucket) (f64_sub (f64_sub half_bucket (Fin 1)) sequence_index)
         else f64_add (f64_add (f64_mul priority bucket) half_bucket) sequence_index)"

text \<open>The score of a job handed back by its worker, ahead of all others of its priority.\<close>

definition pushed_back_score :: "f64 \<Rightarrow> f64 \<Rightarrow> f64" where
  "pushed_back_score priority bucket = f64_mul priority bucket"

text \<open>The scores counted for a priority.\<close>

definition priority_range :: "f64 \<Rightarrow> f64 \<Rightarrow> f64 \<times> f64" where
  "priority_range priority bucket =
     (f64_mul priority bucket,
      f64_sub (f64_mul (f64_add priority (Fin 1)) bucket) (Fin 1))"

text \<open>
  The score of a job as it stands in the waiting set: a job that was handed back carries the
  sequence number 0, every other one the number drawn when it was queued.
\<close>

definition job_waiting_score :: "job \<Rightarrow> f64" where
  "job_waiting_score j =
     (if j_enqueued_seq j = 0 then pushed_back_score (f64_of_nat (j_priority j)) WAITING_SCORE_BUCKET
      else waiting_score_for (f64_of_nat (j_priority j)) (f64_of_nat (j_enqueued_seq j))
             (jo_lifo (j_options j)) WAITING_SCORE_BUCKET)"

section \<open>Exact arithmetic below \<open>2 ^ 53\<close>\<close>

abbreviation fin_nat :: "nat \<Rightarrow> f64" where
  "fin_nat n \<equiv> Fin (of_nat n)"

lemma f64_of_nat_exact [simp]: "n < 2 ^ 53 \<Longrightarrow> f64_of_nat n = fin_nat n"
  unfolding f64_of_nat_def by (rule f64_round_small_nat)

lemma f64_mul_exact: "a * b < 2 ^ 53 \<Longrightarrow> f64_mul (fin_nat a) (fin_nat b) = fin_nat (a * b)"
  using f64_round_small_nat [of "a * b"] by simp

lemma f64_add_exact: "a + b < 2 ^ 53 \<Longrightarrow> f64_add (fin_nat a) (fin_nat b) = fin_nat (a + b)"
  using f64_round_small_nat [of "a + b"] by simp

lemma f64_sub_exact: "b \<le> a \<Longrightarrow> a < 2 ^ 53 \<Longrightarrow> f64_sub (fin_nat a) (fin_nat b) = fin_nat (a - b)"
  using f64_round_small_nat [of "a - b"] by (simp add: f64_sub_def of_nat_diff)

text \<open>
  The quotient of a smaller by a larger integer rounds below 1 as long as the divisor is far
  from \<open>2 ^ 53\<close>, so \<open>%\<close> leaves the dividend alone.
\<close>

lemma f64_round_near_one: "f64_round (1 - 1 / 2 ^ 50) = Fin (1 - 1 / 2 ^ 50)"
proof -
  have "\<lceil>1 / (1 - 1 / 2 ^ 50) :: rat\<rceil> = 2"
    by (rule ceiling_unique) simp_all
  then have e: "max (rat_exponent \<bar>1 - 1 / 2 ^ 50\<bar>) (- 1022) = - 1"
    by (simp add: rat_exponent_def floorlog_def)
  have u: "pow2 (- 1 - 52) = 1 / 2 ^ 53"
    by (simp add: pow2_def)
  have "(1 - 1 / 2 ^ 50) / (1 / 2 ^ 53) = (of_int (2 ^ 53 - 2 ^ 3) :: rat)" by simp
  then have r: "round_half_even ((1 - 1 / 2 ^ 50) / (1 / 2 ^ 53)) = 2 ^ 53 - 2 ^ 3"
    by (simp only: round_half_even_of_int)
  show ?thesis
    unfolding f64_round_def e u r Let_def by simp
qed

lemma lua_floor_quotient:
  assumes "a < b" "b \<le> 2 ^ 50"
  shows "lua_floor (f64_div (fin_nat a) (fin_nat b)) = Fin 0"
proof (cases "a = 0")
  case True
  then show ?thesis using assms by (simp add: f64_round_def)
next
  case False
  let ?x = "of_nat a / of_nat b :: rat"
  have pos: "0 < ?x" using False assms by simp
  have "(of_nat a :: rat) + 1 \<le> of_nat b"
    using assms(1) by (metis Suc_leI of_nat_Suc of_nat_le_iff add.commute)
  moreover have "(of_nat b :: rat) \<le> 2 ^ 50"
    using assms(2) by (metis of_nat_le_iff of_nat_numeral of_nat_power)
  ultimately have le: "?x \<le> 1 - 1 / 2 ^ 50"
    using assms(1) by (simp add: field_simps) 
  obtain r where r: "f64_round ?x = Fin r" "0 \<le> r" "r \<le> 1 - 1 / 2 ^ 50"
    using f64_round_mono [OF pos le] rounded_nonneg [OF pos] f64_round_pos [OF pos]
    unfolding f64_round_near_one by (auto simp: less_eq_f64_def f64_value_def split: if_splits)
  then have "\<lfloor>r\<rfloor> = 0" by (intro floor_unique) simp_all
  then show ?thesis using r assms by simp
qed

lemma lua_mod_small:
  assumes "a < b" "b \<le> 2 ^ 50"
  shows "lua_mod (fin_nat a) (fin_nat b) = fin_nat a"
proof -
  have "f64_mul (Fin 0) (fin_nat b) = fin_nat 0"
    by (simp add: f64_round_def)
  then show ?thesis
    using f64_sub_exact [of 0 a] assms
    by (simp add: lua_mod_def lua_floor_quotient del: f64_div.simps f64_mul.simps)
qed

section \<open>The score as an integer\<close>

definition HALF_BUCKET :: nat where "HALF_BUCKET = 500000000000"

definition score_offset :: "nat \<Rightarrow> bool \<Rightarrow> nat" where
  "score_offset n lifo =
     (if n = 0 then 0 else if lifo then HALF_BUCKET - 1 - n else HALF_BUCKET + n)"

definition EXACT_PRIORITIES :: nat where "EXACT_PRIORITIES = 9007"

lemma half_bucket: "lua_floor (f64_div WAITING_SCORE_BUCKET (Fin 2)) = fin_nat HALF_BUCKET"
  using f64_round_small_nat [of 500000000000]
  by (simp add: WAITING_SCORE_BUCKET_def HALF_BUCKET_def)

lemma priority_times_bucket:
  "p \<le> EXACT_PRIORITIES \<Longrightarrow>
   f64_mul (fin_nat p) WAITING_SCORE_BUCKET = fin_nat (p * 1000000000000)"
  using f64_mul_exact [of p 1000000000000]
  by (simp add: WAITING_SCORE_BUCKET_def EXACT_PRIORITIES_def)

lemma job_waiting_score_exact:
  assumes "j_priority j < EXACT_PRIORITIES" "j_enqueued_seq j < HALF_BUCKET"
  shows "job_waiting_score j =
    fin_nat (j_priority j * 1000000000000 + score_offset (j_enqueued_seq j) (jo_lifo (j_options j)))"
proof -
  let ?p = "j_priority j" and ?n = "j_enqueued_seq j"
  have p: "?p < 9007" and n: "?n < 500000000000"
    using assms by (simp_all add: EXACT_PRIORITIES_def HALF_BUCKET_def)
  have base: "f64_mul (fin_nat ?p) WAITING_SCORE_BUCKET = fin_nat (?p * 1000000000000)"
    using assms by (simp add: priority_times_bucket)
  have idx: "lua_mod (fin_nat ?n) (fin_nat HALF_BUCKET) = fin_nat ?n"
    by (rule lua_mod_small [OF assms(2)]) (simp add: HALF_BUCKET_def)
  have small: "?p < 2 ^ 53" "?n < 2 ^ 53" using p n by simp_all
  have lifo: "f64_sub (f64_sub (fin_nat HALF_BUCKET) (Fin 1)) (fin_nat ?n) = fin_nat (HALF_BUCKET - 1 - ?n)"
    using f64_sub_exact [of 1 HALF_BUCKET] f64_sub_exact [of ?n "HALF_BUCKET - 1"] n
    by (simp add: HALF_BUCKET_def)
  have sum: "f64_add (fin_nat (?p * 1000000000000)) (fin_nat k) = fin_nat (?p * 1000000000000 + k)"
    if "k < 1000000000000" for k
    using that p by (intro f64_add_exact) simp
  have sum2: "f64_add (fin_nat (?p * 1000000000000 + HALF_BUCKET)) (fin_nat ?n) =
      fin_nat (?p * 1000000000000 + (HALF_BUCKET + ?n))"
    using n p by (subst f64_add_exact) (simp_all add: HALF_BUCKET_def)
  have hb: "HALF_BUCKET < 1000000000000" "HALF_BUCKET - 1 - ?n < 1000000000000"
    by (simp_all add: HALF_BUCKET_def)
  show ?thesis
    using hb small sum [OF hb(1)] sum [OF hb(2)]
    by (simp only: job_waiting_score_def pushed_back_score_def waiting_score_for_def half_bucket
        f64_of_nat_exact base idx lifo sum2 score_offset_def Let_def if_True if_False add_0_right
        split: if_split) simp
qed

lemma fin_nat_less [simp]: "fin_nat a < fin_nat b \<longleftrightarrow> a < b"
  by (auto simp: less_f64_def less_eq_f64_def f64_value_def not_le)

lemma score_offset_less: "n < HALF_BUCKET \<Longrightarrow> score_offset n lifo < 1000000000000"
  by (auto simp: score_offset_def HALF_BUCKET_def)

lemma bucket_less:
  fixes p p' k k' :: nat
  assumes "k < 1000000000000" "k' < 1000000000000"
  shows "p * 1000000000000 + k < p' * 1000000000000 + k' \<longleftrightarrow> p < p' \<or> p = p' \<and> k < k'"
    and "p * 1000000000000 + k = p' * 1000000000000 + k' \<longleftrightarrow> p = p' \<and> k = k'"
proof -
  have "(p * 1000000000000 + k) div 1000000000000 = p" "(p * 1000000000000 + k) mod 1000000000000 = k"
    "(p' * 1000000000000 + k') div 1000000000000 = p'" "(p' * 1000000000000 + k') mod 1000000000000 = k'"
    using assms by simp_all
  then show "p * 1000000000000 + k = p' * 1000000000000 + k' \<longleftrightarrow> p = p' \<and> k = k'" by metis
  show "p * 1000000000000 + k < p' * 1000000000000 + k' \<longleftrightarrow> p < p' \<or> p = p' \<and> k < k'"
    using assms by auto
qed

lemma diff_left_eq: "x < n \<Longrightarrow> y < n \<Longrightarrow> n - x = n - y \<longleftrightarrow> x = (y :: nat)"
  by auto

lemma lex_less: "(x :: 'a :: linorder, i :: 'b :: linorder) < (y, j) \<longleftrightarrow> x < y \<or> x = y \<and> i < j"
  by auto

section \<open>What the order of the scores means\<close>

text \<open>
  C29. Within the exact range of the scores (priorities below 9007, fewer than half a bucket of
  queued jobs so far) the Redis backend hands out waiting jobs in the order of the in-memory
  queue: by priority, then the jobs handed back by a worker, by id, then the newest of the LIFO
  jobs, then the oldest of the FIFO jobs.
\<close>

theorem redis_claim_order:
  assumes "j_priority a < EXACT_PRIORITIES" "j_priority b < EXACT_PRIORITIES"
    and "Suc (j_enqueued_seq a) < HALF_BUCKET" "Suc (j_enqueued_seq b) < HALF_BUCKET"
    and "j_enqueued_seq a = j_enqueued_seq b \<Longrightarrow> j_enqueued_seq a = 0"
  shows "(job_waiting_score a, j_id a) < (job_waiting_score b, j_id b) \<longleftrightarrow>
    compare (then_with (by_key j_priority) compare_waiting_order) a b = Less"
proof -
  let ?oa = "score_offset (j_enqueued_seq a) (jo_lifo (j_options a))"
  let ?ob = "score_offset (j_enqueued_seq b) (jo_lifo (j_options b))"
  have o: "?oa < 1000000000000" "?ob < 1000000000000"
    using assms score_offset_less by simp_all
  have seq: "j_enqueued_seq a < HALF_BUCKET" "j_enqueued_seq b < HALF_BUCKET"
    using assms(3,4) by simp_all
  have lhs: "(job_waiting_score a, j_id a) < (job_waiting_score b, j_id b) \<longleftrightarrow>
      j_priority a < j_priority b \<or>
      j_priority a = j_priority b \<and> (?oa < ?ob \<or> ?oa = ?ob \<and> j_id a < j_id b)"
    using assms(1,2) seq
    by (simp only: lex_less job_waiting_score_exact fin_nat_less f64.inject of_nat_eq_iff bucket_less [OF o])
       auto
  have rhs: "waiting_order a b = Less \<longleftrightarrow> ?oa < ?ob \<or> ?oa = ?ob \<and> j_id a < j_id b"
    using assms(3-5)
    by (auto simp: diff_left_eq waiting_order_def score_offset_def HALF_BUCKET_def split: bool.splits)
  show ?thesis
    unfolding lhs compare_then_with compare_by_key compare_waiting_order.rep_eq
    by (auto simp: rhs)
qed

theorem redis_claim_order_witness:
  "(job_waiting_score (ex_waiting ''b'' 1), ''b'') < (job_waiting_score (ex_waiting ''a'' 2), ''a'')"
  using redis_claim_order [of "ex_waiting ''b'' 1" "ex_waiting ''a'' 2"]
  by (simp add: ex_simps EXACT_PRIORITIES_def HALF_BUCKET_def compare_then_with compare_by_key
      compare_waiting_order.rep_eq waiting_order_def)

lemma f64_round_60:
  assumes "2 ^ 60 \<le> n" "n < 2 ^ 61"
  shows "f64_round (of_nat n) = Fin (of_int (round_half_even (of_nat n / 256)) * 256)"
proof -
  have "rat_exponent (of_nat n) = 60"
    using floorlog_2_eqI [of 60 n] assms by (subst rat_exponent_of_nat) simp_all
  then have e: "max (rat_exponent \<bar>of_nat n\<bar>) (- 1022) = 60" by simp
  have u: "pow2 (60 - 52) = 256" by (simp add: pow2_def)
  have "(of_nat n :: rat) / 256 \<le> of_int (2 ^ 53)"
    using assms(2) of_nat_less_iff [of n "2 ^ 61", where 'a = rat] by simp
  then have "round_half_even (of_nat n / 256) \<le> 2 ^ 53"
    using round_half_even_mono by (metis round_half_even_of_int)
  then have "of_int (round_half_even (of_nat n / 256)) * 256 \<le> (2 ^ 61 :: rat)"
    by (simp add: of_int_le_iff [of _ "2 ^ 53", where 'a = rat, symmetric] del: of_int_le_iff)
  moreover have "0 \<le> round_half_even (of_nat n / 256)"
    using round_half_even_mono [of 0 "of_nat n / 256"] round_half_even_of_int [of 0] by simp
  ultimately have "\<bar>of_int (round_half_even (of_nat n / 256)) * 256 :: rat\<bar> < 2 ^ 1024" by simp
  then show ?thesis
    using assms(1) unfolding f64_round_def e u Let_def by (auto simp: not_le)
qed



text \<open>
  The priority counts of the Redis backend count every waiting job exactly once within the
  exact range: the score of a job lies in the range of its own priority and in no other.
\<close>

theorem priority_counts_exact:
  assumes "j_priority j < EXACT_PRIORITIES" "j_enqueued_seq j < HALF_BUCKET" "p < EXACT_PRIORITIES"
  shows "fst (priority_range (f64_of_nat p) WAITING_SCORE_BUCKET) \<le> job_waiting_score j \<and>
    job_waiting_score j \<le> snd (priority_range (f64_of_nat p) WAITING_SCORE_BUCKET)
    \<longleftrightarrow> p = j_priority j"
proof -
  let ?o = "score_offset (j_enqueued_seq j) (jo_lifo (j_options j))"
  have o: "?o < 1000000000000" using assms(2) by (rule score_offset_less)
  have p: "p < 9007" using assms(3) by (simp add: EXACT_PRIORITIES_def)
  have succ: "f64_add (fin_nat p) (Fin 1) = fin_nat (Suc p)"
    using f64_add_exact [of p 1] p by simp
  have mul: "f64_mul (fin_nat p) WAITING_SCORE_BUCKET = fin_nat (p * 1000000000000)"
    "f64_mul (fin_nat (Suc p)) WAITING_SCORE_BUCKET = fin_nat (Suc p * 1000000000000)"
    using p by (simp_all only: priority_times_bucket EXACT_PRIORITIES_def)
  have last: "f64_sub (fin_nat (Suc p * 1000000000000)) (Fin 1) = fin_nat (p * 1000000000000 + 999999999999)"
    using f64_sub_exact [of 1 "Suc p * 1000000000000"] p by simp
  have "p < 2 ^ 53" using p by simp
  then have range: "priority_range (f64_of_nat p) WAITING_SCORE_BUCKET =
      (fin_nat (p * 1000000000000), fin_nat (p * 1000000000000 + 999999999999))"
    by (simp only: priority_range_def f64_of_nat_exact succ mul last)
  have "p * 1000000000000 \<le> j_priority j * 1000000000000 + ?o \<and>
      j_priority j * 1000000000000 + ?o \<le> p * 1000000000000 + 999999999999 \<longleftrightarrow> p = j_priority j"
    using o by auto
  then show ?thesis
    unfolding range fst_conv snd_conv job_waiting_score_exact [OF assms(1,2)]
    by (simp only: Fin_le_iff of_nat_le_iff)
qed

theorem priority_counts_exact_witness:
  "job_waiting_score (ex_waiting ''a'' 2) \<le> snd (priority_range (f64_of_nat 1000) WAITING_SCORE_BUCKET)"
  using priority_counts_exact [of "ex_waiting ''a'' 2" 1000]
  by (simp add: ex_simps EXACT_PRIORITIES_def HALF_BUCKET_def)

end
