(* ===== verification/Redis_Server.thy ===== *)
theory Redis_Server
  imports Redis_Scores
begin

text \<open>
  What the scripts of \<open>src/src/job/redis.rs\<close> use of the server that runs them.

  The server is outside the repository, so its commands are a parameter: \<open>'s redis\<close> has one field
  per command, over an abstract server state \<open>'s\<close>. What is used of them is named once, in
  \<open>redis_ok R view\<close>: \<open>view\<close> is the readable content of a state as a \<open>keyspace\<close>, every reading command
  returns what the keyspace holds, and every writing command changes it as the documentation of
  Redis says. Keys hold the type the code gives them (a \<open>WRONGTYPE\<close> reply is not modelled).

  A script runs alone, from its first to its last command, in a fixed server time; a command or a
  library call that raises an error ends it, and what it wrote before stays. \<open>('s, 'a) script\<close> is a
  state passing function whose result is \<open>None\<close> when the script raised.

  \<open>lua_lib\<close> holds what the scripts use of Lua's libraries: \<open>cjson\<close>, \<open>tonumber\<close> and \<open>tostring\<close>. A Lua
  value is a \<open>json\<close> (\<open>cjson.null\<close> is \<open>JNull\<close>), \<open>nil\<close> is \<open>None\<close>.
\<close>

section \<open>Scripts as state passing functions\<close>

type_synonym ('s, 'a) script = "'s \<Rightarrow> 'a option \<times> 's"

definition sret :: "'a \<Rightarrow> ('s, 'a) script" where
  "sret x s = (Some x, s)"

definition sraise :: "('s, 'a) script" where
  "sraise s = (None, s)"

definition sbind :: "('s, 'a) script \<Rightarrow> ('a \<Rightarrow> ('s, 'b) script) \<Rightarrow> ('s, 'b) script" where
  "sbind m f s = (case m s of (None, s') \<Rightarrow> (None, s') | (Some x, s') \<Rightarrow> f x s')"

text \<open>A reading command, a writing command, a value that may be missing.\<close>

definition sread :: "('s \<Rightarrow> 'a) \<Rightarrow> ('s, 'a) script" where
  "sread g s = (Some (g s), s)"

definition swrite :: "('s \<Rightarrow> 's) \<Rightarrow> ('s, unit) script" where
  "swrite u s = (Some (), u s)"

definition sreply :: "('s \<Rightarrow> 'a \<times> 's) \<Rightarrow> ('s, 'a) script" where
  "sreply u s = (case u s of (x, s') \<Rightarrow> (Some x, s'))"

definition sget :: "'a option \<Rightarrow> ('s, 'a) script" where
  "sget v = (case v of None \<Rightarrow> sraise | Some x \<Rightarrow> sret x)"

definition swhen :: "bool \<Rightarrow> ('s, unit) script \<Rightarrow> ('s, unit) script" where
  "swhen b m = (if b then m else sret ())"

fun sseq :: "('s, unit) script list \<Rightarrow> ('s, unit) script" where
  "sseq [] = sret ()"
| "sseq (m # ms) = sbind m (\<lambda>_. sseq ms)"

fun seach :: "('a \<Rightarrow> ('s, unit) script) \<Rightarrow> 'a list \<Rightarrow> ('s, unit) script" where
  "seach f [] = sret ()"
| "seach f (x # xs) = sbind (f x) (\<lambda>_. seach f xs)"

lemmas script_defs = sret_def sraise_def sbind_def sread_def swrite_def sreply_def sget_def swhen_def

named_theorems script_run \<open>symbolic execution of scripts\<close>

lemma sbind_sret [script_run]: "sbind (sret x) f s = f x s"
  by (simp add: script_defs)

lemma sbind_sraise [script_run]: "sbind sraise f s = (None, s)"
  by (simp add: script_defs)

lemma sbind_sread [script_run]: "sbind (sread g) f s = f (g s) s"
  by (simp add: script_defs)

lemma sbind_swrite [script_run]: "sbind (swrite u) f s = f () (u s)"
  by (simp add: script_defs)

lemma sbind_sreply [script_run]: "sbind (sreply r) f s = (case r s of (x, s') \<Rightarrow> f x s')"
  by (simp add: script_defs split: prod.splits)

lemma sbind_sget [script_run]: "sbind (sget v) f s = (case v of None \<Rightarrow> (None, s) | Some x \<Rightarrow> f x s)"
  by (simp add: script_defs split: option.splits)

lemma sbind_when [script_run]: "sbind (swhen b m) f s = (if b then sbind m f s else f () s)"
  by (simp add: script_defs)

lemma sbind_assoc [script_run]: "sbind (sbind m g) f s = sbind m (\<lambda>x. sbind (g x) f) s"
  by (simp add: script_defs split: option.splits prod.splits)

lemma script_return [script_run]:
  "sret x s = (Some x, s)" "sraise s = (None, s)" "sread g s = (Some (g s), s)"
  "swrite u s = (Some (), u s)" "swhen b m s = (if b then m s else (Some (), s))"
  "sget v s = (v, s)" "sreply r s = (case r s of (x, s') \<Rightarrow> (Some x, s'))"
  by (simp_all add: script_defs split: option.splits)

lemma sbind_if [script_run]:
  "sbind (if b then m else n) f s = (if b then sbind m f s else sbind n f s)"
  by simp

section \<open>The content of a server\<close>

text \<open>
  Strings, the remaining life of a string that expires, hashes, sorted sets as the list of their
  members in order, sets, lists, streams as the entries appended to them.
\<close>

record keyspace =
  ks_string :: "string \<Rightarrow> string option"
  ks_ttl :: "string \<Rightarrow> nat option"
  ks_hash :: "string \<Rightarrow> string \<Rightarrow> string option"
  ks_zset :: "string \<Rightarrow> (string \<times> f64) list"
  ks_set :: "string \<Rightarrow> string list"
  ks_list :: "string \<Rightarrow> string list"
  ks_stream :: "string \<Rightarrow> (string \<times> string) list list"

definition keyspace_empty :: keyspace where
  "keyspace_empty =
     \<lparr>ks_string = (\<lambda>_. None), ks_ttl = (\<lambda>_. None), ks_hash = (\<lambda>_ _. None), ks_zset = (\<lambda>_. []),
      ks_set = (\<lambda>_. []), ks_list = (\<lambda>_. []), ks_stream = (\<lambda>_. [])\<rparr>"

definition ks_put :: "string \<Rightarrow> string \<Rightarrow> nat option \<Rightarrow> keyspace \<Rightarrow> keyspace" where
  "ks_put k v ttl s =
     s\<lparr>ks_string := (ks_string s)(k := Some v), ks_ttl := (ks_ttl s)(k := ttl)\<rparr>"

definition ks_del :: "string \<Rightarrow> keyspace \<Rightarrow> keyspace" where
  "ks_del k s =
     s\<lparr>ks_string := (ks_string s)(k := None), ks_ttl := (ks_ttl s)(k := None),
       ks_hash := (ks_hash s)(k := (\<lambda>_. None)), ks_zset := (ks_zset s)(k := []),
       ks_set := (ks_set s)(k := []), ks_list := (ks_list s)(k := []), ks_stream := (ks_stream s)(k := [])\<rparr>"

definition ks_hput :: "string \<Rightarrow> string \<Rightarrow> string option \<Rightarrow> keyspace \<Rightarrow> keyspace" where
  "ks_hput k f v s = s\<lparr>ks_hash := (ks_hash s)(k := (ks_hash s k)(f := v))\<rparr>"

text \<open>Members of a sorted set stand in the order of their scores, equal scores by member.\<close>

definition zset_remove :: "string \<Rightarrow> (string \<times> f64) list \<Rightarrow> (string \<times> f64) list" where
  "zset_remove m z = filter (\<lambda>e. fst e \<noteq> m) z"

definition zset_insert :: "string \<Rightarrow> f64 \<Rightarrow> (string \<times> f64) list \<Rightarrow> (string \<times> f64) list" where
  "zset_insert m x z = insort_key (\<lambda>e. (snd e, fst e)) (m, x) (zset_remove m z)"

definition ks_zadd :: "string \<Rightarrow> f64 \<Rightarrow> string \<Rightarrow> keyspace \<Rightarrow> keyspace" where
  "ks_zadd k x m s = s\<lparr>ks_zset := (ks_zset s)(k := zset_insert m x (ks_zset s k))\<rparr>"

definition ks_zrem :: "string \<Rightarrow> string \<Rightarrow> keyspace \<Rightarrow> keyspace" where
  "ks_zrem k m s = s\<lparr>ks_zset := (ks_zset s)(k := zset_remove m (ks_zset s k))\<rparr>"

definition ks_set_zset :: "string \<Rightarrow> (string \<times> f64) list \<Rightarrow> keyspace \<Rightarrow> keyspace" where
  "ks_set_zset k z s = s\<lparr>ks_zset := (ks_zset s)(k := z)\<rparr>"

definition ks_sadd :: "string \<Rightarrow> string \<Rightarrow> keyspace \<Rightarrow> keyspace" where
  "ks_sadd k m s =
     (if m \<in> set (ks_set s k) then s else s\<lparr>ks_set := (ks_set s)(k := ks_set s k @ [m])\<rparr>)"

definition ks_srem :: "string \<Rightarrow> string \<Rightarrow> keyspace \<Rightarrow> keyspace" where
  "ks_srem k m s = s\<lparr>ks_set := (ks_set s)(k := filter (\<lambda>x. x \<noteq> m) (ks_set s k))\<rparr>"

definition ks_set_list :: "string \<Rightarrow> string list \<Rightarrow> keyspace \<Rightarrow> keyspace" where
  "ks_set_list k xs s = s\<lparr>ks_list := (ks_list s)(k := xs)\<rparr>"

definition ks_xadd :: "string \<Rightarrow> nat \<Rightarrow> (string \<times> string) list \<Rightarrow> keyspace \<Rightarrow> keyspace" where
  "ks_xadd k dropped entry s =
     s\<lparr>ks_stream := (ks_stream s)(k := drop dropped (ks_stream s k @ [entry]))\<rparr>"

lemmas ks_defs = ks_put_def ks_del_def ks_hput_def ks_zadd_def ks_zrem_def ks_sadd_def ks_srem_def
  ks_set_list_def ks_xadd_def ks_set_zset_def

section \<open>The commands\<close>

record 's redis =
  r_get :: "string \<Rightarrow> 's \<Rightarrow> string option"
  r_set :: "string \<Rightarrow> string \<Rightarrow> 's \<Rightarrow> 's"
  r_set_px :: "string \<Rightarrow> string \<Rightarrow> nat \<Rightarrow> 's \<Rightarrow> 's"
  r_del :: "string \<Rightarrow> 's \<Rightarrow> 's"
  r_incr :: "string \<Rightarrow> 's \<Rightarrow> int option \<times> 's"
  r_pttl :: "string \<Rightarrow> 's \<Rightarrow> int"
  r_pexpire :: "string \<Rightarrow> nat \<Rightarrow> 's \<Rightarrow> 's"
  r_hget :: "string \<Rightarrow> string \<Rightarrow> 's \<Rightarrow> string option"
  r_hset :: "string \<Rightarrow> string \<Rightarrow> string \<Rightarrow> 's \<Rightarrow> 's"
  r_hdel :: "string \<Rightarrow> string \<Rightarrow> 's \<Rightarrow> 's"
  r_zadd :: "string \<Rightarrow> f64 \<Rightarrow> string \<Rightarrow> 's \<Rightarrow> 's"
  r_zrem :: "string \<Rightarrow> string \<Rightarrow> 's \<Rightarrow> nat \<times> 's"
  r_zscore :: "string \<Rightarrow> string \<Rightarrow> 's \<Rightarrow> f64 option"
  r_zcard :: "string \<Rightarrow> 's \<Rightarrow> nat"
  r_zfirst :: "string \<Rightarrow> nat \<Rightarrow> 's \<Rightarrow> (string \<times> f64) list"
    \<comment> \<open>\<open>ZRANGE key 0 n-1 WITHSCORES\<close>\<close>
  r_zdue :: "string \<Rightarrow> f64 \<Rightarrow> nat \<Rightarrow> 's \<Rightarrow> string list"
    \<comment> \<open>\<open>ZRANGEBYSCORE key -inf max LIMIT 0 n\<close>\<close>
  r_zcount :: "string \<Rightarrow> f64 \<Rightarrow> f64 \<Rightarrow> 's \<Rightarrow> nat"
  r_sadd :: "string \<Rightarrow> string \<Rightarrow> 's \<Rightarrow> 's"
  r_srem :: "string \<Rightarrow> string \<Rightarrow> 's \<Rightarrow> 's"
  r_rpush :: "string \<Rightarrow> string \<Rightarrow> 's \<Rightarrow> 's"
  r_ltrim_last :: "string \<Rightarrow> nat \<Rightarrow> 's \<Rightarrow> 's"
    \<comment> \<open>\<open>LTRIM key -n -1\<close>, \<open>n > 0\<close>\<close>
  r_lrange :: "string \<Rightarrow> int \<Rightarrow> int \<Rightarrow> 's \<Rightarrow> string list"
  r_llen :: "string \<Rightarrow> 's \<Rightarrow> nat"
  r_xadd :: "string \<Rightarrow> nat \<Rightarrow> (string \<times> string) list \<Rightarrow> 's \<Rightarrow> 's"
    \<comment> \<open>\<open>XADD key MAXLEN ~ n * field value ...\<close>\<close>
  r_xtrim :: "string \<Rightarrow> nat \<Rightarrow> 's \<Rightarrow> nat"
    \<comment> \<open>how many of the oldest entries the approximate \<open>MAXLEN\<close> of that command drops\<close>
  r_sismember :: "string \<Rightarrow> string \<Rightarrow> 's \<Rightarrow> bool"
  r_scard :: "string \<Rightarrow> 's \<Rightarrow> nat"
  r_hincr :: "string \<Rightarrow> string \<Rightarrow> 's \<Rightarrow> int option \<times> 's"
    \<comment> \<open>\<open>HINCRBY key field 1\<close>\<close>
  r_zrevdue :: "string \<Rightarrow> f64 \<Rightarrow> nat \<Rightarrow> 's \<Rightarrow> string list"
    \<comment> \<open>\<open>ZREVRANGEBYSCORE key max -inf LIMIT 0 n\<close>\<close>
  r_zremdue :: "string \<Rightarrow> f64 \<Rightarrow> 's \<Rightarrow> 's"
    \<comment> \<open>\<open>ZREMRANGEBYSCORE key -inf max\<close>\<close>
  r_zrevfrom :: "string \<Rightarrow> nat \<Rightarrow> 's \<Rightarrow> string list"
    \<comment> \<open>\<open>ZREVRANGE key n -1\<close>\<close>
  r_zkeep :: "string \<Rightarrow> nat \<Rightarrow> 's \<Rightarrow> 's"
    \<comment> \<open>\<open>ZREMRANGEBYRANK key 0 -(n+1)\<close>\<close>
  r_lpush :: "string \<Rightarrow> string list \<Rightarrow> 's \<Rightarrow> 's"
  r_ltrim_first :: "string \<Rightarrow> nat \<Rightarrow> 's \<Rightarrow> 's"
    \<comment> \<open>\<open>LTRIM key 0 n-1\<close>, \<open>n > 0\<close>\<close>
  r_set_keep :: "string \<Rightarrow> string \<Rightarrow> 's \<Rightarrow> 's"
    \<comment> \<open>\<open>SET key value KEEPTTL\<close>\<close>
  r_persist :: "string \<Rightarrow> 's \<Rightarrow> 's"
  r_spop :: "string \<Rightarrow> nat \<Rightarrow> 's \<Rightarrow> string list \<times> 's"
    \<comment> \<open>\<open>SPOP key n\<close>: members of the server's choice\<close>

text \<open>Reading commands return what the keyspace holds.\<close>

definition reads_ok :: "'s redis \<Rightarrow> ('s \<Rightarrow> keyspace) \<Rightarrow> bool" where
  "reads_ok R view \<longleftrightarrow> (\<forall>s k.
     r_get R k s = ks_string (view s) k \<and>
     (\<forall>f. r_hget R k f s = ks_hash (view s) k f) \<and>
     (\<forall>m. r_zscore R k m s = map_of (ks_zset (view s) k) m) \<and>
     r_zcard R k s = length (ks_zset (view s) k) \<and>
     (\<forall>n. r_zfirst R k n s = take n (ks_zset (view s) k)) \<and>
     (\<forall>x n. r_zdue R k x n s = take n (map fst (filter (\<lambda>e. snd e \<le> x) (ks_zset (view s) k)))) \<and>
     (\<forall>x y. r_zcount R k x y s = length (filter (\<lambda>e. x \<le> snd e \<and> snd e \<le> y) (ks_zset (view s) k))) \<and>
     (\<forall>i j. r_lrange R k i j s = redis_range (ks_list (view s) k) i j) \<and>
     r_llen R k s = length (ks_list (view s) k) \<and>
     r_pttl R k s = (if ks_string (view s) k = None then - 2
                     else case ks_ttl (view s) k of None \<Rightarrow> - 1 | Some n \<Rightarrow> int n) \<and>
     (\<forall>m. r_sismember R k m s \<longleftrightarrow> m \<in> set (ks_set (view s) k)) \<and>
     r_scard R k s = length (ks_set (view s) k) \<and>
     (\<forall>x n. r_zrevdue R k x n s =
        take n (rev (map fst (filter (\<lambda>e. snd e \<le> x) (ks_zset (view s) k))))) \<and>
     (\<forall>n. r_zrevfrom R k n s = drop n (rev (map fst (ks_zset (view s) k)))))"

text \<open>
  Writing commands. \<open>INCR\<close> of a missing key starts at 0; of a string that is not a number of 64 bits
  it is an error, as is an overflow.
\<close>

definition writes_ok :: "'s redis \<Rightarrow> ('s \<Rightarrow> keyspace) \<Rightarrow> bool" where
  "writes_ok R view \<longleftrightarrow> (\<forall>s k.
     (\<forall>v. view (r_set R k v s) = ks_put k v None (view s)) \<and>
     (\<forall>v n. view (r_set_px R k v n s) = ks_put k v (Some n) (view s)) \<and>
     view (r_del R k s) = ks_del k (view s) \<and>
     (\<forall>n. view (r_pexpire R k n s) =
        (if ks_string (view s) k = None then view s
         else (view s)\<lparr>ks_ttl := (ks_ttl (view s))(k := Some n)\<rparr>)) \<and>
     (\<forall>f v. view (r_hset R k f v s) = ks_hput k f (Some v) (view s)) \<and>
     (\<forall>f. view (r_hdel R k f s) = ks_hput k f None (view s)) \<and>
     (\<forall>x m. view (r_zadd R k x m s) = ks_zadd k x m (view s)) \<and>
     (\<forall>m. fst (r_zrem R k m s) = (if map_of (ks_zset (view s) k) m = None then 0 else 1) \<and>
        view (snd (r_zrem R k m s)) = ks_zrem k m (view s)) \<and>
     (\<forall>m. view (r_sadd R k m s) = ks_sadd k m (view s)) \<and>
     (\<forall>m. view (r_srem R k m s) = ks_srem k m (view s)) \<and>
     (\<forall>v. view (r_rpush R k v s) = ks_set_list k (ks_list (view s) k @ [v]) (view s)) \<and>
     (\<forall>n. 0 < n \<longrightarrow> view (r_ltrim_last R k n s) =
        ks_set_list k (drop (length (ks_list (view s) k) - n) (ks_list (view s) k)) (view s)) \<and>
     (\<forall>n fields. view (r_xadd R k n fields s) = ks_xadd k (r_xtrim R k n s) fields (view s)) \<and>
     (\<forall>n. r_xtrim R k n s \<le> Suc (length (ks_stream (view s) k)) - n) \<and>
     (\<forall>x. view (r_zremdue R k x s) =
        ks_set_zset k (filter (\<lambda>e. \<not> snd e \<le> x) (ks_zset (view s) k)) (view s)) \<and>
     (\<forall>n. view (r_zkeep R k n s) =
        ks_set_zset k (drop (length (ks_zset (view s) k) - n) (ks_zset (view s) k)) (view s)) \<and>
     (\<forall>vs. view (r_lpush R k vs s) = ks_set_list k (rev vs @ ks_list (view s) k) (view s)) \<and>
     (\<forall>n. 0 < n \<longrightarrow> view (r_ltrim_first R k n s) = ks_set_list k (take n (ks_list (view s) k)) (view s)) \<and>
     (\<forall>v. view (r_set_keep R k v s) = ks_put k v (ks_ttl (view s) k) (view s)) \<and>
     view (r_persist R k s) = (view s)\<lparr>ks_ttl := (ks_ttl (view s))(k := None)\<rparr>)"

definition incr_ok :: "'s redis \<Rightarrow> ('s \<Rightarrow> keyspace) \<Rightarrow> bool" where
  "incr_ok R view \<longleftrightarrow> (\<forall>s k.
     (ks_string (view s) k = None \<longrightarrow>
        fst (r_incr R k s) = Some 1 \<and> view (snd (r_incr R k s)) = ks_put k (show_int 1) None (view s)) \<and>
     (\<forall>i. ks_string (view s) k = Some (show_int i) \<and> i64_min \<le> i \<and> i < i64_max \<longrightarrow>
        fst (r_incr R k s) = Some (i + 1) \<and>
        view (snd (r_incr R k s)) = ks_put k (show_int (i + 1)) (ks_ttl (view s) k) (view s)) \<and>
     (\<forall>v. ks_string (view s) k = Some v \<and> (\<forall>i. i64_min \<le> i \<and> i < i64_max \<longrightarrow> v \<noteq> show_int i) \<longrightarrow>
        fst (r_incr R k s) = None \<and> view (snd (r_incr R k s)) = view s))"

text \<open>\<open>HINCRBY\<close> likewise, on a field.\<close>

definition hincr_ok :: "'s redis \<Rightarrow> ('s \<Rightarrow> keyspace) \<Rightarrow> bool" where
  "hincr_ok R view \<longleftrightarrow> (\<forall>s k f.
     (ks_hash (view s) k f = None \<longrightarrow>
        fst (r_hincr R k f s) = Some 1 \<and> view (snd (r_hincr R k f s)) = ks_hput k f (Some (show_int 1)) (view s)) \<and>
     (\<forall>i. ks_hash (view s) k f = Some (show_int i) \<and> i64_min \<le> i \<and> i < i64_max \<longrightarrow>
        fst (r_hincr R k f s) = Some (i + 1) \<and>
        view (snd (r_hincr R k f s)) = ks_hput k f (Some (show_int (i + 1))) (view s)) \<and>
     (\<forall>v. ks_hash (view s) k f = Some v \<and> (\<forall>i. i64_min \<le> i \<and> i < i64_max \<longrightarrow> v \<noteq> show_int i) \<longrightarrow>
        fst (r_hincr R k f s) = None \<and> view (snd (r_hincr R k f s)) = view s))"

text \<open>\<open>SPOP\<close> takes as many members as it can, up to \<open>n\<close>, out of the set.\<close>

definition spop_ok :: "'s redis \<Rightarrow> ('s \<Rightarrow> keyspace) \<Rightarrow> bool" where
  "spop_ok R view \<longleftrightarrow> (\<forall>s k n.
     (let members = ks_set (view s) k; taken = fst (r_spop R k n s) in
      distinct taken \<and> set taken \<subseteq> set members \<and> (length members \<le> n \<longrightarrow> set taken = set members) \<and>
      view (snd (r_spop R k n s)) = fold (ks_srem k) taken (view s)))"

definition redis_ok :: "'s redis \<Rightarrow> ('s \<Rightarrow> keyspace) \<Rightarrow> bool" where
  "redis_ok R view \<longleftrightarrow> reads_ok R view \<and> writes_ok R view \<and> incr_ok R view \<and> hincr_ok R view \<and> spop_ok R view"

text \<open>The laws as rewrite rules.\<close>

lemma redis_reads:
  assumes "redis_ok R view"
  shows "r_get R k s = ks_string (view s) k"
    and "r_hget R k f s = ks_hash (view s) k f"
    and "r_zscore R k m s = map_of (ks_zset (view s) k) m"
    and "r_zcard R k s = length (ks_zset (view s) k)"
    and "r_zfirst R k n s = take n (ks_zset (view s) k)"
    and "r_zdue R k x n s = take n (map fst (filter (\<lambda>e. snd e \<le> x) (ks_zset (view s) k)))"
    and "r_zcount R k x y s = length (filter (\<lambda>e. x \<le> snd e \<and> snd e \<le> y) (ks_zset (view s) k))"
    and "r_lrange R k i j s = redis_range (ks_list (view s) k) i j"
    and "r_llen R k s = length (ks_list (view s) k)"
    and "r_pttl R k s = (if ks_string (view s) k = None then - 2
           else case ks_ttl (view s) k of None \<Rightarrow> - 1 | Some n \<Rightarrow> int n)"
    and "r_sismember R k m s \<longleftrightarrow> m \<in> set (ks_set (view s) k)"
    and "r_scard R k s = length (ks_set (view s) k)"
    and "r_zrevdue R k x n s =
           take n (rev (map fst (filter (\<lambda>e. snd e \<le> x) (ks_zset (view s) k))))"
    and "r_zrevfrom R k n s = drop n (rev (map fst (ks_zset (view s) k)))"
  using assms unfolding redis_ok_def reads_ok_def by blast+

lemma redis_writes:
  assumes "redis_ok R view"
  shows "view (r_set R k v s) = ks_put k v None (view s)"
    and "view (r_set_px R k v n s) = ks_put k v (Some n) (view s)"
    and "view (r_del R k s) = ks_del k (view s)"
    and "view (r_pexpire R k n s) =
           (if ks_string (view s) k = None then view s
            else (view s)\<lparr>ks_ttl := (ks_ttl (view s))(k := Some n)\<rparr>)"
    and "view (r_hset R k f v s) = ks_hput k f (Some v) (view s)"
    and "view (r_hdel R k f s) = ks_hput k f None (view s)"
    and "view (r_zadd R k x m s) = ks_zadd k x m (view s)"
    and "fst (r_zrem R k m s) = (if map_of (ks_zset (view s) k) m = None then 0 else 1)"
    and "view (snd (r_zrem R k m s)) = ks_zrem k m (view s)"
    and "view (r_sadd R k m s) = ks_sadd k m (view s)"
    and "view (r_srem R k m s) = ks_srem k m (view s)"
    and "view (r_rpush R k v s) = ks_set_list k (ks_list (view s) k @ [v]) (view s)"
    and "0 < n \<Longrightarrow> view (r_ltrim_last R k n s) =
           ks_set_list k (drop (length (ks_list (view s) k) - n) (ks_list (view s) k)) (view s)"
    and "view (r_xadd R k n entry s) = ks_xadd k (r_xtrim R k n s) entry (view s)"
    and "view (r_zremdue R k x s) = ks_set_zset k (filter (\<lambda>e. \<not> snd e \<le> x) (ks_zset (view s) k)) (view s)"
    and "view (r_zkeep R k n s) =
           ks_set_zset k (drop (length (ks_zset (view s) k) - n) (ks_zset (view s) k)) (view s)"
    and "view (r_lpush R k vs s) = ks_set_list k (rev vs @ ks_list (view s) k) (view s)"
    and "0 < n \<Longrightarrow> view (r_ltrim_first R k n s) = ks_set_list k (take n (ks_list (view s) k)) (view s)"
    and "view (r_set_keep R k v s) = ks_put k v (ks_ttl (view s) k) (view s)"
    and "view (r_persist R k s) = (view s)\<lparr>ks_ttl := (ks_ttl (view s))(k := None)\<rparr>"
proof -
  have "writes_ok R view" using assms unfolding redis_ok_def by (elim conjE)
  note law = spec [OF spec [OF this [unfolded writes_ok_def], of s], of k]
  show "view (r_set R k v s) = ks_put k v None (view s)"
    "view (r_set_px R k v n s) = ks_put k v (Some n) (view s)"
    "view (r_del R k s) = ks_del k (view s)"
    "view (r_pexpire R k n s) =
       (if ks_string (view s) k = None then view s
        else (view s)\<lparr>ks_ttl := (ks_ttl (view s))(k := Some n)\<rparr>)"
    "view (r_hset R k f v s) = ks_hput k f (Some v) (view s)"
    "view (r_hdel R k f s) = ks_hput k f None (view s)"
    "view (r_zadd R k x m s) = ks_zadd k x m (view s)"
    "fst (r_zrem R k m s) = (if map_of (ks_zset (view s) k) m = None then 0 else 1)"
    "view (snd (r_zrem R k m s)) = ks_zrem k m (view s)"
    "view (r_sadd R k m s) = ks_sadd k m (view s)"
    "view (r_srem R k m s) = ks_srem k m (view s)"
    "view (r_rpush R k v s) = ks_set_list k (ks_list (view s) k @ [v]) (view s)"
    "0 < n \<Longrightarrow> view (r_ltrim_last R k n s) =
       ks_set_list k (drop (length (ks_list (view s) k) - n) (ks_list (view s) k)) (view s)"
    "view (r_xadd R k n entry s) = ks_xadd k (r_xtrim R k n s) entry (view s)"
    "view (r_zremdue R k x s) = ks_set_zset k (filter (\<lambda>e. \<not> snd e \<le> x) (ks_zset (view s) k)) (view s)"
    "view (r_zkeep R k n s) =
           ks_set_zset k (drop (length (ks_zset (view s) k) - n) (ks_zset (view s) k)) (view s)"
    "view (r_lpush R k vs s) = ks_set_list k (rev vs @ ks_list (view s) k) (view s)"
    "0 < n \<Longrightarrow> view (r_ltrim_first R k n s) = ks_set_list k (take n (ks_list (view s) k)) (view s)"
    "view (r_set_keep R k v s) = ks_put k v (ks_ttl (view s) k) (view s)"
    "view (r_persist R k s) = (view s)\<lparr>ks_ttl := (ks_ttl (view s))(k := None)\<rparr>"
    by (insert law, elim conjE, simp_all only: simp_thms)
qed

lemma redis_incr:
  assumes "redis_ok R view"
  shows "ks_string (view s) k = None \<Longrightarrow> fst (r_incr R k s) = Some 1"
    and "ks_string (view s) k = None \<Longrightarrow> view (snd (r_incr R k s)) = ks_put k (show_int 1) None (view s)"
    and "ks_string (view s) k = Some (show_int i) \<Longrightarrow> i64_min \<le> i \<Longrightarrow> i < i64_max \<Longrightarrow>
           fst (r_incr R k s) = Some (i + 1)"
    and "ks_string (view s) k = Some (show_int i) \<Longrightarrow> i64_min \<le> i \<Longrightarrow> i < i64_max \<Longrightarrow>
           view (snd (r_incr R k s)) = ks_put k (show_int (i + 1)) (ks_ttl (view s) k) (view s)"
proof -
  have "incr_ok R view" using assms unfolding redis_ok_def by (elim conjE)
  note law = spec [OF spec [OF this [unfolded incr_ok_def], of s], of k]
  show "ks_string (view s) k = None \<Longrightarrow> fst (r_incr R k s) = Some 1"
    "ks_string (view s) k = None \<Longrightarrow> view (snd (r_incr R k s)) = ks_put k (show_int 1) None (view s)"
    using conjunct1 [OF law] by blast+
  show "ks_string (view s) k = Some (show_int i) \<Longrightarrow> i64_min \<le> i \<Longrightarrow> i < i64_max \<Longrightarrow>
      fst (r_incr R k s) = Some (i + 1)"
    "ks_string (view s) k = Some (show_int i) \<Longrightarrow> i64_min \<le> i \<Longrightarrow> i < i64_max \<Longrightarrow>
      view (snd (r_incr R k s)) = ks_put k (show_int (i + 1)) (ks_ttl (view s) k) (view s)"
    using conjunct1 [OF conjunct2 [OF law], THEN spec, of i] by blast+
qed

lemma redis_spop:
  assumes "redis_ok R view"
  shows "set (fst (r_spop R k n s)) \<subseteq> set (ks_set (view s) k)"
    and "length (ks_set (view s) k) \<le> n \<Longrightarrow> set (fst (r_spop R k n s)) = set (ks_set (view s) k)"
    and "view (snd (r_spop R k n s)) = fold (ks_srem k) (fst (r_spop R k n s)) (view s)"
    and "distinct (fst (r_spop R k n s))"
  using assms by (simp_all add: redis_ok_def spop_ok_def Let_def)

section \<open>Lua's libraries\<close>

record lua_lib =
  cjson_decode :: "string \<Rightarrow> json option"
    \<comment> \<open>\<open>None\<close>: the text is not JSON and the call raises\<close>
  cjson_encode :: "json \<Rightarrow> string"
  lua_tonumber :: "string \<Rightarrow> f64 option"
  lua_tostring :: "f64 \<Rightarrow> string"

text \<open>
  \<open>job["field"]\<close> on a table, on a string (whose fields are the string library) and on other
  values, where it raises; and the assignment.
\<close>

fun lua_index :: "json \<Rightarrow> string \<Rightarrow> ('s, json option) script" where
  "lua_index (JObject kvs) f = sret (map_of kvs f)"
| "lua_index (JArray _) f = sret None"
| "lua_index (JString _) f = sret None"
| "lua_index _ f = sraise"

fun lua_assign :: "json \<Rightarrow> string \<Rightarrow> json \<Rightarrow> ('s, json) script" where
  "lua_assign (JObject kvs) f v = sret (JObject (AList.update f v kvs))"
| "lua_assign (JArray []) f v = sret (JObject [(f, v)])"
| "lua_assign _ f v = sraise"

text \<open>\<open>not x or x == cjson.null\<close>, and the truth of a value.\<close>

definition lua_absent :: "json option \<Rightarrow> bool" where
  "lua_absent v \<longleftrightarrow> v = None \<or> v = Some JNull \<or> v = Some (JBool False)"

definition lua_true :: "json option \<Rightarrow> bool" where
  "lua_true v \<longleftrightarrow> v \<noteq> None \<and> v \<noteq> Some (JBool False)"

text \<open>A value as an argument of a command or of \<open>..\<close>: strings and numbers are texts.\<close>

definition lua_text :: "lua_lib \<Rightarrow> json \<Rightarrow> string option" where
  "lua_text lib v =
     (case v of JString s \<Rightarrow> Some s | JNumber r \<Rightarrow> Some (lua_tostring lib (Fin r)) | _ \<Rightarrow> None)"

text \<open>\<open>tonumber(x)\<close> of a value.\<close>

definition lua_number :: "lua_lib \<Rightarrow> json \<Rightarrow> f64 option" where
  "lua_number lib v =
     (case v of JString s \<Rightarrow> lua_tonumber lib s | JNumber r \<Rightarrow> Some (Fin r) | _ \<Rightarrow> None)"

section \<open>Calling a script\<close>

text \<open>
  \<open>EVAL script numkeys arg ...\<close>: the first \<open>numkeys\<close> arguments are the keys, the others the arguments
  of the script. The client writes an argument as a text; an integer or a double is read back as
  that number by \<open>tonumber\<close> and by the commands that take a score or a number of milliseconds.
\<close>

datatype eval_arg = AText string | AInt int | AFloat string f64
  \<comment> \<open>a double with the text the client writes for it\<close>

fun arg_text :: "eval_arg \<Rightarrow> string" where
  "arg_text (AText t) = t"
| "arg_text (AInt i) = show_int i"
| "arg_text (AFloat t _) = t"

fun arg_number :: "lua_lib \<Rightarrow> eval_arg \<Rightarrow> f64 option" where
  "arg_number lib (AText t) = lua_tonumber lib t"
| "arg_number lib (AInt i) = Some (f64_of_int i)"
| "arg_number lib (AFloat _ x) = Some x"

text \<open>The milliseconds of \<open>SET key value PX n\<close>: a positive integer.\<close>

fun arg_millis :: "eval_arg \<Rightarrow> nat option" where
  "arg_millis (AInt i) = (if 0 < i then Some (nat i) else None)"
| "arg_millis _ = None"

fun arg_nat :: "eval_arg \<Rightarrow> nat option" where
  "arg_nat (AInt i) = (if 0 \<le> i then Some (nat i) else None)"
| "arg_nat _ = None"

definition eval_script ::
  "(string list \<Rightarrow> eval_arg list \<Rightarrow> ('s, 'a) script) \<Rightarrow> nat \<Rightarrow> eval_arg list \<Rightarrow> ('s, 'a) script" where
  "eval_script script numkeys args = script (map arg_text (take numkeys args)) (drop numkeys args)"

text \<open>What the client makes of a reply, and of a script that ended with an error.\<close>

definition query :: "redis_codec \<Rightarrow> ('s, 'a) script \<Rightarrow> 's \<Rightarrow> 'a result \<times> 's" where
  "query C m s =
     (case m s of
        (None, s') \<Rightarrow> (Inl (redis_error (rc_error_text C)), s')
      | (Some x, s') \<Rightarrow> (Inr x, s'))"

definition on_reply :: "('a \<Rightarrow> 'b result) \<Rightarrow> 'a result \<times> 's \<Rightarrow> 'b result \<times> 's" where
  "on_reply f r = (case r of (x, s) \<Rightarrow> (and_then x f, s))"

end
