(* ===== verification/Redis_Calendar.thy ===== *)
theory Redis_Calendar
  imports Redis_Server
begin

text \<open>
  The calendar of the scripts: Lua has no date library, so the scripts of \<open>src/src/job/redis.rs\<close>
  convert between civil dates and days since 1970-01-01 and read and print timestamps themselves.
  The values are integers far below \<open>2 ^ 53\<close>, where doubles are exact and \<open>math.floor\<close> of a quotient
  is the integer division \<open>div\<close>.
\<close>

section \<open>The functions of the scripts\<close>

definition days_from_civil :: "int \<Rightarrow> int \<Rightarrow> int \<Rightarrow> int" where
  "days_from_civil year month day =
     (let year = (if month \<le> 2 then year - 1 else year);
          era = year div 400;
          yoe = year - era * 400;
          shifted_month = (if month > 2 then month - 3 else month + 9);
          doy = (153 * shifted_month + 2) div 5 + day - 1;
          doe = yoe * 365 + yoe div 4 - yoe div 100 + doy
      in era * 146097 + doe - 719468)"

definition civil_from_days :: "int \<Rightarrow> int \<times> int \<times> int" where
  "civil_from_days days =
     (let z = days + 719468;
          era = z div 146097;
          doe = z - era * 146097;
          yoe = (doe - doe div 1460 + doe div 36524 - doe div 146096) div 365;
          year = yoe + era * 400;
          doy = doe - (365 * yoe + yoe div 4 - yoe div 100);
          mp = (5 * doy + 2) div 153;
          day = doy - (153 * mp + 2) div 5 + 1;
          month = (if mp \<ge> 10 then mp - 9 else mp + 3)
      in (if month \<le> 2 then year + 1 else year, month, day))"

section \<open>The calendar\<close>

definition leap_year :: "int \<Rightarrow> bool" where
  "leap_year y \<longleftrightarrow> 4 dvd y \<and> (\<not> 100 dvd y \<or> 400 dvd y)"

definition days_in_month :: "int \<Rightarrow> int \<Rightarrow> int" where
  "days_in_month y m =
     (if m = 2 then (if leap_year y then 29 else 28) else if m \<in> {4, 6, 9, 11} then 30 else 31)"

definition valid_date :: "int \<Rightarrow> int \<Rightarrow> int \<Rightarrow> bool" where
  "valid_date y m d \<longleftrightarrow> 1 \<le> m \<and> m \<le> 12 \<and> 1 \<le> d \<and> d \<le> days_in_month y m"

fun next_date :: "int \<times> int \<times> int \<Rightarrow> int \<times> int \<times> int" where
  "next_date (y, m, d) =
     (if d < days_in_month y m then (y, m, d + 1) else if m < 12 then (y, m + 1, 1) else (y + 1, 1, 1))"

text \<open>Days before the first of March of a year, without the split into eras.\<close>

definition march_days :: "int \<Rightarrow> int" where
  "march_days y = 365 * y + y div 4 - y div 100 + y div 400"

lemma era_split:
  "(y div 400) * 146097 + ((y - (y div 400) * 400) * 365 + (y - (y div 400) * 400) div 4
     - (y - (y div 400) * 400) div 100) = march_days y"
proof -
  define e w where "e = y div 400" and "w = y mod 400"
  have y: "y = 400 * e + w" by (simp add: e_def w_def)
  have w: "y - (y div 400) * 400 = w" by (simp add: w_def minus_div_mult_eq_mod)
  have "y div 4 = 100 * e + w div 4" "y div 100 = 4 * e + w div 100"
    using div_mult_self1 [of 4 w "100 * e"] div_mult_self1 [of 100 w "4 * e"]
    by (simp_all add: y algebra_simps)
  then show ?thesis
    by (simp add: w march_days_def e_def [symmetric] del: minus_div_mult_eq_mod)
       (simp add: y)
qed

lemma days_from_civil_march:
  "days_from_civil y m d =
     march_days (if m \<le> 2 then y - 1 else y)
       + (153 * (if m > 2 then m - 3 else m + 9) + 2) div 5 + d - 1 - 719468"
  unfolding days_from_civil_def Let_def using era_split [of "if m \<le> 2 then y - 1 else y"] by simp

lemma div_step:
  fixes y k :: int
  assumes "0 < k"
  shows "y div k - (y - 1) div k = (if k dvd y then 1 else 0)"
proof (cases "k dvd y")
  case True
  then obtain q where q: "y = k * q" by (elim dvdE)
  have "(y - 1) div k = q - 1"
    by (rule int_div_pos_eq [of _ _ _ "k - 1"]) (use assms q in \<open>auto simp: algebra_simps\<close>)
  then show ?thesis using assms True q by simp
next
  case False
  then have r: "0 < y mod k" using assms by (simp add: dvd_eq_mod_eq_0 order_less_le)
  have "(y - 1) div k = y div k"
    by (rule int_div_pos_eq [of _ _ _ "y mod k - 1"])
       (use assms r pos_mod_bound [OF assms, of y] in \<open>auto simp: algebra_simps\<close>)
  then show ?thesis using False by simp
qed

lemma march_days_step: "march_days y - march_days (y - 1) = 365 + (if leap_year y then 1 else 0)"
proof -
  have "march_days y - march_days (y - 1) =
      365 + (y div 4 - (y - 1) div 4) - (y div 100 - (y - 1) div 100) + (y div 400 - (y - 1) div 400)"
    unfolding march_days_def by (simp only: right_diff_distrib mult_1_right)
  also have "\<dots> = 365 + (if 4 dvd y then 1 else 0) - (if 100 dvd y then 1 else 0) + (if 400 dvd y then 1 else 0)"
    by (simp only: div_step zero_less_numeral)
  also have "\<dots> = 365 + (if leap_year y then 1 else 0)"
    using dvd_trans [of 100 400 y] dvd_trans [of 4 100 y]
    by (cases "4 dvd y"; cases "100 dvd y"; cases "400 dvd y") (simp_all only: leap_year_def, simp_all)
  finally show ?thesis .
qed

lemma month_cases:
  assumes "1 \<le> m" "m \<le> (12 :: int)"
  shows "m = 1 \<or> m = 2 \<or> m = 3 \<or> m = 4 \<or> m = 5 \<or> m = 6 \<or> m = 7 \<or> m = 8 \<or> m = 9 \<or> m = 10 \<or> m = 11 \<or> m = 12"
  using assms by presburger

lemma next_date_days:
  assumes "valid_date y m d" "next_date (y, m, d) = (y', m', d')"
  shows "valid_date y' m' d' \<and> days_from_civil y' m' d' = days_from_civil y m d + 1"
proof -
  have m: "1 \<le> m" "m \<le> 12" and d: "1 \<le> d" "d \<le> days_in_month y m"
    using assms(1) by (simp_all add: valid_date_def)
  consider "d < days_in_month y m" | "d = days_in_month y m" "m < 12" | "d = days_in_month y m" "m = 12"
    using m d by linarith
  then show ?thesis
  proof cases
    case 1
    then have "y' = y" "m' = m" "d' = d + 1" using assms(2) by simp_all
    then show ?thesis using 1 m d by (simp add: valid_date_def days_from_civil_march)
  next
    case 2
    then have new: "y' = y" "m' = m + 1" "d' = 1" using assms(2) by simp_all
    have valid: "valid_date y' m' d'"
      using 2(2) m by (simp add: new valid_date_def days_in_month_def)
    have "days_from_civil y (m + 1) 1 = days_from_civil y m (days_in_month y m) + 1"
    proof (cases "m = 2")
      case True
      have "days_from_civil y 3 1 = march_days y - 719468"
        "days_from_civil y 2 k = march_days (y - 1) + 337 + k - 1 - 719468" for k
        by (simp_all add: days_from_civil_march)
      then show ?thesis
        using march_days_step [of y]
        by (cases "leap_year y") (simp_all add: True days_in_month_def)
    next
      case False
      with month_cases [OF m] 2(2) show ?thesis
        by (elim disjE) (simp_all add: days_from_civil_march days_in_month_def)
    qed
    then show ?thesis using valid 2(1) by (simp add: new)
  next
    case 3
    then have "y' = y + 1" "m' = 1" "d' = 1" using assms(2) by simp_all
    then show ?thesis
      using 3 by (simp add: valid_date_def days_in_month_def days_from_civil_march)
  qed
qed

text \<open>
  The day numbers of the scripts are the calendar's: the first of January 1970 is day 0, and
  the day after a valid date has the next number, through the ends of months, leap years,
  centuries and eras, before and after 1970.
\<close>

theorem days_from_civil_counts_days:
  assumes "valid_date y m d"
  shows "(case next_date (y, m, d) of (y', m', d') \<Rightarrow>
            valid_date y' m' d' \<and> days_from_civil y' m' d' = days_from_civil y m d + 1) \<and>
         days_from_civil 1970 1 1 = 0"
  using next_date_days [OF assms]
  by (cases "next_date (y, m, d)") (simp add: days_from_civil_def del: next_date.simps)

theorem days_from_civil_counts_days_witness:
  "days_from_civil 2000 3 1 = days_from_civil 2000 2 29 + 1"
  using days_from_civil_counts_days [of 2000 2 29]
  by (simp add: valid_date_def days_in_month_def leap_year_def)

section \<open>From day numbers back to dates\<close>

text \<open>The year of an era, from the day of the era.\<close>

lemma year_of_era:
  fixes c q t doy :: int
  assumes c: "0 \<le> c" "c \<le> 3" and q: "0 \<le> q" "q \<le> 24" and t: "0 \<le> t" "t \<le> 3"
    and doy: "0 \<le> doy" "doy \<le> 365" "doy = 365 \<longrightarrow> t = 3 \<and> (q < 24 \<or> c = 3)"
    and doe: "doe = 36524 * c + 1461 * q + 365 * t + doy"
  shows "(doe - doe div 1460 + doe div 36524 - doe div 146096) div 365 = 100 * c + 4 * q + t"
    and "0 \<le> doe" "doe < 146097"
proof -
  define e where "e = (if 24 * c + q + 365 * t + doy \<ge> 1460 then 1 else 0 :: int)"
  define l where "l = (if doe = 146096 then 1 else 0 :: int)"
  have rest: "1461 * q + 365 * t + doy \<le> 36524"
    using q t doy(2) by simp_all
  have last: "c = 3" if "1461 * q + 365 * t + doy = 36524"
  proof -
    have "doy = 365" using that q t doy(2) by linarith
    moreover have "q = 24" using that q t doy(2) by linarith
    ultimately show ?thesis using doy(3) by simp
  qed
  show "0 \<le> doe" "doe < 146097"
    using rest c q t doy unfolding doe by auto
  have d1: "doe div 1460 = 25 * c + q + e"
    by (rule int_div_pos_eq [of _ _ _ "24 * c + q + 365 * t + doy - 1460 * e"])
       (use assms in \<open>auto simp: e_def doe\<close>)
  have strict: "1461 * q + 365 * t + doy < 36524" if "doe \<noteq> 146096"
  proof (rule ccontr)
    assume "\<not> 1461 * q + 365 * t + doy < 36524"
    then have eq: "1461 * q + 365 * t + doy = 36524" using rest by simp
    with last have "c = 3" by blast
    with eq that doe show False by simp
  qed
  have d2: "doe div 36524 = c + l"
    by (rule int_div_pos_eq [of _ _ _ "1461 * q + 365 * t + doy - 36524 * l"])
       (use assms rest strict in \<open>auto simp: l_def\<close>)
  have d3: "doe div 146096 = l"
    by (rule int_div_pos_eq [of _ _ _ "doe - 146096 * l"])
       (use assms rest strict in \<open>auto simp: l_def\<close>)
  have e: "0 \<le> doy - e" "doy - e \<le> 364"
    using assms by (auto simp: e_def)
  show "(doe - doe div 1460 + doe div 36524 - doe div 146096) div 365 = 100 * c + 4 * q + t"
    unfolding d1 d2 d3
    by (rule int_div_pos_eq [of _ _ _ "doy - e"]) (use e in \<open>auto simp: doe\<close>)
qed

lemma leap_of_parts:
  fixes c q t e :: int
  assumes "0 \<le> q" "q \<le> 24" "0 \<le> t" "t \<le> 3" "0 \<le> c" "c \<le> 3"
  shows "leap_year (400 * e + 100 * c + 4 * q + t + 1) \<longleftrightarrow> t = 3 \<and> (q < 24 \<or> c = 3)"
proof -
  have only: "k dvd x \<longleftrightarrow> x = k" if "0 < x" "x \<le> k" for x k :: int
    using that zdvd_imp_le [of k x] by auto
  have 4: "4 dvd 400 * e + 100 * c + 4 * q + t + 1 \<longleftrightarrow> t = 3"
    using dvd_add_right_iff [of 4 "4 * (100 * e + 25 * c + q)" "t + 1"] only [of "t + 1" 4] assms
    by (simp add: algebra_simps)
  have 100: "100 dvd 400 * e + 100 * c + 4 * q + t + 1 \<longleftrightarrow> 4 * q + t + 1 = 100"
    using dvd_add_right_iff [of 100 "100 * (4 * e + c)" "4 * q + t + 1"] only [of "4 * q + t + 1" 100] assms
    by (simp add: algebra_simps)
  have 400: "400 dvd 400 * e + 100 * c + 4 * q + t + 1 \<longleftrightarrow> 100 * c + 4 * q + t + 1 = 400"
    using dvd_add_right_iff [of 400 "400 * e" "100 * c + 4 * q + t + 1"]
      only [of "100 * c + 4 * q + t + 1" 400] assms
    by (simp add: algebra_simps)
  show ?thesis
    unfolding leap_year_def 4 100 400 using assms by auto
qed

lemma month_of_day:
  fixes mp d :: int
  assumes "0 \<le> mp" "mp \<le> 11" "1 \<le> d" "d \<le> (if mp \<in> {1, 3, 6, 8, 11} then 30 else 31)"
  shows "(5 * ((153 * mp + 2) div 5 + d - 1) + 2) div 153 = mp"
proof -
  have "mp = 0 \<or> mp = 1 \<or> mp = 2 \<or> mp = 3 \<or> mp = 4 \<or> mp = 5 \<or> mp = 6 \<or> mp = 7 \<or> mp = 8 \<or> mp = 9
    \<or> mp = 10 \<or> mp = 11"
    using assms(1,2) by presburger
  then show ?thesis
    by (elim disjE; intro int_div_pos_eq [of _ _ _ "5 * ((153 * mp + 2) div 5 + d - 1) + 2 - 153 * mp"])
       (use assms in \<open>auto\<close>)
qed

text \<open>
  \<open>civil_from_days\<close> undoes \<open>days_from_civil\<close> on every valid date of any year.
\<close>

theorem civil_date_roundtrip:
  assumes "valid_date y m d"
  shows "civil_from_days (days_from_civil y m d) = (y, m, d)"
proof -
  define Y where "Y = (if m \<le> 2 then y - 1 else y)"
  define mp where "mp = (if m > 2 then m - 3 else m + 9)"
  define doy where "doy = (153 * mp + 2) div 5 + d - 1"
  define e c q t where "e = Y div 400" and "c = (Y mod 400) div 100"
    and "q = (Y mod 100) div 4" and "t = Y mod 4"
  have parts: "0 \<le> c" "c \<le> 3" "0 \<le> q" "q \<le> 24" "0 \<le> t" "t \<le> 3"
    using pos_mod_bound [of 400 Y] pos_mod_bound [of 100 Y] pos_mod_bound [of 4 Y]
    by (simp_all add: c_def q_def t_def)
  have Y: "Y = 400 * e + 100 * c + 4 * q + t"
  proof -
    have "Y mod 400 = 100 * c + Y mod 100" "Y mod 100 = 4 * q + t"
      using mult_div_mod_eq [of 100 "Y mod 400"] mult_div_mod_eq [of 4 "Y mod 100"]
        mod_mod_cancel [of 100 400 Y] mod_mod_cancel [of 4 100 Y]
      by (simp_all add: c_def q_def t_def)
    then show ?thesis using mult_div_mod_eq [of 400 Y] by (simp add: e_def)
  qed
  have month: "0 \<le> mp" "mp \<le> 11" "1 \<le> d" "d \<le> (if mp \<in> {1, 3, 6, 8, 11} then 30 else 31)"
    using assms by (auto simp: valid_date_def days_in_month_def mp_def split: if_splits)
  have doy: "0 \<le> doy" "doy \<le> 365" "doy = 365 \<longrightarrow> t = 3 \<and> (q < 24 \<or> c = 3)"
  proof -
    have "y = 400 * e + 100 * c + 4 * q + t + 1" if "m = 2"
      using Y that by (simp add: Y_def)
    then have "m = 2 \<Longrightarrow> leap_year y \<longleftrightarrow> t = 3 \<and> (q < 24 \<or> c = 3)"
      using leap_of_parts [of q t c e] parts by simp
    then show "0 \<le> doy" "doy \<le> 365" "doy = 365 \<longrightarrow> t = 3 \<and> (q < 24 \<or> c = 3)"
      using assms month_cases [of m]
      by (auto simp: valid_date_def days_in_month_def mp_def doy_def split: if_splits)
  qed
  define doe where "doe = 36524 * c + 1461 * q + 365 * t + doy"
  note yoe = year_of_era [OF parts doy doe_def]
  define w where "w = 100 * c + 4 * q + t"
  have w: "w div 4 = 25 * c + q" "w div 100 = c"
    unfolding w_def
    by (rule int_div_pos_eq [of _ _ _ t]; use parts in simp)
       (rule int_div_pos_eq [of _ _ _ "4 * q + t"]; use parts in simp)
  have offset: "365 * w + w div 4 - w div 100 = 36524 * c + 1461 * q + 365 * t"
    unfolding w by (simp add: w_def)
  have "Y - (Y div 400) * 400 = w"
    by (simp add: e_def [symmetric]) (simp add: Y w_def)
  then have "march_days Y = e * 146097 + (w * 365 + w div 4 - w div 100)"
    using era_split [of Y] by (simp add: e_def)
  then have z: "days_from_civil y m d + 719468 = e * 146097 + doe"
    using offset by (simp add: days_from_civil_march Y_def [symmetric] mp_def [symmetric] doe_def doy_def)
  have era: "(e * 146097 + doe) div 146097 = e"
    by (rule int_div_pos_eq [of _ _ _ doe]) (use yoe in simp_all)
  have rest: "doe - (365 * w + w div 4 - w div 100) = doy"
    unfolding offset by (simp add: doe_def)
  have mp: "(5 * doy + 2) div 153 = mp"
    unfolding doy_def by (rule month_of_day [OF month])
  have day: "doy - (153 * mp + 2) div 5 + 1 = d"
    by (simp add: doy_def)
  have Yw: "w + e * 400 = Y" by (simp add: Y w_def)
  have m: "1 \<le> m" "m \<le> 12" using assms by (simp_all add: valid_date_def)
  show ?thesis
    using m
    by (simp only: civil_from_days_def Let_def z era add_diff_cancel_left' yoe(1) [folded w_def]
          rest mp day Yw)
       (auto simp: mp_def Y_def)
qed

theorem civil_date_roundtrip_witness: "civil_from_days (days_from_civil 1900 2 28) = (1900, 2, 28)"
  using civil_date_roundtrip [of 1900 2 28] by (simp add: valid_date_def days_in_month_def)

section \<open>Reading and printing timestamps\<close>

text \<open>
  \<open>string.sub(s, i, j)\<close> for \<open>1 \<le> i\<close>, and \<open>tonumber\<close> of a field of a timestamp. The fields that
  chrono and the scripts write are digits, so a number that is not an integer does not occur.
\<close>

definition lua_sub :: "nat \<Rightarrow> nat \<Rightarrow> string \<Rightarrow> string" where
  "lua_sub i j s = take (Suc j - i) (drop (i - 1) s)"

definition lua_integer :: "lua_lib \<Rightarrow> string \<Rightarrow> int option" where
  "lua_integer lib t = (case lua_tonumber lib t of Some (Fin r) \<Rightarrow> Some \<lfloor>r\<rfloor> | _ \<Rightarrow> None)"

definition iso_to_millis :: "lua_lib \<Rightarrow> string \<Rightarrow> int" where
  "iso_to_millis lib value =
     (case (lua_integer lib (lua_sub 1 4 value), lua_integer lib (lua_sub 6 7 value),
            lua_integer lib (lua_sub 9 10 value), lua_integer lib (lua_sub 12 13 value),
            lua_integer lib (lua_sub 15 16 value), lua_integer lib (lua_sub 18 19 value)) of
        (Some year, Some month, Some day, Some hour, Some minute, Some second) \<Rightarrow>
          let millis =
                (if lua_sub 20 20 value = ''.''
                 then let digits = takeWhile is_ascii_digit (drop 20 value)
                      in if digits = [] then 0
                         else (case lua_integer lib (take 3 (digits @ ''000'')) of
                                 Some n \<Rightarrow> n | None \<Rightarrow> 0)
                 else 0);
              days = days_from_civil year month day
          in (((days * 24 + hour) * 60 + minute) * 60 + second) * 1000 + millis
      | _ \<Rightarrow> 0)"

text \<open>\<open>%0wd\<close>.\<close>

definition zero_pad :: "nat \<Rightarrow> int \<Rightarrow> string" where
  "zero_pad w i =
     (if i < 0 then ''-'' @ replicate (w - 1 - length (show_nat (nat (- i)))) CHR ''0'' @ show_nat (nat (- i))
      else replicate (w - length (show_nat (nat i))) CHR ''0'' @ show_nat (nat i))"

definition millis_to_iso :: "int \<Rightarrow> string" where
  "millis_to_iso value =
     (let days = value div 86400000;
          remainder = value - days * 86400000;
          (days, remainder) =
            (if remainder < 0 then (days - 1, remainder + 86400000) else (days, remainder));
          hour = remainder div 3600000;
          remainder = remainder - hour * 3600000;
          minute = remainder div 60000;
          remainder = remainder - minute * 60000;
          second = remainder div 1000;
          millisecond = remainder - second * 1000;
          (year, month, day) = civil_from_days days
      in zero_pad 4 year @ ''-'' @ zero_pad 2 month @ ''-'' @ zero_pad 2 day @ ''T'' @ zero_pad 2 hour
         @ '':'' @ zero_pad 2 minute @ '':'' @ zero_pad 2 second @ ''.'' @ zero_pad 3 millisecond
         @ ''+00:00'')"

text \<open>What is used of \<open>tonumber\<close>: a short string of digits is its value.\<close>

definition tonumber_ok :: "lua_lib \<Rightarrow> bool" where
  "tonumber_ok lib \<longleftrightarrow>
     (\<forall>t. t \<noteq> [] \<and> list_all is_ascii_digit t \<and> length t \<le> 15 \<longrightarrow>
        lua_tonumber lib t = Some (fin_nat (digits_value t)))"

lemma length_show_nat: "n < 10 ^ w \<Longrightarrow> 0 < w \<Longrightarrow> length (show_nat n) \<le> w"
proof (induction n arbitrary: w rule: show_nat.induct)
  case (1 n)
  show ?case
  proof (cases "n < 10")
    case True
    then show ?thesis using 1 by (simp add: show_nat.simps [of n])
  next
    case False
    with 1(2) obtain v where w: "w = Suc v" "0 < v"
      by (cases w; cases "w - 1") auto
    then have "length (show_nat (n div 10)) \<le> v"
      using 1(1) [OF False, of v] 1(2) by simp
    then show ?thesis using False w by (simp add: show_nat.simps [of n])
  qed
qed

lemma digits_value_zeros: "digits_value (replicate k CHR ''0'' @ s) = digits_value s"
proof -
  have "char_digit CHR ''0'' = 0" by (simp add: char_digit_def)
  then show ?thesis
    unfolding digits_value_def foldl_append by (induction k) simp_all
qed

lemma zero_pad:
  assumes "0 \<le> i" "i < 10 ^ w" "0 < w"
  shows "length (zero_pad w i) = w" "list_all is_ascii_digit (zero_pad w i)"
    and "digits_value (zero_pad w i) = nat i"
proof -
  have "nat i < 10 ^ w" using assms by (simp add: nat_less_iff)
  then have l: "length (show_nat (nat i)) \<le> w" using assms(3) by (rule length_show_nat)
  have "is_ascii_digit CHR ''0''" by (simp add: is_ascii_digit_def)
  then show "length (zero_pad w i) = w" "list_all is_ascii_digit (zero_pad w i)"
    "digits_value (zero_pad w i) = nat i"
    using assms(1) l
    by (simp_all add: zero_pad_def digits_value_zeros digits_value_show_nat show_nat_digits
        list_all_iff)
       (use show_nat_digits in \<open>auto simp: list_all_iff\<close>)
qed

lemma lua_integer_pad:
  assumes "tonumber_ok lib" "0 \<le> i" "i < 10 ^ w" "0 < w" "w \<le> 15"
  shows "lua_integer lib (zero_pad w i) = Some i"
proof -
  note pad = zero_pad [OF assms(2-4)]
  have "zero_pad w i \<noteq> []" using pad(1) assms(4) by auto
  then have "lua_tonumber lib (zero_pad w i) = Some (fin_nat (nat i))"
    using assms(1,5) pad by (simp add: tonumber_ok_def)
  then show ?thesis using assms(2) by (simp add: lua_integer_def)
qed

lemma date_of_day: "\<exists>y m d. valid_date y m d \<and> 1970 \<le> y \<and> days_from_civil y m d = int n"
proof (induction n)
  case 0
  have "valid_date 1970 1 1" "days_from_civil 1970 1 1 = 0"
    by (simp_all add: valid_date_def days_in_month_def days_from_civil_def)
  then show ?case by (intro exI [of _ 1970] exI [of _ 1]) simp
next
  case (Suc n)
  then obtain y m d where "valid_date y m d" "1970 \<le> y" "days_from_civil y m d = int n" by blast
  moreover obtain y' m' d' where "next_date (y, m, d) = (y', m', d')" by (cases "next_date (y, m, d)")
  moreover from this have "y \<le> y'" by (auto split: if_splits)
  ultimately show ?case
    using next_date_days [of y m d] by (intro exI [of _ y'] exI [of _ m'] exI [of _ d']) auto
qed

text \<open>The first day of the year 10000 is day 2932897.\<close>

lemma march_days_mono: "y \<le> y' \<Longrightarrow> march_days y \<le> march_days y'"
proof (induction y' rule: int_ge_induct)
  case (step y')
  then show ?case using march_days_step [of "y' + 1"] by (auto split: if_splits)
qed simp

lemma year_below_10000:
  assumes "valid_date y m d" "days_from_civil y m d < 2932897"
  shows "y < 10000"
proof (rule ccontr)
  assume "\<not> y < 10000"
  then have "march_days 9999 \<le> march_days (if m \<le> 2 then y - 1 else y)"
    and ten: "m > 2 \<Longrightarrow> march_days 10000 \<le> march_days (if m \<le> 2 then y - 1 else y)"
    by (auto intro: march_days_mono)
  then show False
    using assms month_cases [of m]
    by (auto simp: valid_date_def days_from_civil_march march_days_def [of 9999] march_days_def [of 10000])
qed

text \<open>
  The timestamps that the scripts print are read back by the scripts: for every millisecond
  from 1970 to the end of the year 9999, reading the printed text gives the millisecond again.
\<close>

theorem timestamp_roundtrip:
  assumes "tonumber_ok lib" "0 \<le> n" "n < 253402300800000"
  shows "iso_to_millis lib (millis_to_iso n) = n"
proof -
  define days where "days = n div 86400000"
  define r where "r = n mod 86400000"
  have r: "0 \<le> r" "r < 86400000" "n - days * 86400000 = r"
    by (simp_all add: r_def days_def minus_div_mult_eq_mod)
  have days: "0 \<le> days" "days < 2932897" using assms(2,3) by (simp_all add: days_def)
  obtain y m d where date: "valid_date y m d" "1970 \<le> y" "days_from_civil y m d = days"
    using date_of_day [of "nat days"] days by auto
  have civil: "civil_from_days days = (y, m, d)"
    using civil_date_roundtrip [OF date(1)] date(3) by simp
  have year: "0 \<le> y" "y < 10 ^ 4" using date year_below_10000 [OF date(1)] days by simp_all
  have month: "0 \<le> m" "m < 10 ^ 2" and day: "0 \<le> d" "d < 10 ^ 2"
    using date(1) by (auto simp: valid_date_def days_in_month_def split: if_splits)
  define h mi sec ms where "h = r div 3600000" and "mi = (r - h * 3600000) div 60000"
    and "sec = (r - h * 3600000 - mi * 60000) div 1000"
    and "ms = r - h * 3600000 - mi * 60000 - sec * 1000"
  have parts: "0 \<le> h" "h < 10 ^ 2" "0 \<le> mi" "mi < 10 ^ 2" "0 \<le> sec" "sec < 10 ^ 2" "0 \<le> ms" "ms < 10 ^ 3"
  proof -
    have "r - h * 3600000 = r mod 3600000"
      by (simp add: h_def minus_div_mult_eq_mod)
    moreover define r1 where "r1 = r mod 3600000"
    ultimately have r1: "r - h * 3600000 = r1" "0 \<le> r1" "r1 < 3600000" by simp_all
    have "r1 - mi * 60000 = r1 mod 60000"
      by (simp add: mi_def r1(1) minus_div_mult_eq_mod)
    moreover define r2 where "r2 = r1 mod 60000"
    ultimately have r2: "r1 - mi * 60000 = r2" "0 \<le> r2" "r2 < 60000" by simp_all
    have "r2 - sec * 1000 = r2 mod 1000"
      by (simp add: sec_def r1(1) r2(1) minus_div_mult_eq_mod)
    then have "ms = r2 mod 1000" by (simp add: ms_def r1(1) r2(1))
    moreover have "h = r div 3600000" by (rule h_def)
    moreover have "mi = r1 div 60000" by (simp only: mi_def r1(1))
    moreover have "sec = r2 div 1000" by (simp only: sec_def r1(1) r2(1))
    ultimately show "0 \<le> h" "h < 10 ^ 2" "0 \<le> mi" "mi < 10 ^ 2" "0 \<le> sec" "sec < 10 ^ 2"
      "0 \<le> ms" "ms < 10 ^ 3"
      using r r1 r2 by (simp_all add: pos_imp_zdiv_nonneg_iff div_less_iff_less_mult)
  qed
  have printed: "millis_to_iso n = zero_pad 4 y @ ''-'' @ zero_pad 2 m @ ''-'' @ zero_pad 2 d @ ''T''
      @ zero_pad 2 h @ '':'' @ zero_pad 2 mi @ '':'' @ zero_pad 2 sec @ ''.'' @ zero_pad 3 ms @ ''+00:00''"
    using r civil
    by (simp add: millis_to_iso_def Let_def days_def [symmetric] h_def mi_def sec_def ms_def)
  note ints = lua_integer_pad [OF assms(1)]
  have len: "length (zero_pad 4 y) = 4" "length (zero_pad 2 m) = 2" "length (zero_pad 2 d) = 2"
    "length (zero_pad 2 h) = 2" "length (zero_pad 2 mi) = 2" "length (zero_pad 2 sec) = 2"
    "length (zero_pad 3 ms) = 3"
    using year month day parts by (simp_all add: zero_pad(1))
  have fraction: "takeWhile is_ascii_digit (zero_pad 3 ms @ ''+00:00'') = zero_pad 3 ms"
    using zero_pad(2) [OF parts(7,8)] by (simp add: list_all_iff takeWhile_append2 is_ascii_digit_def)
  have "zero_pad 3 ms \<noteq> []" using len(7) by auto
  then have "iso_to_millis lib (millis_to_iso n) =
      (((days_from_civil y m d * 24 + h) * 60 + mi) * 60 + sec) * 1000 + ms"
    using year month day parts
    by (simp add: iso_to_millis_def printed lua_sub_def len ints fraction)
  also have "\<dots> = days * 86400000 + r"
    by (simp add: date(3) ms_def)
  also have "\<dots> = n" using r(3) by simp
  finally show ?thesis .
qed

definition ex_lua_lib :: lua_lib where
  "ex_lua_lib =
     \<lparr>cjson_decode = (\<lambda>_. None), cjson_encode = (\<lambda>_. []),
      lua_tonumber = (\<lambda>t. if t \<noteq> [] \<and> list_all is_ascii_digit t then Some (fin_nat (digits_value t)) else None),
      lua_tostring = (\<lambda>_. [])\<rparr>"

theorem timestamp_roundtrip_witness:
  "iso_to_millis ex_lua_lib (millis_to_iso 1709210096123) = 1709210096123"
  by (rule timestamp_roundtrip) (simp_all add: ex_lua_lib_def tonumber_ok_def)

end
