(* ===== verification/Redis_Scripts.thy ===== *)
theory Redis_Scripts
  imports Redis_Calendar
begin

text \<open>
  The scripts of \<open>src/src/job/redis.rs\<close> that move a job between waiting, delayed and active:
  claiming, renewing, delaying, releasing, promoting, rescheduling, reordering. The functions the
  scripts share come first, under the names they have there. The keys of a script are arguments in
  the order of its \<open>KEYS\<close>, its arguments in the order of \<open>ARGV\<close>; \<open>marker\<close> is the last key.
\<close>

section \<open>Reading a job in a script\<close>

text \<open>\<open>job["state"] or ''\<close> in a reply, and \<open>tonumber(job["priority"] or '1000') or 1000\<close>.\<close>

definition reply_or :: "lua_lib \<Rightarrow> string \<Rightarrow> json option \<Rightarrow> string" where
  "reply_or lib d v =
     (if lua_true v then (case lua_text lib (the v) of Some t \<Rightarrow> t | None \<Rightarrow> []) else d)"

text \<open>\<open>x or d\<close> as an argument of a command; a value that is no text raises.\<close>

definition text_or :: "lua_lib \<Rightarrow> string \<Rightarrow> json option \<Rightarrow> ('s, string) script" where
  "text_or lib d v = sget (if lua_true v then lua_text lib (the v) else Some d)"

definition priority_of :: "lua_lib \<Rightarrow> json \<Rightarrow> ('s, f64) script" where
  "priority_of lib job =
     sbind (lua_index job ''priority'') (\<lambda>v.
       sret (case lua_number lib (if lua_true v then the v else JString ''1000'') of
               Some x \<Rightarrow> x | None \<Rightarrow> Fin 1000))"

definition is_lifo :: "json \<Rightarrow> ('s, bool) script" where
  "is_lifo job =
     sbind (lua_index job ''options'') (\<lambda>o'.
       if lua_absent o' then sret False
       else sbind (lua_index (the o') ''lifo'') (\<lambda>l. sret (l = Some (JBool True))))"

text \<open>A Lua number as a value of a table; \<open>cjson.encode\<close> raises on an infinity.\<close>

definition json_number :: "f64 \<Rightarrow> json option" where
  "json_number x = (case x of Fin r \<Rightarrow> Some (JNumber r) | _ \<Rightarrow> None)"

definition assign_all :: "(string \<times> json) list \<Rightarrow> json \<Rightarrow> ('s, json) script" where
  "assign_all fvs job = fold (\<lambda>(f, v) m. sbind m (\<lambda>j. lua_assign j f v)) fvs (sret job)"

section \<open>Functions the scripts share\<close>

definition enqueue_waiting_job ::
  "'s redis \<Rightarrow> lua_lib \<Rightarrow> string \<Rightarrow> string \<Rightarrow> string \<Rightarrow> json \<Rightarrow> job_id \<Rightarrow> f64 \<Rightarrow> f64 \<Rightarrow> string \<Rightarrow>
   ('s, string) script" where
  "enqueue_waiting_job R lib jobs waiting sequence job job_id priority bucket marker =
     sbind (sreply (r_incr R sequence)) (\<lambda>reply.
     sbind (sget reply) (\<lambda>n.
     sbind (sget (json_number (f64_of_int n))) (\<lambda>seq.
     sbind (lua_assign job ''enqueued_seq'' seq) (\<lambda>job.
     sbind (is_lifo job) (\<lambda>lifo.
     let score = waiting_score_for priority (f64_of_int n) lifo bucket;
         updated = cjson_encode lib job
     in sbind (swrite (r_hset R jobs job_id updated)) (\<lambda>_.
        sbind (swrite (r_zadd R waiting score job_id)) (\<lambda>_.
        sbind (swhen (marker \<noteq> []) (swrite (r_zadd R marker (Fin 0) ''0''))) (\<lambda>_.
        sret updated))))))))"

definition push_back_waiting_job ::
  "'s redis \<Rightarrow> lua_lib \<Rightarrow> string \<Rightarrow> string \<Rightarrow> json \<Rightarrow> job_id \<Rightarrow> f64 \<Rightarrow> f64 \<Rightarrow> string \<Rightarrow> ('s, string) script" where
  "push_back_waiting_job R lib jobs waiting job job_id priority bucket marker =
     sbind (lua_assign job ''enqueued_seq'' (JNumber 0)) (\<lambda>job.
     let score = pushed_back_score priority bucket;
         updated = cjson_encode lib job
     in sbind (swrite (r_hset R jobs job_id updated)) (\<lambda>_.
        sbind (swrite (r_zadd R waiting score job_id)) (\<lambda>_.
        sbind (swhen (marker \<noteq> []) (swrite (r_zadd R marker (Fin 0) ''0''))) (\<lambda>_.
        sret updated))))"

definition refresh_delay_marker :: "'s redis \<Rightarrow> string \<Rightarrow> string \<Rightarrow> ('s, unit) script" where
  "refresh_delay_marker R marker delayed =
     swhen (marker \<noteq> [])
       (sbind (sread (r_zfirst R delayed 1)) (\<lambda>first.
          case first of
            (_, score) # _ \<Rightarrow> swrite (r_zadd R marker score ''1'')
          | [] \<Rightarrow> swrite (snd \<circ> r_zrem R marker ''1'')))"

definition add_base_marker_if_waiting :: "'s redis \<Rightarrow> string \<Rightarrow> string \<Rightarrow> ('s, unit) script" where
  "add_base_marker_if_waiting R marker waiting =
     swhen (marker \<noteq> [])
       (sbind (sread (r_zcard R waiting)) (\<lambda>n.
          swhen (n > 0) (swrite (r_zadd R marker (Fin 0) ''0''))))"

definition lua_repeat_key :: "json \<Rightarrow> ('s, json option) script" where
  "lua_repeat_key job =
     sbind (lua_index job ''repeat_key'') (\<lambda>rkey.
       sret (if lua_absent rkey \<or> rkey = Some (JString []) then None else rkey))"

text \<open>\<open>string.sub(prefix, 1, -2)\<close> drops the separator, \<open>string.sub(prefix, 1, -8)\<close> drops \<open>repeat:\<close>.\<close>

definition lua_repeat_scheduler_key :: "string \<Rightarrow> string" where
  "lua_repeat_scheduler_key repeat_prefix = take (length repeat_prefix - 1) repeat_prefix"

definition lua_repeat_scheduler_meta_key :: "string \<Rightarrow> string \<Rightarrow> string" where
  "lua_repeat_scheduler_meta_key repeat_prefix rkey =
     take (length repeat_prefix - 7) repeat_prefix @ ''repeat_meta:'' @ rkey"

text \<open>\<open>HSET meta field value\<close> when a field of the repeat options is present.\<close>

definition store_present ::
  "'s redis \<Rightarrow> lua_lib \<Rightarrow> string \<Rightarrow> json \<Rightarrow> string \<Rightarrow> string \<Rightarrow> ('s, unit) script" where
  "store_present R lib meta options source field =
     sbind (lua_index options source) (\<lambda>v.
       if lua_absent v then sret ()
       else sbind (sget (lua_text lib (the v))) (\<lambda>t. swrite (r_hset R meta field t)))"

text \<open>\<open>interval["secs"] or interval["seconds"] or 0\<close>, as a number or 0.\<close>

definition first_number :: "lua_lib \<Rightarrow> json \<Rightarrow> string \<Rightarrow> string \<Rightarrow> ('s, f64) script" where
  "first_number lib interval a b =
     sbind (lua_index interval a) (\<lambda>x.
     sbind (lua_index interval b) (\<lambda>y.
       let v = (if lua_true x then the x else if lua_true y then the y else JNumber 0)
       in sret (case lua_number lib v of Some n \<Rightarrow> n | None \<Rightarrow> Fin 0)))"

definition interval_millis :: "lua_lib \<Rightarrow> json \<Rightarrow> ('s, f64) script" where
  "interval_millis lib interval =
     (case interval of
        JNumber r \<Rightarrow> sret (lua_floor (Fin r))
      | _ \<Rightarrow>
          sbind (first_number lib interval ''secs'' ''seconds'') (\<lambda>secs.
          sbind (first_number lib interval ''nanos'' ''subsec_nanos'') (\<lambda>nanos.
            sret (f64_add (f64_mul secs (Fin 1000)) (lua_floor (f64_div nanos (Fin 1000000)))))))"

definition store_repeat_options :: "'s redis \<Rightarrow> lua_lib \<Rightarrow> string \<Rightarrow> json \<Rightarrow> ('s, unit) script" where
  "store_repeat_options R lib meta options =
     sbind (store_present R lib meta options ''limit'' ''limit'') (\<lambda>_.
     sbind (store_present R lib meta options ''end_at'' ''endDate'') (\<lambda>_.
     sbind (lua_index options ''interval'') (\<lambda>interval.
     sbind (if lua_absent interval then sret ()
            else sbind (interval_millis lib (the interval)) (\<lambda>every.
              swhen (every > Fin 0 \<and> every \<noteq> NaN)
                (swrite (r_hset R meta ''every'' (lua_tostring lib every))))) (\<lambda>_.
     store_present R lib meta options ''cron'' ''pattern''))))"

text \<open>\<open>scheduled\<close> is the score and \<open>next\<close> its text in the metadata.\<close>

definition sync_repeat_scheduler ::
  "'s redis \<Rightarrow> lua_lib \<Rightarrow> json \<Rightarrow> job_id \<Rightarrow> string \<Rightarrow> f64 \<Rightarrow> string \<Rightarrow> ('s, unit) script" where
  "sync_repeat_scheduler R lib job job_id repeat_prefix scheduled next_text =
     sbind (lua_repeat_key job) (\<lambda>rkey.
     if rkey = None \<or> repeat_prefix = [] then sret ()
     else
     sbind (sget (lua_text lib (the rkey))) (\<lambda>rkey.
     let owner_key = repeat_prefix @ rkey;
         meta = lua_repeat_scheduler_meta_key repeat_prefix rkey
     in
     sbind (sread (r_get R owner_key)) (\<lambda>owner_id.
     sbind (sread (r_hget R meta ''jid'')) (\<lambda>scheduler_owner_id.
     if owner_id \<noteq> None \<and> owner_id \<noteq> Some job_id then sret ()
     else if owner_id = None \<and> scheduler_owner_id \<noteq> None \<and> scheduler_owner_id \<noteq> Some job_id then sret ()
     else
     sbind (swhen (owner_id = None) (swrite (r_set R owner_key job_id))) (\<lambda>_.
     sbind (lua_index job ''options'') (\<lambda>options.
     sbind (if lua_absent options then sret None else lua_index (the options) ''repeat'') (\<lambda>rep.
     sbind (swrite (r_zadd R (lua_repeat_scheduler_key repeat_prefix) scheduled rkey)) (\<lambda>_.
     sbind (swrite (r_del R meta)) (\<lambda>_.
     sbind (lua_index job ''name'') (\<lambda>name.
     sbind (lua_index job ''state'') (\<lambda>state.
     sbind (lua_index job ''repeat_count'') (\<lambda>cnt.
     sbind (text_or lib [] name) (\<lambda>name.
     sbind (text_or lib [] state) (\<lambda>state.
     sbind (text_or lib ''0'' cnt) (\<lambda>cnt.
     sbind (sseq
       [swrite (r_hset R meta ''jid'' job_id),
        swrite (r_hset R meta ''name'' name),
        swrite (r_hset R meta ''next'' next_text),
        swrite (r_hset R meta ''state'' state),
        swrite (r_hset R meta ''count'' cnt),
        swrite (r_hset R meta ''opts'' (if lua_absent rep then [] else cjson_encode lib (the rep))),
        swrite (r_hset R meta ''key'' rkey)]) (\<lambda>_.
     if lua_absent rep then sret () else store_repeat_options R lib meta (the rep)))))))))))))))))"

definition queue_is_paused_or_maxed :: "'s redis \<Rightarrow> lua_lib \<Rightarrow> string \<Rightarrow> string \<Rightarrow> ('s, bool) script" where
  "queue_is_paused_or_maxed R lib meta active =
     sbind (sread (r_hget R meta ''paused'')) (\<lambda>paused.
     if paused \<noteq> None \<and> paused \<noteq> Some ''0'' then sret True
     else
     sbind (swhen (paused = Some ''0'') (swrite (r_hdel R meta ''paused''))) (\<lambda>_.
     sbind (sread (r_hget R meta ''concurrency'')) (\<lambda>raw.
     let max_concurrency = lua_tonumber lib (case raw of None \<Rightarrow> ''0'' | Some t \<Rightarrow> t)
     in case max_concurrency of
          Some n \<Rightarrow>
            if n > Fin 0 \<and> n \<noteq> NaN
            then sbind (sread (r_zcard R active)) (\<lambda>active_count. sret (f64_ge (f64_of_nat active_count) n))
            else sret False
        | None \<Rightarrow> sret False)))"

section \<open>Claiming\<close>

definition waiting_event :: "job_id \<Rightarrow> string \<Rightarrow> (string \<times> string) list" where
  "waiting_event job_id prev = [(''event'', ''waiting''), (''jobId'', job_id), (''prev'', prev)]"

text \<open>One delayed job that is due: it leaves the delayed set, and waits if it was really delayed.\<close>

definition promote_due_job ::
  "'s redis \<Rightarrow> lua_lib \<Rightarrow> string \<Rightarrow> string \<Rightarrow> string \<Rightarrow> string \<Rightarrow> string \<Rightarrow> string \<Rightarrow> f64 \<Rightarrow> nat \<Rightarrow> string \<Rightarrow>
   job_id \<Rightarrow> ('s, nat) script" where
  "promote_due_job R lib jobs delayed waiting sequence events marker bucket maxlen repeat_prefix due_id =
     sbind (sread (r_hget R jobs due_id)) (\<lambda>raw.
     sbind (swrite (snd \<circ> r_zrem R delayed due_id)) (\<lambda>_.
     case raw of
       None \<Rightarrow> sret 0
     | Some text \<Rightarrow>
         sbind (sget (cjson_decode lib text)) (\<lambda>job.
         sbind (lua_index job ''state'') (\<lambda>state.
         if state \<noteq> Some (JString ''delayed'') then sret 0
         else
         sbind (lua_assign job ''state'' (JString ''waiting'')) (\<lambda>job.
         sbind (priority_of lib job) (\<lambda>priority.
         sbind (enqueue_waiting_job R lib jobs waiting sequence job due_id priority bucket marker) (\<lambda>_.
         sbind (lua_index job ''scheduled_at'') (\<lambda>at'.
         sbind (sget (case at' of None \<Rightarrow> None | Some v \<Rightarrow> lua_text lib v)) (\<lambda>iso.
         let millis = f64_of_int (iso_to_millis lib iso)
         in
         sbind (sync_repeat_scheduler R lib job due_id repeat_prefix millis (lua_tostring lib millis)) (\<lambda>_.
         sbind (swrite (r_xadd R events maxlen (waiting_event due_id ''delayed''))) (\<lambda>_.
         sret 1)))))))))))"

fun promote_due_jobs_loop :: "(job_id \<Rightarrow> ('s, nat) script) \<Rightarrow> job_id list \<Rightarrow> nat \<Rightarrow> ('s, nat) script" where
  "promote_due_jobs_loop f [] n = sret n"
| "promote_due_jobs_loop f (i # is) n = sbind (f i) (\<lambda>k. promote_due_jobs_loop f is (n + k))"

text \<open>The limit in force: the worker's own, else the queue's in the meta hash; 0 is no limit.\<close>

definition effective_rate_limit ::
  "'s redis \<Rightarrow> lua_lib \<Rightarrow> string \<Rightarrow> f64 \<Rightarrow> f64 \<Rightarrow> ('s, f64 option \<times> f64 option) script" where
  "effective_rate_limit R lib meta own_max own_duration =
     sbind (if own_max > Fin 0 \<and> own_max \<noteq> NaN then sret (Some own_max, Some own_duration)
            else sbind (sread (r_hget R meta ''max'')) (\<lambda>m.
                 sbind (sread (r_hget R meta ''duration'')) (\<lambda>d.
                 sret (lua_tonumber lib (case m of None \<Rightarrow> ''0'' | Some t \<Rightarrow> t),
                       lua_tonumber lib (case d of None \<Rightarrow> ''0'' | Some t \<Rightarrow> t))))) (\<lambda>(rate_max, duration).
       sret (case duration of
               Some d \<Rightarrow> if d > Fin 0 then (rate_max, duration) else (Some (Fin 0), duration)
             | None \<Rightarrow> (Some (Fin 0), None)))"

definition limits :: "f64 option \<Rightarrow> bool" where
  "limits m \<longleftrightarrow> (case m of Some x \<Rightarrow> x > Fin 0 \<and> x \<noteq> NaN | None \<Rightarrow> False)"

text \<open>The arguments of \<open>CLAIM_SCRIPT\<close>, \<open>ARGV[1]\<close> to \<open>ARGV[15]\<close>.\<close>

record claim_args =
  ca_lease_score :: f64
  ca_now :: string
  ca_worker_id :: string
  ca_lease_expires_at :: string
  ca_token :: string
  ca_lock_millis :: nat
  ca_lock_prefix :: string
  ca_rate_max :: f64
  ca_rate_duration :: f64
  ca_now_score :: f64
  ca_bucket :: f64
  ca_due_limit :: nat
  ca_candidate_limit :: nat
  ca_maxlen :: nat
  ca_repeat_prefix :: string

text \<open>The keys of \<open>CLAIM_SCRIPT\<close>, \<open>KEYS[1]\<close> to \<open>KEYS[9]\<close>.\<close>

record claim_keys =
  ck_waiting :: string
  ck_active :: string
  ck_jobs :: string
  ck_rate_limit :: string
  ck_meta :: string
  ck_delayed :: string
  ck_sequence :: string
  ck_events :: string
  ck_marker :: string

text \<open>A claim counts against the limit in force; the first one starts the window.\<close>

definition count_claim :: "'s redis \<Rightarrow> string \<Rightarrow> f64 option \<Rightarrow> f64 option \<Rightarrow> ('s, unit) script" where
  "count_claim R rate_limit rate_max rate_duration =
     swhen (limits rate_max)
       (sbind (sreply (r_incr R rate_limit)) (\<lambda>reply.
        sbind (sget reply) (\<lambda>counter.
          swhen (counter = 1) (swrite (r_pexpire R rate_limit (f64_to_u64 (the rate_duration)))))))"

definition announce_claim ::
  "'s redis \<Rightarrow> lua_lib \<Rightarrow> claim_keys \<Rightarrow> claim_args \<Rightarrow> json \<Rightarrow> job_id \<Rightarrow> ('s, unit) script" where
  "announce_claim R lib K A job job_id =
     sbind (lua_index job ''scheduled_at'') (\<lambda>at'.
     sbind (sget (case at' of None \<Rightarrow> None | Some v \<Rightarrow> lua_text lib v)) (\<lambda>iso.
     let millis = f64_of_int (iso_to_millis lib iso)
     in
     sbind (sync_repeat_scheduler R lib job job_id (ca_repeat_prefix A) millis (lua_tostring lib millis)) (\<lambda>_.
     sseq
       [swrite (r_xadd R (ck_events K) (ca_maxlen A)
          [(''event'', ''active''), (''jobId'', job_id), (''prev'', ''waiting'')]),
        swrite (r_zadd R (ck_marker K) (Fin 0) ''0'')])))"

text \<open>The job as it is claimed.\<close>

definition claimed_job :: "lua_lib \<Rightarrow> claim_args \<Rightarrow> json \<Rightarrow> ('s, json) script" where
  "claimed_job lib A job =
     sbind (lua_index job ''attempts_made'') (\<lambda>made.
     sbind (sget (lua_number lib (if lua_true made then the made else JNumber 0))) (\<lambda>made.
     sbind (sget (json_number (f64_add made (Fin 1)))) (\<lambda>attempts.
     assign_all
       [(''state'', JString ''active''), (''attempts_made'', attempts),
        (''processed_at'', JString (ca_now A)), (''worker_id'', JString (ca_worker_id A)),
        (''lease_expires_at'', JString (ca_lease_expires_at A)), (''failed_reason'', JNull)] job)))"

definition claim_candidate ::
  "'s redis \<Rightarrow> lua_lib \<Rightarrow> claim_keys \<Rightarrow> claim_args \<Rightarrow> f64 option \<Rightarrow> f64 option \<Rightarrow> job_id \<Rightarrow>
   ('s, string option) script" where
  "claim_candidate R lib K A rate_max rate_duration job_id =
     sbind (sread (r_hget R (ck_jobs K) job_id)) (\<lambda>raw.
     case raw of
       None \<Rightarrow> sbind (swrite (snd \<circ> r_zrem R (ck_waiting K) job_id)) (\<lambda>_. sret None)
     | Some text \<Rightarrow>
         sbind (sget (cjson_decode lib text)) (\<lambda>job.
         sbind (lua_index job ''state'') (\<lambda>state.
         if state \<noteq> Some (JString ''waiting'')
         then sbind (swrite (snd \<circ> r_zrem R (ck_waiting K) job_id)) (\<lambda>_. sret None)
         else
         sbind (swrite (r_set_px R (ca_lock_prefix A @ job_id) (ca_token A) (ca_lock_millis A))) (\<lambda>_.
         sbind (count_claim R (ck_rate_limit K) rate_max rate_duration) (\<lambda>_.
         sbind (claimed_job lib A job) (\<lambda>job.
         let updated = cjson_encode lib job
         in
         sbind (sseq
           [swrite (snd \<circ> r_zrem R (ck_waiting K) job_id),
            swrite (r_zadd R (ck_active K) (ca_lease_score A) job_id),
            swrite (r_hset R (ck_jobs K) job_id updated)]) (\<lambda>_.
         sbind (announce_claim R lib K A job job_id) (\<lambda>_.
         sret (Some updated)))))))))"

fun claim_candidates :: "(job_id \<Rightarrow> ('s, string option) script) \<Rightarrow> job_id list \<Rightarrow> ('s, string option) script" where
  "claim_candidates f [] = sret None"
| "claim_candidates f (i # is) =
     sbind (f i) (\<lambda>claimed. case claimed of Some raw \<Rightarrow> sret (Some raw) | None \<Rightarrow> claim_candidates f is)"

definition claim_script ::
  "'s redis \<Rightarrow> lua_lib \<Rightarrow> claim_keys \<Rightarrow> claim_args \<Rightarrow> ('s, string option) script" where
  "claim_script R lib K A =
     sbind (queue_is_paused_or_maxed R lib (ck_meta K) (ck_active K)) (\<lambda>blocked.
     let promotion_marker = (if blocked then [] else ck_marker K)
     in
     sbind (sread (r_zdue R (ck_delayed K) (ca_now_score A) (ca_due_limit A))) (\<lambda>due_ids.
     sbind (promote_due_jobs_loop
       (promote_due_job R lib (ck_jobs K) (ck_delayed K) (ck_waiting K) (ck_sequence K) (ck_events K)
          promotion_marker (ca_bucket A) (ca_maxlen A) (ca_repeat_prefix A)) due_ids 0) (\<lambda>_.
     sbind (refresh_delay_marker R (ck_marker K) (ck_delayed K)) (\<lambda>_.
     sbind (effective_rate_limit R lib (ck_meta K) (ca_rate_max A) (ca_rate_duration A))
       (\<lambda>(rate_max, rate_duration).
     sbind (if limits rate_max
            then sbind (sread (r_get R (ck_rate_limit K))) (\<lambda>raw.
                 sbind (sget (lua_tonumber lib (case raw of None \<Rightarrow> ''0'' | Some t \<Rightarrow> t))) (\<lambda>current.
                 sret (f64_ge current (the rate_max))))
            else sret False) (\<lambda>limited.
     if limited \<or> blocked then sret None
     else
     sbind (sread (r_zfirst R (ck_waiting K) (ca_candidate_limit A))) (\<lambda>candidates.
       claim_candidates (claim_candidate R lib K A rate_max rate_duration) (map fst candidates))))))))"

end
