(* ===== verification/Redis_Leases.thy ===== *)
theory Redis_Leases
  imports Redis_Scripts
begin

text \<open>
  The bodies of the scripts that work on one claimed, delayed or waiting job, from their \<open>KEYS\<close> and
  \<open>ARGV\<close> to their reply: \<open>CLAIM\<close>, \<open>RENEW_LEASE\<close>, \<open>RENEW_LEASES\<close>, \<open>DELAY_ACTIVE_JOB\<close>,
  \<open>RELEASE_ACTIVE_JOB\<close>, \<open>PROMOTE_JOB\<close>, \<open>RESCHEDULE_JOB\<close>, \<open>UPDATE_PRIORITY\<close>, \<open>PROMOTE_DUE_JOBS\<close>,
  the limits and the scripts that read or edit a job in place. \<open>KEYS[i]\<close> and \<open>ARGV[i]\<close> are the
  elements of two lists; a script called with too few of them raises.
\<close>

section \<open>What the bodies share\<close>

text \<open>\<open>if not raw then ... return {'missing'} end\<close>, and the job otherwise.\<close>

definition with_job ::
  "'s redis \<Rightarrow> lua_lib \<Rightarrow> string \<Rightarrow> job_id \<Rightarrow> ('s, unit) script \<Rightarrow> (json \<Rightarrow> ('s, string list) script) \<Rightarrow>
   ('s, string list) script" where
  "with_job R lib jobs job_id missing k =
     sbind (sread (r_hget R jobs job_id)) (\<lambda>raw.
     case raw of
       None \<Rightarrow> sbind missing (\<lambda>_. sret [''missing''])
     | Some text \<Rightarrow> sbind (sget (cjson_decode lib text)) k)"

text \<open>\<open>if job["state"] ~= name then ... return {'state', job["state"] or d} end\<close>.\<close>

definition in_state ::
  "lua_lib \<Rightarrow> string \<Rightarrow> string \<Rightarrow> json \<Rightarrow> ('s, unit) script \<Rightarrow> ('s, string list) script \<Rightarrow>
   ('s, string list) script" where
  "in_state lib name d job other k =
     sbind (lua_index job ''state'') (\<lambda>state.
     if state \<noteq> Some (JString name)
     then sbind other (\<lambda>_. sret [''state'', reply_or lib d state])
     else k)"

definition owns_lock ::
  "'s redis \<Rightarrow> string \<Rightarrow> string \<Rightarrow> ('s, string list) script \<Rightarrow> ('s, string list) script" where
  "owns_lock R lock token k =
     sbind (sread (r_get R lock)) (\<lambda>lock_token.
     case lock_token of
       None \<Rightarrow> sret [''lock_missing'']
     | Some t \<Rightarrow> if t \<noteq> token then sret [''lock_mismatch''] else k)"

text \<open>\<open>job["options"][field] = value\<close>, with options made when there are none.\<close>

definition assign_option :: "json \<Rightarrow> string \<Rightarrow> json \<Rightarrow> ('s, json) script" where
  "assign_option job field v =
     sbind (lua_index job ''options'') (\<lambda>old.
     sbind (lua_assign (if lua_absent old then JObject [] else the old) field v) (\<lambda>new.
     lua_assign job ''options'' new))"

section \<open>Claiming and renewing\<close>

definition claim_eval ::
  "'s redis \<Rightarrow> lua_lib \<Rightarrow> string list \<Rightarrow> eval_arg list \<Rightarrow> ('s, string option) script" where
  "claim_eval R lib K A =
     (case K of
        [waiting, active, jobs, rate_limit, meta, delayed, sequence, events, marker] \<Rightarrow>
        (case A of
           [lease_score, now, worker_id, expires, token, lock_millis, lock_prefix, rate_max,
            rate_duration, now_score, bucket, due_limit, candidate_limit, maxlen, repeat_prefix] \<Rightarrow>
             sbind (sget (arg_number lib lease_score)) (\<lambda>lease_score.
             sbind (sget (arg_millis lock_millis)) (\<lambda>lock_millis.
             sbind (sget (arg_number lib rate_max)) (\<lambda>rate_max.
             sbind (sget (arg_number lib rate_duration)) (\<lambda>rate_duration.
             sbind (sget (arg_number lib now_score)) (\<lambda>now_score.
             sbind (sget (arg_number lib bucket)) (\<lambda>bucket.
             sbind (sget (arg_nat due_limit)) (\<lambda>due_limit.
             sbind (sget (arg_nat candidate_limit)) (\<lambda>candidate_limit.
             sbind (sget (arg_nat maxlen)) (\<lambda>maxlen.
             claim_script R lib
               \<lparr>ck_waiting = waiting, ck_active = active, ck_jobs = jobs, ck_rate_limit = rate_limit,
                ck_meta = meta, ck_delayed = delayed, ck_sequence = sequence, ck_events = events,
                ck_marker = marker\<rparr>
               \<lparr>ca_lease_score = lease_score, ca_now = arg_text now, ca_worker_id = arg_text worker_id,
                ca_lease_expires_at = arg_text expires, ca_token = arg_text token,
                ca_lock_millis = lock_millis, ca_lock_prefix = arg_text lock_prefix,
                ca_rate_max = rate_max, ca_rate_duration = rate_duration, ca_now_score = now_score,
                ca_bucket = bucket, ca_due_limit = due_limit, ca_candidate_limit = candidate_limit,
                ca_maxlen = maxlen, ca_repeat_prefix = arg_text repeat_prefix\<rparr>)))))))))
         | _ \<Rightarrow> sraise)
      | _ \<Rightarrow> sraise)"

definition renew_lease_script ::
  "'s redis \<Rightarrow> lua_lib \<Rightarrow> string list \<Rightarrow> eval_arg list \<Rightarrow> ('s, string list) script" where
  "renew_lease_script R lib K A =
     (case (K, A) of
        ([jobs, active, lock, stalled], id' # token' # expires # score # ttl # _) \<Rightarrow>
          let job_id = arg_text id'; token = arg_text token' in
          with_job R lib jobs job_id (sret ()) (\<lambda>job.
          in_state lib ''active'' [] job (sret ()) (
          owns_lock R lock token (
          sbind (sget (arg_millis ttl)) (\<lambda>ttl.
          sbind (swrite (r_set_px R lock token ttl)) (\<lambda>_.
          sbind (swrite (r_srem R stalled job_id)) (\<lambda>_.
          sbind (lua_assign job ''lease_expires_at'' (JString (arg_text expires))) (\<lambda>job.
          let updated = cjson_encode lib job in
          sbind (swrite (r_hset R jobs job_id updated)) (\<lambda>_.
          sbind (sget (arg_number lib score)) (\<lambda>score.
          sbind (swrite (r_zadd R active score job_id)) (\<lambda>_.
          sret [''ok'', updated]))))))))))
      | _ \<Rightarrow> sraise)"

text \<open>One renewal of \<open>RENEW_LEASES_SCRIPT\<close>: whether it was renewed.\<close>

definition renew_one ::
  "'s redis \<Rightarrow> lua_lib \<Rightarrow> string \<Rightarrow> string \<Rightarrow> string \<Rightarrow> string \<Rightarrow> string \<Rightarrow> f64 \<Rightarrow> nat \<Rightarrow> string \<Rightarrow> string \<Rightarrow>
   ('s, bool) script" where
  "renew_one R lib jobs active stalled lock_prefix expires score ttl job_id token =
     sbind (sread (r_hget R jobs job_id)) (\<lambda>raw.
     case raw of
       None \<Rightarrow> sret False
     | Some text \<Rightarrow>
         sbind (sget (cjson_decode lib text)) (\<lambda>job.
         sbind (lua_index job ''state'') (\<lambda>state.
         if state \<noteq> Some (JString ''active'') then sret False
         else
         sbind (sread (r_zscore R active job_id)) (\<lambda>indexed.
         if indexed = None then sret False
         else
         let lock = lock_prefix @ job_id in
         sbind (sread (r_get R lock)) (\<lambda>current_token.
         if current_token \<noteq> Some token then sret False
         else
         sbind (swrite (r_set_px R lock token ttl)) (\<lambda>_.
         sbind (swrite (r_srem R stalled job_id)) (\<lambda>_.
         sbind (lua_assign job ''lease_expires_at'' (JString expires)) (\<lambda>job.
         sbind (swrite (r_hset R jobs job_id (cjson_encode lib job))) (\<lambda>_.
         sbind (swrite (r_zadd R active score job_id)) (\<lambda>_.
         sret True))))))))))"

fun renew_each_lease ::
  "(string \<Rightarrow> string \<Rightarrow> ('s, bool) script) \<Rightarrow> nat \<Rightarrow> eval_arg list \<Rightarrow> string list \<Rightarrow> ('s, string list) script" where
  "renew_each_lease f (Suc n) (id' # token # rest) failed =
     sbind (f (arg_text id') (arg_text token)) (\<lambda>ok.
       renew_each_lease f n rest (if ok then failed else failed @ [arg_text id']))"
| "renew_each_lease f (Suc n) _ failed = sraise"
| "renew_each_lease f 0 _ failed = sret failed"

definition renew_leases_script ::
  "'s redis \<Rightarrow> lua_lib \<Rightarrow> string list \<Rightarrow> eval_arg list \<Rightarrow> ('s, string list) script" where
  "renew_leases_script R lib K A =
     (case (K, A) of
        ([jobs, active, stalled], lock_prefix # expires # score # ttl # n # renewals) \<Rightarrow>
          sbind (sget (arg_number lib score)) (\<lambda>score.
          sbind (sget (arg_millis ttl)) (\<lambda>ttl.
          sbind (sget (arg_nat n)) (\<lambda>n.
          renew_each_lease
            (renew_one R lib jobs active stalled (arg_text lock_prefix) (arg_text expires) score ttl)
            n renewals [])))
      | _ \<Rightarrow> sraise)"

section \<open>Leaving the active state\<close>

text \<open>The fields both scripts clear, in their order.\<close>

definition lease_fields :: "(string \<times> json) list" where
  "lease_fields =
     [(''processed_at'', JNull), (''worker_id'', JNull), (''lock_token'', JNull),
      (''lease_expires_at'', JNull), (''deferred_failure'', JNull), (''failed_reason'', JNull)]"

text \<open>The job leaves the active index, its lock and the stalled set.\<close>

definition leave_active ::
  "'s redis \<Rightarrow> string \<Rightarrow> string \<Rightarrow> string \<Rightarrow> job_id \<Rightarrow> ('s, string list) script \<Rightarrow> ('s, string list) script" where
  "leave_active R active lock stalled job_id k =
     sbind (sreply (r_zrem R active job_id)) (\<lambda>removed_from_active.
     if removed_from_active = 0 then sret [''state'', ''active_index_missing'']
     else
     sbind (swrite (r_del R lock)) (\<lambda>_.
     sbind (swrite (r_srem R stalled job_id)) (\<lambda>_. k)))"

text \<open>What follows: the job is delayed until \<open>scheduled\<close>, or waits again behind its priority's bucket.\<close>

definition put_off ::
  "'s redis \<Rightarrow> lua_lib \<Rightarrow> string \<Rightarrow> string \<Rightarrow> string \<Rightarrow> string \<Rightarrow> string \<Rightarrow> job_id \<Rightarrow> string \<Rightarrow> eval_arg \<Rightarrow> string \<Rightarrow>
   eval_arg \<Rightarrow> string \<Rightarrow> json \<Rightarrow> ('s, string list) script" where
  "put_off R lib jobs delayed events waiting marker job_id scheduled_at scheduled delay maxlen repeat_prefix job =
     sbind (assign_all
       ([(''state'', JString ''delayed''), (''scheduled_at'', JString scheduled_at)] @ lease_fields) job) (\<lambda>job.
     sbind (sget (cjson_decode lib delay)) (\<lambda>delay.
     sbind (assign_option job ''delay'' delay) (\<lambda>job.
     let updated = cjson_encode lib job in
     sbind (swrite (r_hset R jobs job_id updated)) (\<lambda>_.
     sbind (sget (arg_number lib scheduled)) (\<lambda>score.
     sbind (swrite (r_zadd R delayed score job_id)) (\<lambda>_.
     sbind (refresh_delay_marker R marker delayed) (\<lambda>_.
     sbind (add_base_marker_if_waiting R marker waiting) (\<lambda>_.
     sbind (sync_repeat_scheduler R lib job job_id repeat_prefix score (arg_text scheduled)) (\<lambda>_.
     sbind (sget (arg_nat maxlen)) (\<lambda>maxlen.
     sbind (swrite (r_xadd R events maxlen
       [(''event'', ''delayed''), (''jobId'', job_id), (''delay'', arg_text scheduled), (''prev'', ''active'')])) (\<lambda>_.
     sret [''ok'', updated])))))))))))"

definition hand_back ::
  "'s redis \<Rightarrow> lua_lib \<Rightarrow> string \<Rightarrow> string \<Rightarrow> string \<Rightarrow> string \<Rightarrow> job_id \<Rightarrow> string \<Rightarrow> eval_arg \<Rightarrow> eval_arg \<Rightarrow>
   eval_arg \<Rightarrow> string \<Rightarrow> json \<Rightarrow> ('s, string list) script" where
  "hand_back R lib jobs waiting events marker job_id scheduled_at scheduled bucket maxlen repeat_prefix job =
     sbind (assign_all
       ([(''state'', JString ''waiting''), (''scheduled_at'', JString scheduled_at)] @ lease_fields) job) (\<lambda>job.
     sbind (priority_of lib job) (\<lambda>priority.
     sbind (sget (arg_number lib bucket)) (\<lambda>bucket.
     sbind (lua_assign job ''enqueued_seq'' (JNumber 0)) (\<lambda>pushed.
     sbind (push_back_waiting_job R lib jobs waiting job job_id priority bucket marker) (\<lambda>updated.
     sbind (sget (arg_number lib scheduled)) (\<lambda>score.
     sbind (sync_repeat_scheduler R lib pushed job_id repeat_prefix score (arg_text scheduled)) (\<lambda>_.
     sbind (sget (arg_nat maxlen)) (\<lambda>maxlen.
     sbind (swrite (r_xadd R events maxlen (waiting_event job_id ''active''))) (\<lambda>_.
     sret [''ok'', updated])))))))))"

definition delay_active_job_script ::
  "'s redis \<Rightarrow> lua_lib \<Rightarrow> string list \<Rightarrow> eval_arg list \<Rightarrow> ('s, string list) script" where
  "delay_active_job_script R lib K A =
     (case (K, A) of
        ([jobs, active, delayed, lock, events, stalled, waiting, marker],
         [id', token, scheduled_at, scheduled, delay, maxlen, repeat_prefix]) \<Rightarrow>
          let job_id = arg_text id' in
          with_job R lib jobs job_id
            (sseq [swrite (snd \<circ> r_zrem R active job_id), swrite (r_del R lock),
                   swrite (r_srem R stalled job_id)]) (\<lambda>job.
          in_state lib ''active'' [] job (swrite (snd \<circ> r_zrem R active job_id)) (
          owns_lock R lock (arg_text token) (
          leave_active R active lock stalled job_id (
          put_off R lib jobs delayed events waiting marker job_id (arg_text scheduled_at) scheduled
            (arg_text delay) maxlen (arg_text repeat_prefix) job))))
      | _ \<Rightarrow> sraise)"

definition release_active_job_script ::
  "'s redis \<Rightarrow> lua_lib \<Rightarrow> string list \<Rightarrow> eval_arg list \<Rightarrow> ('s, string list) script" where
  "release_active_job_script R lib K A =
     (case (K, A) of
        ([jobs, active, waiting, sequence, lock, events, stalled, marker],
         [id', token, scheduled_at, scheduled, bucket, maxlen, repeat_prefix]) \<Rightarrow>
          let job_id = arg_text id' in
          with_job R lib jobs job_id
            (sseq [swrite (snd \<circ> r_zrem R active job_id), swrite (r_del R lock),
                   swrite (r_srem R stalled job_id)]) (\<lambda>job.
          in_state lib ''active'' [] job (swrite (snd \<circ> r_zrem R active job_id)) (
          owns_lock R lock (arg_text token) (
          leave_active R active lock stalled job_id (
          hand_back R lib jobs waiting events marker job_id (arg_text scheduled_at) scheduled bucket
            maxlen (arg_text repeat_prefix) job))))
      | _ \<Rightarrow> sraise)"

section \<open>Delayed and waiting jobs\<close>

definition promote_job_script ::
  "'s redis \<Rightarrow> lua_lib \<Rightarrow> string list \<Rightarrow> eval_arg list \<Rightarrow> ('s, string list) script" where
  "promote_job_script R lib K A =
     (case (K, A) of
        ([jobs, waiting, delayed, sequence, events, marker],
         [id', now, bucket, maxlen, repeat_prefix, now_score]) \<Rightarrow>
          let job_id = arg_text id' in
          with_job R lib jobs job_id (swrite (snd \<circ> r_zrem R delayed job_id)) (\<lambda>job.
          in_state lib ''delayed'' [] job
            (sseq [swrite (snd \<circ> r_zrem R delayed job_id), refresh_delay_marker R marker delayed]) (
          sbind (sreply (r_zrem R delayed job_id)) (\<lambda>removed_from_delayed.
          sbind (refresh_delay_marker R marker delayed) (\<lambda>_.
          if removed_from_delayed = 0 then sret [''state'', ''delayed_index_missing'']
          else
          sbind (assign_all
            [(''state'', JString ''waiting''), (''scheduled_at'', JString (arg_text now))] job) (\<lambda>job.
          sbind (priority_of lib job) (\<lambda>priority.
          sbind (sget (arg_number lib bucket)) (\<lambda>bucket.
          sbind (enqueue_waiting_job R lib jobs waiting sequence job job_id priority bucket marker) (\<lambda>updated.
          sbind (sget (arg_number lib now_score)) (\<lambda>score.
          sbind (sync_repeat_scheduler R lib job job_id (arg_text repeat_prefix) score (arg_text now_score)) (\<lambda>_.
          sbind (sget (arg_nat maxlen)) (\<lambda>maxlen.
          sbind (swrite (r_xadd R events maxlen (waiting_event job_id ''delayed''))) (\<lambda>_.
          sret [''ok'', updated]))))))))))))
      | _ \<Rightarrow> sraise)"

definition reschedule_job_script ::
  "'s redis \<Rightarrow> lua_lib \<Rightarrow> string list \<Rightarrow> eval_arg list \<Rightarrow> ('s, string list) script" where
  "reschedule_job_script R lib K A =
     (case (K, A) of
        ([jobs, delayed, marker, events],
         [id', scheduled_at, scheduled, delay, repeat_prefix, maxlen]) \<Rightarrow>
          let job_id = arg_text id' in
          with_job R lib jobs job_id (swrite (snd \<circ> r_zrem R delayed job_id)) (\<lambda>job.
          in_state lib ''delayed'' ''unknown'' job (swrite (snd \<circ> r_zrem R delayed job_id)) (
          sbind (sreply (r_zrem R delayed job_id)) (\<lambda>removed_from_delayed.
          if removed_from_delayed = 0 then sret [''state'', ''delayed_index_missing'']
          else
          sbind (lua_assign job ''scheduled_at'' (JString (arg_text scheduled_at))) (\<lambda>job.
          sbind (sget (cjson_decode lib (arg_text delay))) (\<lambda>delay.
          sbind (assign_option job ''delay'' delay) (\<lambda>job.
          let updated = cjson_encode lib job in
          sbind (sget (arg_number lib scheduled)) (\<lambda>score.
          sbind (swrite (r_zadd R delayed score job_id)) (\<lambda>_.
          sbind (refresh_delay_marker R marker delayed) (\<lambda>_.
          sbind (swrite (r_hset R jobs job_id updated)) (\<lambda>_.
          sbind (sget (arg_nat maxlen)) (\<lambda>maxlen.
          sbind (swrite (r_xadd R events maxlen
            [(''event'', ''delayed''), (''jobId'', job_id), (''delay'', arg_text scheduled)])) (\<lambda>_.
          sbind (sync_repeat_scheduler R lib job job_id (arg_text repeat_prefix) score (arg_text scheduled)) (\<lambda>_.
          sret [''ok'', updated])))))))))))))
      | _ \<Rightarrow> sraise)"

text \<open>
  The job that waits is enqueued with a new number; the script then stores the text of the job
  again, which is the text the enqueueing stored.
\<close>

definition update_priority_script ::
  "'s redis \<Rightarrow> lua_lib \<Rightarrow> string list \<Rightarrow> eval_arg list \<Rightarrow> ('s, string list) script" where
  "update_priority_script R lib K A =
     (case (K, A) of
        ([jobs, waiting, sequence, marker], [id', priority, bucket, lifo]) \<Rightarrow>
          let job_id = arg_text id' in
          with_job R lib jobs job_id (swrite (snd \<circ> r_zrem R waiting job_id)) (\<lambda>job.
          sbind (lua_index job ''state'') (\<lambda>state.
          sbind (swhen (state \<noteq> Some (JString ''waiting'')) (swrite (snd \<circ> r_zrem R waiting job_id))) (\<lambda>_.
          sbind (sget (arg_number lib priority)) (\<lambda>priority.
          sbind (sget (json_number priority)) (\<lambda>number.
          sbind (lua_assign job ''priority'' number) (\<lambda>job.
          sbind (assign_option job ''priority'' number) (\<lambda>job.
          sbind (if arg_text lifo = ''1'' then assign_option job ''lifo'' (JBool True)
                 else if arg_text lifo = ''0'' then assign_option job ''lifo'' (JBool False)
                 else sret job) (\<lambda>job.
          sbind (if state = Some (JString ''waiting'')
                 then sbind (sget (arg_number lib bucket)) (\<lambda>bucket.
                   enqueue_waiting_job R lib jobs waiting sequence job job_id priority bucket marker)
                 else sret (cjson_encode lib job)) (\<lambda>updated.
          sbind (swrite (r_hset R jobs job_id updated)) (\<lambda>_.
          sret [''ok'', updated]))))))))))
      | _ \<Rightarrow> sraise)"

definition promote_due_jobs_script ::
  "'s redis \<Rightarrow> lua_lib \<Rightarrow> string list \<Rightarrow> eval_arg list \<Rightarrow> ('s, nat) script" where
  "promote_due_jobs_script R lib K A =
     (case (K, A) of
        ([jobs, delayed, waiting, sequence, events, marker], [now, bucket, limit, maxlen, repeat_prefix]) \<Rightarrow>
          sbind (sget (arg_number lib now)) (\<lambda>now.
          sbind (sget (arg_nat limit)) (\<lambda>limit.
          sbind (sget (arg_number lib bucket)) (\<lambda>bucket.
          sbind (sget (arg_nat maxlen)) (\<lambda>maxlen.
          sbind (sread (r_zdue R delayed now limit)) (\<lambda>ids.
          sbind (promote_due_jobs_loop
            (promote_due_job R lib jobs delayed waiting sequence events marker bucket maxlen
               (arg_text repeat_prefix)) ids 0) (\<lambda>promoted.
          sbind (refresh_delay_marker R marker delayed) (\<lambda>_.
          sret promoted)))))))
      | _ \<Rightarrow> sraise)"

section \<open>Limits\<close>

definition rate_limit_ttl ::
  "'s redis \<Rightarrow> lua_lib \<Rightarrow> f64 option \<Rightarrow> string \<Rightarrow> ('s, int) script" where
  "rate_limit_ttl R lib max_jobs rate_limit_key =
     (case max_jobs of
        None \<Rightarrow> sret 0
      | Some m \<Rightarrow>
          sbind (sread (r_get R rate_limit_key)) (\<lambda>raw.
          sbind (sget (lua_tonumber lib (case raw of None \<Rightarrow> ''0'' | Some t \<Rightarrow> t))) (\<lambda>current.
          if f64_ge current m
          then sbind (sread (r_pttl R rate_limit_key)) (\<lambda>ttl.
               sbind (swhen (ttl = 0) (swrite (r_del R rate_limit_key))) (\<lambda>_.
               sret (if ttl > 0 then ttl else 0)))
          else sret 0)))"

text \<open>The two scripts differ in the reply for a queue without any limit.\<close>

definition claim_ttl ::
  "'s redis \<Rightarrow> lua_lib \<Rightarrow> ('s, int) script \<Rightarrow> string list \<Rightarrow> eval_arg list \<Rightarrow> ('s, int) script" where
  "claim_ttl R lib unlimited K A =
     (case (K, A) of
        ([rate_limit_key, meta], [max_jobs]) \<Rightarrow>
          if limits (arg_number lib max_jobs) then rate_limit_ttl R lib (arg_number lib max_jobs) rate_limit_key
          else
          sbind (sread (r_hget R meta ''max'')) (\<lambda>configured_max.
          case configured_max of
            Some t \<Rightarrow> rate_limit_ttl R lib (lua_tonumber lib t) rate_limit_key
          | None \<Rightarrow> unlimited)
      | _ \<Rightarrow> sraise)"

definition claim_rate_limit_ttl_script ::
  "'s redis \<Rightarrow> lua_lib \<Rightarrow> string list \<Rightarrow> eval_arg list \<Rightarrow> ('s, int) script" where
  "claim_rate_limit_ttl_script R lib K A = claim_ttl R lib (sread (r_pttl R (hd K))) K A"

definition active_claim_rate_limit_ttl_script ::
  "'s redis \<Rightarrow> lua_lib \<Rightarrow> string list \<Rightarrow> eval_arg list \<Rightarrow> ('s, int) script" where
  "active_claim_rate_limit_ttl_script R lib K A = claim_ttl R lib (sret 0) K A"

definition is_maxed_script ::
  "'s redis \<Rightarrow> lua_lib \<Rightarrow> string list \<Rightarrow> eval_arg list \<Rightarrow> ('s, int) script" where
  "is_maxed_script R lib K A =
     (case K of
        [meta, active] \<Rightarrow>
          sbind (sread (r_hget R meta ''concurrency'')) (\<lambda>raw.
          let concurrency = lua_tonumber lib (case raw of None \<Rightarrow> ''0'' | Some t \<Rightarrow> t) in
          if \<not> limits concurrency then sret 0
          else
          sbind (sread (r_zcard R active)) (\<lambda>active_count.
          sret (if f64_ge (f64_of_nat active_count) (the concurrency) then 1 else 0)))
      | _ \<Rightarrow> sraise)"

end
