(* ===== verification/Redis_Editing.thy ===== *)
theory Redis_Editing
  imports Redis_Leases
begin

text \<open>
  The scripts of \<open>src/src/job/redis.rs\<close> that edit a job where it is, read the state or the counts of
  the queue, pause and resume it, and keep its deduplication and repeat keys.
\<close>

section \<open>Editing a job in place\<close>

definition update_data_script ::
  "'s redis \<Rightarrow> lua_lib \<Rightarrow> string list \<Rightarrow> eval_arg list \<Rightarrow> ('s, string list) script" where
  "update_data_script R lib K A =
     (case (K, A) of
        ([jobs], [id', payload]) \<Rightarrow>
          let job_id = arg_text id' in
          with_job R lib jobs job_id (sret ()) (\<lambda>job.
          sbind (sget (cjson_decode lib (arg_text payload))) (\<lambda>payload.
          sbind (lua_assign job ''payload'' payload) (\<lambda>job.
          let updated = cjson_encode lib job in
          sbind (swrite (r_hset R jobs job_id updated)) (\<lambda>_.
          sret [''ok'', updated]))))
      | _ \<Rightarrow> sraise)"

definition update_progress_script ::
  "'s redis \<Rightarrow> lua_lib \<Rightarrow> string list \<Rightarrow> eval_arg list \<Rightarrow> ('s, string list) script" where
  "update_progress_script R lib K A =
     (case (K, A) of
        ([jobs, events], [id', progress, maxlen]) \<Rightarrow>
          let job_id = arg_text id' in
          with_job R lib jobs job_id (sret ()) (\<lambda>job.
          sbind (sget (cjson_decode lib (arg_text progress))) (\<lambda>value.
          sbind (lua_assign job ''progress'' value) (\<lambda>job.
          let updated = cjson_encode lib job in
          sbind (swrite (r_hset R jobs job_id updated)) (\<lambda>_.
          sbind (sget (arg_nat maxlen)) (\<lambda>maxlen.
          sbind (swrite (r_xadd R events maxlen
            [(''event'', ''progress''), (''jobId'', job_id), (''data'', arg_text progress)])) (\<lambda>_.
          sret [''ok'', updated]))))))
      | _ \<Rightarrow> sraise)"

definition save_stacktrace_script ::
  "'s redis \<Rightarrow> lua_lib \<Rightarrow> string list \<Rightarrow> eval_arg list \<Rightarrow> ('s, string list) script" where
  "save_stacktrace_script R lib K A =
     (case (K, A) of
        ([jobs], [id', stacktrace, failed_reason]) \<Rightarrow>
          let job_id = arg_text id' in
          with_job R lib jobs job_id (sret ()) (\<lambda>job.
          sbind (sget (cjson_decode lib (arg_text stacktrace))) (\<lambda>stacktrace.
          sbind (assign_all
            [(''stacktrace'', stacktrace), (''failed_reason'', JString (arg_text failed_reason))] job) (\<lambda>job.
          let updated = cjson_encode lib job in
          sbind (swrite (r_hset R jobs job_id updated)) (\<lambda>_.
          sret [''ok'', updated]))))
      | _ \<Rightarrow> sraise)"

text \<open>
  \<open>job["logs"]\<close>, or an empty table when it is missing or no table. The empty table is the array
  without elements, however it was written. The program stores an array; a table with named fields
  is not one and ends the model's script.
\<close>

definition job_logs :: "json \<Rightarrow> ('s, json list) script" where
  "job_logs job =
     sbind (lua_index job ''logs'') (\<lambda>v.
     case v of
       Some (JArray logs) \<Rightarrow> sret logs
     | Some (JObject (_ # _)) \<Rightarrow> sraise
     | _ \<Rightarrow> sret [])"

text \<open>\<open>while #logs > keep do table.remove(logs, 1) end\<close>.\<close>

definition keep_last :: "nat \<Rightarrow> 'a list \<Rightarrow> 'a list" where
  "keep_last n xs = drop (length xs - n) xs"

definition add_log_script ::
  "'s redis \<Rightarrow> lua_lib \<Rightarrow> string list \<Rightarrow> eval_arg list \<Rightarrow> ('s, string list) script" where
  "add_log_script R lib K A =
     (case (K, A) of
        ([jobs, log_list], [id', timestamp, line, keep, entry]) \<Rightarrow>
          let job_id = arg_text id' in
          with_job R lib jobs job_id (sret ()) (\<lambda>job.
          sbind (job_logs job) (\<lambda>logs.
          sbind (sget (arg_nat keep)) (\<lambda>keep.
          let logs = logs @ [JObject [(''timestamp'', JString (arg_text timestamp)),
                                      (''line'', JString (arg_text line))]];
              logs = (if keep > 0 then keep_last keep logs else logs)
          in
          sbind (lua_assign job ''logs'' (JArray logs)) (\<lambda>job.
          let updated = cjson_encode lib job in
          sbind (swrite (r_hset R jobs job_id updated)) (\<lambda>_.
          sbind (swrite (r_rpush R log_list (arg_text entry))) (\<lambda>_.
          sbind (swhen (keep > 0) (swrite (r_ltrim_last R log_list keep))) (\<lambda>_.
          sret [''ok'', updated])))))))
      | _ \<Rightarrow> sraise)"

definition clear_logs_script ::
  "'s redis \<Rightarrow> lua_lib \<Rightarrow> string list \<Rightarrow> eval_arg list \<Rightarrow> ('s, string list) script" where
  "clear_logs_script R lib K A =
     (case (K, A) of
        ([jobs, log_list], [id', keep]) \<Rightarrow>
          let job_id = arg_text id' in
          sbind (sget (arg_nat keep)) (\<lambda>keep.
          sbind (sread (r_hget R jobs job_id)) (\<lambda>raw.
          sbind (case raw of
                   None \<Rightarrow> sret ()
                 | Some text \<Rightarrow>
                     sbind (sget (cjson_decode lib text)) (\<lambda>job.
                     sbind (job_logs job) (\<lambda>logs.
                     sbind (lua_assign job ''logs'' (JArray (keep_last keep logs))) (\<lambda>job.
                     swrite (r_hset R jobs job_id (cjson_encode lib job)))))) (\<lambda>_.
          sbind (swrite (if keep > 0 then r_ltrim_last R log_list keep else r_del R log_list)) (\<lambda>_.
          sbind (sread (r_lrange R log_list 0 (- 1))) (\<lambda>retained.
          sbind (sread (r_llen R log_list)) (\<lambda>len.
          sret (show_nat len # retained)))))))
      | _ \<Rightarrow> sraise)"

section \<open>Reading\<close>

text \<open>The first index that holds the job gives its state.\<close>

fun first_index :: "'s redis \<Rightarrow> (string \<times> string) list \<Rightarrow> job_id \<Rightarrow> ('s, string) script" where
  "first_index R [] job_id = sret ''unknown''"
| "first_index R ((k, name) # rest) job_id =
     sbind (sread (r_zscore R k job_id)) (\<lambda>score.
     if score \<noteq> None then sret name else first_index R rest job_id)"

definition get_job_state_script ::
  "'s redis \<Rightarrow> string list \<Rightarrow> eval_arg list \<Rightarrow> ('s, string) script" where
  "get_job_state_script R K A =
     (case (K, A) of
        ([completed, failed, delayed, active, waiting, waiting_children], [id']) \<Rightarrow>
          first_index R
            [(completed, ''completed''), (failed, ''failed''), (delayed, ''delayed''),
             (active, ''active''), (waiting, ''waiting''), (waiting_children, ''waiting_children'')]
            (arg_text id')
      | _ \<Rightarrow> sraise)"

definition get_job_finished_result_script ::
  "'s redis \<Rightarrow> lua_lib \<Rightarrow> string list \<Rightarrow> eval_arg list \<Rightarrow> ('s, string list) script" where
  "get_job_finished_result_script R lib K A =
     (case (K, A) of
        ([completed, failed, jobs], [id']) \<Rightarrow>
          let job_id = arg_text id' in
          with_job R lib jobs job_id (sret ()) (\<lambda>job.
          sbind (sread (r_zscore R completed job_id)) (\<lambda>score.
          if score \<noteq> None then
            sbind (lua_index job ''return_value'') (\<lambda>return_value.
            sret (if return_value \<noteq> None \<and> return_value \<noteq> Some JNull
                  then [''completed'', cjson_encode lib (the return_value)] else [''completed'']))
          else
          sbind (sread (r_zscore R failed job_id)) (\<lambda>score.
          if score \<noteq> None then
            sbind (lua_index job ''failed_reason'') (\<lambda>failed_reason.
            sret (if \<not> lua_absent failed_reason
                  then [''failed'', reply_or lib [] failed_reason] else [''failed'']))
          else sret [''not_finished''])))
      | _ \<Rightarrow> sraise)"

definition get_metrics_script ::
  "'s redis \<Rightarrow> string list \<Rightarrow> int \<Rightarrow> int \<Rightarrow> ('s, string option list \<times> string list \<times> nat) script" where
  "get_metrics_script R K start stop =
     (case K of
        [meta_hash, data_list] \<Rightarrow>
          sbind (sread (\<lambda>s. map (\<lambda>f. r_hget R meta_hash f s) [''count'', ''prevTS'', ''prevCount''])) (\<lambda>metrics.
          sbind (sread (r_lrange R data_list start stop)) (\<lambda>data.
          sbind (sread (r_llen R data_list)) (\<lambda>num_points.
          sret (metrics, data, num_points))))
      | _ \<Rightarrow> sraise)"

definition stats_script :: "'s redis \<Rightarrow> string list \<Rightarrow> ('s, int list) script" where
  "stats_script R K =
     (case K of
        [meta, k2, k3, k4, k5, k6, k7] \<Rightarrow>
          sbind (sread (r_hget R meta ''paused'')) (\<lambda>paused.
          sbind (swhen (paused = Some ''0'') (swrite (r_hdel R meta ''paused''))) (\<lambda>_.
          sbind (sread (\<lambda>s. map (\<lambda>k. int (r_zcard R k s)) [k2, k3, k4, k5, k6, k7])) (\<lambda>sizes.
          sret (sizes @ [if paused = None \<or> paused = Some ''0'' then 0 else 1]))))
      | _ \<Rightarrow> sraise)"

definition job_counts_script :: "'s redis \<Rightarrow> string list \<Rightarrow> ('s, int list) script" where
  "job_counts_script R K = sread (\<lambda>s. map (\<lambda>k. int (r_zcard R k s)) K)"

definition counts_per_priority_script ::
  "'s redis \<Rightarrow> lua_lib \<Rightarrow> string list \<Rightarrow> eval_arg list \<Rightarrow> ('s, int list) script" where
  "counts_per_priority_script R lib K A =
     (case (K, A) of
        ([waiting], bucket # priorities) \<Rightarrow>
          sbind (sget (arg_number lib bucket)) (\<lambda>bucket.
          sbind (sget (those (map (arg_number lib) priorities))) (\<lambda>priorities.
          sread (\<lambda>s. map (\<lambda>p. case priority_range p bucket of
                                (lo, hi) \<Rightarrow> int (r_zcount R waiting lo hi s)) priorities)))
      | _ \<Rightarrow> sraise)"

section \<open>Pausing\<close>

definition pause_script :: "'s redis \<Rightarrow> string list \<Rightarrow> eval_arg list \<Rightarrow> ('s, int) script" where
  "pause_script R K A =
     (case (K, A) of
        ([meta, events, marker], [event, maxlen]) \<Rightarrow>
          sbind (swrite (r_hset R meta ''paused'' ''1'')) (\<lambda>_.
          sbind (swrite (r_del R marker)) (\<lambda>_.
          sbind (sget (arg_nat maxlen)) (\<lambda>maxlen.
          sbind (swrite (r_xadd R events maxlen [(''event'', arg_text event)])) (\<lambda>_.
          sret 1))))
      | _ \<Rightarrow> sraise)"

definition resume_script :: "'s redis \<Rightarrow> string list \<Rightarrow> eval_arg list \<Rightarrow> ('s, int) script" where
  "resume_script R K A =
     (case (K, A) of
        ([meta, events, waiting, delayed, marker], [event, maxlen]) \<Rightarrow>
          sbind (swrite (r_hdel R meta ''paused'')) (\<lambda>_.
          sbind (sread (r_zcard R waiting)) (\<lambda>n.
          sbind (swhen (n > 0) (swrite (r_zadd R marker (Fin 0) ''0''))) (\<lambda>_.
          sbind (sread (r_zfirst R delayed 1)) (\<lambda>next_delayed.
          sbind (case next_delayed of
                   (_, score) # _ \<Rightarrow> swrite (r_zadd R marker score ''1'')
                 | [] \<Rightarrow> swrite (snd \<circ> r_zrem R marker ''1'')) (\<lambda>_.
          sbind (sget (arg_nat maxlen)) (\<lambda>maxlen.
          sbind (swrite (r_xadd R events maxlen [(''event'', arg_text event)])) (\<lambda>_.
          sret 1)))))))
      | _ \<Rightarrow> sraise)"

section \<open>Deduplication and repeat keys\<close>

text \<open>\<open>DEL\<close> counts the keys it removed; the deduplication key holds a string.\<close>

definition remove_deduplication_key_script :: "'s redis \<Rightarrow> string list \<Rightarrow> ('s, nat) script" where
  "remove_deduplication_key_script R K =
     (case K of
        [owner, next_job] \<Rightarrow>
          sbind (sread (r_get R owner)) (\<lambda>old.
          sbind (swrite (r_del R owner)) (\<lambda>_.
          sbind (swhen (old \<noteq> None) (swrite (r_del R next_job))) (\<lambda>_.
          sret (if old \<noteq> None then 1 else 0))))
      | _ \<Rightarrow> sraise)"

definition get_deduplication_job_id_script ::
  "'s redis \<Rightarrow> lua_lib \<Rightarrow> string list \<Rightarrow> eval_arg list \<Rightarrow> ('s, string option) script" where
  "get_deduplication_job_id_script R lib K A =
     (case (K, A) of
        ([jobs, owner, next_job], [id']) \<Rightarrow>
          let forget = sbind (sseq [swrite (r_del R owner), swrite (r_del R next_job)]) (\<lambda>_. sret None) in
          sbind (sread (r_get R owner)) (\<lambda>job_id.
          case job_id of
            None \<Rightarrow> sret None
          | Some job_id \<Rightarrow>
              sbind (sread (r_hget R jobs job_id)) (\<lambda>raw.
              case raw of
                None \<Rightarrow> forget
              | Some text \<Rightarrow>
                  sbind (sget (cjson_decode lib text)) (\<lambda>job.
                  sbind (lua_index job ''options'') (\<lambda>options.
                  sbind (if lua_absent options then sret None
                         else lua_index (the options) ''deduplication'') (\<lambda>deduplication.
                  sbind (if lua_absent deduplication then sret None
                         else lua_index (the deduplication) ''id'') (\<lambda>owner_id.
                  if lua_absent deduplication \<or> owner_id \<noteq> Some (JString (arg_text id')) then forget
                  else
                  sbind (lua_index job ''state'') (\<lambda>state.
                  if state = Some (JString ''completed'') \<or> state = Some (JString ''failed'')
                  then sbind (sread (r_pttl R owner)) (\<lambda>pttl.
                       if pttl > 0 then sret (Some job_id) else forget)
                  else sret (Some job_id))))))))
      | _ \<Rightarrow> sraise)"

text \<open>The three scripts written where they are called, around a repeat entry.\<close>

definition clear_repeat_owner_script :: "'s redis \<Rightarrow> string list \<Rightarrow> eval_arg list \<Rightarrow> ('s, nat) script" where
  "clear_repeat_owner_script R K A =
     (case (K, A) of
        ([owner, schedulers, meta], [owner_id, repeat_key]) \<Rightarrow>
          sbind (sread (r_get R owner)) (\<lambda>current.
          if current = Some (arg_text owner_id)
          then sbind (sseq [swrite (r_del R owner), swrite (snd \<circ> r_zrem R schedulers (arg_text repeat_key)),
                            swrite (r_del R meta)]) (\<lambda>_. sret 1)
          else sret 0)
      | _ \<Rightarrow> sraise)"

definition clear_repeat_owner_key_script :: "'s redis \<Rightarrow> string list \<Rightarrow> eval_arg list \<Rightarrow> ('s, nat) script" where
  "clear_repeat_owner_key_script R K A =
     (case (K, A) of
        ([owner], [owner_id]) \<Rightarrow>
          sbind (sread (r_get R owner)) (\<lambda>current.
          if current = Some (arg_text owner_id)
          then sbind (swrite (r_del R owner)) (\<lambda>_. sret 1) else sret 0)
      | _ \<Rightarrow> sraise)"

definition clear_repeat_metadata_script :: "'s redis \<Rightarrow> string list \<Rightarrow> eval_arg list \<Rightarrow> ('s, unit) script" where
  "clear_repeat_metadata_script R K A =
     (case (K, A) of
        ([schedulers, meta], [repeat_key]) \<Rightarrow>
          sseq [swrite (snd \<circ> r_zrem R schedulers (arg_text repeat_key)), swrite (r_del R meta)]
      | _ \<Rightarrow> sraise)"

end
