(* ===== verification/Redis_Client.thy ===== *)
theory Redis_Client
  imports Redis_Editing
begin

text \<open>
  The operations of \<open>RedisJobQueue\<close> (\<open>src/src/job/redis.rs\<close>) whose scripts are modelled: which
  script is called with which keys and arguments, and what becomes of the reply. An operation takes
  the state of the server to a result and the state it leaves. Reaching the server is not modelled:
  every call arrives and every reply comes back.
\<close>

record client =
  cl_ext :: externals
  cl_codec :: redis_codec
  cl_lib :: lua_lib
  cl_queue :: redis_queue

definition score_arg :: "client \<Rightarrow> instant \<Rightarrow> eval_arg" where
  "score_arg Z t = (let x = millis (cl_ext Z) t in AFloat (rc_float_text (cl_codec Z) x) x)"

definition time_arg :: "client \<Rightarrow> instant \<Rightarrow> eval_arg" where
  "time_arg Z t = AText (rc_rfc3339 (cl_codec Z) t)"

definition bucket_arg :: "client \<Rightarrow> eval_arg" where
  "bucket_arg Z = AFloat (rc_float_text (cl_codec Z) WAITING_SCORE_BUCKET) WAITING_SCORE_BUCKET"

definition nat_arg :: "nat \<Rightarrow> eval_arg" where
  "nat_arg n = AInt (int n)"

abbreviation key_arg :: "client \<Rightarrow> (redis_queue \<Rightarrow> string) \<Rightarrow> eval_arg" where
  "key_arg Z f \<equiv> AText (f (cl_queue Z))"

abbreviation index_arg :: "client \<Rightarrow> job_state \<Rightarrow> eval_arg" where
  "index_arg Z state \<equiv> AText (state_key (cl_queue Z) state)"

section \<open>Loading\<close>

definition redis_load_job :: "client \<Rightarrow> 's redis \<Rightarrow> job_id \<Rightarrow> 's \<Rightarrow> job option result \<times> 's" where
  "redis_load_job Z R job_id s =
     (case r_hget R (jobs_key (cl_queue Z)) job_id s of
        None \<Rightarrow> (Inr None, s)
      | Some raw \<Rightarrow>
          (and_then (decode_job (cl_codec Z) raw) (\<lambda>job.
             Inr (Some (if j_state job = Active
                        then job\<lparr>j_lock_token := r_get R (lock_key (cl_queue Z) job_id) s\<rparr> else job))), s))"

definition redis_get_job :: "client \<Rightarrow> 's redis \<Rightarrow> job_id \<Rightarrow> 's \<Rightarrow> job option result \<times> 's" where
  "redis_get_job Z R job_id s = redis_load_job Z R job_id s"

definition redis_require_job :: "client \<Rightarrow> 's redis \<Rightarrow> job_id \<Rightarrow> 's \<Rightarrow> job result \<times> 's" where
  "redis_require_job Z R job_id s =
     on_reply (\<lambda>j. case j of None \<Rightarrow> Inl (JobNotFound job_id) | Some job \<Rightarrow> Inr job)
       (redis_load_job Z R job_id s)"

text \<open>The children that are still there, in the order of the parent's list.\<close>

fun load_children ::
  "client \<Rightarrow> 's redis \<Rightarrow> job_id list \<Rightarrow> 's \<Rightarrow> job list result \<times> 's" where
  "load_children Z R [] s = (Inr [], s)"
| "load_children Z R (i # is) s =
     (case redis_load_job Z R i s of
        (Inl e, s) \<Rightarrow> (Inl e, s)
      | (Inr j, s) \<Rightarrow>
          on_reply (\<lambda>rest. Inr (case j of None \<Rightarrow> rest | Some child \<Rightarrow> child # rest)) (load_children Z R is s))"

definition load_flow_for_parent :: "client \<Rightarrow> 's redis \<Rightarrow> job_id \<Rightarrow> 's \<Rightarrow> job_flow result \<times> 's" where
  "load_flow_for_parent Z R parent_id s =
     (case redis_require_job Z R parent_id s of
        (Inl e, s) \<Rightarrow> (Inl e, s)
      | (Inr parent, s) \<Rightarrow>
          on_reply (\<lambda>children. Inr \<lparr>fl_parent = parent, fl_children = children\<rparr>)
            (load_children Z R (j_child_ids parent) s))"

section \<open>Claiming and leases\<close>

definition claim_rate_args :: "client \<Rightarrow> nat \<times> nat" where
  "claim_rate_args Z =
     (case rq_claim_rate_limit (cl_queue Z) of
        Some limit \<Rightarrow> (rl_max_claims limit, max (duration_millis (rl_window limit)) 1)
      | None \<Rightarrow> (0, 0))"

text \<open>\<open>token\<close> is the fresh UUID of the claim.\<close>

definition redis_claim_next ::
  "client \<Rightarrow> 's redis \<Rightarrow> string \<Rightarrow> string \<Rightarrow> duration \<Rightarrow> instant \<Rightarrow> 's \<Rightarrow> job option result \<times> 's" where
  "redis_claim_next Z R token worker_id lease_for now s =
     (let q = cl_queue Z; expires = add_duration (cl_ext Z) now lease_for;
          (rate_max, rate_window) = claim_rate_args Z
      in on_reply (\<lambda>raw. case raw of
             None \<Rightarrow> Inr None
           | Some raw \<Rightarrow> and_then (decode_job (cl_codec Z) raw) (\<lambda>job.
               Inr (Some (job\<lparr>j_lock_token := Some token\<rparr>))))
           (query (cl_codec Z) (eval_script (claim_eval R (cl_lib Z)) 9
              [index_arg Z Waiting, index_arg Z Active, key_arg Z jobs_key, key_arg Z claim_rate_limit_key,
               key_arg Z meta_key, index_arg Z Delayed, key_arg Z sequence_key, key_arg Z events_key,
               key_arg Z marker_key,
               score_arg Z expires, time_arg Z now, AText worker_id, time_arg Z expires, AText token,
               nat_arg (lock_duration_millis lease_for), key_arg Z lock_key_prefix, nat_arg rate_max,
               nat_arg rate_window, score_arg Z now, bucket_arg Z, nat_arg 1000, nat_arg 1000,
               nat_arg DEFAULT_JOB_EVENT_RETENTION, key_arg Z repeat_key_prefix]) s))"

text \<open>
  The call passes the marker as a fifth key but says that there are four: the marker arrives as the
  first argument of the script.
\<close>

definition redis_renew_lease ::
  "client \<Rightarrow> 's redis \<Rightarrow> job_id \<Rightarrow> string \<Rightarrow> duration \<Rightarrow> instant \<Rightarrow> 's \<Rightarrow> job result \<times> 's" where
  "redis_renew_lease Z R job_id token lease_for now s =
     (let q = cl_queue Z; expires = add_duration (cl_ext Z) now lease_for
      in on_reply (\<lambda>reply. and_then (decode_transition_result (cl_codec Z) reply job_id ''renew lease'')
             (\<lambda>job. Inr (job\<lparr>j_lock_token := Some token\<rparr>)))
           (query (cl_codec Z) (eval_script (renew_lease_script R (cl_lib Z)) 4
              [key_arg Z jobs_key, index_arg Z Active, AText (lock_key q job_id), key_arg Z stalled_key,
               key_arg Z marker_key,
               AText job_id, AText token, time_arg Z expires, score_arg Z expires,
               nat_arg (lock_duration_millis lease_for)]) s))"

definition redis_renew_leases ::
  "client \<Rightarrow> 's redis \<Rightarrow> job_lease_renewal list \<Rightarrow> duration \<Rightarrow> instant \<Rightarrow> 's \<Rightarrow> job_id list result \<times> 's" where
  "redis_renew_leases Z R renewals lease_for now s =
     (if renewals = [] then (Inr [], s)
      else let expires = add_duration (cl_ext Z) now lease_for
           in query (cl_codec Z) (eval_script (renew_leases_script R (cl_lib Z)) 3
                ([key_arg Z jobs_key, index_arg Z Active, key_arg Z stalled_key,
                  key_arg Z lock_key_prefix, time_arg Z expires, score_arg Z expires,
                  nat_arg (lock_duration_millis lease_for), nat_arg (length renewals)]
                 @ concat (map (\<lambda>r. [AText (lr_job_id r), AText (lr_lock_token r)]) renewals))) s)"

definition redis_delay_active_job ::
  "client \<Rightarrow> 's redis \<Rightarrow> job_id \<Rightarrow> string \<Rightarrow> duration \<Rightarrow> instant \<Rightarrow> 's \<Rightarrow> job result \<times> 's" where
  "redis_delay_active_job Z R job_id token delay now s =
     (let scheduled_at = add_duration (cl_ext Z) now delay
      in case map_err (\<lambda>e. ''failed to encode Redis job delay: '' @ e) (rc_duration_to_string (cl_codec Z) delay) of
           Inl e \<Rightarrow> (Inl e, s)
         | Inr delay_text \<Rightarrow>
             on_reply (\<lambda>reply. decode_transition_result (cl_codec Z) reply job_id ''delay active'')
               (query (cl_codec Z) (eval_script (delay_active_job_script R (cl_lib Z)) 8
                  [key_arg Z jobs_key, index_arg Z Active, index_arg Z Delayed,
                   AText (lock_key (cl_queue Z) job_id), key_arg Z events_key, key_arg Z stalled_key,
                   index_arg Z Waiting, key_arg Z marker_key,
                   AText job_id, AText token, time_arg Z scheduled_at,
                   AInt (ext_timestamp_millis (cl_ext Z) scheduled_at), AText delay_text,
                   nat_arg DEFAULT_JOB_EVENT_RETENTION, key_arg Z repeat_key_prefix]) s))"

definition redis_release_active_job ::
  "client \<Rightarrow> 's redis \<Rightarrow> job_id \<Rightarrow> string \<Rightarrow> instant \<Rightarrow> 's \<Rightarrow> job result \<times> 's" where
  "redis_release_active_job Z R job_id token now s =
     on_reply (\<lambda>reply. decode_transition_result (cl_codec Z) reply job_id ''release active'')
       (query (cl_codec Z) (eval_script (release_active_job_script R (cl_lib Z)) 8
          [key_arg Z jobs_key, index_arg Z Active, index_arg Z Waiting, key_arg Z sequence_key,
           AText (lock_key (cl_queue Z) job_id), key_arg Z events_key, key_arg Z stalled_key,
           key_arg Z marker_key,
           AText job_id, AText token, time_arg Z now, score_arg Z now, bucket_arg Z,
           nat_arg DEFAULT_JOB_EVENT_RETENTION, key_arg Z repeat_key_prefix]) s)"

section \<open>Delayed and waiting jobs\<close>

definition redis_promote_job :: "client \<Rightarrow> 's redis \<Rightarrow> job_id \<Rightarrow> instant \<Rightarrow> 's \<Rightarrow> job result \<times> 's" where
  "redis_promote_job Z R job_id now s =
     on_reply (\<lambda>reply. decode_transition_result (cl_codec Z) reply job_id ''promote'')
       (query (cl_codec Z) (eval_script (promote_job_script R (cl_lib Z)) 6
          [key_arg Z jobs_key, index_arg Z Waiting, index_arg Z Delayed, key_arg Z sequence_key,
           key_arg Z events_key, key_arg Z marker_key,
           AText job_id, time_arg Z now, bucket_arg Z, nat_arg DEFAULT_JOB_EVENT_RETENTION,
           key_arg Z repeat_key_prefix, score_arg Z now]) s)"

definition redis_reschedule_job ::
  "client \<Rightarrow> 's redis \<Rightarrow> job_id \<Rightarrow> duration \<Rightarrow> instant \<Rightarrow> 's \<Rightarrow> job result \<times> 's" where
  "redis_reschedule_job Z R job_id delay now s =
     (if delay = 0 then (Inl (ConfigError ''job delay must be greater than zero''), s)
      else let scheduled_at = add_duration (cl_ext Z) now delay
      in case map_err (\<lambda>e. ''failed to encode job delay: '' @ e) (rc_duration_to_string (cl_codec Z) delay) of
           Inl e \<Rightarrow> (Inl e, s)
         | Inr delay_text \<Rightarrow>
             on_reply (\<lambda>reply. decode_transition_result (cl_codec Z) reply job_id ''reschedule'')
               (query (cl_codec Z) (eval_script (reschedule_job_script R (cl_lib Z)) 4
                  [key_arg Z jobs_key, index_arg Z Delayed, key_arg Z marker_key, key_arg Z events_key,
                   AText job_id, time_arg Z scheduled_at,
                   AInt (ext_timestamp_millis (cl_ext Z) scheduled_at), AText delay_text,
                   key_arg Z repeat_key_prefix, nat_arg DEFAULT_JOB_EVENT_RETENTION]) s))"

definition update_priority_order ::
  "client \<Rightarrow> 's redis \<Rightarrow> job_id \<Rightarrow> job_priority \<Rightarrow> bool option \<Rightarrow> 's \<Rightarrow> job result \<times> 's" where
  "update_priority_order Z R job_id priority lifo s =
     (case validate_job_priority priority of
        Inl e \<Rightarrow> (Inl e, s)
      | Inr _ \<Rightarrow>
          on_reply (\<lambda>reply. decode_priority_update_result (cl_codec Z) reply job_id)
            (query (cl_codec Z) (eval_script (update_priority_script R (cl_lib Z)) 4
               [key_arg Z jobs_key, index_arg Z Waiting, key_arg Z sequence_key, key_arg Z marker_key,
                AText job_id, nat_arg priority, bucket_arg Z,
                AText (case lifo of Some True \<Rightarrow> ''1'' | Some False \<Rightarrow> ''0'' | None \<Rightarrow> [])]) s))"

definition redis_update_priority ::
  "client \<Rightarrow> 's redis \<Rightarrow> job_id \<Rightarrow> job_priority \<Rightarrow> 's \<Rightarrow> job result \<times> 's" where
  "redis_update_priority Z R job_id priority s = update_priority_order Z R job_id priority None s"

definition redis_update_priority_with_lifo ::
  "client \<Rightarrow> 's redis \<Rightarrow> job_id \<Rightarrow> job_priority \<Rightarrow> bool \<Rightarrow> 's \<Rightarrow> job result \<times> 's" where
  "redis_update_priority_with_lifo Z R job_id priority lifo s =
     update_priority_order Z R job_id priority (Some lifo) s"

text \<open>
  Batches of 1000 until one promotes fewer. \<open>fuel\<close> bounds the batches; \<open>None\<close> stands for a loop that
  needs more.
\<close>

definition promote_batch :: "client \<Rightarrow> 's redis \<Rightarrow> instant \<Rightarrow> 's \<Rightarrow> nat result \<times> 's" where
  "promote_batch Z R now s =
     query (cl_codec Z) (eval_script (promote_due_jobs_script R (cl_lib Z)) 6
       [key_arg Z jobs_key, index_arg Z Delayed, index_arg Z Waiting, key_arg Z sequence_key,
        key_arg Z events_key, key_arg Z marker_key,
        score_arg Z now, bucket_arg Z, nat_arg 1000, nat_arg DEFAULT_JOB_EVENT_RETENTION,
        key_arg Z repeat_key_prefix]) s"

fun promote_batches :: "nat \<Rightarrow> client \<Rightarrow> 's redis \<Rightarrow> instant \<Rightarrow> nat \<Rightarrow> 's \<Rightarrow> (nat result \<times> 's) option" where
  "promote_batches 0 Z R now sofar s = None"
| "promote_batches (Suc fuel) Z R now sofar s =
     (case promote_batch Z R now s of
        (Inl e, s) \<Rightarrow> Some (Inl e, s)
      | (Inr promoted, s) \<Rightarrow>
          if promoted < 1000 then Some (Inr (sofar + promoted), s)
          else promote_batches fuel Z R now (sofar + promoted) s)"

definition redis_promote_due_jobs :: "nat \<Rightarrow> client \<Rightarrow> 's redis \<Rightarrow> instant \<Rightarrow> 's \<Rightarrow> (nat result \<times> 's) option" where
  "redis_promote_due_jobs fuel Z R now s = promote_batches fuel Z R now 0 s"

section \<open>Limits\<close>

definition redis_set_claim_rate_limit :: "client \<Rightarrow> 's redis \<Rightarrow> job_rate_limit \<Rightarrow> 's \<Rightarrow> unit result \<times> 's" where
  "redis_set_claim_rate_limit Z R limit s =
     (let q = cl_queue Z in
      case rate_limit_validate limit of
        Inl e \<Rightarrow> (Inl e, s)
      | Inr _ \<Rightarrow>
          (Inr (), r_hset R (meta_key q) ''duration'' (show_nat (max (duration_millis (rl_window limit)) 1))
             (r_hset R (meta_key q) ''max'' (show_nat (rl_max_claims limit)) s)))"

text \<open>A number of 64 bits as the client reads it; a text that is none is its error.\<close>

definition read_u64 :: "client \<Rightarrow> string option \<Rightarrow> nat option result" where
  "read_u64 Z v =
     (case v of
        None \<Rightarrow> Inr None
      | Some t \<Rightarrow> (case parse_usize t of
                     Inl _ \<Rightarrow> Inl (redis_error (rc_error_text (cl_codec Z)))
                   | Inr n \<Rightarrow> Inr (Some n)))"

definition redis_get_claim_rate_limit :: "client \<Rightarrow> 's redis \<Rightarrow> 's \<Rightarrow> job_rate_limit option result" where
  "redis_get_claim_rate_limit Z R s =
     and_then (read_u64 Z (r_hget R (meta_key (cl_queue Z)) ''max'' s)) (\<lambda>max_claims.
     and_then (read_u64 Z (r_hget R (meta_key (cl_queue Z)) ''duration'' s)) (\<lambda>duration.
     case (max_claims, duration) of
       (Some m, Some d) \<Rightarrow>
         let limit = \<lparr>rl_max_claims = m, rl_window = d * NANOS_PER_MILLI\<rparr>
         in and_then (rate_limit_validate limit) (\<lambda>_. Inr (Some limit))
     | _ \<Rightarrow> Inr None))"

definition redis_get_claim_rate_limit_ttl ::
  "client \<Rightarrow> 's redis \<Rightarrow> nat option \<Rightarrow> 's \<Rightarrow> int result \<times> 's" where
  "redis_get_claim_rate_limit_ttl Z R max_claims s =
     query (cl_codec Z) (eval_script (claim_rate_limit_ttl_script R (cl_lib Z)) 2
       [key_arg Z claim_rate_limit_key, key_arg Z meta_key,
        nat_arg (case max_claims of None \<Rightarrow> 0 | Some m \<Rightarrow> m)]) s"

definition active_claim_rate_limit_ttl :: "client \<Rightarrow> 's redis \<Rightarrow> 's \<Rightarrow> int result \<times> 's" where
  "active_claim_rate_limit_ttl Z R s =
     query (cl_codec Z) (eval_script (active_claim_rate_limit_ttl_script R (cl_lib Z)) 2
       [key_arg Z claim_rate_limit_key, key_arg Z meta_key,
        nat_arg (case rq_claim_rate_limit (cl_queue Z) of None \<Rightarrow> 0 | Some l \<Rightarrow> rl_max_claims l)]) s"

definition rate_limit_claims_for :: "client \<Rightarrow> 's redis \<Rightarrow> duration \<Rightarrow> 's \<Rightarrow> unit result \<times> 's" where
  "rate_limit_claims_for Z R d s =
     (if d = 0 then (Inl (ConfigError ''claim rate-limit duration must be greater than zero''), s)
      else (Inr (), r_set_px R (claim_rate_limit_key (cl_queue Z)) (show_nat u64_max)
                      (max (duration_millis d) 1) s))"

definition clear_claim_rate_limit_key :: "client \<Rightarrow> 's redis \<Rightarrow> 's \<Rightarrow> unit result \<times> 's" where
  "clear_claim_rate_limit_key Z R s = (Inr (), r_del R (claim_rate_limit_key (cl_queue Z)) s)"

definition clear_claim_rate_limit :: "client \<Rightarrow> 's redis \<Rightarrow> 's \<Rightarrow> unit result \<times> 's" where
  "clear_claim_rate_limit Z R s =
     (Inr (), r_hdel R (meta_key (cl_queue Z)) ''duration'' (r_hdel R (meta_key (cl_queue Z)) ''max'' s))"

definition set_max_active_jobs :: "client \<Rightarrow> 's redis \<Rightarrow> nat \<Rightarrow> 's \<Rightarrow> unit result \<times> 's" where
  "set_max_active_jobs Z R n s =
     (if n = 0 then (Inl (ConfigError ''max active jobs must be greater than zero''), s)
      else (Inr (), r_hset R (meta_key (cl_queue Z)) ''concurrency'' (show_nat n) s))"

definition get_max_active_jobs :: "client \<Rightarrow> 's redis \<Rightarrow> 's \<Rightarrow> nat option result" where
  "get_max_active_jobs Z R s = read_u64 Z (r_hget R (meta_key (cl_queue Z)) ''concurrency'' s)"

definition redis_is_maxed :: "client \<Rightarrow> 's redis \<Rightarrow> 's \<Rightarrow> bool result \<times> 's" where
  "redis_is_maxed Z R s =
     on_reply (\<lambda>maxed. Inr (maxed \<noteq> 0))
       (query (cl_codec Z) (eval_script (is_maxed_script R (cl_lib Z)) 2
          [key_arg Z meta_key, index_arg Z Active]) s)"

definition clear_max_active_jobs :: "client \<Rightarrow> 's redis \<Rightarrow> 's \<Rightarrow> unit result \<times> 's" where
  "clear_max_active_jobs Z R s = (Inr (), r_hdel R (meta_key (cl_queue Z)) ''concurrency'' s)"

section \<open>Editing\<close>

definition redis_update_data :: "client \<Rightarrow> 's redis \<Rightarrow> job_id \<Rightarrow> json \<Rightarrow> 's \<Rightarrow> job result \<times> 's" where
  "redis_update_data Z R job_id payload s =
     (case map_err (\<lambda>e. ''failed to encode job payload: '' @ e) (rc_json_to_string (cl_codec Z) payload) of
        Inl e \<Rightarrow> (Inl e, s)
      | Inr text \<Rightarrow>
          on_reply (\<lambda>reply. decode_transition_result (cl_codec Z) reply job_id ''update data'')
            (query (cl_codec Z) (eval_script (update_data_script R (cl_lib Z)) 1
               [key_arg Z jobs_key, AText job_id, AText text]) s))"

definition redis_update_progress :: "client \<Rightarrow> 's redis \<Rightarrow> job_id \<Rightarrow> json \<Rightarrow> 's \<Rightarrow> job result \<times> 's" where
  "redis_update_progress Z R job_id progress s =
     (case map_err (\<lambda>e. ''failed to encode job progress: '' @ e) (rc_json_to_string (cl_codec Z) progress) of
        Inl e \<Rightarrow> (Inl e, s)
      | Inr text \<Rightarrow>
          on_reply (\<lambda>reply. decode_transition_result (cl_codec Z) reply job_id ''update progress'')
            (query (cl_codec Z) (eval_script (update_progress_script R (cl_lib Z)) 2
               [key_arg Z jobs_key, key_arg Z events_key, AText job_id, AText text,
                nat_arg DEFAULT_JOB_EVENT_RETENTION]) s))"

definition redis_save_stacktrace ::
  "client \<Rightarrow> 's redis \<Rightarrow> job_id \<Rightarrow> string list \<Rightarrow> string \<Rightarrow> 's \<Rightarrow> job result \<times> 's" where
  "redis_save_stacktrace Z R job_id stacktrace failed_reason s =
     (case map_err (\<lambda>e. ''failed to encode Redis job stacktrace: '' @ e)
             (rc_json_to_string (cl_codec Z) (JArray (map JString stacktrace))) of
        Inl e \<Rightarrow> (Inl e, s)
      | Inr text \<Rightarrow>
          on_reply (\<lambda>reply. decode_transition_result (cl_codec Z) reply job_id ''save stacktrace'')
            (query (cl_codec Z) (eval_script (save_stacktrace_script R (cl_lib Z)) 1
               [key_arg Z jobs_key, AText job_id, AText text, AText failed_reason]) s))"

definition redis_add_log ::
  "client \<Rightarrow> 's redis \<Rightarrow> job_id \<Rightarrow> string \<Rightarrow> nat \<Rightarrow> instant \<Rightarrow> 's \<Rightarrow> job result \<times> 's" where
  "redis_add_log Z R job_id line keep now s =
     (case map_err (\<lambda>e. ''failed to encode Redis job log entry: '' @ e)
             (rc_log_to_string (cl_codec Z) \<lparr>log_timestamp = now, log_line = line\<rparr>) of
        Inl e \<Rightarrow> (Inl e, s)
      | Inr entry \<Rightarrow>
          on_reply (\<lambda>reply. decode_transition_result (cl_codec Z) reply job_id ''add log'')
            (query (cl_codec Z) (eval_script (add_log_script R (cl_lib Z)) 2
               [key_arg Z jobs_key, AText (logs_key (cl_queue Z) job_id), AText job_id, time_arg Z now,
                AText line, nat_arg keep, AText entry]) s))"

definition redis_get_job_logs ::
  "client \<Rightarrow> 's redis \<Rightarrow> job_id \<Rightarrow> int \<Rightarrow> int \<Rightarrow> bool \<Rightarrow> 's \<Rightarrow> job_log_page result" where
  "redis_get_job_logs Z R job_id start stop ascending s =
     (let k = logs_key (cl_queue Z) job_id;
          (range_start, range_end) =
            (if ascending then (start, stop)
             else (isize_saturating_neg (isize_saturating_add stop 1),
                   isize_saturating_neg (isize_saturating_add start 1)));
          raw_logs = r_lrange R k range_start range_end s;
          raw_logs = (if ascending then raw_logs else rev raw_logs)
      in and_then (decode_log_entries (cl_codec Z) raw_logs) (\<lambda>logs.
           Inr \<lparr>lp_logs = logs, lp_count = r_llen R k s\<rparr>))"

definition redis_clear_job_logs :: "client \<Rightarrow> 's redis \<Rightarrow> job_id \<Rightarrow> nat \<Rightarrow> 's \<Rightarrow> job_log_page result \<times> 's" where
  "redis_clear_job_logs Z R job_id keep s =
     on_reply (\<lambda>reply. decode_clear_logs_result (cl_codec Z) reply job_id)
       (query (cl_codec Z) (eval_script (clear_logs_script R (cl_lib Z)) 2
          [key_arg Z jobs_key, AText (logs_key (cl_queue Z) job_id), AText job_id, nat_arg keep]) s)"

section \<open>Reading\<close>

definition redis_get_job_state :: "client \<Rightarrow> 's redis \<Rightarrow> job_id \<Rightarrow> 's \<Rightarrow> job_state option result \<times> 's" where
  "redis_get_job_state Z R job_id s =
     on_reply decode_job_state
       (query (cl_codec Z) (eval_script (get_job_state_script R) 6
          [index_arg Z Completed, index_arg Z Failed, index_arg Z Delayed, index_arg Z Active,
           index_arg Z Waiting, index_arg Z WaitingChildren, AText job_id]) s)"

definition redis_get_job_finished_result ::
  "client \<Rightarrow> 's redis \<Rightarrow> job_id \<Rightarrow> 's \<Rightarrow> finished_result option result \<times> 's" where
  "redis_get_job_finished_result Z R job_id s =
     on_reply (\<lambda>reply. decode_job_finished_result (cl_codec Z) reply job_id)
       (query (cl_codec Z) (eval_script (get_job_finished_result_script R (cl_lib Z)) 3
          [index_arg Z Completed, index_arg Z Failed, key_arg Z jobs_key, AText job_id]) s)"

definition redis_stats :: "client \<Rightarrow> 's redis \<Rightarrow> 's \<Rightarrow> queue_stats result \<times> 's" where
  "redis_stats Z R s =
     on_reply decode_stats_result
       (query (cl_codec Z) (eval_script (\<lambda>K A. stats_script R K) 7
          [key_arg Z meta_key, index_arg Z Waiting, index_arg Z Delayed, index_arg Z Active,
           index_arg Z WaitingChildren, index_arg Z Completed, index_arg Z Failed]) s)"

definition redis_get_job_counts ::
  "client \<Rightarrow> 's redis \<Rightarrow> job_state list \<Rightarrow> 's \<Rightarrow> job_state_count list result \<times> 's" where
  "redis_get_job_counts Z R states s =
     (let states = unique_states states
      in on_reply (decode_state_counts states)
           (query (cl_codec Z) (eval_script (\<lambda>K A. job_counts_script R K) (length states)
              (map (index_arg Z) states)) s))"

definition redis_get_counts_per_priority ::
  "client \<Rightarrow> 's redis \<Rightarrow> job_priority list \<Rightarrow> 's \<Rightarrow> job_priority_count list result \<times> 's" where
  "redis_get_counts_per_priority Z R priorities s =
     (let priorities = unique_priorities priorities
      in on_reply (decode_priority_counts priorities)
           (query (cl_codec Z) (eval_script (counts_per_priority_script R (cl_lib Z)) 1
              ([index_arg Z Waiting, bucket_arg Z] @ map nat_arg priorities)) s))"

section \<open>Pausing\<close>

definition redis_pause :: "client \<Rightarrow> 's redis \<Rightarrow> 's \<Rightarrow> unit result \<times> 's" where
  "redis_pause Z R s =
     on_reply (\<lambda>_. Inr ())
       (query (cl_codec Z) (eval_script (pause_script R) 3
          [key_arg Z meta_key, key_arg Z events_key, key_arg Z marker_key,
           AText ''paused'', nat_arg DEFAULT_JOB_EVENT_RETENTION]) s)"

definition redis_resume :: "client \<Rightarrow> 's redis \<Rightarrow> 's \<Rightarrow> unit result \<times> 's" where
  "redis_resume Z R s =
     on_reply (\<lambda>_. Inr ())
       (query (cl_codec Z) (eval_script (resume_script R) 5
          [key_arg Z meta_key, key_arg Z events_key, index_arg Z Waiting, index_arg Z Delayed,
           key_arg Z marker_key, AText ''resumed'', nat_arg DEFAULT_JOB_EVENT_RETENTION]) s)"

definition redis_is_paused :: "client \<Rightarrow> 's redis \<Rightarrow> 's \<Rightarrow> bool result \<times> 's" where
  "redis_is_paused Z R s =
     (let paused = r_hget R (meta_key (cl_queue Z)) ''paused'' s
      in if paused = Some ''0'' then (Inr False, r_hdel R (meta_key (cl_queue Z)) ''paused'' s)
         else (Inr (paused \<noteq> None), s))"

section \<open>Deduplication and repeats\<close>

definition redis_remove_deduplication_key :: "client \<Rightarrow> 's redis \<Rightarrow> string \<Rightarrow> 's \<Rightarrow> bool result \<times> 's" where
  "redis_remove_deduplication_key Z R dedup_id s =
     (if dedup_id = [] then (Inr False, s)
      else on_reply (\<lambda>removed. Inr (removed > 0))
        (query (cl_codec Z) (eval_script (\<lambda>K A. remove_deduplication_key_script R K) 2
           [AText (deduplication_key (cl_queue Z) dedup_id),
            AText (deduplication_next_key (cl_queue Z) dedup_id)]) s))"

definition redis_get_deduplication_job_id ::
  "client \<Rightarrow> 's redis \<Rightarrow> string \<Rightarrow> 's \<Rightarrow> job_id option result \<times> 's" where
  "redis_get_deduplication_job_id Z R dedup_id s =
     (if dedup_id = [] then (Inr None, s)
      else query (cl_codec Z) (eval_script (get_deduplication_job_id_script R (cl_lib Z)) 3
        [key_arg Z jobs_key, AText (deduplication_key (cl_queue Z) dedup_id),
         AText (deduplication_next_key (cl_queue Z) dedup_id), AText dedup_id]) s)"

definition clear_repeat_owner_if_stale ::
  "client \<Rightarrow> 's redis \<Rightarrow> string \<Rightarrow> job_id \<Rightarrow> 's \<Rightarrow> unit result \<times> 's" where
  "clear_repeat_owner_if_stale Z R rkey owner_id s =
     on_reply (\<lambda>_. Inr ())
       (query (cl_codec Z) (eval_script (clear_repeat_owner_script R) 3
          [AText (repeat_owner_key (cl_queue Z) rkey), key_arg Z repeat_schedulers_key,
           AText (repeat_scheduler_meta_key (cl_queue Z) rkey), AText owner_id, AText rkey]) s)"

definition clear_repeat_owner_key_if_stale ::
  "client \<Rightarrow> 's redis \<Rightarrow> string \<Rightarrow> job_id \<Rightarrow> 's \<Rightarrow> unit result \<times> 's" where
  "clear_repeat_owner_key_if_stale Z R rkey owner_id s =
     on_reply (\<lambda>_. Inr ())
       (query (cl_codec Z) (eval_script (clear_repeat_owner_key_script R) 1
          [AText (repeat_owner_key (cl_queue Z) rkey), AText owner_id]) s)"

definition clear_repeat_scheduler_metadata :: "client \<Rightarrow> 's redis \<Rightarrow> string \<Rightarrow> 's \<Rightarrow> unit result \<times> 's" where
  "clear_repeat_scheduler_metadata Z R rkey s =
     query (cl_codec Z) (eval_script (clear_repeat_metadata_script R) 2
       [key_arg Z repeat_schedulers_key, AText (repeat_scheduler_meta_key (cl_queue Z) rkey), AText rkey]) s"

text \<open>\<open>SET key value NX\<close>.\<close>

definition restore_repeat_owner_if_missing ::
  "client \<Rightarrow> 's redis \<Rightarrow> string \<Rightarrow> job_id \<Rightarrow> 's \<Rightarrow> unit result \<times> 's" where
  "restore_repeat_owner_if_missing Z R rkey owner_id s =
     (let k = repeat_owner_key (cl_queue Z) rkey
      in (Inr (), if r_get R k s = None then r_set R k owner_id s else s))"

definition load_valid_repeat_entry ::
  "client \<Rightarrow> 's redis \<Rightarrow> string \<Rightarrow> job_id \<Rightarrow> 's \<Rightarrow> repeat_entry option result \<times> 's" where
  "load_valid_repeat_entry Z R rkey owner_id s =
     on_reply (\<lambda>j. Inr (case j of
         None \<Rightarrow> None
       | Some job \<Rightarrow>
           if is_terminal (j_state job) \<or> j_repeat_key job \<noteq> Some rkey then None
           else redis_repeat_entry job))
       (redis_load_job Z R owner_id s)"

text \<open>What is left to do once the owner key gave no entry.\<close>

definition load_scheduler_entry ::
  "client \<Rightarrow> 's redis \<Rightarrow> string \<Rightarrow> job_id option \<Rightarrow> 's \<Rightarrow> repeat_entry option result \<times> 's" where
  "load_scheduler_entry Z R rkey scheduler_owner_id s =
     (let clear = (\<lambda>s. on_reply (\<lambda>_. Inr None) (clear_repeat_scheduler_metadata Z R rkey s))
      in case scheduler_owner_id of
           None \<Rightarrow> clear s
         | Some owner_id \<Rightarrow>
             (case load_valid_repeat_entry Z R rkey owner_id s of
                (Inl e, s) \<Rightarrow> (Inl e, s)
              | (Inr None, s) \<Rightarrow> clear s
              | (Inr (Some entry), s) \<Rightarrow>
                  on_reply (\<lambda>_. Inr (Some entry)) (restore_repeat_owner_if_missing Z R rkey owner_id s)))"

definition load_repeat_entry ::
  "client \<Rightarrow> 's redis \<Rightarrow> string \<Rightarrow> 's \<Rightarrow> repeat_entry option result \<times> 's" where
  "load_repeat_entry Z R rkey s =
     (if rkey = [] then (Inr None, s)
      else
      let owner_id = r_get R (repeat_owner_key (cl_queue Z) rkey) s;
          scheduler_owner_id = r_hget R (repeat_scheduler_meta_key (cl_queue Z) rkey) ''jid'' s
      in case owner_id of
           None \<Rightarrow> load_scheduler_entry Z R rkey scheduler_owner_id s
         | Some owner_id \<Rightarrow>
             (case load_valid_repeat_entry Z R rkey owner_id s of
                (Inl e, s) \<Rightarrow> (Inl e, s)
              | (Inr (Some entry), s) \<Rightarrow> (Inr (Some entry), s)
              | (Inr None, s) \<Rightarrow>
                  if scheduler_owner_id = Some owner_id \<or> scheduler_owner_id = None
                  then on_reply (\<lambda>_. Inr None) (clear_repeat_owner_if_stale Z R rkey owner_id s)
                  else (case clear_repeat_owner_key_if_stale Z R rkey owner_id s of
                          (Inl e, s) \<Rightarrow> (Inl e, s)
                        | (Inr _, s) \<Rightarrow> load_scheduler_entry Z R rkey scheduler_owner_id s)))"

definition redis_get_repeat :: "client \<Rightarrow> 's redis \<Rightarrow> string \<Rightarrow> 's \<Rightarrow> repeat_entry option result \<times> 's" where
  "redis_get_repeat Z R rkey s = load_repeat_entry Z R rkey s"

end
