(* ===== verification/Redis_Frames.thy ===== *)
theory Redis_Frames
  imports Redis_Client
begin

text \<open>
  Which parts of the server's content a script leaves alone. A \<open>cell\<close> is a part that one command
  writes; \<open>agree C\<close> relates two contents that are the same on the cells of \<open>C\<close>. The locale
  \<open>frame_relation\<close> derives, for any reflexive and transitive relation, how scripts built from
  scripts that respect it respect it; \<open>agree C\<close> is its instance, and each shared function of the
  scripts gets one rule with the cells it may write as side conditions.

  Last comes \<open>ref_redis\<close>, a server that is its own content: it meets the laws of \<open>redis_ok\<close>.
\<close>

section \<open>Cells\<close>

datatype cell =
    CString string
  | CHash string string
  | CZset string
  | CSet string
  | CList string
  | CStream string

fun cell_key :: "cell \<Rightarrow> string" where
  "cell_key (CString k) = k"
| "cell_key (CHash k _) = k"
| "cell_key (CZset k) = k"
| "cell_key (CSet k) = k"
| "cell_key (CList k) = k"
| "cell_key (CStream k) = k"

fun same_cell :: "cell \<Rightarrow> keyspace \<Rightarrow> keyspace \<Rightarrow> bool" where
  "same_cell (CString k) u v \<longleftrightarrow> ks_string u k = ks_string v k \<and> ks_ttl u k = ks_ttl v k"
| "same_cell (CHash k f) u v \<longleftrightarrow> ks_hash u k f = ks_hash v k f"
| "same_cell (CZset k) u v \<longleftrightarrow> ks_zset u k = ks_zset v k"
| "same_cell (CSet k) u v \<longleftrightarrow> ks_set u k = ks_set v k"
| "same_cell (CList k) u v \<longleftrightarrow> ks_list u k = ks_list v k"
| "same_cell (CStream k) u v \<longleftrightarrow> ks_stream u k = ks_stream v k"

definition agree :: "cell set \<Rightarrow> keyspace \<Rightarrow> keyspace \<Rightarrow> bool" where
  "agree C u v \<longleftrightarrow> (\<forall>c\<in>C. same_cell c u v)"

lemma agreeD: "agree C u v \<Longrightarrow> c \<in> C \<Longrightarrow> same_cell c u v"
  by (simp add: agree_def)

lemma same_cell_refl [simp]: "same_cell c u u"
  by (cases c) simp_all

lemma same_cell_trans: "same_cell c u v \<Longrightarrow> same_cell c v w \<Longrightarrow> same_cell c u w"
  by (cases c) simp_all

text \<open>Writing a cell changes no other.\<close>

lemma same_cell_put: "c \<noteq> CString k \<Longrightarrow> same_cell c u (ks_put k x t u)"
  by (cases c) (simp_all add: ks_put_def)

lemma same_cell_ttl: "c \<noteq> CString k \<Longrightarrow> same_cell c u (u\<lparr>ks_ttl := (ks_ttl u)(k := t)\<rparr>)"
  by (cases c) simp_all

lemma same_cell_del: "cell_key c \<noteq> k \<Longrightarrow> same_cell c u (ks_del k u)"
  by (cases c) (simp_all add: ks_del_def)

lemma same_cell_hput: "c \<noteq> CHash k f \<Longrightarrow> same_cell c u (ks_hput k f x u)"
  by (cases c) (auto simp: ks_hput_def)

lemma same_cell_zadd: "c \<noteq> CZset k \<Longrightarrow> same_cell c u (ks_zadd k x m u)"
  by (cases c) (simp_all add: ks_zadd_def)

lemma same_cell_zrem: "c \<noteq> CZset k \<Longrightarrow> same_cell c u (ks_zrem k m u)"
  by (cases c) (simp_all add: ks_zrem_def)

lemma same_cell_zset: "c \<noteq> CZset k \<Longrightarrow> same_cell c u (ks_set_zset k z u)"
  by (cases c) (simp_all add: ks_set_zset_def)

lemma same_cell_sadd: "c \<noteq> CSet k \<Longrightarrow> same_cell c u (ks_sadd k m u)"
  by (cases c) (simp_all add: ks_sadd_def)

lemma same_cell_srem: "c \<noteq> CSet k \<Longrightarrow> same_cell c u (ks_srem k m u)"
  by (cases c) (simp_all add: ks_srem_def)

lemma same_cell_list: "c \<noteq> CList k \<Longrightarrow> same_cell c u (ks_set_list k xs u)"
  by (cases c) (simp_all add: ks_set_list_def)

lemma same_cell_xadd: "c \<noteq> CStream k \<Longrightarrow> same_cell c u (ks_xadd k n e u)"
  by (cases c) (simp_all add: ks_xadd_def)

section \<open>Scripts that respect a relation\<close>

definition keeps :: "('s \<Rightarrow> keyspace) \<Rightarrow> (keyspace \<Rightarrow> keyspace \<Rightarrow> bool) \<Rightarrow> ('s, 'a) script \<Rightarrow> bool" where
  "keeps view P m \<longleftrightarrow> (\<forall>s. P (view s) (view (snd (m s))))"

lemma keepsD: "keeps view P m \<Longrightarrow> m s = (r, s') \<Longrightarrow> P (view s) (view s')"
  by (metis keeps_def snd_conv)

lemma sbind_SomeE:
  assumes "sbind m f s = (Some y, s')"
  obtains x s1 where "m s = (Some x, s1)" "f x s1 = (Some y, s')"
  using assms by (auto simp: sbind_def split: prod.splits option.splits)

locale frame_relation =
  fixes P :: "keyspace \<Rightarrow> keyspace \<Rightarrow> bool"
  assumes same: "P u u"
    and chain: "P u v \<Longrightarrow> P v w \<Longrightarrow> P u w"
begin

lemma keeps_pure: "(\<And>s. snd (m s) = s) \<Longrightarrow> keeps view P m"
  by (simp add: keeps_def same)

lemma keeps_ret: "keeps view P (sret x)" "keeps view P sraise" "keeps view P (sread g)"
    "keeps view P (sget v)"
  by (simp_all add: keeps_def script_defs same split: option.splits)

lemma keeps_index: "keeps view P (lua_index j f)" and keeps_assign: "keeps view P (lua_assign j f v)"
  by (rule keeps_pure, cases "(j, f)" rule: lua_index.cases; simp add: script_defs)
     (rule keeps_pure, cases "(j, f, v)" rule: lua_assign.cases; simp add: script_defs)

lemma keeps_bind: "keeps view P m \<Longrightarrow> (\<And>x. keeps view P (f x)) \<Longrightarrow> keeps view P (sbind m f)"
  unfolding keeps_def sbind_def by (auto split: prod.splits option.splits intro: chain) (metis chain snd_conv)+

lemma keeps_write: "(\<And>s. P (view s) (view (u s))) \<Longrightarrow> keeps view P (swrite u)"
  by (simp add: keeps_def script_defs)

lemma keeps_reply: "(\<And>s. P (view s) (view (snd (u s)))) \<Longrightarrow> keeps view P (sreply u)"
  by (simp add: keeps_def script_defs split: prod.splits) (metis snd_conv)

lemma keeps_when: "(b \<Longrightarrow> keeps view P m) \<Longrightarrow> keeps view P (swhen b m)"
  by (simp add: swhen_def keeps_ret)

lemma keeps_seq: "keeps view P (sseq [])"
    "keeps view P m \<Longrightarrow> keeps view P (sseq ms) \<Longrightarrow> keeps view P (sseq (m # ms))"
  by (auto intro: keeps_ret keeps_bind)

lemma keeps_if: "(b \<Longrightarrow> keeps view P m) \<Longrightarrow> (\<not> b \<Longrightarrow> keeps view P n) \<Longrightarrow> keeps view P (if b then m else n)"
  by simp

lemma keeps_option: "(v = None \<Longrightarrow> keeps view P m) \<Longrightarrow> (\<And>x. v = Some x \<Longrightarrow> keeps view P (f x)) \<Longrightarrow>
    keeps view P (case v of None \<Rightarrow> m | Some x \<Rightarrow> f x)"
  by (cases v) simp_all

lemma keeps_list: "(v = [] \<Longrightarrow> keeps view P m) \<Longrightarrow> (\<And>x xs. v = x # xs \<Longrightarrow> keeps view P (f x xs)) \<Longrightarrow>
    keeps view P (case v of [] \<Rightarrow> m | x # xs \<Rightarrow> f x xs)"
  by (cases v) simp_all

lemma keeps_prod: "(\<And>x y. v = (x, y) \<Longrightarrow> keeps view P (f x y)) \<Longrightarrow> keeps view P (case v of (x, y) \<Rightarrow> f x y)"
  by (cases v) simp

lemma keeps_let: "(\<And>x. x = v \<Longrightarrow> keeps view P (f x)) \<Longrightarrow> keeps view P (let x = v in f x)"
  by simp

lemma keeps_assign_all: "keeps view P (assign_all fvs job)"
proof -
  have "keeps view P (fold (\<lambda>(f, v) m. sbind m (\<lambda>j. lua_assign j f v)) fvs m)" if "keeps view P m"
    for m :: "('a, json) script"
    using that
  proof (induction fvs arbitrary: m)
    case (Cons fv fvs)
    have "keeps view P (sbind m (\<lambda>j. lua_assign j (fst fv) (snd fv)))"
      by (intro keeps_bind keeps_assign Cons.prems)
    from Cons.IH [OF this] show ?case by (simp add: case_prod_unfold)
  qed simp
  then show ?thesis by (simp add: assign_all_def keeps_ret)
qed

lemmas keeps_rules = keeps_ret keeps_index keeps_assign keeps_bind keeps_when keeps_if keeps_option
  keeps_list keeps_prod keeps_let keeps_seq keeps_assign_all

end

interpretation agreeing: frame_relation "agree C" for C
  by unfold_locales (auto simp: agree_def intro: same_cell_trans)

section \<open>The footprints of the commands\<close>

lemma keeps_commands:
  assumes ok: "redis_ok R view"
  shows "CString k \<notin> C \<Longrightarrow> keeps view (agree C) (swrite (r_set R k x))"
    and "CString k \<notin> C \<Longrightarrow> keeps view (agree C) (swrite (r_set_px R k x n))"
    and "CString k \<notin> C \<Longrightarrow> keeps view (agree C) (swrite (r_pexpire R k n))"
    and "k \<notin> cell_key ` C \<Longrightarrow> keeps view (agree C) (swrite (r_del R k))"
    and "CHash k f \<notin> C \<Longrightarrow> keeps view (agree C) (swrite (r_hset R k f x))"
    and "CHash k f \<notin> C \<Longrightarrow> keeps view (agree C) (swrite (r_hdel R k f))"
    and "CZset k \<notin> C \<Longrightarrow> keeps view (agree C) (swrite (r_zadd R k d m))"
    and "CZset k \<notin> C \<Longrightarrow> keeps view (agree C) (swrite (snd \<circ> r_zrem R k m))"
    and "CZset k \<notin> C \<Longrightarrow> keeps view (agree C) (sreply (r_zrem R k m))"
    and "CSet k \<notin> C \<Longrightarrow> keeps view (agree C) (swrite (r_sadd R k m))"
    and "CSet k \<notin> C \<Longrightarrow> keeps view (agree C) (swrite (r_srem R k m))"
    and "CStream k \<notin> C \<Longrightarrow> keeps view (agree C) (swrite (r_xadd R k n e))"
    and "CZset k \<notin> C \<Longrightarrow> keeps view (agree C) (swrite (r_zremdue R k x'))"
    and "CZset k \<notin> C \<Longrightarrow> keeps view (agree C) (swrite (r_zkeep R k n))"
    and "CList k \<notin> C \<Longrightarrow> keeps view (agree C) (swrite (r_lpush R k vs))"
    and "CList k \<notin> C \<Longrightarrow> 0 < n \<Longrightarrow> keeps view (agree C) (swrite (r_ltrim_first R k n))"
    and "CString k \<notin> C \<Longrightarrow> keeps view (agree C) (swrite (r_set_keep R k x))"
    and "CString k \<notin> C \<Longrightarrow> keeps view (agree C) (swrite (r_persist R k))"
  by (rule agreeing.keeps_write agreeing.keeps_reply;
      auto simp: agree_def redis_writes [OF ok]
           intro!: same_cell_put same_cell_ttl same_cell_del same_cell_hput same_cell_zadd
             same_cell_zrem same_cell_sadd same_cell_srem same_cell_xadd same_cell_zset same_cell_list)+

text \<open>\<open>INCR\<close> writes its key, or raises.\<close>

lemma keeps_incr:
  assumes ok: "redis_ok R view" and "CString k \<notin> C"
  shows "keeps view (agree C) (sreply (r_incr R k))"
proof (rule agreeing.keeps_reply)
  fix s
  have "incr_ok R view" using ok unfolding redis_ok_def by (elim conjE)
  then have law: "ks_string (view s) k = None \<Longrightarrow> view (snd (r_incr R k s)) = ks_put k (show_int 1) None (view s)"
    "\<And>i. ks_string (view s) k = Some (show_int i) \<Longrightarrow> i64_min \<le> i \<Longrightarrow> i < i64_max \<Longrightarrow>
       view (snd (r_incr R k s)) = ks_put k (show_int (i + 1)) (ks_ttl (view s) k) (view s)"
    "\<And>v. ks_string (view s) k = Some v \<Longrightarrow> \<forall>i. i64_min \<le> i \<and> i < i64_max \<longrightarrow> v \<noteq> show_int i \<Longrightarrow>
       view (snd (r_incr R k s)) = view s"
    unfolding incr_ok_def by blast+
  consider "ks_string (view s) k = None"
    | i where "ks_string (view s) k = Some (show_int i)" "i64_min \<le> i" "i < i64_max"
    | v where "ks_string (view s) k = Some v" "\<forall>i. i64_min \<le> i \<and> i < i64_max \<longrightarrow> v \<noteq> show_int i"
    by (cases "ks_string (view s) k") auto
  then show "agree C (view s) (view (snd (r_incr R k s)))"
    using assms(2) by cases (auto simp: law agree_def intro!: same_cell_put)
qed

text \<open>\<open>SPOP\<close> writes its set.\<close>

lemma keeps_spop:
  assumes ok: "redis_ok R view" and "CSet k \<notin> C"
  shows "keeps view (agree C) (sreply (r_spop R k n))"
proof (rule agreeing.keeps_reply)
  have "agree C u (fold (ks_srem k) ms u)" for ms and u :: keyspace
  proof (induction ms arbitrary: u)
    case (Cons m ms)
    have "agree C u (ks_srem k m u)" using assms(2) by (auto simp: agree_def intro!: same_cell_srem)
    with Cons [of "ks_srem k m u"] show ?case by (auto intro: agreeing.chain)
  qed (simp add: agreeing.same)
  then show "agree C (view s) (view (snd (r_spop R k n s)))" for s by (simp add: redis_spop [OF ok])
qed

text \<open>\<open>HINCRBY\<close> writes its field, or raises.\<close>

lemma keeps_hincr:
  assumes ok: "redis_ok R view" and "CHash k f \<notin> C"
  shows "keeps view (agree C) (sreply (r_hincr R k f))"
proof (rule agreeing.keeps_reply)
  fix s
  have "hincr_ok R view" using ok unfolding redis_ok_def by (elim conjE)
  then have law: "ks_hash (view s) k f = None \<Longrightarrow> view (snd (r_hincr R k f s)) = ks_hput k f (Some (show_int 1)) (view s)"
    "\<And>i. ks_hash (view s) k f = Some (show_int i) \<Longrightarrow> i64_min \<le> i \<Longrightarrow> i < i64_max \<Longrightarrow>
       view (snd (r_hincr R k f s)) = ks_hput k f (Some (show_int (i + 1))) (view s)"
    "\<And>v. ks_hash (view s) k f = Some v \<Longrightarrow> \<forall>i. i64_min \<le> i \<and> i < i64_max \<longrightarrow> v \<noteq> show_int i \<Longrightarrow>
       view (snd (r_hincr R k f s)) = view s"
    unfolding hincr_ok_def by blast+
  consider "ks_hash (view s) k f = None"
    | i where "ks_hash (view s) k f = Some (show_int i)" "i64_min \<le> i" "i < i64_max"
    | v where "ks_hash (view s) k f = Some v" "\<forall>i. i64_min \<le> i \<and> i < i64_max \<longrightarrow> v \<noteq> show_int i"
    by (cases "ks_hash (view s) k f") auto
  then show "agree C (view s) (view (snd (r_hincr R k f s)))"
    using assms(2) by cases (auto simp: law agree_def intro!: same_cell_hput)
qed

section \<open>The footprints of the shared functions\<close>

text \<open>No cell of \<open>C\<close> belongs to the repeat series under a prefix.\<close>

definition off_repeat :: "string \<Rightarrow> cell set \<Rightarrow> bool" where
  "off_repeat p C \<longleftrightarrow>
     (\<forall>c\<in>C. cell_key c \<noteq> lua_repeat_scheduler_key p \<and>
        (\<forall>x. cell_key c \<noteq> p @ x \<and> cell_key c \<noteq> lua_repeat_scheduler_meta_key p x))"

lemma off_repeat_notin:
  assumes "off_repeat p C"
  shows "CString (p @ x) \<notin> C" "CZset (lua_repeat_scheduler_key p) \<notin> C"
    "CHash (lua_repeat_scheduler_meta_key p x) f \<notin> C" "lua_repeat_scheduler_meta_key p x \<notin> cell_key ` C"
  using assms unfolding off_repeat_def image_iff by (metis cell_key.simps)+

lemma keeps_store_present:
  assumes "redis_ok R view" "\<And>f. CHash meta f \<notin> C"
  shows "keeps view (agree C) (store_present R lib meta options src field)"
  unfolding store_present_def
  by (intro agreeing.keeps_rules keeps_commands [OF assms(1)] assms(2))

lemma keeps_store_repeat_options:
  assumes "redis_ok R view" "\<And>f. CHash meta f \<notin> C"
  shows "keeps view (agree C) (store_repeat_options R lib meta options)"
proof -
  have n: "keeps view (agree C) (first_number lib i a b)" for i a b
    unfolding first_number_def by (intro agreeing.keeps_rules)
  have "keeps view (agree C) (interval_millis lib i)" for i
    unfolding interval_millis_def by (cases i; simp) (intro agreeing.keeps_rules n)+
  then show ?thesis
    unfolding store_repeat_options_def
    by (intro agreeing.keeps_rules keeps_store_present [OF assms] keeps_commands [OF assms(1)] assms(2))
qed

lemma keeps_sync_repeat_scheduler:
  assumes ok: "redis_ok R view" and off: "off_repeat p C"
  shows "keeps view (agree C) (sync_repeat_scheduler R lib job job_id p scheduled text)"
proof -
  have k: "keeps view (agree C) (lua_repeat_key job)"
    unfolding lua_repeat_key_def by (intro agreeing.keeps_rules)
  show ?thesis
    unfolding sync_repeat_scheduler_def text_or_def Let_def
    by (intro agreeing.keeps_rules k keeps_store_repeat_options [OF ok] keeps_commands [OF ok]
        off_repeat_notin [OF off])
qed

section \<open>A server that is its content\<close>

definition read_int :: "string \<Rightarrow> int" where
  "read_int t = (if t \<noteq> [] \<and> hd t = CHR ''-'' then - int (digits_value (tl t)) else int (digits_value t))"

definition ref_incr :: "string \<Rightarrow> keyspace \<Rightarrow> int option \<times> keyspace" where
  "ref_incr k s =
     (case ks_string s k of
        None \<Rightarrow> (Some 1, ks_put k (show_int 1) None s)
      | Some t \<Rightarrow>
          (let i = read_int t
           in if show_int i = t \<and> i64_min \<le> i \<and> i < i64_max
              then (Some (i + 1), ks_put k (show_int (i + 1)) (ks_ttl s k) s) else (None, s)))"

definition ref_hincr :: "string \<Rightarrow> string \<Rightarrow> keyspace \<Rightarrow> int option \<times> keyspace" where
  "ref_hincr k f s =
     (case ks_hash s k f of
        None \<Rightarrow> (Some 1, ks_hput k f (Some (show_int 1)) s)
      | Some t \<Rightarrow>
          (let i = read_int t
           in if show_int i = t \<and> i64_min \<le> i \<and> i < i64_max
              then (Some (i + 1), ks_hput k f (Some (show_int (i + 1))) s) else (None, s)))"

definition ref_redis :: "keyspace redis" where
  "ref_redis =
     \<lparr>r_get = (\<lambda>k s. ks_string s k),
      r_set = (\<lambda>k v. ks_put k v None),
      r_set_px = (\<lambda>k v n. ks_put k v (Some n)),
      r_del = ks_del,
      r_incr = ref_incr,
      r_pttl = (\<lambda>k s. if ks_string s k = None then - 2
                       else case ks_ttl s k of None \<Rightarrow> - 1 | Some n \<Rightarrow> int n),
      r_pexpire = (\<lambda>k n s. if ks_string s k = None then s else s\<lparr>ks_ttl := (ks_ttl s)(k := Some n)\<rparr>),
      r_hget = (\<lambda>k f s. ks_hash s k f),
      r_hset = (\<lambda>k f v. ks_hput k f (Some v)),
      r_hdel = (\<lambda>k f. ks_hput k f None),
      r_zadd = ks_zadd,
      r_zrem = (\<lambda>k m s. (if map_of (ks_zset s k) m = None then 0 else 1, ks_zrem k m s)),
      r_zscore = (\<lambda>k m s. map_of (ks_zset s k) m),
      r_zcard = (\<lambda>k s. length (ks_zset s k)),
      r_zfirst = (\<lambda>k n s. take n (ks_zset s k)),
      r_zdue = (\<lambda>k x n s. take n (map fst (filter (\<lambda>e. snd e \<le> x) (ks_zset s k)))),
      r_zcount = (\<lambda>k x y s. length (filter (\<lambda>e. x \<le> snd e \<and> snd e \<le> y) (ks_zset s k))),
      r_sadd = ks_sadd,
      r_srem = ks_srem,
      r_rpush = (\<lambda>k v s. ks_set_list k (ks_list s k @ [v]) s),
      r_ltrim_last = (\<lambda>k n s. ks_set_list k (drop (length (ks_list s k) - n) (ks_list s k)) s),
      r_lrange = (\<lambda>k i j s. redis_range (ks_list s k) i j),
      r_llen = (\<lambda>k s. length (ks_list s k)),
      r_xadd = (\<lambda>k n e s. ks_xadd k (Suc (length (ks_stream s k)) - n) e s),
      r_xtrim = (\<lambda>k n s. Suc (length (ks_stream s k)) - n),
      r_sismember = (\<lambda>k m s. m \<in> set (ks_set s k)),
      r_scard = (\<lambda>k s. length (ks_set s k)),
      r_hincr = ref_hincr,
      r_zrevdue = (\<lambda>k x n s. take n (rev (map fst (filter (\<lambda>e. snd e \<le> x) (ks_zset s k))))),
      r_zremdue = (\<lambda>k x s. ks_set_zset k (filter (\<lambda>e. \<not> snd e \<le> x) (ks_zset s k)) s),
      r_zrevfrom = (\<lambda>k n s. drop n (rev (map fst (ks_zset s k)))),
      r_zkeep = (\<lambda>k n s. ks_set_zset k (drop (length (ks_zset s k) - n) (ks_zset s k)) s),
      r_lpush = (\<lambda>k vs s. ks_set_list k (rev vs @ ks_list s k) s),
      r_ltrim_first = (\<lambda>k n s. ks_set_list k (take n (ks_list s k)) s),
      r_set_keep = (\<lambda>k v s. ks_put k v (ks_ttl s k) s),
      r_persist = (\<lambda>k s. s\<lparr>ks_ttl := (ks_ttl s)(k := None)\<rparr>),
      r_spop = (\<lambda>k n s. let taken = remdups (take n (ks_set s k)) in (taken, fold (ks_srem k) taken s))\<rparr>"

lemma read_show_int: "read_int (show_int i) = i"
proof (cases "i < 0")
  case False
  have "hd (show_nat (nat i)) \<noteq> CHR ''-''"
    using show_nat_no_sign [of "nat i"] show_nat_nonempty [of "nat i"] by (cases "show_nat (nat i)") auto
  with False show ?thesis by (simp add: read_int_def show_int_def digits_value_show_nat)
qed (simp add: read_int_def show_int_def digits_value_show_nat)

lemma ref_incr_show:
  "ks_string s k = Some (show_int i) \<Longrightarrow> i64_min \<le> i \<Longrightarrow> i < i64_max \<Longrightarrow>
   ref_incr k s = (Some (i + 1), ks_put k (show_int (i + 1)) (ks_ttl s k) s)"
  by (simp add: ref_incr_def read_show_int)

lemma ref_hincr_show:
  "ks_hash s k f = Some (show_int i) \<Longrightarrow> i64_min \<le> i \<Longrightarrow> i < i64_max \<Longrightarrow>
   ref_hincr k f s = (Some (i + 1), ks_hput k f (Some (show_int (i + 1))) s)"
  by (simp add: ref_hincr_def read_show_int)

lemma ref_redis_ok: "redis_ok ref_redis (\<lambda>s. s)"
  unfolding redis_ok_def
proof (intro conjI)
  show "reads_ok ref_redis (\<lambda>s. s)" by (simp add: reads_ok_def ref_redis_def)
  show "writes_ok ref_redis (\<lambda>s. s)" by (simp add: writes_ok_def ref_redis_def)
  have "r_incr ref_redis = ref_incr" by (simp add: ref_redis_def)
  moreover have "ref_incr k s = (None, s)"
    if "ks_string s k = Some v" "\<And>i. i64_min \<le> i \<Longrightarrow> i < i64_max \<Longrightarrow> v \<noteq> show_int i" for k s v
    using that(1) that(2) [of "read_int v"] by (auto simp: ref_incr_def Let_def)
  ultimately show "incr_ok ref_redis (\<lambda>s. s)"
    by (auto simp: incr_ok_def ref_incr_show) (simp_all add: ref_incr_def)
  have "r_hincr ref_redis = ref_hincr" by (simp add: ref_redis_def)
  moreover have "ref_hincr k f s = (None, s)"
    if "ks_hash s k f = Some v" "\<And>i. i64_min \<le> i \<Longrightarrow> i < i64_max \<Longrightarrow> v \<noteq> show_int i" for k f s v
    using that(1) that(2) [of "read_int v"] by (auto simp: ref_hincr_def Let_def)
  ultimately show "hincr_ok ref_redis (\<lambda>s. s)"
    by (auto simp: hincr_ok_def ref_hincr_show) (simp_all add: ref_hincr_def)
  show "spop_ok ref_redis (\<lambda>s. s)" by (auto simp: spop_ok_def ref_redis_def Let_def dest: in_set_takeD)
qed

end
