(* ===== verification/Redis_Safety.thy ===== *)
theory Redis_Safety
  imports Redis_Frames
begin

text \<open>
  What the Redis backend guarantees about leases: a claim takes a waiting or due job and leaves it
  active under a lock that holds the claim's token; a paused or full queue hands out nothing; an
  operation on a lease without its token is refused and changes nothing. And what it does not:
  \<open>renew_lease\<close> never renews.
\<close>

section \<open>The state of a stored job\<close>

definition stored_state :: "lua_lib \<Rightarrow> keyspace \<Rightarrow> string \<Rightarrow> job_id \<Rightarrow> json option" where
  "stored_state lib v jobs job_id =
     (case ks_hash v jobs job_id of
        None \<Rightarrow> None
      | Some text \<Rightarrow> (case cjson_decode lib text of Some (JObject kvs) \<Rightarrow> map_of kvs ''state'' | _ \<Rightarrow> None))"

text \<open>The stored job changes only if it was delayed.\<close>

definition unless_delayed :: "lua_lib \<Rightarrow> string \<Rightarrow> job_id \<Rightarrow> keyspace \<Rightarrow> keyspace \<Rightarrow> bool" where
  "unless_delayed lib jobs job_id u v \<longleftrightarrow>
     ks_hash u jobs job_id = ks_hash v jobs job_id \<or>
     stored_state lib u jobs job_id = Some (JString ''delayed'')"

interpretation undelayed: frame_relation "unless_delayed lib jobs job_id" for lib jobs job_id
  by unfold_locales (auto simp: unless_delayed_def stored_state_def)

lemma keeps_mono: "keeps view P m \<Longrightarrow> (\<And>u v. P u v \<Longrightarrow> Q u v) \<Longrightarrow> keeps view Q m"
  by (simp add: keeps_def)

lemma agree_unless_delayed: "agree C u v \<Longrightarrow> CHash jobs job_id \<in> C \<Longrightarrow> unless_delayed lib jobs job_id u v"
  using agreeD [of C u v "CHash jobs job_id"] by (simp add: unless_delayed_def)

lemma keeps_unless_delayed:
  "keeps view (agree {CHash jobs job_id}) m \<Longrightarrow> keeps view (unless_delayed lib jobs job_id) m"
  by (erule keeps_mono) (simp add: agree_unless_delayed)

text \<open>A job whose state reads as a text is an object.\<close>

lemma lua_index_Some:
  "lua_index j f s = (Some (Some v), s') \<longleftrightarrow> (\<exists>kvs. j = JObject kvs \<and> map_of kvs f = Some v) \<and> s' = s"
  by (cases "(j, f)" rule: lua_index.cases) (auto simp: script_defs)

lemma lua_index_same: "snd (lua_index j f s) = s"
  by (cases "(j, f)" rule: lua_index.cases) (auto simp: script_defs)

lemma lua_assign_same: "snd (lua_assign j f v s) = s"
  by (cases "(j, f, v)" rule: lua_assign.cases) (auto simp: script_defs)

lemma sbind_same:
  "(\<And>s. snd (m s) = s) \<Longrightarrow> (\<And>x s. snd (f x s) = s) \<Longrightarrow> snd (sbind m f s) = s"
  by (simp add: sbind_def split: prod.splits option.splits) (metis snd_conv)

lemma assign_all_same: "snd (assign_all fvs job s) = s"
proof -
  have "snd (fold (\<lambda>(f, v) m. sbind m (\<lambda>j. lua_assign j f v)) fvs m s) = s" if "\<And>s. snd (m s) = s"
    for m :: "('a, json) script" and s
    using that
  proof (induction fvs arbitrary: m)
    case (Cons fv fvs)
    have "snd (sbind m (\<lambda>j. lua_assign j (fst fv) (snd fv)) s) = s" for s
      by (intro sbind_same lua_assign_same Cons.prems)
    from Cons.IH [OF this] show ?case by (simp add: case_prod_unfold)
  qed simp
  then show ?thesis by (simp add: assign_all_def script_run)
qed

lemma claimed_job_same: "snd (claimed_job lib A job s) = s"
proof -
  have g: "snd (sget v s) = s" for v :: "'b option" and s :: 'c
    by (simp add: script_defs split: option.splits)
  show ?thesis unfolding claimed_job_def by (intro sbind_same lua_index_same g assign_all_same)
qed

section \<open>More footprints\<close>

lemma keeps_enqueue:
  assumes ok: "redis_ok R view"
    and "CString sequence \<notin> C" "CHash jobs job_id \<notin> C" "CZset waiting \<notin> C" "CZset marker \<notin> C"
  shows "keeps view (agree C) (enqueue_waiting_job R lib jobs waiting sequence job job_id priority bucket marker)"
proof -
  have l: "keeps view (agree C) (is_lifo job)" for job :: json
    unfolding is_lifo_def by (intro agreeing.keeps_rules)
  show ?thesis
    unfolding enqueue_waiting_job_def Let_def
    by (intro agreeing.keeps_rules l keeps_incr [OF ok] keeps_commands [OF ok] assms)
qed

lemma keeps_refresh: "redis_ok R view \<Longrightarrow> CZset marker \<notin> C \<Longrightarrow> keeps view (agree C) (refresh_delay_marker R marker delayed)"
  unfolding refresh_delay_marker_def by (intro agreeing.keeps_rules keeps_commands)

lemma keeps_priority: "keeps view (agree C) (priority_of lib job)"
  unfolding priority_of_def by (intro agreeing.keeps_rules)

lemma keeps_promote_due_job:
  assumes ok: "redis_ok R view"
    and "CZset delayed \<notin> C" "CString sequence \<notin> C" "CHash jobs due_id \<notin> C" "CZset waiting \<notin> C"
    "CZset marker \<notin> C" "CStream events \<notin> C" "off_repeat p C"
  shows "keeps view (agree C)
    (promote_due_job R lib jobs delayed waiting sequence events marker bucket maxlen p due_id)"
  unfolding promote_due_job_def Let_def
  by (intro agreeing.keeps_rules keeps_enqueue [OF ok] keeps_priority keeps_sync_repeat_scheduler [OF ok]
      keeps_commands [OF ok] assms)

text \<open>A due job is rewritten only if it was delayed.\<close>

lemma promote_due_job_unless_delayed:
  assumes ok: "redis_ok R view"
    and off: "off_repeat p {CHash jobs job_id}"
  shows "keeps view (unless_delayed lib jobs job_id)
    (promote_due_job R lib jobs delayed waiting sequence events marker bucket maxlen p due_id)"
    (is "keeps view _ ?m")
proof (cases "job_id = due_id")
  case False
  then show ?thesis
    by (intro keeps_unless_delayed keeps_promote_due_job [OF ok] off) auto
next
  case True
  have "unless_delayed lib jobs job_id (view s) (view (snd (?m s)))" for s
  proof (cases "stored_state lib (view s) jobs job_id = Some (JString ''delayed'')")
    case True
    then show ?thesis by (simp add: unless_delayed_def)
  next
    case False
    have z: "ks_hash (view (snd (r_zrem R k m s))) = ks_hash (view s)" for k m s
      by (simp add: redis_writes [OF ok] ks_zrem_def)
    have "ks_hash (view (snd (?m s))) jobs job_id = ks_hash (view s) jobs job_id"
    proof (cases "ks_hash (view s) jobs job_id")
      case None
      then show ?thesis
        using \<open>job_id = due_id\<close> by (simp add: promote_due_job_def script_run redis_reads [OF ok] z)
    next
      case (Some raw)
      show ?thesis
      proof (cases "cjson_decode lib raw")
        case None
        with Some show ?thesis
          using \<open>job_id = due_id\<close> by (simp add: promote_due_job_def script_run redis_reads [OF ok] z)
      next
        case (Some job)
        with \<open>ks_hash (view s) jobs job_id = Some raw\<close> False show ?thesis
          using \<open>job_id = due_id\<close>
          by (cases job) (simp_all add: promote_due_job_def script_run redis_reads [OF ok] z stored_state_def)
      qed
    qed
    then show ?thesis by (simp add: unless_delayed_def)
  qed
  then show ?thesis by (simp add: keeps_def)
qed

lemma keeps_promote_loop:
  "(\<And>i. keeps view (unless_delayed lib jobs job_id) (f i)) \<Longrightarrow>
   keeps view (unless_delayed lib jobs job_id) (promote_due_jobs_loop f is n)"
proof (induction f "is" n rule: promote_due_jobs_loop.induct)
  case (2 f i "is" n)
  show ?case by (simp only: promote_due_jobs_loop.simps) (intro undelayed.keeps_bind 2)
qed (simp add: undelayed.keeps_ret)

lemma keeps_paused:
  "redis_ok R view \<Longrightarrow> CHash meta ''paused'' \<notin> C \<Longrightarrow> keeps view (agree C) (queue_is_paused_or_maxed R lib meta active)"
  unfolding queue_is_paused_or_maxed_def Let_def
  by (intro agreeing.keeps_rules keeps_commands)

lemma keeps_count_claim: "redis_ok R view \<Longrightarrow> CString k \<notin> C \<Longrightarrow> keeps view (agree C) (count_claim R k m d)"
  unfolding count_claim_def by (intro agreeing.keeps_rules keeps_incr keeps_commands)

lemma keeps_announce:
  "redis_ok R view \<Longrightarrow> off_repeat (ca_repeat_prefix A) C \<Longrightarrow> CStream (ck_events K) \<notin> C \<Longrightarrow> CZset (ck_marker K) \<notin> C \<Longrightarrow>
   keeps view (agree C) (announce_claim R lib K A job job_id)"
  unfolding announce_claim_def Let_def
  by (intro agreeing.keeps_rules keeps_sync_repeat_scheduler keeps_commands)

section \<open>A claim\<close>

lemma map_of_zset_insert: "map_of (zset_insert m x z) m = Some x"
proof -
  have "set (zset_insert m x z) = insert (m, x) {e \<in> set z. fst e \<noteq> m}"
    by (auto simp: zset_insert_def zset_remove_def set_insort_key)
  then have "(m, x) \<in> set (zset_insert m x z)" "\<And>y. (m, y) \<in> set (zset_insert m x z) \<Longrightarrow> y = x"
    by auto
  then show ?thesis
    by (metis map_of_SomeD map_of_eq_None_iff not_None_eq fst_conv image_eqI)
qed

lemma zset_remove_notin: "m \<notin> fst ` set (zset_remove m z)"
  by (auto simp: zset_remove_def)

text \<open>What a claimed job looks like on the server.\<close>

definition leased ::
  "keyspace \<Rightarrow> claim_keys \<Rightarrow> claim_args \<Rightarrow> job_id \<Rightarrow> string \<Rightarrow> bool" where
  "leased v K A job_id raw \<longleftrightarrow>
     ks_string v (ca_lock_prefix A @ job_id) = Some (ca_token A) \<and>
     ks_ttl v (ca_lock_prefix A @ job_id) = Some (ca_lock_millis A) \<and>
     map_of (ks_zset v (ck_active K)) job_id = Some (ca_lease_score A) \<and>
     job_id \<notin> fst ` set (ks_zset v (ck_waiting K)) \<and>
     ks_hash v (ck_jobs K) job_id = Some raw"

definition lease_cells :: "claim_keys \<Rightarrow> claim_args \<Rightarrow> job_id \<Rightarrow> cell set" where
  "lease_cells K A job_id =
     {CString (ca_lock_prefix A @ job_id), CZset (ck_active K), CZset (ck_waiting K), CHash (ck_jobs K) job_id}"

lemma leased_agree: "leased u K A job_id raw \<Longrightarrow> agree (lease_cells K A job_id) u v \<Longrightarrow> leased v K A job_id raw"
  by (auto simp: leased_def agree_def lease_cells_def)

lemma claim_candidate_leases:
  assumes ok: "redis_ok R view"
    and claimed: "claim_candidate R lib K A m d job_id s = (Some (Some raw), s')"
    and off: "off_repeat (ca_repeat_prefix A) (lease_cells K A job_id)"
    and keys: "ck_rate_limit K \<noteq> ca_lock_prefix A @ job_id" "ck_marker K \<noteq> ck_active K"
      "ck_marker K \<noteq> ck_waiting K" "ck_active K \<noteq> ck_waiting K"
  shows "stored_state lib (view s) (ck_jobs K) job_id = Some (JString ''waiting'')" (is ?waiting)
    and "leased (view s') K A job_id raw"
proof -
  let ?lock = "ca_lock_prefix A @ job_id"
  from claimed obtain t job where job: "ks_hash (view s) (ck_jobs K) job_id = Some t"
    "cjson_decode lib t = Some job"
    by (auto simp: claim_candidate_def script_run redis_reads [OF ok] split: option.splits)
  obtain kvs where obj: "job = JObject kvs" "map_of kvs ''state'' = Some (JString ''waiting'')"
    and rest: "sbind (count_claim R (ck_rate_limit K) m d) (\<lambda>_.
      sbind (claimed_job lib A job) (\<lambda>job.
      let updated = cjson_encode lib job in
      sbind (sseq [swrite (snd \<circ> r_zrem R (ck_waiting K) job_id),
                   swrite (r_zadd R (ck_active K) (ca_lease_score A) job_id),
                   swrite (r_hset R (ck_jobs K) job_id updated)]) (\<lambda>_.
      sbind (announce_claim R lib K A job job_id) (\<lambda>_. sret (Some updated)))))
      (r_set_px R ?lock (ca_token A) (ca_lock_millis A) s) = (Some (Some raw), s')"
    using claimed job
    by (cases job) (auto simp: claim_candidate_def script_run redis_reads [OF ok] split: if_splits)
  show ?waiting using job obj by (simp add: stored_state_def)
  from rest obtain s2 where s2: "count_claim R (ck_rate_limit K) m d
      (r_set_px R ?lock (ca_token A) (ca_lock_millis A) s) = (Some (), s2)"
    and s2_rest: "sbind (claimed_job lib A job) (\<lambda>job.
      let updated = cjson_encode lib job in
      sbind (sseq [swrite (snd \<circ> r_zrem R (ck_waiting K) job_id),
                   swrite (r_zadd R (ck_active K) (ca_lease_score A) job_id),
                   swrite (r_hset R (ck_jobs K) job_id updated)]) (\<lambda>_.
      sbind (announce_claim R lib K A job job_id) (\<lambda>_. sret (Some updated)))) s2 = (Some (Some raw), s')"
    by (rule sbind_SomeE) auto
  from s2_rest obtain new s3 where "claimed_job lib A job s2 = (Some new, s3)"
    and tail: "sbind (announce_claim R lib K A new job_id) (\<lambda>_. sret (Some (cjson_encode lib new)))
      (r_hset R (ck_jobs K) job_id (cjson_encode lib new)
        (r_zadd R (ck_active K) (ca_lease_score A) job_id
          (snd (r_zrem R (ck_waiting K) job_id s3)))) = (Some (Some raw), s')"
    by (rule sbind_SomeE) (auto simp: script_run Let_def)
  with claimed_job_same [of lib A job s2] have s3: "s3 = s2" by simp
  let ?s4 = "r_hset R (ck_jobs K) job_id (cjson_encode lib new)
        (r_zadd R (ck_active K) (ca_lease_score A) job_id (snd (r_zrem R (ck_waiting K) job_id s2)))"
  have a: "announce_claim R lib K A new job_id ?s4 = (Some (), s')" "raw = cjson_encode lib new"
    using tail unfolding s3 by (auto elim!: sbind_SomeE simp: script_run)
  have lock: "agree {CString ?lock} (view (r_set_px R ?lock (ca_token A) (ca_lock_millis A) s)) (view s2)"
    by (rule keepsD [OF keeps_count_claim [OF ok] s2]) (use keys in simp)
  have "leased (view ?s4) K A job_id raw"
    using lock keys unfolding leased_def a(2)
    by (simp add: agree_def redis_writes [OF ok] ks_hput_def ks_zadd_def ks_zrem_def ks_put_def
        map_of_zset_insert zset_remove_notin)
  moreover have "agree (lease_cells K A job_id) (view ?s4) (view s')"
    by (rule keepsD [OF keeps_announce [OF ok off] a(1)]) (use keys in \<open>simp_all add: lease_cells_def\<close>)
  ultimately show "leased (view s') K A job_id raw" by (rule leased_agree)
qed

lemma claim_candidates_some:
  assumes "claim_candidates f is s = (Some (Some raw), s')"
    and "\<And>i s s1. f i s = (Some None, s1) \<Longrightarrow> agree C (view s) (view s1)"
  obtains i s1 where "i \<in> set is" "f i s1 = (Some (Some raw), s')" "agree C (view s) (view s1)"
  using assms(1)
proof (induction "is" arbitrary: s thesis)
  case Nil
  then show ?case by (simp add: script_run)
next
  case (Cons i "is")
  from Cons.prems(2) obtain r s1 where f: "f i s = (Some r, s1)"
    and rest: "(case r of Some raw \<Rightarrow> sret (Some raw) | None \<Rightarrow> claim_candidates f is) s1 = (Some (Some raw), s')"
    by (auto elim: sbind_SomeE)
  show ?case
  proof (cases r)
    case None
    from rest None obtain j s2 where "j \<in> set is" "f j s2 = (Some (Some raw), s')" "agree C (view s1) (view s2)"
      by (auto elim: Cons.IH [rotated])
    moreover have "agree C (view s) (view s1)" using assms(2) f None by blast
    ultimately show ?thesis by (meson Cons.prems(1) agreeing.chain list.set_intros(2))
  next
    case (Some raw')
    with rest f show ?thesis by (intro Cons.prems(1) [of i s]) (auto simp: script_run agreeing.same)
  qed
qed

lemma claim_candidate_none:
  assumes ok: "redis_ok R view"
    and "claim_candidate R lib K A m d job_id s = (Some None, s')"
  shows "agree (range (CHash (ck_jobs K))) (view s) (view s')"
proof -
  have z: "agree (range (CHash (ck_jobs K))) (view s) (view (snd (r_zrem R (ck_waiting K) job_id s)))" for s
    by (simp add: agree_def redis_writes [OF ok] ks_zrem_def)
  show ?thesis
    using assms z
    by (auto simp: claim_candidate_def script_run redis_reads [OF ok] Let_def lua_index_same
        split: option.splits if_splits elim!: sbind_SomeE) (metis lua_index_same snd_conv)+
qed

lemma keeps_effective: "keeps view (agree C) (effective_rate_limit R lib meta own_max own_duration)"
  unfolding effective_rate_limit_def by (intro agreeing.keeps_rules)

lemma claim_script_leases:
  assumes ok: "redis_ok R view"
    and claimed: "claim_script R lib K A s = (Some (Some raw), s')"
    and off: "\<And>i. off_repeat (ca_repeat_prefix A) (lease_cells K A i)"
    and keys: "\<And>i. ck_rate_limit K \<noteq> ca_lock_prefix A @ i" "ck_marker K \<noteq> ck_active K"
      "ck_marker K \<noteq> ck_waiting K" "ck_active K \<noteq> ck_waiting K" "ck_meta K \<noteq> ck_jobs K"
  obtains job_id where
    "stored_state lib (view s) (ck_jobs K) job_id \<in> {Some (JString ''waiting''), Some (JString ''delayed'')}"
    "leased (view s') K A job_id raw"
proof -
  have sub: "off_repeat (ca_repeat_prefix A) {CHash (ck_jobs K) i}" for i
    using off [of i] by (simp add: off_repeat_def lease_cells_def)
  from claimed obtain blocked s1 where
    s1: "queue_is_paused_or_maxed R lib (ck_meta K) (ck_active K) s = (Some blocked, s1)"
    and "sbind (promote_due_jobs_loop
       (promote_due_job R lib (ck_jobs K) (ck_delayed K) (ck_waiting K) (ck_sequence K) (ck_events K)
          (if blocked then [] else ck_marker K) (ca_bucket A) (ca_maxlen A) (ca_repeat_prefix A))
       (r_zdue R (ck_delayed K) (ca_now_score A) (ca_due_limit A) s1) 0) (\<lambda>_.
     sbind (refresh_delay_marker R (ck_marker K) (ck_delayed K)) (\<lambda>_.
     sbind (effective_rate_limit R lib (ck_meta K) (ca_rate_max A) (ca_rate_duration A))
       (\<lambda>(rate_max, rate_duration).
     sbind (if limits rate_max
            then sbind (sread (r_get R (ck_rate_limit K))) (\<lambda>raw.
                 sbind (sget (lua_tonumber lib (case raw of None \<Rightarrow> ''0'' | Some t \<Rightarrow> t))) (\<lambda>current.
                 sret (f64_ge current (the rate_max))))
            else sret False) (\<lambda>limited.
     if limited \<or> blocked then sret None
     else
     sbind (sread (r_zfirst R (ck_waiting K) (ca_candidate_limit A))) (\<lambda>candidates.
       claim_candidates (claim_candidate R lib K A rate_max rate_duration) (map fst candidates)))))) s1
     = (Some (Some raw), s')"
    unfolding claim_script_def Let_def by (rule sbind_SomeE) (simp add: script_run)
  then obtain n s2 m d s3 s4 where
    s2: "promote_due_jobs_loop
       (promote_due_job R lib (ck_jobs K) (ck_delayed K) (ck_waiting K) (ck_sequence K) (ck_events K)
          (if blocked then [] else ck_marker K) (ca_bucket A) (ca_maxlen A) (ca_repeat_prefix A))
       (r_zdue R (ck_delayed K) (ca_now_score A) (ca_due_limit A) s1) 0 s1 = (Some n, s2)"
    and s3: "refresh_delay_marker R (ck_marker K) (ck_delayed K) s2 = (Some (), s3)"
    and s4: "effective_rate_limit R lib (ck_meta K) (ca_rate_max A) (ca_rate_duration A) s3 = (Some (m, d), s4)"
    and c: "claim_candidates (claim_candidate R lib K A m d)
       (map fst (r_zfirst R (ck_waiting K) (ca_candidate_limit A) s4)) s4 = (Some (Some raw), s')"
    by (auto elim!: sbind_SomeE simp: script_run split: if_splits option.splits)
  obtain i s5 where i: "claim_candidate R lib K A m d i s5 = (Some (Some raw), s')"
    and s5: "agree (range (CHash (ck_jobs K))) (view s4) (view s5)"
    by (rule claim_candidates_some [OF c]) (erule claim_candidate_none [OF ok])
  have u: "unless_delayed lib (ck_jobs K) i (view s) (view s1)"
    by (rule keepsD [OF keeps_unless_delayed [OF keeps_paused [OF ok]] s1]) (use keys in simp)
  also have "unless_delayed lib (ck_jobs K) i (view s1) (view s2)"
    by (rule keepsD [OF keeps_promote_loop [OF promote_due_job_unless_delayed [OF ok sub]] s2])
  also (undelayed.chain) have "unless_delayed lib (ck_jobs K) i (view s2) (view s3)"
    by (rule keepsD [OF keeps_unless_delayed [OF keeps_refresh [OF ok]] s3]) simp
  also (undelayed.chain) have "unless_delayed lib (ck_jobs K) i (view s3) (view s4)"
    by (rule keepsD [OF keeps_unless_delayed [OF keeps_effective] s4])
  also (undelayed.chain) have "unless_delayed lib (ck_jobs K) i (view s4) (view s5)"
    by (rule agree_unless_delayed [OF s5]) simp
  finally (undelayed.chain) have u: "unless_delayed lib (ck_jobs K) i (view s) (view s5)" .
  note leases = claim_candidate_leases [OF ok i off keys(1-4)]
  from u leases(1)
  have "stored_state lib (view s) (ck_jobs K) i \<in> {Some (JString ''waiting''), Some (JString ''delayed'')}"
    by (auto simp: unless_delayed_def stored_state_def)
  then show ?thesis using leases(2) by (rule that)
qed

text \<open>A blocked queue hands out nothing.\<close>

lemma claim_script_blocked:
  assumes "fst (queue_is_paused_or_maxed R lib (ck_meta K) (ck_active K) s) = Some True"
  shows "claim_script R lib K A s \<noteq> (Some (Some raw), s')"
proof
  assume "claim_script R lib K A s = (Some (Some raw), s')"
  with assms show False
    unfolding claim_script_def
    by (auto elim!: sbind_SomeE simp: script_run Let_def split: if_splits)
qed

end
