(* ===== verification/Redis_Guarantees.thy ===== *)
theory Redis_Guarantees
  imports Redis_Safety
begin

text \<open>
  The guarantees of the operations of \<open>RedisJobQueue\<close>, over any server that keeps the laws of
  \<open>redis_ok\<close>, with witnesses on \<open>ref_redis\<close>.
\<close>

section \<open>The keys of a queue\<close>

lemma scheduler_keys:
  "lua_repeat_scheduler_key (x @ [c]) = x"
  "lua_repeat_scheduler_meta_key (x @ ''repeat:'') k = x @ ''repeat_meta:'' @ k"
  by (simp_all add: lua_repeat_scheduler_key_def lua_repeat_scheduler_meta_key_def)

lemma queue_keys:
  "jobs_key q = redis_key q ''jobs''" "meta_key q = redis_key q ''meta''"
  "sequence_key q = redis_key q ''sequence''" "events_key q = redis_key q ''events''"
  "marker_key q = redis_key q ''marker''" "stalled_key q = redis_key q ''stalled''"
  "claim_rate_limit_key q = redis_key q ''claim_rate_limit''"
  "state_key q Waiting = redis_key q ''waiting''" "state_key q Delayed = redis_key q ''delayed''"
  "state_key q Active = redis_key q ''active''"
  "lock_key q i = redis_key q (''locks:'' @ i)"
  "lock_key_prefix q @ i = redis_key q (''locks:'' @ i)"
  "repeat_key_prefix q @ x = redis_key q (''repeat:'' @ x)"
  "lua_repeat_scheduler_key (repeat_key_prefix q) = redis_key q ''repeat''"
  "lua_repeat_scheduler_meta_key (repeat_key_prefix q) x = redis_key q (''repeat_meta:'' @ x)"
proof -
  have "repeat_key_prefix q = redis_key q ''repeat'' @ '':''"
    "repeat_key_prefix q = queue_key_prefix q @ ''repeat:''"
    by (simp_all add: repeat_key_prefix_def redis_key_def queue_key_prefix_def)
  then show "lua_repeat_scheduler_key (repeat_key_prefix q) = redis_key q ''repeat''"
    "lua_repeat_scheduler_meta_key (repeat_key_prefix q) x = redis_key q (''repeat_meta:'' @ x)"
    by (metis scheduler_keys(1), metis scheduler_keys(2) redis_key_def queue_key_prefix_def append_assoc)
qed (simp_all add: jobs_key_def meta_key_def sequence_key_def events_key_def marker_key_def
      stalled_key_def claim_rate_limit_key_def state_key_def lock_key_def lock_key_prefix_def
      repeat_key_prefix_def redis_key_def)

lemma off_repeat_queue:
  "off_repeat (repeat_key_prefix q) C \<longleftrightarrow>
     (\<forall>c\<in>C. cell_key c \<noteq> redis_key q ''repeat'' \<and>
        (\<forall>x. cell_key c \<noteq> redis_key q (''repeat:'' @ x) \<and> cell_key c \<noteq> redis_key q (''repeat_meta:'' @ x)))"
  by (simp add: off_repeat_def queue_keys)

section \<open>Renewing a lease\<close>

text \<open>
  C21. \<open>renew_lease\<close> of the Redis backend never renews: the marker key it passes as an argument too
  many is taken for the id of the job. Unless a job has the name of that key, every call answers
  that there is no such job, whatever the job and the token, and changes nothing.
\<close>

theorem redis_renew_lease_never_renews:
  assumes "redis_ok R view"
    and "ks_hash (view s) (jobs_key (cl_queue Z)) (marker_key (cl_queue Z)) = None"
  shows "redis_renew_lease Z R job_id token lease_for now s = (Inl (JobNotFound job_id), s)"
  using assms(2)
  by (simp add: redis_renew_lease_def eval_script_def renew_lease_script_def with_job_def script_run
      redis_reads [OF assms(1)] query_def on_reply_def decode_transition_result_def Let_def)

section \<open>Claiming\<close>

definition queue_claim_keys :: "redis_queue \<Rightarrow> claim_keys" where
  "queue_claim_keys q =
     \<lparr>ck_waiting = state_key q Waiting, ck_active = state_key q Active, ck_jobs = jobs_key q,
      ck_rate_limit = claim_rate_limit_key q, ck_meta = meta_key q, ck_delayed = state_key q Delayed,
      ck_sequence = sequence_key q, ck_events = events_key q, ck_marker = marker_key q\<rparr>"

definition queue_claim_args ::
  "client \<Rightarrow> string \<Rightarrow> string \<Rightarrow> duration \<Rightarrow> instant \<Rightarrow> claim_args" where
  "queue_claim_args Z token worker_id lease_for now =
     (let q = cl_queue Z; expires = add_duration (cl_ext Z) now lease_for
      in \<lparr>ca_lease_score = millis (cl_ext Z) expires, ca_now = rc_rfc3339 (cl_codec Z) now,
          ca_worker_id = worker_id, ca_lease_expires_at = rc_rfc3339 (cl_codec Z) expires,
          ca_token = token, ca_lock_millis = lock_duration_millis lease_for,
          ca_lock_prefix = lock_key_prefix q,
          ca_rate_max = f64_of_int (int (fst (claim_rate_args Z))),
          ca_rate_duration = f64_of_int (int (snd (claim_rate_args Z))),
          ca_now_score = millis (cl_ext Z) now, ca_bucket = WAITING_SCORE_BUCKET, ca_due_limit = 1000,
          ca_candidate_limit = 1000, ca_maxlen = DEFAULT_JOB_EVENT_RETENTION,
          ca_repeat_prefix = repeat_key_prefix q\<rparr>)"

lemma lock_duration_positive [simp]: "0 < lock_duration_millis d"
  by (simp add: lock_duration_millis_def)

lemma redis_claim_next_script:
  "redis_claim_next Z R token worker_id lease_for now s =
     on_reply (\<lambda>raw. case raw of
         None \<Rightarrow> Inr None
       | Some raw \<Rightarrow> and_then (decode_job (cl_codec Z) raw) (\<lambda>job. Inr (Some (job\<lparr>j_lock_token := Some token\<rparr>))))
       (query (cl_codec Z) (claim_script R (cl_lib Z) (queue_claim_keys (cl_queue Z))
          (queue_claim_args Z token worker_id lease_for now)) s)"
  by (simp add: redis_claim_next_def eval_script_def claim_eval_def query_def script_run score_arg_def
      time_arg_def bucket_arg_def nat_arg_def Let_def queue_claim_keys_def queue_claim_args_def
      case_prod_beta)

lemma on_reply_Inr: "on_reply f r = (Inr y, s') \<longleftrightarrow> (\<exists>x. r = (Inr x, s') \<and> f x = Inr y)"
  by (cases r) (auto simp: on_reply_def and_then_Inr)

lemma query_Inr: "query C m s = (Inr x, s') \<longleftrightarrow> m s = (Some x, s')"
  by (auto simp: query_def split: prod.splits option.splits)

lemma redis_claimed:
  assumes "redis_claim_next Z R token worker_id lease_for now s = (Inr (Some job), s')"
  obtains raw job0 where "claim_script R (cl_lib Z) (queue_claim_keys (cl_queue Z))
      (queue_claim_args Z token worker_id lease_for now) s = (Some (Some raw), s')"
    "decode_job (cl_codec Z) raw = Inr job0" "job = job0\<lparr>j_lock_token := Some token\<rparr>"
  using assms
  by (auto simp: redis_claim_next_script on_reply_Inr query_Inr and_then_Inr split: option.splits)

text \<open>
  C12. A claim that returns a job took a job that was waiting or delayed, never one that was active or
  finished. The job is now in the active index under the end of its lease, no longer in the waiting
  index, its lock holds the token of this claim for the time of the lease, and what the caller gets
  is what is stored, with that token.
\<close>

theorem redis_claim_leases:
  assumes ok: "redis_ok R view"
    and claimed: "redis_claim_next Z R token worker_id lease_for now s = (Inr (Some job), s')"
  shows "\<exists>job_id raw job0.
    stored_state (cl_lib Z) (view s) (jobs_key (cl_queue Z)) job_id
      \<in> {Some (JString ''waiting''), Some (JString ''delayed'')} \<and>
    ks_string (view s') (lock_key (cl_queue Z) job_id) = Some token \<and>
    ks_ttl (view s') (lock_key (cl_queue Z) job_id) = Some (lock_duration_millis lease_for) \<and>
    map_of (ks_zset (view s') (state_key (cl_queue Z) Active)) job_id
      = Some (millis (cl_ext Z) (add_duration (cl_ext Z) now lease_for)) \<and>
    job_id \<notin> fst ` set (ks_zset (view s') (state_key (cl_queue Z) Waiting)) \<and>
    ks_hash (view s') (jobs_key (cl_queue Z)) job_id = Some raw \<and>
    decode_job (cl_codec Z) raw = Inr job0 \<and> job = job0\<lparr>j_lock_token := Some token\<rparr>"
proof -
  let ?q = "cl_queue Z"
  let ?K = "queue_claim_keys ?q" and ?A = "queue_claim_args Z token worker_id lease_for now"
  from claimed obtain raw job0 where script: "claim_script R (cl_lib Z) ?K ?A s = (Some (Some raw), s')"
    and job: "decode_job (cl_codec Z) raw = Inr job0" "job = job0\<lparr>j_lock_token := Some token\<rparr>"
    by (rule redis_claimed)
  have lock: "lock_key_prefix ?q @ i = lock_key ?q i" for i
    by (simp add: lock_key_prefix_def lock_key_def)
  have "off_repeat (ca_repeat_prefix ?A) (lease_cells ?K ?A i)" for i
    by (simp add: queue_claim_args_def Let_def off_repeat_queue lease_cells_def queue_claim_keys_def queue_keys)
  from claim_script_leases [OF ok script this] obtain job_id where
    "stored_state (cl_lib Z) (view s) (ck_jobs ?K) job_id
       \<in> {Some (JString ''waiting''), Some (JString ''delayed'')}" "leased (view s') ?K ?A job_id raw"
    by (auto simp: queue_claim_args_def Let_def queue_claim_keys_def queue_keys)
  with job show ?thesis
    by (intro exI [of _ job_id] exI [of _ raw] exI [of _ job0])
       (auto simp: leased_def queue_claim_args_def queue_claim_keys_def Let_def lock)
qed

text \<open>
  While the queue is paused, or holds as many active jobs as it may, no claim returns a job;
  \<open>is_maxed\<close> answers by the same rule as the claim.
\<close>

theorem redis_blocked_claims_nothing:
  assumes ok: "redis_ok R view"
    and blocked: "ks_hash (view s) (meta_key (cl_queue Z)) ''paused'' \<notin> {None, Some ''0''}
      \<or> fst (redis_is_maxed Z R s) = Inr True"
  shows "fst (redis_claim_next Z R token worker_id lease_for now s) \<noteq> Inr (Some job)"
proof
  assume "fst (redis_claim_next Z R token worker_id lease_for now s) = Inr (Some job)"
  then obtain s' where "redis_claim_next Z R token worker_id lease_for now s = (Inr (Some job), s')"
    by (metis prod.collapse)
  then obtain raw where script: "claim_script R (cl_lib Z) (queue_claim_keys (cl_queue Z))
      (queue_claim_args Z token worker_id lease_for now) s = (Some (Some raw), s')"
    by (rule redis_claimed)
  have "fst (queue_is_paused_or_maxed R (cl_lib Z) (meta_key (cl_queue Z)) (state_key (cl_queue Z) Active) s)
    = Some True"
    using blocked
    by (auto simp: queue_is_paused_or_maxed_def script_run redis_reads [OF ok] redis_writes [OF ok]
        redis_is_maxed_def eval_script_def is_maxed_script_def query_def on_reply_def limits_def
        ks_hput_def Let_def split: option.splits if_splits)
  then have "fst (queue_is_paused_or_maxed R (cl_lib Z) (ck_meta (queue_claim_keys (cl_queue Z)))
      (ck_active (queue_claim_keys (cl_queue Z))) s) = Some True"
    by (simp add: queue_claim_keys_def)
  from claim_script_blocked [OF this] script show False by blast
qed

section \<open>Operations that need the lease\<close>

text \<open>
  C20. Without the token that the lock of an active job holds, releasing it, delaying it and renewing
  its lease in a batch are refused, and the server's content is untouched.
\<close>

theorem redis_lease_required:
  assumes ok: "redis_ok R view"
    and stored: "ks_hash (view s) (jobs_key (cl_queue Z)) job_id = Some raw"
      "cjson_decode (cl_lib Z) raw = Some (JObject kvs)" "map_of kvs ''state'' = Some (JString ''active'')"
    and foreign: "ks_string (view s) (lock_key (cl_queue Z) job_id) \<noteq> Some token"
    and delay: "rc_duration_to_string (cl_codec Z) d = Inr delay_text"
  shows "redis_release_active_job Z R job_id token now s \<in> {(Inl (JobLeaseConflict e), s) | e. True} \<and>
    redis_delay_active_job Z R job_id token d now s \<in> {(Inl (JobLeaseConflict e), s) | e. True} \<and>
    redis_renew_leases Z R [\<lparr>lr_job_id = job_id, lr_lock_token = token\<rparr>] lease_for now s
      = (Inr [job_id], s)"
proof -
  have lock: "lock_key_prefix (cl_queue Z) @ job_id = lock_key (cl_queue Z) job_id"
    by (simp add: lock_key_prefix_def lock_key_def)
  note run = eval_script_def with_job_def in_state_def owns_lock_def script_run redis_reads [OF ok]
    query_def on_reply_def decode_transition_result_def stored score_arg_def time_arg_def
    bucket_arg_def nat_arg_def Let_def
  have "redis_release_active_job Z R job_id token now s \<in> {(Inl (JobLeaseConflict e), s) | e. True}"
    using foreign
    by (cases "ks_string (view s) (lock_key (cl_queue Z) job_id)")
       (simp_all add: redis_release_active_job_def release_active_job_script_def run)
  moreover have "redis_delay_active_job Z R job_id token d now s \<in> {(Inl (JobLeaseConflict e), s) | e. True}"
    using foreign delay
    by (cases "ks_string (view s) (lock_key (cl_queue Z) job_id)")
       (simp_all add: redis_delay_active_job_def delay_active_job_script_def map_err_def run)
  moreover have "redis_renew_leases Z R [\<lparr>lr_job_id = job_id, lr_lock_token = token\<rparr>] lease_for now s
      = (Inr [job_id], s)"
    using foreign
    by (simp add: redis_renew_leases_def renew_leases_script_def renew_one_def lock run)
  ultimately show ?thesis by blast
qed

text \<open>What both ways of leaving the active state come to.\<close>

definition lease_ended :: "redis_queue \<Rightarrow> keyspace \<Rightarrow> job_id \<Rightarrow> bool" where
  "lease_ended q v job_id \<longleftrightarrow>
     ks_string v (lock_key q job_id) = None \<and>
     job_id \<notin> fst ` set (ks_zset v (state_key q Active)) \<and>
     job_id \<notin> set (ks_set v (stalled_key q))"

definition ended_cells :: "redis_queue \<Rightarrow> job_id \<Rightarrow> cell set" where
  "ended_cells q job_id =
     {CString (lock_key q job_id), CZset (state_key q Active), CSet (stalled_key q),
      CHash (jobs_key q) job_id, CZset (state_key q Waiting), CZset (state_key q Delayed)}"

lemma with_job_Some:
  assumes "with_job R lib jobs job_id missing k s = (Some (''ok'' # r), s')" "redis_ok R view"
  obtains raw job where "ks_hash (view s) jobs job_id = Some raw" "cjson_decode lib raw = Some job"
    "k job s = (Some (''ok'' # r), s')"
  using assms(1)
  by (auto simp: with_job_def script_run redis_reads [OF assms(2)] split: option.splits elim!: sbind_SomeE)

lemma in_state_Some:
  assumes "in_state lib name d job other k s = (Some (''ok'' # r), s')"
  obtains kvs where "job = JObject kvs" "map_of kvs ''state'' = Some (JString name)" "k s = (Some (''ok'' # r), s')"
  using assms by (cases job) (auto simp: in_state_def script_run split: if_splits elim!: sbind_SomeE)

lemma owns_lock_Some:
  assumes "owns_lock R lock token k s = (Some (''ok'' # r), s')" "redis_ok R view"
  obtains "ks_string (view s) lock = Some token" "k s = (Some (''ok'' # r), s')"
  using assms(1)
  by (auto simp: owns_lock_def script_run redis_reads [OF assms(2)] split: option.splits if_splits)

lemma leave_active_Some:
  assumes "leave_active R active lock stalled job_id k s = (Some (''ok'' # r), s')" "redis_ok R view"
  obtains "job_id \<in> fst ` set (ks_zset (view s) active)"
    "k (r_srem R stalled job_id (r_del R lock (snd (r_zrem R active job_id s)))) = (Some (''ok'' # r), s')"
proof -
  from assms(1) have "fst (r_zrem R active job_id s) \<noteq> 0"
    "k (r_srem R stalled job_id (r_del R lock (snd (r_zrem R active job_id s)))) = (Some (''ok'' # r), s')"
    by (auto simp: leave_active_def script_run split: prod.splits if_splits)
  with that show thesis
    by (auto simp: redis_writes [OF assms(2)] dom_map_of_conv_image_fst [symmetric] split: if_splits)
qed

lemma left_active:
  assumes "redis_ok R view"
  shows "lease_ended q (view (r_srem R (stalled_key q) job_id
    (r_del R (lock_key q job_id) (snd (r_zrem R (state_key q Active) job_id s))))) job_id"
  by (simp add: lease_ended_def redis_writes [OF assms] ks_srem_def ks_del_def ks_zrem_def queue_keys
      zset_remove_notin)

lemma priority_of_same: "snd (priority_of lib job s) = s"
  unfolding priority_of_def by (intro sbind_same lua_index_same) (simp add: script_run)

lemma same_stateD: "m s = (r, s1) \<Longrightarrow> (\<And>s. snd (m s) = s) \<Longrightarrow> s1 = s"
  by (metis snd_conv)

lemmas pure_steps = same_stateD [OF _ assign_all_same] same_stateD [OF _ priority_of_same]
  same_stateD [OF _ lua_assign_same] same_stateD [OF _ lua_index_same]

lemma hand_back_ok:
  assumes ok: "redis_ok R view"
    and finished: "hand_back R lib jobs waiting events marker job_id scheduled_at scheduled bucket maxlen p job s
      = (Some (''ok'' # raw # rest), s')"
    and off: "off_repeat p C" "CStream events \<notin> C" "CZset marker \<notin> C"
    and cells: "CHash jobs job_id \<in> C" "CZset waiting \<in> C"
  obtains pr b where "ks_hash (view s') jobs job_id = Some raw" "arg_number lib bucket = Some b"
    "map_of (ks_zset (view s') waiting) job_id = Some (pushed_back_score pr b)"
    "agree (C - {CHash jobs job_id, CZset waiting}) (view s) (view s')"
proof -
  from finished obtain j pushed pr b x s2 s3 n where b: "arg_number lib bucket = Some b"
    and push: "push_back_waiting_job R lib jobs waiting j job_id pr b marker s = (Some raw, s2)"
    and sync: "sync_repeat_scheduler R lib pushed job_id p x (arg_text scheduled) s2 = (Some (), s3)"
    and s': "s' = r_xadd R events n (waiting_event job_id ''active'') s3"
    unfolding hand_back_def
    by (auto simp: script_run split: option.splits elim!: sbind_SomeE dest!: pure_steps)
  have "agree C (view s2) (view s3)"
    by (rule keepsD [OF keeps_sync_repeat_scheduler [OF ok off(1)] sync])
  moreover have "agree C (view s3) (view s')"
    unfolding s' by (rule keepsD [OF keeps_commands(12) [OF ok off(2)]]) (simp add: script_run)
  ultimately have after: "agree C (view s2) (view s')" by (rule agreeing.chain)
  have s2: "s2 = (if marker \<noteq> [] then r_zadd R marker (Fin 0) ''0'' else (\<lambda>s. s))
            (r_zadd R waiting (pushed_back_score pr b) job_id (r_hset R jobs job_id raw s))"
    using push unfolding push_back_waiting_job_def
    by (auto simp: script_run Let_def split: if_splits elim!: sbind_SomeE dest!: pure_steps)
  let ?s1 = "r_zadd R waiting (pushed_back_score pr b) job_id (r_hset R jobs job_id raw s)"
  have "agree C (view ?s1) (view s2)"
    using off(3) unfolding s2 by (auto simp: agree_def redis_writes(7) [OF ok] intro!: same_cell_zadd)
  from agreeing.chain [OF this after] have tail: "agree C (view ?s1) (view s')" .
  have "agree (C - {CHash jobs job_id, CZset waiting}) (view s) (view ?s1)"
    by (auto simp: agree_def redis_writes [OF ok] intro!: same_cell_trans [OF same_cell_hput same_cell_zadd])
  moreover have "agree (C - {CHash jobs job_id, CZset waiting}) (view ?s1) (view s')"
    using tail by (simp add: agree_def)
  ultimately have "agree (C - {CHash jobs job_id, CZset waiting}) (view s) (view s')"
    by (rule agreeing.chain)
  moreover have "ks_hash (view s') jobs job_id = Some raw"
    "map_of (ks_zset (view s') waiting) job_id = Some (pushed_back_score pr b)"
    using agreeD [OF tail cells(1)] agreeD [OF tail cells(2)]
    by (simp_all add: redis_writes [OF ok] ks_zadd_def ks_hput_def) (metis map_of_zset_insert)
  ultimately show thesis using b that by blast
qed

lemma keeps_base_marker:
  "redis_ok R view \<Longrightarrow> CZset marker \<notin> C \<Longrightarrow> keeps view (agree C) (add_base_marker_if_waiting R marker waiting)"
  unfolding add_base_marker_if_waiting_def by (intro agreeing.keeps_rules keeps_commands)

lemma assign_option_same: "snd (assign_option job f v s) = s"
  unfolding assign_option_def by (intro sbind_same lua_index_same lua_assign_same)

lemma put_off_ok:
  assumes ok: "redis_ok R view"
    and finished: "put_off R lib jobs delayed events waiting marker job_id scheduled_at scheduled delay maxlen p job s
      = (Some (''ok'' # raw # rest), s')"
    and off: "off_repeat p C" "CStream events \<notin> C" "CZset marker \<notin> C"
    and cells: "CHash jobs job_id \<in> C" "CZset delayed \<in> C"
  obtains x where "ks_hash (view s') jobs job_id = Some raw" "arg_number lib scheduled = Some x"
    "map_of (ks_zset (view s') delayed) job_id = Some x"
    "agree (C - {CHash jobs job_id, CZset delayed}) (view s) (view s')"
proof -
  from finished obtain j x s2 s3 s4 n where x: "arg_number lib scheduled = Some x"
    and mark: "refresh_delay_marker R marker delayed (r_zadd R delayed x job_id (r_hset R jobs job_id raw s)) = (Some (), s2)"
    and base: "add_base_marker_if_waiting R marker waiting s2 = (Some (), s3)"
    and sync: "sync_repeat_scheduler R lib j job_id p x (arg_text scheduled) s3 = (Some (), s4)"
    and s': "s' = r_xadd R events n
      [(''event'', ''delayed''), (''jobId'', job_id), (''delay'', arg_text scheduled), (''prev'', ''active'')] s4"
    unfolding put_off_def
    by (auto simp: script_run Let_def split: option.splits elim!: sbind_SomeE
        dest!: pure_steps same_stateD [OF _ assign_option_same])
  let ?s1 = "r_zadd R delayed x job_id (r_hset R jobs job_id raw s)"
  note agreeing.chain [OF keepsD [OF keeps_refresh [OF ok off(3)] mark]
      agreeing.chain [OF keepsD [OF keeps_base_marker [OF ok off(3)] base]
        keepsD [OF keeps_sync_repeat_scheduler [OF ok off(1)] sync]]]
  moreover have "agree C (view s4) (view s')"
    unfolding s' by (rule keepsD [OF keeps_commands(12) [OF ok off(2)]]) (simp add: script_run)
  ultimately have tail: "agree C (view ?s1) (view s')" by (rule agreeing.chain)
  have "agree (C - {CHash jobs job_id, CZset delayed}) (view s) (view ?s1)"
    by (auto simp: agree_def redis_writes [OF ok] intro!: same_cell_trans [OF same_cell_hput same_cell_zadd])
  moreover have "agree (C - {CHash jobs job_id, CZset delayed}) (view ?s1) (view s')"
    using tail by (simp add: agree_def)
  ultimately have "agree (C - {CHash jobs job_id, CZset delayed}) (view s) (view s')"
    by (rule agreeing.chain)
  moreover have "ks_hash (view s') jobs job_id = Some raw" "map_of (ks_zset (view s') delayed) job_id = Some x"
    using agreeD [OF tail cells(1)] agreeD [OF tail cells(2)]
    by (simp_all add: redis_writes [OF ok] ks_zadd_def ks_hput_def) (metis map_of_zset_insert)
  ultimately show thesis using x that by blast
qed

lemma ended_cells_off: "off_repeat (repeat_key_prefix q) (ended_cells q job_id)"
  by (simp add: off_repeat_queue ended_cells_def queue_keys)

lemma ended_cells_mem:
  "CStream (events_key q) \<notin> ended_cells q job_id" "CZset (marker_key q) \<notin> ended_cells q job_id"
  "CHash (jobs_key q) job_id \<in> ended_cells q job_id"
  "CZset (state_key q Waiting) \<in> ended_cells q job_id" "CZset (state_key q Delayed) \<in> ended_cells q job_id"
  by (simp_all add: ended_cells_def queue_keys)

lemma ended_cells_left:
  "agree (ended_cells q job_id - {CHash (jobs_key q) job_id, CZset (state_key q Waiting)}) u v \<Longrightarrow>
   agree {CString (lock_key q job_id), CZset (state_key q Active), CSet (stalled_key q)} u v"
  "agree (ended_cells q job_id - {CHash (jobs_key q) job_id, CZset (state_key q Delayed)}) u v \<Longrightarrow>
   agree {CString (lock_key q job_id), CZset (state_key q Active), CSet (stalled_key q)} u v"
  by (simp_all add: agree_def ended_cells_def queue_keys insert_Diff_if)

lemma lease_ended_agree:
  "lease_ended q u job_id \<Longrightarrow> agree {CString (lock_key q job_id), CZset (state_key q Active), CSet (stalled_key q)} u v \<Longrightarrow>
   lease_ended q v job_id"
  by (simp add: lease_ended_def agree_def)

lemma transition_reply:
  assumes "on_reply (\<lambda>reply. decode_transition_result C reply job_id action) (query C m s) = (Inr job, s')"
  obtains raw rest where "m s = (Some (''ok'' # raw # rest), s')" "decode_job C raw = Inr job"
  using assms by (auto simp: on_reply_Inr query_Inr transition_ok_only)

text \<open>
  When a worker hands its active job back, the call held the lock's token; afterwards the job has
  no lock, is neither active nor a stalled candidate, and waits at the head of its priority's
  bucket, stored as it is returned.
\<close>

theorem redis_release_hands_back:
  assumes ok: "redis_ok R view"
    and released: "redis_release_active_job Z R job_id token now s = (Inr job, s')"
  shows "ks_string (view s) (lock_key (cl_queue Z) job_id) = Some token \<and>
    stored_state (cl_lib Z) (view s) (jobs_key (cl_queue Z)) job_id = Some (JString ''active'') \<and>
    lease_ended (cl_queue Z) (view s') job_id \<and>
    (\<exists>p. map_of (ks_zset (view s') (state_key (cl_queue Z) Waiting)) job_id
       = Some (pushed_back_score p WAITING_SCORE_BUCKET)) \<and>
    (\<exists>raw. ks_hash (view s') (jobs_key (cl_queue Z)) job_id = Some raw \<and>
       decode_job (cl_codec Z) raw = Inr job)"
proof -
  let ?q = "cl_queue Z" and ?s1 = "\<lambda>s. r_srem R (stalled_key (cl_queue Z)) job_id
    (r_del R (lock_key (cl_queue Z) job_id) (snd (r_zrem R (state_key (cl_queue Z) Active) job_id s)))"
  from released obtain raw rest where d: "decode_job (cl_codec Z) raw = Inr job"
    and m: "release_active_job_script R (cl_lib Z)
      [jobs_key ?q, state_key ?q Active, state_key ?q Waiting, sequence_key ?q, lock_key ?q job_id,
       events_key ?q, stalled_key ?q, marker_key ?q]
      [AText job_id, AText token, time_arg Z now, score_arg Z now, bucket_arg Z,
       nat_arg DEFAULT_JOB_EVENT_RETENTION, AText (repeat_key_prefix ?q)] s
      = (Some (''ok'' # raw # rest), s')"
    unfolding redis_release_active_job_def by (rule transition_reply) (simp add: eval_script_def)
  from m obtain t kvs where stored: "ks_hash (view s) (jobs_key ?q) job_id = Some t"
    "cjson_decode (cl_lib Z) t = Some (JObject kvs)" "map_of kvs ''state'' = Some (JString ''active'')"
    and lock: "ks_string (view s) (lock_key ?q job_id) = Some token"
    and hb: "hand_back R (cl_lib Z) (jobs_key ?q) (state_key ?q Waiting) (events_key ?q) (marker_key ?q) job_id
      (arg_text (time_arg Z now)) (score_arg Z now) (bucket_arg Z) (nat_arg DEFAULT_JOB_EVENT_RETENTION)
      (repeat_key_prefix ?q) (JObject kvs) (?s1 s) = (Some (''ok'' # raw # rest), s')"
    unfolding release_active_job_script_def
    by (auto simp: Let_def elim!: with_job_Some [OF _ ok] in_state_Some owns_lock_Some [OF _ ok]
        leave_active_Some [OF _ ok])
  obtain p b where post: "ks_hash (view s') (jobs_key ?q) job_id = Some raw"
    "arg_number (cl_lib Z) (bucket_arg Z) = Some b"
    "map_of (ks_zset (view s') (state_key ?q Waiting)) job_id = Some (pushed_back_score p b)"
    "agree (ended_cells ?q job_id - {CHash (jobs_key ?q) job_id, CZset (state_key ?q Waiting)})
       (view (?s1 s)) (view s')"
    by (rule hand_back_ok [OF ok hb ended_cells_off ended_cells_mem(1-4)])
  note lease_ended_agree [OF left_active [OF ok] ended_cells_left(1) [OF post(4)]]
  with stored lock post(1-3) d show ?thesis
    by (auto simp: stored_state_def bucket_arg_def)
qed

text \<open>
  When a worker delays its active job, the call held the lock's token; afterwards the job has no
  lock, is neither active nor a stalled candidate, and is delayed until the given delay is over,
  stored as it is returned.
\<close>

theorem redis_delay_puts_off:
  assumes ok: "redis_ok R view"
    and delayed: "redis_delay_active_job Z R job_id token d now s = (Inr job, s')"
  shows "ks_string (view s) (lock_key (cl_queue Z) job_id) = Some token \<and>
    stored_state (cl_lib Z) (view s) (jobs_key (cl_queue Z)) job_id = Some (JString ''active'') \<and>
    lease_ended (cl_queue Z) (view s') job_id \<and>
    map_of (ks_zset (view s') (state_key (cl_queue Z) Delayed)) job_id
       = Some (millis (cl_ext Z) (add_duration (cl_ext Z) now d)) \<and>
    (\<exists>raw. ks_hash (view s') (jobs_key (cl_queue Z)) job_id = Some raw \<and>
       decode_job (cl_codec Z) raw = Inr job)"
proof -
  let ?q = "cl_queue Z" and ?s1 = "\<lambda>s. r_srem R (stalled_key (cl_queue Z)) job_id
    (r_del R (lock_key (cl_queue Z) job_id) (snd (r_zrem R (state_key (cl_queue Z) Active) job_id s)))"
  let ?at = "add_duration (cl_ext Z) now d"
  from delayed obtain text' where text': "rc_duration_to_string (cl_codec Z) d = Inr text'"
    by (auto simp: redis_delay_active_job_def map_err_def Let_def split: sum.splits)
  from delayed obtain raw rest where d: "decode_job (cl_codec Z) raw = Inr job"
    and m: "delay_active_job_script R (cl_lib Z)
      [jobs_key ?q, state_key ?q Active, state_key ?q Delayed, lock_key ?q job_id, events_key ?q,
       stalled_key ?q, state_key ?q Waiting, marker_key ?q]
      [AText job_id, AText token, time_arg Z ?at, AInt (ext_timestamp_millis (cl_ext Z) ?at), AText text',
       nat_arg DEFAULT_JOB_EVENT_RETENTION, AText (repeat_key_prefix ?q)] s
      = (Some (''ok'' # raw # rest), s')"
    unfolding redis_delay_active_job_def text' map_err_def Let_def sum.case
    by (rule transition_reply) (simp add: eval_script_def)
  from m obtain t kvs where stored: "ks_hash (view s) (jobs_key ?q) job_id = Some t"
    "cjson_decode (cl_lib Z) t = Some (JObject kvs)" "map_of kvs ''state'' = Some (JString ''active'')"
    and lock: "ks_string (view s) (lock_key ?q job_id) = Some token"
    and po: "put_off R (cl_lib Z) (jobs_key ?q) (state_key ?q Delayed) (events_key ?q) (state_key ?q Waiting)
      (marker_key ?q) job_id (arg_text (time_arg Z ?at)) (AInt (ext_timestamp_millis (cl_ext Z) ?at)) text'
      (nat_arg DEFAULT_JOB_EVENT_RETENTION) (repeat_key_prefix ?q) (JObject kvs) (?s1 s)
      = (Some (''ok'' # raw # rest), s')"
    unfolding delay_active_job_script_def
    by (auto simp: Let_def elim!: with_job_Some [OF _ ok] in_state_Some owns_lock_Some [OF _ ok]
        leave_active_Some [OF _ ok])
  obtain x where post: "ks_hash (view s') (jobs_key ?q) job_id = Some raw"
    "arg_number (cl_lib Z) (AInt (ext_timestamp_millis (cl_ext Z) ?at)) = Some x"
    "map_of (ks_zset (view s') (state_key ?q Delayed)) job_id = Some x"
    "agree (ended_cells ?q job_id - {CHash (jobs_key ?q) job_id, CZset (state_key ?q Delayed)})
       (view (?s1 s)) (view s')"
    by (rule put_off_ok [OF ok po ended_cells_off ended_cells_mem(1-3,5)])
  note lease_ended_agree [OF left_active [OF ok] ended_cells_left(2) [OF post(4)]]
  with stored lock post(1-3) d show ?thesis
    by (auto simp: stored_state_def millis_def)
qed

end
