(* ===== verification/Redis_Witnesses.thy ===== *)
theory Redis_Witnesses
  imports Redis_Guarantees
begin

text \<open>The guarantees of \<open>Redis_Guarantees\<close> at concrete inputs, on the server \<open>ref_redis\<close>.\<close>

section \<open>A client and its server\<close>

definition ex_fields :: "string \<Rightarrow> json" where
  "ex_fields state =
     JObject [(''state'', JString state), (''attempts_made'', JNumber 0), (''scheduled_at'', JString [])]"

definition ex_lib :: lua_lib where
  "ex_lib =
     \<lparr>cjson_decode = (\<lambda>t. if t = ''W'' then Some (ex_fields ''waiting'')
                           else if t = ''A'' then Some (ex_fields ''active'')
                           else if t = ''5'' then Some (JNumber 5) else None),
      cjson_encode = (\<lambda>_. ''U''),
      lua_tonumber = (\<lambda>t. if t = ''0'' then Some (Fin 0) else if t = ''1'' then Some (Fin 1)
                           else if t = ''1000'' then Some (Fin 1000) else None),
      lua_tostring = (\<lambda>_. ''0'')\<rparr>"

definition ex_codec :: redis_codec where
  "ex_codec =
     \<lparr>rc_from_str = (\<lambda>t. Inr (JString t)), rc_job_of_value = (\<lambda>_. Inr (ex_job ''j'')),
      rc_job_to_string = (\<lambda>_. Inr ''W''), rc_log_from_str = (\<lambda>t. Inr \<lparr>log_timestamp = 0, log_line = t\<rparr>),
      rc_from_timestamp_millis = (\<lambda>i. Some i), rc_rfc3339 = (\<lambda>_. []),
      rc_duration_to_string = (\<lambda>_. Inr ''5''), rc_float_text = (\<lambda>_. ''0''), rc_error_text = ''error'',
      rc_json_to_string = (\<lambda>_. Inr ''5''), rc_log_to_string = (\<lambda>l. Inr (log_line l))\<rparr>"

definition ex_client :: client where
  "ex_client = \<lparr>cl_ext = ex_ext, cl_codec = ex_codec, cl_lib = ex_lib, cl_queue = redis_new ''q''\<rparr>"

text \<open>One job \<open>j\<close> in an index, and a lock when it is leased.\<close>

definition ex_server :: "string \<Rightarrow> job_state \<Rightarrow> string option \<Rightarrow> keyspace" where
  "ex_server raw state lock =
     keyspace_empty
       \<lparr>ks_string := (\<lambda>_. None)(lock_key (redis_new ''q'') ''j'' := lock),
        ks_hash := (\<lambda>_ _. None)(jobs_key (redis_new ''q'') := (\<lambda>_. None)(''j'' := Some raw)),
        ks_zset := (\<lambda>_. [])(state_key (redis_new ''q'') state := [(''j'', Fin 0)])\<rparr>"

lemmas ex_defs = ex_client_def ex_codec_def ex_lib_def ex_fields_def ex_server_def keyspace_empty_def

lemma small_numbers: "f64_of_int 0 = Fin 0" "f64_round 1 = Fin 1" "f64_round 0 = Fin 0"
    "f64_of_int 1000 = Fin 1000"
  using f64_round_small_nat [of 0] f64_round_small_nat [of 1] f64_round_small_nat [of 1000]
  by (simp_all add: f64_of_int_def)

lemma marker_not_j: "redis_key q ''marker'' \<noteq> ''j''"
proof
  assume "redis_key q ''marker'' = ''j''"
  then have "length (redis_key q ''marker'') = length ''j''" by (rule arg_cong)
  then show False by (simp add: redis_key_def)
qed

theorem redis_renew_lease_never_renews_witness:
  "redis_renew_lease ex_client ref_redis ''j'' ''t'' 1000000000 0 (ex_server ''A'' Active (Some ''t''))
    = (Inl (JobNotFound ''j''), ex_server ''A'' Active (Some ''t''))"
  by (rule redis_renew_lease_never_renews [OF ref_redis_ok]) (simp add: ex_defs queue_keys marker_not_j)

text \<open>What a claim, a release and a delay do on the example server.\<close>

lemmas ex_run = script_run ref_redis_def refresh_delay_marker_def sync_repeat_scheduler_def lua_repeat_key_def
  assign_all_def lua_absent_def lua_true_def lua_number_def lua_text_def json_number_def ks_defs
  zset_remove_def redis_new_def redis_with_namespace_def on_reply_def query_def decode_job_def map_err_def
  normalize_lua_empty_array_def ex_defs queue_keys small_numbers Let_def

lemma ex_claim:
  "fst (redis_claim_next ex_client ref_redis ''t'' ''w'' 1000000000 0 (ex_server ''W'' Waiting None))
    = Inr (Some ((ex_job ''j'')\<lparr>j_lock_token := Some ''t''\<rparr>))"
  by (simp add: redis_claim_next_script claim_script_def queue_claim_keys_def queue_claim_args_def
      queue_is_paused_or_maxed_def effective_rate_limit_def claim_candidate_def count_claim_def
      claimed_job_def announce_claim_def limits_def claim_rate_args_def ex_run)

lemmas ex_leave = eval_script_def with_job_def in_state_def owns_lock_def leave_active_def
  score_arg_def time_arg_def bucket_arg_def nat_arg_def

lemma ex_release:
  "fst (redis_release_active_job ex_client ref_redis ''j'' ''t'' 0 (ex_server ''A'' Active (Some ''t'')))
    = Inr (ex_job ''j'')"
  by (simp add: redis_release_active_job_def release_active_job_script_def hand_back_def lease_fields_def
      priority_of_def push_back_waiting_job_def decode_transition_result_def nth_or_error_def ex_leave ex_run)

lemma ex_delay:
  "fst (redis_delay_active_job ex_client ref_redis ''j'' ''t'' 1000000000 0 (ex_server ''A'' Active (Some ''t'')))
    = Inr (ex_job ''j'')"
  by (simp add: redis_delay_active_job_def delay_active_job_script_def put_off_def lease_fields_def
      assign_option_def add_base_marker_if_waiting_def decode_transition_result_def nth_or_error_def ex_leave ex_run
      zset_insert_def)

lemma pair_of_fst: "fst p = x \<Longrightarrow> p = (x, snd p)"
  by (cases p) simp

definition ex_claimed :: keyspace where
  "ex_claimed = snd (redis_claim_next ex_client ref_redis ''t'' ''w'' 1000000000 0 (ex_server ''W'' Waiting None))"

theorem redis_claim_leases_witness:
  "\<exists>job_id raw job0.
    stored_state (cl_lib ex_client) (ex_server ''W'' Waiting None) (jobs_key (cl_queue ex_client)) job_id
      \<in> {Some (JString ''waiting''), Some (JString ''delayed'')} \<and>
    ks_string ex_claimed (lock_key (cl_queue ex_client) job_id) = Some ''t'' \<and>
    ks_ttl ex_claimed (lock_key (cl_queue ex_client) job_id) = Some (lock_duration_millis 1000000000) \<and>
    map_of (ks_zset ex_claimed (state_key (cl_queue ex_client) Active)) job_id
      = Some (millis (cl_ext ex_client) (add_duration (cl_ext ex_client) 0 1000000000)) \<and>
    job_id \<notin> fst ` set (ks_zset ex_claimed (state_key (cl_queue ex_client) Waiting)) \<and>
    ks_hash ex_claimed (jobs_key (cl_queue ex_client)) job_id = Some raw \<and>
    decode_job (cl_codec ex_client) raw = Inr job0 \<and>
    (ex_job ''j'')\<lparr>j_lock_token := Some ''t''\<rparr> = job0\<lparr>j_lock_token := Some ''t''\<rparr>"
  unfolding ex_claimed_def
  by (rule redis_claim_leases [OF ref_redis_ok pair_of_fst [OF ex_claim]])

theorem redis_blocked_claims_nothing_witness:
  "fst (redis_claim_next ex_client ref_redis ''t'' ''w'' 1000000000 0
     ((ex_server ''W'' Waiting None)\<lparr>ks_hash := (\<lambda>_ _. None)(meta_key (redis_new ''q'') := (\<lambda>_. Some ''1''))\<rparr>))
   \<noteq> Inr (Some (ex_job ''j''))"
  by (rule redis_blocked_claims_nothing [OF ref_redis_ok]) (simp add: ex_defs)

theorem redis_lease_required_witness:
  "redis_release_active_job ex_client ref_redis ''j'' ''x'' 0 (ex_server ''A'' Active (Some ''t''))
     \<in> {(Inl (JobLeaseConflict e), ex_server ''A'' Active (Some ''t'')) | e. True} \<and>
   redis_delay_active_job ex_client ref_redis ''j'' ''x'' 5 0 (ex_server ''A'' Active (Some ''t''))
     \<in> {(Inl (JobLeaseConflict e), ex_server ''A'' Active (Some ''t'')) | e. True} \<and>
   redis_renew_leases ex_client ref_redis [\<lparr>lr_job_id = ''j'', lr_lock_token = ''x''\<rparr>] 5 0
     (ex_server ''A'' Active (Some ''t'')) = (Inr [''j''], ex_server ''A'' Active (Some ''t''))"
  by (rule redis_lease_required [OF ref_redis_ok, where raw = "''A''"
        and kvs = "[(''state'', JString ''active''), (''attempts_made'', JNumber 0), (''scheduled_at'', JString [])]"
        and delay_text = "''5''"])
     (simp_all add: ex_defs)

definition ex_released :: keyspace where
  "ex_released = snd (redis_release_active_job ex_client ref_redis ''j'' ''t'' 0 (ex_server ''A'' Active (Some ''t'')))"

theorem redis_release_hands_back_witness:
  "ks_string (ex_server ''A'' Active (Some ''t'')) (lock_key (cl_queue ex_client) ''j'') = Some ''t'' \<and>
    stored_state (cl_lib ex_client) (ex_server ''A'' Active (Some ''t'')) (jobs_key (cl_queue ex_client)) ''j''
      = Some (JString ''active'') \<and>
    lease_ended (cl_queue ex_client) ex_released ''j'' \<and>
    (\<exists>p. map_of (ks_zset ex_released (state_key (cl_queue ex_client) Waiting)) ''j''
       = Some (pushed_back_score p WAITING_SCORE_BUCKET)) \<and>
    (\<exists>raw. ks_hash ex_released (jobs_key (cl_queue ex_client)) ''j'' = Some raw \<and>
       decode_job (cl_codec ex_client) raw = Inr (ex_job ''j''))"
  unfolding ex_released_def
  by (rule redis_release_hands_back [OF ref_redis_ok pair_of_fst [OF ex_release]])

definition ex_put_off :: keyspace where
  "ex_put_off =
     snd (redis_delay_active_job ex_client ref_redis ''j'' ''t'' 1000000000 0 (ex_server ''A'' Active (Some ''t'')))"

theorem redis_delay_puts_off_witness:
  "ks_string (ex_server ''A'' Active (Some ''t'')) (lock_key (cl_queue ex_client) ''j'') = Some ''t'' \<and>
    stored_state (cl_lib ex_client) (ex_server ''A'' Active (Some ''t'')) (jobs_key (cl_queue ex_client)) ''j''
      = Some (JString ''active'') \<and>
    lease_ended (cl_queue ex_client) ex_put_off ''j'' \<and>
    map_of (ks_zset ex_put_off (state_key (cl_queue ex_client) Delayed)) ''j''
       = Some (millis (cl_ext ex_client) (add_duration (cl_ext ex_client) 0 1000000000)) \<and>
    (\<exists>raw. ks_hash ex_put_off (jobs_key (cl_queue ex_client)) ''j'' = Some raw \<and>
       decode_job (cl_codec ex_client) raw = Inr (ex_job ''j''))"
  unfolding ex_put_off_def
  by (rule redis_delay_puts_off [OF ref_redis_ok pair_of_fst [OF ex_delay]])

end
