(* ===== verification/Redis_Promotion.thy ===== *)
theory Redis_Promotion
  imports Redis_Witnesses
begin

text \<open>
  Why \<open>promote_due_jobs\<close> of \<open>RedisJobQueue\<close> returns: a full batch takes its first job out of the
  delayed index, which nothing in the script adds to, so there are no more batches than delayed jobs.
\<close>

section \<open>The index only loses members\<close>

definition shrinks :: "string \<Rightarrow> keyspace \<Rightarrow> keyspace \<Rightarrow> bool" where
  "shrinks k u v \<longleftrightarrow> length (ks_zset v k) \<le> length (ks_zset u k)"

interpretation shrinking: frame_relation "shrinks k" for k
  by unfold_locales (simp_all add: shrinks_def)

lemma agree_shrinks: "agree {CZset k} u v \<Longrightarrow> shrinks k u v"
  by (simp add: agree_def shrinks_def)

lemma keeps_agree_shrinks: "keeps view (agree {CZset k}) m \<Longrightarrow> keeps view (shrinks k) m"
  by (simp add: keeps_def agree_shrinks)

lemma zset_remove_length: "length (zset_remove m z) \<le> length z"
  by (simp add: zset_remove_def)

lemma zset_remove_shorter: "m \<in> fst ` set z \<Longrightarrow> length (zset_remove m z) < length z"
  unfolding zset_remove_def by (auto intro!: length_filter_less)

lemma promote_due_job_steps:
  assumes ok: "redis_ok R view" and off: "off_repeat p {CZset delayed}"
    and keys: "waiting \<noteq> delayed" "marker \<noteq> delayed"
  obtains f where
    "promote_due_job R lib jobs delayed waiting sequence events marker bucket maxlen p due_id =
       sbind (sread (r_hget R jobs due_id)) (\<lambda>raw. sbind (swrite (snd \<circ> r_zrem R delayed due_id)) (\<lambda>_. f raw))"
    "\<And>raw. keeps view (agree {CZset delayed}) (f raw)"
proof (rule that)
  show "promote_due_job R lib jobs delayed waiting sequence events marker bucket maxlen p due_id =
       sbind (sread (r_hget R jobs due_id)) (\<lambda>raw. sbind (swrite (snd \<circ> r_zrem R delayed due_id)) (\<lambda>_.
       (case raw of
       None \<Rightarrow> sret 0
     | Some text \<Rightarrow>
         sbind (sget (cjson_decode lib text)) (\<lambda>job.
         sbind (lua_index job ''state'') (\<lambda>state.
         if state \<noteq> Some (JString ''delayed'') then sret 0
         else
         sbind (lua_assign job ''state'' (JString ''waiting'')) (\<lambda>job.
         sbind (priority_of lib job) (\<lambda>priority.
         sbind (enqueue_waiting_job R lib jobs waiting sequence job due_id priority bucket marker) (\<lambda>_.
         sbind (lua_index job ''scheduled_at'') (\<lambda>at'.
         sbind (sget (case at' of None \<Rightarrow> None | Some v \<Rightarrow> lua_text lib v)) (\<lambda>iso.
         sbind (sync_repeat_scheduler R lib job due_id p (f64_of_int (iso_to_millis lib iso))
           (lua_tostring lib (f64_of_int (iso_to_millis lib iso)))) (\<lambda>_.
         sbind (swrite (r_xadd R events maxlen (waiting_event due_id ''delayed''))) (\<lambda>_.
         sret 1))))))))))))"
    unfolding promote_due_job_def Let_def ..
qed (intro agreeing.keeps_rules keeps_enqueue [OF ok] keeps_priority keeps_sync_repeat_scheduler [OF ok]
      keeps_commands [OF ok] off; use keys in simp)

lemma promote_due_job_shrinks:
  assumes ok: "redis_ok R view" and off: "off_repeat p {CZset delayed}"
    and keys: "waiting \<noteq> delayed" "marker \<noteq> delayed"
  shows "keeps view (shrinks delayed)
      (promote_due_job R lib jobs delayed waiting sequence events marker bucket maxlen p due_id)"
    and "due_id \<in> fst ` set (ks_zset (view s) delayed) \<Longrightarrow>
      length (ks_zset (view (snd (promote_due_job R lib jobs delayed waiting sequence events marker
        bucket maxlen p due_id s))) delayed) < length (ks_zset (view s) delayed)"
proof -
  obtain f where steps: "promote_due_job R lib jobs delayed waiting sequence events marker bucket maxlen p due_id =
       sbind (sread (r_hget R jobs due_id)) (\<lambda>raw. sbind (swrite (snd \<circ> r_zrem R delayed due_id)) (\<lambda>_. f raw))"
    and f: "\<And>raw. keeps view (agree {CZset delayed}) (f raw)"
    using promote_due_job_steps [OF assms, of lib jobs sequence events bucket maxlen due_id] by blast
  let ?u = "\<lambda>s. snd (r_zrem R delayed due_id s)"
  have run: "view (snd (promote_due_job R lib jobs delayed waiting sequence events marker bucket maxlen p due_id s))
      = view (snd (f (r_hget R jobs due_id s) (?u s)))" for s
    by (simp add: steps script_run)
  have zset: "ks_zset (view (snd (f raw (?u s)))) delayed = zset_remove due_id (ks_zset (view s) delayed)" for raw s
    using f [of raw] unfolding keeps_def agree_def
    by (auto dest: spec [of _ "?u s"] simp: redis_writes [OF ok] ks_zrem_def)
  show "keeps view (shrinks delayed)
      (promote_due_job R lib jobs delayed waiting sequence events marker bucket maxlen p due_id)"
    by (simp add: keeps_def shrinks_def run zset zset_remove_length)
  show "due_id \<in> fst ` set (ks_zset (view s) delayed) \<Longrightarrow>
      length (ks_zset (view (snd (promote_due_job R lib jobs delayed waiting sequence events marker
        bucket maxlen p due_id s))) delayed) < length (ks_zset (view s) delayed)"
    by (simp add: run zset zset_remove_shorter)
qed

lemma promote_loop_shrinks:
  "(\<And>i. keeps view (shrinks k) (f i)) \<Longrightarrow> keeps view (shrinks k) (promote_due_jobs_loop f is n)"
proof (induction f "is" n rule: promote_due_jobs_loop.induct)
  case (2 f i "is" n)
  show ?case by (simp only: promote_due_jobs_loop.simps) (intro shrinking.keeps_bind 2)
qed (simp add: shrinking.keeps_ret)

section \<open>The loop ends\<close>

lemma promote_batch_shrinks:
  assumes ok: "redis_ok R view" and batch: "promote_batch Z R now s = (Inr promoted, s')" and full: "0 < promoted"
  shows "length (ks_zset (view s') (state_key (cl_queue Z) Delayed)) < length (ks_zset (view s) (state_key (cl_queue Z) Delayed))"
proof -
  let ?q = "cl_queue Z" and ?d = "state_key (cl_queue Z) Delayed"
  let ?ids = "r_zdue R ?d (millis (cl_ext Z) now) 1000 s"
  let ?job = "promote_due_job R (cl_lib Z) (jobs_key ?q) ?d (state_key ?q Waiting) (sequence_key ?q) (events_key ?q)
     (marker_key ?q) WAITING_SCORE_BUCKET DEFAULT_JOB_EVENT_RETENTION (repeat_key_prefix ?q)"
  have off: "off_repeat (repeat_key_prefix ?q) {CZset ?d}" by (simp add: off_repeat_queue queue_keys)
  have keys: "state_key ?q Waiting \<noteq> ?d" "marker_key ?q \<noteq> ?d" by (simp_all add: queue_keys)
  from batch obtain s1 where loop: "promote_due_jobs_loop ?job ?ids 0 s = (Some promoted, s1)"
    and mark: "refresh_delay_marker R (marker_key ?q) ?d s1 = (Some (), s')"
    by (auto simp: promote_batch_def query_def eval_script_def promote_due_jobs_script_def score_arg_def
        bucket_arg_def nat_arg_def script_run Let_def elim!: sbind_SomeE split: prod.splits option.splits)
  note shrinks = promote_due_job_shrinks [OF ok off keys]
  have "length (ks_zset (view s1) ?d) < length (ks_zset (view s) ?d)"
  proof (cases ?ids)
    case Nil
    with loop full show ?thesis by (simp add: script_run)
  next
    case (Cons i "is")
    have "i \<in> set ?ids" by (simp add: Cons)
    from this [unfolded redis_reads [OF ok], THEN in_set_takeD]
    have "i \<in> fst ` set (ks_zset (view s) ?d)" by auto
    from shrinks(2) [OF this] have "length (ks_zset (view (snd (?job i s))) ?d) < length (ks_zset (view s) ?d)" .
    moreover obtain k s2 where "?job i s = (Some k, s2)" "promote_due_jobs_loop ?job is k s2 = (Some promoted, s1)"
      using loop by (auto simp: Cons elim!: sbind_SomeE)
    moreover from keepsD [OF promote_loop_shrinks [OF shrinks(1)] this(2)]
    have "length (ks_zset (view s1) ?d) \<le> length (ks_zset (view s2) ?d)" by (simp add: shrinks_def)
    ultimately show ?thesis by simp
  qed
  moreover have "shrinks ?d (view s1) (view s')"
    by (rule keepsD [OF keeps_agree_shrinks [OF keeps_refresh [OF ok]] mark]) (simp add: queue_keys)
  ultimately show ?thesis by (simp add: shrinks_def)
qed

text \<open>
  C17. \<open>promote_due_jobs\<close> of the Redis backend returns on every lawful server, however many jobs are due:
  it needs no more batches than there are jobs in the delayed index, and one.
\<close>

theorem redis_promote_due_jobs_ends:
  assumes ok: "redis_ok R view" and fuel: "length (ks_zset (view s) (state_key (cl_queue Z) Delayed)) < fuel"
  shows "\<exists>reply. redis_promote_due_jobs fuel Z R now s = Some reply"
proof -
  have "\<exists>reply. promote_batches fuel Z R now sofar s = Some reply" for sofar
    using fuel
  proof (induction fuel arbitrary: s sofar)
    case (Suc fuel)
    show ?case
    proof (cases "promote_batch Z R now s")
      case (Pair r s')
      show ?thesis
      proof (cases "\<exists>promoted. r = Inr promoted \<and> 1000 \<le> promoted")
        case True
        then obtain promoted where r: "r = Inr promoted" "1000 \<le> promoted" by blast
        then have "length (ks_zset (view s') (state_key (cl_queue Z) Delayed))
            < length (ks_zset (view s) (state_key (cl_queue Z) Delayed))"
          using promote_batch_shrinks [OF ok, of Z now s promoted s'] Pair by simp
        with Suc show ?thesis using Pair r by simp
      qed (use Pair in \<open>auto split: sum.split\<close>)
    qed
  qed simp
  then show ?thesis by (simp add: redis_promote_due_jobs_def)
qed

theorem redis_promote_due_jobs_ends_witness:
  "\<exists>reply. redis_promote_due_jobs 1 ex_client ref_redis 0 (ex_server ''W'' Waiting None) = Some reply"
  by (rule redis_promote_due_jobs_ends [OF ref_redis_ok]) (simp add: ex_defs queue_keys)

end
