(* ===== verification/Redis_Finish.thy ===== *)
theory Redis_Finish
  imports Redis_Client
begin

text \<open>
  The functions that \<open>COMPLETE_SCRIPT\<close> and \<open>FAIL_SCRIPT\<close> of \<open>src/src/job/redis.rs\<close> share: retention
  of finished jobs, deduplication and repeat keys, the job kept back by deduplication, metrics, and
  what a finished child does to its parent. The keys and arguments that one script hands from
  function to function unchanged are the fields of \<open>finish_env\<close>; a function reads the ones it is
  given in the code.
\<close>

section \<open>Reading\<close>

text \<open>A field used as an argument of a command or of \<open>..\<close>; \<open>nil\<close> raises, as does a table.\<close>

definition field_text :: "lua_lib \<Rightarrow> json \<Rightarrow> string \<Rightarrow> ('s, string) script" where
  "field_text lib job f =
     sbind (lua_index job f) (\<lambda>v. sget (case v of None \<Rightarrow> None | Some x \<Rightarrow> lua_text lib x))"

text \<open>\<open>job["options"][field]\<close>, \<open>nil\<close> without options.\<close>

definition options_field :: "json \<Rightarrow> string \<Rightarrow> ('s, json option) script" where
  "options_field job f =
     sbind (lua_index job ''options'') (\<lambda>o'. if lua_absent o' then sret None else lua_index (the o') f)"

text \<open>Whether one of the flags of the options is \<open>true\<close>.\<close>

fun any_flag :: "json \<Rightarrow> string list \<Rightarrow> ('s, bool) script" where
  "any_flag job [] = sret False"
| "any_flag job (f # fs) =
     sbind (options_field job f) (\<lambda>v. if v = Some (JBool True) then sret True else any_flag job fs)"

text \<open>\<open>tonumber(x or '0') or 0\<close>.\<close>

definition number_or_zero :: "lua_lib \<Rightarrow> json option \<Rightarrow> f64" where
  "number_or_zero lib v =
     (case lua_number lib (if lua_true v then the v else JString ''0'') of Some x \<Rightarrow> x | None \<Rightarrow> Fin 0)"

text \<open>\<open>x > y\<close>, and a number as an integer; the numbers of the scripts are far below \<open>2 ^ 53\<close>.\<close>

definition lua_gt :: "f64 \<Rightarrow> f64 \<Rightarrow> bool" where
  "lua_gt x y \<longleftrightarrow> x \<noteq> NaN \<and> y \<noteq> NaN \<and> y < x"

definition f64_int :: "f64 \<Rightarrow> int option" where
  "f64_int x = (case x of Fin r \<Rightarrow> if r = of_int \<lfloor>r\<rfloor> then Some \<lfloor>r\<rfloor> else None | _ \<Rightarrow> None)"

text \<open>A number as the count or the milliseconds of a command: the server refuses a fraction.\<close>

definition f64_nat :: "f64 \<Rightarrow> nat option" where
  "f64_nat x = (case f64_int x of Some i \<Rightarrow> if 0 \<le> i then Some (nat i) else None | None \<Rightarrow> None)"

definition f64_pos :: "f64 \<Rightarrow> nat option" where
  "f64_pos x = (case f64_nat x of Some n \<Rightarrow> if 0 < n then Some n else None | None \<Rightarrow> None)"

text \<open>
  What \<open>ipairs(x or {})\<close> runs through. The empty table is the array without elements, however it was
  written. The program stores arrays; a table with named fields is not one and ends the model's
  script.
\<close>

definition lua_items :: "json option \<Rightarrow> ('s, json list) script" where
  "lua_items v =
     (case v of
        None \<Rightarrow> sret []
      | Some (JBool False) \<Rightarrow> sret []
      | Some (JArray xs) \<Rightarrow> sret xs
      | Some (JObject []) \<Rightarrow> sret []
      | _ \<Rightarrow> sraise)"

definition job_exists :: "'s redis \<Rightarrow> string \<Rightarrow> job_id \<Rightarrow> ('s, bool) script" where
  "job_exists R jobs job_id = sread (\<lambda>s. r_hget R jobs job_id s \<noteq> None)"

text \<open>\<open>EXISTS\<close> of the set of pending children: a set without members is no key.\<close>

definition set_exists :: "'s redis \<Rightarrow> string \<Rightarrow> ('s, bool) script" where
  "set_exists R k = sread (\<lambda>s. r_scard R k s > 0)"

text \<open>\<open>SREM\<close> with its reply.\<close>

definition srem_reply :: "'s redis \<Rightarrow> string \<Rightarrow> string \<Rightarrow> ('s, bool) script" where
  "srem_reply R k m =
     sbind (sread (r_sismember R k m)) (\<lambda>member. sbind (swrite (r_srem R k m)) (\<lambda>_. sret member))"

section \<open>Durations and deduplication\<close>

definition lua_duration_millis :: "lua_lib \<Rightarrow> json option \<Rightarrow> ('s, f64 option) script" where
  "lua_duration_millis lib d =
     (if lua_absent d then sret None
      else case the d of
        JNumber r \<Rightarrow> sret (Some (lua_floor (Fin r)))
      | v \<Rightarrow> sbind (interval_millis lib v) (\<lambda>m. sret (if m \<noteq> NaN \<and> m \<le> Fin 0 then None else Some m)))"

text \<open>The identifier is only ever appended to a prefix, so one that is no text raises.\<close>

definition lua_deduplication_id :: "lua_lib \<Rightarrow> json \<Rightarrow> ('s, string option) script" where
  "lua_deduplication_id lib job =
     sbind (options_field job ''deduplication'') (\<lambda>d.
     if lua_absent d then sret None
     else
     sbind (lua_index (the d) ''id'') (\<lambda>i.
     if lua_absent i \<or> i = Some (JString []) then sret None
     else sbind (sget (lua_text lib (the i))) (\<lambda>t. sret (Some t))))"

definition deduplication_ttl_millis :: "lua_lib \<Rightarrow> json \<Rightarrow> ('s, f64 option) script" where
  "deduplication_ttl_millis lib job =
     sbind (options_field job ''deduplication'') (\<lambda>d.
     if lua_absent d then sret None
     else
     sbind (lua_index (the d) ''keep_last_if_active'') (\<lambda>k.
     if k = Some (JBool True) then sret None
     else sbind (lua_index (the d) ''ttl'') (lua_duration_millis lib)))"

definition release_deduplication_key_on_finalization ::
  "'s redis \<Rightarrow> lua_lib \<Rightarrow> json \<Rightarrow> job_id \<Rightarrow> string \<Rightarrow> ('s, unit) script" where
  "release_deduplication_key_on_finalization R lib job job_id deduplication_prefix =
     sbind (lua_deduplication_id lib job) (\<lambda>i.
     case i of
       None \<Rightarrow> sret ()
     | Some i \<Rightarrow>
         let owner = deduplication_prefix @ i in
         sbind (sread (r_pttl R owner)) (\<lambda>pttl.
         if pttl = 0 then swrite (r_del R owner)
         else if pttl = - 1
         then sbind (sread (r_get R owner)) (\<lambda>current.
              swhen (current = Some job_id) (swrite (r_del R owner)))
         else sret ()))"

definition set_deduplication_key ::
  "'s redis \<Rightarrow> lua_lib \<Rightarrow> json \<Rightarrow> job_id \<Rightarrow> string \<Rightarrow> ('s, unit) script" where
  "set_deduplication_key R lib job job_id deduplication_prefix =
     sbind (lua_deduplication_id lib job) (\<lambda>i.
     case i of
       None \<Rightarrow> sret ()
     | Some i \<Rightarrow>
         sbind (deduplication_ttl_millis lib job) (\<lambda>ttl.
         case ttl of
           Some t \<Rightarrow> sbind (sget (f64_pos t)) (\<lambda>n. swrite (r_set_px R (deduplication_prefix @ i) job_id n))
         | None \<Rightarrow> swrite (r_set R (deduplication_prefix @ i) job_id)))"

section \<open>Repeat series\<close>

text \<open>The scheduler entry of a series; \<open>scheduled\<close> is its score and \<open>next_text\<close> the score as a text.\<close>

definition store_repeat_scheduler ::
  "'s redis \<Rightarrow> lua_lib \<Rightarrow> json \<Rightarrow> job_id \<Rightarrow> string \<Rightarrow> f64 \<Rightarrow> string \<Rightarrow> ('s, unit) script" where
  "store_repeat_scheduler R lib job job_id repeat_prefix scheduled next_text =
     sbind (lua_repeat_key job) (\<lambda>rkey.
     case rkey of
       None \<Rightarrow> sret ()
     | Some rkey \<Rightarrow>
     sbind (options_field job ''repeat'') (\<lambda>rep.
     sbind (sget (lua_text lib rkey)) (\<lambda>rkey.
     let meta = lua_repeat_scheduler_meta_key repeat_prefix rkey in
     sbind (swrite (r_zadd R (lua_repeat_scheduler_key repeat_prefix) scheduled rkey)) (\<lambda>_.
     sbind (swrite (r_del R meta)) (\<lambda>_.
     sbind (lua_index job ''name'') (\<lambda>name.
     sbind (lua_index job ''state'') (\<lambda>state.
     sbind (lua_index job ''repeat_count'') (\<lambda>cnt.
     sbind (text_or lib [] name) (\<lambda>name.
     sbind (text_or lib [] state) (\<lambda>state.
     sbind (text_or lib ''0'' cnt) (\<lambda>cnt.
     sbind (sseq
       [swrite (r_hset R meta ''jid'' job_id),
        swrite (r_hset R meta ''name'' name),
        swrite (r_hset R meta ''next'' next_text),
        swrite (r_hset R meta ''state'' state),
        swrite (r_hset R meta ''count'' cnt),
        swrite (r_hset R meta ''opts'' (if lua_absent rep then [] else cjson_encode lib (the rep))),
        swrite (r_hset R meta ''key'' rkey)]) (\<lambda>_.
     if lua_absent rep then sret () else store_repeat_options R lib meta (the rep)))))))))))))"

text \<open>\<open>COMPLETE_SCRIPT\<close> takes the score from the job.\<close>

definition scheduled_millis_of :: "lua_lib \<Rightarrow> json \<Rightarrow> ('s, f64) script" where
  "scheduled_millis_of lib job =
     sbind (field_text lib job ''scheduled_at'') (\<lambda>iso. sret (f64_of_int (iso_to_millis lib iso)))"

definition store_repeat_scheduler_of_job ::
  "'s redis \<Rightarrow> lua_lib \<Rightarrow> json \<Rightarrow> job_id \<Rightarrow> string \<Rightarrow> ('s, unit) script" where
  "store_repeat_scheduler_of_job R lib job job_id repeat_prefix =
     sbind (lua_repeat_key job) (\<lambda>rkey.
     if rkey = None then sret ()
     else sbind (scheduled_millis_of lib job) (\<lambda>scheduled.
          store_repeat_scheduler R lib job job_id repeat_prefix scheduled (lua_tostring lib scheduled)))"

definition set_repeat_owner :: "'s redis \<Rightarrow> lua_lib \<Rightarrow> json \<Rightarrow> job_id \<Rightarrow> string \<Rightarrow> ('s, unit) script" where
  "set_repeat_owner R lib job job_id repeat_prefix =
     sbind (lua_repeat_key job) (\<lambda>rkey.
     case rkey of
       None \<Rightarrow> sret ()
     | Some rkey \<Rightarrow>
         sbind (sget (lua_text lib rkey)) (\<lambda>rkey. swrite (r_set R (repeat_prefix @ rkey) job_id)))"

definition set_repeat_key :: "'s redis \<Rightarrow> lua_lib \<Rightarrow> json \<Rightarrow> job_id \<Rightarrow> string \<Rightarrow> ('s, unit) script" where
  "set_repeat_key R lib job job_id repeat_prefix =
     sbind (set_repeat_owner R lib job job_id repeat_prefix) (\<lambda>_.
     store_repeat_scheduler_of_job R lib job job_id repeat_prefix)"

definition release_repeat_key :: "'s redis \<Rightarrow> lua_lib \<Rightarrow> json \<Rightarrow> job_id \<Rightarrow> string \<Rightarrow> ('s, unit) script" where
  "release_repeat_key R lib job job_id repeat_prefix =
     sbind (lua_repeat_key job) (\<lambda>rkey.
     case rkey of
       None \<Rightarrow> sret ()
     | Some rkey \<Rightarrow>
     sbind (sget (lua_text lib rkey)) (\<lambda>rkey.
     let owner_key = repeat_prefix @ rkey;
         meta = lua_repeat_scheduler_meta_key repeat_prefix rkey
     in
     sbind (sread (r_get R owner_key)) (\<lambda>owner.
     let owner_matches = (owner = Some job_id) in
     sbind (swhen owner_matches (swrite (r_del R owner_key))) (\<lambda>_.
     sbind (sread (r_hget R meta ''jid'')) (\<lambda>scheduler_owner_id.
     swhen (scheduler_owner_id = Some job_id \<or> (owner_matches \<and> scheduler_owner_id = None))
       (sbind (swrite (snd \<circ> r_zrem R (lua_repeat_scheduler_key repeat_prefix) rkey)) (\<lambda>_.
        swrite (r_del R meta))))))))"

section \<open>Retention\<close>

text \<open>The keys and arguments handed through.\<close>

record finish_env =
  fe_jobs :: string
  fe_active :: string
  fe_waiting :: string
  fe_waiting_children :: string
  fe_delayed :: string
  fe_failed :: string
  fe_sequence :: string
  fe_events :: string
  fe_marker :: string
  fe_failed_metrics :: string
  fe_failed_data :: string
  fe_dependency :: string
  fe_deduplication :: string
  fe_deduplication_next :: string
  fe_repeat :: string
  fe_logs :: string
  fe_now_iso :: string
  fe_now :: f64
  fe_now_text :: string
  fe_bucket :: f64
  fe_maxlen :: nat
  fe_max_points :: "f64 option"

definition retention_options ::
  "json \<Rightarrow> string \<Rightarrow> string \<Rightarrow> bool \<Rightarrow> ('s, json option) script" where
  "retention_options job remove_field retention_field legacy_remove =
     (let at_once = Some (JObject [(''count'', JNumber 0)]) in
      if legacy_remove then sret at_once
      else
      sbind (options_field job remove_field) (\<lambda>remove.
      if remove = Some (JBool True) then sret at_once
      else
      sbind (options_field job retention_field) (\<lambda>retention.
      sret (if lua_absent retention then None else retention))))"

definition lua_retention_count :: "lua_lib \<Rightarrow> json option \<Rightarrow> ('s, f64 option) script" where
  "lua_retention_count lib retention =
     (if lua_absent retention then sret None
      else sbind (lua_index (the retention) ''count'') (\<lambda>c.
           sret (case c of None \<Rightarrow> None | Some v \<Rightarrow> lua_number lib v)))"

definition retention_age_millis :: "lua_lib \<Rightarrow> json option \<Rightarrow> ('s, f64 option) script" where
  "retention_age_millis lib retention =
     (if lua_absent retention then sret None
      else sbind (lua_index (the retention) ''age'') (\<lambda>age.
           sbind (lua_duration_millis lib age) (\<lambda>age.
           sret (case age of Some a \<Rightarrow> if lua_gt a (Fin 0) then Some a else None | None \<Rightarrow> None))))"

definition retention_limit :: "lua_lib \<Rightarrow> json option \<Rightarrow> ('s, f64) script" where
  "retention_limit lib retention =
     (if lua_absent retention then sret (Fin 1000)
      else sbind (lua_index (the retention) ''limit'') (\<lambda>limit.
           let n = (case lua_number lib (if lua_true limit then the limit else JString ''1000'') of
                      Some x \<Rightarrow> x | None \<Rightarrow> Fin 1000)
           in sret (if n \<noteq> NaN \<and> n \<le> Fin 0 then Fin 1000 else n)))"

definition remove_dependency_keys :: "'s redis \<Rightarrow> string \<Rightarrow> job_id \<Rightarrow> ('s, unit) script" where
  "remove_dependency_keys R dependency_prefix job_id =
     sseq (map (\<lambda>suffix. swrite (r_del R (dependency_prefix @ job_id @ suffix)))
       [[], '':processed'', '':failed'', '':unsuccessful''])"

definition lua_remove_finished_job :: "'s redis \<Rightarrow> lua_lib \<Rightarrow> finish_env \<Rightarrow> job_id \<Rightarrow> ('s, unit) script" where
  "lua_remove_finished_job R lib E job_id =
     sbind (sread (r_hget R (fe_jobs E) job_id)) (\<lambda>raw.
     sbind (case raw of
              None \<Rightarrow> sret ()
            | Some t \<Rightarrow> sbind (sget (cjson_decode lib t)) (\<lambda>removed.
                        release_repeat_key R lib removed job_id (fe_repeat E))) (\<lambda>_.
     sbind (swrite (r_hdel R (fe_jobs E) job_id)) (\<lambda>_.
     sbind (remove_dependency_keys R (fe_dependency E) job_id) (\<lambda>_.
     swrite (r_del R (fe_logs E @ job_id))))))"

definition remove_finished_jobs_by_max_age ::
  "'s redis \<Rightarrow> lua_lib \<Rightarrow> finish_env \<Rightarrow> json option \<Rightarrow> string \<Rightarrow> ('s, unit) script" where
  "remove_finished_jobs_by_max_age R lib E retention target_set =
     sbind (retention_age_millis lib retention) (\<lambda>max_age.
     case max_age of
       None \<Rightarrow> sret ()
     | Some max_age \<Rightarrow>
     sbind (retention_limit lib retention) (\<lambda>max_limit.
     let start = f64_sub (fe_now E) max_age in
     sbind (sget (f64_nat max_limit)) (\<lambda>max_limit.
     sbind (sread (r_zrevdue R target_set start max_limit)) (\<lambda>job_ids.
     sbind (seach (lua_remove_finished_job R lib E) job_ids) (\<lambda>_.
     if job_ids = [] then sret ()
     else if length job_ids < max_limit then swrite (r_zremdue R target_set start)
     else seach (\<lambda>job_id. swrite (snd \<circ> r_zrem R target_set job_id)) job_ids)))))"

definition remove_finished_jobs_by_max_count ::
  "'s redis \<Rightarrow> lua_lib \<Rightarrow> finish_env \<Rightarrow> f64 option \<Rightarrow> string \<Rightarrow> ('s, unit) script" where
  "remove_finished_jobs_by_max_count R lib E max_count target_set =
     (case max_count of
        None \<Rightarrow> sret ()
      | Some m \<Rightarrow>
          if m \<noteq> NaN \<and> m \<le> Fin 0 then sret ()
          else
          sbind (sget (f64_nat m)) (\<lambda>n.
          sbind (sread (r_zrevfrom R target_set n)) (\<lambda>job_ids.
          sbind (seach (lua_remove_finished_job R lib E) job_ids) (\<lambda>_.
          swrite (r_zkeep R target_set n)))))"

definition lua_apply_finished_retention ::
  "'s redis \<Rightarrow> lua_lib \<Rightarrow> finish_env \<Rightarrow> json option \<Rightarrow> string \<Rightarrow> ('s, unit) script" where
  "lua_apply_finished_retention R lib E retention target_set =
     (if lua_absent retention then sret ()
      else
      sbind (remove_finished_jobs_by_max_age R lib E retention target_set) (\<lambda>_.
      sbind (lua_retention_count lib retention) (\<lambda>max_count.
      remove_finished_jobs_by_max_count R lib E max_count target_set)))"

text \<open>The finished job: removed at once if nothing of its kind is kept, else stored and indexed.\<close>

definition retain_finished ::
  "'s redis \<Rightarrow> lua_lib \<Rightarrow> finish_env \<Rightarrow> json option \<Rightarrow> string \<Rightarrow> job_id \<Rightarrow> string \<Rightarrow> ('s, unit) script" where
  "retain_finished R lib E retention target_set job_id updated =
     sbind (lua_retention_count lib retention) (\<lambda>max_count.
     if max_count = Some (Fin 0) then lua_remove_finished_job R lib E job_id
     else
     sbind (swrite (r_hset R (fe_jobs E) job_id updated)) (\<lambda>_.
     sbind (swrite (r_zadd R target_set (fe_now E) job_id)) (\<lambda>_.
     lua_apply_finished_retention R lib E retention target_set)))"

section \<open>Metrics and events\<close>

definition count_points :: "'s redis \<Rightarrow> lua_lib \<Rightarrow> string \<Rightarrow> string \<Rightarrow> f64 \<Rightarrow> f64 \<Rightarrow> string \<Rightarrow> f64 \<Rightarrow> ('s, unit) script" where
  "count_points R lib hash points_list max_points n timestamp cnt =
     sbind (sread (r_hget R hash ''prevCount'')) (\<lambda>prev.
     let delta = f64_sub cnt (case lua_tonumber lib (case prev of None \<Rightarrow> ''0'' | Some t \<Rightarrow> t) of
                                Some x \<Rightarrow> x | None \<Rightarrow> Fin 0)
     in
     sbind (sget (f64_pos n)) (\<lambda>points.
     sbind (swrite (r_lpush R points_list
       (lua_tostring lib delta # replicate (points - 1) (lua_tostring lib (Fin 0))))) (\<lambda>_.
     sbind (sget (f64_pos max_points)) (\<lambda>keep.
     sbind (swrite (r_ltrim_first R points_list keep)) (\<lambda>_.
     sbind (swrite (r_hset R hash ''prevCount'' (lua_tostring lib cnt))) (\<lambda>_.
     swrite (r_hset R hash ''prevTS'' timestamp)))))))"

text \<open>
  One data point per minute since the last one, the count of the first and zeros for the others, at
  most \<open>max_points\<close>. The zeros are pushed in portions of 7000, in one go here.
\<close>

definition lua_collect_metrics ::
  "'s redis \<Rightarrow> lua_lib \<Rightarrow> finish_env \<Rightarrow> string \<Rightarrow> string \<Rightarrow> ('s, unit) script" where
  "lua_collect_metrics R lib E hash points_list =
     (case fe_max_points E of
        None \<Rightarrow> sret ()
      | Some max_points \<Rightarrow>
          if max_points \<noteq> NaN \<and> max_points \<le> Fin 0 then sret ()
          else
          sbind (sreply (r_hincr R hash ''count'')) (\<lambda>reply.
          sbind (sget reply) (\<lambda>c.
          let cnt = f64_of_int (c - 1) in
          sbind (sread (r_hget R hash ''prevTS'')) (\<lambda>prev_ts.
          case prev_ts of
            None \<Rightarrow>
              sbind (swrite (r_hset R hash ''prevTS'' (fe_now_text E))) (\<lambda>_.
              swrite (r_hset R hash ''prevCount'' ''0''))
          | Some t \<Rightarrow>
              sbind (sget (lua_tonumber lib t)) (\<lambda>prev_ts.
              let minute = (\<lambda>x. lua_floor (f64_div x (Fin 60000)));
                  elapsed = f64_sub (minute (fe_now E)) (minute prev_ts);
                  n = (if lua_gt elapsed max_points then max_points else elapsed)
              in
              swhen (lua_gt n (Fin 0))
                (count_points R lib hash points_list max_points n (fe_now_text E) cnt))))))"

text \<open>An event of a parent that leaves \<open>waiting-children\<close>.\<close>

definition emit_parent_transition ::
  "'s redis \<Rightarrow> finish_env \<Rightarrow> string \<Rightarrow> job_id \<Rightarrow> string \<Rightarrow> ('s, unit) script" where
  "emit_parent_transition R E event job_id failed_reason =
     swrite (r_xadd R (fe_events E) (fe_maxlen E)
       (if event = ''failed''
        then [(''event'', ''failed''), (''jobId'', job_id), (''failedReason'', failed_reason),
              (''prev'', ''waiting-children'')]
        else [(''event'', event), (''jobId'', job_id), (''prev'', ''waiting-children'')]))"

definition lua_emit_drained :: "'s redis \<Rightarrow> finish_env \<Rightarrow> ('s, unit) script" where
  "lua_emit_drained R E =
     sbind (sread (r_zcard R (fe_waiting E))) (\<lambda>w.
     sbind (sread (r_zcard R (fe_active E))) (\<lambda>a.
     swhen (w = 0 \<and> a = 0) (swrite (r_xadd R (fe_events E) (fe_maxlen E) [(''event'', ''drained'')]))))"

end
