(* ===== verification/Redis_Complete.thy ===== *)
theory Redis_Complete
  imports Redis_Finish
begin

text \<open>
  \<open>COMPLETE_SCRIPT\<close> and \<open>FAIL_SCRIPT\<close> of \<open>src/src/job/redis.rs\<close>: the job that takes the place of a
  finished one (kept back by deduplication, or the next of a repeat series), the parent of a
  finished child, the two scripts from their \<open>KEYS\<close> and \<open>ARGV\<close> to their reply, and the operations
  that call them.
\<close>

section \<open>The job kept back by deduplication\<close>

text \<open>\<open>nil\<close>: no series is concerned; \<open>Some None\<close>, \<open>false\<close>: the next job must not be added.\<close>

definition lua_repeat_keep_last_next_count :: "lua_lib \<Rightarrow> json \<Rightarrow> json \<Rightarrow> ('s, f64 option option) script" where
  "lua_repeat_keep_last_next_count lib owner_job next_job =
     sbind (lua_repeat_key next_job) (\<lambda>next_repeat_key.
     sbind (lua_repeat_key owner_job) (\<lambda>owner_repeat_key.
     if next_repeat_key = None then sret (if owner_repeat_key \<noteq> None then Some None else None)
     else if owner_repeat_key = None \<or> owner_repeat_key \<noteq> next_repeat_key then sret (Some None)
     else
     sbind (lua_index owner_job ''repeat_count'') (\<lambda>cnt.
     let next_count = f64_add (number_or_zero lib cnt) (Fin 1) in
     sbind (options_field owner_job ''repeat'') (\<lambda>rep.
     if lua_absent rep then sret (Some (Some next_count))
     else
     sbind (lua_index (the rep) ''limit'') (\<lambda>limit.
     let limit = number_or_zero lib limit in
     sret (if lua_gt limit (Fin 0) \<and> f64_ge next_count limit then Some None
           else Some (Some next_count)))))))"

text \<open>The fields a new run starts with.\<close>

definition fresh_fields :: "(string \<times> json) list" where
  "fresh_fields =
     [(''attempts_made'', JNumber 0), (''stalled_count'', JNumber 0), (''processed_at'', JNull),
      (''finished_at'', JNull), (''worker_id'', JNull), (''lock_token'', JNull),
      (''lease_expires_at'', JNull), (''deferred_failure'', JNull), (''failed_reason'', JNull),
      (''return_value'', JNull), (''progress'', JNull), (''logs'', JArray [])]"

text \<open>The prepared job and the milliseconds it is scheduled for.\<close>

definition lua_prepare_deduplicated_next_job :: "lua_lib \<Rightarrow> finish_env \<Rightarrow> json \<Rightarrow> ('s, json \<times> f64) script" where
  "lua_prepare_deduplicated_next_job lib E job =
     sbind (options_field job ''delay'') (\<lambda>d.
     sbind (lua_duration_millis lib d) (\<lambda>delay.
     let scheduled_millis = (case delay of None \<Rightarrow> fe_now E | Some x \<Rightarrow> f64_add (fe_now E) x) in
     sbind (sget (f64_int scheduled_millis)) (\<lambda>at'.
     sbind (assign_all
       ([(''created_at'', JString (fe_now_iso E)), (''scheduled_at'', JString (millis_to_iso at')),
         (''state'', JString (if lua_gt scheduled_millis (fe_now E) then ''delayed'' else ''waiting''))]
        @ fresh_fields) job) (\<lambda>job.
     sbind (deduplication_ttl_millis lib job) (\<lambda>ttl.
     sbind (case ttl of
              None \<Rightarrow> sret JNull
            | Some t \<Rightarrow> sbind (sget (f64_int (f64_add (fe_now E) t))) (\<lambda>i. sret (JString (millis_to_iso i)))) (\<lambda>expires.
     sbind (lua_assign job ''deduplication_expires_at'' expires) (\<lambda>job.
     sret (job, scheduled_millis))))))))"

definition enqueue_prepared_job :: "'s redis \<Rightarrow> lua_lib \<Rightarrow> finish_env \<Rightarrow> json \<Rightarrow> f64 \<Rightarrow> ('s, unit) script" where
  "enqueue_prepared_job R lib E job scheduled_millis =
     sbind (lua_index job ''state'') (\<lambda>state.
     if state = Some (JString ''waiting'') then
       sbind (priority_of lib job) (\<lambda>priority.
       sbind (field_text lib job ''id'') (\<lambda>job_id.
       sbind (enqueue_waiting_job R lib (fe_jobs E) (fe_waiting E) (fe_sequence E) job job_id priority
         (fe_bucket E) (fe_marker E)) (\<lambda>_. sret ())))
     else
       sbind (field_text lib job ''id'') (\<lambda>job_id.
       sbind (swrite (r_hset R (fe_jobs E) job_id (cjson_encode lib job))) (\<lambda>_.
       if state = Some (JString ''delayed'') then
         sbind (swrite (r_zadd R (fe_delayed E) scheduled_millis job_id)) (\<lambda>_.
         refresh_delay_marker R (fe_marker E) (fe_delayed E))
       else
         swhen (state = Some (JString ''waiting_children''))
           (swrite (r_zadd R (fe_waiting_children E) scheduled_millis job_id)))))"

fun some_job_exists :: "'s redis \<Rightarrow> lua_lib \<Rightarrow> string \<Rightarrow> json list \<Rightarrow> ('s, bool) script" where
  "some_job_exists R lib jobs [] = sret False"
| "some_job_exists R lib jobs (c # cs) =
     sbind (field_text lib c ''id'') (\<lambda>i.
     sbind (job_exists R jobs i) (\<lambda>b. if b then sret True else some_job_exists R lib jobs cs))"

text \<open>\<open>child["id"]\<close> of each child.\<close>

fun child_id_list :: "json list \<Rightarrow> ('s, json list) script" where
  "child_id_list [] = sret []"
| "child_id_list (c # cs) =
     sbind (lua_index c ''id'') (\<lambda>i.
     sbind (sget i) (\<lambda>i. sbind (child_id_list cs) (\<lambda>is. sret (i # is))))"

text \<open>One child of the flow: it blocks the parent \<open>parent_id\<close> until it is finished.\<close>

definition enqueue_flow_child ::
  "'s redis \<Rightarrow> lua_lib \<Rightarrow> finish_env \<Rightarrow> json \<Rightarrow> string \<Rightarrow> json \<Rightarrow> ('s, unit) script" where
  "enqueue_flow_child R lib E parent_id dependency_key child =
     sbind (lua_prepare_deduplicated_next_job lib E child) (\<lambda>(child, scheduled).
     sbind (assign_all [(''parent_id'', parent_id), (''child_ids'', JArray [])] child) (\<lambda>child.
     sbind (field_text lib child ''id'') (\<lambda>child_id.
     sbind (swrite (r_sadd R dependency_key child_id)) (\<lambda>_.
     sbind (set_deduplication_key R lib child child_id (fe_deduplication E)) (\<lambda>_.
     enqueue_prepared_job R lib E child scheduled)))))"

definition enqueue_next_flow ::
  "'s redis \<Rightarrow> lua_lib \<Rightarrow> finish_env \<Rightarrow> string \<Rightarrow> json \<Rightarrow> json list \<Rightarrow> ('s, bool) script" where
  "enqueue_next_flow R lib E next_key parent children =
     sbind (child_id_list children) (\<lambda>child_ids.
     sbind (lua_prepare_deduplicated_next_job lib E parent) (\<lambda>(parent, scheduled).
     sbind (assign_all [(''parent_id'', JNull), (''child_ids'', JArray child_ids)] parent) (\<lambda>parent.
     sbind (if children \<noteq> [] then lua_assign parent ''state'' (JString ''waiting_children'') else sret parent) (\<lambda>parent.
     sbind (field_text lib parent ''id'') (\<lambda>parent_id.
     sbind (set_deduplication_key R lib parent parent_id (fe_deduplication E)) (\<lambda>_.
     sbind (enqueue_prepared_job R lib E parent scheduled) (\<lambda>_.
     sbind (lua_index parent ''id'') (\<lambda>id_value.
     sbind (swhen (children \<noteq> [])
       (sbind (swrite (r_del R (fe_dependency E @ parent_id))) (\<lambda>_.
        seach (enqueue_flow_child R lib E (the id_value) (fe_dependency E @ parent_id)) children))) (\<lambda>_.
     sbind (swrite (r_del R next_key)) (\<lambda>_. sret True))))))))))"

definition lua_enqueue_deduplicated_next_flow ::
  "'s redis \<Rightarrow> lua_lib \<Rightarrow> finish_env \<Rightarrow> string \<Rightarrow> json \<Rightarrow> ('s, bool) script" where
  "lua_enqueue_deduplicated_next_flow R lib E next_key next_payload =
     (let forget = sbind (swrite (r_del R next_key)) (\<lambda>_. sret False) in
      sbind (lua_index next_payload ''parent'') (\<lambda>parent.
      if lua_absent parent then forget
      else
      sbind (lua_index next_payload ''children'') (\<lambda>c.
      sbind (field_text lib (the parent) ''id'') (\<lambda>parent_id.
      sbind (job_exists R (fe_jobs E) parent_id) (\<lambda>b.
      if b then forget
      else
      sbind (lua_items c) (\<lambda>children.
      sbind (some_job_exists R lib (fe_jobs E) children) (\<lambda>b.
      if b then forget else enqueue_next_flow R lib E next_key (the parent) children)))))))"

text \<open>A next job that is a child is listed with its parent and blocks it.\<close>

definition link_to_parent :: "'s redis \<Rightarrow> lua_lib \<Rightarrow> finish_env \<Rightarrow> json \<Rightarrow> string \<Rightarrow> ('s, unit) script" where
  "link_to_parent R lib E next_job job_id =
     sbind (lua_index next_job ''parent_id'') (\<lambda>p.
     if lua_absent p then sret ()
     else
     sbind (sget (lua_text lib (the p))) (\<lambda>parent_id.
     sbind (sread (r_hget R (fe_jobs E) parent_id)) (\<lambda>parent_raw.
     case parent_raw of
       None \<Rightarrow> sret ()
     | Some t \<Rightarrow>
         sbind (sget (cjson_decode lib t)) (\<lambda>parent.
         sbind (lua_index parent ''child_ids'') (\<lambda>c.
         sbind (lua_items c) (\<lambda>child_ids.
         sbind (lua_index next_job ''id'') (\<lambda>i.
         sbind (if the i \<in> set child_ids then sret ()
                else sbind (lua_assign parent ''child_ids'' (JArray (child_ids @ [the i]))) (\<lambda>parent.
                     swrite (r_hset R (fe_jobs E) parent_id (cjson_encode lib parent)))) (\<lambda>_.
         swrite (r_sadd R (fe_dependency E @ parent_id) job_id)))))))))"

text \<open>\<open>store\<close> writes the keys of the repeat series; it is what the two scripts differ in.\<close>

definition enqueue_deduplicated_next_with ::
  "(json \<Rightarrow> job_id \<Rightarrow> f64 \<Rightarrow> ('s, unit) script) \<Rightarrow> 's redis \<Rightarrow> lua_lib \<Rightarrow> finish_env \<Rightarrow> json \<Rightarrow> ('s, bool) script" where
  "enqueue_deduplicated_next_with store R lib E owner_job =
     sbind (lua_deduplication_id lib owner_job) (\<lambda>i.
     case i of
       None \<Rightarrow> sret False
     | Some i \<Rightarrow>
     let next_key = fe_deduplication_next E @ i;
         forget = sbind (swrite (r_del R next_key)) (\<lambda>_. sret False)
     in
     sbind (sread (r_get R next_key)) (\<lambda>next_raw.
     case next_raw of
       None \<Rightarrow> sret False
     | Some t \<Rightarrow>
     sbind (sget (cjson_decode lib t)) (\<lambda>next_job.
     sbind (lua_index next_job ''kind'') (\<lambda>kind.
     if kind = Some (JString ''flow'') then lua_enqueue_deduplicated_next_flow R lib E next_key next_job
     else
     sbind (field_text lib next_job ''id'') (\<lambda>job_id.
     sbind (job_exists R (fe_jobs E) job_id) (\<lambda>b.
     if b then forget
     else
     sbind (lua_repeat_keep_last_next_count lib owner_job next_job) (\<lambda>repeat_next_count.
     if repeat_next_count = Some None then forget
     else
     sbind (lua_prepare_deduplicated_next_job lib E next_job) (\<lambda>(next_job, scheduled).
     sbind (case repeat_next_count of
              Some (Some n) \<Rightarrow>
                sbind (lua_index owner_job ''repeat_key'') (\<lambda>rkey.
                sbind (sget (json_number n)) (\<lambda>n.
                assign_all [(''repeat_key'', the rkey), (''repeat_count'', n)] next_job))
            | _ \<Rightarrow> sret next_job) (\<lambda>next_job.
     sbind (set_deduplication_key R lib next_job job_id (fe_deduplication E)) (\<lambda>_.
     sbind (swhen (repeat_next_count \<noteq> None) (store next_job job_id scheduled)) (\<lambda>_.
     sbind (enqueue_prepared_job R lib E next_job scheduled) (\<lambda>_.
     sbind (link_to_parent R lib E next_job job_id) (\<lambda>_.
     sbind (swrite (r_del R next_key)) (\<lambda>_. sret True))))))))))))))"

definition complete_enqueue_deduplicated_next ::
  "'s redis \<Rightarrow> lua_lib \<Rightarrow> finish_env \<Rightarrow> json \<Rightarrow> ('s, bool) script" where
  "complete_enqueue_deduplicated_next R lib E owner_job =
     enqueue_deduplicated_next_with
       (\<lambda>job job_id _. set_repeat_key R lib job job_id (fe_repeat E)) R lib E owner_job"

definition fail_enqueue_deduplicated_next ::
  "'s redis \<Rightarrow> lua_lib \<Rightarrow> finish_env \<Rightarrow> json \<Rightarrow> ('s, bool) script" where
  "fail_enqueue_deduplicated_next R lib E owner_job =
     enqueue_deduplicated_next_with
       (\<lambda>job job_id scheduled.
          sbind (set_repeat_owner R lib job job_id (fe_repeat E)) (\<lambda>_.
          store_repeat_scheduler R lib job job_id (fe_repeat E) scheduled (lua_tostring lib scheduled))) R lib E owner_job"

section \<open>The parent of a finished child\<close>

definition release_flags :: "string list" where
  "release_flags =
     [''ignore_dependency_on_failure'', ''remove_dependency_on_failure'', ''continue_parent_on_failure'']"

text \<open>A failed child that keeps its parent from completing.\<close>

definition failed_and_blocking :: "json \<Rightarrow> ('s, bool) script" where
  "failed_and_blocking child =
     sbind (lua_index child ''state'') (\<lambda>state.
     if state \<noteq> Some (JString ''failed'') then sret False
     else sbind (any_flag child release_flags) (\<lambda>released. sret (\<not> released)))"

fun has_failed_child :: "'s redis \<Rightarrow> lua_lib \<Rightarrow> string \<Rightarrow> json list \<Rightarrow> ('s, bool) script" where
  "has_failed_child R lib jobs [] = sret False"
| "has_failed_child R lib jobs (c # cs) =
     sbind (sget (lua_text lib c)) (\<lambda>child_id.
     sbind (sread (r_hget R jobs child_id)) (\<lambda>child_raw.
     case child_raw of
       None \<Rightarrow> has_failed_child R lib jobs cs
     | Some t \<Rightarrow>
         sbind (sget (cjson_decode lib t)) (\<lambda>child.
         sbind (failed_and_blocking child) (\<lambda>b. if b then sret True else has_failed_child R lib jobs cs))))"

text \<open>
  What the parent does now. \<open>ChildFailed\<close> carries the child and its reason as they are appended to a
  text.
\<close>

datatype parent_verdict =
    StillWaiting
  | AllDone
  | ContinueParent
  | DeferFailure
  | ChildFailed json "json option"

text \<open>The scan of the children in the order of the parent's list; \<open>finished\<close> is the job of the call.\<close>

fun lua_scan_children ::
  "'s redis \<Rightarrow> lua_lib \<Rightarrow> string \<Rightarrow> job_id \<Rightarrow> string \<Rightarrow> json list \<Rightarrow> ('s, parent_verdict) script" where
  "lua_scan_children R lib jobs finished updated [] = sret AllDone"
| "lua_scan_children R lib jobs finished updated (c # cs) =
     sbind (if c = JString finished then sret (Some updated)
            else sbind (sget (lua_text lib c)) (\<lambda>child_id. sread (r_hget R jobs child_id))) (\<lambda>child_raw.
     case child_raw of
       None \<Rightarrow> lua_scan_children R lib jobs finished updated cs
     | Some t \<Rightarrow>
         sbind (sget (cjson_decode lib t)) (\<lambda>child.
         sbind (failed_and_blocking child) (\<lambda>b.
         if b
         then sbind (lua_index child ''failed_reason'') (\<lambda>r.
              sret (ChildFailed c (if lua_true r then r else Some (JString ''unknown error''))))
         else
         sbind (lua_index child ''state'') (\<lambda>state.
         if state = Some (JString ''completed'') \<or> state = Some (JString ''failed'')
         then lua_scan_children R lib jobs finished updated cs
         else sret StillWaiting))))"

text \<open>The parent fails with its child.\<close>

definition fail_parent ::
  "'s redis \<Rightarrow> lua_lib \<Rightarrow> finish_env \<Rightarrow> json \<Rightarrow> job_id \<Rightarrow> json \<Rightarrow> json option \<Rightarrow> ('s, unit) script" where
  "fail_parent R lib E parent parent_id child reason =
     sbind (swrite (r_del R (fe_dependency E @ parent_id))) (\<lambda>_.
     sbind (swrite (snd \<circ> r_zrem R (fe_waiting_children E) parent_id)) (\<lambda>_.
     sbind (sget (lua_text lib child)) (\<lambda>child.
     sbind (sget (case reason of None \<Rightarrow> None | Some r \<Rightarrow> lua_text lib r)) (\<lambda>reason.
     let failed_reason = ''child job '' @ child @ '' failed: '' @ reason in
     sbind (assign_all
       [(''state'', JString ''failed''), (''finished_at'', JString (fe_now_iso E)), (''worker_id'', JNull),
        (''lock_token'', JNull), (''lease_expires_at'', JNull), (''deferred_failure'', JNull),
        (''failed_reason'', JString failed_reason)] parent) (\<lambda>parent.
     sbind (release_deduplication_key_on_finalization R lib parent parent_id (fe_deduplication E)) (\<lambda>_.
     sbind (release_repeat_key R lib parent parent_id (fe_repeat E)) (\<lambda>_.
     sbind (retention_options parent ''remove_on_fail'' ''failure_retention'' False) (\<lambda>retention.
     sbind (retain_finished R lib E retention (fe_failed E) parent_id (cjson_encode lib parent)) (\<lambda>_.
     sbind (lua_collect_metrics R lib E (fe_failed_metrics E) (fe_failed_data E)) (\<lambda>_.
     emit_parent_transition R E ''failed'' parent_id failed_reason))))))))))"

text \<open>The parent is scheduled; \<open>deferred\<close> is the failure it will find when it runs.\<close>

definition wake_parent ::
  "'s redis \<Rightarrow> lua_lib \<Rightarrow> finish_env \<Rightarrow> json \<Rightarrow> job_id \<Rightarrow> json \<Rightarrow> ('s, unit) script" where
  "wake_parent R lib E parent parent_id deferred =
     sbind (swrite (snd \<circ> r_zrem R (fe_waiting_children E) parent_id)) (\<lambda>_.
     sbind (assign_all
       [(''processed_at'', JNull), (''finished_at'', JNull), (''worker_id'', JNull), (''lock_token'', JNull),
        (''lease_expires_at'', JNull), (''deferred_failure'', deferred), (''failed_reason'', JNull)] parent) (\<lambda>parent.
     sbind (scheduled_millis_of lib parent) (\<lambda>scheduled.
     if scheduled \<le> fe_now E then
       sbind (lua_assign parent ''state'' (JString ''waiting'')) (\<lambda>parent.
       sbind (priority_of lib parent) (\<lambda>priority.
       sbind (enqueue_waiting_job R lib (fe_jobs E) (fe_waiting E) (fe_sequence E) parent parent_id priority
         (fe_bucket E) (fe_marker E)) (\<lambda>_.
       emit_parent_transition R E ''waiting'' parent_id [])))
     else
       sbind (lua_assign parent ''state'' (JString ''delayed'')) (\<lambda>parent.
       sbind (swrite (r_hset R (fe_jobs E) parent_id (cjson_encode lib parent))) (\<lambda>_.
       sbind (swrite (r_zadd R (fe_delayed E) scheduled parent_id)) (\<lambda>_.
       sbind (refresh_delay_marker R (fe_marker E) (fe_delayed E)) (\<lambda>_.
       emit_parent_transition R E ''delayed'' parent_id [])))))))"

definition settle_parent ::
  "'s redis \<Rightarrow> lua_lib \<Rightarrow> finish_env \<Rightarrow> job_id \<Rightarrow> json \<Rightarrow> job_id \<Rightarrow> parent_verdict \<Rightarrow> ('s, unit) script" where
  "settle_parent R lib E job_id parent parent_id verdict =
     (case verdict of
        StillWaiting \<Rightarrow> sret ()
      | ChildFailed child reason \<Rightarrow> fail_parent R lib E parent parent_id child reason
      | DeferFailure \<Rightarrow>
          wake_parent R lib E parent parent_id (JString (''child job '' @ job_id @ '' failed''))
      | ContinueParent \<Rightarrow> wake_parent R lib E parent parent_id JNull
      | AllDone \<Rightarrow>
          sbind (swrite (r_del R (fe_dependency E @ parent_id))) (\<lambda>_.
          wake_parent R lib E parent parent_id JNull))"

text \<open>The retained parent of a job, if it has one.\<close>

definition with_parent ::
  "'s redis \<Rightarrow> lua_lib \<Rightarrow> finish_env \<Rightarrow> json \<Rightarrow> (json \<Rightarrow> job_id \<Rightarrow> ('s, unit) script) \<Rightarrow> ('s, unit) script" where
  "with_parent R lib E job f =
     sbind (lua_index job ''parent_id'') (\<lambda>p.
     if lua_absent p then sret ()
     else
     sbind (sget (lua_text lib (the p))) (\<lambda>parent_id.
     sbind (sread (r_hget R (fe_jobs E) parent_id)) (\<lambda>parent_raw.
     case parent_raw of
       None \<Rightarrow> sret ()
     | Some t \<Rightarrow> sbind (sget (cjson_decode lib t)) (\<lambda>parent. f parent parent_id))))"

text \<open>Whether the parent waits for its children, and its list of them.\<close>

definition children_verdict ::
  "'s redis \<Rightarrow> lua_lib \<Rightarrow> finish_env \<Rightarrow> job_id \<Rightarrow> string \<Rightarrow> bool \<Rightarrow> json \<Rightarrow> string \<Rightarrow> ('s, parent_verdict) script" where
  "children_verdict R lib E job_id updated had_dependency_set parent dependency_key =
     (if had_dependency_set
      then sbind (sread (r_scard R dependency_key)) (\<lambda>n. sret (if n > 0 then StillWaiting else AllDone))
      else sbind (lua_index parent ''child_ids'') (\<lambda>c.
           sbind (lua_items c) (lua_scan_children R lib (fe_jobs E) job_id updated)))"

definition parent_after_completion ::
  "'s redis \<Rightarrow> lua_lib \<Rightarrow> finish_env \<Rightarrow> job_id \<Rightarrow> string \<Rightarrow> string \<Rightarrow> json \<Rightarrow> job_id \<Rightarrow> ('s, unit) script" where
  "parent_after_completion R lib E job_id updated value_text parent parent_id =
     (let dependency_key = fe_dependency E @ parent_id in
      sbind (set_exists R dependency_key) (\<lambda>had_dependency_set.
      sbind (swhen had_dependency_set
        (sbind (srem_reply R dependency_key job_id) (\<lambda>removed.
         swhen removed (swrite (r_hset R (dependency_key @ '':processed'') job_id value_text))))) (\<lambda>_.
      sbind (lua_index parent ''state'') (\<lambda>state.
      if state \<noteq> Some (JString ''waiting_children'') then sret ()
      else
      sbind (children_verdict R lib E job_id updated had_dependency_set parent dependency_key) (\<lambda>verdict.
      settle_parent R lib E job_id parent parent_id verdict)))))"

text \<open>A failed child that leaves the set of pending children under one of its policies.\<close>

definition leave_dependencies ::
  "'s redis \<Rightarrow> finish_env \<Rightarrow> json \<Rightarrow> job_id \<Rightarrow> string \<Rightarrow> string \<Rightarrow> ('s, unit) script" where
  "leave_dependencies R E job job_id reason dependency_key =
     sbind (srem_reply R dependency_key job_id) (\<lambda>removed.
     if \<not> removed then sret ()
     else
     sbind (any_flag job [''fail_parent_on_failure'']) (\<lambda>fails.
     if fails then swrite (r_zadd R (dependency_key @ '':unsuccessful'') (fe_now E) job_id)
     else
     sbind (any_flag job [''ignore_dependency_on_failure'', ''continue_parent_on_failure'']) (\<lambda>kept.
     swhen kept (swrite (r_hset R (dependency_key @ '':failed'') job_id reason)))))"

text \<open>What a failed child means for a parent that waits for it.\<close>

definition failure_verdict ::
  "'s redis \<Rightarrow> lua_lib \<Rightarrow> finish_env \<Rightarrow> json \<Rightarrow> job_id \<Rightarrow> string \<Rightarrow> string \<Rightarrow> json \<Rightarrow> string \<Rightarrow>
   ('s, parent_verdict) script" where
  "failure_verdict R lib E job job_id updated reason parent dependency_key =
     sbind (any_flag job [''ignore_dependency_on_failure'']) (\<lambda>ignore.
     sbind (any_flag job [''continue_parent_on_failure'']) (\<lambda>continue.
     sbind (any_flag job [''fail_parent_on_failure'']) (\<lambda>fails.
     sbind (any_flag job (release_flags @ [''fail_parent_on_failure''])) (\<lambda>releases.
     if \<not> releases then sret (ChildFailed (JString job_id) (Some (JString reason)))
     else
     sbind (set_exists R dependency_key) (\<lambda>had_dependency_set.
     sbind (swhen had_dependency_set (swrite (r_srem R dependency_key job_id))) (\<lambda>_.
     if fails then
       sbind (swrite (r_zadd R (dependency_key @ '':unsuccessful'') (fe_now E) job_id)) (\<lambda>_. sret DeferFailure)
     else if continue then
       sbind (swrite (r_hset R (dependency_key @ '':failed'') job_id reason)) (\<lambda>_. sret ContinueParent)
     else
       sbind (swhen (had_dependency_set \<and> ignore)
         (swrite (r_hset R (dependency_key @ '':failed'') job_id reason))) (\<lambda>_.
       children_verdict R lib E job_id updated had_dependency_set parent dependency_key)))))))"

definition parent_after_failure ::
  "'s redis \<Rightarrow> lua_lib \<Rightarrow> finish_env \<Rightarrow> json \<Rightarrow> job_id \<Rightarrow> string \<Rightarrow> string \<Rightarrow> json \<Rightarrow> job_id \<Rightarrow> ('s, unit) script" where
  "parent_after_failure R lib E job job_id updated reason parent parent_id =
     (let dependency_key = fe_dependency E @ parent_id in
      sbind (any_flag job (release_flags @ [''fail_parent_on_failure''])) (\<lambda>releases.
      sbind (set_exists R dependency_key) (\<lambda>pending.
      sbind (swhen (releases \<and> pending) (leave_dependencies R E job job_id reason dependency_key)) (\<lambda>_.
      sbind (lua_index parent ''state'') (\<lambda>state.
      if state \<noteq> Some (JString ''waiting_children'') then sret ()
      else
      sbind (failure_verdict R lib E job job_id updated reason parent dependency_key) (\<lambda>verdict.
      settle_parent R lib E job_id parent parent_id verdict))))))"

end
