(* ===== verification/Redis_Outcome.thy ===== *)
theory Redis_Outcome
  imports Redis_Complete
begin

text \<open>
  \<open>COMPLETE_SCRIPT\<close> and \<open>FAIL_SCRIPT\<close> of \<open>src/src/job/redis.rs\<close> from their \<open>KEYS\<close> and \<open>ARGV\<close> to their
  reply, and the operations that call them.
\<close>

section \<open>Completing\<close>

text \<open>The checks before anything is written.\<close>

definition unless_dependencies ::
  "'s redis \<Rightarrow> lua_lib \<Rightarrow> string \<Rightarrow> string \<Rightarrow> json \<Rightarrow> ('s, string list) script \<Rightarrow> ('s, string list) script" where
  "unless_dependencies R lib jobs dependency_key job k =
     sbind (sread (r_scard R dependency_key)) (\<lambda>n.
     if n > 0 then sret [''pending_dependencies'']
     else
     sbind (sread (r_zcard R (dependency_key @ '':unsuccessful''))) (\<lambda>n.
     if n > 0 then sret [''failed_dependencies'']
     else
     sbind (lua_index job ''child_ids'') (\<lambda>c.
     sbind (lua_items c) (\<lambda>child_ids.
     sbind (has_failed_child R lib jobs child_ids) (\<lambda>b.
     if b then sret [''failed_dependencies''] else k)))))"

text \<open>The lease ends: lock, stalled candidate, active index.\<close>

definition end_lease :: "'s redis \<Rightarrow> string \<Rightarrow> string \<Rightarrow> string \<Rightarrow> job_id \<Rightarrow> ('s, unit) script" where
  "end_lease R lock stalled active job_id =
     sseq [swrite (r_del R lock), swrite (r_srem R stalled job_id), swrite (snd \<circ> r_zrem R active job_id)]"

text \<open>The next job of the series, as the client made it.\<close>

definition add_repeat_next ::
  "'s redis \<Rightarrow> lua_lib \<Rightarrow> finish_env \<Rightarrow> job_id \<Rightarrow> string \<Rightarrow> string \<Rightarrow> f64 \<Rightarrow> f64 \<Rightarrow> ('s, unit) script" where
  "add_repeat_next R lib E next_id raw state score priority =
     sbind (job_exists R (fe_jobs E) next_id) (\<lambda>b.
     if b then sret ()
     else
     sbind (swrite (r_hset R (fe_jobs E) next_id raw)) (\<lambda>_.
     sbind (sget (cjson_decode lib raw)) (\<lambda>repeat_next.
     sbind (set_deduplication_key R lib repeat_next next_id (fe_deduplication E)) (\<lambda>_.
     sbind (set_repeat_key R lib repeat_next next_id (fe_repeat E)) (\<lambda>_.
     if state = ''waiting'' then
       sbind (enqueue_waiting_job R lib (fe_jobs E) (fe_waiting E) (fe_sequence E) repeat_next next_id priority
         (fe_bucket E) (fe_marker E)) (\<lambda>_. sret ())
     else if state = ''delayed'' then
       sbind (swrite (r_zadd R (fe_delayed E) score next_id)) (\<lambda>_.
       refresh_delay_marker R (fe_marker E) (fe_delayed E))
     else swhen (state = ''waiting_children'') (swrite (r_zadd R (fe_waiting_children E) score next_id)))))))"

record repeat_next =
  rn_id :: job_id
  rn_raw :: string
  rn_state :: string
  rn_score :: f64
  rn_priority :: f64

text \<open>Everything after the checks; \<open>completed\<close> and the two metrics keys are those of this outcome.\<close>

definition complete_body ::
  "'s redis \<Rightarrow> lua_lib \<Rightarrow> finish_env \<Rightarrow> string \<Rightarrow> string \<Rightarrow> string \<Rightarrow> string \<Rightarrow> string \<Rightarrow> bool \<Rightarrow> repeat_next \<Rightarrow>
   job_id \<Rightarrow> string \<Rightarrow> json \<Rightarrow> ('s, string list) script" where
  "complete_body R lib E lock stalled completed metrics metrics_list removes N job_id value_text job =
     sbind (end_lease R lock stalled (fe_active E) job_id) (\<lambda>_.
     sbind (assign_all
       [(''state'', JString ''completed''), (''finished_at'', JString (fe_now_iso E)), (''worker_id'', JNull),
        (''lease_expires_at'', JNull), (''deferred_failure'', JNull)] job) (\<lambda>job.
     sbind (sget (cjson_decode lib value_text)) (\<lambda>v.
     sbind (lua_assign job ''return_value'' v) (\<lambda>job.
     sbind (release_deduplication_key_on_finalization R lib job job_id (fe_deduplication E)) (\<lambda>_.
     sbind (complete_enqueue_deduplicated_next R lib E job) (\<lambda>enqueued.
     let updated = cjson_encode lib job in
     sbind (retention_options job ''remove_on_complete'' ''completion_retention'' removes) (\<lambda>retention.
     sbind (retain_finished R lib E retention completed job_id updated) (\<lambda>_.
     sbind (lua_collect_metrics R lib E metrics metrics_list) (\<lambda>_.
     sbind (with_parent R lib E job (parent_after_completion R lib E job_id updated value_text)) (\<lambda>_.
     sbind (swhen (\<not> enqueued \<and> rn_id N \<noteq> [])
       (add_repeat_next R lib E (rn_id N) (rn_raw N) (rn_state N) (rn_score N) (rn_priority N))) (\<lambda>_.
     sbind (release_repeat_key R lib job job_id (fe_repeat E)) (\<lambda>_.
     sbind (add_base_marker_if_waiting R (fe_marker E) (fe_waiting E)) (\<lambda>_.
     sbind (swrite (r_xadd R (fe_events E) (fe_maxlen E)
       [(''event'', ''completed''), (''jobId'', job_id), (''returnvalue'', value_text), (''prev'', ''active'')])) (\<lambda>_.
     sbind (lua_emit_drained R E) (\<lambda>_.
     sret [''ok'', updated])))))))))))))))"

definition complete_script ::
  "'s redis \<Rightarrow> lua_lib \<Rightarrow> string list \<Rightarrow> eval_arg list \<Rightarrow> ('s, string list) script" where
  "complete_script R lib K A =
     (case K of
        [jobs, active, completed, lock, waiting, waiting_children, sequence, failed, delayed, events,
         stalled, metrics, metrics_list, failed_metrics, failed_list, marker] \<Rightarrow>
        (case A of
           [id', token, now_iso, value_text, now, removes, bucket, next_id, next_raw, next_state, next_score,
            next_priority, dependency, dedup, rep, dedup_next, logs, maxlen, max_points] \<Rightarrow>
             let job_id = arg_text id' in
             sbind (sget (arg_number lib now)) (\<lambda>now_number.
             sbind (sget (arg_number lib bucket)) (\<lambda>bucket.
             sbind (sget (arg_nat maxlen)) (\<lambda>maxlen.
             sbind (sget (arg_number lib next_score)) (\<lambda>next_score.
             sbind (sget (arg_number lib next_priority)) (\<lambda>next_priority.
             with_job R lib jobs job_id (sret ()) (\<lambda>job.
             in_state lib ''active'' [] job (sret ()) (
             owns_lock R lock (arg_text token) (
             unless_dependencies R lib jobs (arg_text dependency @ job_id) job (
             complete_body R lib
               \<lparr>fe_jobs = jobs, fe_active = active, fe_waiting = waiting,
                fe_waiting_children = waiting_children, fe_delayed = delayed, fe_failed = failed,
                fe_sequence = sequence, fe_events = events, fe_marker = marker,
                fe_failed_metrics = failed_metrics, fe_failed_data = failed_list,
                fe_dependency = arg_text dependency, fe_deduplication = arg_text dedup,
                fe_deduplication_next = arg_text dedup_next, fe_repeat = arg_text rep,
                fe_logs = arg_text logs, fe_now_iso = arg_text now_iso, fe_now = now_number,
                fe_now_text = arg_text now, fe_bucket = bucket, fe_maxlen = maxlen,
                fe_max_points = arg_number lib max_points\<rparr>
               lock stalled completed metrics metrics_list (arg_text removes = ''1'')
               \<lparr>rn_id = arg_text next_id, rn_raw = arg_text next_raw, rn_state = arg_text next_state,
                rn_score = next_score, rn_priority = next_priority\<rparr>
               job_id (arg_text value_text) job)))))))))
         | _ \<Rightarrow> sraise)
      | _ \<Rightarrow> sraise)"

section \<open>Failing\<close>

text \<open>The attempt will be repeated: the job is delayed until then.\<close>

definition retry_later ::
  "'s redis \<Rightarrow> lua_lib \<Rightarrow> finish_env \<Rightarrow> string \<Rightarrow> f64 \<Rightarrow> job_id \<Rightarrow> string \<Rightarrow> json \<Rightarrow> ('s, string list) script" where
  "retry_later R lib E scheduled_at scheduled job_id reason job =
     sbind (assign_all
       [(''state'', JString ''delayed''), (''scheduled_at'', JString scheduled_at), (''finished_at'', JNull)] job) (\<lambda>job.
     let updated = cjson_encode lib job in
     sbind (swrite (r_hset R (fe_jobs E) job_id updated)) (\<lambda>_.
     sbind (swrite (r_zadd R (fe_delayed E) scheduled job_id)) (\<lambda>_.
     sbind (refresh_delay_marker R (fe_marker E) (fe_delayed E)) (\<lambda>_.
     sbind (add_base_marker_if_waiting R (fe_marker E) (fe_waiting E)) (\<lambda>_.
     sbind (swrite (r_xadd R (fe_events E) (fe_maxlen E)
       [(''event'', ''delayed''), (''jobId'', job_id), (''failedReason'', reason), (''prev'', ''active'')])) (\<lambda>_.
     sret [''ok'', updated]))))))"

text \<open>The event of a job that had more attempts than its policy has retries.\<close>

definition emit_exhausted :: "'s redis \<Rightarrow> lua_lib \<Rightarrow> finish_env \<Rightarrow> job_id \<Rightarrow> json \<Rightarrow> ('s, unit) script" where
  "emit_exhausted R lib E job_id job =
     sbind (options_field job ''retry_policy'') (\<lambda>policy.
     sbind (if lua_absent policy then sret (Fin 0)
            else sbind (lua_index (the policy) ''max_retries'') (\<lambda>n. sret (number_or_zero lib n))) (\<lambda>max_retries.
     sbind (lua_index job ''attempts_made'') (\<lambda>made.
     let attempts_made = number_or_zero lib made in
     swhen (lua_gt attempts_made max_retries)
       (swrite (r_xadd R (fe_events E) (fe_maxlen E)
         [(''event'', ''retries-exhausted''), (''jobId'', job_id),
          (''attemptsMade'', lua_tostring lib attempts_made)])))))"

text \<open>The job has failed for good.\<close>

definition fail_for_good ::
  "'s redis \<Rightarrow> lua_lib \<Rightarrow> finish_env \<Rightarrow> bool \<Rightarrow> job_id \<Rightarrow> string \<Rightarrow> json \<Rightarrow> ('s, string list) script" where
  "fail_for_good R lib E removes job_id reason job =
     sbind (assign_all [(''state'', JString ''failed''), (''finished_at'', JString (fe_now_iso E))] job) (\<lambda>job.
     sbind (release_deduplication_key_on_finalization R lib job job_id (fe_deduplication E)) (\<lambda>_.
     sbind (release_repeat_key R lib job job_id (fe_repeat E)) (\<lambda>_.
     sbind (fail_enqueue_deduplicated_next R lib E job) (\<lambda>_.
     let updated = cjson_encode lib job in
     sbind (retention_options job ''remove_on_fail'' ''failure_retention'' removes) (\<lambda>retention.
     sbind (retain_finished R lib E retention (fe_failed E) job_id updated) (\<lambda>_.
     sbind (lua_collect_metrics R lib E (fe_failed_metrics E) (fe_failed_data E)) (\<lambda>_.
     sbind (with_parent R lib E job (parent_after_failure R lib E job job_id updated reason)) (\<lambda>_.
     sbind (add_base_marker_if_waiting R (fe_marker E) (fe_waiting E)) (\<lambda>_.
     sbind (swrite (r_xadd R (fe_events E) (fe_maxlen E)
       [(''event'', ''failed''), (''jobId'', job_id), (''failedReason'', reason), (''prev'', ''active'')])) (\<lambda>_.
     sbind (emit_exhausted R lib E job_id job) (\<lambda>_.
     sbind (lua_emit_drained R E) (\<lambda>_.
     sret [''ok'', updated]))))))))))))"

definition fail_body ::
  "'s redis \<Rightarrow> lua_lib \<Rightarrow> finish_env \<Rightarrow> string \<Rightarrow> string \<Rightarrow> bool \<Rightarrow> string \<Rightarrow> f64 \<Rightarrow> bool \<Rightarrow> job_id \<Rightarrow> string \<Rightarrow>
   json \<Rightarrow> ('s, string list) script" where
  "fail_body R lib E lock stalled retries scheduled_at scheduled removes job_id reason job =
     sbind (end_lease R lock stalled (fe_active E) job_id) (\<lambda>_.
     sbind (assign_all
       [(''worker_id'', JNull), (''lease_expires_at'', JNull), (''deferred_failure'', JNull),
        (''failed_reason'', JString reason)] job) (\<lambda>job.
     if retries then retry_later R lib E scheduled_at scheduled job_id reason job
     else fail_for_good R lib E removes job_id reason job))"

definition fail_script ::
  "'s redis \<Rightarrow> lua_lib \<Rightarrow> string list \<Rightarrow> eval_arg list \<Rightarrow> ('s, string list) script" where
  "fail_script R lib K A =
     (case K of
        [jobs, active, delayed, failed, lock, waiting_children, waiting, sequence, events, stalled,
         metrics, metrics_list, marker] \<Rightarrow>
        (case A of
           [id', token, now_iso, reason, retries, scheduled_at, scheduled, now, removes, dependency, dedup, rep,
            bucket, dedup_next, logs, maxlen, max_points] \<Rightarrow>
             let job_id = arg_text id' in
             sbind (sget (arg_number lib now)) (\<lambda>now_number.
             sbind (sget (arg_number lib bucket)) (\<lambda>bucket.
             sbind (sget (arg_nat maxlen)) (\<lambda>maxlen.
             sbind (sget (arg_number lib scheduled)) (\<lambda>scheduled.
             with_job R lib jobs job_id (sret ()) (\<lambda>job.
             in_state lib ''active'' [] job (sret ()) (
             owns_lock R lock (arg_text token) (
             fail_body R lib
               \<lparr>fe_jobs = jobs, fe_active = active, fe_waiting = waiting,
                fe_waiting_children = waiting_children, fe_delayed = delayed, fe_failed = failed,
                fe_sequence = sequence, fe_events = events, fe_marker = marker,
                fe_failed_metrics = metrics, fe_failed_data = metrics_list,
                fe_dependency = arg_text dependency, fe_deduplication = arg_text dedup,
                fe_deduplication_next = arg_text dedup_next, fe_repeat = arg_text rep,
                fe_logs = arg_text logs, fe_now_iso = arg_text now_iso, fe_now = now_number,
                fe_now_text = arg_text now, fe_bucket = bucket, fe_maxlen = maxlen,
                fe_max_points = arg_number lib max_points\<rparr>
               lock stalled (arg_text retries = ''1'') (arg_text scheduled_at) scheduled
               (arg_text removes = ''1'') job_id (arg_text reason) job)))))))
         | _ \<Rightarrow> sraise)
      | _ \<Rightarrow> sraise)"

section \<open>The operations\<close>

definition DEFAULT_JOB_METRICS_RETENTION :: nat where
  "DEFAULT_JOB_METRICS_RETENTION = 10000"

text \<open>\<open>uuid\<close> is the identifier \<open>Job::new\<close> draws for the next job of the series.\<close>

definition redis_next_repeat_job :: "externals \<Rightarrow> job \<Rightarrow> string \<Rightarrow> instant \<Rightarrow> job option result" where
  "redis_next_repeat_job ext j uuid now =
     (case jo_repeat (j_options j) of
        None \<Rightarrow> Inr None
      | Some rep \<Rightarrow>
          let next_count = u32_saturating_add (j_repeat_count j) 1
          in if (case ro_limit rep of Some limit \<Rightarrow> next_count \<ge> limit | None \<Rightarrow> False) then Inr None
             else and_then (next_scheduled_at ext rep now) (\<lambda>scheduled.
               case scheduled of
                 None \<Rightarrow> Inr None
               | Some scheduled_at \<Rightarrow>
                   if (case ro_end_at rep of Some end_at \<Rightarrow> scheduled_at > end_at | None \<Rightarrow> False)
                   then Inr None
                   else Inr (Some ((job_new ext (j_queue j) (j_name j) (j_payload j)
                                      ((j_options j)\<lparr>jo_job_id := None\<rparr>) uuid now)
                          \<lparr>j_scheduled_at := scheduled_at,
                           j_state := state_after_dependencies scheduled_at now,
                           j_repeat_key := j_repeat_key j,
                           j_repeat_count := next_count\<rparr>))))"

lemma redis_next_repeat_job_same: "redis_next_repeat_job = next_repeat_job"
  by (simp add: fun_eq_iff redis_next_repeat_job_def next_repeat_job_def)

definition flag_arg :: "bool \<Rightarrow> eval_arg" where
  "flag_arg b = AText (if b then ''1'' else ''0'')"

definition float_arg :: "client \<Rightarrow> f64 \<Rightarrow> eval_arg" where
  "float_arg Z x = AFloat (rc_float_text (cl_codec Z) x) x"

definition complete_keys :: "redis_queue \<Rightarrow> job_id \<Rightarrow> eval_arg list result" where
  "complete_keys q job_id =
     and_then (metrics_key q Completed) (\<lambda>cm. and_then (metrics_data_key q Completed) (\<lambda>cl.
     and_then (metrics_key q Failed) (\<lambda>fm. and_then (metrics_data_key q Failed) (\<lambda>fl.
     Inr (map AText [jobs_key q, state_key q Active, state_key q Completed, lock_key q job_id,
       state_key q Waiting, state_key q WaitingChildren, sequence_key q, state_key q Failed,
       state_key q Delayed, events_key q, stalled_key q, cm, cl, fm, fl, marker_key q])))))"

definition complete_args ::
  "client \<Rightarrow> job_id \<Rightarrow> string \<Rightarrow> instant \<Rightarrow> string \<Rightarrow> bool \<Rightarrow> job option \<Rightarrow> string \<Rightarrow> eval_arg list" where
  "complete_args Z job_id token now value_text removes next_repeat next_raw =
     [AText job_id, AText token, time_arg Z now, AText value_text,
      AInt (ext_timestamp_millis (cl_ext Z) now), flag_arg removes, bucket_arg Z,
      AText (case next_repeat of None \<Rightarrow> [] | Some j \<Rightarrow> j_id j), AText next_raw,
      AText (case next_repeat of None \<Rightarrow> [] | Some j \<Rightarrow> job_state_name (j_state j)),
      (case next_repeat of None \<Rightarrow> float_arg Z (Fin 0) | Some j \<Rightarrow> score_arg Z (j_scheduled_at j)),
      nat_arg (case next_repeat of None \<Rightarrow> 0 | Some j \<Rightarrow> j_priority j),
      key_arg Z dependencies_key_prefix, key_arg Z deduplication_key_prefix, key_arg Z repeat_key_prefix,
      key_arg Z deduplication_next_key_prefix, key_arg Z logs_key_prefix,
      nat_arg DEFAULT_JOB_EVENT_RETENTION, nat_arg DEFAULT_JOB_METRICS_RETENTION]"

text \<open>The keys and arguments of the call, or the error of preparing them.\<close>

definition complete_call ::
  "client \<Rightarrow> job_id \<Rightarrow> string \<Rightarrow> json \<Rightarrow> string \<Rightarrow> instant \<Rightarrow> job \<Rightarrow> eval_arg list result" where
  "complete_call Z job_id token v uuid now active_job =
     and_then (redis_next_repeat_job (cl_ext Z) active_job uuid now) (\<lambda>next_repeat.
     and_then (complete_keys (cl_queue Z) job_id) (\<lambda>keys.
     and_then (map_err (\<lambda>e. ''failed to encode Redis job completion value: '' @ e)
       (rc_json_to_string (cl_codec Z) v)) (\<lambda>value_text.
     and_then (case next_repeat of None \<Rightarrow> Inr [] | Some j \<Rightarrow> encode_job (cl_codec Z) j) (\<lambda>next_raw.
     Inr (keys @ complete_args Z job_id token now value_text
       (jo_remove_on_complete (j_options active_job)) next_repeat next_raw)))))"

definition redis_complete_job ::
  "client \<Rightarrow> 's redis \<Rightarrow> job_id \<Rightarrow> string \<Rightarrow> json \<Rightarrow> string \<Rightarrow> instant \<Rightarrow> 's \<Rightarrow> job result \<times> 's" where
  "redis_complete_job Z R job_id token v uuid now s =
     (case redis_require_job Z R job_id s of
        (Inl e, s) \<Rightarrow> (Inl e, s)
      | (Inr active_job, s) \<Rightarrow>
          (case complete_call Z job_id token v uuid now active_job of
             Inl e \<Rightarrow> (Inl e, s)
           | Inr args \<Rightarrow>
               on_reply (\<lambda>reply. decode_transition_result (cl_codec Z) reply job_id ''complete'')
                 (query (cl_codec Z) (eval_script (complete_script R (cl_lib Z)) 16 args) s)))"

definition fail_keys :: "redis_queue \<Rightarrow> job_id \<Rightarrow> eval_arg list result" where
  "fail_keys q job_id =
     and_then (metrics_key q Failed) (\<lambda>fm. and_then (metrics_data_key q Failed) (\<lambda>fl.
     Inr (map AText [jobs_key q, state_key q Active, state_key q Delayed, state_key q Failed,
       lock_key q job_id, state_key q WaitingChildren, state_key q Waiting, sequence_key q, events_key q,
       stalled_key q, fm, fl, marker_key q])))"

definition fail_args ::
  "client \<Rightarrow> job_id \<Rightarrow> string \<Rightarrow> instant \<Rightarrow> string \<Rightarrow> instant option \<Rightarrow> bool \<Rightarrow> eval_arg list" where
  "fail_args Z job_id token now reason retry_at removes =
     (let scheduled_at = (case retry_at of None \<Rightarrow> now | Some t \<Rightarrow> t) in
      [AText job_id, AText token, time_arg Z now, AText reason, flag_arg (retry_at \<noteq> None),
       time_arg Z scheduled_at, score_arg Z scheduled_at, AInt (ext_timestamp_millis (cl_ext Z) now),
       flag_arg removes, key_arg Z dependencies_key_prefix, key_arg Z deduplication_key_prefix,
       key_arg Z repeat_key_prefix, bucket_arg Z, key_arg Z deduplication_next_key_prefix,
       key_arg Z logs_key_prefix, nat_arg DEFAULT_JOB_EVENT_RETENTION,
       nat_arg DEFAULT_JOB_METRICS_RETENTION])"

definition retry_time :: "client \<Rightarrow> job \<Rightarrow> bool \<Rightarrow> instant \<Rightarrow> instant option" where
  "retry_time Z job allow_retry now =
     (if allow_retry \<and> redis_should_retry job
      then Some (add_duration (cl_ext Z) now
             (delay_for_attempt (ext_powi (cl_ext Z)) (jo_retry_policy (j_options job)) (j_attempts_made job)))
      else None)"

definition fail_job_with_retry_control ::
  "client \<Rightarrow> 's redis \<Rightarrow> job_id \<Rightarrow> string \<Rightarrow> string \<Rightarrow> instant \<Rightarrow> bool \<Rightarrow> 's \<Rightarrow> job result \<times> 's" where
  "fail_job_with_retry_control Z R job_id token reason now allow_retry s =
     (case redis_require_job Z R job_id s of
        (Inl e, s) \<Rightarrow> (Inl e, s)
      | (Inr job, s) \<Rightarrow>
          (case fail_keys (cl_queue Z) job_id of
             Inl e \<Rightarrow> (Inl e, s)
           | Inr keys \<Rightarrow>
               on_reply (\<lambda>reply. decode_transition_result (cl_codec Z) reply job_id ''fail'')
                 (query (cl_codec Z) (eval_script (fail_script R (cl_lib Z)) 13
                    (keys @ fail_args Z job_id token now reason (retry_time Z job allow_retry now)
                       (jo_remove_on_fail (j_options job)))) s)))"

definition redis_fail_job ::
  "client \<Rightarrow> 's redis \<Rightarrow> job_id \<Rightarrow> string \<Rightarrow> string \<Rightarrow> instant \<Rightarrow> 's \<Rightarrow> job result \<times> 's" where
  "redis_fail_job Z R job_id token reason now s = fail_job_with_retry_control Z R job_id token reason now True s"

definition redis_fail_job_discarding_retry ::
  "client \<Rightarrow> 's redis \<Rightarrow> job_id \<Rightarrow> string \<Rightarrow> string \<Rightarrow> instant \<Rightarrow> 's \<Rightarrow> job result \<times> 's" where
  "redis_fail_job_discarding_retry Z R job_id token reason now s =
     fail_job_with_retry_control Z R job_id token reason now False s"

end
