(* ===== verification/Redis_Finished.thy ===== *)
theory Redis_Finished
  imports Redis_Guarantees Redis_Outcome
begin

text \<open>
  What completing and failing a job on the Redis backend guarantee: they need the token of the lease,
  they end it for good whatever else they do (retention, successors, parents), and a job with pending
  or failed children does not complete.
\<close>

section \<open>Footprints by key\<close>

text \<open>No cell of \<open>C\<close> belongs to the key, or to a key under the prefix.\<close>

definition off_key :: "cell set \<Rightarrow> string \<Rightarrow> bool" where
  "off_key C k \<longleftrightarrow> k \<notin> cell_key ` C"

definition off_prefix :: "cell set \<Rightarrow> string \<Rightarrow> bool" where
  "off_prefix C p \<longleftrightarrow> (\<forall>x. off_key C (p @ x))"

lemma off_key_cells:
  assumes "off_key C k"
  shows "CString k \<notin> C" "CHash k f \<notin> C" "CZset k \<notin> C" "CSet k \<notin> C" "CList k \<notin> C" "CStream k \<notin> C"
    "k \<notin> cell_key ` C"
  using assms unfolding off_key_def image_iff by (metis cell_key.simps)+

lemma keeps_commands_off:
  assumes ok: "redis_ok R view" and off: "off_key C k"
  shows "keeps view (agree C) (swrite (r_set R k x))"
    and "keeps view (agree C) (swrite (r_set_px R k x n))"
    and "keeps view (agree C) (swrite (r_del R k))"
    and "keeps view (agree C) (swrite (r_hset R k f x))"
    and "keeps view (agree C) (swrite (r_hdel R k f))"
    and "keeps view (agree C) (swrite (r_zadd R k d m))"
    and "keeps view (agree C) (swrite (snd \<circ> r_zrem R k m))"
    and "keeps view (agree C) (swrite (r_sadd R k m))"
    and "keeps view (agree C) (swrite (r_srem R k m))"
    and "keeps view (agree C) (swrite (r_xadd R k n e))"
    and "keeps view (agree C) (swrite (r_zremdue R k d))"
    and "keeps view (agree C) (swrite (r_zkeep R k n))"
    and "keeps view (agree C) (swrite (r_lpush R k vs))"
    and "keeps view (agree C) (sreply (r_hincr R k f))"
    and "0 < n \<Longrightarrow> keeps view (agree C) (swrite (r_ltrim_first R k n))"
  by (rule keeps_commands [OF ok] keeps_hincr [OF ok]; (rule off_key_cells [OF off])?; assumption?)+

definition off_env :: "cell set \<Rightarrow> finish_env \<Rightarrow> bool" where
  "off_env C E \<longleftrightarrow>
     list_all (off_key C) [fe_jobs E, fe_waiting E, fe_waiting_children E, fe_delayed E, fe_failed E,
       fe_sequence E, fe_events E, fe_marker E, fe_failed_metrics E, fe_failed_data E] \<and>
     list_all (off_prefix C) [fe_dependency E, fe_deduplication E, fe_deduplication_next E, fe_logs E] \<and>
     off_repeat (fe_repeat E) C"

lemma off_env_keys:
  assumes "off_env C E"
  shows "off_key C (fe_jobs E)" "off_key C (fe_waiting E)" "off_key C (fe_waiting_children E)"
    "off_key C (fe_delayed E)" "off_key C (fe_failed E)" "off_key C (fe_sequence E)"
    "off_key C (fe_events E)" "off_key C (fe_marker E)" "off_key C (fe_failed_metrics E)"
    "off_key C (fe_failed_data E)"
    "off_key C (fe_dependency E @ x)" "off_key C (fe_deduplication E @ x)"
    "off_key C (fe_deduplication_next E @ x)" "off_key C (fe_logs E @ x)"
    "off_key C ((fe_dependency E @ x) @ y)"
    "off_repeat (fe_repeat E) C" "off_prefix C (fe_deduplication E)" "off_prefix C (fe_dependency E)"
  using assms unfolding off_env_def off_prefix_def by simp_all

lemma off_repeat_keys:
  assumes "off_repeat p C"
  shows "off_key C (p @ x)" "off_key C (lua_repeat_scheduler_key p)" "off_key C (lua_repeat_scheduler_meta_key p x)"
  using assms by (auto simp: off_repeat_def off_key_def) metis+

section \<open>Footprints of the shared functions\<close>

text \<open>What only reads the job.\<close>

lemma keeps_items: "keeps view (agree C) (lua_items v)"
  by (rule agreeing.keeps_pure) (auto simp: lua_items_def script_defs split: option.splits json.splits list.splits bool.splits)

lemma keeps_any_flag: "keeps view (agree C) (any_flag job fs)"
  by (induction job fs rule: any_flag.induct)
     (simp_all only: any_flag.simps options_field_def, intro agreeing.keeps_rules, intro agreeing.keeps_rules)

lemma keeps_json:
  "keeps view P a \<Longrightarrow> (\<And>x. keeps view P (b x)) \<Longrightarrow> (\<And>x. keeps view P (c x)) \<Longrightarrow>
   (\<And>x. keeps view P (d x)) \<Longrightarrow> (\<And>x. keeps view P (e x)) \<Longrightarrow> (\<And>x. keeps view P (f x)) \<Longrightarrow>
   keeps view P (case v of JNull \<Rightarrow> a | JBool x \<Rightarrow> b x | JNumber x \<Rightarrow> c x | JString x \<Rightarrow> d x
     | JArray x \<Rightarrow> e x | JObject x \<Rightarrow> f x)"
  by (cases v) simp_all

lemma keeps_interval: "keeps view (agree C) (interval_millis lib i)"
proof -
  have "keeps view (agree C) (first_number lib i a b)" for i a b
    unfolding first_number_def by (intro agreeing.keeps_rules)
  then show ?thesis
    unfolding interval_millis_def by (intro agreeing.keeps_rules keeps_json)
qed

lemma keeps_duration: "keeps view (agree C) (lua_duration_millis lib d)"
  unfolding lua_duration_millis_def by (intro agreeing.keeps_rules keeps_json keeps_interval)

lemma keeps_reading:
  "keeps view (agree C) (field_text lib job f)"
  "keeps view (agree C) (options_field job f)"
  "keeps view (agree C) (lua_repeat_key job)"
  "keeps view (agree C) (lua_deduplication_id lib job)"
  "keeps view (agree C) (deduplication_ttl_millis lib job)"
  "keeps view (agree C) (scheduled_millis_of lib job)"
  "keeps view (agree C) (text_or lib d v)"
  "keeps view (agree C) (retention_options job f g b)"
  "keeps view (agree C) (lua_retention_count lib ret)"
  "keeps view (agree C) (retention_age_millis lib ret)"
  "keeps view (agree C) (retention_limit lib ret)"
  "keeps view (agree C) (job_exists R jobs i)"
  "keeps view (agree C) (set_exists R k)"
  "keeps view (agree C) (lua_repeat_keep_last_next_count lib owner_job next_job)"
  "keeps view (agree C) (failed_and_blocking job)"
  unfolding field_text_def options_field_def lua_repeat_key_def lua_deduplication_id_def
    deduplication_ttl_millis_def scheduled_millis_of_def text_or_def retention_options_def
    lua_retention_count_def retention_age_millis_def retention_limit_def job_exists_def set_exists_def
    lua_repeat_keep_last_next_count_def failed_and_blocking_def Let_def
  by (intro agreeing.keeps_rules keeps_duration keeps_any_flag)+

lemma keeps_each: "(\<And>x. keeps view (agree C) (f x)) \<Longrightarrow> keeps view (agree C) (seach f xs)"
  by (induction xs) (simp_all only: seach.simps, (intro agreeing.keeps_rules | simp)+)

lemmas frame_rules = agreeing.keeps_rules keeps_reading keeps_items keeps_any_flag keeps_duration keeps_each
  keeps_priority


lemma keeps_srem_reply: "redis_ok R view \<Longrightarrow> off_key C k \<Longrightarrow> keeps view (agree C) (srem_reply R k m)"
  unfolding srem_reply_def by (intro frame_rules keeps_commands_off)

lemma keeps_dedup:
  assumes ok: "redis_ok R view" and off: "off_prefix C p"
  shows "keeps view (agree C) (release_deduplication_key_on_finalization R lib job job_id p)"
    and "keeps view (agree C) (set_deduplication_key R lib job job_id p)"
  unfolding release_deduplication_key_on_finalization_def set_deduplication_key_def Let_def
  by (intro frame_rules keeps_commands_off [OF ok] off [unfolded off_prefix_def, rule_format])+

lemma keeps_repeat:
  assumes ok: "redis_ok R view" and off: "off_repeat p C"
  shows "keeps view (agree C) (release_repeat_key R lib job job_id p)"
    and "keeps view (agree C) (set_repeat_owner R lib job job_id p)"
    and store: "keeps view (agree C) (store_repeat_scheduler R lib job job_id p x next_text)"
    and "keeps view (agree C) (store_repeat_scheduler_of_job R lib job job_id p)"
    and "keeps view (agree C) (set_repeat_key R lib job job_id p)"
proof -
  have m: "CHash (lua_repeat_scheduler_meta_key p r) f \<notin> C" for r f
    by (rule off_repeat_notin [OF off])
  note off' = off_repeat_keys [OF off]
  show store: "keeps view (agree C) (store_repeat_scheduler R lib job job_id p x next_text)" for x next_text
    unfolding store_repeat_scheduler_def Let_def
    by (intro frame_rules keeps_store_repeat_options [OF ok] keeps_commands_off [OF ok] off' m)
  show release: "keeps view (agree C) (release_repeat_key R lib job job_id p)"
    unfolding release_repeat_key_def Let_def by (intro frame_rules keeps_commands_off [OF ok] off')
  show own: "keeps view (agree C) (set_repeat_owner R lib job job_id p)"
    unfolding set_repeat_owner_def by (intro frame_rules keeps_commands_off [OF ok] off')
  show "keeps view (agree C) (store_repeat_scheduler_of_job R lib job job_id p)"
    unfolding store_repeat_scheduler_of_job_def by (intro frame_rules store)
  then show "keeps view (agree C) (set_repeat_key R lib job job_id p)"
    unfolding set_repeat_key_def by (intro frame_rules own)
qed

section \<open>Footprints of retention, metrics and successors\<close>

lemma keeps_remove_finished:
  assumes ok: "redis_ok R view" and off: "off_env C E"
  shows "keeps view (agree C) (lua_remove_finished_job R lib E job_id)"
  unfolding lua_remove_finished_job_def remove_dependency_keys_def list.map append_assoc [symmetric]
  by (intro frame_rules keeps_repeat(1) [OF ok] keeps_commands_off [OF ok] off_env_keys [OF off])

lemma keeps_retention:
  assumes ok: "redis_ok R view" and off: "off_env C E" and target: "off_key C target_set"
  shows "keeps view (agree C) (remove_finished_jobs_by_max_age R lib E retention target_set)" (is ?age)
    and "keeps view (agree C) (remove_finished_jobs_by_max_count R lib E m target_set)" (is ?cnt)
    and "keeps view (agree C) (lua_apply_finished_retention R lib E retention target_set)" (is ?app)
    and "keeps view (agree C) (retain_finished R lib E retention target_set job_id updated)"
proof -
  note r = frame_rules keeps_remove_finished [OF ok off] keeps_commands_off [OF ok] target off_env_keys [OF off]
  show age: ?age unfolding remove_finished_jobs_by_max_age_def Let_def by (intro r)
  show cnt: "keeps view (agree C) (remove_finished_jobs_by_max_count R lib E m target_set)" for m
    unfolding remove_finished_jobs_by_max_count_def by (intro r)
  show app: ?app unfolding lua_apply_finished_retention_def by (intro r age cnt)
  show "keeps view (agree C) (retain_finished R lib E retention target_set job_id updated)"
    unfolding retain_finished_def by (intro r app)
qed

lemma f64_pos_positive: "f64_pos x = Some n \<Longrightarrow> 0 < n"
  by (auto simp: f64_pos_def split: option.splits if_splits)

lemma keeps_ltrim:
  assumes ok: "redis_ok R view" and off: "off_key C k" and k: "\<And>n. keeps view (agree C) (m n)"
  shows "keeps view (agree C) (sbind (sget (f64_pos x)) (\<lambda>n. sbind (swrite (r_ltrim_first R k n)) (\<lambda>_. m n)))"
proof (cases "f64_pos x")
  case (Some n)
  then have "keeps view (agree C) (sbind (swrite (r_ltrim_first R k n)) (\<lambda>_. m n))"
    by (intro agreeing.keeps_bind keeps_commands_off(15) [OF ok off] k f64_pos_positive)
  with Some show ?thesis by (simp add: keeps_def script_run)
qed (simp add: keeps_def script_run agreeing.same)

lemma keeps_metrics:
  assumes ok: "redis_ok R view" and off: "off_key C hash" "off_key C points"
  shows "keeps view (agree C) (lua_collect_metrics R lib E hash points)"
proof -
  have "keeps view (agree C) (count_points R lib hash points m n t c)" for m n t c
    unfolding count_points_def Let_def
    by (intro keeps_ltrim [OF ok off(2)] frame_rules keeps_commands_off [OF ok] off)
  then show ?thesis
    unfolding lua_collect_metrics_def Let_def by (intro frame_rules keeps_commands_off [OF ok] off)
qed

lemma keeps_emit:
  assumes ok: "redis_ok R view" and off: "off_env C E"
  shows "keeps view (agree C) (emit_parent_transition R E event job_id reason)"
    and "keeps view (agree C) (lua_emit_drained R E)"
    and "keeps view (agree C) (emit_exhausted R lib E job_id job)"
  unfolding emit_parent_transition_def lua_emit_drained_def emit_exhausted_def Let_def
  by (intro frame_rules keeps_commands_off [OF ok] off_env_keys [OF off])+

lemma keeps_enqueue_off:
  assumes ok: "redis_ok R view" and off: "off_env C E"
  shows "keeps view (agree C) (enqueue_waiting_job R lib (fe_jobs E) (fe_waiting E) (fe_sequence E) job job_id
      priority bucket (fe_marker E))"
    and "keeps view (agree C) (refresh_delay_marker R (fe_marker E) delayed)"
    and "keeps view (agree C) (add_base_marker_if_waiting R (fe_marker E) waiting)"
  by (intro keeps_enqueue [OF ok] keeps_refresh [OF ok] keeps_base_marker [OF ok]
      off_key_cells off_env_keys [OF off])+

lemma keeps_prepare: "keeps view (agree C) (lua_prepare_deduplicated_next_job lib E job)"
  unfolding lua_prepare_deduplicated_next_job_def Let_def by (intro frame_rules)

lemma keeps_enqueue_prepared:
  assumes ok: "redis_ok R view" and off: "off_env C E"
  shows "keeps view (agree C) (enqueue_prepared_job R lib E job x)"
  unfolding enqueue_prepared_job_def
  by (intro frame_rules keeps_enqueue_off [OF ok off] keeps_commands_off [OF ok] off_env_keys [OF off])

lemma keeps_job_lists:
  "keeps view (agree C) (some_job_exists R lib jobs cs)"
  "keeps view (agree C) (child_id_list cs)"
  "keeps view (agree C) (has_failed_child R lib jobs cs)"
  "keeps view (agree C) (lua_scan_children R lib jobs finished updated cs)"
  by (induction cs)
     (simp_all only: some_job_exists.simps child_id_list.simps has_failed_child.simps lua_scan_children.simps,
      (intro frame_rules | assumption)+)

lemma keeps_next_flow:
  assumes ok: "redis_ok R view" and off: "off_env C E" and k: "off_key C next_key"
  shows "keeps view (agree C) (lua_enqueue_deduplicated_next_flow R lib E next_key payload)"
proof -
  note r = frame_rules keeps_prepare keeps_enqueue_prepared [OF ok off] keeps_dedup [OF ok]
    keeps_commands_off [OF ok] off_env_keys [OF off] k keeps_job_lists
  have c: "keeps view (agree C) (enqueue_flow_child R lib E p (fe_dependency E @ d) child)" for p d child
    unfolding enqueue_flow_child_def by (intro r)
  have "keeps view (agree C) (enqueue_next_flow R lib E next_key parent children)" for parent children
    unfolding enqueue_next_flow_def by (intro r c)
  then show ?thesis
    unfolding lua_enqueue_deduplicated_next_flow_def Let_def by (intro r)
qed

lemma keeps_enqueue_next:
  assumes ok: "redis_ok R view" and off: "off_env C E"
    and store: "\<And>job i x. keeps view (agree C) (store job i x)"
  shows "keeps view (agree C) (enqueue_deduplicated_next_with store R lib E job)"
proof -
  note r = frame_rules keeps_prepare keeps_enqueue_prepared [OF ok off] keeps_dedup [OF ok]
    keeps_commands_off [OF ok] off_env_keys [OF off]
  have "keeps view (agree C) (link_to_parent R lib E next_job job_id)" for next_job job_id
    unfolding link_to_parent_def by (intro r)
  then show ?thesis
    unfolding enqueue_deduplicated_next_with_def Let_def
    by (intro r store keeps_next_flow [OF ok off])
qed

lemma keeps_enqueue_nexts:
  assumes ok: "redis_ok R view" and off: "off_env C E"
  shows "keeps view (agree C) (complete_enqueue_deduplicated_next R lib E job)"
    and "keeps view (agree C) (fail_enqueue_deduplicated_next R lib E job)"
  unfolding complete_enqueue_deduplicated_next_def fail_enqueue_deduplicated_next_def
  by (intro keeps_enqueue_next [OF ok off] frame_rules keeps_repeat [OF ok] off_env_keys [OF off])+

section \<open>Footprints of the parent\<close>

lemma keeps_verdict:
  "(keeps view P a) \<Longrightarrow> (keeps view P b) \<Longrightarrow> (keeps view P c) \<Longrightarrow> (keeps view P d) \<Longrightarrow>
   (\<And>x y. keeps view P (e x y)) \<Longrightarrow>
   keeps view P (case v of StillWaiting \<Rightarrow> a | AllDone \<Rightarrow> b | ContinueParent \<Rightarrow> c | DeferFailure \<Rightarrow> d
     | ChildFailed x y \<Rightarrow> e x y)"
  by (cases v) simp_all

lemma keeps_settle:
  assumes ok: "redis_ok R view" and off: "off_env C E"
  shows "keeps view (agree C) (settle_parent R lib E job_id parent parent_id verdict)"
proof -
  note o' = off_env_keys [OF off]
  note r = frame_rules keeps_enqueue_off [OF ok off] keeps_dedup [OF ok] keeps_repeat [OF ok]
    keeps_commands_off [OF ok] keeps_retention [OF ok off] keeps_metrics [OF ok] keeps_emit [OF ok off] o'
  have f: "keeps view (agree C) (fail_parent R lib E parent parent_id child reason)" for child reason
    unfolding fail_parent_def Let_def by (intro r)
  have w: "keeps view (agree C) (wake_parent R lib E parent parent_id deferred)" for deferred
    unfolding wake_parent_def by (intro r)
  show ?thesis
    unfolding settle_parent_def by (intro keeps_verdict f w r)
qed

lemma keeps_with_parent:
  "(\<And>p i. keeps view (agree C) (f p i)) \<Longrightarrow> keeps view (agree C) (with_parent R lib E job f)"
  unfolding with_parent_def by (intro frame_rules)

lemma keeps_parent:
  assumes ok: "redis_ok R view" and off: "off_env C E"
  shows "keeps view (agree C) (parent_after_completion R lib E job_id updated v parent parent_id)"
    and "keeps view (agree C) (parent_after_failure R lib E job job_id updated reason parent parent_id)"
proof -
  note r = frame_rules keeps_srem_reply [OF ok] keeps_commands_off [OF ok] keeps_settle [OF ok off]
    keeps_job_lists off_env_keys [OF off]
  have c: "keeps view (agree C) (children_verdict R lib E i u h p d)" for i u h p d
    unfolding children_verdict_def by (intro r)
  show "keeps view (agree C) (parent_after_completion R lib E job_id updated v parent parent_id)"
    unfolding parent_after_completion_def Let_def by (intro r c)
  have l: "keeps view (agree C) (leave_dependencies R E job job_id reason (fe_dependency E @ d))" for d
    unfolding leave_dependencies_def by (intro r)
  have v: "keeps view (agree C) (failure_verdict R lib E job job_id updated reason parent (fe_dependency E @ d))" for d
    unfolding failure_verdict_def by (intro r c)
  show "keeps view (agree C) (parent_after_failure R lib E job job_id updated reason parent parent_id)"
    unfolding parent_after_failure_def Let_def by (intro r l v)
qed

end
