(* ===== verification/Redis_Outcome_Safety.thy ===== *)
theory Redis_Outcome_Safety
  imports Redis_Finished
begin

text \<open>
  Completing and failing a job through \<open>RedisJobQueue\<close>: who may, when a flow's parent may, and that
  the lease is over afterwards.
\<close>

section \<open>The queue's keys in the two scripts\<close>

definition lease_only :: "redis_queue \<Rightarrow> job_id \<Rightarrow> cell set" where
  "lease_only q job_id = {CString (lock_key q job_id), CZset (state_key q Active), CSet (stalled_key q)}"

lemma queue_prefixes:
  "dependencies_key_prefix q @ x = redis_key q (''dependencies:'' @ x)"
  "deduplication_key_prefix q @ x = redis_key q (''deduplication:'' @ x)"
  "deduplication_next_key_prefix q @ x = redis_key q (''deduplication_next:'' @ x)"
  "logs_key_prefix q @ x = redis_key q (''logs:'' @ x)"
  "state_key q WaitingChildren = redis_key q ''waiting_children''"
  "state_key q Completed = redis_key q ''completed''" "state_key q Failed = redis_key q ''failed''"
  "dependencies_key q x = redis_key q (''dependencies:'' @ x)"
  by (simp_all add: dependencies_key_prefix_def deduplication_key_prefix_def
      deduplication_next_key_prefix_def logs_key_prefix_def state_key_def redis_key_def dependencies_key_def)

definition queue_env :: "client \<Rightarrow> instant \<Rightarrow> f64 \<Rightarrow> f64 option \<Rightarrow> finish_env" where
  "queue_env Z now now_number points =
     (let q = cl_queue Z in
      \<lparr>fe_jobs = jobs_key q, fe_active = state_key q Active, fe_waiting = state_key q Waiting,
       fe_waiting_children = state_key q WaitingChildren, fe_delayed = state_key q Delayed,
       fe_failed = state_key q Failed, fe_sequence = sequence_key q, fe_events = events_key q,
       fe_marker = marker_key q, fe_failed_metrics = redis_key q ''metrics:failed'',
       fe_failed_data = redis_key q ''metrics:failed:data'',
       fe_dependency = dependencies_key_prefix q, fe_deduplication = deduplication_key_prefix q,
       fe_deduplication_next = deduplication_next_key_prefix q, fe_repeat = repeat_key_prefix q,
       fe_logs = logs_key_prefix q, fe_now_iso = rc_rfc3339 (cl_codec Z) now, fe_now = now_number,
       fe_now_text = show_int (ext_timestamp_millis (cl_ext Z) now), fe_bucket = WAITING_SCORE_BUCKET,
       fe_maxlen = DEFAULT_JOB_EVENT_RETENTION, fe_max_points = points\<rparr>)"

lemma off_queue_env: "off_env (lease_only (cl_queue Z) job_id) (queue_env Z now x p)"
  by (simp add: off_env_def off_prefix_def off_key_def queue_env_def lease_only_def queue_keys
      queue_prefixes off_repeat_queue Let_def)

lemma off_queue_keys:
  "off_key (lease_only q job_id) (state_key q Completed)"
  "off_key (lease_only q job_id) (redis_key q ''metrics:completed'')"
  "off_key (lease_only q job_id) (redis_key q ''metrics:completed:data'')"
  "off_key (lease_only q job_id) (redis_key q ''metrics:failed'')"
  "off_key (lease_only q job_id) (redis_key q ''metrics:failed:data'')"
  by (simp_all add: off_key_def lease_only_def queue_keys queue_prefixes)

section \<open>The lease is over\<close>

lemma sbind_then_keeps:
  assumes "sbind m f s = (Some y, s')" "\<And>x. keeps view P (f x)"
  shows "\<exists>x s1. m s = (Some x, s1) \<and> P (view s1) (view s')"
  using assms(1)
proof (rule sbind_SomeE)
  fix x s1 assume "m s = (Some x, s1)" "f x s1 = (Some y, s')"
  then show ?thesis using keepsD [OF assms(2) \<open>f x s1 = (Some y, s')\<close>] by blast
qed

lemma end_lease_ends:
  assumes "redis_ok R view"
    and "end_lease R (lock_key q job_id) (stalled_key q) (state_key q Active) job_id s = (Some (), s1)"
  shows "lease_ended q (view s1) job_id"
  using assms(2)
  by (auto simp: end_lease_def script_run lease_ended_def redis_writes [OF assms(1)] ks_srem_def
      ks_del_def ks_zrem_def queue_keys zset_remove_def)

lemma lease_ended_only:
  "lease_ended q u job_id \<Longrightarrow> agree (lease_only q job_id) u v \<Longrightarrow> lease_ended q v job_id"
  unfolding lease_only_def by (rule lease_ended_agree)

lemma keeps_add_repeat_next:
  assumes ok: "redis_ok R view" and off: "off_env C E"
  shows "keeps view (agree C) (add_repeat_next R lib E i raw st score priority)"
  unfolding add_repeat_next_def
  by (intro frame_rules keeps_commands_off [OF ok] keeps_dedup [OF ok] keeps_repeat [OF ok]
      keeps_enqueue_off [OF ok off] off_env_keys [OF off])

lemma complete_body_ends:
  assumes ok: "redis_ok R view"
    and ran: "complete_body R lib (queue_env Z now x p) (lock_key (cl_queue Z) job_id) (stalled_key (cl_queue Z))
      (state_key (cl_queue Z) Completed) (redis_key (cl_queue Z) ''metrics:completed'')
      (redis_key (cl_queue Z) ''metrics:completed:data'') removes N job_id v job s = (Some r, s')"
  shows "lease_ended (cl_queue Z) (view s') job_id"
proof -
  note off = off_queue_env [of Z job_id now x p]
  have active: "fe_active (queue_env Z now x p) = state_key (cl_queue Z) Active"
    by (simp add: queue_env_def Let_def)
  note r = frame_rules keeps_commands_off [OF ok] keeps_dedup [OF ok] keeps_enqueue_nexts [OF ok off]
    keeps_retention [OF ok off] keeps_metrics [OF ok] keeps_with_parent keeps_parent [OF ok off]
    keeps_add_repeat_next [OF ok off] keeps_repeat [OF ok] keeps_enqueue_off [OF ok off] keeps_emit [OF ok off]
    off_queue_keys off_env_keys [OF off]
  have "\<exists>x s1. end_lease R (lock_key (cl_queue Z) job_id) (stalled_key (cl_queue Z))
      (state_key (cl_queue Z) Active) job_id s = (Some x, s1) \<and> agree (lease_only (cl_queue Z) job_id) (view s1) (view s')"
    using ran unfolding complete_body_def active Let_def by (rule sbind_then_keeps) (intro r)
  then show ?thesis
    using end_lease_ends [OF ok] lease_ended_only by fastforce
qed

lemma fail_body_ends:
  assumes ok: "redis_ok R view"
    and ran: "fail_body R lib (queue_env Z now x p) (lock_key (cl_queue Z) job_id) (stalled_key (cl_queue Z))
      retries at' y removes job_id reason job s = (Some r, s')"
  shows "lease_ended (cl_queue Z) (view s') job_id"
proof -
  note off = off_queue_env [of Z job_id now x p]
  have active: "fe_active (queue_env Z now x p) = state_key (cl_queue Z) Active"
    by (simp add: queue_env_def Let_def)
  note r = frame_rules keeps_commands_off [OF ok] keeps_dedup [OF ok] keeps_enqueue_nexts [OF ok off]
    keeps_retention [OF ok off] keeps_metrics [OF ok] keeps_with_parent keeps_parent [OF ok off]
    keeps_repeat [OF ok] keeps_enqueue_off [OF ok off] keeps_emit [OF ok off] off_env_keys [OF off]
  have "keeps view (agree (lease_only (cl_queue Z) job_id))
      (retry_later R lib (queue_env Z now x p) at' y job_id reason job)" for job
    unfolding retry_later_def Let_def by (intro r)
  moreover have "keeps view (agree (lease_only (cl_queue Z) job_id))
      (fail_for_good R lib (queue_env Z now x p) removes job_id reason job)" for job
    unfolding fail_for_good_def Let_def by (intro r)
  ultimately have "\<exists>x s1. end_lease R (lock_key (cl_queue Z) job_id) (stalled_key (cl_queue Z))
      (state_key (cl_queue Z) Active) job_id s = (Some x, s1) \<and> agree (lease_only (cl_queue Z) job_id) (view s1) (view s')"
    using ran unfolding fail_body_def active by (rule_tac sbind_then_keeps) (intro r | assumption)+
  then show ?thesis
    using end_lease_ends [OF ok] lease_ended_only by fastforce
qed

section \<open>Failed children\<close>

definition json_field :: "json \<Rightarrow> string \<Rightarrow> json option" where
  "json_field j f = (case j of JObject kvs \<Rightarrow> map_of kvs f | _ \<Rightarrow> None)"

definition json_flag :: "json \<Rightarrow> string \<Rightarrow> bool" where
  "json_flag j f \<longleftrightarrow>
     (case json_field j ''options'' of Some o' \<Rightarrow> json_field o' f = Some (JBool True) | None \<Rightarrow> False)"

definition failed_child_blocks :: "json \<Rightarrow> bool" where
  "failed_child_blocks child \<longleftrightarrow>
     json_field child ''state'' = Some (JString ''failed'') \<and> (\<forall>f\<in>set release_flags. \<not> json_flag child f)"

lemma lua_index_field: "lua_index j f s = (Some v, s') \<Longrightarrow> v = json_field j f \<and> s' = s"
  by (cases "(j, f)" rule: lua_index.cases) (auto simp: script_defs json_field_def)

lemma options_field_flag:
  "options_field j f s = (Some v, s') \<Longrightarrow> (v = Some (JBool True)) = json_flag j f \<and> s' = s"
  unfolding options_field_def
  by (auto simp: json_flag_def script_run lua_absent_def json_field_def dest!: lua_index_field
      elim!: sbind_SomeE split: if_splits option.splits)

lemma any_flag_iff: "any_flag j fs s = (Some b, s') \<Longrightarrow> b = (\<exists>f\<in>set fs. json_flag j f) \<and> s' = s"
proof (induction fs arbitrary: s)
  case (Cons f fs)
  then show ?case
    by (auto simp: script_run elim!: sbind_SomeE dest!: options_field_flag split: if_splits) blast+
qed (simp add: script_run)

lemma failed_and_blocking_iff:
  "failed_and_blocking j s = (Some b, s') \<Longrightarrow> b = failed_child_blocks j \<and> s' = s"
  unfolding failed_and_blocking_def
  by (auto simp: failed_child_blocks_def script_run elim!: sbind_SomeE dest!: lua_index_field any_flag_iff
      split: if_splits)

lemma has_failed_child_False:
  assumes "redis_ok R view" "has_failed_child R lib jobs cs s = (Some False, s')"
    "JString i \<in> set cs" "ks_hash (view s) jobs i = Some t" "cjson_decode lib t = Some child"
  shows "\<not> failed_child_blocks child"
  using assms(2-)
proof (induction cs arbitrary: s)
  case (Cons c cs)
  from Cons.prems(1) obtain i' where i': "lua_text lib c = Some i'"
    by (auto simp: script_run split: option.splits)
  show ?case
  proof (cases "c = JString i")
    case True
    then have "lua_text lib c = Some i" by (simp add: lua_text_def)
    with Cons.prems show ?thesis
      by (auto simp: script_run redis_reads [OF assms(1)] elim!: sbind_SomeE dest!: failed_and_blocking_iff
          split: if_splits)
  next
    case False
    with Cons.prems(2) have m: "JString i \<in> set cs" by simp
    have "has_failed_child R lib jobs cs s = (Some False, s')"
      using Cons.prems(1) i'
      by (auto simp: script_run redis_reads [OF assms(1)] elim!: sbind_SomeE dest!: failed_and_blocking_iff
          split: option.splits if_splits)
    from Cons.IH [OF this m Cons.prems(3,4)] show ?thesis .
  qed
qed simp

lemma has_failed_child_same: "has_failed_child R lib jobs cs s = (Some b, s') \<Longrightarrow> s' = s"
  by (induction cs arbitrary: s)
     (auto simp: script_run elim!: sbind_SomeE dest!: failed_and_blocking_iff split: option.splits if_splits)

lemma lua_items_same: "lua_items v s = (Some xs, s') \<Longrightarrow> s' = s \<and> (v = Some (JArray ys) \<longrightarrow> xs = ys)"
  by (auto simp: lua_items_def script_defs split: option.splits json.splits list.splits bool.splits)

lemma unless_dependencies_Some:
  assumes ok: "redis_ok R view"
    and ran: "unless_dependencies R lib jobs dep (JObject kvs) k s = (Some (''ok'' # r), s')"
  shows "ks_set (view s) dep = []" "ks_zset (view s) (dep @ '':unsuccessful'') = []"
    "map_of kvs ''child_ids'' = Some (JArray cs) \<Longrightarrow> JString i \<in> set cs \<Longrightarrow>
       ks_hash (view s) jobs i = Some t \<Longrightarrow> cjson_decode lib t = Some child \<Longrightarrow> \<not> failed_child_blocks child"
    "k s = (Some (''ok'' # r), s')"
proof -
  from ran obtain xs where e: "ks_set (view s) dep = []" "ks_zset (view s) (dep @ '':unsuccessful'') = []"
    and items: "lua_items (map_of kvs ''child_ids'') s = (Some xs, s)"
    and f: "has_failed_child R lib jobs xs s = (Some False, s)" and k: "k s = (Some (''ok'' # r), s')"
    unfolding unless_dependencies_def
    by (auto simp: script_run redis_reads [OF ok] json_field_def elim!: sbind_SomeE
        dest: lua_items_same dest!: lua_index_field split: if_splits)
       (metis has_failed_child_same lua_items_same)+
  show "ks_set (view s) dep = []" "ks_zset (view s) (dep @ '':unsuccessful'') = []"
    "k s = (Some (''ok'' # r), s')" by (fact e k)+
  show "map_of kvs ''child_ids'' = Some (JArray cs) \<Longrightarrow> JString i \<in> set cs \<Longrightarrow>
       ks_hash (view s) jobs i = Some t \<Longrightarrow> cjson_decode lib t = Some child \<Longrightarrow> \<not> failed_child_blocks child"
    using lua_items_same [OF items] has_failed_child_False [OF ok f] by blast
qed

section \<open>The operations\<close>

lemma require_job_same: "redis_require_job Z R job_id s = (x, s1) \<Longrightarrow> s1 = s"
  by (auto simp: redis_require_job_def redis_load_job_def on_reply_def split: option.splits)

lemma complete_keys_queue:
  "complete_keys q job_id = Inr (map AText [jobs_key q, state_key q Active, state_key q Completed, lock_key q job_id,
     state_key q Waiting, state_key q WaitingChildren, sequence_key q, state_key q Failed,
     state_key q Delayed, events_key q, stalled_key q, redis_key q ''metrics:completed'',
     redis_key q ''metrics:completed:data'', redis_key q ''metrics:failed'',
     redis_key q ''metrics:failed:data'', marker_key q])"
  by (simp add: complete_keys_def metrics_key_def metrics_data_key_def)

lemma fail_keys_queue:
  "fail_keys q job_id = Inr (map AText [jobs_key q, state_key q Active, state_key q Delayed, state_key q Failed,
     lock_key q job_id, state_key q WaitingChildren, state_key q Waiting, sequence_key q, events_key q,
     stalled_key q, redis_key q ''metrics:failed'', redis_key q ''metrics:failed:data'', marker_key q])"
  by (simp add: fail_keys_def metrics_key_def metrics_data_key_def)

text \<open>What \<open>complete_job\<close> asks of the server.\<close>

lemma complete_query:
  assumes "complete_call Z job_id token v uuid now active = Inr args"
  obtains v' N removes' where
    "eval_script (complete_script R (cl_lib Z)) 16 args =
      with_job R (cl_lib Z) (jobs_key (cl_queue Z)) job_id (sret ()) (\<lambda>job.
      in_state (cl_lib Z) ''active'' [] job (sret ()) (
      owns_lock R (lock_key (cl_queue Z) job_id) token (
      unless_dependencies R (cl_lib Z) (jobs_key (cl_queue Z)) (dependencies_key (cl_queue Z) job_id) job (
      complete_body R (cl_lib Z)
        (queue_env Z now (f64_of_int (ext_timestamp_millis (cl_ext Z) now)) (Some (f64_of_int 10000)))
        (lock_key (cl_queue Z) job_id) (stalled_key (cl_queue Z)) (state_key (cl_queue Z) Completed)
        (redis_key (cl_queue Z) ''metrics:completed'') (redis_key (cl_queue Z) ''metrics:completed:data'')
        removes' N job_id v' job))))"
proof -
  from assms obtain nr v' raw removes where
    args: "args = map AText [jobs_key (cl_queue Z), state_key (cl_queue Z) Active, state_key (cl_queue Z) Completed,
      lock_key (cl_queue Z) job_id, state_key (cl_queue Z) Waiting, state_key (cl_queue Z) WaitingChildren,
      sequence_key (cl_queue Z), state_key (cl_queue Z) Failed, state_key (cl_queue Z) Delayed,
      events_key (cl_queue Z), stalled_key (cl_queue Z), redis_key (cl_queue Z) ''metrics:completed'',
      redis_key (cl_queue Z) ''metrics:completed:data'', redis_key (cl_queue Z) ''metrics:failed'',
      redis_key (cl_queue Z) ''metrics:failed:data'', marker_key (cl_queue Z)]
      @ complete_args Z job_id token now v' removes nr raw"
    by (auto simp: complete_call_def and_then_Inr complete_keys_queue)
  have "eval_script (complete_script R (cl_lib Z)) 16 args s =
      with_job R (cl_lib Z) (jobs_key (cl_queue Z)) job_id (sret ()) (\<lambda>job.
      in_state (cl_lib Z) ''active'' [] job (sret ()) (
      owns_lock R (lock_key (cl_queue Z) job_id) token (
      unless_dependencies R (cl_lib Z) (jobs_key (cl_queue Z)) (dependencies_key (cl_queue Z) job_id) job (
      complete_body R (cl_lib Z)
        (queue_env Z now (f64_of_int (ext_timestamp_millis (cl_ext Z) now)) (Some (f64_of_int 10000)))
        (lock_key (cl_queue Z) job_id) (stalled_key (cl_queue Z)) (state_key (cl_queue Z) Completed)
        (redis_key (cl_queue Z) ''metrics:completed'') (redis_key (cl_queue Z) ''metrics:completed:data'')
        removes \<lparr>rn_id = (case nr of None \<Rightarrow> [] | Some j \<Rightarrow> j_id j), rn_raw = raw,
          rn_state = (case nr of None \<Rightarrow> [] | Some j \<Rightarrow> job_state_name (j_state j)),
          rn_score = (case nr of None \<Rightarrow> Fin 0 | Some j \<Rightarrow> millis (cl_ext Z) (j_scheduled_at j)),
          rn_priority = f64_of_int (int (case nr of None \<Rightarrow> 0 | Some j \<Rightarrow> j_priority j))\<rparr>
        job_id v' job)))) s" for s
    unfolding args
    by (cases nr)
       (simp_all add: eval_script_def complete_script_def complete_args_def queue_env_def script_run Let_def
          nat_arg_def bucket_arg_def score_arg_def float_arg_def time_arg_def flag_arg_def
          dependencies_key_def DEFAULT_JOB_METRICS_RETENTION_def millis_def)
  then show thesis by (intro that) (rule ext)
qed

lemma complete_ran:
  assumes ok: "redis_ok R view"
    and completed: "redis_complete_job Z R job_id token v uuid now s = (Inr job, s')"
  obtains t kvs removes N v' raw rest where
    "ks_hash (view s) (jobs_key (cl_queue Z)) job_id = Some t"
    "cjson_decode (cl_lib Z) t = Some (JObject kvs)" "map_of kvs ''state'' = Some (JString ''active'')"
    "ks_string (view s) (lock_key (cl_queue Z) job_id) = Some token"
    "unless_dependencies R (cl_lib Z) (jobs_key (cl_queue Z)) (dependencies_key (cl_queue Z) job_id)
      (JObject kvs) (complete_body R (cl_lib Z)
        (queue_env Z now (f64_of_int (ext_timestamp_millis (cl_ext Z) now)) (Some (f64_of_int 10000)))
        (lock_key (cl_queue Z) job_id) (stalled_key (cl_queue Z)) (state_key (cl_queue Z) Completed)
        (redis_key (cl_queue Z) ''metrics:completed'') (redis_key (cl_queue Z) ''metrics:completed:data'')
        removes N job_id v' (JObject kvs)) s = (Some (''ok'' # raw # rest), s')"
proof -
  from completed obtain active args where call: "complete_call Z job_id token v uuid now active = Inr args"
    and reply: "on_reply (\<lambda>reply. decode_transition_result (cl_codec Z) reply job_id ''complete'')
      (query (cl_codec Z) (eval_script (complete_script R (cl_lib Z)) 16 args) s) = (Inr job, s')"
    unfolding redis_complete_job_def
    by (auto split: prod.splits sum.splits dest!: require_job_same)
  from reply obtain raw rest where
    m: "eval_script (complete_script R (cl_lib Z)) 16 args s = (Some (''ok'' # raw # rest), s')"
    by (rule transition_reply)
  obtain v' N removes' where m':
    "with_job R (cl_lib Z) (jobs_key (cl_queue Z)) job_id (sret ()) (\<lambda>job.
      in_state (cl_lib Z) ''active'' [] job (sret ()) (
      owns_lock R (lock_key (cl_queue Z) job_id) token (
      unless_dependencies R (cl_lib Z) (jobs_key (cl_queue Z)) (dependencies_key (cl_queue Z) job_id) job (
      complete_body R (cl_lib Z)
        (queue_env Z now (f64_of_int (ext_timestamp_millis (cl_ext Z) now)) (Some (f64_of_int 10000)))
        (lock_key (cl_queue Z) job_id) (stalled_key (cl_queue Z)) (state_key (cl_queue Z) Completed)
        (redis_key (cl_queue Z) ''metrics:completed'') (redis_key (cl_queue Z) ''metrics:completed:data'')
        removes' N job_id v' job)))) s = (Some (''ok'' # raw # rest), s')"
    by (rule complete_query [OF call, of R]) (use m in simp)
  from m' show thesis
    by (auto elim!: with_job_Some [OF _ ok] in_state_Some owns_lock_Some [OF _ ok] intro: that)
qed

text \<open>
  C13. A job completes on the Redis backend only for the holder of its lock, while it is active, and
  only when the set of its pending children is empty, no child failed for good and no listed child
  is stored as failed without a policy that releases the parent. Whatever else the call does (keep
  or drop the job, wake or fail a parent, add the next job), the lease is over afterwards: no lock,
  not active, not a stalled candidate.
\<close>

theorem redis_complete_resolved:
  assumes ok: "redis_ok R view"
    and completed: "redis_complete_job Z R job_id token v uuid now s = (Inr job, s')"
  shows "ks_string (view s) (lock_key (cl_queue Z) job_id) = Some token \<and>
    stored_state (cl_lib Z) (view s) (jobs_key (cl_queue Z)) job_id = Some (JString ''active'') \<and>
    ks_set (view s) (dependencies_key (cl_queue Z) job_id) = [] \<and>
    ks_zset (view s) (dependencies_key (cl_queue Z) job_id @ '':unsuccessful'') = [] \<and>
    (\<forall>raw kvs cs i t child. ks_hash (view s) (jobs_key (cl_queue Z)) job_id = Some raw \<longrightarrow>
       cjson_decode (cl_lib Z) raw = Some (JObject kvs) \<longrightarrow> map_of kvs ''child_ids'' = Some (JArray cs) \<longrightarrow>
       JString i \<in> set cs \<longrightarrow> ks_hash (view s) (jobs_key (cl_queue Z)) i = Some t \<longrightarrow>
       cjson_decode (cl_lib Z) t = Some child \<longrightarrow> \<not> failed_child_blocks child) \<and>
    lease_ended (cl_queue Z) (view s') job_id"
proof -
  from completed obtain t kvs removes N v' raw rest where
    stored: "ks_hash (view s) (jobs_key (cl_queue Z)) job_id = Some t"
      "cjson_decode (cl_lib Z) t = Some (JObject kvs)" "map_of kvs ''state'' = Some (JString ''active'')"
    and lock: "ks_string (view s) (lock_key (cl_queue Z) job_id) = Some token"
    and u: "unless_dependencies R (cl_lib Z) (jobs_key (cl_queue Z)) (dependencies_key (cl_queue Z) job_id)
      (JObject kvs) (complete_body R (cl_lib Z)
        (queue_env Z now (f64_of_int (ext_timestamp_millis (cl_ext Z) now)) (Some (f64_of_int 10000)))
        (lock_key (cl_queue Z) job_id) (stalled_key (cl_queue Z)) (state_key (cl_queue Z) Completed)
        (redis_key (cl_queue Z) ''metrics:completed'') (redis_key (cl_queue Z) ''metrics:completed:data'')
        removes N job_id v' (JObject kvs)) s = (Some (''ok'' # raw # rest), s')"
    by (rule complete_ran [OF ok])
  note d = unless_dependencies_Some [OF ok u]
  have "lease_ended (cl_queue Z) (view s') job_id" by (rule complete_body_ends [OF ok d(4)])
  with stored lock d(1-3) show ?thesis by (auto simp: stored_state_def)
qed

lemma fail_query:
  obtains removes where
    "eval_script (fail_script R (cl_lib Z)) 13
       (map AText [jobs_key (cl_queue Z), state_key (cl_queue Z) Active, state_key (cl_queue Z) Delayed,
         state_key (cl_queue Z) Failed, lock_key (cl_queue Z) job_id, state_key (cl_queue Z) WaitingChildren,
         state_key (cl_queue Z) Waiting, sequence_key (cl_queue Z), events_key (cl_queue Z),
         stalled_key (cl_queue Z), redis_key (cl_queue Z) ''metrics:failed'',
         redis_key (cl_queue Z) ''metrics:failed:data'', marker_key (cl_queue Z)]
        @ fail_args Z job_id token now reason retry_at b) =
      with_job R (cl_lib Z) (jobs_key (cl_queue Z)) job_id (sret ()) (\<lambda>job.
      in_state (cl_lib Z) ''active'' [] job (sret ()) (
      owns_lock R (lock_key (cl_queue Z) job_id) token (
      fail_body R (cl_lib Z)
        (queue_env Z now (f64_of_int (ext_timestamp_millis (cl_ext Z) now)) (Some (f64_of_int 10000)))
        (lock_key (cl_queue Z) job_id) (stalled_key (cl_queue Z)) (retry_at \<noteq> None)
        (rc_rfc3339 (cl_codec Z) (case retry_at of None \<Rightarrow> now | Some t \<Rightarrow> t))
        (millis (cl_ext Z) (case retry_at of None \<Rightarrow> now | Some t \<Rightarrow> t)) removes job_id reason job)))"
proof (rule that [of b])
  show "eval_script (fail_script R (cl_lib Z)) 13
       (map AText [jobs_key (cl_queue Z), state_key (cl_queue Z) Active, state_key (cl_queue Z) Delayed,
         state_key (cl_queue Z) Failed, lock_key (cl_queue Z) job_id, state_key (cl_queue Z) WaitingChildren,
         state_key (cl_queue Z) Waiting, sequence_key (cl_queue Z), events_key (cl_queue Z),
         stalled_key (cl_queue Z), redis_key (cl_queue Z) ''metrics:failed'',
         redis_key (cl_queue Z) ''metrics:failed:data'', marker_key (cl_queue Z)]
        @ fail_args Z job_id token now reason retry_at b) =
      with_job R (cl_lib Z) (jobs_key (cl_queue Z)) job_id (sret ()) (\<lambda>job.
      in_state (cl_lib Z) ''active'' [] job (sret ()) (
      owns_lock R (lock_key (cl_queue Z) job_id) token (
      fail_body R (cl_lib Z)
        (queue_env Z now (f64_of_int (ext_timestamp_millis (cl_ext Z) now)) (Some (f64_of_int 10000)))
        (lock_key (cl_queue Z) job_id) (stalled_key (cl_queue Z)) (retry_at \<noteq> None)
        (rc_rfc3339 (cl_codec Z) (case retry_at of None \<Rightarrow> now | Some t \<Rightarrow> t))
        (millis (cl_ext Z) (case retry_at of None \<Rightarrow> now | Some t \<Rightarrow> t)) b job_id reason job)))"
    by (rule ext)
       (simp add: eval_script_def fail_script_def fail_args_def queue_env_def script_run Let_def
          nat_arg_def bucket_arg_def score_arg_def time_arg_def flag_arg_def DEFAULT_JOB_METRICS_RETENTION_def)
qed

text \<open>The job of a failed attempt that is repeated.\<close>

definition retry_cells :: "redis_queue \<Rightarrow> job_id \<Rightarrow> cell set" where
  "retry_cells q job_id = {CHash (jobs_key q) job_id, CZset (state_key q Delayed)}"

lemma retry_later_ok:
  assumes ok: "redis_ok R view"
    and ran: "retry_later R lib (queue_env Z now x p) at' y job_id reason job s = (Some (''ok'' # raw # rest), s')"
  shows "ks_hash (view s') (jobs_key (cl_queue Z)) job_id = Some raw"
    "map_of (ks_zset (view s') (state_key (cl_queue Z) Delayed)) job_id = Some y"
proof -
  let ?E = "queue_env Z now x p" and ?q = "cl_queue Z"
  let ?s1 = "\<lambda>s. r_zadd R (state_key ?q Delayed) y job_id (r_hset R (jobs_key ?q) job_id raw s)"
  from ran obtain s2 s3 where
    mark: "refresh_delay_marker R (marker_key ?q) (state_key ?q Delayed) (?s1 s) = (Some (), s2)"
    and base: "add_base_marker_if_waiting R (marker_key ?q) (state_key ?q Waiting) s2 = (Some (), s3)"
    and s': "s' = r_xadd R (events_key ?q) DEFAULT_JOB_EVENT_RETENTION
      [(''event'', ''delayed''), (''jobId'', job_id), (''failedReason'', reason), (''prev'', ''active'')] s3"
    unfolding retry_later_def
    by (auto simp: queue_env_def script_run Let_def elim!: sbind_SomeE dest!: pure_steps)
  have m: "CZset (marker_key ?q) \<notin> retry_cells ?q job_id" "CStream (events_key ?q) \<notin> retry_cells ?q job_id"
    by (simp_all add: retry_cells_def queue_keys)
  note agreeing.chain [OF keepsD [OF keeps_refresh [OF ok m(1)] mark] keepsD [OF keeps_base_marker [OF ok m(1)] base]]
  moreover have "agree (retry_cells ?q job_id) (view s3) (view s')"
    unfolding s' by (rule keepsD [OF keeps_commands(12) [OF ok m(2)]]) (simp add: script_run)
  ultimately have tail: "agree (retry_cells ?q job_id) (view (?s1 s)) (view s')" by (rule agreeing.chain)
  from agreeD [OF tail, of "CHash (jobs_key ?q) job_id"] agreeD [OF tail, of "CZset (state_key ?q Delayed)"]
  show "ks_hash (view s') (jobs_key ?q) job_id = Some raw"
    "map_of (ks_zset (view s') (state_key ?q Delayed)) job_id = Some y"
    by (simp_all add: retry_cells_def redis_writes [OF ok] ks_zadd_def ks_hput_def) (metis map_of_zset_insert)
qed

lemma fail_body_retries:
  assumes ok: "redis_ok R view"
    and ran: "fail_body R lib (queue_env Z now x p) lock stalled True at' y removes job_id reason job s
      = (Some (''ok'' # raw # rest), s')"
  shows "ks_hash (view s') (jobs_key (cl_queue Z)) job_id = Some raw \<and>
    map_of (ks_zset (view s') (state_key (cl_queue Z) Delayed)) job_id = Some y"
  using ran unfolding fail_body_def
  by (auto elim!: sbind_SomeE dest: retry_later_ok [OF ok])

lemma fail_ran:
  assumes ok: "redis_ok R view"
    and failed: "fail_job_with_retry_control Z R job_id token reason now allow_retry s = (Inr job, s')"
  obtains job0 t kvs removes raw rest where
    "redis_load_job Z R job_id s = (Inr (Some job0), s)"
    "ks_hash (view s) (jobs_key (cl_queue Z)) job_id = Some t"
    "cjson_decode (cl_lib Z) t = Some (JObject kvs)" "map_of kvs ''state'' = Some (JString ''active'')"
    "ks_string (view s) (lock_key (cl_queue Z) job_id) = Some token"
    "fail_body R (cl_lib Z) (queue_env Z now (f64_of_int (ext_timestamp_millis (cl_ext Z) now)) (Some (f64_of_int 10000)))
        (lock_key (cl_queue Z) job_id) (stalled_key (cl_queue Z))
        (retry_time Z job0 allow_retry now \<noteq> None)
        (rc_rfc3339 (cl_codec Z) (case retry_time Z job0 allow_retry now of None \<Rightarrow> now | Some t \<Rightarrow> t))
        (millis (cl_ext Z) (case retry_time Z job0 allow_retry now of None \<Rightarrow> now | Some t \<Rightarrow> t))
        removes job_id reason (JObject kvs) s = (Some (''ok'' # raw # rest), s')"
    "decode_job (cl_codec Z) raw = Inr job"
proof -
  let ?q = "cl_queue Z"
  from failed obtain job0 where job0: "redis_load_job Z R job_id s = (Inr (Some job0), s)"
    and reply: "on_reply (\<lambda>reply. decode_transition_result (cl_codec Z) reply job_id ''fail'')
      (query (cl_codec Z) (eval_script (fail_script R (cl_lib Z)) 13
        (map AText [jobs_key ?q, state_key ?q Active, state_key ?q Delayed,
         state_key ?q Failed, lock_key ?q job_id, state_key ?q WaitingChildren,
         state_key ?q Waiting, sequence_key ?q, events_key ?q,
         stalled_key ?q, redis_key ?q ''metrics:failed'',
         redis_key ?q ''metrics:failed:data'', marker_key ?q]
        @ fail_args Z job_id token now reason (retry_time Z job0 allow_retry now)
            (jo_remove_on_fail (j_options job0)))) s) = (Inr job, s')"
    unfolding fail_job_with_retry_control_def fail_keys_queue
    by (auto simp: redis_require_job_def redis_load_job_def on_reply_def and_then_Inr
        split: prod.splits sum.splits option.splits)
  from reply obtain raw rest where d: "decode_job (cl_codec Z) raw = Inr job" and
    m: "eval_script (fail_script R (cl_lib Z)) 13
        (map AText [jobs_key ?q, state_key ?q Active, state_key ?q Delayed,
         state_key ?q Failed, lock_key ?q job_id, state_key ?q WaitingChildren,
         state_key ?q Waiting, sequence_key ?q, events_key ?q,
         stalled_key ?q, redis_key ?q ''metrics:failed'',
         redis_key ?q ''metrics:failed:data'', marker_key ?q]
        @ fail_args Z job_id token now reason (retry_time Z job0 allow_retry now)
            (jo_remove_on_fail (j_options job0))) s = (Some (''ok'' # raw # rest), s')"
    by (rule transition_reply)
  let ?env = "queue_env Z now (f64_of_int (ext_timestamp_millis (cl_ext Z) now)) (Some (f64_of_int 10000))"
  let ?at = "case retry_time Z job0 allow_retry now of None \<Rightarrow> now | Some t \<Rightarrow> t"
  obtain removes where m': "with_job R (cl_lib Z) (jobs_key ?q) job_id (sret ()) (\<lambda>job.
      in_state (cl_lib Z) ''active'' [] job (sret ()) (
      owns_lock R (lock_key ?q job_id) token (
      fail_body R (cl_lib Z) ?env (lock_key ?q job_id) (stalled_key ?q)
        (retry_time Z job0 allow_retry now \<noteq> None) (rc_rfc3339 (cl_codec Z) ?at) (millis (cl_ext Z) ?at)
        removes job_id reason job))) s = (Some (''ok'' # raw # rest), s')"
    by (rule fail_query [of R Z job_id token now reason "retry_time Z job0 allow_retry now"
          "jo_remove_on_fail (j_options job0)"]) (use m in simp)
  from m' job0 d show thesis
    by (auto elim!: with_job_Some [OF _ ok] in_state_Some owns_lock_Some [OF _ ok] intro: that)
qed

text \<open>
  C14. Failing a job on the Redis backend needs the token of its lock. Whatever follows (a retry, the
  end of the job, a parent that fails or wakes), the lease is over afterwards. The attempt is
  repeated exactly when retries are allowed and the policy of the job has some left; then the job
  is delayed until the policy's delay for that attempt is over, and stored as it is returned.
\<close>

theorem redis_fail_outcome:
  assumes ok: "redis_ok R view"
    and failed: "fail_job_with_retry_control Z R job_id token reason now allow_retry s = (Inr job, s')"
  shows "ks_string (view s) (lock_key (cl_queue Z) job_id) = Some token \<and>
    stored_state (cl_lib Z) (view s) (jobs_key (cl_queue Z)) job_id = Some (JString ''active'') \<and>
    lease_ended (cl_queue Z) (view s') job_id \<and>
    (\<exists>job0. redis_load_job Z R job_id s = (Inr (Some job0), s) \<and>
      (allow_retry \<and> redis_should_retry job0 \<longrightarrow>
        map_of (ks_zset (view s') (state_key (cl_queue Z) Delayed)) job_id
          = Some (millis (cl_ext Z) (add_duration (cl_ext Z) now
              (delay_for_attempt (ext_powi (cl_ext Z)) (jo_retry_policy (j_options job0)) (j_attempts_made job0)))) \<and>
        (\<exists>raw. ks_hash (view s') (jobs_key (cl_queue Z)) job_id = Some raw \<and>
          decode_job (cl_codec Z) raw = Inr job)))"
proof -
  from failed obtain job0 t kvs removes raw rest where job0:
    "redis_load_job Z R job_id s = (Inr (Some job0), s)"
    and stored: "ks_hash (view s) (jobs_key (cl_queue Z)) job_id = Some t"
    "cjson_decode (cl_lib Z) t = Some (JObject kvs)" "map_of kvs ''state'' = Some (JString ''active'')"
    and lock: "ks_string (view s) (lock_key (cl_queue Z) job_id) = Some token"
    and body: "fail_body R (cl_lib Z) (queue_env Z now (f64_of_int (ext_timestamp_millis (cl_ext Z) now)) (Some (f64_of_int 10000)))
        (lock_key (cl_queue Z) job_id) (stalled_key (cl_queue Z))
        (retry_time Z job0 allow_retry now \<noteq> None)
        (rc_rfc3339 (cl_codec Z) (case retry_time Z job0 allow_retry now of None \<Rightarrow> now | Some t \<Rightarrow> t))
        (millis (cl_ext Z) (case retry_time Z job0 allow_retry now of None \<Rightarrow> now | Some t \<Rightarrow> t))
        removes job_id reason (JObject kvs) s = (Some (''ok'' # raw # rest), s')"
    and d: "decode_job (cl_codec Z) raw = Inr job"
    by (rule fail_ran [OF ok])
  have "lease_ended (cl_queue Z) (view s') job_id" by (rule fail_body_ends [OF ok body])
  moreover have "ks_hash (view s') (jobs_key (cl_queue Z)) job_id = Some raw \<and>
      map_of (ks_zset (view s') (state_key (cl_queue Z) Delayed)) job_id = Some (millis (cl_ext Z) (case retry_time Z job0 allow_retry now of None \<Rightarrow> now | Some t \<Rightarrow> t))"
    if "retry_time Z job0 allow_retry now \<noteq> None"
    by (rule fail_body_retries [OF ok]) (use body that in simp)
  ultimately show ?thesis
    using stored lock job0 d by (auto simp: stored_state_def retry_time_def)
qed

section \<open>Without the token\<close>

lemma owns_lock_same:
  "redis_ok R view \<Longrightarrow> ks_string (view s) lock \<noteq> Some token \<Longrightarrow> snd (owns_lock R lock token k s) = s"
  by (simp add: owns_lock_def script_run redis_reads split: option.split)

lemma in_state_same:
  assumes "snd (k s) = s"
  shows "snd (in_state lib n d job (sret ()) k s) = s"
proof -
  obtain r where "lua_index job ''state'' s = (r, s)"
    using lua_index_same [of job "''state''" s] by (cases "lua_index job ''state'' s") simp
  then show ?thesis
    using assms by (cases r) (simp_all add: in_state_def sbind_def script_run)
qed

lemma guarded_same:
  assumes "redis_ok R view" "ks_string (view s) lock \<noteq> Some token"
  shows "snd (with_job R lib jobs i (sret ()) (\<lambda>job.
    in_state lib n d job (sret ()) (owns_lock R lock token (k job))) s) = s"
  by (simp add: with_job_def script_run split: option.split)
     (intro allI impI in_state_same owns_lock_same [OF assms])

lemma on_reply_query_state: "snd (on_reply f (query C m s)) = snd (m s)"
  by (simp add: on_reply_def query_def split: prod.splits option.splits)

text \<open>
  Without the token of the lock, completing or failing a job on the Redis backend is refused and
  leaves the server untouched.
\<close>

theorem redis_outcome_needs_lock:
  assumes ok: "redis_ok R view"
    and foreign: "ks_string (view s) (lock_key (cl_queue Z) job_id) \<noteq> Some token"
  shows "snd (redis_complete_job Z R job_id token v uuid now s) = s \<and>
    (\<forall>job. fst (redis_complete_job Z R job_id token v uuid now s) \<noteq> Inr job) \<and>
    snd (fail_job_with_retry_control Z R job_id token reason now allow_retry s) = s \<and>
    (\<forall>job. fst (fail_job_with_retry_control Z R job_id token reason now allow_retry s) \<noteq> Inr job)"
proof (intro conjI allI notI)
  show "snd (redis_complete_job Z R job_id token v uuid now s) = s"
  proof -
    have "snd (eval_script (complete_script R (cl_lib Z)) 16 args s) = s"
      if "complete_call Z job_id token v uuid now active = Inr args" for active args
      by (rule complete_query [OF that, of R]) (simp add: guarded_same [OF ok foreign])
    then show ?thesis
      unfolding redis_complete_job_def
      by (auto simp: on_reply_query_state split: prod.split sum.split dest!: require_job_same)
  qed
  show "snd (fail_job_with_retry_control Z R job_id token reason now allow_retry s) = s"
  proof -
    have "snd (eval_script (fail_script R (cl_lib Z)) 13
        (map AText [jobs_key (cl_queue Z), state_key (cl_queue Z) Active, state_key (cl_queue Z) Delayed,
         state_key (cl_queue Z) Failed, lock_key (cl_queue Z) job_id, state_key (cl_queue Z) WaitingChildren,
         state_key (cl_queue Z) Waiting, sequence_key (cl_queue Z), events_key (cl_queue Z),
         stalled_key (cl_queue Z), redis_key (cl_queue Z) ''metrics:failed'',
         redis_key (cl_queue Z) ''metrics:failed:data'', marker_key (cl_queue Z)]
        @ fail_args Z job_id token now reason retry_at b) s) = s" for retry_at b
      by (rule fail_query [of R Z job_id token now reason retry_at b]) (simp only: guarded_same [OF ok foreign])
    then show ?thesis
      unfolding fail_job_with_retry_control_def fail_keys_queue
      by (auto simp: on_reply_query_state simp del: list.map split: prod.split sum.split dest!: require_job_same)
  qed
next
  fix job assume "fst (redis_complete_job Z R job_id token v uuid now s) = Inr job"
  then have "redis_complete_job Z R job_id token v uuid now s
      = (Inr job, snd (redis_complete_job Z R job_id token v uuid now s))" by (simp add: prod_eq_iff)
  with foreign show False by (auto elim: complete_ran [OF ok])
next
  fix job assume "fst (fail_job_with_retry_control Z R job_id token reason now allow_retry s) = Inr job"
  then have "fail_job_with_retry_control Z R job_id token reason now allow_retry s
      = (Inr job, snd (fail_job_with_retry_control Z R job_id token reason now allow_retry s))"
    by (simp add: prod_eq_iff)
  with foreign show False by (auto elim: fail_ran [OF ok])
qed

end
