(* ===== verification/Redis_Outcome_Witnesses.thy ===== *)
theory Redis_Outcome_Witnesses
  imports Redis_Witnesses Redis_Outcome_Safety
begin

text \<open>The guarantees of \<open>Redis_Outcome_Safety\<close> at concrete inputs, on the server \<open>ref_redis\<close>.\<close>

lemmas ex_outcome = eval_script_def with_job_def in_state_def owns_lock_def flag_arg_def float_arg_def
  score_arg_def time_arg_def bucket_arg_def nat_arg_def end_lease_def field_text_def options_field_def
  number_or_zero_def lua_gt_def lua_items_def job_exists_def lua_deduplication_id_def
  release_deduplication_key_on_finalization_def release_repeat_key_def retention_options_def
  lua_retention_count_def retain_finished_def lua_apply_finished_retention_def
  lua_collect_metrics_def lua_emit_drained_def add_base_marker_if_waiting_def
  metrics_key_def metrics_data_key_def decode_transition_result_def nth_or_error_def

lemmas ex_next = enqueue_deduplicated_next_with_def lua_prepare_deduplicated_next_job_def
  complete_enqueue_deduplicated_next_def fail_enqueue_deduplicated_next_def with_parent_def

text \<open>What the client reads before it calls a script.\<close>

lemma ex_options: "jo_repeat (j_options (ex_job i)) = None" "jo_remove_on_complete (j_options (ex_job i)) = False"
    "jo_remove_on_fail (j_options (ex_job i)) = False" "j_state (ex_job i) = Waiting" "j_attempts_made (ex_job i) = 0"
  by (simp_all add: ex_job_def job_new_def job_options_default_def Let_def)

lemma ex_require:
  "redis_require_job ex_client ref_redis ''j'' (ex_server ''A'' Active (Some ''t''))
    = (Inr (ex_job ''j''), ex_server ''A'' Active (Some ''t''))"
  by (simp add: redis_require_job_def redis_load_job_def ex_run ex_options)

lemma ex_complete_call:
  "complete_call ex_client ''j'' ''t'' JNull ''n'' 0 (ex_job ''j'') =
     map_sum id (\<lambda>keys. keys @ complete_args ex_client ''j'' ''t'' 0 ''5'' False None [])
       (complete_keys (cl_queue ex_client) ''j'')"
  by (simp add: complete_call_def complete_keys_queue redis_next_repeat_job_def ex_options map_err_def
      ex_client_def ex_codec_def)

lemma ex_complete_query:
  "redis_complete_job ex_client ref_redis ''j'' ''t'' JNull ''n'' 0 (ex_server ''A'' Active (Some ''t'')) =
     on_reply (\<lambda>reply. decode_transition_result (cl_codec ex_client) reply ''j'' ''complete'')
       (query (cl_codec ex_client) (with_job ref_redis (cl_lib ex_client) (jobs_key (cl_queue ex_client)) ''j''
         (sret ()) (\<lambda>job.
         in_state (cl_lib ex_client) ''active'' [] job (sret ()) (
         owns_lock ref_redis (lock_key (cl_queue ex_client) ''j'') ''t'' (
         unless_dependencies ref_redis (cl_lib ex_client) (jobs_key (cl_queue ex_client))
           (dependencies_key (cl_queue ex_client) ''j'') job (
         complete_body ref_redis (cl_lib ex_client)
           (queue_env ex_client 0 (f64_of_int (ext_timestamp_millis (cl_ext ex_client) 0)) (Some (f64_of_int 10000)))
           (lock_key (cl_queue ex_client) ''j'') (stalled_key (cl_queue ex_client))
           (state_key (cl_queue ex_client) Completed)
           (redis_key (cl_queue ex_client) ''metrics:completed'')
           (redis_key (cl_queue ex_client) ''metrics:completed:data'')
           False \<lparr>rn_id = [], rn_raw = [], rn_state = [], rn_score = Fin 0, rn_priority = f64_of_int 0\<rparr>
           ''j'' ''5'' job))))) (ex_server ''A'' Active (Some ''t'')))"
  by (simp add: redis_complete_job_def ex_require ex_complete_call complete_keys_queue complete_args_def)
     (simp add: eval_script_def complete_script_def queue_env_def script_run Let_def nat_arg_def float_arg_def
       bucket_arg_def score_arg_def time_arg_def flag_arg_def DEFAULT_JOB_METRICS_RETENTION_def queue_prefixes)

text \<open>The parts of the example, and the server's commands as updates of the keyspace.\<close>

lemma ex_parts:
  "cl_queue ex_client = redis_new ''q''" "cl_lib ex_client = ex_lib" "cl_codec ex_client = ex_codec"
  "cjson_decode ex_lib ''A'' = Some (ex_fields ''active'')" "cjson_decode ex_lib ''5'' = Some (JNumber 5)"
  "cjson_encode ex_lib v = ''U''" "lua_tonumber ex_lib ''0'' = Some (Fin 0)" "lua_tonumber ex_lib ''1'' = Some (Fin 1)"
  "rc_from_str ex_codec t = Inr (JString t)" "rc_job_of_value ex_codec w = Inr (ex_job ''j'')"
  "rc_rfc3339 ex_codec n = []"
  by (simp_all add: ex_client_def ex_lib_def ex_codec_def)

lemma redis_key_append: "redis_key q x @ y = redis_key q (x @ y)"
  by (simp add: redis_key_def)

lemma ex_hincr: "ks_hash s k f = None \<Longrightarrow> r_hincr ref_redis k f s = (Some 1, ks_hput k f (Some (show_int 1)) s)"
  by (simp add: ref_redis_def ref_hincr_def)

lemmas ex_steps = script_run redis_reads [OF ref_redis_ok] redis_writes [OF ref_redis_ok] ex_hincr ks_defs ex_parts
  on_reply_def query_def decode_job_def map_err_def
  assign_all_def lua_absent_def lua_true_def lua_repeat_key_def zset_insert_def zset_remove_def small_numbers Let_def
  queue_env_def queue_keys queue_prefixes redis_key_append ex_fields_def ex_server_def keyspace_empty_def
  normalize_lua_empty_array_def

lemma ex_complete:
  "fst (redis_complete_job ex_client ref_redis ''j'' ''t'' JNull ''n'' 0 (ex_server ''A'' Active (Some ''t'')))
    = Inr (ex_job ''j'')"
  unfolding ex_complete_query
  by (simp add: complete_body_def unless_dependencies_def ex_outcome ex_next ex_steps)

definition ex_finished_server :: keyspace where
  "ex_finished_server =
     snd (redis_complete_job ex_client ref_redis ''j'' ''t'' JNull ''n'' 0 (ex_server ''A'' Active (Some ''t'')))"

theorem redis_complete_resolved_witness:
  "ks_string (ex_server ''A'' Active (Some ''t'')) (lock_key (cl_queue ex_client) ''j'') = Some ''t'' \<and>
    stored_state (cl_lib ex_client) (ex_server ''A'' Active (Some ''t'')) (jobs_key (cl_queue ex_client)) ''j''
      = Some (JString ''active'') \<and>
    ks_set (ex_server ''A'' Active (Some ''t'')) (dependencies_key (cl_queue ex_client) ''j'') = [] \<and>
    ks_zset (ex_server ''A'' Active (Some ''t'')) (dependencies_key (cl_queue ex_client) ''j'' @ '':unsuccessful'') = [] \<and>
    lease_ended (cl_queue ex_client) ex_finished_server ''j''"
  unfolding ex_finished_server_def
  using redis_complete_resolved [OF ref_redis_ok pair_of_fst [OF ex_complete]] by (elim conjE) (intro conjI)

section \<open>A failed attempt that is repeated\<close>

definition ex_retried :: job where
  "ex_retried = (ex_job ''j'')\<lparr>j_options := job_options_default\<lparr>jo_retry_policy := rp_fixed 3 1000000000\<rparr>\<rparr>"

definition ex_retry_client :: client where
  "ex_retry_client =
     \<lparr>cl_ext = ex_ext, cl_codec = ex_codec\<lparr>rc_job_of_value := (\<lambda>_. Inr ex_retried)\<rparr>, cl_lib = ex_lib,
      cl_queue = redis_new ''q''\<rparr>"

lemma ex_retry_parts:
  "cl_queue ex_retry_client = redis_new ''q''" "cl_lib ex_retry_client = ex_lib" "cl_ext ex_retry_client = ex_ext"
  "rc_from_str (cl_codec ex_retry_client) t = Inr (JString t)"
  "rc_job_of_value (cl_codec ex_retry_client) w = Inr ex_retried"
  "rc_rfc3339 (cl_codec ex_retry_client) n = []"
  by (simp_all add: ex_retry_client_def ex_codec_def)

lemma ex_retried_parts:
  "j_state ex_retried = Waiting" "jo_remove_on_fail (j_options ex_retried) = False" "redis_should_retry ex_retried"
  by (simp_all add: ex_retried_def ex_job_def job_new_def job_options_default_def redis_should_retry_def
      rp_fixed_def Let_def)

lemma ex_retry_require:
  "redis_require_job ex_retry_client ref_redis ''j'' (ex_server ''A'' Active (Some ''t''))
    = (Inr ex_retried, ex_server ''A'' Active (Some ''t''))"
  "redis_load_job ex_retry_client ref_redis ''j'' (ex_server ''A'' Active (Some ''t''))
    = (Inr (Some ex_retried), ex_server ''A'' Active (Some ''t''))"
  by (simp_all add: redis_require_job_def redis_load_job_def ex_steps ex_retry_parts ex_retried_parts)

lemma ex_fail:
  "fst (fail_job_with_retry_control ex_retry_client ref_redis ''j'' ''t'' ''why'' 0 True
     (ex_server ''A'' Active (Some ''t''))) = Inr ex_retried"
  unfolding fail_job_with_retry_control_def fail_keys_queue ex_retry_require
  by (simp del: list.map)
     (rule fail_query [of ref_redis ex_retry_client "''j''" "''t''" 0 "''why''"
        "retry_time ex_retry_client ex_retried True 0" False],
      simp add: ex_retried_parts,
      simp add: fail_body_def retry_later_def ex_outcome ex_steps ex_retry_parts ex_retried_parts retry_time_def
        refresh_delay_marker_def)

definition ex_put_back :: keyspace where
  "ex_put_back =
     snd (fail_job_with_retry_control ex_retry_client ref_redis ''j'' ''t'' ''why'' 0 True
       (ex_server ''A'' Active (Some ''t'')))"

theorem redis_fail_outcome_witness:
  "ks_string (ex_server ''A'' Active (Some ''t'')) (lock_key (cl_queue ex_retry_client) ''j'') = Some ''t'' \<and>
    lease_ended (cl_queue ex_retry_client) ex_put_back ''j'' \<and>
    map_of (ks_zset ex_put_back (state_key (cl_queue ex_retry_client) Delayed)) ''j''
      = Some (millis (cl_ext ex_retry_client) (add_duration (cl_ext ex_retry_client) 0
          (delay_for_attempt (ext_powi (cl_ext ex_retry_client)) (jo_retry_policy (j_options ex_retried))
             (j_attempts_made ex_retried))))"
  unfolding ex_put_back_def
  using redis_fail_outcome [OF ref_redis_ok pair_of_fst [OF ex_fail]]
  by (auto simp: ex_retry_require ex_retried_parts)

section \<open>A foreign token\<close>

theorem redis_outcome_needs_lock_witness:
  "snd (redis_complete_job ex_client ref_redis ''j'' ''x'' JNull ''n'' 0 (ex_server ''A'' Active (Some ''t'')))
     = ex_server ''A'' Active (Some ''t'') \<and>
   fst (fail_job_with_retry_control ex_client ref_redis ''j'' ''x'' ''why'' 0 True
     (ex_server ''A'' Active (Some ''t''))) \<noteq> Inr (ex_job ''j'')"
proof -
  have "ks_string (ex_server ''A'' Active (Some ''t'')) (lock_key (cl_queue ex_client) ''j'') \<noteq> Some ''x''"
    by (simp add: ex_parts ex_server_def)
  from redis_outcome_needs_lock [OF ref_redis_ok this, where v = JNull and uuid = "''n''" and now = 0
      and reason = "''why''" and allow_retry = True]
  show ?thesis by (elim conjE) (simp add: ex_parts)
qed

end
