(* ===== verification/Redis_Recovery.thy ===== *)
theory Redis_Recovery
  imports Redis_Outcome
begin

text \<open>
  \<open>RECOVER_STALLED_SCRIPT\<close> of \<open>src/src/job/redis.rs\<close> and the operation that calls it: jobs whose
  lock has run out since the last call are queued again or fail.
\<close>

section \<open>One candidate\<close>

text \<open>The current job of a repeat series is never given up; its owner key is put back if it is gone.\<close>

definition is_current_repeat_scheduler_job ::
  "'s redis \<Rightarrow> lua_lib \<Rightarrow> json \<Rightarrow> job_id \<Rightarrow> string \<Rightarrow> ('s, bool) script" where
  "is_current_repeat_scheduler_job R lib job job_id repeat_prefix =
     sbind (lua_repeat_key job) (\<lambda>rkey.
     case rkey of
       None \<Rightarrow> sret False
     | Some rkey \<Rightarrow>
     sbind (sget (lua_text lib rkey)) (\<lambda>rkey.
     let owner_key = repeat_prefix @ rkey in
     sbind (sread (r_get R owner_key)) (\<lambda>owner_id.
     if owner_id = Some job_id then sret True
     else
     sbind (sread (r_hget R (lua_repeat_scheduler_meta_key repeat_prefix rkey) ''jid'')) (\<lambda>jid.
     if jid = Some job_id
     then sbind (swhen (owner_id = None) (swrite (r_set R owner_key job_id))) (\<lambda>_. sret True)
     else sret False))))"

text \<open>\<open>(job["stalled_count"] or 0) + 1\<close>.\<close>

definition next_stalled_count :: "lua_lib \<Rightarrow> json \<Rightarrow> ('s, f64) script" where
  "next_stalled_count lib job =
     sbind (lua_index job ''stalled_count'') (\<lambda>v.
     sbind (sget (if lua_true v then lua_number lib (the v) else Some (Fin 0))) (\<lambda>n.
     sret (f64_add n (Fin 1))))"

text \<open>A limit that is no number raises in the comparison.\<close>

definition max_stalled_of :: "lua_lib \<Rightarrow> json \<Rightarrow> ('s, f64) script" where
  "max_stalled_of lib job =
     sbind (lua_index job ''options'') (\<lambda>o'.
     if \<not> lua_true o' then sret (Fin 1)
     else
     sbind (lua_index (the o') ''max_stalled_count'') (\<lambda>v.
     case v of
       None \<Rightarrow> sret (Fin 1)
     | Some v \<Rightarrow> sget (lua_number lib v)))"

definition stalled_reason :: string where
  "stalled_reason = ''job stalled after worker lease expired''"

definition emit_stalled :: "'s redis \<Rightarrow> finish_env \<Rightarrow> job_id \<Rightarrow> ('s, unit) script" where
  "emit_stalled R E job_id =
     swrite (r_xadd R (fe_events E) (fe_maxlen E)
       [(''event'', ''stalled''), (''jobId'', job_id), (''failedReason'', stalled_reason)])"

text \<open>The job has stalled too often.\<close>

definition fail_stalled :: "'s redis \<Rightarrow> lua_lib \<Rightarrow> finish_env \<Rightarrow> job_id \<Rightarrow> json \<Rightarrow> ('s, unit) script" where
  "fail_stalled R lib E job_id job =
     sbind (assign_all [(''state'', JString ''failed''), (''finished_at'', JString (fe_now_iso E))] job) (\<lambda>job.
     sbind (swrite (r_del R (fe_dependency E @ job_id))) (\<lambda>_.
     sbind (release_deduplication_key_on_finalization R lib job job_id (fe_deduplication E)) (\<lambda>_.
     sbind (release_repeat_key R lib job job_id (fe_repeat E)) (\<lambda>_.
     sbind (fail_enqueue_deduplicated_next R lib E job) (\<lambda>_.
     let updated = cjson_encode lib job in
     sbind (retention_options job ''remove_on_fail'' ''failure_retention'' False) (\<lambda>retention.
     sbind (retain_finished R lib E retention (fe_failed E) job_id updated) (\<lambda>_.
     sbind (lua_collect_metrics R lib E (fe_failed_metrics E) (fe_failed_data E)) (\<lambda>_.
     sbind (emit_stalled R E job_id) (\<lambda>_.
     sbind (swrite (r_xadd R (fe_events E) (fe_maxlen E)
       [(''event'', ''failed''), (''jobId'', job_id), (''failedReason'', stalled_reason), (''prev'', ''active'')])) (\<lambda>_.
     with_parent R lib E job (parent_after_failure R lib E job job_id updated stalled_reason)))))))))))"

text \<open>The job is queued again.\<close>

definition requeue_stalled :: "'s redis \<Rightarrow> lua_lib \<Rightarrow> finish_env \<Rightarrow> job_id \<Rightarrow> json \<Rightarrow> ('s, unit) script" where
  "requeue_stalled R lib E job_id job =
     sbind (assign_all [(''state'', JString ''waiting''), (''processed_at'', JNull)] job) (\<lambda>job.
     sbind (priority_of lib job) (\<lambda>priority.
     sbind (enqueue_waiting_job R lib (fe_jobs E) (fe_waiting E) (fe_sequence E) job job_id priority
       (fe_bucket E) (fe_marker E)) (\<lambda>_.
     sbind (emit_stalled R E job_id) (\<lambda>_.
     swrite (r_xadd R (fe_events E) (fe_maxlen E)
       [(''event'', ''waiting''), (''jobId'', job_id), (''prev'', ''active'')])))))"

text \<open>An active job without a lock.\<close>

definition recover_job :: "'s redis \<Rightarrow> lua_lib \<Rightarrow> finish_env \<Rightarrow> job_id \<Rightarrow> json \<Rightarrow> ('s, unit) script" where
  "recover_job R lib E job_id job =
     sbind (next_stalled_count lib job) (\<lambda>stalled.
     sbind (sget (json_number stalled)) (\<lambda>stalled_value.
     sbind (assign_all
       [(''stalled_count'', stalled_value), (''worker_id'', JNull), (''lock_token'', JNull),
        (''lease_expires_at'', JNull), (''deferred_failure'', JNull),
        (''failed_reason'', JString stalled_reason)] job) (\<lambda>job.
     sbind (swrite (snd \<circ> r_zrem R (fe_active E) job_id)) (\<lambda>_.
     sbind (max_stalled_of lib job) (\<lambda>max_stalled.
     sbind (if lua_gt stalled max_stalled
            then sbind (is_current_repeat_scheduler_job R lib job job_id (fe_repeat E)) (\<lambda>b. sret (\<not> b))
            else sret False) (\<lambda>given_up.
     if given_up then fail_stalled R lib E job_id job else requeue_stalled R lib E job_id job))))))"

text \<open>A candidate, and whether it counts as recovered.\<close>

definition recover_candidate ::
  "'s redis \<Rightarrow> lua_lib \<Rightarrow> finish_env \<Rightarrow> string \<Rightarrow> job_id \<Rightarrow> ('s, nat) script" where
  "recover_candidate R lib E lock_prefix job_id =
     sbind (sread (r_hget R (fe_jobs E) job_id)) (\<lambda>raw.
     case raw of
       None \<Rightarrow> sbind (swrite (snd \<circ> r_zrem R (fe_active E) job_id)) (\<lambda>_. sret 0)
     | Some t \<Rightarrow>
     sbind (sget (cjson_decode lib t)) (\<lambda>job.
     sbind (lua_index job ''state'') (\<lambda>state.
     if state \<noteq> Some (JString ''active'')
     then sbind (swrite (snd \<circ> r_zrem R (fe_active E) job_id)) (\<lambda>_. sret 0)
     else
     sbind (sread (r_get R (lock_prefix @ job_id))) (\<lambda>lock.
     if lock \<noteq> None then sret 0
     else sbind (recover_job R lib E job_id job) (\<lambda>_. sret 1)))))"

fun recover_each :: "(job_id \<Rightarrow> ('s, nat) script) \<Rightarrow> job_id list \<Rightarrow> nat \<Rightarrow> ('s, nat) script" where
  "recover_each f [] n = sret n"
| "recover_each f (i # is) n = sbind (f i) (\<lambda>k. recover_each f is (n + k))"

section \<open>The script and its call\<close>

text \<open>All members of the active index, in portions of 7000 in the code.\<close>

definition mark_active_jobs_stalled :: "'s redis \<Rightarrow> string \<Rightarrow> string \<Rightarrow> ('s, unit) script" where
  "mark_active_jobs_stalled R active stalled =
     sbind (sread (\<lambda>s. r_zfirst R active (r_zcard R active s) s)) (\<lambda>members.
     seach (\<lambda>e. swrite (r_sadd R stalled (fst e))) members)"

definition recover_body ::
  "'s redis \<Rightarrow> lua_lib \<Rightarrow> finish_env \<Rightarrow> string \<Rightarrow> string \<Rightarrow> nat \<Rightarrow> ('s, nat) script" where
  "recover_body R lib E stalled lock_prefix limit =
     sbind (sreply (r_spop R stalled limit)) (\<lambda>ids.
     sbind (recover_each (recover_candidate R lib E lock_prefix) ids 0) (\<lambda>recovered.
     sbind (mark_active_jobs_stalled R (fe_active E) stalled) (\<lambda>_.
     sret recovered)))"

definition recover_stalled_script ::
  "'s redis \<Rightarrow> lua_lib \<Rightarrow> string list \<Rightarrow> eval_arg list \<Rightarrow> ('s, nat) script" where
  "recover_stalled_script R lib K A =
     (case K of
        [jobs, active, waiting, failed, sequence, waiting_children, delayed, stalled, metrics, metrics_list,
         marker, events] \<Rightarrow>
        (case A of
           [now, now_iso, lock_prefix, bucket, limit, dependency, dedup, rep, dedup_next, logs, max_points,
            maxlen] \<Rightarrow>
             sbind (sget (arg_number lib now)) (\<lambda>now_number.
             sbind (sget (arg_number lib bucket)) (\<lambda>bucket.
             sbind (sget (arg_nat limit)) (\<lambda>limit.
             sbind (sget (arg_nat maxlen)) (\<lambda>maxlen.
             recover_body R lib
               \<lparr>fe_jobs = jobs, fe_active = active, fe_waiting = waiting,
                fe_waiting_children = waiting_children, fe_delayed = delayed, fe_failed = failed,
                fe_sequence = sequence, fe_events = events, fe_marker = marker,
                fe_failed_metrics = metrics, fe_failed_data = metrics_list,
                fe_dependency = arg_text dependency, fe_deduplication = arg_text dedup,
                fe_deduplication_next = arg_text dedup_next, fe_repeat = arg_text rep,
                fe_logs = arg_text logs, fe_now_iso = arg_text now_iso, fe_now = now_number,
                fe_now_text = arg_text now, fe_bucket = bucket, fe_maxlen = maxlen,
                fe_max_points = arg_number lib max_points\<rparr>
               stalled (arg_text lock_prefix) limit))))
         | _ \<Rightarrow> sraise)
      | _ \<Rightarrow> sraise)"

definition recover_keys :: "redis_queue \<Rightarrow> eval_arg list result" where
  "recover_keys q =
     and_then (metrics_key q Failed) (\<lambda>fm. and_then (metrics_data_key q Failed) (\<lambda>fl.
     Inr (map AText [jobs_key q, state_key q Active, state_key q Waiting, state_key q Failed, sequence_key q,
       state_key q WaitingChildren, state_key q Delayed, stalled_key q, fm, fl, marker_key q,
       events_key q])))"

definition recover_args :: "client \<Rightarrow> instant \<Rightarrow> eval_arg list" where
  "recover_args Z now =
     [AInt (ext_timestamp_millis (cl_ext Z) now), time_arg Z now, key_arg Z lock_key_prefix, bucket_arg Z,
      nat_arg 1000, key_arg Z dependencies_key_prefix, key_arg Z deduplication_key_prefix,
      key_arg Z repeat_key_prefix, key_arg Z deduplication_next_key_prefix, key_arg Z logs_key_prefix,
      nat_arg DEFAULT_JOB_METRICS_RETENTION, nat_arg DEFAULT_JOB_EVENT_RETENTION]"

definition redis_recover_stalled_jobs :: "client \<Rightarrow> 's redis \<Rightarrow> instant \<Rightarrow> 's \<Rightarrow> nat result \<times> 's" where
  "redis_recover_stalled_jobs Z R now s =
     (case recover_keys (cl_queue Z) of
        Inl e \<Rightarrow> (Inl e, s)
      | Inr keys \<Rightarrow>
          query (cl_codec Z) (eval_script (recover_stalled_script R (cl_lib Z)) 12
            (keys @ recover_args Z now)) s)"

end
