(* ===== verification/Redis_Recovery_Safety.thy ===== *)
theory Redis_Recovery_Safety
  imports Redis_Outcome_Witnesses Redis_Recovery
begin

text \<open>
  Recovering stalled jobs through \<open>RedisJobQueue\<close>: a job with a live lock is left alone, one without
  is queued again.
\<close>

section \<open>What recovery may change when every lease is alive\<close>

text \<open>Only the active index and the set of candidates change, and leased jobs stay in the index.\<close>

definition leases_kept :: "redis_queue \<Rightarrow> lua_lib \<Rightarrow> keyspace \<Rightarrow> keyspace \<Rightarrow> bool" where
  "leases_kept q lib u v \<longleftrightarrow>
     ks_string v = ks_string u \<and> ks_ttl v = ks_ttl u \<and> ks_hash v = ks_hash u \<and> ks_list v = ks_list u \<and>
     ks_stream v = ks_stream u \<and>
     (\<forall>k. k \<noteq> state_key q Active \<longrightarrow> ks_zset v k = ks_zset u k) \<and>
     (\<forall>k. k \<noteq> stalled_key q \<longrightarrow> ks_set v k = ks_set u k) \<and>
     (\<forall>i. stored_state lib u (jobs_key q) i = Some (JString ''active'') \<longrightarrow>
        ks_string u (lock_key q i) \<noteq> None \<longrightarrow>
        map_of (ks_zset v (state_key q Active)) i = map_of (ks_zset u (state_key q Active)) i)"

lemma stored_state_hash: "ks_hash v = ks_hash u \<Longrightarrow> stored_state lib v = stored_state lib u"
  by (simp add: stored_state_def fun_eq_iff)

interpretation kept: frame_relation "leases_kept q lib" for q lib
proof
  show "leases_kept q lib u u" for u by (simp add: leases_kept_def)
  show "leases_kept q lib u w" if "leases_kept q lib u v" "leases_kept q lib v w" for u v w
  proof -
    have "stored_state lib v = stored_state lib u"
      using that(1) by (intro stored_state_hash) (simp add: leases_kept_def)
    with that show ?thesis unfolding leases_kept_def by simp
  qed
qed

lemma map_of_zset_remove: "i \<noteq> j \<Longrightarrow> map_of (zset_remove j z) i = map_of z i"
  by (induction z) (auto simp: zset_remove_def)

text \<open>A candidate that is no longer active, or holds its lock.\<close>

definition alive :: "redis_queue \<Rightarrow> lua_lib \<Rightarrow> keyspace \<Rightarrow> job_id \<Rightarrow> bool" where
  "alive q lib v i \<longleftrightarrow>
     (case ks_hash v (jobs_key q) i of
        None \<Rightarrow> True
      | Some t \<Rightarrow> \<exists>kvs. cjson_decode lib t = Some (JObject kvs) \<and>
          (map_of kvs ''state'' = Some (JString ''active'') \<longrightarrow> ks_string v (lock_key q i) \<noteq> None))"

lemma leases_kept_alive: "leases_kept q lib u v \<Longrightarrow> alive q lib v i = alive q lib u i"
  unfolding leases_kept_def alive_def by (elim conjE) (simp split: option.split)

lemma leases_kept_zrem:
  assumes "stored_state lib u (jobs_key q) i \<noteq> Some (JString ''active'')"
  shows "leases_kept q lib u (ks_zrem (state_key q Active) i u)"
  using assms by (auto simp: leases_kept_def ks_zrem_def intro!: map_of_zset_remove)

lemma recover_one_alive:
  assumes ok: "redis_ok R view" and alive: "alive q lib (view s) i"
    and E: "fe_jobs E = jobs_key q" "fe_active E = state_key q Active"
  obtains s' where "recover_candidate R lib E (lock_key_prefix q) i s = (Some 0, s')"
    "leases_kept q lib (view s) (view s')"
proof -
  have lock: "lock_key_prefix q @ i = lock_key q i" by (simp add: lock_key_prefix_def lock_key_def)
  let ?s' = "snd (r_zrem R (state_key q Active) i s)"
  have z: "leases_kept q lib (view s) (view ?s')" if "stored_state lib (view s) (jobs_key q) i \<noteq> Some (JString ''active'')"
    using leases_kept_zrem [OF that] by (simp add: redis_writes [OF ok])
  show thesis
  proof (cases "ks_hash (view s) (jobs_key q) i")
    case None
    then show thesis
      using z by (intro that [of ?s']) (simp_all add: recover_candidate_def E script_run redis_reads [OF ok] stored_state_def)
  next
    case (Some t)
    then obtain kvs where t: "cjson_decode lib t = Some (JObject kvs)"
      "map_of kvs ''state'' = Some (JString ''active'') \<longrightarrow> ks_string (view s) (lock_key q i) \<noteq> None"
      using alive by (auto simp: alive_def)
    note run = recover_candidate_def E script_run redis_reads [OF ok] Some t(1) lock
    show thesis
    proof (cases "map_of kvs ''state'' = Some (JString ''active'')")
      case True
      then show thesis using t(2) by (intro that [of s]) (simp_all add: run kept.same)
    next
      case False
      then show thesis using z by (intro that [of ?s']) (simp_all add: run stored_state_def)
    qed
  qed
qed

lemma recover_each_alive:
  assumes ok: "redis_ok R view" and "\<And>i. i \<in> set is \<Longrightarrow> alive q lib (view s) i"
    and E: "fe_jobs E = jobs_key q" "fe_active E = state_key q Active"
  shows "\<exists>s'. recover_each (recover_candidate R lib E (lock_key_prefix q)) is n s = (Some n, s') \<and>
    leases_kept q lib (view s) (view s')"
  using assms(2)
proof (induction "is" arbitrary: s)
  case (Cons i "is")
  obtain s1 where one: "recover_candidate R lib E (lock_key_prefix q) i s = (Some 0, s1)"
    and k: "leases_kept q lib (view s) (view s1)"
    by (rule recover_one_alive [OF ok Cons.prems [of i] E]) auto
  have "\<exists>s'. recover_each (recover_candidate R lib E (lock_key_prefix q)) is n s1 = (Some n, s') \<and>
      leases_kept q lib (view s1) (view s')"
    using Cons.prems leases_kept_alive [OF k] by (intro Cons.IH) auto
  then obtain s' where s': "recover_each (recover_candidate R lib E (lock_key_prefix q)) is n s1 = (Some n, s')"
    "leases_kept q lib (view s1) (view s')" by blast
  have "recover_each (recover_candidate R lib E (lock_key_prefix q)) (i # is) n s = (Some n, s')"
    using one s'(1) by (simp add: sbind_def)
  with kept.chain [OF k s'(2)] show ?case by blast
qed (auto simp: script_run kept.same)

lemma keeps_kept_sets:
  assumes ok: "redis_ok R view"
  shows "keeps view (leases_kept q lib) (swrite (r_sadd R (stalled_key q) i))"
    and "keeps view (leases_kept q lib) (sreply (r_spop R (stalled_key q) n))"
proof -
  show "keeps view (leases_kept q lib) (swrite (r_sadd R (stalled_key q) i))"
    by (rule kept.keeps_write) (auto simp: redis_writes [OF ok] leases_kept_def ks_sadd_def)
  have "leases_kept q lib u (fold (ks_srem (stalled_key q)) is u)" for "is" and u
  proof (induction "is" arbitrary: u)
    case (Cons i "is")
    have "leases_kept q lib u (ks_srem (stalled_key q) i u)" by (simp add: leases_kept_def ks_srem_def)
    with Cons [of "ks_srem (stalled_key q) i u"] show ?case by (auto intro: kept.chain)
  qed (simp add: kept.same)
  then show "keeps view (leases_kept q lib) (sreply (r_spop R (stalled_key q) n))"
    by (intro kept.keeps_reply) (simp add: redis_spop [OF ok])
qed

lemma keeps_each_of: "frame_relation P \<Longrightarrow> (\<And>x. keeps view P (f x)) \<Longrightarrow> keeps view P (seach f xs)"
  by (induction xs) (simp_all add: frame_relation.keeps_ret frame_relation.keeps_bind)

lemma seach_sadd: "fst (seach (\<lambda>e. swrite (r_sadd R k (fst e))) xs s) = Some ()"
  by (induction xs arbitrary: s) (simp_all add: script_run)

lemma mark_ran:
  assumes ok: "redis_ok R view"
  obtains s' where "mark_active_jobs_stalled R (state_key q Active) (stalled_key q) s = (Some (), s')"
    "leases_kept q lib (view s) (view s')"
proof (rule that)
  let ?m = "mark_active_jobs_stalled R (state_key q Active) (stalled_key q)"
  have "fst (?m s) = Some ()" by (simp add: mark_active_jobs_stalled_def script_run seach_sadd)
  then show run: "?m s = (Some (), snd (?m s))" by (rule pair_of_fst)
  have "keeps view (leases_kept q lib) ?m"
    unfolding mark_active_jobs_stalled_def
    by (intro kept.keeps_rules keeps_each_of kept.frame_relation_axioms keeps_kept_sets [OF ok])
  from keepsD [OF this run] show "leases_kept q lib (view s) (view (snd (?m s)))" .
qed

lemma recover_call:
  "redis_recover_stalled_jobs Z R now s =
     query (cl_codec Z) (recover_body R (cl_lib Z)
       (queue_env Z now (f64_of_int (ext_timestamp_millis (cl_ext Z) now)) (Some (f64_of_int 10000)))
       (stalled_key (cl_queue Z)) (lock_key_prefix (cl_queue Z)) 1000) s"
  by (simp add: redis_recover_stalled_jobs_def recover_keys_def metrics_key_def metrics_data_key_def
      eval_script_def recover_stalled_script_def recover_args_def queue_env_def query_def script_run Let_def
      nat_arg_def bucket_arg_def time_arg_def DEFAULT_JOB_METRICS_RETENTION_def)



section \<open>A job that lost its lock\<close>

lemma is_lifo_same: "snd (is_lifo job s) = s"
  unfolding is_lifo_def
  by (intro sbind_same lua_index_same) (simp_all add: script_run sbind_same lua_index_same)

lemma enqueue_ran:
  assumes ok: "redis_ok R view" and marker: "marker \<noteq> waiting"
    and ran: "enqueue_waiting_job R lib jobs waiting sequence job i p b marker s = (Some raw, s')"
  obtains n seq lifo job' where "ks_hash (view s') jobs i = Some raw" "raw = cjson_encode lib job'"
    "fst (lua_assign job ''enqueued_seq'' seq s) = Some job'"
    "map_of (ks_zset (view s') waiting) i = Some (waiting_score_for p (f64_of_int n) lifo b)"
proof -
  have assign: "fst (lua_assign job f v t) = fst (lua_assign job f v u)" for f v t u
    by (cases "(job, f, v)" rule: lua_assign.cases) (simp_all add: script_run)
  from ran obtain n seq lifo job' s0 s0' s1 where job': "lua_assign job ''enqueued_seq'' seq s0 = (Some job', s0')"
    and "json_number (f64_of_int n) = Some seq" "is_lifo job' s0' = (Some lifo, s1)"
    and raw: "raw = cjson_encode lib job'"
    and s': "s' = (if marker \<noteq> [] then r_zadd R marker (Fin 0) ''0'' else (\<lambda>s. s))
       (r_zadd R waiting (waiting_score_for p (f64_of_int n) lifo b) i (r_hset R jobs i raw s1))"
    unfolding enqueue_waiting_job_def
    by (auto simp: script_run Let_def split: prod.splits option.splits if_splits elim!: sbind_SomeE)
  have "ks_hash (view s') jobs i = Some raw"
    by (simp add: s' redis_writes [OF ok] ks_zadd_def ks_hput_def)
  moreover have "map_of (ks_zset (view s') waiting) i = Some (waiting_score_for p (f64_of_int n) lifo b)"
    using marker by (simp add: s' redis_writes [OF ok] ks_zadd_def ks_hput_def map_of_zset_insert)
  moreover have "fst (lua_assign job ''enqueued_seq'' seq s) = Some job'"
    using assign [of "''enqueued_seq''" seq s s0] job' by simp
  ultimately show thesis using raw by (intro that [of job' seq n lifo]) simp_all
qed

lemma seach_sadd_set:
  assumes ok: "redis_ok R view"
  shows "set (ks_set (view (snd (seach (\<lambda>e. swrite (r_sadd R k (fst e))) xs s))) k)
    = set (ks_set (view s) k) \<union> fst ` set xs"
  by (induction xs arbitrary: s) (auto simp: script_run redis_writes [OF ok] ks_sadd_def)

lemma mark_set:
  assumes ok: "redis_ok R view"
    and ran: "mark_active_jobs_stalled R active stalled s = (Some (), s')"
  shows "set (ks_set (view s') stalled) = set (ks_set (view s) stalled) \<union> fst ` set (ks_zset (view s) active)"
  using seach_sadd_set [OF ok, of stalled "r_zfirst R active (r_zcard R active s) s" s] ran
  by (simp add: mark_active_jobs_stalled_def script_run redis_reads [OF ok])

lemma keeps_mark:
  assumes ok: "redis_ok R view" and "CSet stalled \<notin> C"
  shows "keeps view (agree C) (mark_active_jobs_stalled R active stalled)"
  unfolding mark_active_jobs_stalled_def
  by (intro agreeing.keeps_rules keeps_each keeps_commands(10) [OF ok] assms(2))

text \<open>The cells a job queued again depends on.\<close>

definition requeued_cells :: "redis_queue \<Rightarrow> job_id \<Rightarrow> cell set" where
  "requeued_cells q i =
     {CString (lock_key q i), CHash (jobs_key q) i, CZset (state_key q Waiting), CZset (state_key q Active),
      CSet (stalled_key q)}"

lemma requeue_ran:
  assumes ok: "redis_ok R view" and E: "E = queue_env Z now x points"
    and ran: "requeue_stalled R lib E i (JObject kvs) s = (Some (), s')"
  obtains n lifo p seq where
    "ks_hash (view s') (jobs_key (cl_queue Z)) i = Some (cjson_encode lib (JObject
       (AList.update ''enqueued_seq'' seq (AList.update ''processed_at'' JNull
          (AList.update ''state'' (JString ''waiting'') kvs)))))"
    "map_of (ks_zset (view s') (state_key (cl_queue Z) Waiting)) i
       = Some (waiting_score_for p (f64_of_int n) lifo WAITING_SCORE_BUCKET)"
    "agree {CString (lock_key (cl_queue Z) i), CZset (state_key (cl_queue Z) Active),
       CSet (stalled_key (cl_queue Z))} (view s) (view s')"
proof -
  let ?q = "cl_queue Z"
  let ?kvs = "AList.update ''processed_at'' JNull (AList.update ''state'' (JString ''waiting'') kvs)"
  let ?C = "requeued_cells ?q i" and ?D = "{CString (lock_key ?q i), CZset (state_key ?q Active), CSet (stalled_key ?q)}"
  have F: "fe_jobs E = jobs_key ?q" "fe_waiting E = state_key ?q Waiting" "fe_sequence E = sequence_key ?q"
    "fe_bucket E = WAITING_SCORE_BUCKET" "fe_marker E = marker_key ?q" "fe_events E = events_key ?q"
    by (simp_all add: E queue_env_def Let_def)
  from ran obtain p raw s2 s3 where
    enq: "enqueue_waiting_job R lib (jobs_key ?q) (state_key ?q Waiting) (sequence_key ?q) (JObject ?kvs) i p
      WAITING_SCORE_BUCKET (marker_key ?q) s = (Some raw, s2)"
    and emit: "emit_stalled R E i s2 = (Some (), s3)"
    and s': "s' = r_xadd R (events_key ?q) (fe_maxlen E)
       [(''event'', ''waiting''), (''jobId'', i), (''prev'', ''active'')] s3"
    unfolding requeue_stalled_def F
    by (auto simp: script_run assign_all_def elim!: sbind_SomeE dest!: same_stateD [OF _ priority_of_same])
  have off: "CStream (events_key ?q) \<notin> ?C" by (simp add: requeued_cells_def)
  then have "keeps view (agree ?C) (emit_stalled R E i)"
    unfolding emit_stalled_def F by (intro keeps_commands [OF ok])
  from keepsD [OF this emit] have "agree ?C (view s2) (view s3)" .
  moreover have "agree ?C (view s3) (view s')"
    unfolding s' by (rule keepsD [OF keeps_commands(12) [OF ok off]]) (simp add: script_run)
  ultimately have after: "agree ?C (view s2) (view s')" by (rule agreeing.chain)
  have "keeps view (agree ?D) (enqueue_waiting_job R lib (jobs_key ?q) (state_key ?q Waiting) (sequence_key ?q)
      (JObject ?kvs) i p WAITING_SCORE_BUCKET (marker_key ?q))"
    by (rule keeps_enqueue [OF ok]) (simp_all add: queue_keys)
  from keepsD [OF this enq] have before: "agree ?D (view s) (view s2)" .
  have m: "marker_key ?q \<noteq> state_key ?q Waiting" by (simp add: queue_keys)
  obtain n seq lifo job' where
    stored: "ks_hash (view s2) (jobs_key ?q) i = Some raw" "raw = cjson_encode lib job'"
    "fst (lua_assign (JObject ?kvs) ''enqueued_seq'' seq s) = Some job'"
    "map_of (ks_zset (view s2) (state_key ?q Waiting)) i = Some (waiting_score_for p (f64_of_int n) lifo WAITING_SCORE_BUCKET)"
    by (rule enqueue_ran [OF ok m enq])
  have "agree ?D (view s2) (view s')" using after by (auto simp: agree_def requeued_cells_def)
  with before have "agree ?D (view s) (view s')" by (rule agreeing.chain)
  moreover have "ks_hash (view s') (jobs_key ?q) i = ks_hash (view s2) (jobs_key ?q) i"
    "ks_zset (view s') (state_key ?q Waiting) = ks_zset (view s2) (state_key ?q Waiting)"
    using after by (simp_all add: agree_def requeued_cells_def)
  moreover have "job' = JObject (AList.update ''enqueued_seq'' seq ?kvs)"
    using stored(3) by (simp add: script_run)
  ultimately show thesis
    using stored(1,2,4) by (intro that [of seq p n lifo]) simp_all
qed

lemma recover_one_requeues:
  assumes ok: "redis_ok R view" and E: "E = queue_env Z now x points"
    and stored: "ks_hash (view s) (jobs_key (cl_queue Z)) i = Some t" "cjson_decode lib t = Some (JObject kvs)"
      "map_of kvs ''state'' = Some (JString ''active'')"
    and lock: "ks_string (view s) (lock_key (cl_queue Z) i) = None"
    and counts: "map_of kvs ''stalled_count'' = Some (JNumber n)" "map_of kvs ''options'' = Some (JObject opts)"
      "map_of opts ''max_stalled_count'' = Some (JNumber m)"
    and patience: "\<not> lua_gt (f64_add (Fin n) (Fin 1)) (Fin m)"
    and ran: "recover_candidate R lib E (lock_key_prefix (cl_queue Z)) i s = (Some k, s')"
  obtains kvs' where "k = 1"
    "requeue_stalled R lib E i (JObject kvs') (snd (r_zrem R (state_key (cl_queue Z) Active) i s)) = (Some (), s')"
    "map_of kvs' ''stalled_count'' = json_number (f64_add (Fin n) (Fin 1))"
proof -
  have F: "fe_jobs E = jobs_key (cl_queue Z)" "fe_active E = state_key (cl_queue Z) Active"
    by (simp_all add: E queue_env_def Let_def)
  have lock_key: "lock_key_prefix (cl_queue Z) @ i = lock_key (cl_queue Z) i"
    by (simp add: lock_key_prefix_def lock_key_def)
  from ran obtain c where c: "json_number (f64_add (Fin n) (Fin 1)) = Some c"
    and job: "k = 1" "requeue_stalled R lib E i
      (JObject (fold (\<lambda>(f, v). AList.update f v)
        [(''stalled_count'', c), (''worker_id'', JNull), (''lock_token'', JNull), (''lease_expires_at'', JNull),
         (''deferred_failure'', JNull), (''failed_reason'', JString stalled_reason)] kvs))
      (snd (r_zrem R (state_key (cl_queue Z) Active) i s)) = (Some (), s')"
    using stored lock counts patience
    by (auto simp: recover_candidate_def recover_job_def next_stalled_count_def max_stalled_of_def F lock_key script_run
        assign_all_def lua_true_def lua_number_def update_conv redis_reads [OF ok] split: option.splits
        elim!: sbind_SomeE)
  from that [OF job] c show thesis by (simp add: update_conv)
qed


text \<open>A server with one job that was leased once and whose lock is gone.\<close>

definition ex_lost_fields :: "(string \<times> json) list" where
  "ex_lost_fields =
     [(''state'', JString ''active''), (''stalled_count'', JNumber 0),
      (''options'', JObject [(''max_stalled_count'', JNumber 1)])]"

definition ex_lost_client :: client where
  "ex_lost_client =
     \<lparr>cl_ext = ex_ext, cl_codec = ex_codec,
      cl_lib = ex_lib\<lparr>cjson_decode := (\<lambda>_. Some (JObject ex_lost_fields))\<rparr>, cl_queue = redis_new ''q''\<rparr>"

definition ex_lost_server :: keyspace where
  "ex_lost_server =
     (ex_server ''A'' Active None)\<lparr>ks_set := (\<lambda>_. [])(stalled_key (redis_new ''q'') := [''j''])\<rparr>"

lemma ex_lost_parts:
  "cl_queue ex_lost_client = redis_new ''q''" "cjson_decode (cl_lib ex_lost_client) t = Some (JObject ex_lost_fields)"
  "lua_tonumber (cl_lib ex_lost_client) ''1000'' = Some (Fin 1000)" "cjson_encode (cl_lib ex_lost_client) v = ''U''"
  by (simp_all add: ex_lost_client_def ex_lib_def)

lemma ex_spop: "r_spop ref_redis k n s = (remdups (take n (ks_set s k)), fold (ks_srem k) (remdups (take n (ks_set s k))) s)"
  by (simp add: ref_redis_def Let_def)

lemma ex_recover: "fst (redis_recover_stalled_jobs ex_lost_client ref_redis 0 ex_lost_server) = Inr 1"
proof -
  have incr: "r_incr ref_redis k s = (Some 1, ks_put k (show_int 1) None s)" if "ks_string s k = None" for k s
    using that by (simp add: ref_redis_def ref_incr_def)
  have one: "f64_of_int 1 = Fin 1" by (simp add: f64_of_int_def small_numbers)
  show ?thesis
    by (simp add: recover_call recover_body_def recover_candidate_def recover_job_def requeue_stalled_def
        next_stalled_count_def max_stalled_of_def emit_stalled_def enqueue_waiting_job_def is_lifo_def priority_of_def
        mark_active_jobs_stalled_def ex_spop ex_lost_parts ex_lost_fields_def ex_lost_server_def incr ex_steps
        lua_number_def lua_gt_def json_number_def one)
qed


end
