(* ===== verification/Redis_Adding.thy ===== *)
theory Redis_Adding
  imports Redis_Outcome Job_Queue_Ops
begin

text \<open>
  \<open>ADD_JOB_SCRIPT\<close> and \<open>ADD_JOBS_SCRIPT\<close> of \<open>src/src/job/redis.rs\<close> and the operations that call them.
  Both scripts do the same for a job, \<open>add_one\<close>, and differ in what they report.
\<close>

section \<open>The owner of a deduplication identifier\<close>

definition active_deduplicated_raw ::
  "'s redis \<Rightarrow> lua_lib \<Rightarrow> string \<Rightarrow> string \<Rightarrow> string \<Rightarrow> ('s, string option) script" where
  "active_deduplicated_raw R lib jobs deduplication_prefix dedup_id =
     (if dedup_id = [] then sret None
      else
      let owner = deduplication_prefix @ dedup_id;
          forget = sbind (swrite (r_del R owner)) (\<lambda>_. sret None)
      in
      sbind (sread (r_get R owner)) (\<lambda>existing_id.
      case existing_id of
        None \<Rightarrow> sret None
      | Some existing_id \<Rightarrow>
      sbind (sread (r_hget R jobs existing_id)) (\<lambda>existing_raw.
      case existing_raw of
        None \<Rightarrow> forget
      | Some t \<Rightarrow>
      sbind (sget (cjson_decode lib t)) (\<lambda>existing_job.
      sbind (lua_index existing_job ''state'') (\<lambda>state.
      if state = Some (JString ''completed'') \<or> state = Some (JString ''failed'')
      then sbind (sread (r_pttl R owner)) (\<lambda>pttl. if pttl > 0 then sret (Some t) else forget)
      else sret (Some t))))))"

text \<open>
  \<open>KEEPTTL\<close> when the owner is replaced and its life is not to be extended. The options and the
  deduplication in them are read without a check: the client sends an identifier only with them.
\<close>

definition set_deduplication_owner ::
  "'s redis \<Rightarrow> lua_lib \<Rightarrow> json \<Rightarrow> job_id \<Rightarrow> string \<Rightarrow> bool \<Rightarrow> ('s, unit) script" where
  "set_deduplication_owner R lib job job_id deduplication_prefix keep_existing_ttl =
     sbind (deduplication_ttl_millis lib job) (\<lambda>ttl.
     sbind (lua_index job ''options'') (\<lambda>o'.
     sbind (sget o') (\<lambda>o'.
     sbind (lua_index o' ''deduplication'') (\<lambda>d.
     sbind (sget d) (\<lambda>d.
     sbind (lua_index d ''id'') (\<lambda>i.
     sbind (lua_index d ''extend'') (\<lambda>extend.
     sbind (sget (case i of None \<Rightarrow> None | Some v \<Rightarrow> lua_text lib v)) (\<lambda>i.
     case ttl of
       None \<Rightarrow> swrite (r_set R (deduplication_prefix @ i) job_id)
     | Some t \<Rightarrow>
         if keep_existing_ttl \<and> extend \<noteq> Some (JBool True)
         then swrite (r_set_keep R (deduplication_prefix @ i) job_id)
         else sbind (sget (f64_pos t)) (\<lambda>n. swrite (r_set_px R (deduplication_prefix @ i) job_id n))))))))))"

text \<open>\<open>#x\<close>, and equality, which holds of no two tables that were decoded apart.\<close>

fun lua_length :: "json \<Rightarrow> nat option" where
  "lua_length (JArray xs) = Some (length xs)"
| "lua_length (JObject _) = Some 0"
| "lua_length (JString t) = Some (length t)"
| "lua_length _ = None"

fun is_table :: "json option \<Rightarrow> bool" where
  "is_table (Some (JArray _)) = True"
| "is_table (Some (JObject _)) = True"
| "is_table _ = False"

definition lua_equal :: "json option \<Rightarrow> json option \<Rightarrow> bool" where
  "lua_equal x y \<longleftrightarrow> x = y \<and> \<not> is_table x"

text \<open>The job lists children.\<close>

definition has_children :: "json \<Rightarrow> ('s, bool) script" where
  "has_children job =
     sbind (lua_index job ''child_ids'') (\<lambda>c.
     if lua_absent c then sret False
     else sbind (sget (lua_length (the c))) (\<lambda>n. sret (n > 0)))"

text \<open>\<open>job["options"]["deduplication"]\<close> when both are there.\<close>

definition deduplication_of :: "json \<Rightarrow> ('s, json option) script" where
  "deduplication_of job =
     sbind (options_field job ''deduplication'') (\<lambda>d. sret (if lua_absent d then None else d))"

definition deduplication_flag :: "json \<Rightarrow> string \<Rightarrow> ('s, bool) script" where
  "deduplication_flag job f =
     sbind (deduplication_of job) (\<lambda>d.
     case d of None \<Rightarrow> sret False | Some d \<Rightarrow> sbind (lua_index d f) (\<lambda>v. sret (v = Some (JBool True))))"

definition deduplication_id_text :: "lua_lib \<Rightarrow> json \<Rightarrow> ('s, string) script" where
  "deduplication_id_text lib job =
     sbind (lua_index job ''options'') (\<lambda>o'. sbind (sget o') (\<lambda>o'.
     sbind (lua_index o' ''deduplication'') (\<lambda>d. sbind (sget d) (\<lambda>d. field_text lib d ''id''))))"

text \<open>The field holds something.\<close>

definition field_present :: "json \<Rightarrow> string \<Rightarrow> ('s, bool) script" where
  "field_present job f = sbind (lua_index job f) (\<lambda>v. sret (\<not> lua_absent v))"

text \<open>\<open>scond m k\<close>: false at once unless \<open>m\<close> holds, else \<open>k\<close>.\<close>

definition scond :: "('s, bool) script \<Rightarrow> ('s, bool) script \<Rightarrow> ('s, bool) script" where
  "scond m k = sbind m (\<lambda>b. if b then k else sret False)"

definition snot :: "('s, bool) script \<Rightarrow> ('s, bool) script" where
  "snot m = sbind m (\<lambda>b. sret (\<not> b))"

definition state_is :: "json \<Rightarrow> string \<Rightarrow> ('s, bool) script" where
  "state_is job name = sbind (lua_index job ''state'') (\<lambda>state. sret (state = Some (JString name)))"

definition can_replace_deduplicated_owner :: "json \<Rightarrow> json \<Rightarrow> ('s, bool) script" where
  "can_replace_deduplicated_owner candidate existing =
     scond (deduplication_flag candidate ''replace'') (
     scond (state_is existing ''delayed'') (
     scond (snot (field_present candidate ''repeat_key'')) (
     scond (snot (field_present existing ''parent_id'')) (
     scond (snot (field_present existing ''repeat_key'')) (
     snot (has_children existing))))))"

definition same_repeat_series :: "json \<Rightarrow> json \<Rightarrow> ('s, bool) script" where
  "same_repeat_series candidate existing =
     sbind (lua_index candidate ''repeat_key'') (\<lambda>c.
     sbind (lua_index existing ''repeat_key'') (\<lambda>e.
     let has = (\<lambda>v. v \<noteq> None \<and> v \<noteq> Some JNull) in
     sret (has c = has e \<and> (has c \<longrightarrow> lua_equal c e))))"

definition can_store_deduplicated_next ::
  "'s redis \<Rightarrow> lua_lib \<Rightarrow> string \<Rightarrow> json \<Rightarrow> json \<Rightarrow> ('s, bool) script" where
  "can_store_deduplicated_next R lib active candidate existing =
     scond (deduplication_flag candidate ''keep_last_if_active'') (
     scond (state_is existing ''active'') (
     scond (sbind (field_text lib existing ''id'') (\<lambda>i. sread (\<lambda>s. r_zscore R active i s \<noteq> None))) (
     scond (snot (field_present candidate ''parent_id'')) (
     scond (same_repeat_series candidate existing) (
     snot (has_children candidate))))))"

definition redis_store_deduplicated_next ::
  "'s redis \<Rightarrow> lua_lib \<Rightarrow> string \<Rightarrow> json \<Rightarrow> string \<Rightarrow> string \<Rightarrow> ('s, unit) script" where
  "redis_store_deduplicated_next R lib candidate_raw candidate deduplication_prefix deduplication_next_prefix =
     sbind (deduplication_id_text lib candidate) (\<lambda>i.
     sbind (swrite (r_set R (deduplication_next_prefix @ i) candidate_raw)) (\<lambda>_.
     swrite (r_persist R (deduplication_prefix @ i))))"

definition extend_deduplicated_owner ::
  "'s redis \<Rightarrow> lua_lib \<Rightarrow> json \<Rightarrow> json \<Rightarrow> string \<Rightarrow> ('s, unit) script" where
  "extend_deduplicated_owner R lib candidate existing deduplication_prefix =
     sbind (deduplication_of candidate) (\<lambda>d.
     case d of
       None \<Rightarrow> sret ()
     | Some d \<Rightarrow>
     sbind (lua_index d ''replace'') (\<lambda>replace.
     sbind (lua_index d ''extend'') (\<lambda>extend.
     sbind (lua_index d ''keep_last_if_active'') (\<lambda>keep.
     if replace = Some (JBool True) \<or> extend \<noteq> Some (JBool True) \<or> keep = Some (JBool True) then sret ()
     else
     sbind (lua_index d ''ttl'') (\<lambda>ttl.
     sbind (lua_duration_millis lib ttl) (\<lambda>ttl.
     case ttl of
       None \<Rightarrow> sret ()
     | Some t \<Rightarrow>
         sbind (field_text lib d ''id'') (\<lambda>i.
         sbind (field_text lib existing ''id'') (\<lambda>existing_id.
         sbind (sget (f64_pos t)) (\<lambda>n.
         swrite (r_set_px R (deduplication_prefix @ i) existing_id n))))))))))"

definition redis_emit_deduplication_events ::
  "'s redis \<Rightarrow> string \<Rightarrow> nat \<Rightarrow> job_id \<Rightarrow> string \<Rightarrow> job_id \<Rightarrow> ('s, unit) script" where
  "redis_emit_deduplication_events R events maxlen event_job_id dedup_id deduplicated_id =
     sbind (swrite (r_xadd R events maxlen
       [(''event'', ''debounced''), (''jobId'', event_job_id), (''debounceId'', dedup_id)])) (\<lambda>_.
     swrite (r_xadd R events maxlen
       [(''event'', ''deduplicated''), (''jobId'', event_job_id), (''deduplicationId'', dedup_id),
        (''deduplicatedJobId'', deduplicated_id)]))"

definition redis_emit_deduplicated_events ::
  "'s redis \<Rightarrow> lua_lib \<Rightarrow> string \<Rightarrow> nat \<Rightarrow> json \<Rightarrow> json \<Rightarrow> ('s, unit) script" where
  "redis_emit_deduplicated_events R lib events maxlen owner candidate =
     sbind (deduplication_id_text lib candidate) (\<lambda>i.
     sbind (field_text lib owner ''id'') (\<lambda>owner_id.
     sbind (field_text lib candidate ''id'') (\<lambda>candidate_id.
     redis_emit_deduplication_events R events maxlen owner_id i candidate_id)))"

definition redis_emit_replaced_deduplicated_owner_events ::
  "'s redis \<Rightarrow> lua_lib \<Rightarrow> string \<Rightarrow> nat \<Rightarrow> json \<Rightarrow> json \<Rightarrow> ('s, unit) script" where
  "redis_emit_replaced_deduplicated_owner_events R lib events maxlen candidate existing =
     sbind (deduplication_id_text lib candidate) (\<lambda>i.
     sbind (field_text lib existing ''id'') (\<lambda>existing_id.
     sbind (swrite (r_xadd R events maxlen
       [(''event'', ''removed''), (''jobId'', existing_id), (''prev'', ''delayed'')])) (\<lambda>_.
     sbind (field_text lib candidate ''id'') (\<lambda>candidate_id.
     redis_emit_deduplication_events R events maxlen candidate_id i existing_id))))"

section \<open>The owner of a repeat series\<close>

text \<open>The job that the owner key names, if it is unfinished and of this series.\<close>

definition repeat_owner_job ::
  "'s redis \<Rightarrow> lua_lib \<Rightarrow> string \<Rightarrow> string \<Rightarrow> job_id \<Rightarrow> ('s, string option) script" where
  "repeat_owner_job R lib jobs rkey owner =
     sbind (sread (r_hget R jobs owner)) (\<lambda>raw.
     case raw of
       None \<Rightarrow> sret None
     | Some t \<Rightarrow>
     sbind (sget (cjson_decode lib t)) (\<lambda>job.
     sbind (lua_index job ''state'') (\<lambda>state.
     sbind (lua_index job ''repeat_key'') (\<lambda>k.
     sret (if state \<noteq> Some (JString ''completed'') \<and> state \<noteq> Some (JString ''failed'') \<and>
              k = Some (JString rkey)
           then Some t else None)))))"

definition active_repeat_raw ::
  "'s redis \<Rightarrow> lua_lib \<Rightarrow> string \<Rightarrow> string \<Rightarrow> string \<Rightarrow> ('s, string option) script" where
  "active_repeat_raw R lib jobs repeat_prefix rkey =
     (if rkey = [] then sret None
      else
      let owner_key = repeat_prefix @ rkey;
          meta = lua_repeat_scheduler_meta_key repeat_prefix rkey
      in
      sbind (sread (r_get R owner_key)) (\<lambda>existing_id.
      sbind (case existing_id of
               None \<Rightarrow> sret None
             | Some i \<Rightarrow>
                 sbind (repeat_owner_job R lib jobs rkey i) (\<lambda>raw.
                 sbind (swhen (raw = None) (swrite (r_del R owner_key))) (\<lambda>_. sret raw))) (\<lambda>owner.
      if owner \<noteq> None then sret owner
      else
      sbind (sread (r_hget R meta ''jid'')) (\<lambda>scheduler_owner.
      case scheduler_owner of
        None \<Rightarrow> sret None
      | Some i \<Rightarrow>
      sbind (repeat_owner_job R lib jobs rkey i) (\<lambda>raw.
      case raw of
        None \<Rightarrow>
          sbind (swrite (snd \<circ> r_zrem R (lua_repeat_scheduler_key repeat_prefix) rkey)) (\<lambda>_.
          sbind (swrite (r_del R meta)) (\<lambda>_. sret None))
      | Some t \<Rightarrow>
          sbind (sread (r_get R owner_key)) (\<lambda>current.
          sbind (swhen (current = None) (swrite (r_set R owner_key i))) (\<lambda>_. sret (Some t))))))))"

section \<open>One job\<close>

record add_env =
  ae_jobs :: string
  ae_waiting :: string
  ae_delayed :: string
  ae_waiting_children :: string
  ae_sequence :: string
  ae_active :: string
  ae_events :: string
  ae_marker :: string
  ae_deduplication :: string
  ae_deduplication_next :: string
  ae_repeat :: string
  ae_logs :: string
  ae_bucket :: f64
  ae_maxlen :: nat

text \<open>What the client sends for a job; the score of its schedule as the number and the text.\<close>

record add_entry =
  an_id :: job_id
  an_raw :: string
  an_state :: string
  an_score :: f64
  an_score_text :: string
  an_priority :: f64
  an_dedup :: string
  an_repeat :: string

datatype add_outcome =
    Existing string
  | Deduplicated string
  | RepeatOwner string
  | Inserted string

text \<open>A job whose identifier has an owner: whether it takes the owner's place, or what becomes of it.\<close>

definition replace_owner ::
  "'s redis \<Rightarrow> lua_lib \<Rightarrow> add_env \<Rightarrow> json \<Rightarrow> json \<Rightarrow> ('s, bool) script" where
  "replace_owner R lib E candidate existing =
     sbind (field_text lib existing ''id'') (\<lambda>existing_id.
     sbind (sreply (r_zrem R (ae_delayed E) existing_id)) (\<lambda>removed.
     if removed = 0 then sret False
     else
     sbind (swrite (r_hdel R (ae_jobs E) existing_id)) (\<lambda>_.
     sbind (swrite (r_del R (ae_logs E @ existing_id))) (\<lambda>_.
     sbind (redis_emit_replaced_deduplicated_owner_events R lib (ae_events E) (ae_maxlen E) candidate existing) (\<lambda>_.
     sret True)))))"

definition against_owner ::
  "'s redis \<Rightarrow> lua_lib \<Rightarrow> add_env \<Rightarrow> string \<Rightarrow> string \<Rightarrow> ('s, bool) script" where
  "against_owner R lib E raw owner_raw =
     sbind (sget (cjson_decode lib raw)) (\<lambda>candidate.
     sbind (sget (cjson_decode lib owner_raw)) (\<lambda>existing.
     sbind (can_replace_deduplicated_owner candidate existing) (\<lambda>replaces.
     if replaces then replace_owner R lib E candidate existing
     else
     sbind (can_store_deduplicated_next R lib (ae_active E) candidate existing) (\<lambda>keeps_last.
     if keeps_last then
       sbind (redis_store_deduplicated_next R lib raw candidate (ae_deduplication E) (ae_deduplication_next E)) (\<lambda>_.
       sbind (redis_emit_deduplicated_events R lib (ae_events E) (ae_maxlen E) existing candidate) (\<lambda>_.
       sret False))
     else
       sbind (extend_deduplicated_owner R lib candidate existing (ae_deduplication E)) (\<lambda>_.
       sbind (deduplication_flag candidate ''replace'') (\<lambda>b.
       sbind (swhen (\<not> b) (redis_emit_deduplicated_events R lib (ae_events E) (ae_maxlen E) existing candidate)) (\<lambda>_.
       sret False)))))))"

text \<open>The index of the job's state, and the job as it is stored.\<close>

definition index_added :: "'s redis \<Rightarrow> lua_lib \<Rightarrow> add_env \<Rightarrow> add_entry \<Rightarrow> ('s, string) script" where
  "index_added R lib E N =
     (if an_state N = ''waiting'' then
        sbind (sget (cjson_decode lib (an_raw N))) (\<lambda>job.
        enqueue_waiting_job R lib (ae_jobs E) (ae_waiting E) (ae_sequence E) job (an_id N) (an_priority N)
          (ae_bucket E) (ae_marker E))
      else if an_state N = ''delayed'' then
        sbind (swrite (r_zadd R (ae_delayed E) (an_score N) (an_id N))) (\<lambda>_.
        sbind (refresh_delay_marker R (ae_marker E) (ae_delayed E)) (\<lambda>_.
        sret (an_raw N)))
      else
        sbind (swhen (an_state N = ''waiting_children'')
          (swrite (r_zadd R (ae_waiting_children E) (an_score N) (an_id N)))) (\<lambda>_.
        sret (an_raw N)))"

definition announce_added :: "'s redis \<Rightarrow> lua_lib \<Rightarrow> add_env \<Rightarrow> add_entry \<Rightarrow> string \<Rightarrow> ('s, unit) script" where
  "announce_added R lib E N inserted_raw =
     sbind (sget (cjson_decode lib inserted_raw)) (\<lambda>event_job.
     sbind (lua_index event_job ''name'') (\<lambda>name.
     sbind (text_or lib [] name) (\<lambda>name.
     sbind (swrite (r_xadd R (ae_events E) (ae_maxlen E)
       [(''event'', ''added''), (''jobId'', an_id N), (''name'', name)])) (\<lambda>_.
     swrite (r_xadd R (ae_events E) (ae_maxlen E)
       [(''event'', if an_state N = ''waiting_children'' then ''waiting-children'' else an_state N),
        (''jobId'', an_id N)])))))"

definition insert_added ::
  "'s redis \<Rightarrow> lua_lib \<Rightarrow> add_env \<Rightarrow> add_entry \<Rightarrow> bool \<Rightarrow> ('s, add_outcome) script" where
  "insert_added R lib E N replaced =
     sbind (swrite (r_hset R (ae_jobs E) (an_id N) (an_raw N))) (\<lambda>_.
     sbind (index_added R lib E N) (\<lambda>inserted_raw.
     sbind (swhen (an_dedup N \<noteq> [])
       (sbind (sget (cjson_decode lib (an_raw N))) (\<lambda>job.
        set_deduplication_owner R lib job (an_id N) (ae_deduplication E) replaced))) (\<lambda>_.
     sbind (swhen (an_repeat N \<noteq> [])
       (sbind (swrite (r_set R (ae_repeat E @ an_repeat N) (an_id N))) (\<lambda>_.
        sbind (sget (cjson_decode lib inserted_raw)) (\<lambda>job.
        store_repeat_scheduler R lib job (an_id N) (ae_repeat E) (an_score N) (an_score_text N))))) (\<lambda>_.
     sbind (announce_added R lib E N inserted_raw) (\<lambda>_.
     sret (Inserted inserted_raw))))))"

text \<open>
  A field that \<open>HSETNX\<close> does not set is there, so the scripts' reply \<open>missing\<close> to a job that is neither
  there nor set does not occur.
\<close>

definition add_unowned ::
  "'s redis \<Rightarrow> lua_lib \<Rightarrow> add_env \<Rightarrow> add_entry \<Rightarrow> bool \<Rightarrow> ('s, add_outcome) script" where
  "add_unowned R lib E N replaced =
     sbind (active_repeat_raw R lib (ae_jobs E) (ae_repeat E) (an_repeat N)) (\<lambda>repeat_owner.
     case repeat_owner of
       Some t \<Rightarrow> sret (RepeatOwner t)
     | None \<Rightarrow>
     sbind (sread (r_hget R (ae_jobs E) (an_id N))) (\<lambda>current.
     case current of
       Some t \<Rightarrow> sret (Existing t)
     | None \<Rightarrow> insert_added R lib E N replaced))"

definition add_one :: "'s redis \<Rightarrow> lua_lib \<Rightarrow> add_env \<Rightarrow> add_entry \<Rightarrow> ('s, add_outcome) script" where
  "add_one R lib E N =
     sbind (sread (r_hget R (ae_jobs E) (an_id N))) (\<lambda>existing.
     case existing of
       Some t \<Rightarrow> sret (Existing t)
     | None \<Rightarrow>
     sbind (active_deduplicated_raw R lib (ae_jobs E) (ae_deduplication E) (an_dedup N)) (\<lambda>deduplicated.
     case deduplicated of
       None \<Rightarrow> add_unowned R lib E N False
     | Some owner_raw \<Rightarrow>
         sbind (against_owner R lib E (an_raw N) owner_raw) (\<lambda>replaced.
         if replaced then add_unowned R lib E N True else sret (Deduplicated owner_raw))))"

section \<open>The scripts\<close>

fun add_reply :: "add_outcome \<Rightarrow> string list" where
  "add_reply (Existing t) = [''existing'', t]"
| "add_reply (Deduplicated t) = [''deduplicated'', t]"
| "add_reply (RepeatOwner t) = [''repeat'', t]"
| "add_reply (Inserted t) = [''inserted'', t]"

fun add_text :: "add_outcome \<Rightarrow> string" where
  "add_text (Existing t) = t"
| "add_text (Deduplicated t) = t"
| "add_text (RepeatOwner t) = t"
| "add_text (Inserted t) = t"

fun add_entry_of :: "lua_lib \<Rightarrow> eval_arg list \<Rightarrow> add_entry option" where
  "add_entry_of lib [id', raw, state, score, priority, dedup, rep] =
     (case (arg_number lib score, arg_number lib priority) of
        (Some x, Some p) \<Rightarrow>
          Some \<lparr>an_id = arg_text id', an_raw = arg_text raw, an_state = arg_text state, an_score = x,
                an_score_text = arg_text score, an_priority = p, an_dedup = arg_text dedup,
                an_repeat = arg_text rep\<rparr>
      | _ \<Rightarrow> None)"
| "add_entry_of lib _ = None"

definition add_env_of ::
  "string list \<Rightarrow> f64 \<Rightarrow> nat \<Rightarrow> string \<Rightarrow> string \<Rightarrow> string \<Rightarrow> string \<Rightarrow> add_env option" where
  "add_env_of K bucket maxlen dedup rep dedup_next logs =
     (case K of
        [jobs, waiting, delayed, waiting_children, sequence, active, events, marker] \<Rightarrow>
          Some \<lparr>ae_jobs = jobs, ae_waiting = waiting, ae_delayed = delayed,
                ae_waiting_children = waiting_children, ae_sequence = sequence, ae_active = active,
                ae_events = events, ae_marker = marker, ae_deduplication = dedup,
                ae_deduplication_next = dedup_next, ae_repeat = rep, ae_logs = logs, ae_bucket = bucket,
                ae_maxlen = maxlen\<rparr>
      | _ \<Rightarrow> None)"

definition add_job_script ::
  "'s redis \<Rightarrow> lua_lib \<Rightarrow> string list \<Rightarrow> eval_arg list \<Rightarrow> ('s, string list) script" where
  "add_job_script R lib K A =
     (case A of
        [id', raw, state, score, priority, bucket, dedup, dedup_prefix, rep, rep_prefix, dedup_next, logs,
         maxlen] \<Rightarrow>
          sbind (sget (arg_number lib bucket)) (\<lambda>bucket.
          sbind (sget (arg_nat maxlen)) (\<lambda>maxlen.
          sbind (sget (add_env_of K bucket maxlen (arg_text dedup_prefix) (arg_text rep_prefix)
            (arg_text dedup_next) (arg_text logs))) (\<lambda>E.
          sbind (sget (add_entry_of lib [id', raw, state, score, priority, dedup, rep])) (\<lambda>N.
          sbind (add_one R lib E N) (\<lambda>outcome. sret (add_reply outcome))))))
      | _ \<Rightarrow> sraise)"

text \<open>Jobs one after the other; what was added before an error stays.\<close>

fun add_each ::
  "'s redis \<Rightarrow> lua_lib \<Rightarrow> add_env \<Rightarrow> nat \<Rightarrow> eval_arg list \<Rightarrow> string list \<Rightarrow> ('s, string list) script" where
  "add_each R lib E 0 A added = sret added"
| "add_each R lib E (Suc n) A added =
     sbind (sget (add_entry_of lib (take 7 A))) (\<lambda>N.
     sbind (add_one R lib E N) (\<lambda>outcome.
     add_each R lib E n (drop 7 A) (added @ [add_text outcome])))"

definition add_jobs_script ::
  "'s redis \<Rightarrow> lua_lib \<Rightarrow> string list \<Rightarrow> eval_arg list \<Rightarrow> ('s, string list) script" where
  "add_jobs_script R lib K A =
     (case A of
        [] \<Rightarrow> sraise
      | c # A \<Rightarrow>
          sbind (sget (arg_nat c)) (\<lambda>n.
          case drop (7 * n) A of
            [bucket, dedup_prefix, rep_prefix, dedup_next, logs, maxlen] \<Rightarrow>
              sbind (sget (arg_number lib bucket)) (\<lambda>bucket.
              sbind (sget (arg_nat maxlen)) (\<lambda>maxlen.
              sbind (sget (add_env_of K bucket maxlen (arg_text dedup_prefix) (arg_text rep_prefix)
                (arg_text dedup_next) (arg_text logs))) (\<lambda>E.
              add_each R lib E n A [])))
          | _ \<Rightarrow> sraise))"

section \<open>The operations\<close>

definition add_keys :: "redis_queue \<Rightarrow> eval_arg list" where
  "add_keys q =
     map AText [jobs_key q, state_key q Waiting, state_key q Delayed, state_key q WaitingChildren,
       sequence_key q, state_key q Active, events_key q, marker_key q]"

definition or_empty :: "string option \<Rightarrow> eval_arg" where
  "or_empty v = AText (case v of None \<Rightarrow> [] | Some t \<Rightarrow> t)"

definition add_new_job :: "client \<Rightarrow> 's redis \<Rightarrow> job \<Rightarrow> 's \<Rightarrow> job result \<times> 's" where
  "add_new_job Z R job s =
     (case encode_job (cl_codec Z) job of
        Inl e \<Rightarrow> (Inl e, s)
      | Inr encoded \<Rightarrow>
          on_reply (\<lambda>reply. decode_add_job_result (cl_codec Z) reply (j_id job))
            (query (cl_codec Z) (eval_script (add_job_script R (cl_lib Z)) 8
              (add_keys (cl_queue Z) @
               [AText (j_id job), AText encoded, AText (job_state_name (j_state job)),
                score_arg Z (j_scheduled_at job), nat_arg (j_priority job), bucket_arg Z,
                or_empty (redis_job_deduplication_id job), key_arg Z deduplication_key_prefix,
                or_empty (job_repeat_key job), key_arg Z repeat_key_prefix,
                key_arg Z deduplication_next_key_prefix, key_arg Z logs_key_prefix,
                nat_arg DEFAULT_JOB_EVENT_RETENTION])) s))"

definition redis_add_job ::
  "client \<Rightarrow> 's redis \<Rightarrow> string \<Rightarrow> json \<Rightarrow> job_options \<Rightarrow> string \<Rightarrow> instant \<Rightarrow> 's \<Rightarrow> job result \<times> 's" where
  "redis_add_job Z R name payload options uuid now s =
     (case validate_job_options_at (cl_ext Z) options now of
        Inl e \<Rightarrow> (Inl e, s)
      | Inr _ \<Rightarrow> add_new_job Z R (job_new (cl_ext Z) (rq_queue (cl_queue Z)) name payload options uuid now) s)"

text \<open>The arguments of a job among several.\<close>

definition add_job_args :: "client \<Rightarrow> job \<Rightarrow> eval_arg list result" where
  "add_job_args Z job =
     and_then (encode_job (cl_codec Z) job) (\<lambda>encoded.
     Inr [AText (j_id job), AText encoded, AText (job_state_name (j_state job)),
          score_arg Z (j_scheduled_at job), nat_arg (j_priority job),
          or_empty (redis_job_deduplication_id job), or_empty (job_repeat_key job)])"

fun add_jobs_args :: "client \<Rightarrow> job list \<Rightarrow> eval_arg list result" where
  "add_jobs_args Z [] = Inr []"
| "add_jobs_args Z (j # js) =
     and_then (add_job_args Z j) (\<lambda>a. and_then (add_jobs_args Z js) (\<lambda>as. Inr (a @ as)))"

definition redis_add_many_at ::
  "client \<Rightarrow> 's redis \<Rightarrow> job_spec list \<Rightarrow> (nat \<Rightarrow> string) \<Rightarrow> instant \<Rightarrow> 's \<Rightarrow> job list result \<times> 's" where
  "redis_add_many_at Z R specs uuids now s =
     (case validate_specs (cl_ext Z) specs now of
        Inl e \<Rightarrow> (Inl e, s)
      | Inr _ \<Rightarrow>
          let created = jobs_of_specs (cl_ext Z) (rq_queue (cl_queue Z)) specs uuids now in
          if created = [] then (Inr [], s)
          else case add_jobs_args Z created of
            Inl e \<Rightarrow> (Inl e, s)
          | Inr args \<Rightarrow>
              on_reply (\<lambda>reply. decode_add_jobs_result (cl_codec Z) reply (length created))
                (query (cl_codec Z) (eval_script (add_jobs_script R (cl_lib Z)) 8
                  (add_keys (cl_queue Z) @ nat_arg (length created) # args @
                   [bucket_arg Z, key_arg Z deduplication_key_prefix, key_arg Z repeat_key_prefix,
                    key_arg Z deduplication_next_key_prefix, key_arg Z logs_key_prefix,
                    nat_arg DEFAULT_JOB_EVENT_RETENTION])) s))"

end
