(* ===== verification/Redis_Adding_Safety.thy ===== *)
theory Redis_Adding_Safety
  imports Redis_Recovery_Safety Redis_Adding
begin

text \<open>Adding a job through \<open>RedisJobQueue\<close>: what is stored, and whose record is not touched.\<close>

section \<open>The call\<close>

definition queue_add_env :: "client \<Rightarrow> add_env" where
  "queue_add_env Z =
     (let q = cl_queue Z in
      \<lparr>ae_jobs = jobs_key q, ae_waiting = state_key q Waiting, ae_delayed = state_key q Delayed,
       ae_waiting_children = state_key q WaitingChildren, ae_sequence = sequence_key q,
       ae_active = state_key q Active, ae_events = events_key q, ae_marker = marker_key q,
       ae_deduplication = deduplication_key_prefix q, ae_deduplication_next = deduplication_next_key_prefix q,
       ae_repeat = repeat_key_prefix q, ae_logs = logs_key_prefix q, ae_bucket = WAITING_SCORE_BUCKET,
       ae_maxlen = DEFAULT_JOB_EVENT_RETENTION\<rparr>)"

definition queue_add_entry :: "client \<Rightarrow> job \<Rightarrow> string \<Rightarrow> add_entry" where
  "queue_add_entry Z job encoded =
     \<lparr>an_id = j_id job, an_raw = encoded, an_state = job_state_name (j_state job),
      an_score = millis (cl_ext Z) (j_scheduled_at job),
      an_score_text = rc_float_text (cl_codec Z) (millis (cl_ext Z) (j_scheduled_at job)),
      an_priority = f64_of_int (int (j_priority job)),
      an_dedup = (case redis_job_deduplication_id job of None \<Rightarrow> [] | Some t \<Rightarrow> t),
      an_repeat = (case job_repeat_key job of None \<Rightarrow> [] | Some t \<Rightarrow> t)\<rparr>"

lemma add_env_fields:
  "ae_jobs (queue_add_env Z) = jobs_key (cl_queue Z)" "ae_waiting (queue_add_env Z) = state_key (cl_queue Z) Waiting"
  "ae_delayed (queue_add_env Z) = state_key (cl_queue Z) Delayed"
  "ae_waiting_children (queue_add_env Z) = state_key (cl_queue Z) WaitingChildren"
  "ae_sequence (queue_add_env Z) = sequence_key (cl_queue Z)" "ae_active (queue_add_env Z) = state_key (cl_queue Z) Active"
  "ae_events (queue_add_env Z) = events_key (cl_queue Z)" "ae_marker (queue_add_env Z) = marker_key (cl_queue Z)"
  "ae_deduplication (queue_add_env Z) = deduplication_key_prefix (cl_queue Z)"
  "ae_deduplication_next (queue_add_env Z) = deduplication_next_key_prefix (cl_queue Z)"
  "ae_repeat (queue_add_env Z) = repeat_key_prefix (cl_queue Z)" "ae_logs (queue_add_env Z) = logs_key_prefix (cl_queue Z)"
  "ae_bucket (queue_add_env Z) = WAITING_SCORE_BUCKET"
  by (simp_all add: queue_add_env_def Let_def)

lemma add_call:
  assumes "encode_job (cl_codec Z) job = Inr encoded"
  shows "add_new_job Z R job s =
    on_reply (\<lambda>reply. decode_add_job_result (cl_codec Z) reply (j_id job))
      (query (cl_codec Z) (sbind (add_one R (cl_lib Z) (queue_add_env Z) (queue_add_entry Z job encoded))
         (\<lambda>outcome. sret (add_reply outcome))) s)"
  by (simp add: add_new_job_def assms eval_script_def add_job_script_def add_keys_def add_env_of_def queue_add_env_def
      queue_add_entry_def query_def script_run Let_def nat_arg_def bucket_arg_def score_arg_def or_empty_def
      split: option.split)

text \<open>An identifier that is taken: the stored job is returned and nothing is written.\<close>

theorem redis_add_existing:
  assumes ok: "redis_ok R view" and "ks_hash (view s) (jobs_key (cl_queue Z)) (j_id job) = Some t"
    and "encode_job (cl_codec Z) job = Inr encoded"
  shows "add_new_job Z R job s = (decode_job (cl_codec Z) t, s)"
  by (simp add: add_call [OF assms(3)] add_one_def add_env_fields queue_add_entry_def script_run
      redis_reads [OF ok] assms(2) on_reply_def query_def decode_add_job_result_def)

section \<open>Whose record is touched\<close>

lemma keeps_cond:
  "keeps view (agree C) m \<Longrightarrow> keeps view (agree C) k \<Longrightarrow> keeps view (agree C) (scond m k)"
  "keeps view (agree C) m \<Longrightarrow> keeps view (agree C) (snot m)"
  unfolding scond_def snot_def by (intro frame_rules; assumption)+

lemma keeps_adding_reads:
  "keeps view (agree C) (deduplication_of job)" "keeps view (agree C) (deduplication_flag job f)"
  "keeps view (agree C) (deduplication_id_text lib job)" "keeps view (agree C) (field_present job f)"
  "keeps view (agree C) (state_is job name)" "keeps view (agree C) (has_children job)"
  "keeps view (agree C) (same_repeat_series job job')"
  "keeps view (agree C) (can_replace_deduplicated_owner job job')"
  "keeps view (agree C) (can_store_deduplicated_next R lib active job job')"
  "keeps view (agree C) (repeat_owner_job R lib jobs rkey owner)"
  unfolding can_replace_deduplicated_owner_def can_store_deduplicated_next_def deduplication_flag_def
    deduplication_of_def deduplication_id_text_def field_present_def state_is_def has_children_def
    same_repeat_series_def repeat_owner_job_def Let_def
  by (intro frame_rules keeps_cond)+

lemmas adding_rules = frame_rules keeps_adding_reads

definition job_cell :: "redis_queue \<Rightarrow> job_id \<Rightarrow> cell set" where
  "job_cell q i = {CHash (jobs_key q) i}"

lemma off_job_cell:
  "off_key (job_cell q i) (deduplication_key_prefix q @ x)" "off_key (job_cell q i) (deduplication_next_key_prefix q @ x)"
  "off_key (job_cell q i) (logs_key_prefix q @ x)" "off_key (job_cell q i) (events_key q)"
  "off_key (job_cell q i) (marker_key q)" "off_key (job_cell q i) (sequence_key q)"
  "off_key (job_cell q i) (state_key q Waiting)" "off_key (job_cell q i) (state_key q Delayed)"
  "off_key (job_cell q i) (state_key q WaitingChildren)" "off_repeat (repeat_key_prefix q) (job_cell q i)"
  by (simp_all add: off_key_def job_cell_def off_repeat_queue queue_keys queue_prefixes)

lemma keeps_set_keep_persist:
  assumes "redis_ok R view" "off_key C k"
  shows "keeps view (agree C) (swrite (r_set_keep R k x))" "keeps view (agree C) (swrite (r_persist R k))"
  using off_key_cells [OF assms(2)] by (intro keeps_commands [OF assms(1)]; simp)+

lemma keeps_add_parts:
  assumes ok: "redis_ok R view"
  shows "keeps view (agree (job_cell (cl_queue Z) i)) (active_deduplicated_raw R lib (jobs_key (cl_queue Z))
      (deduplication_key_prefix (cl_queue Z)) d)"
    and "keeps view (agree (job_cell (cl_queue Z) i)) (redis_store_deduplicated_next R lib raw job
      (deduplication_key_prefix (cl_queue Z)) (deduplication_next_key_prefix (cl_queue Z)))"
    and "keeps view (agree (job_cell (cl_queue Z) i)) (extend_deduplicated_owner R lib job job'
      (deduplication_key_prefix (cl_queue Z)))"
    and "keeps view (agree (job_cell (cl_queue Z) i)) (redis_emit_deduplicated_events R lib (events_key (cl_queue Z)) n job job')"
    and "keeps view (agree (job_cell (cl_queue Z) i))
      (redis_emit_replaced_deduplicated_owner_events R lib (events_key (cl_queue Z)) n job job')"
    and "keeps view (agree (job_cell (cl_queue Z) i)) (active_repeat_raw R lib (jobs_key (cl_queue Z))
      (repeat_key_prefix (cl_queue Z)) rkey)"
    and "keeps view (agree (job_cell (cl_queue Z) i)) (set_deduplication_owner R lib job job_id
      (deduplication_key_prefix (cl_queue Z)) b)"
  unfolding active_deduplicated_raw_def redis_store_deduplicated_next_def extend_deduplicated_owner_def
    redis_emit_deduplicated_events_def redis_emit_replaced_deduplicated_owner_events_def redis_emit_deduplication_events_def
    active_repeat_raw_def set_deduplication_owner_def Let_def
  by (intro adding_rules keeps_commands_off [OF ok] keeps_set_keep_persist [OF ok] off_job_cell
      off_repeat_keys [OF off_job_cell(10)])+

lemma keeps_insert_added:
  assumes ok: "redis_ok R view" and other: "i \<noteq> an_id N"
  shows "keeps view (agree (job_cell (cl_queue Z) i)) (index_added R lib (queue_add_env Z) N)"
    and "keeps view (agree (job_cell (cl_queue Z) i)) (announce_added R lib (queue_add_env Z) N raw)"
    and "keeps view (agree (job_cell (cl_queue Z) i)) (insert_added R lib (queue_add_env Z) N b)"
    and "keeps view (agree (job_cell (cl_queue Z) i)) (add_unowned R lib (queue_add_env Z) N b)"
proof -
  let ?C = "job_cell (cl_queue Z) i"
  have cell: "CHash (jobs_key (cl_queue Z)) (an_id N) \<notin> ?C" using other by (simp add: job_cell_def)
  have cells: "CString (sequence_key (cl_queue Z)) \<notin> ?C" "CZset (state_key (cl_queue Z) Waiting) \<notin> ?C"
    "CZset (marker_key (cl_queue Z)) \<notin> ?C" by (simp_all add: job_cell_def)
  show index: "keeps view (agree ?C) (index_added R lib (queue_add_env Z) N)"
    unfolding index_added_def add_env_fields
    by (intro adding_rules keeps_enqueue [OF ok] keeps_refresh [OF ok] keeps_commands_off [OF ok] off_job_cell cell cells)
  show announce: "keeps view (agree ?C) (announce_added R lib (queue_add_env Z) N raw)" for raw
    unfolding announce_added_def add_env_fields
    by (intro adding_rules keeps_commands_off [OF ok] off_job_cell)
  have hset: "keeps view (agree ?C) (swrite (r_hset R (jobs_key (cl_queue Z)) (an_id N) x))" for x
    by (rule keeps_commands(5) [OF ok cell])
  show insert: "keeps view (agree ?C) (insert_added R lib (queue_add_env Z) N b)"
    unfolding insert_added_def add_env_fields
    by (intro adding_rules hset index announce keeps_add_parts [OF ok] keeps_repeat [OF ok] keeps_commands_off [OF ok]
        off_job_cell off_repeat_keys [OF off_job_cell(10)])
  show "keeps view (agree ?C) (add_unowned R lib (queue_add_env Z) N b)"
    unfolding add_unowned_def add_env_fields
    by (intro adding_rules insert keeps_add_parts [OF ok])
qed

section \<open>A new job is stored\<close>

lemma index_added_ran:
  assumes ok: "redis_ok R view" and ran: "index_added R lib (queue_add_env Z) N s = (Some raw, s')"
    and stored: "ks_hash (view s) (jobs_key (cl_queue Z)) (an_id N) = Some (an_raw N)"
  shows "ks_hash (view s') (jobs_key (cl_queue Z)) (an_id N) = Some raw"
    and "an_state N = ''waiting'' \<Longrightarrow> \<exists>n lifo. map_of (ks_zset (view s') (state_key (cl_queue Z) Waiting)) (an_id N)
        = Some (waiting_score_for (an_priority N) (f64_of_int n) lifo WAITING_SCORE_BUCKET)"
    and "an_state N = ''delayed'' \<Longrightarrow>
      map_of (ks_zset (view s') (state_key (cl_queue Z) Delayed)) (an_id N) = Some (an_score N)"
proof -
  let ?q = "cl_queue Z"
  have m: "marker_key ?q \<noteq> state_key ?q Waiting" by (simp add: queue_keys)
  consider (w) "an_state N = ''waiting''" | (d) "an_state N = ''delayed''"
    | (o') "an_state N \<noteq> ''waiting''" "an_state N \<noteq> ''delayed''" by blast
  then have "ks_hash (view s') (jobs_key ?q) (an_id N) = Some raw \<and>
    (an_state N = ''waiting'' \<longrightarrow> (\<exists>n lifo. map_of (ks_zset (view s') (state_key ?q Waiting)) (an_id N)
        = Some (waiting_score_for (an_priority N) (f64_of_int n) lifo WAITING_SCORE_BUCKET))) \<and>
    (an_state N = ''delayed'' \<longrightarrow> map_of (ks_zset (view s') (state_key ?q Delayed)) (an_id N) = Some (an_score N))"
  proof cases
    case w
    with ran obtain job where enq: "enqueue_waiting_job R lib (jobs_key ?q) (state_key ?q Waiting) (sequence_key ?q) job
        (an_id N) (an_priority N) WAITING_SCORE_BUCKET (marker_key ?q) s = (Some raw, s')"
      by (auto simp: index_added_def add_env_fields script_run split: option.splits)
    show ?thesis by (rule enqueue_ran [OF ok m enq]) (use w in auto)
  next
    case d
    let ?s1 = "r_zadd R (state_key ?q Delayed) (an_score N) (an_id N) s"
    from d ran have raw: "raw = an_raw N"
      and mark: "refresh_delay_marker R (marker_key ?q) (state_key ?q Delayed) ?s1 = (Some (), s')"
      by (auto simp: index_added_def add_env_fields script_run elim!: sbind_SomeE)
    have "agree {CHash (jobs_key ?q) (an_id N), CZset (state_key ?q Delayed)} (view ?s1) (view s')"
      by (rule keepsD [OF keeps_refresh [OF ok] mark]) (simp add: queue_keys)
    then have "ks_hash (view s') (jobs_key ?q) (an_id N) = ks_hash (view ?s1) (jobs_key ?q) (an_id N)"
      "ks_zset (view s') (state_key ?q Delayed) = ks_zset (view ?s1) (state_key ?q Delayed)"
      by (simp_all add: agree_def)
    then show ?thesis
      using stored d raw by (simp add: redis_writes [OF ok] ks_zadd_def map_of_zset_insert)
  next
    case o'
    with ran have "raw = an_raw N" "ks_hash (view s') = ks_hash (view s)"
      by (auto simp: index_added_def add_env_fields script_run redis_writes [OF ok] ks_zadd_def split: if_splits)
    then show ?thesis using stored o' by simp
  qed
  then show "ks_hash (view s') (jobs_key ?q) (an_id N) = Some raw"
    "an_state N = ''waiting'' \<Longrightarrow> \<exists>n lifo. map_of (ks_zset (view s') (state_key ?q Waiting)) (an_id N)
        = Some (waiting_score_for (an_priority N) (f64_of_int n) lifo WAITING_SCORE_BUCKET)"
    "an_state N = ''delayed'' \<Longrightarrow> map_of (ks_zset (view s') (state_key ?q Delayed)) (an_id N) = Some (an_score N)"
    by blast+
qed

lemma keeps_announce_added:
  "redis_ok R view \<Longrightarrow> CStream (ae_events E) \<notin> C \<Longrightarrow> keeps view (agree C) (announce_added R lib E N raw)"
  unfolding announce_added_def by (intro adding_rules keeps_commands(12))

text \<open>
  C18. Adding a job with a fresh identifier, without deduplication or repetition, stores it on the Redis
  backend as it is returned and puts it in the index of its state: a waiting job behind every job of
  its priority that was numbered before (or, last in first out, ahead), a delayed one at its time. No
  other job is touched.
\<close>

theorem redis_add_stores:
  assumes ok: "redis_ok R view"
    and fresh: "ks_hash (view s) (jobs_key (cl_queue Z)) (j_id job) = None"
    and plain: "redis_job_deduplication_id job = None" "job_repeat_key job = None"
    and added: "add_new_job Z R job s = (Inr job', s')"
  shows "(\<exists>raw. ks_hash (view s') (jobs_key (cl_queue Z)) (j_id job) = Some raw \<and>
      decode_job (cl_codec Z) raw = Inr job') \<and>
    (j_state job = Waiting \<longrightarrow> (\<exists>n lifo. map_of (ks_zset (view s') (state_key (cl_queue Z) Waiting)) (j_id job)
        = Some (waiting_score_for (f64_of_int (int (j_priority job))) (f64_of_int n) lifo WAITING_SCORE_BUCKET))) \<and>
    (j_state job = Delayed \<longrightarrow> map_of (ks_zset (view s') (state_key (cl_queue Z) Delayed)) (j_id job)
        = Some (millis (cl_ext Z) (j_scheduled_at job))) \<and>
    (\<forall>i. i \<noteq> j_id job \<longrightarrow> ks_hash (view s') (jobs_key (cl_queue Z)) i = ks_hash (view s) (jobs_key (cl_queue Z)) i)"
proof -
  let ?q = "cl_queue Z" and ?E = "queue_add_env Z" and ?id = "j_id job"
  from added obtain encoded where encoded: "encode_job (cl_codec Z) job = Inr encoded"
    by (cases "encode_job (cl_codec Z) job") (simp_all add: add_new_job_def)
  let ?N = "queue_add_entry Z job encoded"
  let ?s1 = "r_hset R (jobs_key ?q) ?id encoded s"
  have N: "an_id ?N = ?id" "an_raw ?N = encoded" "an_dedup ?N = []" "an_repeat ?N = []"
    "an_state ?N = job_state_name (j_state job)" "an_score ?N = millis (cl_ext Z) (j_scheduled_at job)"
    "an_priority ?N = f64_of_int (int (j_priority job))"
    by (simp_all add: queue_add_entry_def plain)
  from added obtain outcome where one: "add_one R (cl_lib Z) ?E ?N s = (Some outcome, s')"
    and reply: "decode_add_job_result (cl_codec Z) (add_reply outcome) ?id = Inr job'"
    by (auto simp: add_call [OF encoded] on_reply_def query_def script_run and_then_Inr
        split: prod.splits option.splits sum.splits elim!: sbind_SomeE)
  have insert: "insert_added R (cl_lib Z) ?E ?N False s = (Some outcome, s')"
    using one by (simp add: add_one_def add_unowned_def active_deduplicated_raw_def active_repeat_raw_def N
        add_env_fields script_run redis_reads [OF ok] fresh)
  then obtain raw s2 where outcome: "outcome = Inserted raw"
    and index: "index_added R (cl_lib Z) ?E ?N ?s1 = (Some raw, s2)"
    and announce: "announce_added R (cl_lib Z) ?E ?N raw s2 = (Some (), s')"
    by (auto simp: insert_added_def N add_env_fields script_run elim!: sbind_SomeE)
  have stored1: "ks_hash (view ?s1) (jobs_key ?q) (an_id ?N) = Some (an_raw ?N)"
    by (simp add: N redis_writes [OF ok] ks_hput_def)
  note stored = index_added_ran [OF ok index stored1, unfolded N]
  let ?C = "{CHash (jobs_key ?q) ?id, CZset (state_key ?q Waiting), CZset (state_key ?q Delayed)}"
  have "agree ?C (view s2) (view s')"
    by (rule keepsD [OF keeps_announce_added [OF ok] announce]) simp
  then have same: "ks_hash (view s') (jobs_key ?q) ?id = ks_hash (view s2) (jobs_key ?q) ?id"
    "ks_zset (view s') (state_key ?q Waiting) = ks_zset (view s2) (state_key ?q Waiting)"
    "ks_zset (view s') (state_key ?q Delayed) = ks_zset (view s2) (state_key ?q Delayed)"
    by (simp_all add: agree_def)
  have others: "ks_hash (view s') (jobs_key ?q) i = ks_hash (view s) (jobs_key ?q) i" if "i \<noteq> ?id" for i
  proof -
    from that have "i \<noteq> an_id ?N" by (simp add: N)
    from keepsD [OF keeps_insert_added(3) [OF ok this] insert] show ?thesis by (simp add: agree_def job_cell_def)
  qed
  from reply outcome have "decode_job (cl_codec Z) raw = Inr job'" by (simp add: decode_add_job_result_def)
  then show ?thesis using stored same others by (cases "j_state job") auto
qed

lemma ex_delayed_parts:
  "redis_job_deduplication_id (ex_delayed i t) = None" "job_repeat_key (ex_delayed i t) = None"
  "j_id (ex_delayed i t) = i" "j_state (ex_delayed i t) = Delayed" "j_scheduled_at (ex_delayed i t) = t"
  by (simp_all add: ex_delayed_def redis_job_deduplication_id_def job_repeat_key_def ex_job_def job_new_def
      job_options_default_def Let_def)

lemma ex_encode: "encode_job (cl_codec ex_client) job = Inr ''W''"
  by (simp add: encode_job_def map_err_def ex_client_def ex_codec_def)

lemma ex_add:
  "fst (add_new_job ex_client ref_redis (ex_delayed ''k'' 5) (ex_server ''W'' Waiting None)) = Inr (ex_job ''j'')"
proof -
  have w: "cjson_decode ex_lib ''W'' = Some (ex_fields ''waiting'')" by (simp add: ex_lib_def)
  show ?thesis
    by (simp add: add_call [OF ex_encode] add_one_def add_unowned_def active_deduplicated_raw_def active_repeat_raw_def
        queue_add_entry_def ex_delayed_parts insert_added_def index_added_def announce_added_def text_or_def add_env_fields
        refresh_delay_marker_def w decode_add_job_result_def ex_steps)
qed

theorem redis_add_stores_witness:
  "map_of (ks_zset (snd (add_new_job ex_client ref_redis (ex_delayed ''k'' 5) (ex_server ''W'' Waiting None)))
      (state_key (cl_queue ex_client) Delayed)) ''k'' = Some (millis (cl_ext ex_client) 5)"
proof -
  have "ks_hash (ex_server ''W'' Waiting None) (jobs_key (cl_queue ex_client)) (j_id (ex_delayed ''k'' 5)) = None"
    by (simp add: ex_parts ex_server_def ex_delayed_parts)
  from redis_add_stores [OF ref_redis_ok this ex_delayed_parts(1,2) pair_of_fst [OF ex_add]]
  show ?thesis by (simp add: ex_delayed_parts)
qed

theorem redis_add_existing_witness:
  "add_new_job ex_client ref_redis (ex_job ''j'') (ex_server ''W'' Waiting None)
    = (Inr (ex_job ''j''), ex_server ''W'' Waiting None)"
proof -
  have "ks_hash (ex_server ''W'' Waiting None) (jobs_key (cl_queue ex_client)) (j_id (ex_job ''j'')) = Some ''W''"
    by (simp add: ex_parts ex_server_def ex_job_def job_new_def job_options_default_def Let_def)
  from redis_add_existing [OF ref_redis_ok this ex_encode]
  show ?thesis by (simp add: decode_job_def map_err_def normalize_lua_empty_array_def ex_parts)
qed

section \<open>Other jobs\<close>

lemma keeps_bind_if:
  assumes m: "keeps view (agree C) m"
    and yes: "(\<exists>s s'. m s = (Some True, s')) \<Longrightarrow> keeps view (agree C) a" and no: "keeps view (agree C) b"
  shows "keeps view (agree C) (sbind m (\<lambda>x. if x then a else b))"
proof (cases "\<exists>s s'. m s = (Some True, s')")
  case True
  then show ?thesis by (intro frame_rules m yes no)
next
  case False
  have "snd (sbind m (\<lambda>x. if x then a else b) s) = snd (sbind m (\<lambda>x. b) s)" for s
    using False by (auto simp: sbind_def split: prod.split option.split)
  moreover have "keeps view (agree C) (sbind m (\<lambda>x. b))" by (intro frame_rules m no)
  ultimately show ?thesis by (simp add: keeps_def)
qed

lemma can_replace_delayed:
  assumes "can_replace_deduplicated_owner candidate existing s = (Some True, s')"
  obtains kvs where "existing = JObject kvs" "map_of kvs ''state'' = Some (JString ''delayed'')"
  using assms
  by (auto simp: can_replace_deduplicated_owner_def scond_def state_is_def script_run lua_index_Some
      elim!: sbind_SomeE split: if_splits)

lemma keeps_against_owner:
  assumes ok: "redis_ok R view"
    and owner: "\<And>kvs. cjson_decode lib t = Some (JObject kvs) \<Longrightarrow> map_of kvs ''state'' = Some (JString ''delayed'') \<Longrightarrow>
      \<exists>e. map_of kvs ''id'' = Some (JString e) \<and> e \<noteq> i"
  shows "keeps view (agree (job_cell (cl_queue Z) i)) (against_owner R lib (queue_add_env Z) raw t)"
proof -
  let ?C = "job_cell (cl_queue Z) i"
  have replace: "keeps view (agree ?C) (replace_owner R lib (queue_add_env Z) candidate existing)"
    if "cjson_decode lib t = Some existing" "can_replace_deduplicated_owner candidate existing s = (Some True, s')"
    for candidate existing and s s' :: 'a
  proof -
    from that(2) obtain kvs where kvs: "existing = JObject kvs" "map_of kvs ''state'' = Some (JString ''delayed'')"
      by (rule can_replace_delayed)
    from owner that(1) kvs obtain e where e: "map_of kvs ''id'' = Some (JString e)" "e \<noteq> i" by blast
    have id_text: "field_text lib existing ''id'' = (sret e :: ('a, string) script)"
      by (rule ext) (simp add: field_text_def kvs e(1) script_run lua_text_def)
    have sret: "sbind (sret e) f = f e" for f :: "string \<Rightarrow> ('a, bool) script"
      by (rule ext) (simp add: script_run)
    have "replace_owner R lib (queue_add_env Z) candidate existing =
       sbind (sreply (r_zrem R (state_key (cl_queue Z) Delayed) e)) (\<lambda>removed.
       if removed = 0 then sret False
       else
       sbind (swrite (r_hdel R (jobs_key (cl_queue Z)) e)) (\<lambda>_.
       sbind (swrite (r_del R (logs_key_prefix (cl_queue Z) @ e))) (\<lambda>_.
       sbind (redis_emit_replaced_deduplicated_owner_events R lib (events_key (cl_queue Z))
         (ae_maxlen (queue_add_env Z)) candidate existing) (\<lambda>_.
       sret True))))"
      unfolding replace_owner_def add_env_fields id_text sret ..
    moreover have "CHash (jobs_key (cl_queue Z)) e \<notin> ?C" "CZset (state_key (cl_queue Z) Delayed) \<notin> ?C"
      using e(2) by (simp_all add: job_cell_def)
    ultimately show ?thesis
      by (simp only:) (intro adding_rules keeps_commands(6,9) [OF ok] keeps_commands_off [OF ok] off_job_cell
          keeps_add_parts [OF ok])
  qed
  show ?thesis
  proof (cases "cjson_decode lib t")
    case None
    then have "snd (against_owner R lib (queue_add_env Z) raw t s) = s" for s
      by (simp add: against_owner_def script_defs split: option.split)
    then show ?thesis by (rule agreeing.keeps_pure)
  next
    case (Some existing)
    have sget: "sbind (sget (Some existing)) f = f existing" for f :: "json \<Rightarrow> ('a, bool) script"
      by (rule ext) (simp add: script_run)
    show ?thesis
      unfolding against_owner_def Some sget add_env_fields
      by (intro adding_rules keeps_bind_if keeps_add_parts [OF ok]) (use replace [OF Some] in blast)
  qed
qed

lemma active_deduplicated_stored:
  assumes ok: "redis_ok R view"
    and "active_deduplicated_raw R lib jobs prefix d s = (Some (Some t), s')"
  shows "\<exists>e. ks_hash (view s) jobs e = Some t"
  using assms(2)
  by (auto simp: active_deduplicated_raw_def Let_def script_run redis_reads [OF ok]
      elim!: sbind_SomeE split: if_splits option.splits)



end
