(* ===== verification/Spec2Isabelle.thy ===== *)
theory Spec2Isabelle
  imports Host_Priority_Queue Job_Builders Job_Queue_Claim Job_Queue_Finish Job_Queue_Reading Job_Queue_Admission
    Lane_Drain Partition Local_Safety Worker_Safety Manager_Safety Storage_Safety Alerts Metrics
    Distributed_Queue Redis_Promotion Redis_Adding_Safety
begin

text \<open>
  A model of the queues of the repository: the lane scheduler that runs commands in memory
  (\<open>src/src/queue.rs\<close> and the modules it uses) and the job queue with leases, retries, flows
  and repeats (\<open>src/src/job/\<close>), with its in-memory and durable backends and its worker. Every
  definition is a translation of the code it names in the manifest; the theorems state what
  the code guarantees, and a few state what it does not.

  The job queue.
  \<^item> \<open>Job_Types\<close> (\<open>job/types.rs\<close>): jobs, options, events, pages, snapshots as records with the
    fields of the structs; validation, the repeat and retention rules, \<open>Job::new\<close>.
    \<open>Job_Builders\<close>: the builder methods and the options they can make.
  \<^item> \<open>Job_Queue_State\<close>, \<open>Job_Flow_Index\<close>, \<open>Job_Queue_Core\<close>, \<open>Job_Queue_Ops\<close>,
    \<open>Job_Queue_Flow_Ops\<close> (\<open>job/memory.rs\<close>): \<open>qstate\<close> is \<open>InMemoryJobQueueState\<close>; one definition
    per method, from \<open>qstate\<close> to a result and the state it leaves, errors included. A method
    holds the queue's lock for its whole body, so a method is one step.
  \<^item> \<open>Job_Queue_Effects\<close>, \<open>Job_Queue_Refine\<close>, \<open>Job_Queue_Steps\<close>: the invariant \<open>q_inv\<close>, the abstract
    specification (\<open>effect\<close>: the lifecycle of a job, insertions, removals and edits of the log,
    counters, indexes and slots), the refinement of every method into effects, and
    \<open>reachable\<close>, the states any sequence of methods leads to.
  \<^item> \<open>Job_Flow_Walk\<close>, \<open>Job_Queue_Claim\<close>, \<open>Job_Queue_Finish\<close>, \<open>Job_Queue_Reading\<close>,
    \<open>Job_Queue_Admission\<close>: the properties of claiming, finishing, recovering, flows, reading,
    snapshots, adding and removing.
  \<^item> \<open>Local_Queue\<close>, \<open>Local_Safety\<close> (\<open>job/local.rs\<close>): the durable queue, an in-memory queue with a
    snapshot file and a temporary file. A \<open>disk_fault\<close> says which filesystem call of an
    operation fails. Durability, atomicity of the file, and the race of two concurrent calls.
  \<^item> \<open>Job_Backend\<close> (\<open>job/backend.rs\<close>): the trait as a record of its operations, its default
    methods, and the locale \<open>lease_backend\<close> with the laws of leases, interpreted on the in-memory
    and on the durable queue. \<open>Job_Worker\<close>, \<open>Worker_Safety\<close> (\<open>job/worker.rs\<close>): the worker over any
    backend, and what it guarantees on a lawful one.

  The Redis backend (\<open>job/redis.rs\<close>): a client in Rust whose decisions are Lua scripts that the
  server runs as one step each.
  \<^item> \<open>Redis_Replies\<close>, \<open>Redis_Reports\<close>: the decoders of replies, as functions of the reply; what they
    refuse and what they read back. \<open>Redis_Keys\<close>: the keys of a queue, which never collide.
    \<open>Redis_Scores\<close>, \<open>Redis_Calendar\<close>: the scores of the waiting index in double arithmetic, and the
    scripts' own calendar with its round trip.
  \<^item> \<open>Redis_Server\<close>: the commands as a record \<open>'s redis\<close> of operations on an abstract server, with
    their documented effect on a \<open>keyspace\<close> as the laws \<open>redis_ok\<close>; \<open>cjson\<close> and Lua's number texts as
    \<open>lua_lib\<close>, serde as \<open>redis_codec\<close>; scripts as functions from the server to a reply, \<open>None\<close> for a
    raised error, and the server.
  \<^item> \<open>Redis_Scripts\<close> (claiming), \<open>Redis_Leases\<close> (renewing, delaying, releasing, promoting,
    rescheduling, reordering, limits), \<open>Redis_Editing\<close> (data, logs, states, counts, pausing,
    deduplication), \<open>Redis_Finish\<close>, \<open>Redis_Complete\<close>, \<open>Redis_Outcome\<close> (completing and failing, with
    retention, successors and parents), \<open>Redis_Recovery\<close> (stalled jobs), \<open>Redis_Adding\<close> (one job or
    many, with deduplication and repetition): one definition per script and per Lua function.
    \<open>Redis_Client\<close> and the last three: the methods of \<open>RedisJobQueue\<close> that call them.
  \<^item> \<open>Redis_Frames\<close>, \<open>Redis_Finished\<close>: which cells of the keyspace a script can change, and the server
    \<open>ref_redis\<close>, which satisfies the laws; \<open>Redis_Safety\<close>, \<open>Redis_Guarantees\<close>,
    \<open>Redis_Outcome_Safety\<close>: leases, claims, releases, completions and failures on any lawful server;
    \<open>Redis_Witnesses\<close>, \<open>Redis_Outcome_Witnesses\<close>: these at concrete inputs. \<open>Redis_Recovery_Safety\<close>:
    what recovery leaves alone and what it queues again; \<open>Redis_Adding_Safety\<close>: what adding stores and
    what it leaves alone; \<open>Redis_Promotion\<close>: promotion of due jobs ends.

  The lane scheduler.
  \<^item> \<open>Lane_Error\<close> (\<open>error.rs\<close>), \<open>Retry_Policy\<close> (\<open>retry.rs\<close>, on the doubles of \<open>Float64\<close>),
    \<open>Host_Priority_Queue\<close> (\<open>priority_queue.rs\<close>), \<open>Dead_Letter_Queue\<close> (\<open>dlq.rs\<close>), \<open>Rate_Limit\<close>
    (\<open>ratelimit.rs\<close>), \<open>Priority_Boost\<close> (\<open>boost.rs\<close>), \<open>Partition\<close> (\<open>partition.rs\<close>): the components,
    each with its own properties.
  \<^item> \<open>Lane_Types\<close>, \<open>Lane_Queue\<close> (\<open>config.rs\<close>, \<open>event.rs\<close>, \<open>queue.rs\<close>): lanes are addresses of
    an explicit store, as they are shared behind \<open>Arc\<close>; \<open>Lane_Steps\<close> is the transition relation
    of the scheduler, its tasks and its callers, \<open>Lane_Runs\<close> its runs with the operations as
    sequences of steps; \<open>Lane_Invariant\<close>, \<open>Lane_Safety\<close>, \<open>Lane_Schedule\<close> and \<open>Lane_Drain\<close> hold the
    invariant, what is never violated, what a scheduling pass chooses, and termination.
  \<^item> \<open>Queue_Manager\<close> (\<open>manager.rs\<close>, \<open>monitor.rs\<close>, the constants of \<open>lib.rs\<close>): the builder, the
    facade over the scheduler, \<open>drain\<close> as the polls of its future, the monitor's health check;
    \<open>Manager_Safety\<close>: what a built queue holds, what an answered drain means.
  \<^item> \<open>Command_Storage\<close> (\<open>storage.rs\<close>): \<open>LocalStorage\<close> with its two files; \<open>Storage_Safety\<close>: the
    locale \<open>command_store\<close>, the contract of the trait \<open>Storage\<close>, interpreted on it, and restarts.
  \<^item> \<open>Alerts\<close> (\<open>alerts.rs\<close>), \<open>Metrics\<close> (\<open>metrics.rs\<close>, over the order of doubles in
    \<open>Float64_Order\<close>), \<open>Distributed_Queue\<close> (\<open>distributed.rs\<close>: partition channels and the
    worker pool as a transition relation).

  Parameters. What the repository takes from elsewhere is an argument: \<open>externals\<close> (\<open>Job_Types\<close>)
  holds chrono's checked date arithmetic, the cron parser, the last place of \<open>f64::powi\<close> and the
  iteration order of hash maps (an arbitrary rank, so nothing proved depends on an order); clock
  readings and fresh UUIDs are arguments of the operation that draws them; the hash function of a
  partitioner, the JSON codecs of the files, the order a sort gives to NaNs, the printing of a
  double and a command's \<open>execute\<close> are functions or results chosen by the
  environment. Instants and durations are whole nanoseconds; counters have the width of the code
  (\<open>u8\<close>, \<open>u32\<close>, \<open>u64\<close>, \<open>isize\<close>) where they can saturate or wrap.

  Bounds. \<open>collect_removable\<close>, the walk over unprocessed descendants, visits an id at most once
  (the code's visited set) and takes as fuel the number of retained jobs; \<open>Job_Flow_Walk\<close> proves
  one unit per retained job to be enough, also for cyclic child lists. \<open>promote_batches\<close>, the
  client's loop over batches of due jobs, takes the number of batches it may ask for as fuel and
  has no result when that is used up; \<open>Redis_Promotion\<close> proves one batch more than there are delayed
  jobs to be enough. All other loops are recursions over
  finite lists.

  Granularity of the lane steps. The work of a finished execution (events, storage, dead letter,
  result) is one step, as no other task reads in between what it writes; the retry event goes
  with the hand-over of the command to its backoff task; \<open>queue_is_idle\<close> is read in one step;
  a scheduling pass takes one clock reading. Submission and scheduling are split where they release
  a lock, so submissions, executions, retries and shutdown interleave in any order.

  Not modelled: of the Redis backend, the scripts that add flows, upsert repeats, retry, remove,
  clean, drain, obliterate and list, the reading of flows, the listing of repeats, the
  event stream, the blocking wait for a marker, and the connection; \<open>telemetry.rs\<close> (calls of
  OpenTelemetry); the broadcast channel of events and its streams (emitted events are a list);
  sleeping, spawning and joining of tasks; logging.
\<close>

section \<open>The in-memory job queue as a whole\<close>

text \<open>
  C1. In every state an in-memory queue can reach from the empty one by any sequence of its
  public operations, successful or not, the invariant holds: a job is leased exactly while it
  is active and finished exactly in a terminal state, ids, sequence numbers, dependency
  indexes and deduplication slots are consistent, and the event log is bounded and
  numbered without gaps.
\<close>

theorem reachable_queue_invariant: "reachable ext s \<Longrightarrow> q_inv s"
  by (rule q_inv_reachable)

theorem reachable_queue_invariant_witness:
  "q_inv (snd (claim_next ex_ext ''w'' ''t'' 5 1
     (snd (add_at ex_ext ''q'' ''work'' JNull job_options_default ''a'' 0 qstate_default))))"
  by (rule reachable_queue_invariant [of ex_ext], rule reachable.Step, rule reachable.Step,
      rule reachable.Start, rule op_step.Add, rule op_step.Claim)



end
